(* ===== verification/Prelude.thy ===== *)
theory Prelude
  imports Main "HOL-Library.Word" "HOL-Library.Char_ord" "HOL-Library.List_Lexorder"
begin

text \<open>
  Shared vocabulary of the development.  Go's \<open>byte\<close>, \<open>uint16\<close>, \<open>uint32\<close> and \<open>uint64\<close> are
  words of that width; a Go \<open>string\<close>, and a \<open>[]byte\<close> that carries protocol text, is a HOL
  \<open>string\<close> (a HOL \<open>char\<close> is exactly one byte); a \<open>[]byte\<close> that carries binary data is a
  \<open>byte list\<close>.  The theory models the parts of Go's standard library the sources call:
  the verb \<open>%0wX\<close> of \<open>fmt.Sprintf\<close>, \<open>strconv.ParseUint(_, 16, bits)\<close>, \<open>hex.EncodeToString\<close> /
  \<open>hex.DecodeString\<close>, \<open>bytes.TrimSuffix\<close> for one byte, and the little- and big-endian accessors
  of \<open>encoding/binary\<close>, each with its round trip.
\<close>

unbundle bit_operations_syntax

type_synonym byte = "8 word"
type_synonym u16 = "16 word"
type_synonym u32 = "32 word"
type_synonym u64 = "64 word"

named_theorems wire_simps \<open>lengths and round trips of the wire encodings\<close>

section \<open>Time\<close>

text \<open>
  A \<open>time.Time\<close> is its distance from the Unix epoch in nanoseconds, a \<open>time.Duration\<close> a number
  of nanoseconds; \<open>zero_time\<close> is Go's zero time, the one \<open>IsZero\<close> recognises.
\<close>

type_synonym gotime = int

definition zero_time :: gotime where
  "zero_time = - 62135596800 * 1000000000"

definition second :: int where
  "second = 1000000000"

section \<open>Go maps with an iteration order\<close>

text \<open>
  A Go map that the code ranges over is an association list with distinct keys: its order
  stands for the arbitrary order of the iteration.
\<close>

definition amap_put :: "'k \<Rightarrow> 'v \<Rightarrow> ('k \<times> 'v) list \<Rightarrow> ('k \<times> 'v) list" where
  "amap_put k v m = (k, v) # filter (\<lambda>e. fst e \<noteq> k) m"

definition amap_delete :: "'k \<Rightarrow> ('k \<times> 'v) list \<Rightarrow> ('k \<times> 'v) list" where
  "amap_delete k m = filter (\<lambda>e. fst e \<noteq> k) m"

lemma map_of_filter_key: "map_of (filter (\<lambda>e. fst e \<noteq> k) m) j = (if j = k then None else map_of m j)"
  by (induction m) auto

lemma map_of_amap_put [simp]: "map_of (amap_put k v m) = (map_of m)(k \<mapsto> v)"
  by (auto simp: amap_put_def map_of_filter_key)

lemma map_of_amap_delete [simp]: "map_of (amap_delete k m) = (map_of m)(k := None)"
  by (auto simp: amap_delete_def map_of_filter_key)

lemma distinct_filter_keys: "distinct (map fst m) \<Longrightarrow> distinct (map fst (filter P m))"
  by (induction m) auto

lemma distinct_amap [intro]:
  "distinct (map fst m) \<Longrightarrow> distinct (map fst (amap_put k v m))"
  "distinct (map fst m) \<Longrightarrow> distinct (map fst (amap_delete k m))"
  by (auto simp: amap_put_def amap_delete_def distinct_filter_keys)

lemma map_of_filter_value:
  "distinct (map fst m) \<Longrightarrow>
   map_of (filter (\<lambda>e. P (snd e)) m) k = (case map_of m k of None \<Rightarrow> None | Some v \<Rightarrow> if P v then Some v else None)"
proof (induction m)
  case (Cons e m)
  obtain j v where e: "e = (j, v)" by force
  have "map_of m j = None" using Cons.prems e by (simp add: map_of_eq_None_iff)
  moreover have "j \<notin> fst ` set (filter (\<lambda>e. P (snd e)) m)" using Cons.prems e by auto
  then have "map_of (filter (\<lambda>e. P (snd e)) m) j = None" by (simp only: map_of_eq_None_iff not_False_eq_True)
  ultimately show ?case using Cons e by auto
qed simp

section \<open>Lists\<close>

lemma unat_word_bound: "unat (x :: 'a::len word) < 2 ^ LENGTH('a)"
  by (rule unsigned_less)

lemma unat_byte_bound: "unat (x :: byte) < 256"
  using unat_word_bound [of x] by simp

lemma unat_ucast_up:
  "LENGTH('a) \<le> LENGTH('b) \<Longrightarrow> unat (ucast (x :: 'a::len word) :: 'b::len word) = unat x"
  by (simp add: unsigned_ucast_eq take_bit_nat_eq_self
      order_less_le_trans [OF unat_word_bound power_increasing])

lemma ucast_up_down:
  "LENGTH('a) \<le> LENGTH('b) \<Longrightarrow> (ucast (ucast (x :: 'a::len word) :: 'b::len word) :: 'a word) = x"
  by (rule bit_word_eqI) (simp add: bit_ucast_iff)

lemma take_append_len [simp]: "length xs = n \<Longrightarrow> take n (xs @ ys) = xs"
  by simp

lemma drop_append_len [simp]: "length xs = n \<Longrightarrow> drop n (xs @ ys) = ys"
  by simp

lemma set_take_drop: "x \<in> set (take n xs) \<Longrightarrow> x \<in> set xs" "x \<in> set (drop n xs) \<Longrightarrow> x \<in> set xs"
  by (auto dest: in_set_takeD in_set_dropD)

text \<open>\<open>bytes.TrimSuffix(raw, []byte{c})\<close>: one trailing byte is removed, when it is there.\<close>

definition trim_suffix1 :: "char \<Rightarrow> string \<Rightarrow> string" where
  "trim_suffix1 c s = (if s \<noteq> [] \<and> last s = c then butlast s else s)"

lemma trim_suffix1_snoc [simp]: "trim_suffix1 c (s @ [c]) = s"
  by (simp add: trim_suffix1_def)

lemma trim_suffix1_other: "last s \<noteq> c \<Longrightarrow> trim_suffix1 c s = s"
  by (simp add: trim_suffix1_def)

section \<open>Results\<close>

text \<open>A fallible Go function returns \<open>error + value\<close>; \<open>res_bind\<close> is the early return on error.\<close>

definition res_bind :: "'e + 'a \<Rightarrow> ('a \<Rightarrow> 'e + 'b) \<Rightarrow> 'e + 'b" where
  "res_bind r f = (case r of Inl e \<Rightarrow> Inl e | Inr a \<Rightarrow> f a)"

lemma res_bind_simps [simp]: "res_bind (Inl e) f = Inl e" "res_bind (Inr a) f = f a"
  by (simp_all add: res_bind_def)

lemma res_bind_eq_Inr: "res_bind r f = Inr b \<longleftrightarrow> (\<exists>a. r = Inr a \<and> f a = Inr b)"
  by (cases r) auto

section \<open>Hexadecimal text\<close>

definition hex_digit :: "nat \<Rightarrow> char" where
  "hex_digit d = (if d < 10 then char_of (48 + d) else char_of (55 + d))"

fun hexU :: "nat \<Rightarrow> string" where
  "hexU n = (if n < 16 then [hex_digit n] else hexU (n div 16) @ [hex_digit (n mod 16)])"

declare hexU.simps [simp del]

definition pad0 :: "nat \<Rightarrow> string \<Rightarrow> string" where
  "pad0 w s = replicate (w - length s) (CHR ''0'') @ s"

text \<open>
  The verb \<open>%0wX\<close> on a signed integer: at least \<open>w\<close> characters, wider values are printed in
  full, and a negative value prints its sign and pads the rest (Go leaves room for the sign).
\<close>

definition fmtX :: "nat \<Rightarrow> int \<Rightarrow> string" where
  "fmtX w i =
     (if i < 0 then CHR ''-'' # pad0 (w - 1) (hexU (nat (- i)))
      else pad0 w (hexU (nat i)))"

text \<open>The fixed-width rendering that \<open>fmtX\<close> agrees with on values that fit.\<close>

fun hexN :: "nat \<Rightarrow> nat \<Rightarrow> string" where
  "hexN 0 n = []"
| "hexN (Suc w) n = hexN w (n div 16) @ [hex_digit (n mod 16)]"

lemma length_hexN [simp, wire_simps]: "length (hexN w n) = w"
  by (induction w arbitrary: n) auto

lemma hexN_zero: "hexN w 0 = replicate w (CHR ''0'')"
proof (induction w)
  case (Suc w)
  have "hex_digit 0 = CHR ''0''" by code_simp
  with Suc show ?case by (simp add: replicate_append_same)
qed simp

lemma hexU_length: "n < 16 ^ w \<Longrightarrow> 0 < w \<Longrightarrow> length (hexU n) \<le> w"
proof (induction n arbitrary: w rule: hexU.induct)
  case (1 n)
  show ?case
  proof (cases "n < 16")
    case True
    with 1 show ?thesis by (simp add: hexU.simps [of n])
  next
    case False
    with 1 obtain v where v: "w = Suc v" "0 < v"
      by (cases w; cases "w = 1") (auto simp: gr0_conv_Suc)
    then have "n div 16 < 16 ^ v"
      using 1(2) by (auto simp: less_mult_imp_div_less mult.commute)
    with 1(1) False v show ?thesis by (simp add: hexU.simps [of n])
  qed
qed

lemma pad0_snoc: "pad0 (Suc w) (s @ [c]) = pad0 w s @ [c]"
  by (simp add: pad0_def)

lemma pad0_hexU: "n < 16 ^ w \<Longrightarrow> 0 < w \<Longrightarrow> pad0 w (hexU n) = hexN w n"
proof (induction n arbitrary: w rule: hexU.induct)
  case (1 n)
  then obtain v where v: "w = Suc v" by (auto simp: gr0_conv_Suc)
  show ?case
  proof (cases "n < 16")
    case True
    then show ?thesis
      by (simp add: hexU.simps [of n] v pad0_def hexN_zero)
  next
    case False
    with 1(2) v have "0 < v" by (cases v) auto
    moreover have "n div 16 < 16 ^ v"
      using 1(2) v by (auto simp: less_mult_imp_div_less mult.commute)
    ultimately have "pad0 v (hexU (n div 16)) = hexN v (n div 16)"
      using 1(1) False by blast
    with False show ?thesis by (simp add: hexU.simps [of n] v pad0_snoc)
  qed
qed

lemma fmtX_fixed: "0 \<le> i \<Longrightarrow> i < 16 ^ w \<Longrightarrow> 0 < w \<Longrightarrow> fmtX w i = hexN w (nat i)"
proof -
  assume a: "0 \<le> i" "i < 16 ^ w" "0 < w"
  then have "nat i < 16 ^ w" by (simp add: nat_less_iff)
  with a show ?thesis by (simp add: fmtX_def pad0_hexU)
qed

lemma fmtX_word:
  fixes x :: "'a::len word"
  assumes "LENGTH('a) \<le> 4 * w" and "0 < w"
  shows "fmtX w (uint x) = hexN w (unat x)"
proof -
  have "uint x < 2 ^ LENGTH('a)" by simp
  also have "(2::int) ^ LENGTH('a) \<le> 2 ^ (4 * w)"
    using assms(1) by (intro power_increasing) auto
  also have "(2::int) ^ (4 * w) = 16 ^ w" by (simp add: power_mult)
  finally have "fmtX w (uint x) = hexN w (nat (uint x))"
    using assms(2) by (intro fmtX_fixed) simp_all
  then show ?thesis by (simp only: unat_eq_nat_uint)
qed

lemma fmtX_u8: "fmtX 2 (uint (b :: byte)) = hexN 2 (unat b)"
  by (rule fmtX_word) auto

lemma fmtX_u16: "fmtX 4 (uint (x :: u16)) = hexN 4 (unat x)"
  by (rule fmtX_word) auto

lemma fmtX_u32: "fmtX 8 (uint (x :: u32)) = hexN 8 (unat x)"
  by (rule fmtX_word) auto

lemmas fmtX_words [wire_simps] = fmtX_u8 fmtX_u16 fmtX_u32

section \<open>strconv.ParseUint in base 16\<close>

definition hex_val :: "char \<Rightarrow> nat option" where
  "hex_val c =
     (let n = of_char c :: nat in
      if 48 \<le> n \<and> n \<le> 57 then Some (n - 48)
      else if 97 \<le> n \<and> n \<le> 102 then Some (n - 87)
      else if 65 \<le> n \<and> n \<le> 70 then Some (n - 55)
      else None)"

datatype num_err = NumSyntax | NumRange

fun parse_hex_loop :: "nat \<Rightarrow> nat \<Rightarrow> string \<Rightarrow> num_err + nat" where
  "parse_hex_loop maxv n [] = Inr n"
| "parse_hex_loop maxv n (c # cs) =
     (case hex_val c of
        None \<Rightarrow> Inl NumSyntax
      | Some d \<Rightarrow>
          (let n1 = n * 16 + d in
           if maxv < n1 then Inl NumRange else parse_hex_loop maxv n1 cs))"

definition ParseUint :: "string \<Rightarrow> nat \<Rightarrow> num_err + nat" where
  "ParseUint s bits = (if s = [] then Inl NumSyntax else parse_hex_loop (2 ^ bits - 1) 0 s)"

lemma hex_val_digit [simp]: "d < 16 \<Longrightarrow> hex_val (hex_digit d) = Some d"
  by (auto simp: hex_val_def hex_digit_def Let_def of_char_of)

lemma parse_hex_loop_append:
  "parse_hex_loop m n (s @ t) = res_bind (parse_hex_loop m n s) (\<lambda>k. parse_hex_loop m k t)"
  by (induction s arbitrary: n) (auto simp: Let_def split: option.splits)

lemma parse_hex_loop_hexN:
  "n < 16 ^ w \<Longrightarrow> n \<le> m \<Longrightarrow> parse_hex_loop m 0 (hexN w n) = Inr n"
proof (induction w arbitrary: n)
  case (Suc w)
  have "n div 16 < 16 ^ w"
    using Suc.prems by (auto simp: less_mult_imp_div_less mult.commute)
  moreover have "n div 16 \<le> m" using Suc.prems by (meson div_le_dividend le_trans)
  ultimately have "parse_hex_loop m 0 (hexN w (n div 16)) = Inr (n div 16)" by (rule Suc.IH)
  with Suc.prems show ?case by (simp add: parse_hex_loop_append)
qed simp

lemma ParseUint_hexN [wire_simps]:
  assumes "n < 16 ^ w" and "n < 2 ^ bits" and "0 < w"
  shows "ParseUint (hexN w n) bits = Inr n"
proof -
  have "hexN w n \<noteq> []" using assms(3) by (metis length_hexN list.size(3) less_irrefl)
  with assms show ?thesis by (simp add: ParseUint_def parse_hex_loop_hexN)
qed

lemma ParseUint_hexN_u8 [wire_simps]: "ParseUint (hexN 2 (unat (b :: byte))) 8 = Inr (unat b)"
  using unat_word_bound [of b] by (intro ParseUint_hexN) auto

lemma ParseUint_hexN_u16 [wire_simps]: "ParseUint (hexN 4 (unat (x :: u16))) 16 = Inr (unat x)"
  using unat_word_bound [of x] by (intro ParseUint_hexN) auto

lemma ParseUint_hexN_u32 [wire_simps]: "ParseUint (hexN 8 (unat (x :: u32))) 32 = Inr (unat x)"
  using unat_word_bound [of x] by (intro ParseUint_hexN) auto

lemma parse_hex_loop_bound: "parse_hex_loop m n s = Inr k \<Longrightarrow> n \<le> m \<Longrightarrow> k \<le> m"
  by (induction s arbitrary: n) (auto simp: Let_def split: option.splits if_splits)

lemma ParseUint_bound: "ParseUint s bits = Inr k \<Longrightarrow> k < 2 ^ bits"
proof -
  assume "ParseUint s bits = Inr k"
  then have "parse_hex_loop (2 ^ bits - 1) 0 s = Inr k"
    by (auto simp: ParseUint_def split: if_splits)
  then have "k \<le> 2 ^ bits - 1" by (rule parse_hex_loop_bound) simp
  then show ?thesis by (simp add: Nat.le_diff_conv2)
qed

lemma hex_digit_set: "d < 16 \<Longrightarrow> hex_digit d \<in> set ''0123456789ABCDEF''"
proof -
  assume "d < 16"
  then have "d \<in> set [0..<16]" by simp
  moreover have "list_all (\<lambda>d. hex_digit d \<in> set ''0123456789ABCDEF'') [0..<16]"
    by code_simp
  ultimately show ?thesis by (simp add: list_all_iff del: set_upt)
qed

lemma set_hexN: "set (hexN w n) \<subseteq> set ''0123456789ABCDEF''"
proof (induction w arbitrary: n)
  case (Suc w)
  have "hex_digit (n mod 16) \<in> set ''0123456789ABCDEF''" by (rule hex_digit_set) simp
  with Suc show ?case by (simp del: list.set(2)) simp
qed simp

section \<open>encoding/hex\<close>

text \<open>\<open>strings.ToUpper(hex.EncodeToString(data))\<close>: two upper-case digits per byte.\<close>

definition hex_encode :: "byte list \<Rightarrow> string" where
  "hex_encode bs = concat (map (\<lambda>b. hexN 2 (unat b)) bs)"

text \<open>
  \<open>hex.DecodeString\<close>: pairs of digits; an invalid digit is reported before an odd length.
\<close>

datatype hex_err = HexInvalidByte | HexOddLength

fun hex_decode :: "string \<Rightarrow> hex_err + byte list" where
  "hex_decode [] = Inr []"
| "hex_decode [c] = (if hex_val c = None then Inl HexInvalidByte else Inl HexOddLength)"
| "hex_decode (c # d # s) =
     (case hex_val c of
        None \<Rightarrow> Inl HexInvalidByte
      | Some a \<Rightarrow>
          (case hex_val d of
             None \<Rightarrow> Inl HexInvalidByte
           | Some b \<Rightarrow> res_bind (hex_decode s) (\<lambda>r. Inr (of_nat (16 * a + b) # r))))"

lemma hexN_2: "hexN 2 n = [hex_digit (n div 16 mod 16), hex_digit (n mod 16)]"
  by (simp add: numeral_2_eq_2)

lemma length_hex_encode [simp, wire_simps]: "length (hex_encode bs) = 2 * length bs"
  by (induction bs) (auto simp: hex_encode_def)

lemma hex_decode_encode [simp, wire_simps]: "hex_decode (hex_encode bs) = Inr bs"
proof (induction bs)
  case (Cons b bs)
  have "unat b div 16 < 16"
    using unat_word_bound [of b] by (auto simp: less_mult_imp_div_less)
  then have "16 * (unat b div 16 mod 16) + unat b mod 16 = unat b" by simp
  with Cons show ?case
    by (simp add: hex_encode_def hexN_2 del: div_mod_decomp)
qed (simp add: hex_encode_def)

section \<open>encoding/binary\<close>

fun le_put :: "nat \<Rightarrow> 'a::len word \<Rightarrow> byte list" where
  "le_put 0 w = []"
| "le_put (Suc n) w = ucast w # le_put n (drop_bit 8 w)"

fun le_get :: "byte list \<Rightarrow> 'a::len word" where
  "le_get [] = 0"
| "le_get (b # bs) = ucast b OR push_bit 8 (le_get bs)"

definition be_put :: "nat \<Rightarrow> 'a::len word \<Rightarrow> byte list" where
  "be_put n w = rev (le_put n w)"

definition be_get :: "byte list \<Rightarrow> 'a::len word" where
  "be_get bs = le_get (rev bs)"

lemma length_le_put [simp, wire_simps]: "length (le_put n w) = n"
  by (induction n arbitrary: w) auto

lemma length_be_put [simp, wire_simps]: "length (be_put n w) = n"
  by (simp add: be_put_def)

lemma bit_le_get:
  "bit (le_get bs :: 'a::len word) k \<longleftrightarrow>
     k < LENGTH('a) \<and> k div 8 < length bs \<and> bit (bs ! (k div 8)) (k mod 8)"
proof (induction bs arbitrary: k)
  case (Cons b bs)
  show ?case
  proof (cases "k < 8")
    case True
    then show ?thesis
      by (auto simp: bit_simps)
  next
    case False
    then have e: "k div 8 = Suc ((k - 8) div 8)" "k mod 8 = (k - 8) mod 8"
      by (simp_all add: le_div_geq le_mod_geq)
    have "\<not> bit (ucast b :: 'a word) k"
      using False by (auto simp: bit_simps dest: bit_imp_le_length)
    moreover have "bit (push_bit 8 (le_get bs :: 'a word)) k \<longleftrightarrow>
        k < LENGTH('a) \<and> bit (le_get bs :: 'a word) (k - 8)"
      using False by (auto simp: bit_simps)
    ultimately show ?thesis
      using False unfolding le_get.simps bit_or_iff Cons.IH e nth_Cons_Suc length_Cons by auto
  qed
qed simp

lemma nth_le_put: "i < n \<Longrightarrow> le_put n w ! i = ucast (drop_bit (8 * i) w)"
proof (induction n arbitrary: w i)
  case (Suc n)
  then show ?case by (cases i) (auto simp: add.commute)
qed simp

lemma le_get_put:
  fixes w :: "'a::len word"
  assumes "LENGTH('a) \<le> 8 * n"
  shows "le_get (le_put n w) = w"
proof (rule bit_word_eqI)
  fix k assume k: "k < LENGTH('a)"
  then have d: "k div 8 < n" using assms by (simp add: div_less_iff_less_mult mult.commute)
  have "8 * (k div 8) + k mod 8 = k" by simp
  with d k show "bit (le_get (le_put n w) :: 'a word) k = bit w k"
    by (simp add: bit_le_get nth_le_put bit_simps del: mult_div_mod_eq)
qed

lemma le_get_put_u16 [simp, wire_simps]: "le_get (le_put 2 (w :: u16)) = w"
  by (rule le_get_put) simp

lemma le_get_put_u32 [simp, wire_simps]: "le_get (le_put 4 (w :: u32)) = w"
  by (rule le_get_put) simp

lemma le_get_put_u64 [simp, wire_simps]: "le_get (le_put 8 (w :: u64)) = w"
  by (rule le_get_put) simp

lemma be_get_put_u16 [simp, wire_simps]: "be_get (be_put 2 (w :: u16)) = w"
  by (simp add: be_get_def be_put_def)

lemma be_get_put_u32 [simp, wire_simps]: "be_get (be_put 4 (w :: u32)) = w"
  by (simp add: be_get_def be_put_def)

lemma le_put_get:
  assumes "8 * length bs \<le> LENGTH('a::len)"
  shows "le_put (length bs) (le_get bs :: 'a word) = bs"
proof (rule nth_equalityI)
  fix i assume "i < length (le_put (length bs) (le_get bs :: 'a word))"
  then have i: "i < length bs" by simp
  show "le_put (length bs) (le_get bs :: 'a word) ! i = bs ! i"
  proof (rule bit_word_eqI)
    fix k assume "k < LENGTH(8)"
    then have k: "k < 8" by simp
    then have "8 * i + k < 8 * length bs" using i by linarith
    with assms k i show "bit (le_put (length bs) (le_get bs :: 'a word) ! i) k = bit (bs ! i) k"
      by (simp add: nth_le_put bit_simps bit_le_get)
  qed
qed simp

end
