(* ===== verification/Crc.thy ===== *)
theory Crc
  imports Prelude
begin

text \<open>
  The frame checksum of \<open>mecom/protocol.go\<close> (\<open>CRC16\<close>): the CRC-16-CCITT shift register over
  the bytes of a frame.  The register step is linear and injective, which gives the detection
  property the protocol relies on: no corruption confined to two adjacent bytes keeps the
  checksum.
\<close>

definition crc_poly :: u16 where
  "crc_poly = 0x1021"

text \<open>One iteration of the inner bit loop.\<close>

definition crc_shift :: "u16 \<Rightarrow> u16" where
  "crc_shift crc =
     (if crc AND 0x8000 \<noteq> 0 then push_bit 1 crc XOR crc_poly else push_bit 1 crc)"

text \<open>One iteration of the outer loop: the byte enters the high half, then eight shifts.\<close>

definition crc_byte :: "u16 \<Rightarrow> char \<Rightarrow> u16" where
  "crc_byte crc b = (crc_shift ^^ 8) (crc XOR push_bit 8 (of_nat (of_char b)))"

definition CRC16 :: "string \<Rightarrow> u16" where
  "CRC16 data = foldl crc_byte 0 data"

lemma CRC16_append: "CRC16 (xs @ ys) = foldl crc_byte (CRC16 xs) ys"
  by (simp add: CRC16_def)

section \<open>The register step is linear and injective\<close>

lemma top_bit_iff: "c AND 0x8000 \<noteq> 0 \<longleftrightarrow> bit (c :: u16) 15"
proof -
  have "(0x8000 :: u16) = 2 ^ 15" by simp
  then show ?thesis by (simp only: and_exp_eq_0_iff_not_bit not_not)
qed

lemma bit_push1: "bit (push_bit (Suc 0) (a :: u16)) k \<longleftrightarrow> 0 < k \<and> k < 16 \<and> bit a (k - 1)"
  by (simp only: bit_push_bit_iff possible_bit_word) auto

lemma xor_swap:
  fixes a b c d :: "'a::len word"
  assumes "a XOR b = c XOR d"
  shows "a XOR c = b XOR d"
  using assms by (auto simp: bit_eq_iff bit_xor_iff)

lemma crc_shift_bit: "crc_shift c = (if bit c 15 then push_bit (Suc 0) c XOR crc_poly else push_bit (Suc 0) c)"
  by (simp only: crc_shift_def top_bit_iff One_nat_def)

lemma crc_shift_0 [simp]: "crc_shift 0 = 0"
  by (simp add: crc_shift_def)

lemma crc_shift_xor: "crc_shift (a XOR b) = crc_shift a XOR crc_shift b"
proof -
  have "push_bit (Suc 0) (a XOR b) = push_bit (Suc 0) a XOR push_bit (Suc 0) b" by (rule push_bit_xor)
  then show ?thesis
    unfolding crc_shift_bit bit_xor_iff by (cases "bit a 15"; cases "bit b 15") (simp_all add: ac_simps)
qed

lemma crc_shift_eq_0: "crc_shift a = 0 \<Longrightarrow> a = 0"
proof (cases "bit a 15")
  case True
  assume "crc_shift a = 0"
  with True have "push_bit (Suc 0) a XOR crc_poly = 0" by (simp add: crc_shift_bit)
  then have "bit (push_bit (Suc 0) a XOR crc_poly) 0 = False" by simp
  then have "bit (push_bit (Suc 0) a) 0 \<longleftrightarrow> bit crc_poly 0" by (auto simp only: bit_xor_iff)
  moreover have "bit crc_poly 0" by (simp add: crc_poly_def)
  ultimately show ?thesis by (simp only: bit_push1) simp
next
  case False
  assume "crc_shift a = 0"
  with False have p: "push_bit (Suc 0) a = 0" by (simp add: crc_shift_bit)
  show ?thesis
  proof (rule bit_word_eqI)
    fix k assume k: "k < LENGTH(16)"
    show "bit a k = bit 0 k"
    proof (cases "k = 15")
      case True
      with False show ?thesis by simp
    next
      case neq: False
      have "bit (push_bit (Suc 0) a) (Suc k) = bit a k" using k neq by (simp only: bit_push1) auto
      with p show ?thesis by simp
    qed
  qed
qed

lemma crc_shift_pow_xor: "(crc_shift ^^ n) (a XOR b) = (crc_shift ^^ n) a XOR (crc_shift ^^ n) b"
  by (induction n) (auto simp: crc_shift_xor)

lemma crc_shift_pow_eq_0: "(crc_shift ^^ n) a = 0 \<Longrightarrow> a = 0"
  by (induction n) (auto dest: crc_shift_eq_0)

lemma xor_eq_0_iff: "(a :: 'a::len word) XOR b = 0 \<longleftrightarrow> a = b"
  by (auto simp: bit_eq_iff bit_xor_iff)

lemma crc_shift_pow_inj: "(crc_shift ^^ n) a = (crc_shift ^^ n) b \<Longrightarrow> a = b"
proof -
  assume "(crc_shift ^^ n) a = (crc_shift ^^ n) b"
  then have "(crc_shift ^^ n) (a XOR b) = 0" by (simp add: crc_shift_pow_xor)
  then have "a XOR b = 0" by (rule crc_shift_pow_eq_0)
  then show ?thesis by (simp add: xor_eq_0_iff)
qed

lemma crc_byte_inj: "crc_byte s b = crc_byte t b \<Longrightarrow> s = t"
proof -
  assume "crc_byte s b = crc_byte t b"
  then have "s XOR push_bit 8 (of_nat (of_char b)) = t XOR push_bit 8 (of_nat (of_char b))"
    unfolding crc_byte_def by (rule crc_shift_pow_inj)
  then have "s XOR t = push_bit 8 (of_nat (of_char b)) XOR push_bit 8 (of_nat (of_char b))"
    by (rule xor_swap)
  then have "s XOR t = 0" by simp
  then show ?thesis by (simp add: xor_eq_0_iff)
qed

lemma foldl_crc_byte_inj: "foldl crc_byte s ys = foldl crc_byte t ys \<Longrightarrow> s = t"
  by (induction ys arbitrary: s t) (auto dest: crc_byte_inj)

section \<open>Detection of bursts of two bytes\<close>

lemma low_shift:
  fixes e :: u16
  assumes "\<And>k. 8 \<le> k \<Longrightarrow> \<not> bit e k" and "n \<le> 8"
  shows "(crc_shift ^^ n) e = push_bit n e"
  using assms(2)
proof (induction n)
  case (Suc n)
  then have "(crc_shift ^^ n) e = push_bit n e" by simp
  moreover have "\<not> bit (push_bit n e) 15" using assms(1) [of "15 - n"] Suc.prems by (auto simp: bit_push_bit_iff)
  ultimately have "crc_shift ((crc_shift ^^ n) e) = push_bit (Suc 0) (push_bit n e)"
    by (simp only: crc_shift_bit [of "push_bit n e"] if_False)
  then show ?case by (simp only: funpow.simps o_apply push_bit_push_bit add_Suc add_0)
qed simp

lemma bit_of_char_high: "8 \<le> k \<Longrightarrow> \<not> bit (of_nat (of_char c) :: u16) k"
proof -
  assume k: "8 \<le> k"
  have "take_bit 8 (of_char c :: nat) = of_char c" by (simp add: take_bit_eq_mod)
  then have "\<not> bit (of_char c :: nat) k" using k by (metis bit_take_bit_iff linorder_not_less)
  then show ?thesis by (simp add: bit_of_nat_iff)
qed

lemma of_char_u16_inj: "(of_nat (of_char c) :: u16) = of_nat (of_char d) \<Longrightarrow> c = d"
proof -
  assume eq: "(of_nat (of_char c) :: u16) = of_nat (of_char d)"
  have "(of_char c :: nat) < 2 ^ LENGTH(16)" "(of_char d :: nat) < 2 ^ LENGTH(16)"
    by (rule less_le_trans [OF nat_of_char_less_256], simp)+
  with eq have "(of_char c :: nat) = of_char d"
    by (metis of_nat_inverse)
  then show ?thesis by simp
qed

lemma crc_two_bytes:
  assumes eq: "crc_byte (crc_byte s a) b = crc_byte (crc_byte s a') b'"
  shows "a = a' \<and> b = b'"
proof -
  define d where "d = (of_nat (of_char a) XOR of_nat (of_char a') :: u16)"
  define e where "e = (of_nat (of_char b) XOR of_nat (of_char b') :: u16)"
  have hi: "\<not> bit d k" "\<not> bit e k" if "8 \<le> k" for k
    using that by (simp_all add: d_def e_def bit_xor_iff bit_of_char_high)
  have "crc_byte s a XOR push_bit 8 (of_nat (of_char b)) = crc_byte s a' XOR push_bit 8 (of_nat (of_char b'))"
    using eq unfolding crc_byte_def [of "crc_byte s a"] crc_byte_def [of "crc_byte s a'"]
    by (rule crc_shift_pow_inj)
  then have "crc_byte s a XOR crc_byte s a' = push_bit 8 e"
    unfolding e_def push_bit_xor by (rule xor_swap)
  moreover have "crc_byte s a XOR crc_byte s a' = (crc_shift ^^ 8) (push_bit 8 d)"
    unfolding crc_byte_def d_def push_bit_xor crc_shift_pow_xor
    by (simp only: ac_simps xor_self_eq) (simp add: xor.left_commute)
  moreover have "push_bit 8 e = (crc_shift ^^ 8) e" using low_shift [of e 8] hi by simp
  ultimately have p: "push_bit 8 d = e" by (metis crc_shift_pow_inj)
  have z: "d = 0"
  proof (rule bit_word_eqI)
    fix k assume "k < LENGTH(16)"
    have "bit d k = bit (push_bit 8 d) (k + 8)" if "k < 8" using that by (simp add: bit_push_bit_iff)
    then show "bit d k = bit 0 k" using hi p by (cases "k < 8") auto
  qed
  with p have "e = 0" by simp
  with z show ?thesis by (simp add: d_def e_def xor_eq_0_iff of_char_u16_inj)
qed

text \<open>
  C16.  The checksum detects every corruption confined to two adjacent bytes of a frame: if two
  byte strings differ only in one pair of adjacent bytes, their \<open>CRC16\<close> values differ.
\<close>

theorem CRC16_detects_two_byte_burst:
  assumes "(a, b) \<noteq> (a', b')"
  shows "CRC16 (xs @ [a, b] @ ys) \<noteq> CRC16 (xs @ [a', b'] @ ys)"
proof
  assume "CRC16 (xs @ [a, b] @ ys) = CRC16 (xs @ [a', b'] @ ys)"
  then have "foldl crc_byte (crc_byte (crc_byte (CRC16 xs) a) b) ys =
      foldl crc_byte (crc_byte (crc_byte (CRC16 xs) a') b') ys"
    by (simp add: CRC16_append)
  then have "crc_byte (crc_byte (CRC16 xs) a) b = crc_byte (crc_byte (CRC16 xs) a') b'"
    by (rule foldl_crc_byte_inj)
  then have "a = a' \<and> b = b'" by (rule crc_two_bytes)
  with assms show False by simp
qed

theorem CRC16_detects_two_byte_burst_witness:
  "(CHR ''0'', CHR ''0'') \<noteq> (CHR ''1'', CHR ''8'') \<and>
   CRC16 (''#'' @ [CHR ''0'', CHR ''0''] @ ''?VI'') \<noteq> CRC16 (''#'' @ [CHR ''1'', CHR ''8''] @ ''?VI'')"
  using CRC16_detects_two_byte_burst [of "CHR ''0''" "CHR ''0''" "CHR ''1''" "CHR ''8''" "''#''" "''?VI''"]
  by simp

lemma CRC16_single_byte: "a \<noteq> a' \<Longrightarrow> CRC16 (xs @ [a] @ ys) \<noteq> CRC16 (xs @ [a'] @ ys)"
proof
  assume neq: "a \<noteq> a'" and "CRC16 (xs @ [a] @ ys) = CRC16 (xs @ [a'] @ ys)"
  then have "crc_byte (CRC16 xs) a = crc_byte (CRC16 xs) a'"
    by (simp add: CRC16_append foldl_crc_byte_inj)
  then have "crc_byte (crc_byte (CRC16 xs) a) a = crc_byte (crc_byte (CRC16 xs) a') a" by simp
  with neq show False by (auto dest: crc_two_bytes)
qed

text \<open>The published value of this CRC (initial value 0, polynomial 0x1021) on the byte \<open>A\<close>.\<close>

lemma CRC16_check_value: "CRC16 ''A'' = 0x58E5"
  by code_simp

end
