(* ===== verification/Frames.thy ===== *)
theory Frames
  imports Crc
begin

text \<open>
  The textual MeCom protocol of \<open>mecom/protocol.go\<close>: the parameter and response types, the
  request builders (\<open>Build...Frame\<close>, \<open>appendCRC\<close>), the response parsers (\<open>Parse...Response\<close>,
  \<open>parsePayload\<close>, \<open>verifyCRC\<close>, \<open>isBareRequestCRCAck\<close>) and \<open>SplitFrames\<close>, together with the
  response builders of \<open>mecomserver/device_bridge.go\<close> that a MeCom device model answers with
  (\<open>deviceBridgeData\<close>, \<open>deviceBridgeOK\<close>, \<open>deviceBridgeNACK\<close>).  Every \<open>fmt.Errorf\<close> of the package
  is one constructor of \<open>mecom_error\<close>, so each error path of the source is a value.

  A decoded value is kept as the 32 payload bits and the conversion applied to them
  (\<open>f64\<close>): Go's \<open>float64(int32(bits))\<close> and \<open>float64(math.Float32frombits(bits))\<close> are exact and
  injective up to the encodings of NaN, so nothing is lost by not computing the float.
  \<open>strings.ToUpper\<close> is modelled on the ASCII letters, which is all the protocol text holds.
\<close>

section \<open>Types\<close>

definition FrameTerminator :: char where
  "FrameTerminator = CHR 0x0D"

type_synonym DataType = string

definition DataTypeFloat32 :: DataType where "DataTypeFloat32 = ''float32''"
definition DataTypeInt32 :: DataType where "DataTypeInt32 = ''int32''"
definition DataTypeLatin1 :: DataType where "DataTypeLatin1 = ''latin1''"
definition DataTypeByte :: DataType where "DataTypeByte = ''byte''"

record Parameter =
  par_ID :: int
  par_Instance :: int
  par_Name :: string
  par_Unit :: string
  par_Type :: DataType
  par_Writable :: bool
  par_Role :: string
  par_Kind :: string

record RingCaptureParameter = Parameter +
  InhibitTime10us :: u16

definition RingStatusAllDataRead :: byte where "RingStatusAllDataRead = 0"
definition RingStatusHasMoreData :: byte where "RingStatusHasMoreData = 1"
definition RingStatusOverlap :: byte where "RingStatusOverlap = 2"

definition maxRingCaptureParameters :: nat where "maxRingCaptureParameters = 16"
definition maxMeComParameterID :: int where "maxMeComParameterID = 0xFFFF"
definition minMeComInstance :: int where "minMeComInstance = 1"
definition maxMeComInstance :: int where "maxMeComInstance = 0xFF"

record RingReadResponse =
  rr_BytesAdded :: u16
  rr_Status :: byte
  rr_Data :: "byte list"

datatype f64 = F64_of_int32 u32 | F64_of_float32 u32 | F64_NaN

text \<open>Errors of package \<open>mecom\<close>: the sentinels of \<open>errors.go\<close> and the \<open>fmt.Errorf\<close> values.\<close>

datatype ring_error =
    RingTooManyParameters nat
  | RingInvalidID int
  | RingInvalidInstance int
  | RingConfigInvalid string
  | RingConfigError nat "string option"
  | RingTruncatedEscape
  | RingUnexpectedMarker byte
  | RingSyncTooShort
  | RingFrameTooShort
  | RingTruncatedSample
  | RingTruncatedSampleType
  | RingUnsupportedType byte
  | RingTruncatedValue

datatype response_error =
    InvalidResponse string
  | TooShortForCRC string
  | InvalidCRC string num_err
  | CRCMismatch nat u16
  | InvalidNack string
  | InvalidNackCode num_err
  | Nack nat "string option"
  | InvalidPayload string
  | NumError num_err
  | HexError hex_err

datatype can_error =
    BinaryShortDLC byte
  | BinaryNotResponse
  | BinaryNack byte "string option"
  | BinaryUnexpectedCommand u16
  | InvalidDLC byte
  | NodeOutOfRange byte
  | SDOResponseDLC byte
  | SDOResponseID u32
  | SDOUnexpectedCommand byte
  | SDOSegmented
  | SDODownloadDLC byte
  | SDODownloadID u32
  | SDODownloadCommand byte
  | NMTNodeOutOfRange byte
  | SDOPayloadLength nat
  | SDOValueLength u16 byte nat
  | SDOAbort u16 byte u32

datatype mecom_error =
    BadParameterID int
  | BadParameterInstance int
  | ParameterAt nat mecom_error
  | Latin1EmbeddedNUL
  | Latin1OutOfRange
  | BigDataTooLong nat
  | Response response_error
  | Ring ring_error
  | Can can_error
  | ErrTimeout
  | ErrUnknownParameter int int
  | SDOAbortUnknown u32 u16 byte
  | ErrParameterReadOnly int int
  | WrongKind int int
  | ErrWriteRejected u16 byte u32
  | ErrTransportNotSupported
  | CtxCanceled
  | CtxDeadlineExceeded
  | NetTimeout
  | IOError string

definition errorsByCode :: "nat \<Rightarrow> string option" where
  "errorsByCode = map_of
     [(1, ''CMD_NOT_AVAILABLE''), (2, ''DEVICE_BUSY''), (3, ''GENERAL_COM''), (4, ''FORMAT''),
      (5, ''PAR_NOT_AVAILABLE''), (6, ''PAR_NOT_WRITABLE''), (7, ''PAR_OUT_OF_RANGE''),
      (8, ''PAR_INST_NOT_AVAILABLE'')]"

section \<open>Request frames\<close>

definition appendCRC :: "int \<Rightarrow> u16 \<Rightarrow> string \<Rightarrow> string" where
  "appendCRC addr seq body =
     (let prefix = ''#'' @ fmtX 2 addr @ fmtX 4 (uint seq) @ body
      in prefix @ fmtX 4 (uint (CRC16 prefix)) @ [FrameTerminator])"

definition BuildSingleGetFrame :: "int \<Rightarrow> u16 \<Rightarrow> int \<Rightarrow> int \<Rightarrow> string" where
  "BuildSingleGetFrame addr seq paramID inst =
     appendCRC addr seq (''?VR'' @ fmtX 4 paramID @ fmtX 2 inst)"

definition BuildBranchIDFrame :: "int \<Rightarrow> u16 \<Rightarrow> string" where
  "BuildBranchIDFrame addr seq = appendCRC addr seq ''?BI''"

definition BuildFirmwareVersionFrame :: "int \<Rightarrow> u16 \<Rightarrow> string" where
  "BuildFirmwareVersionFrame addr seq = appendCRC addr seq ''?VI''"

definition BuildParameterLimitsFrame :: "int \<Rightarrow> u16 \<Rightarrow> int \<Rightarrow> int \<Rightarrow> string" where
  "BuildParameterLimitsFrame addr seq paramID inst =
     appendCRC addr seq (''?VL'' @ fmtX 4 paramID @ fmtX 2 inst)"

definition BuildParameterMetadataFrame :: "int \<Rightarrow> u16 \<Rightarrow> int \<Rightarrow> int \<Rightarrow> string" where
  "BuildParameterMetadataFrame addr seq paramID inst =
     appendCRC addr seq (''?VM'' @ fmtX 4 paramID @ fmtX 2 inst)"

definition bulk_get_body :: "'a Parameter_scheme list \<Rightarrow> string" where
  "bulk_get_body params =
     ''?VX'' @ fmtX 2 (int (length params)) @
     concat (map (\<lambda>p. fmtX 4 (par_ID p) @ fmtX 2 (par_Instance p)) params)"

definition BuildBulkGetFrame :: "int \<Rightarrow> u16 \<Rightarrow> 'a Parameter_scheme list \<Rightarrow> string" where
  "BuildBulkGetFrame addr seq params = appendCRC addr seq (bulk_get_body params)"

definition BuildRingPointerFrame :: "int \<Rightarrow> u16 \<Rightarrow> string" where
  "BuildRingPointerFrame addr seq = appendCRC addr seq ''?RS0000''"

definition BuildRingReadFrame :: "int \<Rightarrow> u16 \<Rightarrow> u32 \<Rightarrow> u16 \<Rightarrow> string" where
  "BuildRingReadFrame addr seq start maxBytes =
     appendCRC addr seq (''?RS0001'' @ fmtX 8 (uint start) @ fmtX 4 (uint maxBytes))"

fun ring_capture_body :: "RingCaptureParameter list \<Rightarrow> mecom_error + string" where
  "ring_capture_body [] = Inr []"
| "ring_capture_body (p # ps) =
     (if par_ID p < 0 \<or> 0xFFFF < par_ID p then Inl (Ring (RingInvalidID (par_ID p)))
      else if par_Instance p < 0 \<or> 0xFF < par_Instance p then Inl (Ring (RingInvalidInstance (par_Instance p)))
      else res_bind (ring_capture_body ps) (\<lambda>rest.
        Inr (fmtX 4 (par_ID p) @ fmtX 2 (par_Instance p) @ fmtX 4 (uint (InhibitTime10us p)) @ rest)))"

definition BuildRingCaptureConfigFrame ::
    "int \<Rightarrow> u16 \<Rightarrow> u16 \<Rightarrow> RingCaptureParameter list \<Rightarrow> mecom_error + string" where
  "BuildRingCaptureConfigFrame addr seq captureID params =
     (if maxRingCaptureParameters < length params then Inl (Ring (RingTooManyParameters (length params)))
      else res_bind (ring_capture_body params) (\<lambda>body.
        Inr (appendCRC addr seq
          (''?RS0002'' @ fmtX 4 (uint captureID) @ fmtX 2 (int (length params)) @ body))))"

definition BuildRingTriggerSyncFrame :: "int \<Rightarrow> u16 \<Rightarrow> string" where
  "BuildRingTriggerSyncFrame addr seq = appendCRC addr seq ''?RS0003''"

definition encodeInt32 :: "u32 \<Rightarrow> string" where
  "encodeInt32 v = fmtX 8 (uint v)"

definition encodeFloat32 :: "u32 \<Rightarrow> string" where
  "encodeFloat32 bits = fmtX 8 (uint bits)"

definition buildWriteFrame :: "int \<Rightarrow> u16 \<Rightarrow> int \<Rightarrow> int \<Rightarrow> string \<Rightarrow> string" where
  "buildWriteFrame addr seq paramID inst valueHex =
     appendCRC addr seq (''VS'' @ fmtX 4 paramID @ fmtX 2 inst @ valueHex)"

definition BuildWriteFloat32Frame :: "int \<Rightarrow> u16 \<Rightarrow> int \<Rightarrow> int \<Rightarrow> u32 \<Rightarrow> string" where
  "BuildWriteFloat32Frame addr seq paramID inst v = buildWriteFrame addr seq paramID inst (encodeFloat32 v)"

definition BuildWriteInt32Frame :: "int \<Rightarrow> u16 \<Rightarrow> int \<Rightarrow> int \<Rightarrow> u32 \<Rightarrow> string" where
  "BuildWriteInt32Frame addr seq paramID inst v = buildWriteFrame addr seq paramID inst (encodeInt32 v)"

definition string_bytes :: "string \<Rightarrow> byte list" where
  "string_bytes s = map (\<lambda>c. of_nat (of_char c)) s"

definition BuildWriteStringFrame :: "int \<Rightarrow> u16 \<Rightarrow> int \<Rightarrow> int \<Rightarrow> string \<Rightarrow> string" where
  "BuildWriteStringFrame addr seq paramID inst v =
     buildWriteFrame addr seq paramID inst (hex_encode (string_bytes v))"

definition validateParameterAddress :: "int \<Rightarrow> int \<Rightarrow> mecom_error + unit" where
  "validateParameterAddress paramID inst =
     (if paramID < 0 \<or> maxMeComParameterID < paramID then Inl (BadParameterID paramID)
      else if inst < minMeComInstance \<or> maxMeComInstance < inst then Inl (BadParameterInstance inst)
      else Inr ())"

fun validate_from :: "nat \<Rightarrow> 'a Parameter_scheme list \<Rightarrow> mecom_error + unit" where
  "validate_from i [] = Inr ()"
| "validate_from i (p # ps) =
     (case validateParameterAddress (par_ID p) (par_Instance p) of
        Inl e \<Rightarrow> Inl (ParameterAt i e)
      | Inr _ \<Rightarrow> validate_from (Suc i) ps)"

definition validateParameterList :: "'a Parameter_scheme list \<Rightarrow> mecom_error + unit" where
  "validateParameterList params = validate_from 0 params"

text \<open>
  \<open>encodeLatin1String\<close> ranges over the runes of the UTF-8 string: a rune up to 0xFF is one byte
  below 0x80 or a two-byte sequence with lead 0xC2 or 0xC3; every other lead byte, valid or not,
  decodes to a rune above 0xFF (an invalid one to U+FFFD).
\<close>

fun latin1_runes :: "string \<Rightarrow> mecom_error + byte list" where
  "latin1_runes [] = Inr []"
| "latin1_runes (c # s) =
     (let n = of_char c :: nat in
      if n = 0 then Inl Latin1EmbeddedNUL
      else if n < 0x80 then res_bind (latin1_runes s) (\<lambda>r. Inr (of_nat n # r))
      else case s of
          [] \<Rightarrow> Inl Latin1OutOfRange
        | d # t \<Rightarrow>
            (let m = of_char d :: nat in
             if (n = 0xC2 \<or> n = 0xC3) \<and> 0x80 \<le> m \<and> m < 0xC0
             then res_bind (latin1_runes t) (\<lambda>r. Inr (of_nat ((n - 0xC0) * 64 + (m - 0x80)) # r))
             else Inl Latin1OutOfRange))"

definition encodeLatin1String :: "string \<Rightarrow> bool \<Rightarrow> mecom_error + byte list" where
  "encodeLatin1String s zeroTerminated =
     res_bind (latin1_runes s) (\<lambda>out. Inr (if zeroTerminated then out @ [0] else out))"

definition BuildSetBigDataStringFrame ::
    "int \<Rightarrow> u16 \<Rightarrow> int \<Rightarrow> int \<Rightarrow> u32 \<Rightarrow> string \<Rightarrow> bool \<Rightarrow> mecom_error + string" where
  "BuildSetBigDataStringFrame addr seq paramID inst writeStart v isLast =
     res_bind (validateParameterAddress paramID inst) (\<lambda>_.
     res_bind (encodeLatin1String v True) (\<lambda>data.
       if 0xFFFF < length data then Inl (BigDataTooLong (length data))
       else Inr (appendCRC addr seq
         (''VB'' @ fmtX 4 paramID @ fmtX 2 inst @ fmtX 8 (uint writeStart) @
          fmtX 4 (int (length data)) @ fmtX 2 (if isLast then 1 else 0) @ hex_encode data))))"

definition BuildSaveToFlashFrame :: "int \<Rightarrow> u16 \<Rightarrow> string" where
  "BuildSaveToFlashFrame addr seq = appendCRC addr seq ''SP''"

definition BuildResetFrame :: "int \<Rightarrow> u16 \<Rightarrow> string" where
  "BuildResetFrame addr seq = appendCRC addr seq ''RS''"

section \<open>Response frames\<close>

text \<open>Go's slice \<open>s[i:j]\<close>, used below with \<open>i \<le> j \<le> len(s)\<close> only.\<close>

definition slice :: "nat \<Rightarrow> nat \<Rightarrow> 'a list \<Rightarrow> 'a list" where
  "slice i j s = take (j - i) (drop i s)"

definition verifyCRC :: "string \<Rightarrow> mecom_error + unit" where
  "verifyCRC frame =
     (if length frame < 5 then Inl (Response (TooShortForCRC frame))
      else let payloadEnd = length frame - 4 in
        case ParseUint (drop payloadEnd frame) 16 of
          Inl e \<Rightarrow> Inl (Response (InvalidCRC (drop payloadEnd frame) e))
        | Inr got \<Rightarrow>
            (let want = CRC16 (take payloadEnd frame) in
             if of_nat got \<noteq> want then Inl (Response (CRCMismatch got want)) else Inr ()))"

definition parsePayload :: "string \<Rightarrow> mecom_error + string" where
  "parsePayload raw =
     (let frame = trim_suffix1 FrameTerminator raw in
      if length frame < 7 \<or> frame ! 0 \<noteq> CHR ''!'' then Inl (Response (InvalidResponse frame))
      else case verifyCRC frame of Inl e \<Rightarrow> Inl e | Inr _ \<Rightarrow>
        (let payloadEnd = length frame - 4 in
         if 7 < length frame \<and> frame ! 7 = CHR ''-'' then
           (if payloadEnd \<le> 8 then Inl (Response (InvalidNack frame))
            else case ParseUint (slice 8 payloadEnd frame) 8 of
                Inl e \<Rightarrow> Inl (Response (InvalidNackCode e))
              | Inr code \<Rightarrow> Inl (Response (Nack code (errorsByCode code))))
         else
           (let payloadStart = (if 7 < length frame \<and> frame ! 7 = CHR ''+'' then 8 else 7) in
            if payloadEnd \<le> payloadStart then Inr []
            else Inr (slice payloadStart payloadEnd frame))))"

definition is_hex_char :: "char \<Rightarrow> bool" where
  "is_hex_char c = (hex_val c \<noteq> None)"

definition hexOnly :: "string \<Rightarrow> string" where
  "hexOnly v = filter is_hex_char v"

definition DecodeNumeric :: "string \<Rightarrow> DataType \<Rightarrow> mecom_error + f64" where
  "DecodeNumeric chunk dataType =
     (case ParseUint chunk 32 of
        Inl e \<Rightarrow> Inl (Response (NumError e))
      | Inr bits \<Rightarrow>
          Inr (if dataType = DataTypeInt32 then F64_of_int32 (of_nat bits)
               else F64_of_float32 (of_nat bits)))"

definition ParseSingleResponse :: "string \<Rightarrow> DataType \<Rightarrow> mecom_error + f64" where
  "ParseSingleResponse raw dataType =
     res_bind (parsePayload raw) (\<lambda>payload.
       if length payload < 8 then Inl (Response (InvalidPayload payload))
       else DecodeNumeric (take 8 payload) dataType)"

definition bulk_value :: "string \<Rightarrow> nat \<Rightarrow> 'a Parameter_scheme \<Rightarrow> f64" where
  "bulk_value payload i p =
     (if length payload < (i + 1) * 8 then F64_NaN
      else case DecodeNumeric (slice (i * 8) ((i + 1) * 8) payload) (par_Type p) of
          Inl _ \<Rightarrow> F64_NaN
        | Inr v \<Rightarrow> v)"

definition ParseBulkResponse :: "string \<Rightarrow> 'a Parameter_scheme list \<Rightarrow> mecom_error + f64 list" where
  "ParseBulkResponse raw params =
     res_bind (parsePayload raw) (\<lambda>payload0.
       let payload = hexOnly payload0 in
       Inr (map (\<lambda>(i, p). bulk_value payload i p) (enumerate 0 params)))"

definition lift_num :: "num_err + nat \<Rightarrow> mecom_error + nat" where
  "lift_num r = (case r of Inl e \<Rightarrow> Inl (Response (NumError e)) | Inr n \<Rightarrow> Inr n)"

definition lift_hex :: "hex_err + byte list \<Rightarrow> mecom_error + byte list" where
  "lift_hex r = (case r of Inl e \<Rightarrow> Inl (Response (HexError e)) | Inr n \<Rightarrow> Inr n)"

definition ParseRingPointerResponse :: "string \<Rightarrow> mecom_error + u32" where
  "ParseRingPointerResponse raw =
     res_bind (parsePayload raw) (\<lambda>payload0.
       let payload = hexOnly payload0 in
       if length payload < 8 then Inl (Response (InvalidPayload payload))
       else res_bind (lift_num (ParseUint (take 8 payload) 32)) (\<lambda>v. Inr (of_nat v)))"

definition ParseRingReadResponse :: "string \<Rightarrow> mecom_error + RingReadResponse" where
  "ParseRingReadResponse raw =
     res_bind (parsePayload raw) (\<lambda>payload0.
       let payload = hexOnly payload0 in
       if length payload < 6 then Inl (Response (InvalidPayload payload))
       else res_bind (lift_num (ParseUint (take 4 payload) 16)) (\<lambda>bytesAdded.
            res_bind (lift_num (ParseUint (slice 4 6 payload) 8)) (\<lambda>status.
            res_bind (lift_hex (hex_decode (drop 6 payload))) (\<lambda>data.
              Inr \<lparr>rr_BytesAdded = of_nat bytesAdded, rr_Status = of_nat status, rr_Data = data\<rparr>))))"

definition ParseRingCaptureConfigResponse :: "string \<Rightarrow> mecom_error + unit" where
  "ParseRingCaptureConfigResponse raw =
     res_bind (parsePayload raw) (\<lambda>payload0.
       let payload = hexOnly payload0 in
       if payload = [] \<or> payload = ''00'' then Inr ()
       else case ParseUint payload 8 of
           Inl _ \<Rightarrow> Inl (Ring (RingConfigInvalid payload))
         | Inr code \<Rightarrow>
             (if code = 0 then Inr () else Inl (Ring (RingConfigError code (errorsByCode code)))))"

definition ParseWriteResponse :: "string \<Rightarrow> mecom_error + unit" where
  "ParseWriteResponse raw = res_bind (parsePayload raw) (\<lambda>_. Inr ())"

definition isBareRequestCRCAck :: "string \<Rightarrow> string \<Rightarrow> bool" where
  "isBareRequestCRCAck raw request =
     (let frame = trim_suffix1 FrameTerminator raw; req = trim_suffix1 FrameTerminator request in
      if length frame \<noteq> 11 \<or> length req < 11 \<or> frame ! 0 \<noteq> CHR ''!'' \<or> req ! 0 \<noteq> CHR ''#'' then False
      else if slice 1 7 frame \<noteq> slice 1 7 req then False
      else let reqPayloadEnd = length req - 4 in
        case ParseUint (drop reqPayloadEnd req) 16 of
          Inl _ \<Rightarrow> False
        | Inr reqCRC \<Rightarrow>
            (if CRC16 (take reqPayloadEnd req) \<noteq> of_nat reqCRC then False
             else case ParseUint (drop 7 frame) 16 of
                 Inl _ \<Rightarrow> False
               | Inr respCRC \<Rightarrow> (of_nat respCRC :: u16) = of_nat reqCRC))"

definition ParseWriteResponseForRequest :: "string \<Rightarrow> string \<Rightarrow> mecom_error + unit" where
  "ParseWriteResponseForRequest raw request =
     (case ParseWriteResponse raw of
        Inr _ \<Rightarrow> Inr ()
      | Inl e \<Rightarrow> (if isBareRequestCRCAck raw request then Inr () else Inl e))"

section \<open>Splitting a byte stream into frames\<close>

text \<open>The loop of \<open>SplitFrames\<close>; \<open>cur\<close> is \<open>data[start:i]\<close>.\<close>

fun split_frames :: "string \<Rightarrow> string \<Rightarrow> string list" where
  "split_frames cur [] = []"
| "split_frames cur (b # bs) =
     (if b = FrameTerminator then (cur @ [b]) # split_frames [] bs
      else split_frames (cur @ [b]) bs)"

definition SplitFrames :: "string \<Rightarrow> string list" where
  "SplitFrames data = split_frames [] data"

section \<open>Response builders of the device bridge\<close>

definition to_upper :: "char \<Rightarrow> char" where
  "to_upper c =
     (let n = of_char c :: nat in if 97 \<le> n \<and> n \<le> 122 then char_of (n - 32) else c)"

definition ToUpper :: "string \<Rightarrow> string" where
  "ToUpper s = map to_upper s"

definition seal :: "string \<Rightarrow> string" where
  "seal prefix = prefix @ fmtX 4 (uint (CRC16 prefix)) @ [FrameTerminator]"

definition deviceBridgeData :: "byte \<Rightarrow> u16 \<Rightarrow> string \<Rightarrow> string" where
  "deviceBridgeData addr seq payload = seal (''!'' @ fmtX 2 (uint addr) @ fmtX 4 (uint seq) @ payload)"

definition deviceBridgeOK :: "byte \<Rightarrow> u16 \<Rightarrow> string \<Rightarrow> string" where
  "deviceBridgeOK addr seq payload =
     seal (''!'' @ fmtX 2 (uint addr) @ fmtX 4 (uint seq) @ ''+'' @ ToUpper payload)"

definition deviceBridgeNACK :: "byte \<Rightarrow> u16 \<Rightarrow> byte \<Rightarrow> string" where
  "deviceBridgeNACK addr seq code =
     seal (''!'' @ fmtX 2 (uint addr) @ fmtX 4 (uint seq) @ ''-'' @ fmtX 2 (uint code))"

section \<open>Sealed frames verify\<close>

lemmas frame_defs = FrameTerminator_def slice_def Let_def

lemma CR_not_hex: "set (hexN w n) \<inter> {FrameTerminator, CHR ''+'', CHR ''-''} = {}"
proof -
  have "set ''0123456789ABCDEF'' \<inter> {FrameTerminator, CHR ''+'', CHR ''-''} = {}"
    by (simp add: FrameTerminator_def)
  with set_hexN [of w n] show ?thesis by blast
qed

lemma seal_eq: "seal p = p @ hexN 4 (unat (CRC16 p)) @ [FrameTerminator]"
  by (simp add: seal_def fmtX_u16)

lemma appendCRC_seal: "appendCRC addr seq body = seal (''#'' @ fmtX 2 addr @ fmtX 4 (uint seq) @ body)"
  by (simp add: appendCRC_def seal_def Let_def)

lemma trim_seal: "trim_suffix1 FrameTerminator (seal p) = p @ hexN 4 (unat (CRC16 p))"
  unfolding seal_eq append_assoc [symmetric] by (rule trim_suffix1_snoc)

lemma verifyCRC_sealed: "p \<noteq> [] \<Longrightarrow> verifyCRC (p @ hexN 4 (unat (CRC16 p))) = Inr ()"
  by (cases p) (auto simp: verifyCRC_def Let_def ParseUint_hexN_u16)

lemma verifyCRC_Inr:
  assumes "verifyCRC (p @ t) = Inr ()" and "length t = 4"
  shows "\<exists>got. ParseUint t 16 = Inr got \<and> of_nat got = CRC16 p"
  using assms by (auto simp: verifyCRC_def Let_def split: if_splits sum.splits)

lemma hexN_nth_class: "i < w \<Longrightarrow> hexN w n ! i \<noteq> CHR ''+'' \<and> hexN w n ! i \<noteq> CHR ''-''"
  using CR_not_hex [of w n] nth_mem [of i "hexN w n"] by (metis disjoint_iff insertCI length_hexN)

lemma parsePayload_seal:
  assumes len: "7 \<le> length p" and bang: "p ! 0 = CHR ''!''"
  shows "parsePayload (seal p) =
    (if 7 < length p \<and> p ! 7 = CHR ''-'' then
       (if length p \<le> 8 then Inl (Response (InvalidNack (p @ hexN 4 (unat (CRC16 p)))))
        else case ParseUint (drop 8 p) 8 of
            Inl e \<Rightarrow> Inl (Response (InvalidNackCode e))
          | Inr code \<Rightarrow> Inl (Response (Nack code (errorsByCode code))))
     else Inr (if 7 < length p \<and> p ! 7 = CHR ''+'' then drop 8 p else drop 7 p))"
proof -
  let ?t = "hexN 4 (unat (CRC16 p))"
  have ok: "verifyCRC (p @ ?t) = Inr ()" using len by (intro verifyCRC_sealed) auto
  have n0: "(p @ ?t) ! 0 = CHR ''!''" using len bang by (cases p) auto
  have n7: "(p @ ?t) ! 7 = (if 7 < length p then p ! 7 else ?t ! 0)"
    using len by (auto simp: nth_append)
  have c: "?t ! 0 \<noteq> CHR ''+''" "?t ! 0 \<noteq> CHR ''-''" using hexN_nth_class [of 0 4] by auto
  show ?thesis
    unfolding parsePayload_def trim_seal Let_def ok n0 n7
    using len c by (auto simp: slice_def)
qed

section \<open>Round trips of responses\<close>

definition resp_prefix :: "byte \<Rightarrow> u16 \<Rightarrow> string \<Rightarrow> string" where
  "resp_prefix a s q = ''!'' @ hexN 2 (unat a) @ hexN 4 (unat s) @ q"

lemma resp_prefix_simps [simp]:
  "length (resp_prefix a s q) = 7 + length q"
  "resp_prefix a s q ! 0 = CHR ''!''"
  "drop 7 (resp_prefix a s q) = q"
  "drop 8 (resp_prefix a s q) = drop 1 q"
  by (simp_all add: resp_prefix_def)

lemma resp_prefix_nth7 [simp]: "0 < length q \<Longrightarrow> resp_prefix a s q ! 7 = q ! 0"
  by (metis resp_prefix_simps(3) add.right_neutral nth_drop less_imp_le_nat resp_prefix_simps(1) trans_le_add1 order_refl)

lemma response_seal:
  "deviceBridgeData a s q = seal (resp_prefix a s q)"
  "deviceBridgeOK a s q = seal (resp_prefix a s (CHR ''+'' # ToUpper q))"
  "deviceBridgeNACK a s code = seal (resp_prefix a s (CHR ''-'' # hexN 2 (unat code)))"
  by (simp_all only: deviceBridgeData_def deviceBridgeOK_def deviceBridgeNACK_def resp_prefix_def
      fmtX_words append_Cons append_Nil)

lemma parsePayload_Data:
  assumes "pl = [] \<or> hd pl \<notin> {CHR ''+'', CHR ''-''}"
  shows "parsePayload (deviceBridgeData a s pl) = Inr pl"
  unfolding response_seal
  by (subst parsePayload_seal) (use assms in \<open>auto simp: hd_conv_nth\<close>)

lemma parsePayload_OK: "parsePayload (deviceBridgeOK a s pl) = Inr (ToUpper pl)"
  unfolding response_seal by (subst parsePayload_seal) auto

text \<open>
  Responses round trip: what the device bridge sends with \<open>deviceBridgeData\<close> or
  \<open>deviceBridgeOK\<close> is exactly what the client's \<open>parsePayload\<close> returns, for every address,
  sequence number and payload (a bare data payload must not itself start with the
  acknowledge characters).
\<close>

theorem response_roundtrip:
  assumes "pl = [] \<or> hd pl \<notin> {CHR ''+'', CHR ''-''}"
  shows "parsePayload (deviceBridgeData a s pl) = Inr pl \<and>
         parsePayload (deviceBridgeOK a s up) = Inr (ToUpper up)"
  using assms by (simp add: parsePayload_Data parsePayload_OK)

theorem response_roundtrip_witness:
  "parsePayload (deviceBridgeData 75 9 ''0000002A'') = Inr ''0000002A'' \<and>
   parsePayload (deviceBridgeOK 75 9 ''ab'') = Inr (ToUpper ''ab'')"
  by (rule response_roundtrip) simp

text \<open>
  A device NACK always reaches the caller as an error that carries the device's code and
  the name of the code's entry in \<open>errorsByCode\<close>; no NACK is ever taken for a payload.
\<close>

theorem nack_roundtrip:
  "parsePayload (deviceBridgeNACK a s code) =
     Inl (Response (Nack (unat code) (errorsByCode (unat code))))"
  unfolding response_seal by (subst parsePayload_seal) (auto simp: ParseUint_hexN_u8)

section \<open>Corrupted responses are rejected\<close>

lemma parsePayload_verifies:
  "parsePayload raw = Inr pl \<Longrightarrow> verifyCRC (trim_suffix1 FrameTerminator raw) = Inr ()"
  by (auto simp: parsePayload_def Let_def split: if_splits sum.splits)

lemma accepted_crc_unique:
  assumes "parsePayload (p @ t @ [FrameTerminator]) = Inr x"
    and "parsePayload (q @ t @ [FrameTerminator]) = Inr y" and "length t = 4"
  shows "CRC16 p = CRC16 q"
proof -
  have trim: "trim_suffix1 FrameTerminator (r @ t @ [FrameTerminator]) = r @ t" for r
    using trim_suffix1_snoc [of FrameTerminator "r @ t"] by simp
  from assms(1,2) have "verifyCRC (p @ t) = Inr ()" "verifyCRC (q @ t) = Inr ()"
    using parsePayload_verifies trim by metis+
  with assms(3) show ?thesis by (auto dest!: verifyCRC_Inr)
qed

text \<open>
  C17.  Corruption is detected on the wire: if a response frame (checksummed part \<open>xs @ [a, b] @ ys\<close>,
  four checksum characters \<open>t\<close>, terminator) is accepted, then the frame in which one pair of
  adjacent bytes of the checksummed part was changed in any way is rejected with an error.
\<close>

theorem corrupted_response_rejected:
  assumes ok: "parsePayload (xs @ [a, b] @ ys @ t @ [FrameTerminator]) = Inr pl"
    and t: "length t = 4" and neq: "(a, b) \<noteq> (a', b')"
  shows "\<exists>e. parsePayload (xs @ [a', b'] @ ys @ t @ [FrameTerminator]) = Inl e"
proof (cases "parsePayload (xs @ [a', b'] @ ys @ t @ [FrameTerminator])")
  case (Inr pl')
  have "CRC16 (xs @ [a, b] @ ys) = CRC16 (xs @ [a', b'] @ ys)"
    by (rule accepted_crc_unique [OF _ _ t]) (use ok Inr in simp_all)
  moreover have "crc_byte (crc_byte (CRC16 xs) a) b \<noteq> crc_byte (crc_byte (CRC16 xs) a') b'"
    using neq by (auto dest: crc_two_bytes)
  ultimately show ?thesis by (auto simp: CRC16_append dest: foldl_crc_byte_inj)
qed simp

lemma deviceBridgeData_expand:
  "deviceBridgeData a s pl =
     ''!'' @ hexN 2 (unat a) @ hexN 4 (unat s) @ pl @
     hexN 4 (unat (CRC16 (''!'' @ hexN 2 (unat a) @ hexN 4 (unat s) @ pl))) @ [FrameTerminator]"
  by (simp only: response_seal seal_eq resp_prefix_def append_assoc)

theorem corrupted_response_rejected_witness:
  "\<exists>t. parsePayload (''!4B0009'' @ [CHR ''2'', CHR ''A''] @ [] @ t @ [FrameTerminator]) = Inr ''2A'' \<and>
       (\<exists>e. parsePayload (''!4B0009'' @ [CHR ''2'', CHR ''B''] @ [] @ t @ [FrameTerminator]) = Inl e)"
proof -
  let ?t = "hexN 4 (unat (CRC16 (''!4B0009'' @ ''2A'')))"
  have h: "hexN 2 (unat (75 :: byte)) = ''4B''" "hexN 4 (unat (9 :: u16)) = ''0009''"
    by code_simp+
  have ok: "parsePayload (''!4B0009'' @ [CHR ''2'', CHR ''A''] @ [] @ ?t @ [FrameTerminator]) = Inr ''2A''"
    using parsePayload_Data [of "''2A''" 75 9]
    by (simp only: deviceBridgeData_expand h append_Cons append_Nil) simp
  moreover have "\<exists>e. parsePayload (''!4B0009'' @ [CHR ''2'', CHR ''B''] @ [] @ ?t @ [FrameTerminator]) = Inl e"
    by (rule corrupted_response_rejected [OF ok]) auto
  ultimately show ?thesis by blast
qed

section \<open>Bulk reads\<close>

lemma encodeInt32_hexN: "encodeInt32 v = hexN 8 (unat v)"
  by (simp add: encodeInt32_def fmtX_u32)

lemma is_hex_char_hexN: "c \<in> set (hexN w n) \<Longrightarrow> is_hex_char c"
proof -
  assume "c \<in> set (hexN w n)"
  then have "c \<in> set ''0123456789ABCDEF''" using set_hexN by blast
  moreover have "list_all is_hex_char ''0123456789ABCDEF''" by code_simp
  ultimately show ?thesis unfolding list_all_iff by (rule bspec [rotated])
qed

lemma hexOnly_bulk: "hexOnly (concat (map encodeInt32 vs)) = concat (map encodeInt32 vs)"
  by (induction vs) (auto simp: hexOnly_def encodeInt32_hexN is_hex_char_hexN)

lemma length_bulk: "length (concat (map encodeInt32 vs)) = 8 * length vs"
  by (induction vs) (auto simp: encodeInt32_hexN)

lemma slice_bulk:
  "i < length vs \<Longrightarrow> slice (i * 8) ((i + 1) * 8) (concat (map encodeInt32 vs)) = encodeInt32 (vs ! i)"
proof (induction vs arbitrary: i)
  case (Cons v vs)
  show ?case
  proof (cases i)
    case (Suc j)
    with Cons show ?thesis by (auto simp: slice_def encodeInt32_hexN add.commute)
  qed (simp add: slice_def encodeInt32_hexN)
qed simp

definition decoded :: "DataType \<Rightarrow> u32 \<Rightarrow> f64" where
  "decoded dt v = (if dt = DataTypeInt32 then F64_of_int32 v else F64_of_float32 v)"

lemma DecodeNumeric_encode: "DecodeNumeric (encodeInt32 v) dt = Inr (decoded dt v)"
  by (simp add: DecodeNumeric_def decoded_def encodeInt32_hexN ParseUint_hexN_u32)

lemma bulk_payload_start:
  "concat (map encodeInt32 vs) = [] \<or> hd (concat (map encodeInt32 vs)) \<notin> {CHR ''+'', CHR ''-''}"
proof (cases vs)
  case (Cons v ws)
  have "hexN 8 (unat v) \<noteq> []" by (metis length_hexN list.size(3) zero_neq_numeral)
  then have "hd (concat (map encodeInt32 vs)) = hexN 8 (unat v) ! 0"
    by (simp add: Cons encodeInt32_hexN hd_append hd_conv_nth [of "hexN 8 (unat v)"])
  with hexN_nth_class [of 0 8 "unat v"] show ?thesis by simp
qed simp

lemma ParseBulkResponse_Data:
  assumes "length vs = length params"
  shows "ParseBulkResponse (deviceBridgeData a s (concat (map encodeInt32 vs))) params =
         Inr (map2 (\<lambda>p v. decoded (par_Type p) v) params vs)"
proof -
  let ?pl = "concat (map encodeInt32 vs)"
  have "map (\<lambda>(i, p). bulk_value ?pl i p) (enumerate 0 params) = map2 (\<lambda>p v. decoded (par_Type p) v) params vs"
  proof (rule nth_equalityI)
    fix i assume "i < length (map (\<lambda>(i, p). bulk_value ?pl i p) (enumerate 0 params))"
    then have i: "i < length params" "i < length vs" using assms by simp_all
    then have "\<not> length ?pl < (i + 1) * 8" by (simp add: length_bulk)
    with i show "map (\<lambda>(i, p). bulk_value ?pl i p) (enumerate 0 params) ! i =
        map2 (\<lambda>p v. decoded (par_Type p) v) params vs ! i"
      by (simp add: nth_enumerate_eq bulk_value_def slice_bulk [simplified] DecodeNumeric_encode)
  qed (use assms in simp)
  then show ?thesis
    by (simp add: ParseBulkResponse_def parsePayload_Data [OF bulk_payload_start] hexOnly_bulk Let_def)
qed

text \<open>
  Bulk reads decode positionally: if a device answers a \<open>?VX\<close> request with the values \<open>vs\<close>
  of the requested parameters, eight hex digits each, \<open>ParseBulkResponse\<close> returns exactly those
  values in the order of the parameters, each converted by its parameter's type.
\<close>

theorem bulk_response_roundtrip:
  assumes "length vs = length params"
  shows "ParseBulkResponse (deviceBridgeData a s (concat (map encodeInt32 vs))) params =
         Inr (map2 (\<lambda>p v. decoded (par_Type p) v) params vs)"
  using assms by (rule ParseBulkResponse_Data)

definition demo_param :: "int \<Rightarrow> DataType \<Rightarrow> Parameter" where
  "demo_param i dt =
     \<lparr>par_ID = i, par_Instance = 1, par_Name = [], par_Unit = [], par_Type = dt,
      par_Writable = False, par_Role = [], par_Kind = []\<rparr>"

theorem bulk_response_roundtrip_witness:
  "ParseBulkResponse (deviceBridgeData 75 9 (concat (map encodeInt32 [7, 0x41C80000])))
     [demo_param 104 DataTypeInt32, demo_param 1000 DataTypeFloat32] =
   Inr [F64_of_int32 7, F64_of_float32 0x41C80000]"
  using bulk_response_roundtrip [of "[7, 0x41C80000]" "[demo_param 104 DataTypeInt32, demo_param 1000 DataTypeFloat32]" 75 9]
  by (simp add: demo_param_def decoded_def DataTypeInt32_def DataTypeFloat32_def)

lemma ParseBulkResponse_length: "ParseBulkResponse raw params = Inr vs \<Longrightarrow> length vs = length params"
  by (auto simp: ParseBulkResponse_def res_bind_eq_Inr Let_def)

lemma ParseSingleResponse_Data:
  "ParseSingleResponse (deviceBridgeData a s (encodeInt32 v)) dt = Inr (decoded dt v)"
  using bulk_payload_start [of "[v]"] DecodeNumeric_encode [of v dt]
  by (simp add: ParseSingleResponse_def parsePayload_Data encodeInt32_hexN)

section \<open>Splitting\<close>

lemma split_frames_body: "FrameTerminator \<notin> set cur \<Longrightarrow> f \<in> set (split_frames cur data) \<Longrightarrow>
    \<exists>body. f = body @ [FrameTerminator] \<and> FrameTerminator \<notin> set body"
  by (induction cur data rule: split_frames.induct) (auto split: if_splits)

lemma split_frames_concat: "FrameTerminator \<notin> set cur \<Longrightarrow>
    \<exists>rest. cur @ data = concat (split_frames cur data) @ rest \<and> FrameTerminator \<notin> set rest"
  by (induction cur data rule: split_frames.induct) (auto split: if_splits)

text \<open>
  \<open>SplitFrames\<close> loses nothing and splits nowhere else: the input is the concatenation of the
  frames it returns followed by a remainder without terminator, and every frame ends in its
  only terminator.
\<close>

theorem SplitFrames_exact:
  "(\<exists>rest. data = concat (SplitFrames data) @ rest \<and> FrameTerminator \<notin> set rest) \<and>
   (\<forall>f. f \<in> set (SplitFrames data) \<longrightarrow> (\<exists>body. f = body @ [FrameTerminator] \<and> FrameTerminator \<notin> set body))"
  using split_frames_concat [of "[]" data] split_frames_body [of "[]" _ data]
  by (simp add: SplitFrames_def)

theorem SplitFrames_exact_witness:
  "SplitFrames (''ab'' @ [FrameTerminator] @ ''c'') = [''ab'' @ [FrameTerminator]] \<and>
   (\<exists>rest. ''ab'' @ [FrameTerminator] @ ''c'' =
      concat (SplitFrames (''ab'' @ [FrameTerminator] @ ''c'')) @ rest \<and> FrameTerminator \<notin> set rest)"
  using SplitFrames_exact [of "''ab'' @ [FrameTerminator] @ ''c''"]
  by (simp add: SplitFrames_def FrameTerminator_def)

section \<open>Request addresses and widths\<close>

lemma validateParameterAddress_iff:
  "validateParameterAddress i n = Inr () \<longleftrightarrow> 0 \<le> i \<and> i \<le> 0xFFFF \<and> 1 \<le> n \<and> n \<le> 0xFF"
  by (auto simp: validateParameterAddress_def maxMeComParameterID_def minMeComInstance_def
      maxMeComInstance_def)

lemma validate_from_iff:
  "validate_from i ps = Inr () \<longleftrightarrow>
     (\<forall>p \<in> set ps. validateParameterAddress (par_ID p) (par_Instance p) = Inr ())"
  by (induction i ps rule: validate_from.induct) (auto split: sum.splits)

lemma validateParameterList_iff:
  "validateParameterList ps = Inr () \<longleftrightarrow>
     (\<forall>p \<in> set ps. validateParameterAddress (par_ID p) (par_Instance p) = Inr ())"
  by (simp add: validateParameterList_def validate_from_iff)

lemma valid_address_hex:
  assumes "validateParameterAddress i n = Inr ()"
  shows "fmtX 4 i = hexN 4 (nat i)" "fmtX 2 n = hexN 2 (nat n)" "nat i < 16 ^ 4" "nat n < 16 ^ 2"
  using assms by (auto simp: validateParameterAddress_iff intro!: fmtX_fixed)

lemma valid_bulk_body:
  assumes "validateParameterList ps = Inr ()"
  shows "concat (map (\<lambda>p. fmtX 4 (par_ID p) @ fmtX 2 (par_Instance p)) ps) =
         concat (map (\<lambda>p. hexN 4 (nat (par_ID p)) @ hexN 2 (nat (par_Instance p))) ps)"
proof -
  have "fmtX 4 (par_ID p) @ fmtX 2 (par_Instance p) = hexN 4 (nat (par_ID p)) @ hexN 2 (nat (par_Instance p))"
    if "p \<in> set ps" for p
    using assms that valid_address_hex(1,2) by (metis validateParameterList_iff)
  then show ?thesis by (simp cong: map_cong)
qed

end
