(* ===== verification/RingStream.thy ===== *)
theory RingStream
  imports Frames
begin

text \<open>
  The CRTVStream ring-buffer decoder of \<open>mecom/protocol.go\<close>: \<open>ParseRingFrames\<close> with
  \<open>findRingStart\<close>, \<open>findRingEnd\<close>, \<open>unescapeRingPayload\<close> and \<open>decodeRingFrame\<close>.  The Go loops
  over an offset into one slice; here the recursion is on the remaining bytes, and an index \<open>-1\<close>
  is \<open>None\<close>.  The lemmas show that the decoder inverts the stream format for every list of frames
  and samples, and when the decoder may be fed in chunks.
\<close>

record RingSample =
  rs_ConfigIndex :: nat
  rs_Type :: DataType
  rs_Value :: f64
  rs_At :: gotime

record RingFrame =
  rf_Sync :: bool
  rf_HasCaptureConfigID :: bool
  rf_CaptureConfigID :: u16
  rf_Timestamp10us :: u16
  rf_Samples :: "RingSample list"
  rf_Raw :: "byte list"

fun findRingStart :: "byte list \<Rightarrow> nat option" where
  "findRingStart (a # b # r) =
     (if a = 0x88 \<and> (b = 0x00 \<or> b = 0x01) then Some 0
      else map_option Suc (findRingStart (b # r)))"
| "findRingStart _ = None"

fun findRingEnd :: "byte list \<Rightarrow> nat option" where
  "findRingEnd (a # b # r) =
     (if a \<noteq> 0x88 then map_option Suc (findRingEnd (b # r))
      else if b = 0x88 then map_option (\<lambda>n. n + 2) (findRingEnd r)
      else if b = 0x10 then Some 0
      else map_option Suc (findRingEnd (b # r)))"
| "findRingEnd _ = None"

fun unescapeRingPayload :: "byte list \<Rightarrow> mecom_error + byte list" where
  "unescapeRingPayload [] = Inr []"
| "unescapeRingPayload (a # r) =
     (if a \<noteq> 0x88 then res_bind (unescapeRingPayload r) (\<lambda>out. Inr (a # out))
      else case r of
          [] \<Rightarrow> Inl (Ring RingTruncatedEscape)
        | b # r' \<Rightarrow>
            (if b \<noteq> 0x88 then Inl (Ring (RingUnexpectedMarker b))
             else res_bind (unescapeRingPayload r') (\<lambda>out. Inr (0x88 # out))))"

text \<open>The sample's type: the capture configuration's, unless it has none or the index is out of range.\<close>

definition config_type :: "RingCaptureParameter list \<Rightarrow> nat \<Rightarrow> DataType" where
  "config_type config index =
     (if index < length config \<and> par_Type (config ! index) \<noteq> [] then par_Type (config ! index)
      else DataTypeFloat32)"

definition tagged_type :: "byte \<Rightarrow> mecom_error + DataType" where
  "tagged_type b =
     (if b = 0x01 then Inr DataTypeFloat32
      else if b = 0x02 then Inr DataTypeInt32
      else Inl (Ring (RingUnsupportedType b)))"

definition ring_sample :: "nat \<Rightarrow> DataType \<Rightarrow> u32 \<Rightarrow> RingSample" where
  "ring_sample index dataType bits =
     \<lparr>rs_ConfigIndex = index, rs_Type = dataType,
      rs_Value = (if dataType = DataTypeInt32 then F64_of_int32 bits else F64_of_float32 bits),
      rs_At = zero_time\<rparr>"

text \<open>The sample loop of \<open>decodeRingFrame\<close>, on \<open>payload[offset:]\<close>.\<close>

fun decode_samples :: "RingCaptureParameter list \<Rightarrow> byte list \<Rightarrow> mecom_error + RingSample list" where
  "decode_samples config [] = Inr []"
| "decode_samples config (tag # r) =
     (if length (tag # r) < 5 then Inl (Ring RingTruncatedSample)
      else
        let index = unat (tag AND 0x7F) in
        if tag AND 0x80 = 0 then
          (if length r < 4 then Inl (Ring RingTruncatedValue)
           else res_bind (decode_samples config (drop 4 r)) (\<lambda>rest.
             Inr (ring_sample index (config_type config index) (le_get (take 4 r)) # rest)))
        else case r of
            [] \<Rightarrow> Inl (Ring RingTruncatedSampleType)
          | t # r' \<Rightarrow>
              (case tagged_type t of
                 Inl e \<Rightarrow> Inl e
               | Inr dt \<Rightarrow>
                   (if length r' < 4 then Inl (Ring RingTruncatedValue)
                    else res_bind (decode_samples config (drop 4 r')) (\<lambda>rest.
                      Inr (ring_sample index dt (le_get (take 4 r')) # rest)))))"

definition decodeRingFrame ::
    "byte \<Rightarrow> byte list \<Rightarrow> byte list \<Rightarrow> RingCaptureParameter list \<Rightarrow> mecom_error + RingFrame" where
  "decodeRingFrame kind payload raw config =
     (if kind = 0x01 then
        (if length payload < 4 then Inl (Ring RingSyncTooShort)
         else res_bind (decode_samples config (drop 4 payload)) (\<lambda>samples.
           Inr \<lparr>rf_Sync = True, rf_HasCaptureConfigID = True,
                rf_CaptureConfigID = le_get (take 2 payload),
                rf_Timestamp10us = le_get (slice 2 4 payload),
                rf_Samples = samples, rf_Raw = raw\<rparr>))
      else
        (if length payload < 2 then Inl (Ring RingFrameTooShort)
         else res_bind (decode_samples config (drop 2 payload)) (\<lambda>samples.
           Inr \<lparr>rf_Sync = False, rf_HasCaptureConfigID = False, rf_CaptureConfigID = 0,
                rf_Timestamp10us = le_get (take 2 payload),
                rf_Samples = samples, rf_Raw = raw\<rparr>)))"

text \<open>Go's three results \<open>(frames, tail, err)\<close>; both frames and an error may be returned.\<close>

type_synonym ring_result = "RingFrame list \<times> byte list \<times> mecom_error option"

definition add_frame :: "RingFrame \<Rightarrow> ring_result \<Rightarrow> ring_result" where
  "add_frame f r = (case r of (fs, tail, e) \<Rightarrow> (f # fs, tail, e))"

lemma findRingStart_length: "findRingStart d = Some i \<Longrightarrow> i + 2 \<le> length d"
  by (induction d arbitrary: i rule: findRingStart.induct) (auto split: if_splits)

lemma findRingEnd_length: "findRingEnd d = Some i \<Longrightarrow> i + 2 \<le> length d"
  by (induction d arbitrary: i rule: findRingEnd.induct) (auto split: if_splits)

function ParseRingFrames :: "RingCaptureParameter list \<Rightarrow> byte list \<Rightarrow> ring_result" where
  "ParseRingFrames config data =
     (case findRingStart data of
        None \<Rightarrow> ([], [], None)
      | Some start \<Rightarrow>
          (let d = drop start data in
           case findRingEnd (drop 2 d) of
             None \<Rightarrow> ([], d, None)
           | Some n \<Rightarrow>
               (case unescapeRingPayload (take n (drop 2 d)) of
                  Inl e \<Rightarrow> ([], [], Some e)
                | Inr unescaped \<Rightarrow>
                    (case decodeRingFrame (d ! 1) unescaped (take (n + 4) d) config of
                       Inl e \<Rightarrow> ([], [], Some e)
                     | Inr frame \<Rightarrow>
                         (if drop (n + 4) d = [] then ([frame], [], None)
                          else add_frame frame (ParseRingFrames config (drop (n + 4) d)))))))"
  by pat_completeness auto
termination
  by (relation "measure (\<lambda>(c, d). length d)") (auto dest: findRingStart_length)

declare ParseRingFrames.simps [simp del]

section \<open>The stream format\<close>

text \<open>What a controller puts on the ring: markers, payload with 0x88 doubled, end marker.\<close>

fun ring_escape :: "byte list \<Rightarrow> byte list" where
  "ring_escape [] = []"
| "ring_escape (a # r) = (if a = 0x88 then 0x88 # 0x88 # ring_escape r else a # ring_escape r)"

definition ring_encode :: "byte \<times> byte list \<Rightarrow> byte list" where
  "ring_encode kp = (case kp of (kind, payload) \<Rightarrow> [0x88, kind] @ ring_escape payload @ [0x88, 0x10])"

lemma unescape_escape [simp]: "unescapeRingPayload (ring_escape p) = Inr p"
  by (induction p) auto

lemma findRingEnd_Cons: "a \<noteq> 0x88 \<Longrightarrow> findRingEnd (a # xs) = map_option Suc (findRingEnd xs)"
  by (cases xs) auto

lemma findRingEnd_escape:
  "findRingEnd (ring_escape p @ 0x88 # 0x10 # rest) = Some (length (ring_escape p))"
  by (induction p) (auto simp: findRingEnd_Cons)

lemma ParseRingFrames_Nil [simp]: "ParseRingFrames cfg [] = ([], [], None)"
  by (subst ParseRingFrames.simps) simp

lemma add_frame_simps [simp]: "add_frame f (fs, t, e) = (f # fs, t, e)"
  by (simp add: add_frame_def)

lemma ParseRingFrames_encode:
  assumes "k = 0 \<or> k = 1" and "decodeRingFrame k p (ring_encode (k, p)) cfg = Inr f"
  shows "ParseRingFrames cfg (ring_encode (k, p) @ rest) = add_frame f (ParseRingFrames cfg rest)"
proof -
  define d where "d = ring_encode (k, p) @ rest"
  have st: "findRingStart d = Some 0" using assms(1) by (auto simp: d_def ring_encode_def)
  have en: "findRingEnd (drop 2 d) = Some (length (ring_escape p))"
    by (simp add: d_def ring_encode_def findRingEnd_escape)
  have len: "length (ring_encode (k, p)) = length (ring_escape p) + 4" by (simp add: ring_encode_def)
  have tk: "take (length (ring_escape p)) (drop 2 d) = ring_escape p" "d ! 1 = k"
    by (simp_all add: d_def ring_encode_def)
  have tk2: "take (length (ring_escape p) + 4) d = ring_encode (k, p)"
    "drop (length (ring_escape p) + 4) d = rest"
    using len by (simp_all add: d_def)
  have "ParseRingFrames cfg d = add_frame f (ParseRingFrames cfg rest)"
    by (subst ParseRingFrames.simps) (simp add: st en tk tk2 assms(2) Let_def del: One_nat_def)
  then show ?thesis by (simp add: d_def)
qed

section \<open>Samples\<close>

text \<open>A sample on the wire: the slot index, an optional explicit type, four value bytes.\<close>

datatype wire_sample = Plain "7 word" u32 | Typed "7 word" bool u32

fun sample_bytes :: "wire_sample \<Rightarrow> byte list" where
  "sample_bytes (Plain i v) = ucast i # le_put 4 v"
| "sample_bytes (Typed i isInt v) = (ucast i OR 0x80) # (if isInt then 0x02 else 0x01) # le_put 4 v"

fun sample_of :: "RingCaptureParameter list \<Rightarrow> wire_sample \<Rightarrow> RingSample" where
  "sample_of cfg (Plain i v) = ring_sample (unat i) (config_type cfg (unat i)) v"
| "sample_of cfg (Typed i isInt v) =
     ring_sample (unat i) (if isInt then DataTypeInt32 else DataTypeFloat32) v"

lemma tag_bits:
  fixes i :: "7 word"
  shows "(ucast i :: byte) AND 0x80 = 0" "(ucast i :: byte) AND 0x7F = ucast i"
    "(ucast i OR 0x80 :: byte) AND 0x80 \<noteq> 0" "(ucast i OR 0x80 :: byte) AND 0x7F = ucast i"
proof -
  have h: "(0x80 :: byte) = 2 ^ 7" "(0x7F :: byte) = mask 7" by (simp_all add: mask_eq_exp_minus_1)
  have b: "bit (ucast i :: byte) k \<Longrightarrow> k < 7" for k
    by (auto simp: bit_simps dest: bit_imp_le_length)
  have p: "bit (0x80 :: byte) k \<longleftrightarrow> k = 7" for k unfolding h(1) bit_exp_iff by auto
  have not7: "\<not> bit (ucast i :: byte) 7" using b by blast
  show "(ucast i :: byte) AND 0x80 = 0"
    unfolding h by (simp only: and_exp_eq_0_iff_not_bit not7 not_False_eq_True)
  show "(ucast i OR 0x80 :: byte) AND 0x80 \<noteq> 0"
    unfolding h(1) by (simp only: and_exp_eq_0_iff_not_bit bit_or_iff p [unfolded h(1)]) simp
  show "(ucast i :: byte) AND 0x7F = ucast i"
    unfolding h(2) by (rule bit_eqI) (auto simp: bit_and_iff bit_mask_iff dest: b)
  show "(ucast i OR 0x80 :: byte) AND 0x7F = ucast i"
  proof (rule bit_eqI)
    fix n
    show "bit ((ucast i OR 0x80 :: byte) AND 0x7F) n = bit (ucast i :: byte) n"
      unfolding h(2) bit_and_iff bit_or_iff bit_mask_iff p using b [of n] by auto
  qed
qed

lemma unat_ucast_7: "unat (ucast (i :: 7 word) :: byte) = unat i"
proof -
  have "unat i < 2 ^ 8" using unat_word_bound [of i] by simp
  then show ?thesis by (simp add: unsigned_ucast_eq take_bit_nat_eq_self)
qed

lemma decode_samples_Cons:
  "decode_samples cfg (sample_bytes s @ rest) =
     res_bind (decode_samples cfg rest) (\<lambda>xs. Inr (sample_of cfg s # xs))"
  by (cases s) (simp_all add: tag_bits unat_ucast_7 tagged_type_def Let_def)

lemma decode_samples_all:
  "decode_samples cfg (concat (map sample_bytes ss)) = Inr (map (sample_of cfg) ss)"
  by (induction ss) (simp_all add: decode_samples_Cons)

section \<open>Whole streams\<close>

text \<open>A frame as the controller means it: a timestamp, an optional capture id, samples.\<close>

record wire_frame =
  wf_capture :: "u16 option"
  wf_time :: u16
  wf_samples :: "wire_sample list"

definition wire_kind :: "wire_frame \<Rightarrow> byte" where
  "wire_kind w = (if wf_capture w = None then 0x00 else 0x01)"

definition wire_payload :: "wire_frame \<Rightarrow> byte list" where
  "wire_payload w =
     (case wf_capture w of None \<Rightarrow> [] | Some c \<Rightarrow> le_put 2 c) @ le_put 2 (wf_time w) @
     concat (map sample_bytes (wf_samples w))"

definition wire_bytes :: "wire_frame \<Rightarrow> byte list" where
  "wire_bytes w = ring_encode (wire_kind w, wire_payload w)"

definition frame_of :: "RingCaptureParameter list \<Rightarrow> wire_frame \<Rightarrow> RingFrame" where
  "frame_of cfg w =
     \<lparr>rf_Sync = (wf_capture w \<noteq> None), rf_HasCaptureConfigID = (wf_capture w \<noteq> None),
      rf_CaptureConfigID = (case wf_capture w of None \<Rightarrow> 0 | Some c \<Rightarrow> c),
      rf_Timestamp10us = wf_time w, rf_Samples = map (sample_of cfg) (wf_samples w),
      rf_Raw = wire_bytes w\<rparr>"

lemma decodeRingFrame_wire:
  "decodeRingFrame (wire_kind w) (wire_payload w) (wire_bytes w) cfg = Inr (frame_of cfg w)"
proof (cases "wf_capture w")
  case None
  then show ?thesis
    by (simp add: decodeRingFrame_def wire_kind_def wire_payload_def frame_of_def decode_samples_all)
next
  case (Some c)
  have "drop 4 (le_put 2 c @ le_put 2 (wf_time w) @ xs) = xs"
    "slice 2 4 (le_put 2 c @ le_put 2 (wf_time w) @ xs) = le_put 2 (wf_time w)" for xs
    by (simp_all add: slice_def)
  with Some show ?thesis
    by (simp add: decodeRingFrame_def wire_kind_def wire_payload_def frame_of_def decode_samples_all)
qed

lemma ParseRingFrames_wire:
  "ParseRingFrames cfg (wire_bytes w @ rest) = add_frame (frame_of cfg w) (ParseRingFrames cfg rest)"
  unfolding wire_bytes_def
  by (rule ParseRingFrames_encode, simp add: wire_kind_def)
    (rule decodeRingFrame_wire [unfolded wire_bytes_def])

text \<open>
  C18.  The decoder inverts the stream format: for every list of frames, sync or normal, with any
  samples (explicitly typed or typed by the capture configuration, value bytes equal to the
  marker 0x88 included), decoding the concatenated stream returns exactly those frames, no
  tail and no error.
\<close>

theorem ring_stream_roundtrip:
  "ParseRingFrames cfg (concat (map wire_bytes ws)) = (map (frame_of cfg) ws, [], None)"
  by (induction ws) (simp_all add: ParseRingFrames_wire)

section \<open>Feeding the decoder in chunks\<close>

lemma findRingStart_append: "findRingStart a = Some i \<Longrightarrow> findRingStart (a @ b) = Some i"
  by (induction a arbitrary: i rule: findRingStart.induct) (auto split: if_splits)

lemma findRingStart_None_append:
  assumes "findRingStart a = None" and "a = [] \<or> last a \<noteq> 0x88"
  shows "findRingStart (a @ b) = map_option (\<lambda>n. n + length a) (findRingStart b)"
  using assms
proof (induction a rule: findRingStart.induct)
  case (1 x y r)
  then show ?case by (auto simp: option.map_comp comp_def split: if_splits)
qed (cases b; auto simp: option.map_ident)+

lemma findRingEnd_append: "findRingEnd a = Some i \<Longrightarrow> findRingEnd (a @ b) = Some i"
  by (induction a arbitrary: i rule: findRingEnd.induct) (auto split: if_splits)

lemma ParseRingFrames_skip:
  assumes "findRingStart a = None" and "a = [] \<or> last a \<noteq> 0x88"
  shows "ParseRingFrames cfg (a @ b) = ParseRingFrames cfg b"
proof -
  have st: "findRingStart (a @ b) = map_option (\<lambda>n. n + length a) (findRingStart b)"
    using assms by (rule findRingStart_None_append)
  show ?thesis
  proof (cases "findRingStart b")
    case None
    with st show ?thesis by (subst (1 2) ParseRingFrames.simps) simp
  next
    case (Some i)
    have "drop (i + length a) (a @ b) = drop i b" by simp
    with st Some show ?thesis
      by (simp only: ParseRingFrames.simps [of cfg "a @ b"] ParseRingFrames.simps [of cfg b]
          option.map option.case)
  qed
qed

definition resume :: "RingFrame list \<Rightarrow> ring_result \<Rightarrow> ring_result" where
  "resume fs r = (case r of (gs, t, e) \<Rightarrow> (fs @ gs, t, e))"

lemma resume_simps [simp]: "resume [] r = r" "resume (f # fs) r = add_frame f (resume fs r)"
  by (simp_all add: resume_def add_frame_def split: prod.splits)

lemma add_frame_eq: "add_frame f r = (fs, t, e) \<longleftrightarrow> (\<exists>gs. fs = f # gs \<and> r = (gs, t, e))"
  by (auto simp: add_frame_def split: prod.splits)

lemma ring_resume_aux:
  "ParseRingFrames cfg a = (fs, t, None) \<Longrightarrow> t \<noteq> [] \<or> a = [] \<or> last a \<noteq> 0x88 \<Longrightarrow>
   ParseRingFrames cfg (a @ b) = resume fs (ParseRingFrames cfg (t @ b))"
proof (induction cfg a arbitrary: fs rule: ParseRingFrames.induct)
  case (1 cfg a)
  show ?case
  proof (cases "findRingStart a")
    case None
    with "1.prems" have "fs = []" "t = []" by (simp_all add: ParseRingFrames.simps [of cfg a])
    with None "1.prems"(2) show ?thesis by (simp add: ParseRingFrames_skip)
  next
    case (Some st)
    define d where "d = drop st a"
    have dl: "2 \<le> length d" using findRingStart_length [OF Some] by (simp add: d_def)
    have da: "drop st (a @ b) = d @ b" "findRingStart (a @ b) = Some st"
      using findRingStart_length [OF Some] findRingStart_append [OF Some] by (simp_all add: d_def)
    show ?thesis
    proof (cases "findRingEnd (drop 2 d)")
      case None
      with Some "1.prems" have t: "fs = []" "t = d"
        by (simp_all add: ParseRingFrames.simps [of cfg a] d_def Let_def)
      have "findRingStart d = Some 0"
        using Some unfolding d_def
        by (induction a arbitrary: st rule: findRingStart.induct) (auto split: if_splits)
      then have "findRingStart (d @ b) = Some 0" by (rule findRingStart_append)
      with da t show ?thesis
        by (subst (1 2) ParseRingFrames.simps) (simp add: Let_def)
    next
      case (Some n)
      have n: "n + 4 \<le> length d" using findRingEnd_length [OF Some] dl by simp
      have e2: "findRingEnd (drop 2 (d @ b)) = Some n"
        using findRingEnd_append [OF Some, of b] dl by simp
      have tk: "take n (drop 2 (d @ b)) = take n (drop 2 d)" "(d @ b) ! 1 = d ! 1"
        "take (n + 4) (d @ b) = take (n + 4) d" "drop (n + 4) (d @ b) = drop (n + 4) d @ b"
        using n dl by (simp_all add: nth_append)
      obtain un f where un: "unescapeRingPayload (take n (drop 2 d)) = Inr un"
        and f: "decodeRingFrame (d ! 1) un (take (n + 4) d) cfg = Inr f"
        using "1.prems"(1) \<open>findRingStart a = Some st\<close> Some
        by (auto simp: ParseRingFrames.simps [of cfg a] d_def Let_def split: sum.splits)
      have step: "ParseRingFrames cfg a =
          (if drop (n + 4) d = [] then ([f], [], None)
           else add_frame f (ParseRingFrames cfg (drop (n + 4) d)))"
        using \<open>findRingStart a = Some st\<close> Some un f
        by (simp add: ParseRingFrames.simps [of cfg a] d_def Let_def)
      have stepb: "ParseRingFrames cfg (a @ b) = add_frame f (ParseRingFrames cfg (drop (n + 4) d @ b))"
        using da e2 tk un f
        by (subst ParseRingFrames.simps) (auto simp: Let_def)
      show ?thesis
      proof (cases "drop (n + 4) d = []")
        case True
        with "1.prems" step stepb show ?thesis by auto
      next
        case False
        with "1.prems" step obtain gs where gs: "fs = f # gs"
          "ParseRingFrames cfg (drop (n + 4) d) = (gs, t, None)" by (auto simp: add_frame_eq)
        have l: "last (drop (n + 4) d) = last a" using False by (simp add: d_def last_drop)
        have "ParseRingFrames cfg (drop (n + 4) d @ b) = resume gs (ParseRingFrames cfg (t @ b))"
          using "1.IH" [OF \<open>findRingStart a = Some st\<close> d_def Some un f False gs(2)] "1.prems"(2) l
          by (auto simp: d_def)
        with stepb gs show ?thesis by simp
      qed
    qed
  qed
qed

text \<open>
  Chunked decoding: when a chunk is decoded without error and does not end in a marker byte
  that was dropped (it returns a tail, or it does not end in 0x88), decoding the returned tail
  together with the next chunk continues exactly as if the whole stream had been decoded at
  once, for frames, tail and error alike.
\<close>

theorem ring_resume:
  assumes "ParseRingFrames cfg a = (fs, t, None)" and "t \<noteq> [] \<or> a = [] \<or> last a \<noteq> 0x88"
  shows "ParseRingFrames cfg (a @ b) = resume fs (ParseRingFrames cfg (t @ b))"
  using assms by (rule ring_resume_aux)

definition demo_wire :: wire_frame where
  "demo_wire = \<lparr>wf_capture = None, wf_time = 5, wf_samples = []\<rparr>"

lemma demo_wire_bytes: "wire_bytes demo_wire = [0x88, 0x00, 5, 0, 0x88, 0x10]"
  by code_simp

theorem ring_resume_witness:
  "ParseRingFrames [] [0x88, 0x00, 5] = ([], [0x88, 0x00, 5], None) \<and>
   ParseRingFrames [] ([0x88, 0x00, 5] @ [0, 0x88, 0x10]) =
     resume [] (ParseRingFrames [] ([0x88, 0x00, 5] @ [0, 0x88, 0x10]))"
proof -
  have h: "ParseRingFrames [] [0x88, 0x00, 5] = ([], [0x88, 0x00, 5], None)"
    by (subst ParseRingFrames.simps) simp
  show ?thesis using h ring_resume [OF h, of "[0, 0x88, 0x10]"] by simp
qed

lemma findRingStart_pair: "findRingStart p = Some i \<Longrightarrow> \<exists>xs k ys. p = xs @ 0x88 # k # ys \<and> (k = 0x00 \<or> k = 0x01)"
proof (induction p arbitrary: i rule: findRingStart.induct)
  case (1 a b r)
  show ?case
  proof (cases "a = 0x88 \<and> (b = 0x00 \<or> b = 0x01)")
    case True
    then have "a # b # r = [] @ 0x88 # b # r" by simp
    with True show ?thesis by blast
  next
    case False
    then obtain j where "findRingStart (b # r) = Some j" using "1.prems" by (auto split: if_splits)
    then obtain xs k ys where "b # r = xs @ 0x88 # k # ys" "k = 0x00 \<or> k = 0x01" using "1.IH" [OF False] by blast
    then have "a # b # r = (a # xs) @ 0x88 # k # ys \<and> (k = 0x00 \<or> k = 0x01)" by simp
    then show ?thesis by blast
  qed
qed auto

lemma findRingStart_escape:
  "findRingStart p = None \<Longrightarrow> a \<noteq> 0x88 \<or> p = [] \<or> hd p \<notin> {0x00, 0x01} \<Longrightarrow>
   findRingStart (a # ring_escape p @ [0x88, 0x10]) = None"
proof (induction p arbitrary: a)
  case (Cons b p)
  have p: "findRingStart p = None" "b \<noteq> 0x88 \<or> p = [] \<or> hd p \<notin> {0x00, 0x01}"
    using Cons.prems(1) by (cases p; auto split: if_splits)+
  show ?case using Cons.IH [OF p] Cons.prems(2) by auto
qed auto

lemma split_rest: "tl (wire_bytes w) = wire_kind w # ring_escape (wire_payload w) @ [0x88, 0x10]"
  by (simp add: wire_bytes_def ring_encode_def)

lemma parsed_raw_length: "ParseRingFrames cfg d = (fs, t, e) \<Longrightarrow> f \<in> set fs \<Longrightarrow> length (rf_Raw f) \<le> length d"
proof (induction cfg d arbitrary: fs rule: ParseRingFrames.induct)
  case (1 cfg a)
  obtain st where st: "findRingStart a = Some st"
    using "1.prems" by (cases "findRingStart a") (auto simp: ParseRingFrames.simps [of cfg a])
  define d where "d = drop st a"
  obtain n where n: "findRingEnd (drop 2 d) = Some n"
    using "1.prems" st by (cases "findRingEnd (drop 2 d)") (auto simp: ParseRingFrames.simps [of cfg a] d_def Let_def)
  obtain un where un: "unescapeRingPayload (take n (drop 2 d)) = Inr un"
    using "1.prems" st n by (auto simp: ParseRingFrames.simps [of cfg a] d_def Let_def split: sum.splits)
  obtain g where g: "decodeRingFrame (d ! 1) un (take (n + 4) d) cfg = Inr g"
    using "1.prems" st n un by (auto simp: ParseRingFrames.simps [of cfg a] d_def Let_def split: sum.splits)
  have raw: "rf_Raw g = take (n + 4) d"
    using g by (auto simp: decodeRingFrame_def res_bind_eq_Inr split: if_splits)
  have step: "ParseRingFrames cfg a =
      (if drop (n + 4) d = [] then ([g], [], None) else add_frame g (ParseRingFrames cfg (drop (n + 4) d)))"
    using st n un g by (simp add: ParseRingFrames.simps [of cfg a] d_def Let_def)
  have own: "length (rf_Raw g) \<le> length a" unfolding raw by (simp add: d_def)
  show ?case
  proof (cases "drop (n + 4) d = []")
    case True
    then show ?thesis using step "1.prems" own by auto
  next
    case False
    then obtain gs where gs: "fs = g # gs" "ParseRingFrames cfg (drop (n + 4) d) = (gs, t, e)"
      using step "1.prems"(1) by (metis add_frame_eq)
    have "f = g \<or> length (rf_Raw f) \<le> length (drop (n + 4) d)"
      using "1.IH" [OF st d_def n un g False gs(2)] "1.prems"(2) gs(1) by auto
    then show ?thesis using own by (auto simp: d_def)
  qed
qed

lemma ParseRingFrames_trailing: "ParseRingFrames cfg (concat (map wire_bytes us) @ [0x88]) = (map (frame_of cfg) us, [], None)"
proof (induction us)
  case Nil
  show ?case by (subst ParseRingFrames.simps) simp
qed (simp add: ParseRingFrames_wire)

text \<open>
  C19.  A frame is lost when a chunk ends between the two bytes of its start marker, whatever the frames
  are: a stream of any frames \<open>us\<close>, \<open>w\<close>, \<open>vs\<close> decodes at once to all of them, but a first chunk that
  ends with the first byte of \<open>w\<close> is decoded to \<open>us\<close> with no tail, and what is left of \<open>w\<close> then never
  decodes to \<open>w\<close>; if the payload of \<open>w\<close> has no marker followed by 0x00 or 0x01, the next chunk
  decodes to \<open>vs\<close> without error, so that the loss is silent.  (The comment on \<open>ParseRingFrames\<close> says
  that trailing partial bytes are returned.)
\<close>

theorem ring_split_marker_loses_frame:
  "concat (map wire_bytes (us @ w # vs)) =
      (concat (map wire_bytes us) @ [0x88]) @ (tl (wire_bytes w) @ concat (map wire_bytes vs)) \<and>
    ParseRingFrames cfg (concat (map wire_bytes (us @ w # vs))) = (map (frame_of cfg) (us @ w # vs), [], None) \<and>
    ParseRingFrames cfg (concat (map wire_bytes us) @ [0x88]) = (map (frame_of cfg) us, [], None) \<and>
    frame_of cfg w \<notin> set (fst (ParseRingFrames cfg ([] @ tl (wire_bytes w)))) \<and>
    ((\<forall>xs k ys. wire_payload w = xs @ 0x88 # k # ys \<longrightarrow> k \<noteq> 0x00 \<and> k \<noteq> 0x01) \<longrightarrow>
      ParseRingFrames cfg ([] @ tl (wire_bytes w) @ concat (map wire_bytes vs)) = (map (frame_of cfg) vs, [], None))"
proof -
  have all: "ParseRingFrames cfg (concat (map wire_bytes xs)) = (map (frame_of cfg) xs, [], None)" for xs
    by (induction xs) (simp_all add: ParseRingFrames_wire)
  have w: "wire_bytes w = 0x88 # tl (wire_bytes w)" by (simp add: wire_bytes_def ring_encode_def)
  then have split: "concat (map wire_bytes (us @ w # vs)) =
      (concat (map wire_bytes us) @ [0x88]) @ (tl (wire_bytes w) @ concat (map wire_bytes vs))" by simp
  have "\<not> length (rf_Raw (frame_of cfg w)) \<le> length (tl (wire_bytes w))"
    using arg_cong [OF w, of length] by (simp add: frame_of_def)
  then have lost: "frame_of cfg w \<notin> set (fst (ParseRingFrames cfg ([] @ tl (wire_bytes w))))"
    using parsed_raw_length by (metis append_Nil prod.exhaust_sel)
  have silent: "ParseRingFrames cfg ([] @ tl (wire_bytes w) @ concat (map wire_bytes vs)) = (map (frame_of cfg) vs, [], None)"
    if p: "\<forall>xs k ys. wire_payload w = xs @ 0x88 # k # ys \<longrightarrow> k \<noteq> 0x00 \<and> k \<noteq> 0x01"
  proof -
    have "findRingStart (wire_payload w) = None" using findRingStart_pair p by fastforce
    then have "findRingStart (tl (wire_bytes w)) = None"
      unfolding split_rest by (rule findRingStart_escape) (simp add: wire_kind_def)
    moreover have "last (tl (wire_bytes w)) \<noteq> 0x88" unfolding split_rest by simp
    ultimately show ?thesis using ParseRingFrames_skip all by simp
  qed
  show ?thesis using split all ParseRingFrames_trailing lost silent by blast
qed

theorem ring_split_marker_loses_frame_witness:
  "fst (ParseRingFrames [] [0x00, 5, 0, 0x88, 0x10]) = [] \<and>
   fst (ParseRingFrames [] [0x88, 0x00, 5, 0, 0x88, 0x10]) = [frame_of [] demo_wire]"
proof -
  have p: "wire_payload demo_wire = [5, 0]" by code_simp
  have "0x88 \<notin> set (wire_payload demo_wire)" unfolding p by simp
  then have "\<forall>xs k ys. wire_payload demo_wire = xs @ 0x88 # k # ys \<longrightarrow> k \<noteq> 0x00 \<and> k \<noteq> 0x01" by auto
  with ring_split_marker_loses_frame [where us = "[]" and w = demo_wire and vs = "[]" and cfg = "[]"]
  show ?thesis by (simp add: demo_wire_bytes)
qed

end
