(* ===== verification/WriteLease.thy ===== *)
theory WriteLease
  imports Prelude "HOL-Library.Multiset"
begin

text \<open>
  The write-authority registry of \<open>mecom/writelease/writelease.go\<close>: \<open>Lease\<close>, \<open>Registry\<close> and
  its operations \<open>Acquire\<close>, \<open>Release\<close>, \<open>Validate\<close> and \<open>List\<close> with the lazy sweep.  The registry
  is passed explicitly; the times read from \<open>r.now()\<close> and the result of \<open>newToken\<close>
  (\<open>crypto/rand\<close>) are arguments, one per call the source makes.  Every operation runs under the
  registry's mutex, so an execution is a sequence of operations.
\<close>

section \<open>The registry\<close>

record Lease =
  l_DeviceID :: string
  l_Holder :: string
  l_Token :: string
  l_AcquiredAt :: gotime
  l_ExpiresAt :: gotime

type_synonym Registry = "(string \<times> Lease) list"

datatype lease_error =
    DeviceIDRequired
  | HolderRequired
  | ErrLeaseHeld string string gotime
  | TokenGeneration
  | ErrInvalidToken
  | ErrExpired
  | ErrUnknownDevice

definition Active :: "Lease \<Rightarrow> gotime \<Rightarrow> bool" where
  "Active l now \<longleftrightarrow> l_ExpiresAt l \<noteq> zero_time \<and> now < l_ExpiresAt l"

definition NewRegistry :: Registry where
  "NewRegistry = []"

definition sweepLockedAt :: "gotime \<Rightarrow> Registry \<Rightarrow> Registry" where
  "sweepLockedAt now r = filter (\<lambda>e. Active (snd e) now) r"

text \<open>
  \<open>Acquire\<close>: \<open>t0\<close> is the time the sweep reads, \<open>now\<close> the time read after it, \<open>tok\<close> the result of
  \<open>newToken\<close> should it be called.
\<close>

definition Acquire ::
    "string \<Rightarrow> string \<Rightarrow> int \<Rightarrow> gotime \<Rightarrow> gotime \<Rightarrow> lease_error + string \<Rightarrow> Registry \<Rightarrow>
     (lease_error + Lease) \<times> Registry" where
  "Acquire deviceID holder ttl0 t0 now tok r0 =
     (if deviceID = [] then (Inl DeviceIDRequired, r0)
      else if holder = [] then (Inl HolderRequired, r0)
      else
        let ttl = (if ttl0 \<le> 0 then 60 * second else ttl0);
            r = sweepLockedAt t0 r0;
            fresh = (case tok of
                Inl e \<Rightarrow> (Inl e, r)
              | Inr token \<Rightarrow>
                  let lease = \<lparr>l_DeviceID = deviceID, l_Holder = holder, l_Token = token,
                               l_AcquiredAt = now, l_ExpiresAt = now + ttl\<rparr>
                  in (Inr lease, amap_put deviceID lease r))
        in case map_of r deviceID of
             None \<Rightarrow> fresh
           | Some existing \<Rightarrow>
               if Active existing now then
                 (if l_Holder existing = holder then
                    let renewed = existing\<lparr>l_ExpiresAt := now + ttl\<rparr>
                    in (Inr renewed, amap_put deviceID renewed r)
                  else (Inl (ErrLeaseHeld (l_Holder existing) deviceID (l_ExpiresAt existing)), r))
               else fresh)"

definition Release :: "string \<Rightarrow> gotime \<Rightarrow> Registry \<Rightarrow> (lease_error + unit) \<times> Registry" where
  "Release token t0 r0 =
     (let r = sweepLockedAt t0 r0 in
      case find (\<lambda>e. l_Token (snd e) = token) r of
        Some e \<Rightarrow> (Inr (), amap_delete (fst e) r)
      | None \<Rightarrow> (Inl ErrInvalidToken, r))"

definition Validate :: "string \<Rightarrow> string \<Rightarrow> gotime \<Rightarrow> Registry \<Rightarrow> (lease_error + unit) \<times> Registry" where
  "Validate deviceID token now r =
     (case map_of r deviceID of
        None \<Rightarrow> (Inl ErrUnknownDevice, sweepLockedAt now r)
      | Some lease \<Rightarrow>
          if \<not> Active lease now then (Inl ErrExpired, sweepLockedAt now (amap_delete deviceID r))
          else if l_Token lease \<noteq> token then (Inl ErrInvalidToken, sweepLockedAt now r)
          else (Inr (), sweepLockedAt now r))"

text \<open>The insertion sort of \<open>List\<close>: \<open>sift j\<close> is the inner loop with its swaps.\<close>

fun sift :: "nat \<Rightarrow> Lease list \<Rightarrow> Lease list" where
  "sift 0 out = out"
| "sift (Suc j) out =
     (if l_DeviceID (out ! Suc j) < l_DeviceID (out ! j)
      then sift j (out[j := out ! Suc j, Suc j := out ! j])
      else out)"

definition sort_leases :: "Lease list \<Rightarrow> Lease list" where
  "sort_leases out = foldl (\<lambda>o1 i. sift i o1) out [1..<length out]"

definition List :: "gotime \<Rightarrow> Registry \<Rightarrow> Lease list \<times> Registry" where
  "List t0 r0 =
     (let r = sweepLockedAt t0 r0 in (sort_leases (map snd r), r))"

section \<open>Well-formed registries\<close>

definition lease_inv :: "Registry \<Rightarrow> bool" where
  "lease_inv r \<longleftrightarrow> distinct (map fst r) \<and> (\<forall>e \<in> set r. l_DeviceID (snd e) = fst e)"

lemma lease_inv_New [simp]: "lease_inv NewRegistry"
  by (simp add: lease_inv_def NewRegistry_def)

lemma lease_inv_sweep [intro]: "lease_inv r \<Longrightarrow> lease_inv (sweepLockedAt t r)"
  by (auto simp: lease_inv_def sweepLockedAt_def distinct_filter_keys)

lemma lease_inv_delete [intro]: "lease_inv r \<Longrightarrow> lease_inv (amap_delete k r)"
  by (auto simp: lease_inv_def amap_delete_def distinct_filter_keys)

lemma lease_inv_put [intro]: "lease_inv r \<Longrightarrow> l_DeviceID l = k \<Longrightarrow> lease_inv (amap_put k l r)"
  by (auto simp: lease_inv_def amap_put_def distinct_filter_keys)

lemma lease_inv_lookup: "lease_inv r \<Longrightarrow> map_of r k = Some l \<Longrightarrow> l_DeviceID l = k"
  by (auto simp: lease_inv_def dest: map_of_SomeD)

lemma map_of_sweep:
  "lease_inv r \<Longrightarrow>
   map_of (sweepLockedAt t r) k =
     (case map_of r k of None \<Rightarrow> None | Some l \<Rightarrow> if Active l t then Some l else None)"
  using map_of_filter_value [of r "\<lambda>l. Active l t" k] by (simp add: sweepLockedAt_def lease_inv_def)

lemma lease_inv_Acquire: "lease_inv r \<Longrightarrow> lease_inv (snd (Acquire d h ttl t0 now tok r))"
  by (auto simp: Acquire_def Let_def intro!: lease_inv_put lease_inv_sweep
      dest: lease_inv_lookup [rotated, OF _ lease_inv_sweep] split: option.splits sum.splits)

lemma lease_inv_Release: "lease_inv r \<Longrightarrow> lease_inv (snd (Release tok t0 r))"
  by (auto simp: Release_def Let_def split: option.splits)

lemma lease_inv_Validate: "lease_inv r \<Longrightarrow> lease_inv (snd (Validate d tok now r))"
  by (auto simp: Validate_def split: option.splits)

lemma lease_inv_List: "lease_inv r \<Longrightarrow> lease_inv (snd (List t0 r))"
  by (auto simp: List_def Let_def)

lemmas lease_inv_ops = lease_inv_Acquire lease_inv_Release lease_inv_Validate lease_inv_List

section \<open>The active token of a device\<close>

text \<open>The abstract state of the registry: which token may write to a device at a time.\<close>

definition active_lease :: "Registry \<Rightarrow> string \<Rightarrow> gotime \<Rightarrow> Lease option" where
  "active_lease r d now =
     (case map_of r d of None \<Rightarrow> None | Some l \<Rightarrow> if Active l now then Some l else None)"

lemma active_sweep:
  "lease_inv r \<Longrightarrow> t \<le> now \<Longrightarrow> active_lease (sweepLockedAt t r) d now = active_lease r d now"
  by (auto simp: active_lease_def map_of_sweep Active_def split: option.splits)

lemma Validate_iff:
  "fst (Validate d tok now r) = Inr () \<longleftrightarrow> (\<exists>l. active_lease r d now = Some l \<and> l_Token l = tok)"
  by (auto simp: Validate_def active_lease_def split: option.splits)

section \<open>What a client of the registry relies on\<close>

text \<open>
  The contract between the registry and the code that authorises writes with it: \<open>owner\<close> is the
  token that may write to a device at a time, \<open>validate\<close> accepts exactly that token, and
  validating keeps the invariant and everybody's authority.
\<close>

locale write_authority =
  fixes inv :: "'s \<Rightarrow> bool"
    and owner :: "'s \<Rightarrow> string \<Rightarrow> gotime \<Rightarrow> string option"
    and validate :: "string \<Rightarrow> string \<Rightarrow> gotime \<Rightarrow> 's \<Rightarrow> (lease_error + unit) \<times> 's"
  assumes validate_ok: "inv s \<Longrightarrow> fst (validate d tok now s) = Inr () \<longleftrightarrow> owner s d now = Some tok"
    and validate_inv: "inv s \<Longrightarrow> inv (snd (validate d tok now s))"
    and validate_keeps: "inv s \<Longrightarrow> now \<le> later \<Longrightarrow>
      owner (snd (validate d tok now s)) d' later = owner s d' later"
begin

lemma two_tokens: "inv s \<Longrightarrow> fst (validate d tok now s) = Inr () \<Longrightarrow>
    fst (validate d tok' now s) = Inr () \<Longrightarrow> tok = tok'"
  by (simp add: validate_ok)

lemma validate_twice: "inv s \<Longrightarrow> now \<le> later \<Longrightarrow>
    fst (validate d' tok' later (snd (validate d tok now s))) = Inr () \<longleftrightarrow>
    fst (validate d' tok' later s) = Inr ()"
  by (simp add: validate_ok validate_inv validate_keeps)

end

definition active_token :: "Registry \<Rightarrow> string \<Rightarrow> gotime \<Rightarrow> string option" where
  "active_token r d now = map_option l_Token (active_lease r d now)"

interpretation registry: write_authority lease_inv active_token Validate
proof unfold_locales
  fix r d tok now
  show "fst (Validate d tok now r) = Inr () \<longleftrightarrow> active_token r d now = Some tok"
    by (auto simp: Validate_iff active_token_def)
next
  fix r d tok now
  assume "lease_inv r"
  then show "lease_inv (snd (Validate d tok now r))" by (rule lease_inv_Validate)
next
  fix r :: Registry and now later :: gotime and d tok d' :: string
  assume inv: "lease_inv r" and le: "now \<le> later"
  have "active_lease (snd (Validate d tok now r)) d' later = active_lease r d' later"
  proof (cases "\<exists>l. map_of r d = Some l \<and> \<not> Active l now")
    case True
    then obtain l where l: "map_of r d = Some l" "\<not> Active l now" by blast
    then have "\<not> Active l later" using le by (auto simp: Active_def)
    then have "active_lease (amap_delete d r) d' later = active_lease r d' later"
      using l by (auto simp: active_lease_def)
    moreover have "active_lease (sweepLockedAt now (amap_delete d r)) d' later =
        active_lease (amap_delete d r) d' later"
      by (rule active_sweep [OF lease_inv_delete [OF inv] le])
    ultimately show ?thesis using l by (simp add: Validate_def)
  next
    case False
    then have "snd (Validate d tok now r) = sweepLockedAt now r"
      by (auto simp: Validate_def split: option.splits)
    then show ?thesis by (simp add: active_sweep [OF inv le])
  qed
  then show "active_token (snd (Validate d tok now r)) d' later = active_token r d' later"
    by (simp add: active_token_def)
qed

section \<open>Operations of other clients\<close>

datatype lease_op =
    OpAcquire string string int gotime gotime "lease_error + string"
  | OpRelease string gotime
  | OpValidate string string gotime
  | OpList gotime

fun run_op :: "lease_op \<Rightarrow> Registry \<Rightarrow> Registry" where
  "run_op (OpAcquire d h ttl t0 now tok) r = snd (Acquire d h ttl t0 now tok r)"
| "run_op (OpRelease tok t0) r = snd (Release tok t0 r)"
| "run_op (OpValidate d tok now) r = snd (Validate d tok now r)"
| "run_op (OpList t0) r = snd (List t0 r)"

definition run_ops :: "lease_op list \<Rightarrow> Registry \<Rightarrow> Registry" where
  "run_ops ops r = fold run_op ops r"

text \<open>
  An operation that neither releases the lease \<open>l\<close> nor renews it, and whose clock readings come
  before the expiry of \<open>l\<close>.
\<close>

fun foreign :: "Lease \<Rightarrow> lease_op \<Rightarrow> bool" where
  "foreign l (OpAcquire d h ttl t0 now tok) \<longleftrightarrow>
     (d \<noteq> l_DeviceID l \<or> h \<noteq> l_Holder l) \<and> t0 \<le> now \<and> now < l_ExpiresAt l"
| "foreign l (OpRelease tok t0) \<longleftrightarrow> tok \<noteq> l_Token l \<and> t0 < l_ExpiresAt l"
| "foreign l (OpValidate d tok now) \<longleftrightarrow> now < l_ExpiresAt l"
| "foreign l (OpList t0) \<longleftrightarrow> t0 < l_ExpiresAt l"

definition holds :: "Registry \<Rightarrow> Lease \<Rightarrow> bool" where
  "holds r l \<longleftrightarrow> lease_inv r \<and> map_of r (l_DeviceID l) = Some l \<and> l_ExpiresAt l \<noteq> zero_time"

lemma run_op_inv: "lease_inv r \<Longrightarrow> lease_inv (run_op op r)"
  by (cases op) (auto intro: lease_inv_ops)

lemma holds_sweep: "holds r l \<Longrightarrow> t < l_ExpiresAt l \<Longrightarrow> holds (sweepLockedAt t r) l"
  by (auto simp: holds_def map_of_sweep Active_def)

lemma holds_put_other: "holds r l \<Longrightarrow> l_DeviceID l' = d \<Longrightarrow> d \<noteq> l_DeviceID l \<Longrightarrow> holds (amap_put d l' r) l"
  by (auto simp: holds_def)

lemma holds_delete_other: "holds r l \<Longrightarrow> d \<noteq> l_DeviceID l \<Longrightarrow> holds (amap_delete d r) l"
  by (auto simp: holds_def)

lemma foreign_Acquire_same:
  assumes "holds r l" "h \<noteq> l_Holder l" "now < l_ExpiresAt l"
  shows "map_of r (l_DeviceID l) = Some l \<and> Active l now"
  using assms by (auto simp: holds_def Active_def)

lemma holds_Acquire:
  assumes h: "holds r l" and f: "foreign l (OpAcquire d hl ttl t0 now tok)"
  shows "holds (snd (Acquire d hl ttl t0 now tok r)) l"
proof -
  have s: "holds (sweepLockedAt t0 r) l" using h f by (intro holds_sweep) auto
  then have inv: "lease_inv (sweepLockedAt t0 r)" by (simp add: holds_def)
  show ?thesis
  proof (cases "d = l_DeviceID l")
    case True
    then have "map_of (sweepLockedAt t0 r) d = Some l \<and> Active l now"
      using foreign_Acquire_same [OF s] f by auto
    with True f s h show ?thesis by (auto simp: Acquire_def Let_def)
  next
    case False
    with s h lease_inv_lookup [OF inv, of d] show ?thesis
      by (auto simp: Acquire_def Let_def intro!: holds_put_other split: option.splits sum.splits)
  qed
qed

lemma holds_Release:
  assumes h: "holds r l" and f: "tok \<noteq> l_Token l" "t0 < l_ExpiresAt l"
  shows "holds (snd (Release tok t0 r)) l"
proof -
  have s: "holds (sweepLockedAt t0 r) l" using h f by (intro holds_sweep)
  have "fst e \<noteq> l_DeviceID l" if "find (\<lambda>e. l_Token (snd e) = tok) (sweepLockedAt t0 r) = Some e" for e
  proof
    assume k: "fst e = l_DeviceID l"
    from that have e: "e \<in> set (sweepLockedAt t0 r)" "l_Token (snd e) = tok"
      by (auto simp: find_Some_iff)
    have "distinct (map fst (sweepLockedAt t0 r))" using s by (simp add: holds_def lease_inv_def)
    with e(1) have "map_of (sweepLockedAt t0 r) (fst e) = Some (snd e)" by (cases e) auto
    with s k e(2) f(1) show False by (simp add: holds_def)
  qed
  with s show ?thesis by (auto simp: Release_def Let_def intro!: holds_delete_other split: option.splits)
qed

lemma holds_Validate:
  assumes h: "holds r l" and f: "now < l_ExpiresAt l"
  shows "holds (snd (Validate d tok now r)) l"
proof (cases "map_of r d")
  case None
  with h f show ?thesis by (simp add: Validate_def holds_sweep)
next
  case (Some lease)
  show ?thesis
  proof (cases "Active lease now")
    case True
    with Some h f show ?thesis by (simp add: Validate_def holds_sweep)
  next
    case False
    with Some h f have "d \<noteq> l_DeviceID l" by (auto simp: holds_def Active_def)
    with Some False h f show ?thesis by (simp add: Validate_def holds_sweep holds_delete_other)
  qed
qed

lemma holds_run_op: "holds r l \<Longrightarrow> foreign l op \<Longrightarrow> holds (run_op op r) l"
  by (cases op) (auto simp: List_def Let_def intro: holds_Acquire holds_Release holds_Validate holds_sweep)

lemma holds_run_ops: "holds r l \<Longrightarrow> list_all (foreign l) ops \<Longrightarrow> holds (run_ops ops r) l"
  by (induction ops arbitrary: r) (auto simp: run_ops_def holds_run_op)

lemma Acquire_holds:
  assumes "lease_inv r" "fst (Acquire d h ttl t0 now tok r) = Inr l" "l_ExpiresAt l \<noteq> zero_time"
  shows "holds (snd (Acquire d h ttl t0 now tok r)) l \<and> l_DeviceID l = d"
proof -
  have inv: "lease_inv (sweepLockedAt t0 r)" using assms(1) by blast
  show ?thesis
    using assms lease_inv_Acquire [OF assms(1), of d h ttl t0 now tok] lease_inv_lookup [OF inv, of d]
    by (auto simp: Acquire_def Let_def holds_def split: if_splits option.splits sum.splits)
qed

text \<open>
  C2.  Exclusive write authority: after \<open>Acquire\<close> has returned a lease for a device, whatever
  sequence of acquisitions by other holders, releases with other tokens, validations and
  listings follows, at any time before the lease expires \<open>Validate\<close> accepts the lease's token
  for the device and rejects every other token.
\<close>

theorem lease_exclusive:
  assumes "lease_inv r" and "fst (Acquire d h ttl t0 t1 tok r) = Inr l" and "l_ExpiresAt l \<noteq> zero_time"
    and "list_all (foreign l) ops" and "now < l_ExpiresAt l"
  shows "fst (Validate d token now (run_ops ops (snd (Acquire d h ttl t0 t1 tok r)))) = Inr () \<longleftrightarrow>
         token = l_Token l"
proof -
  have "holds (run_ops ops (snd (Acquire d h ttl t0 t1 tok r))) l" "l_DeviceID l = d"
    using Acquire_holds [OF assms(1-3)] assms(4) by (auto intro: holds_run_ops)
  with assms(5) show ?thesis by (auto simp: Validate_iff active_lease_def holds_def Active_def)
qed

definition demo_lease :: Lease where
  "demo_lease = \<lparr>l_DeviceID = ''tec-31'', l_Holder = ''alice'', l_Token = ''t1'',
                 l_AcquiredAt = 100, l_ExpiresAt = 200\<rparr>"

theorem lease_exclusive_witness:
  "list_all (foreign demo_lease) [OpAcquire ''tec-31'' ''bob'' 50 120 121 (Inr ''t2''), OpRelease ''t2'' 130] \<and>
   (fst (Validate ''tec-31'' ''t2'' 150 (run_ops [OpAcquire ''tec-31'' ''bob'' 50 120 121 (Inr ''t2''), OpRelease ''t2'' 130]
      (snd (Acquire ''tec-31'' ''alice'' 100 100 100 (Inr ''t1'') NewRegistry)))) = Inr () \<longleftrightarrow> ''t2'' = l_Token demo_lease)"
proof -
  have a: "fst (Acquire ''tec-31'' ''alice'' 100 100 100 (Inr ''t1'') NewRegistry) = Inr demo_lease"
    by (simp add: Acquire_def NewRegistry_def sweepLockedAt_def demo_lease_def Let_def)
  have f: "list_all (foreign demo_lease) [OpAcquire ''tec-31'' ''bob'' 50 120 121 (Inr ''t2''), OpRelease ''t2'' 130]"
    by (simp add: demo_lease_def)
  have z: "l_ExpiresAt demo_lease \<noteq> zero_time" "150 < l_ExpiresAt demo_lease"
    by (simp_all add: demo_lease_def zero_time_def)
  show ?thesis using f lease_exclusive [OF lease_inv_New a z(1) f z(2), of "''t2''"] by (rule conjI)
qed

text \<open>
  A renewal can shorten a lease: re-acquiring with a smaller time to live moves the expiry
  of the holder's own active lease to an earlier time.  (The comment on \<open>Acquire\<close> says that a
  renewal extends \<open>ExpiresAt\<close>.)
\<close>

theorem renewal_can_shorten:
  "fst (Acquire ''tec-31'' ''alice'' 10 110 110 (Inr ''t9'') [(''tec-31'', demo_lease)]) =
     Inr (demo_lease\<lparr>l_ExpiresAt := 120\<rparr>) \<and>
   l_ExpiresAt (demo_lease\<lparr>l_ExpiresAt := 120\<rparr>) < l_ExpiresAt demo_lease"
  by (simp add: Acquire_def sweepLockedAt_def demo_lease_def Active_def zero_time_def Let_def)

section \<open>List is sorted and complete\<close>

text \<open>The insertion that the swaps of the inner loop perform, on the reversed prefix.\<close>

fun insert_back :: "Lease \<Rightarrow> Lease list \<Rightarrow> Lease list" where
  "insert_back x [] = [x]"
| "insert_back x (p # ps) = (if l_DeviceID x < l_DeviceID p then p # insert_back x ps else x # p # ps)"

lemma sift_insert_back: "sift (length ps) (ps @ x # rest) = rev (insert_back x (rev ps)) @ rest"
proof (induction ps arbitrary: rest rule: rev_induct)
  case (snoc p ps)
  show ?case
  proof (cases "l_DeviceID x < l_DeviceID p")
    case True
    have "(ps @ p # x # rest)[length ps := x, Suc (length ps) := p] = ps @ x # p # rest"
      by (simp add: list_update_append)
    with True snoc [of "p # rest"] show ?thesis by (simp add: nth_append)
  qed (simp add: nth_append)
qed simp

lemma mset_insert_back [simp]: "mset (insert_back x ps) = add_mset x (mset ps)"
  by (induction ps) auto

lemma set_insert_back [simp]: "set (insert_back x ps) = insert x (set ps)"
  using mset_insert_back [of x ps] by (metis set_mset_add_mset_insert set_mset_mset)

lemma sorted_insert_back:
  "sorted_wrt (\<lambda>a b. l_DeviceID b \<le> l_DeviceID a) ps \<Longrightarrow>
   sorted_wrt (\<lambda>a b. l_DeviceID b \<le> l_DeviceID a) (insert_back x ps)"
  by (induction ps) auto

lemma sort_loop:
  assumes "k \<le> length xs"
  shows "\<exists>ps. foldl (\<lambda>o1 i. sift i o1) xs [1..<k] = ps @ drop k xs \<and> length ps = k \<and>
     mset ps = mset (take k xs) \<and> sorted_wrt (\<lambda>a b. l_DeviceID b \<le> l_DeviceID a) (rev ps)"
  using assms
proof (induction k)
  case (Suc k)
  then obtain ps where ps: "foldl (\<lambda>o1 i. sift i o1) xs [1..<k] = ps @ drop k xs" "length ps = k"
    "mset ps = mset (take k xs)" "sorted_wrt (\<lambda>a b. l_DeviceID b \<le> l_DeviceID a) (rev ps)"
    by auto
  define qs where "qs = rev (insert_back (xs ! k) (rev ps))"
  have d: "drop k xs = xs ! k # drop (Suc k) xs" using Suc.prems by (simp add: Cons_nth_drop_Suc)
  have "foldl (\<lambda>o1 i. sift i o1) xs [1..<Suc k] = sift k (ps @ drop k xs)"
    using ps by (cases "k = 0") auto
  also have "\<dots> = qs @ drop (Suc k) xs"
    using sift_insert_back [of ps "xs ! k" "drop (Suc k) xs"] ps(2) by (simp add: d qs_def)
  finally have 1: "foldl (\<lambda>o1 i. sift i o1) xs [1..<Suc k] = qs @ drop (Suc k) xs" .
  have m: "mset qs = mset (take (Suc k) xs)"
    using ps(3) Suc.prems by (simp add: qs_def take_Suc_conv_app_nth)
  then have "length qs = length (take (Suc k) xs)" by (rule mset_eq_length)
  then have "length qs = Suc k" using Suc.prems by simp
  moreover have "sorted_wrt (\<lambda>a b. l_DeviceID b \<le> l_DeviceID a) (rev qs)"
    using ps(4) by (simp add: qs_def sorted_insert_back)
  ultimately show ?case using 1 m by blast
qed (auto intro: exI [of _ "[]"])

lemma sort_leases_correct:
  "mset (sort_leases xs) = mset xs \<and> sorted (map l_DeviceID (sort_leases xs))"
  using sort_loop [of "length xs" xs]
  by (auto simp: sort_leases_def sorted_map sorted_wrt_rev)

text \<open>
  \<open>List\<close> returns exactly the leases active at the sweep, once each, in ascending order of
  device identifier, whatever order the map iteration delivers them in.
\<close>

theorem List_sorted_active:
  "mset (fst (List now r)) = mset (filter (\<lambda>l. Active l now) (map snd r)) \<and>
   sorted (map l_DeviceID (fst (List now r)))"
proof -
  have "map snd (sweepLockedAt now r) = filter (\<lambda>l. Active l now) (map snd r)"
    by (simp add: sweepLockedAt_def filter_map comp_def)
  then show ?thesis using sort_leases_correct [of "map snd (sweepLockedAt now r)"]
    by (simp add: List_def Let_def)
qed

end
