(* ===== verification/Floats.thy ===== *)
theory Floats
  imports Frames
begin

text \<open>
  Go's \<open>float32\<close> and \<open>float64\<close> as their IEEE 754 bit patterns, with the conversions and comparisons
  the sources use.  A finite value is read as an integral multiple of the smallest subnormal of its
  format, \<open>2^-149\<close> or \<open>2^-1074\<close>, so every comparison and conversion is exact integer arithmetic;
  conversions to a narrower format round to nearest, ties to even.
\<close>

unbundle bit_operations_syntax

section \<open>Reading bit patterns\<close>

text \<open>The magnitude of a finite value with \<open>mb\<close> mantissa bits, in units of the smallest subnormal.\<close>

definition fp_units :: "nat \<Rightarrow> nat \<Rightarrow> nat \<Rightarrow> nat" where
  "fp_units mb e frac = (if e = 0 then frac else (2 ^ mb + frac) * 2 ^ (e - 1))"

definition f64_exp :: "u64 \<Rightarrow> nat" where
  "f64_exp b = unat b div 2 ^ 52 mod 2048"

definition f64_frac :: "u64 \<Rightarrow> nat" where
  "f64_frac b = unat b mod 2 ^ 52"

definition f64_neg :: "u64 \<Rightarrow> bool" where
  "f64_neg b \<longleftrightarrow> 2 ^ 63 \<le> unat b"

definition f64_finite :: "u64 \<Rightarrow> bool" where
  "f64_finite b \<longleftrightarrow> f64_exp b \<noteq> 2047"

definition f64_isNaN :: "u64 \<Rightarrow> bool" where
  "f64_isNaN b \<longleftrightarrow> f64_exp b = 2047 \<and> f64_frac b \<noteq> 0"

definition f64_isInf :: "u64 \<Rightarrow> bool" where
  "f64_isInf b \<longleftrightarrow> f64_exp b = 2047 \<and> f64_frac b = 0"

text \<open>The value in units of \<open>2^-1074\<close>; infinities are larger than every finite value.\<close>

definition f64_units :: "u64 \<Rightarrow> int" where
  "f64_units b =
     (let m = fp_units 52 (f64_exp b) (f64_frac b) in if f64_neg b then - int m else int m)"

definition int_units :: "int \<Rightarrow> int" where
  "int_units i = i * 2 ^ 1074"

definition f64_integral :: "u64 \<Rightarrow> bool" where
  "f64_integral b \<longleftrightarrow> f64_finite b \<and> f64_units b mod 2 ^ 1074 = 0"

text \<open>Truncation towards zero, \<open>int64(v)\<close> where it is defined.\<close>

definition f64_trunc :: "u64 \<Rightarrow> int" where
  "f64_trunc b = (if f64_neg b then - (- f64_units b div 2 ^ 1074) else f64_units b div 2 ^ 1074)"

text \<open>\<open>v < i\<close>, \<open>v > i\<close> and \<open>v == i\<close> for an integer constant \<open>i\<close> that is exact in \<open>float64\<close>.\<close>

definition f64_less_int :: "u64 \<Rightarrow> int \<Rightarrow> bool" where
  "f64_less_int b i \<longleftrightarrow> \<not> f64_isNaN b \<and> f64_units b < int_units i"

definition f64_greater_int :: "u64 \<Rightarrow> int \<Rightarrow> bool" where
  "f64_greater_int b i \<longleftrightarrow> \<not> f64_isNaN b \<and> int_units i < f64_units b"

definition f64_eq_int :: "u64 \<Rightarrow> int \<Rightarrow> bool" where
  "f64_eq_int b i \<longleftrightarrow> f64_finite b \<and> f64_units b = int_units i"

definition f32_exp :: "u32 \<Rightarrow> nat" where
  "f32_exp b = unat b div 2 ^ 23 mod 256"

definition f32_frac :: "u32 \<Rightarrow> nat" where
  "f32_frac b = unat b mod 2 ^ 23"

definition f32_neg :: "u32 \<Rightarrow> bool" where
  "f32_neg b \<longleftrightarrow> 2 ^ 31 \<le> unat b"

definition f32_isNaN :: "u32 \<Rightarrow> bool" where
  "f32_isNaN b \<longleftrightarrow> f32_exp b = 255 \<and> f32_frac b \<noteq> 0"

text \<open>\<open>a == b\<close> on \<open>float32\<close>: NaN differs from everything, the two zeros are equal.\<close>

definition f32_eq :: "u32 \<Rightarrow> u32 \<Rightarrow> bool" where
  "f32_eq a b \<longleftrightarrow> \<not> f32_isNaN a \<and> \<not> f32_isNaN b \<and>
     (a = b \<or> unat a mod 2 ^ 31 = 0 \<and> unat b mod 2 ^ 31 = 0)"

section \<open>Conversions\<close>

fun bit_len :: "nat \<Rightarrow> nat" where
  "bit_len n = (if n = 0 then 0 else Suc (bit_len (n div 2)))"

declare bit_len.simps [simp del]

text \<open>Division by \<open>2 ^ s\<close>, rounding to nearest with ties to even.\<close>

definition round_even :: "nat \<Rightarrow> nat \<Rightarrow> nat" where
  "round_even n s =
     (let q = n div 2 ^ s; r = 2 * (n mod 2 ^ s) in
      if 2 ^ s < r \<or> r = 2 ^ s \<and> s \<noteq> 0 \<and> odd q then q + 1 else q)"

text \<open>
  The bit pattern without sign of \<open>n / 2^base\<close> units of a format with \<open>mb\<close> mantissa bits whose
  infinity is the pattern \<open>top_pattern\<close>.
\<close>

definition fp_round :: "nat \<Rightarrow> nat \<Rightarrow> nat \<Rightarrow> nat \<Rightarrow> nat" where
  "fp_round mb top_pattern base n =
     (let s = max base (bit_len n - (mb + 1));
          bits = (s - base) * 2 ^ mb + round_even n s
      in if top_pattern \<le> bits then top_pattern else bits)"

definition float32_of_float64 :: "u64 \<Rightarrow> u32" where
  "float32_of_float64 b =
     (let sign = (if f64_neg b then 2 ^ 31 else 0) in
      if f64_isNaN b then of_nat (sign + 255 * 2 ^ 23 + 2 ^ 22 + f64_frac b div 2 ^ 29 mod 2 ^ 22)
      else if f64_isInf b then of_nat (sign + 255 * 2 ^ 23)
      else of_nat (sign + fp_round 23 (255 * 2 ^ 23) 925 (nat \<bar>f64_units b\<bar>)))"

definition float64_of_float32 :: "u32 \<Rightarrow> u64" where
  "float64_of_float32 b =
     (let sign = (if f32_neg b then 2 ^ 63 else 0) in
      if f32_isNaN b then of_nat (sign + 2047 * 2 ^ 52 + 2 ^ 51 + f32_frac b mod 2 ^ 22 * 2 ^ 29)
      else if f32_exp b = 255 then of_nat (sign + 2047 * 2 ^ 52)
      else of_nat (sign + fp_round 52 (2047 * 2 ^ 52) 0 (fp_units 23 (f32_exp b) (f32_frac b) * 2 ^ 925)))"

definition float64_of_int :: "int \<Rightarrow> u64" where
  "float64_of_int i =
     of_nat ((if i < 0 then 2 ^ 63 else 0) + fp_round 52 (2047 * 2 ^ 52) 0 (nat \<bar>i\<bar> * 2 ^ 1074))"

section \<open>Arithmetic\<close>

definition f64_nan :: u64 where "f64_nan = 0x7ff8000000000001"
definition f64_inf :: nat where "f64_inf = 2047 * 2 ^ 52"

definition f64_pack :: "bool \<Rightarrow> nat \<Rightarrow> u64" where
  "f64_pack neg bits = of_nat ((if neg then 2 ^ 63 else 0) + bits)"

text \<open>A rational \<open>num / den\<close> of units, rounded: 64 further bits and a sticky bit decide the rounding.\<close>

definition sticky_div :: "nat \<Rightarrow> nat \<Rightarrow> nat" where
  "sticky_div num den = 2 * (num * 2 ^ 64 div den) + (if num * 2 ^ 64 mod den = 0 then 0 else 1)"

definition f64_zero :: "u64 \<Rightarrow> bool" where
  "f64_zero b \<longleftrightarrow> f64_eq_int b 0"

definition f64_negate :: "u64 \<Rightarrow> u64" where
  "f64_negate b = f64_pack (\<not> f64_neg b) (unat b mod 2 ^ 63)"

definition f64_abs :: "u64 \<Rightarrow> u64" where
  "f64_abs b = f64_pack False (unat b mod 2 ^ 63)"

definition f64_add :: "u64 \<Rightarrow> u64 \<Rightarrow> u64" where
  "f64_add a b =
     (if f64_isNaN a \<or> f64_isNaN b then f64_nan
      else if f64_isInf a then (if f64_isInf b \<and> f64_neg a \<noteq> f64_neg b then f64_nan else a)
      else if f64_isInf b then b
      else let d = f64_units a + f64_units b in
        f64_pack (d < 0 \<or> d = 0 \<and> f64_neg a \<and> f64_neg b) (fp_round 52 f64_inf 0 (nat \<bar>d\<bar>)))"

definition f64_sub :: "u64 \<Rightarrow> u64 \<Rightarrow> u64" where
  "f64_sub a b = f64_add a (f64_negate b)"

definition f64_mul :: "u64 \<Rightarrow> u64 \<Rightarrow> u64" where
  "f64_mul a b =
     (let neg = (f64_neg a \<noteq> f64_neg b) in
      if f64_isNaN a \<or> f64_isNaN b then f64_nan
      else if f64_isInf a \<or> f64_isInf b then
        (if f64_zero a \<or> f64_zero b then f64_nan else f64_pack neg f64_inf)
      else f64_pack neg (fp_round 52 f64_inf 1074 (nat \<bar>f64_units a\<bar> * nat \<bar>f64_units b\<bar>)))"

definition f64_div :: "u64 \<Rightarrow> u64 \<Rightarrow> u64" where
  "f64_div a b =
     (let neg = (f64_neg a \<noteq> f64_neg b) in
      if f64_isNaN a \<or> f64_isNaN b \<or> f64_isInf a \<and> f64_isInf b \<or> f64_zero a \<and> f64_zero b then f64_nan
      else if f64_isInf a \<or> f64_zero b then f64_pack neg f64_inf
      else if f64_isInf b then f64_pack neg 0
      else f64_pack neg (fp_round 52 f64_inf 65 (sticky_div (nat \<bar>f64_units a\<bar> * 2 ^ 1074) (nat \<bar>f64_units b\<bar>))))"

text \<open>The integer square root, by bisection on the bits of the result.\<close>

fun isqrt_bits :: "nat \<Rightarrow> nat \<Rightarrow> nat \<Rightarrow> nat" where
  "isqrt_bits n r 0 = r"
| "isqrt_bits n r (Suc k) = isqrt_bits n (if (r + 2 ^ k) * (r + 2 ^ k) \<le> n then r + 2 ^ k else r) k"

definition isqrt :: "nat \<Rightarrow> nat" where
  "isqrt n = isqrt_bits n 0 (bit_len n div 2 + 1)"

definition f64_sqrt :: "u64 \<Rightarrow> u64" where
  "f64_sqrt a =
     (if f64_isNaN a \<or> f64_zero a then a
      else if f64_neg a then f64_nan
      else if f64_isInf a then a
      else let n = nat (f64_units a) * 2 ^ (1074 + 128); r = isqrt n in
        f64_pack False (fp_round 52 f64_inf 65 (2 * r + (if r * r = n then 0 else 1))))"

definition f64_less :: "u64 \<Rightarrow> u64 \<Rightarrow> bool" where
  "f64_less a b \<longleftrightarrow> \<not> f64_isNaN a \<and> \<not> f64_isNaN b \<and> f64_units a < f64_units b"

definition f64_le :: "u64 \<Rightarrow> u64 \<Rightarrow> bool" where
  "f64_le a b \<longleftrightarrow> \<not> f64_isNaN a \<and> \<not> f64_isNaN b \<and> f64_units a \<le> f64_units b"

text \<open>\<open>math.Max\<close>.\<close>

definition f64_max :: "u64 \<Rightarrow> u64 \<Rightarrow> u64" where
  "f64_max a b =
     (if f64_isInf a \<and> \<not> f64_neg a then a
      else if f64_isInf b \<and> \<not> f64_neg b then b
      else if f64_isNaN a \<or> f64_isNaN b then f64_nan
      else if f64_zero a \<and> f64_zero b then (if f64_neg a then b else a)
      else if f64_units b < f64_units a then a else b)"

text \<open>\<open>math.Round\<close> as an integer: halves are rounded away from zero.\<close>

definition f64_round :: "u64 \<Rightarrow> int" where
  "f64_round b =
     (let m = (2 * \<bar>f64_units b\<bar> + 2 ^ 1074) div 2 ^ 1075 in if f64_neg b then - m else m)"

text \<open>The values that the protocol clients return.\<close>

fun f64_bits :: "f64 \<Rightarrow> u64" where
  "f64_bits (F64_of_int32 b) = float64_of_int (sint b)"
| "f64_bits (F64_of_float32 b) = float64_of_float32 b"
| "f64_bits F64_NaN = f64_nan"

section \<open>Integral values\<close>

lemma f64_trunc_integral: "f64_integral b \<Longrightarrow> int_units (f64_trunc b) = f64_units b"
proof -
  assume "f64_integral b"
  then have "2 ^ 1074 dvd f64_units b" by (simp only: f64_integral_def mod_eq_0_iff_dvd)
  then obtain k where "f64_units b = 2 ^ 1074 * k" by (auto elim: dvdE)
  moreover have "- (2 ^ 1074 * k) div 2 ^ 1074 = - k" for k :: int
    using nonzero_mult_div_cancel_left [of "2 ^ 1074 :: int" "- k"] by simp
  ultimately show ?thesis by (simp add: f64_trunc_def int_units_def mult.commute)
qed

text \<open>NaN is contagious, and comparisons with it are false.\<close>

lemma f64_nan_isNaN [simp]: "f64_isNaN f64_nan"
  by (simp add: f64_isNaN_def f64_exp_def f64_frac_def f64_nan_def)

lemma f64_add_nan [simp]: "f64_isNaN a \<or> f64_isNaN b \<Longrightarrow> f64_isNaN (f64_add a b)"
  by (auto simp: f64_add_def)

lemma f64_mul_nan [simp]: "f64_isNaN a \<or> f64_isNaN b \<Longrightarrow> f64_isNaN (f64_mul a b)"
  by (auto simp: f64_mul_def Let_def)

lemma f64_less_nan [simp]: "f64_isNaN a \<or> f64_isNaN b \<Longrightarrow> \<not> f64_less a b"
  by (auto simp: f64_less_def)

lemma f64_integral_bound:
  assumes "f64_integral b" and "\<not> f64_less_int b lo" and "\<not> f64_greater_int b hi"
  shows "lo \<le> f64_trunc b \<and> f64_trunc b \<le> hi"
proof -
  have "\<not> f64_isNaN b" using assms(1) by (auto simp: f64_integral_def f64_finite_def f64_isNaN_def)
  then have "int_units lo \<le> int_units (f64_trunc b) \<and> int_units (f64_trunc b) \<le> int_units hi"
    using assms by (auto simp: f64_trunc_integral f64_less_int_def f64_greater_int_def)
  then show ?thesis unfolding int_units_def by (simp only: mult_le_cancel_right) simp
qed

section \<open>Exact conversions\<close>

lemma bit_len_zero [simp]: "bit_len 0 = 0"
  by (simp add: bit_len.simps)

lemma bit_len_bounds: "0 < n \<Longrightarrow> 2 ^ (bit_len n - 1) \<le> n \<and> n < 2 ^ bit_len n"
proof (induction n rule: bit_len.induct)
  case (1 n)
  show ?case
  proof (cases "n div 2 = 0")
    case True
    with \<open>0 < n\<close> have "n = 1" by auto
    then show ?thesis by (simp add: bit_len.simps)
  next
    case False
    with 1 have "2 ^ (bit_len (n div 2) - 1) \<le> n div 2 \<and> n div 2 < 2 ^ bit_len (n div 2)" by simp
    moreover have "bit_len n = Suc (bit_len (n div 2))" using 1(2) by (simp add: bit_len.simps [of n])
    moreover have "bit_len (n div 2) \<noteq> 0" using False by (simp add: bit_len.simps)
    ultimately show ?thesis by (cases "bit_len (n div 2)") auto
  qed
qed

lemma bit_len_unique: "2 ^ k \<le> n \<Longrightarrow> n < 2 ^ Suc k \<Longrightarrow> bit_len n = Suc k"
proof -
  assume a: "2 ^ k \<le> n" "n < 2 ^ Suc k"
  then have "0 < n" by (metis gr0I not_one_le_zero one_le_power order.trans one_le_numeral)
  then have b: "2 ^ (bit_len n - 1) \<le> n" "n < 2 ^ bit_len n" using bit_len_bounds by blast+
  have "k < bit_len n" using a(1) b(2) by (meson le_less_trans power_less_imp_less_exp one_less_numeral_iff semiring_norm(76))
  moreover have "bit_len n - 1 < Suc k" using a(2) b(1) by (meson le_less_trans power_less_imp_less_exp one_less_numeral_iff semiring_norm(76))
  ultimately show ?thesis by simp
qed

lemma bit_len_le: "n < 2 ^ k \<Longrightarrow> bit_len n \<le> k"
proof (cases "n = 0")
  case False
  assume "n < 2 ^ k"
  with bit_len_bounds [of n] False have "2 ^ (bit_len n - 1) < (2 :: nat) ^ k" by (meson le_less_trans neq0_conv)
  then have "bit_len n - 1 < k" by (meson power_less_imp_less_exp one_less_numeral_iff semiring_norm(76))
  then show ?thesis by simp
qed simp

lemma round_even_exact: "round_even (q * 2 ^ s) s = q"
  by (simp add: round_even_def Let_def)

text \<open>A magnitude of the format is rounded to itself.\<close>

lemma fp_round_units:
  assumes "f < 2 ^ mb" and "e * 2 ^ mb + f < t"
  shows "fp_round mb t base (fp_units mb e f * 2 ^ base) = e * 2 ^ mb + f"
proof (cases e)
  case 0
  have "f * 2 ^ base < 2 ^ (mb + base)" using assms(1) by (simp add: power_add)
  then have "bit_len (f * 2 ^ base) \<le> mb + base" by (rule bit_len_le)
  then have "max base (bit_len (f * 2 ^ base) - (mb + 1)) = base" by simp
  then show ?thesis using assms(2) 0 by (simp add: fp_round_def fp_units_def round_even_exact Let_def)
next
  case (Suc k)
  let ?n = "(2 ^ mb + f) * 2 ^ (k + base)"
  have "2 ^ (mb + (k + base)) \<le> ?n" by (simp add: power_add)
  moreover have "?n < 2 ^ Suc (mb + (k + base))" using assms(1) by (simp add: power_add)
  ultimately have "bit_len ?n = Suc (mb + (k + base))" by (rule bit_len_unique)
  then have "max base (bit_len ?n - (mb + 1)) = k + base" by simp
  moreover have "fp_units mb e f * 2 ^ base = ?n" by (simp add: fp_units_def Suc power_add)
  ultimately show ?thesis using assms(2) Suc by (simp add: fp_round_def round_even_exact Let_def)
qed


lemma fp_units_exists:
  assumes "q < 2 ^ (mb + 1)"
  shows "\<exists>e f. f < 2 ^ mb \<and> e \<le> j + 1 \<and> fp_units mb e f = q * 2 ^ j"
proof (cases "q * 2 ^ j < 2 ^ mb")
  case True
  then show ?thesis by (intro exI [of _ 0] exI [of _ "q * 2 ^ j"]) (simp add: fp_units_def)
next
  case False
  let ?n = "q * 2 ^ j"
  let ?s = "bit_len ?n - (mb + 1)"
  from False have pos: "0 < ?n" by (metis gr0I zero_less_numeral zero_less_power)
  note b = bit_len_bounds [OF pos]
  have "?n < 2 ^ (mb + 1 + j)" using assms by (simp add: power_add)
  then have sj: "?s \<le> j" using bit_len_le [of ?n "mb + 1 + j"] by simp
  have "2 ^ mb < (2 :: nat) ^ bit_len ?n" using False b by linarith
  then have "mb < bit_len ?n" by (meson power_less_imp_less_exp one_less_numeral_iff semiring_norm(76))
  then have L: "bit_len ?n = Suc (mb + ?s)" by simp
  let ?Q = "q * 2 ^ (j - ?s)"
  have n: "?n = ?Q * 2 ^ ?s" using sj by (simp add: power_add [symmetric])
  have "2 ^ mb * 2 ^ ?s \<le> ?Q * 2 ^ ?s" using b L n by (metis diff_Suc_1 power_add)
  then have "2 ^ mb \<le> ?Q" by simp
  moreover have "?Q * 2 ^ ?s < 2 ^ Suc mb * 2 ^ ?s" using b L n by (metis add_Suc power_add)
  then have "?Q < 2 ^ Suc mb" by (metis nat_mult_less_cancel_disj mult.commute)
  ultimately have "?Q - 2 ^ mb < 2 ^ mb" "fp_units mb (Suc ?s) (?Q - 2 ^ mb) = ?Q * 2 ^ ?s"
    by (simp_all add: fp_units_def)
  note * = this [folded n]
  show ?thesis using sj * by (intro exI [of _ "Suc ?s"] exI [of _ "?Q - 2 ^ mb"]) simp
qed

lemma f64_parts:
  assumes "e < 2048" and "f < 2 ^ 52" and b_def: "b = (of_nat ((if s then 2 ^ 63 else 0) + (e * 2 ^ 52 + f)) :: u64)"
  shows "f64_exp b = e" "f64_frac b = f" "f64_neg b = s"
proof -
  let ?n = "(if s then 2 ^ 63 else 0) + (e * 2 ^ 52 + f)"
  have lt: "e * 2 ^ 52 + f < 2 ^ 63" using assms(1,2) by simp
  then have "?n < 2 ^ LENGTH(64)" by simp
  then have u: "unat b = ?n" by (simp only: b_def unat_of_nat mod_less)
  have n: "?n = ((if s then 2048 else 0) + e) * 2 ^ 52 + f" by simp
  show "f64_frac b = f" unfolding f64_frac_def u n using assms(2) by (simp only: mod_mult_self3 mod_less)
  have "(k * 2 ^ 52 + f) div 2 ^ 52 = k" for k using assms(2) by simp
  then show "f64_exp b = e" unfolding f64_exp_def u n using assms(1) by (simp only:) simp
  show "f64_neg b = s" using lt by (simp add: f64_neg_def u)
qed

lemma f64_units_exact:
  assumes "q < 2 ^ 53" and "j < 2045"
    and b_def: "b = (of_nat ((if s then 2 ^ 63 else 0) + fp_round 52 (2047 * 2 ^ 52) 0 (q * 2 ^ j)) :: u64)"
  shows "f64_units b = (if s then - int (q * 2 ^ j) else int (q * 2 ^ j))" "f64_finite b" "f64_neg b = s"
proof -
  have "q < 2 ^ (52 + 1)" using assms(1) by simp
  from fp_units_exists [OF this, of j] obtain e f
    where ef: "f < 2 ^ 52" "e \<le> j + 1" "fp_units 52 e f = q * 2 ^ j" by blast
  have "e * 2 ^ 52 + f < 2047 * 2 ^ 52" using ef(1,2) assms(2) by simp
  from fp_round_units [OF ef(1) this, of 0] ef(3)
  have r: "fp_round 52 (2047 * 2 ^ 52) 0 (q * 2 ^ j) = e * 2 ^ 52 + f" by simp
  have "e < 2048" using ef(2) assms(2) by simp
  note p = f64_parts [OF this ef(1) b_def [unfolded r]]
  show "f64_neg b = s" using p(3) by simp
  show "f64_finite b" using p(1) ef(2) assms(2) by (simp add: f64_finite_def)
  show "f64_units b = (if s then - int (q * 2 ^ j) else int (q * 2 ^ j))"
    using p ef(3) by (simp add: f64_units_def)
qed

lemma float64_of_int_exact:
  assumes "\<bar>i\<bar> < 2 ^ 53"
  shows "f64_units (float64_of_int i) = int_units i" "f64_finite (float64_of_int i)" "f64_trunc (float64_of_int i) = i"
proof -
  have "nat \<bar>i\<bar> < 2 ^ 53" using assms by (simp add: nat_less_iff)
  note u = f64_units_exact [OF this, of 1074 "float64_of_int i" "i < 0", OF _ float64_of_int_def]
  show e: "f64_units (float64_of_int i) = int_units i" using u(1) by (auto simp: int_units_def)
  show "f64_finite (float64_of_int i)" using u(2) by simp
  have "f64_neg (float64_of_int i) = (i < 0)" using u(3) by simp
  moreover have "- (i * 2 ^ 1074) div 2 ^ 1074 = - i"
    using nonzero_mult_div_cancel_right [of "2 ^ 1074 :: int" "- i"] by simp
  ultimately show "f64_trunc (float64_of_int i) = i" by (simp add: f64_trunc_def e int_units_def)
qed

lemma u32_parts: "unat b = (if f32_neg b then 2 ^ 31 else 0) + (f32_exp b * 2 ^ 23 + f32_frac b)"
proof -
  define k where "k = unat b div 2 ^ 23"
  have "unat b < 2 ^ 32" using unat_word_bound [of b] by simp
  then have k: "k < 512" by (simp add: k_def less_mult_imp_div_less)
  have n: "unat b = k * 2 ^ 23 + f32_frac b" by (simp add: k_def f32_frac_def)
  have s: "f32_neg b \<longleftrightarrow> 256 \<le> k" by (simp add: f32_neg_def k_def less_eq_div_iff_mult_less_eq)
  have e: "f32_exp b = k mod 256" by (simp only: f32_exp_def k_def)
  have "k = (if 256 \<le> k then 256 else 0) + k mod 256" using k by (auto simp: mod_if)
  then have "k * 2 ^ 23 = (if 256 \<le> k then 256 else 0) * 2 ^ 23 + k mod 256 * 2 ^ 23" by (metis add_mult_distrib)
  then show ?thesis by (simp add: s e n)
qed

lemma float32_of_float64_of_float32:
  assumes "\<not> f32_isNaN b"
  shows "float32_of_float64 (float64_of_float32 b) = b"
proof -
  let ?s = "f32_neg b" and ?e = "f32_exp b" and ?f = "f32_frac b"
  have b: "of_nat ((if ?s then 2 ^ 31 else 0) + (?e * 2 ^ 23 + ?f)) = b"
    by (simp only: u32_parts [symmetric] word_unat_eq_iff unat_of_nat mod_less unat_word_bound)
  have f: "?f < 2 ^ 23" by (simp add: f32_frac_def)
  show ?thesis
  proof (cases "?e = 255")
    case True
    then have f0: "?f = 0" using assms by (simp add: f32_isNaN_def)
    have p: "f64_exp (float64_of_float32 b) = 2047" "f64_frac (float64_of_float32 b) = 0"
      "f64_neg (float64_of_float32 b) = ?s"
      using f64_parts [of 2047 0 "float64_of_float32 b" ?s] assms True
      by (simp_all add: float64_of_float32_def Let_def)
    then show ?thesis using b True f0 by (simp add: float32_of_float64_def f64_isNaN_def f64_isInf_def Let_def)
  next
    case False
    have "?e < 256" by (simp add: f32_exp_def)
    with False have e: "?e < 255" by simp
    define q j where "q = (if ?e = 0 then ?f else 2 ^ 23 + ?f)" and "j = ?e - 1 + 925"
    have u: "fp_units 23 ?e ?f * 2 ^ 925 = q * 2 ^ j"
      by (simp add: fp_units_def q_def j_def power_add)
    have "q < 2 ^ 53" "j < 2045" using f e by (auto simp: q_def j_def)
    note x = f64_units_exact [OF this, of "float64_of_float32 b" ?s]
    have d: "float64_of_float32 b = of_nat ((if ?s then 2 ^ 63 else 0) + fp_round 52 (2047 * 2 ^ 52) 0 (q * 2 ^ j))"
      by (simp only: float64_of_float32_def Let_def assms False u if_False)
    have "?e * 2 ^ 23 + ?f < 255 * 2 ^ 23" using f e by simp
    from fp_round_units [OF f this, of 925] have r: "fp_round 23 (255 * 2 ^ 23) 925 (q * 2 ^ j) = ?e * 2 ^ 23 + ?f"
      by (simp only: u)
    have "nat \<bar>f64_units (float64_of_float32 b)\<bar> = q * 2 ^ j" using x(1) [OF d] by (simp del: of_nat_mult of_nat_power)
    then show ?thesis using x(2,3) [OF d] b r
      by (simp add: float32_of_float64_def f64_isNaN_def f64_isInf_def f64_finite_def Let_def)
  qed
qed

lemma float32_of_NaN:
  assumes "f64_isNaN a"
  shows "f32_isNaN (float32_of_float64 a)"
proof -
  define x where "x = 2 ^ 22 + f64_frac a div 2 ^ 29 mod 2 ^ 22"
  define k where "k = (if f64_neg a then 256 else 0 :: nat) + 255"
  have x: "x < 2 ^ 23" "x \<noteq> 0" using mod_less_divisor [of "2 ^ 22" "f64_frac a div 2 ^ 29"] by (auto simp: x_def)
  have "float32_of_float64 a = of_nat (k * 2 ^ 23 + x)"
    using assms by (simp add: float32_of_float64_def x_def k_def Let_def)
  moreover have "k * 2 ^ 23 + x < 2 ^ LENGTH(32)" using x(1) by (simp add: k_def)
  ultimately have u: "unat (float32_of_float64 a) = k * 2 ^ 23 + x" by (simp only: unat_of_nat mod_less)
  have "(k * 2 ^ 23 + x) mod 2 ^ 23 = x" "(k * 2 ^ 23 + x) div 2 ^ 23 = k" using x(1) by simp_all
  then show ?thesis using x(2) unfolding f32_isNaN_def f32_exp_def f32_frac_def u by (simp add: k_def)
qed

lemma float64_of_float32_not_NaN: "\<not> f32_isNaN b \<Longrightarrow> \<not> f64_isNaN (float64_of_float32 b)"
  using float32_of_NaN [of "float64_of_float32 b"] float32_of_float64_of_float32 [of b] by auto

end
