(* ===== verification/Strings.thy ===== *)
theory Strings
  imports Prelude
begin

text \<open>
  The functions of Go's \<open>strings\<close> and \<open>strconv\<close> packages that the catalogue loader, the commander
  and the router use on their textual inputs.  Text is a list of bytes; case mapping and white
  space are those of the ASCII range, which is all these inputs hold (addresses, command names,
  catalogue keywords).
\<close>

definition to_lower :: "char \<Rightarrow> char" where
  "to_lower c = (let n = of_char c :: nat in if 65 \<le> n \<and> n \<le> 90 then char_of (n + 32) else c)"

definition ToLower :: "string \<Rightarrow> string" where
  "ToLower s = map to_lower s"

definition EqualFold :: "string \<Rightarrow> string \<Rightarrow> bool" where
  "EqualFold s t = (ToLower s = ToLower t)"

definition is_space :: "char \<Rightarrow> bool" where
  "is_space c = (let n = of_char c :: nat in n = 32 \<or> 9 \<le> n \<and> n \<le> 13)"

definition TrimSpace :: "string \<Rightarrow> string" where
  "TrimSpace s = rev (dropWhile is_space (rev (dropWhile is_space s)))"

definition HasPrefix :: "string \<Rightarrow> string \<Rightarrow> bool" where
  "HasPrefix s p = (take (length p) s = p)"

definition HasSuffix :: "string \<Rightarrow> string \<Rightarrow> bool" where
  "HasSuffix s p = (length p \<le> length s \<and> drop (length s - length p) s = p)"

fun Contains :: "string \<Rightarrow> string \<Rightarrow> bool" where
  "Contains [] p = (p = [])"
| "Contains (c # s) p = (HasPrefix (c # s) p \<or> Contains s p)"

definition digit_val :: "char \<Rightarrow> nat option" where
  "digit_val c = (let n = of_char c :: nat in if 48 \<le> n \<and> n \<le> 57 then Some (n - 48) else None)"

fun parse_dec_loop :: "nat \<Rightarrow> nat \<Rightarrow> string \<Rightarrow> num_err + nat" where
  "parse_dec_loop maxv n [] = Inr n"
| "parse_dec_loop maxv n (c # cs) =
     (case digit_val c of
        None \<Rightarrow> Inl NumSyntax
      | Some d \<Rightarrow>
          (let n1 = n * 10 + d in
           if maxv < n1 then Inl NumRange else parse_dec_loop maxv n1 cs))"

text \<open>\<open>strconv.ParseUint(s, 10, bits)\<close> and \<open>strconv.Atoi\<close> on 64-bit integers.\<close>

definition ParseUint10 :: "string \<Rightarrow> nat \<Rightarrow> num_err + nat" where
  "ParseUint10 s bits = (if s = [] then Inl NumSyntax else parse_dec_loop (2 ^ bits - 1) 0 s)"

definition Atoi :: "string \<Rightarrow> num_err + int" where
  "Atoi s =
     (let neg = (s \<noteq> [] \<and> hd s = CHR ''-'');
          body = (if s \<noteq> [] \<and> (hd s = CHR ''-'' \<or> hd s = CHR ''+'') then tl s else s)
      in case ParseUint10 body 64 of
           Inl e \<Rightarrow> Inl e
         | Inr n \<Rightarrow>
             if neg then (if 2 ^ 63 < n then Inl NumRange else Inr (- int n))
             else if 2 ^ 63 \<le> n then Inl NumRange else Inr (int n))"

lemma parse_dec_loop_bound: "parse_dec_loop m n s = Inr k \<Longrightarrow> n \<le> m \<Longrightarrow> k \<le> m"
  by (induction s arbitrary: n) (auto simp: Let_def split: option.splits if_splits)

lemma ParseUint10_bound: "ParseUint10 s bits = Inr k \<Longrightarrow> k < 2 ^ bits"
proof -
  assume "ParseUint10 s bits = Inr k"
  then have "parse_dec_loop (2 ^ bits - 1) 0 s = Inr k"
    by (auto simp: ParseUint10_def split: if_splits)
  then have "k \<le> 2 ^ bits - 1" by (rule parse_dec_loop_bound) simp
  then show ?thesis by (simp add: Nat.le_diff_conv2)
qed

lemma TrimSpace_last: "TrimSpace s \<noteq> [] \<Longrightarrow> \<not> is_space (last (TrimSpace s))"
  unfolding TrimSpace_def by (metis hd_dropWhile last_rev rev.simps(1))

lemma TrimSpace_no_space: "(\<And>c. c \<in> set s \<Longrightarrow> \<not> is_space c) \<Longrightarrow> TrimSpace s = s"
proof -
  assume ns: "\<And>c. c \<in> set s \<Longrightarrow> \<not> is_space c"
  have "dropWhile is_space t = t" if "set t \<subseteq> set s" for t
    using that ns by (cases t) auto
  then show ?thesis by (simp add: TrimSpace_def)
qed

text \<open>Numerals hold no white space, so trimming keeps them.\<close>

lemma parse_dec_loop_chars: "parse_dec_loop m n s = Inr k \<Longrightarrow> c \<in> set s \<Longrightarrow> \<not> is_space c"
  by (induction s arbitrary: n) (auto simp: Let_def digit_val_def is_space_def split: option.splits if_splits)

lemma Atoi_TrimSpace: "Atoi s = Inr n \<Longrightarrow> TrimSpace s = s"
proof -
  assume a: "Atoi s = Inr n"
  have sign: "\<not> is_space (CHR ''-'')" "\<not> is_space (CHR ''+'')" by (simp_all add: is_space_def)
  have "\<not> is_space c" if "c \<in> set s" for c
    using a that sign parse_dec_loop_chars [of _ 0 "tl s" _ c] parse_dec_loop_chars [of _ 0 s _ c]
    by (cases s) (auto simp: Atoi_def ParseUint10_def Let_def split: sum.splits if_splits)
  then show ?thesis by (rule TrimSpace_no_space)
qed

lemma Atoi_bound: "Atoi s = Inr n \<Longrightarrow> - (2 ^ 63) \<le> n \<and> n < 2 ^ 63"
  by (auto simp: Atoi_def Let_def split: sum.splits if_splits)

section \<open>Decimal text\<close>

fun decU :: "nat \<Rightarrow> string" where
  "decU n = (if n < 10 then [char_of (48 + n)] else decU (n div 10) @ [char_of (48 + n mod 10)])"

declare decU.simps [simp del]

text \<open>The verb \<open>%d\<close>.\<close>

definition fmtD :: "int \<Rightarrow> string" where
  "fmtD i = (if i < 0 then CHR ''-'' # decU (nat (- i)) else decU (nat i))"

definition dec_value :: "string \<Rightarrow> nat" where
  "dec_value s = foldl (\<lambda>v c. 10 * v + (of_char c - 48)) 0 s"

lemma digit_value: "d < 10 \<Longrightarrow> (of_char (char_of (48 + d) :: char) :: nat) - 48 = d"
  by simp

lemma dec_value_decU: "dec_value (decU n) = n"
proof (induction n rule: decU.induct)
  case (1 n)
  show ?case
  proof (cases "n < 10")
    case True
    then show ?thesis by (simp add: decU.simps [of n] dec_value_def)
  next
    case False
    have "dec_value (decU (n div 10) @ [char_of (48 + n mod 10)]) =
        10 * dec_value (decU (n div 10)) + ((of_char (char_of (48 + n mod 10) :: char) :: nat) - 48)"
      by (simp add: dec_value_def)
    also have "\<dots> = n" using 1 False by (simp add: digit_value)
    finally show ?thesis using False by (simp add: decU.simps [of n])
  qed
qed

lemma decU_digits: "c \<in> set (decU n) \<Longrightarrow> 48 \<le> (of_char c :: nat) \<and> (of_char c :: nat) \<le> 57"
proof (induction n rule: decU.induct)
  case (1 n)
  then show ?case
    by (cases "n < 10") (auto simp: decU.simps [of n])
qed

lemma of_char_punct: "(of_char CHR ''-'' :: nat) = 45" "(of_char CHR '':'' :: nat) = 58"
  by simp_all

lemma decU_no_punct: "CHR ''-'' \<notin> set (decU n)" "CHR '':'' \<notin> set (decU n)"
  using decU_digits [of "CHR ''-''" n] decU_digits [of "CHR '':''" n] by (auto simp: of_char_punct)

lemma fmtD_no_colon: "CHR '':'' \<notin> set (fmtD i)"
  by (auto simp: fmtD_def decU_no_punct)

lemma fmtD_inj: "fmtD i = fmtD j \<Longrightarrow> i = j"
proof -
  assume eq: "fmtD i = fmtD j"
  have hd_not: "hd (decU n) \<noteq> CHR ''-''" "decU n \<noteq> []" for n
  proof -
    show "decU n \<noteq> []" by (simp add: decU.simps [of n])
    then show "hd (decU n) \<noteq> CHR ''-''" using decU_no_punct(1) [of n] by (metis hd_in_set)
  qed
  have neg: "(hd (fmtD k) = CHR ''-'') = (k < 0)" for k
    by (simp add: fmtD_def hd_not(1))
  have "(i < 0) = (j < 0)" using neg [of i] neg [of j] eq by simp
  with eq have "nat (if i < 0 then - i else i) = nat (if j < 0 then - j else j)"
    by (auto simp: fmtD_def split: if_splits dest!: arg_cong [where f = dec_value] simp: dec_value_decU)
  with \<open>(i < 0) = (j < 0)\<close> show "i = j" by (auto split: if_splits)
qed

section \<open>Joining, splitting and trimming\<close>

definition Join :: "string list \<Rightarrow> string \<Rightarrow> string" where
  "Join parts sep = (case parts of [] \<Rightarrow> [] | p # ps \<Rightarrow> p @ concat (map (\<lambda>q. sep @ q) ps))"

definition replace_char :: "char \<Rightarrow> char \<Rightarrow> string \<Rightarrow> string" where
  "replace_char a b s = map (\<lambda>c. if c = a then b else c) s"

definition trim_right :: "char \<Rightarrow> string \<Rightarrow> string" where
  "trim_right c s = rev (dropWhile (\<lambda>x. x = c) (rev s))"

text \<open>The verb \<open>%02d\<close>.\<close>

definition fmt02 :: "int \<Rightarrow> string" where
  "fmt02 i = (if i < 0 then CHR ''-'' # pad0 1 (decU (nat (- i))) else pad0 2 (decU (nat i)))"

function Fields :: "string \<Rightarrow> string list" where
  "Fields s =
     (let t = dropWhile is_space s in
      if t = [] then [] else takeWhile (\<lambda>c. \<not> is_space c) t # Fields (dropWhile (\<lambda>c. \<not> is_space c) t))"
  by pat_completeness auto
termination
proof (relation "measure length")
  fix s t :: string
  assume t: "t = dropWhile is_space s" "t \<noteq> []"
  then have "\<not> is_space (hd t)" using hd_dropWhile [of is_space s] by simp
  with t(2) obtain c u where c: "t = c # u" "\<not> is_space c" by (cases t) auto
  have "length (dropWhile (\<lambda>c. \<not> is_space c) t) \<le> length u" using c by (simp add: length_dropWhile_le)
  also have "\<dots> < length t" using c by simp
  also have "\<dots> \<le> length s" using t(1) by (simp add: length_dropWhile_le)
  finally show "(dropWhile (\<lambda>c. \<not> is_space c) t, s) \<in> measure length" by simp
qed simp

definition LastIndex :: "string \<Rightarrow> char \<Rightarrow> nat option" where
  "LastIndex s c = (if c \<in> set s then Some (length s - Suc (length (takeWhile (\<lambda>x. x \<noteq> c) (rev s)))) else None)"

definition TrimPrefix :: "string \<Rightarrow> string \<Rightarrow> string" where
  "TrimPrefix s p = (if HasPrefix s p then drop (length p) s else s)"

text \<open>\<open>strconv.ParseInt(s, 16, 64)\<close>.\<close>

definition ParseInt16 :: "string \<Rightarrow> num_err + int" where
  "ParseInt16 s =
     (let neg = (s \<noteq> [] \<and> hd s = CHR ''-'');
          body = (if s \<noteq> [] \<and> (hd s = CHR ''-'' \<or> hd s = CHR ''+'') then tl s else s)
      in case ParseUint body 64 of
           Inl e \<Rightarrow> Inl e
         | Inr n \<Rightarrow>
             if neg then (if 2 ^ 63 < n then Inl NumRange else Inr (- int n))
             else if 2 ^ 63 \<le> n then Inl NumRange else Inr (int n))"

end
