(* ===== verification/PollQueue.thy ===== *)
theory PollQueue
  imports Floats Strings
begin

text \<open>
  The polling scheduler's queue, \<open>mecom/pollqueue.go\<close>: a rotating list of normal parameters, a
  front queue of manual polls, and the freshest result per parameter.  The mutex serialises the
  methods, so each is one state transformer on the \<open>PollQueue\<close> record; \<open>time.Now()\<close> in \<open>Record\<close> is
  an argument.  The queue's contract is the locale \<open>poll_source\<close>: what the next chunk contains
  and how the two queues move; from it follows that every queued parameter is polled.
\<close>

section \<open>Parameter keys\<close>

definition ParameterKey :: "'a Parameter_scheme \<Rightarrow> string" where
  "ParameterKey p = fmtD (par_ID p) @ '':'' @ fmtD (par_Instance p) @ '':'' @ par_Type p"

lemma split_at_colon:
  "a @ CHR '':'' # b = c @ CHR '':'' # d \<Longrightarrow> CHR '':'' \<notin> set a \<Longrightarrow> CHR '':'' \<notin> set c \<Longrightarrow> a = c \<and> b = d"
proof (induction a arbitrary: c)
  case Nil
  then show ?case by (cases c) auto
next
  case (Cons x a)
  then show ?case by (cases c) auto
qed

lemma ParameterKey_iff:
  "ParameterKey p = ParameterKey q \<longleftrightarrow>
     par_ID p = par_ID q \<and> par_Instance p = par_Instance q \<and> par_Type p = par_Type q"
  by (auto simp: ParameterKey_def fmtD_no_colon dest!: split_at_colon fmtD_inj)

section \<open>The queue\<close>

record PollResult =
  pr_Parameter :: Parameter
  pr_Value :: u64
  pr_Error :: string
  pr_ObservedAt :: gotime

record PollQueue =
  normal :: "Parameter list"
  normalPos :: nat
  front :: "Parameter list"
  normalSet :: "string set"
  frontSet :: "string set"
  latest :: "string \<rightharpoonup> PollResult"

definition seedLatestLocked :: "Parameter \<Rightarrow> PollQueue \<Rightarrow> PollQueue" where
  "seedLatestLocked p q =
     (case latest q (ParameterKey p) of
        Some _ \<Rightarrow> q
      | None \<Rightarrow> q\<lparr>latest := (latest q)(ParameterKey p \<mapsto>
          \<lparr>pr_Parameter = p, pr_Value = f64_nan, pr_Error = ''not_sampled'', pr_ObservedAt = zero_time\<rparr>)\<rparr>)"

definition Enqueue :: "Parameter \<Rightarrow> PollQueue \<Rightarrow> PollQueue" where
  "Enqueue p q0 =
     (let q = seedLatestLocked p q0 in
      if ParameterKey p \<in> normalSet q then q
      else q\<lparr>normalSet := insert (ParameterKey p) (normalSet q), normal := normal q @ [p]\<rparr>)"

definition EnqueueFront :: "Parameter \<Rightarrow> PollQueue \<Rightarrow> PollQueue" where
  "EnqueueFront p q0 =
     (let q = seedLatestLocked p q0 in
      if ParameterKey p \<in> frontSet q then q
      else q\<lparr>frontSet := insert (ParameterKey p) (frontSet q), front := front q @ [p]\<rparr>)"

definition NewPollQueue :: "Parameter list \<Rightarrow> PollQueue" where
  "NewPollQueue params =
     fold Enqueue params
       \<lparr>normal = [], normalPos = 0, front = [], normalSet = {}, frontSet = {}, latest = Map.empty\<rparr>"

text \<open>The two loops of \<open>NextChunk\<close>; the first argument is how many iterations are still allowed.\<close>

fun front_loop :: "nat \<Rightarrow> PollQueue \<Rightarrow> Parameter list \<times> PollQueue" where
  "front_loop 0 q = ([], q)"
| "front_loop (Suc k) q =
     (case front q of
        [] \<Rightarrow> ([], q)
      | p # ps \<Rightarrow>
          (case front_loop k (q\<lparr>front := ps, frontSet := frontSet q - {ParameterKey p}\<rparr>) of
             (out, q') \<Rightarrow> (p # out, q')))"

fun normal_loop :: "nat \<Rightarrow> PollQueue \<Rightarrow> Parameter list \<times> PollQueue" where
  "normal_loop 0 q = ([], q)"
| "normal_loop (Suc k) q =
     (let p = normal q ! normalPos q;
          pos = (if length (normal q) \<le> normalPos q + 1 then 0 else normalPos q + 1)
      in case normal_loop k (q\<lparr>normalPos := pos\<rparr>) of (out, q') \<Rightarrow> (p # out, q'))"

definition NextChunk :: "int \<Rightarrow> PollQueue \<Rightarrow> Parameter list \<times> PollQueue" where
  "NextChunk mx q =
     (if mx \<le> 0 then ([], q)
      else case front_loop (nat mx) q of
        (out, q1) \<Rightarrow>
          (if normal q1 = [] then (out, q1)
           else case normal_loop (min (length (normal q1)) (nat mx - length out)) q1 of
             (out2, q2) \<Rightarrow> (out @ out2, q2)))"

definition Record :: "gotime \<Rightarrow> PollResult \<Rightarrow> PollQueue \<Rightarrow> PollQueue" where
  "Record now result q =
     (let r = (if pr_ObservedAt result = zero_time then result\<lparr>pr_ObservedAt := now\<rparr> else result)
      in q\<lparr>latest := (latest q)(ParameterKey (pr_Parameter r) \<mapsto> r)\<rparr>)"

text \<open>\<open>RecordBulk\<close>: a parameter beyond the values keeps Go's zero value of \<open>float64\<close>.\<close>

definition bulk_result :: "u64 list \<Rightarrow> gotime \<Rightarrow> string option \<Rightarrow> nat \<times> Parameter \<Rightarrow> PollResult" where
  "bulk_result values observedAt err ip =
     \<lparr>pr_Parameter = snd ip,
      pr_Value = (if fst ip < length values then values ! fst ip else 0),
      pr_Error = (case err of None \<Rightarrow> [] | Some e \<Rightarrow> e),
      pr_ObservedAt = observedAt\<rparr>"

definition RecordBulk ::
    "gotime \<Rightarrow> Parameter list \<Rightarrow> u64 list \<Rightarrow> gotime \<Rightarrow> string option \<Rightarrow> PollQueue \<Rightarrow> PollQueue" where
  "RecordBulk now params values observedAt err q =
     fold (\<lambda>ip. Record now (bulk_result values observedAt err ip)) (enumerate 0 params) q"

definition Latest :: "Parameter \<Rightarrow> PollQueue \<Rightarrow> PollResult option" where
  "Latest p q = latest q (ParameterKey p)"

section \<open>The contract of a poll source\<close>

text \<open>
  \<open>pending\<close> is what is polled first, \<open>cycle\<close> the round-robin order from its current position.
\<close>

locale poll_source =
  fixes inv :: "'q \<Rightarrow> bool"
    and pending :: "'q \<Rightarrow> 'p list"
    and cycle :: "'q \<Rightarrow> 'p list"
    and chunk :: "nat \<Rightarrow> 'q \<Rightarrow> 'p list \<times> 'q"
  assumes chunk_out: "inv q \<Longrightarrow> fst (chunk m q) = take m (pending q) @ take (m - length (pending q)) (cycle q)"
    and chunk_pending: "inv q \<Longrightarrow> pending (snd (chunk m q)) = drop m (pending q)"
    and chunk_cycle: "inv q \<Longrightarrow>
      cycle (snd (chunk m q)) = rotate (min (m - length (pending q)) (length (cycle q))) (cycle q)"
    and chunk_inv: "inv q \<Longrightarrow> inv (snd (chunk m q))"
begin

primrec chunks :: "nat \<Rightarrow> nat \<Rightarrow> 'q \<Rightarrow> 'p list" where
  "chunks 0 m q = []"
| "chunks (Suc k) m q = fst (chunk m q) @ chunks k m (snd (chunk m q))"

lemma chunk_length: "inv q \<Longrightarrow> length (fst (chunk m q)) \<le> m"
  by (simp add: chunk_out)

lemma take_rotate_sub:
  "set (take (c + n) xs) \<subseteq> set (take c xs) \<union> set (take n (rotate (min c (length xs)) xs))"
proof (cases "c < length xs")
  case True
  then have "rotate (min c (length xs)) xs = drop c xs @ take c xs" by (simp add: rotate_drop_take)
  moreover have "take (c + n) xs = take c xs @ take n (drop c xs)" by (simp add: take_add)
  moreover have "set (take n (drop c xs)) \<subseteq> set (take n (drop c xs @ take c xs))" by simp
  ultimately show ?thesis by auto
qed simp

lemma chunks_cover:
  "inv q \<Longrightarrow>
   set (take (k * m) (pending q)) \<union> set (take (k * m - length (pending q)) (cycle q)) \<subseteq> set (chunks k m q)"
proof (induction k arbitrary: q)
  case (Suc k)
  let ?q = "snd (chunk m q)" and ?F = "length (pending q)"
  note IH = Suc.IH [OF chunk_inv [OF Suc.prems, of m]]
  have p: "set (take (Suc k * m) (pending q)) \<subseteq> set (take m (pending q)) \<union> set (take (k * m) (pending ?q))"
    by (simp add: chunk_pending [OF Suc.prems] take_add)
  have "set (take (Suc k * m - ?F) (cycle q)) \<subseteq>
      set (take (m - ?F) (cycle q)) \<union> set (take (k * m - length (pending ?q)) (cycle ?q))"
  proof (cases "?F \<le> m")
    case True
    then have e: "Suc k * m - ?F = (m - ?F) + k * m" by simp
    show ?thesis unfolding e
      using take_rotate_sub [of "m - ?F" "k * m" "cycle q"] True
      by (simp add: chunk_pending [OF Suc.prems] chunk_cycle [OF Suc.prems])
  next
    case False
    then have "k * m - length (pending ?q) = Suc k * m - ?F" "cycle ?q = cycle q"
      by (simp_all add: chunk_pending [OF Suc.prems] chunk_cycle [OF Suc.prems])
    then show ?thesis by simp
  qed
  with p IH show ?case by (auto simp: chunk_out [OF Suc.prems])
qed simp

lemma all_polled:
  assumes "inv q" and "length (pending q) + length (cycle q) \<le> k * m"
  shows "set (pending q) \<union> set (cycle q) \<subseteq> set (chunks k m q)"
  using chunks_cover [OF assms(1), of k m] assms(2) by simp

end

section \<open>The queue meets the contract\<close>

definition pq_inv :: "PollQueue \<Rightarrow> bool" where
  "pq_inv q \<longleftrightarrow>
     normalSet q = ParameterKey ` set (normal q) \<and> distinct (map ParameterKey (normal q)) \<and>
     frontSet q = ParameterKey ` set (front q) \<and> distinct (map ParameterKey (front q)) \<and>
     (if normal q = [] then normalPos q = 0 else normalPos q < length (normal q)) \<and>
     normalSet q \<union> frontSet q \<subseteq> dom (latest q)"

definition rotation :: "PollQueue \<Rightarrow> Parameter list" where
  "rotation q = rotate (normalPos q) (normal q)"

lemma seedLatest_simps [simp]:
  "normal (seedLatestLocked p q) = normal q" "normalPos (seedLatestLocked p q) = normalPos q"
  "front (seedLatestLocked p q) = front q" "normalSet (seedLatestLocked p q) = normalSet q"
  "frontSet (seedLatestLocked p q) = frontSet q"
  "dom (latest (seedLatestLocked p q)) = insert (ParameterKey p) (dom (latest q))"
  by (auto simp: seedLatestLocked_def split: option.splits)

lemma pq_inv_Enqueue: "pq_inv q \<Longrightarrow> pq_inv (Enqueue p q)"
  by (auto simp: pq_inv_def Enqueue_def Let_def image_subset_iff split: if_splits)

lemma pq_inv_EnqueueFront: "pq_inv q \<Longrightarrow> pq_inv (EnqueueFront p q)"
  by (auto simp: pq_inv_def EnqueueFront_def Let_def image_subset_iff)

lemma pq_inv_fold: "pq_inv q \<Longrightarrow> pq_inv (fold Enqueue ps q)"
  by (induction ps arbitrary: q) (auto simp: pq_inv_Enqueue)

lemma pq_inv_New: "pq_inv (NewPollQueue ps)"
  unfolding NewPollQueue_def by (rule pq_inv_fold) (simp add: pq_inv_def)

lemma pq_inv_Record: "pq_inv q \<Longrightarrow> pq_inv (Record now r q)"
  by (auto simp: pq_inv_def Record_def Let_def image_subset_iff)

lemma pq_inv_RecordBulk: "pq_inv q \<Longrightarrow> pq_inv (RecordBulk now ps vs t err q)"
proof -
  have "pq_inv q \<Longrightarrow> pq_inv (fold (\<lambda>ip. Record now (bulk_result vs t err ip)) ips q)" for ips q
    by (induction ips arbitrary: q) (auto simp: pq_inv_Record)
  then show "pq_inv q \<Longrightarrow> ?thesis" by (simp add: RecordBulk_def)
qed

lemma front_loop_eq:
  "pq_inv q \<Longrightarrow>
   front_loop k q =
     (take k (front q), q\<lparr>front := drop k (front q), frontSet := ParameterKey ` set (drop k (front q))\<rparr>)"
proof (induction k arbitrary: q)
  case 0
  then show ?case by (simp add: pq_inv_def)
next
  case (Suc k)
  show ?case
  proof (cases "front q")
    case Nil
    with Suc.prems show ?thesis by (simp add: pq_inv_def)
  next
    case (Cons p ps)
    let ?q = "q\<lparr>front := ps, frontSet := frontSet q - {ParameterKey p}\<rparr>"
    have "pq_inv ?q" using Suc.prems Cons by (auto simp: pq_inv_def image_subset_iff)
    then show ?thesis using Suc.IH [of ?q] Cons by simp
  qed
qed

lemma pq_inv_drop_front:
  "pq_inv q \<Longrightarrow> pq_inv (q\<lparr>front := drop k (front q), frontSet := ParameterKey ` set (drop k (front q))\<rparr>)"
  by (auto simp: pq_inv_def image_subset_iff drop_map [symmetric] dest!: in_set_dropD)

lemma rotate_Suc_pos:
  assumes "pos < length xs"
  shows "rotate (if length xs \<le> pos + 1 then 0 else pos + 1) xs = rotate1 (rotate pos xs)"
proof (cases "length xs \<le> pos + 1")
  case True
  with assms have "Suc pos = length xs" by simp
  then have "rotate (Suc pos) xs = xs" by simp
  with True show ?thesis by simp
qed simp

lemma normal_loop_eq:
  "pq_inv q \<Longrightarrow> normal q \<noteq> [] \<Longrightarrow> k \<le> length (normal q) \<Longrightarrow>
   fst (normal_loop k q) = take k (rotation q) \<and>
   rotation (snd (normal_loop k q)) = rotate k (rotation q) \<and>
   pq_inv (snd (normal_loop k q)) \<and> front (snd (normal_loop k q)) = front q"
proof (induction k arbitrary: q)
  case (Suc k)
  let ?pos = "if length (normal q) \<le> normalPos q + 1 then 0 else normalPos q + 1"
  let ?q = "q\<lparr>normalPos := ?pos\<rparr>"
  have pos: "normalPos q < length (normal q)" using Suc.prems by (simp add: pq_inv_def)
  have inv: "pq_inv ?q" using Suc.prems by (auto simp: pq_inv_def image_subset_iff)
  have rot: "rotation ?q = rotate1 (rotation q)"
    using rotate_Suc_pos [OF pos] by (simp add: rotation_def)
  have ne: "rotation q \<noteq> []" using Suc.prems by (simp add: rotation_def)
  have hd: "normal q ! normalPos q = hd (rotation q)"
    using pos Suc.prems(2) by (simp add: rotation_def hd_rotate_conv_nth)
  have tk: "take k (rotate1 (rotation q)) = take k (tl (rotation q))"
  proof -
    have "k \<le> length (tl (rotation q))" using Suc.prems by (simp add: rotation_def)
    then show ?thesis using ne by (cases "rotation q") auto
  qed
  show ?case
    using Suc.IH [OF inv] Suc.prems rot tk hd ne
    by (cases "rotation q") (auto simp: Let_def split: prod.splits simp: rotate1_rotate_swap)
qed simp

lemma NextChunk_eq:
  assumes inv: "pq_inv q"
  shows "fst (NextChunk (int m) q) = take m (front q) @ take (m - length (front q)) (rotation q) \<and>
    front (snd (NextChunk (int m) q)) = drop m (front q) \<and>
    rotation (snd (NextChunk (int m) q)) =
      rotate (min (m - length (front q)) (length (rotation q))) (rotation q) \<and>
    pq_inv (snd (NextChunk (int m) q))"
proof (cases "m = 0")
  case True
  with inv show ?thesis by (simp add: NextChunk_def)
next
  case False
  let ?q = "q\<lparr>front := drop m (front q), frontSet := ParameterKey ` set (drop m (front q))\<rparr>"
  let ?k = "min (length (normal q)) (m - length (take m (front q)))"
  have fl: "front_loop (nat (int m)) q = (take m (front q), ?q)" using front_loop_eq [OF inv] by simp
  have iq: "pq_inv ?q" using inv by (rule pq_inv_drop_front)
  have rq: "rotation ?q = rotation q" by (simp add: rotation_def)
  have len: "length (rotation q) = length (normal q)" by (simp add: rotation_def)
  have k: "m - min (length (front q)) m = m - length (front q)"
    "m - min m (length (front q)) = m - length (front q)" by simp_all
  show ?thesis
  proof (cases "normal q = []")
    case True
    then have "rotation q = []" by (simp add: rotation_def)
    with True False fl iq rq show ?thesis by (simp add: NextChunk_def)
  next
    case nn: False
    have tk: "take ?k (rotation q) = take (m - length (front q)) (rotation q)"
      using len nn by (cases "m - length (front q) \<le> length (normal q)") (simp_all add: k min_def)
    have nl: "fst (normal_loop ?k ?q) = take ?k (rotation ?q)"
      "rotation (snd (normal_loop ?k ?q)) = rotate ?k (rotation ?q)"
      "pq_inv (snd (normal_loop ?k ?q))" "front (snd (normal_loop ?k ?q)) = front ?q"
      using normal_loop_eq [OF iq, of ?k] nn by simp_all
    have "NextChunk (int m) q = (take m (front q) @ fst (normal_loop ?k ?q), snd (normal_loop ?k ?q))"
      using False nn fl by (simp add: NextChunk_def split: prod.splits)
    then show ?thesis using nl rq tk len by (simp add: k min.commute)
  qed
qed

interpretation pollq: poll_source pq_inv front rotation "\<lambda>m. NextChunk (int m)"
  by unfold_locales (simp_all add: NextChunk_eq)

lemma set_rotation: "set (rotation q) = set (normal q)"
  by (simp add: rotation_def)

section \<open>Properties\<close>

inductive pq_reachable :: "PollQueue \<Rightarrow> bool" where
  New: "pq_reachable (NewPollQueue ps)"
| Enq: "pq_reachable q \<Longrightarrow> pq_reachable (Enqueue p q)"
| EnqFront: "pq_reachable q \<Longrightarrow> pq_reachable (EnqueueFront p q)"
| Next: "pq_reachable q \<Longrightarrow> pq_reachable (snd (NextChunk mx q))"
| Rec: "pq_reachable q \<Longrightarrow> pq_reachable (Record now r q)"
| RecBulk: "pq_reachable q \<Longrightarrow> pq_reachable (RecordBulk now ps vs t err q)"

lemma pq_inv_Next: "pq_inv q \<Longrightarrow> pq_inv (snd (NextChunk mx q))"
proof (cases "mx \<le> 0")
  case False
  then obtain m where "mx = int m" by (metis nonneg_int_cases not_le order_less_imp_le)
  then show "pq_inv q \<Longrightarrow> ?thesis" by (simp add: pollq.chunk_inv)
qed (simp add: NextChunk_def)

lemma pq_reachable_inv: "pq_reachable q \<Longrightarrow> pq_inv q"
  by (induction rule: pq_reachable.induct)
    (auto intro: pq_inv_New pq_inv_Enqueue pq_inv_EnqueueFront pq_inv_Next pq_inv_Record pq_inv_RecordBulk)

fun poll_chunks :: "nat \<Rightarrow> int \<Rightarrow> PollQueue \<Rightarrow> Parameter list" where
  "poll_chunks 0 mx q = []"
| "poll_chunks (Suc k) mx q = fst (NextChunk mx q) @ poll_chunks k mx (snd (NextChunk mx q))"

lemma poll_chunks_eq: "poll_chunks k (int m) q = pollq.chunks k m q"
  by (induction k arbitrary: q) auto

text \<open>
  No parameter starves: in any reachable queue, as soon as \<open>k\<close> chunks of size \<open>m\<close> cover the
  pending manual polls and one round of the normal parameters, every pending and every normal
  parameter has been handed out in those chunks.
\<close>

theorem no_parameter_starves:
  assumes "pq_reachable q" and "length (front q) + length (normal q) \<le> k * m"
  shows "set (front q) \<union> set (normal q) \<subseteq> set (poll_chunks k (int m) q)"
  using pollq.all_polled [OF pq_reachable_inv [OF assms(1)], of k m] assms(2)
  by (simp add: poll_chunks_eq set_rotation rotation_def)

theorem no_parameter_starves_witness:
  "set (front (EnqueueFront (demo_param 1 ''float32'') (NewPollQueue [demo_param 2 ''float32'', demo_param 3 ''int32'']))) \<union>
   set (normal (EnqueueFront (demo_param 1 ''float32'') (NewPollQueue [demo_param 2 ''float32'', demo_param 3 ''int32''])))
   \<subseteq> set (poll_chunks 2 (int 2) (EnqueueFront (demo_param 1 ''float32'')
         (NewPollQueue [demo_param 2 ''float32'', demo_param 3 ''int32''])))"
proof (rule no_parameter_starves)
  show "pq_reachable (EnqueueFront (demo_param 1 ''float32'') (NewPollQueue [demo_param 2 ''float32'', demo_param 3 ''int32'']))"
    by (intro pq_reachable.intros)
  show "length (front (EnqueueFront (demo_param 1 ''float32'') (NewPollQueue [demo_param 2 ''float32'', demo_param 3 ''int32'']))) +
      length (normal (EnqueueFront (demo_param 1 ''float32'') (NewPollQueue [demo_param 2 ''float32'', demo_param 3 ''int32'']))) \<le> 2 * 2"
    by (simp add: EnqueueFront_def NewPollQueue_def Enqueue_def seedLatestLocked_def Let_def)
qed

text \<open>
  A chunk is bounded and ordered: in any reachable queue \<open>NextChunk m\<close> returns at most \<open>m\<close>
  parameters, the pending manual polls first in the order they were requested, then the normal
  parameters from the current position of the rotation, none of them twice in one chunk.
\<close>

theorem NextChunk_contents:
  assumes "pq_reachable q"
  shows "fst (NextChunk (int m) q) = take m (front q) @ take (m - length (front q)) (rotate (normalPos q) (normal q)) \<and>
         length (fst (NextChunk (int m) q)) \<le> m \<and>
         distinct (take (m - length (front q)) (rotate (normalPos q) (normal q)))"
proof -
  have inv: "pq_inv q" using assms by (rule pq_reachable_inv)
  then have "distinct (map ParameterKey (normal q))" by (simp add: pq_inv_def)
  then have "distinct (normal q)" by (rule distinct_map [THEN iffD1, THEN conjunct1])
  then show ?thesis
    using pollq.chunk_out [OF inv, of m] pollq.chunk_length [OF inv, of m] by (simp add: rotation_def)
qed

theorem NextChunk_contents_witness:
  "fst (NextChunk (int 2) (NewPollQueue [demo_param 2 ''float32'', demo_param 3 ''int32''])) =
     take 2 (front (NewPollQueue [demo_param 2 ''float32'', demo_param 3 ''int32''])) @
     take (2 - length (front (NewPollQueue [demo_param 2 ''float32'', demo_param 3 ''int32''])))
       (rotate (normalPos (NewPollQueue [demo_param 2 ''float32'', demo_param 3 ''int32'']))
         (normal (NewPollQueue [demo_param 2 ''float32'', demo_param 3 ''int32''])))"
  using NextChunk_contents [OF pq_reachable.New, of 2 "[demo_param 2 ''float32'', demo_param 3 ''int32'']"]
  by blast

text \<open>
  Results are kept per parameter identity: after \<open>Record\<close>, \<open>Latest\<close> of a parameter with the
  same ID, instance and type returns the recorded value and error, and \<open>Latest\<close> of every other
  parameter is unchanged (the textual key \<open>ID:Instance:Type\<close> never confuses two parameters).
\<close>

theorem Record_Latest:
  "Latest p (Record now r q) =
     (if par_ID p = par_ID (pr_Parameter r) \<and> par_Instance p = par_Instance (pr_Parameter r) \<and>
         par_Type p = par_Type (pr_Parameter r)
      then Some (r\<lparr>pr_ObservedAt := (if pr_ObservedAt r = zero_time then now else pr_ObservedAt r)\<rparr>)
      else Latest p q)"
proof -
  have "ParameterKey p = ParameterKey (pr_Parameter r) \<longleftrightarrow>
      par_ID p = par_ID (pr_Parameter r) \<and> par_Instance p = par_Instance (pr_Parameter r) \<and>
      par_Type p = par_Type (pr_Parameter r)"
    by (rule ParameterKey_iff)
  then show ?thesis by (auto simp: Latest_def Record_def Let_def)
qed

end
