(* ===== verification/CanopenFrame.thy ===== *)
theory CanopenFrame
  imports Frames
begin

text \<open>
  The classic CAN frame and the expedited SDO and NMT helpers of \<open>canopen/frame.go\<close>.  The fixed
  array \<open>[8]byte\<close> is a byte list built by \<open>pad8\<close>, whose length is always 8 (\<open>frame_wf\<close>).  A
  function that returns a response and an error returns both here, since the Go code fills the
  response's identity before it reports an abort.  The round trips are stated against the server
  side of the CiA 301 expedited transfer (\<open>sdo_server_download\<close>, \<open>sdo_server_upload_reply\<close>), which
  the controller implements.
\<close>

unbundle bit_operations_syntax

section \<open>Frames\<close>

record Frame =
  fr_ID :: u32
  fr_Data :: "byte list"
  fr_DLC :: byte

definition pad8 :: "byte list \<Rightarrow> byte list" where
  "pad8 bs = take 8 (bs @ replicate 8 0)"

definition zero_frame :: Frame where
  "zero_frame = \<lparr>fr_ID = 0, fr_Data = pad8 [], fr_DLC = 0\<rparr>"

definition frame_wf :: "Frame \<Rightarrow> bool" where
  "frame_wf f \<longleftrightarrow> length (fr_Data f) = 8"

definition frame_Validate :: "Frame \<Rightarrow> can_error option" where
  "frame_Validate f = (if 8 < fr_DLC f then Some (InvalidDLC (fr_DLC f)) else None)"

definition validateNodeID :: "byte \<Rightarrow> can_error option" where
  "validateNodeID nodeID =
     (if nodeID = 0 \<or> 0x7f < nodeID then Some (NodeOutOfRange nodeID) else None)"

definition NMTFrame :: "byte \<Rightarrow> byte \<Rightarrow> can_error + Frame" where
  "NMTFrame command nodeID =
     (if 0x7f < nodeID then Inl (NMTNodeOutOfRange nodeID)
      else Inr \<lparr>fr_ID = 0, fr_Data = pad8 [command, nodeID], fr_DLC = 2\<rparr>)"

definition SDOUploadRequest :: "byte \<Rightarrow> u16 \<Rightarrow> byte \<Rightarrow> can_error + Frame" where
  "SDOUploadRequest nodeID index subIndex =
     (case validateNodeID nodeID of
        Some e \<Rightarrow> Inl e
      | None \<Rightarrow> Inr \<lparr>fr_ID = 0x600 + ucast nodeID,
          fr_Data = pad8 [0x40, ucast index, ucast (drop_bit 8 index), subIndex], fr_DLC = 8\<rparr>)"

section \<open>Responses\<close>

record SDODownloadResponse =
  sdo_NodeID :: byte
  sdo_Index :: u16
  sdo_SubIndex :: byte
  sdo_Frame :: Frame

record SDOUploadResponse = SDODownloadResponse +
  sdo_Data :: "byte list"

definition frame_index :: "Frame \<Rightarrow> u16" where
  "frame_index f = ucast (fr_Data f ! 1) OR push_bit 8 (ucast (fr_Data f ! 2))"

definition frame_abort :: "Frame \<Rightarrow> can_error" where
  "frame_abort f = SDOAbort (frame_index f) (fr_Data f ! 3) (le_get (take 4 (drop 4 (fr_Data f))))"

definition zero_upload :: SDOUploadResponse where
  "zero_upload = \<lparr>sdo_NodeID = 0, sdo_Index = 0, sdo_SubIndex = 0, sdo_Frame = zero_frame, sdo_Data = []\<rparr>"

definition zero_download :: SDODownloadResponse where
  "zero_download = \<lparr>sdo_NodeID = 0, sdo_Index = 0, sdo_SubIndex = 0, sdo_Frame = zero_frame\<rparr>"

definition ParseSDOUploadResponse :: "Frame \<Rightarrow> SDOUploadResponse \<times> can_error option" where
  "ParseSDOUploadResponse f =
     (case frame_Validate f of
        Some e \<Rightarrow> (zero_upload, Some e)
      | None \<Rightarrow>
          if fr_DLC f \<noteq> 8 then (zero_upload, Some (SDOResponseDLC (fr_DLC f)))
          else if fr_ID f < 0x580 \<or> 0x5ff < fr_ID f then (zero_upload, Some (SDOResponseID (fr_ID f)))
          else
            let resp = \<lparr>sdo_NodeID = ucast (fr_ID f - 0x580), sdo_Index = frame_index f,
                        sdo_SubIndex = fr_Data f ! 3, sdo_Frame = f, sdo_Data = []\<rparr>;
                cmd = fr_Data f ! 0
            in if cmd = 0x80 then (resp, Some (frame_abort f))
               else if cmd AND 0xe0 \<noteq> 0x40 then (resp, Some (SDOUnexpectedCommand cmd))
               else if cmd AND 0x02 = 0 then (resp, Some SDOSegmented)
               else
                 let size = (if cmd AND 0x01 \<noteq> 0 then 4 - unat (drop_bit 2 cmd AND 0x03) else 4)
                 in (resp\<lparr>sdo_Data := take size (drop 4 (fr_Data f))\<rparr>, None))"

definition resp_Uint32 :: "SDOUploadResponse \<Rightarrow> can_error + u32" where
  "resp_Uint32 r =
     (if length (sdo_Data r) \<noteq> 4
      then Inl (SDOValueLength (sdo_Index r) (sdo_SubIndex r) (length (sdo_Data r)))
      else Inr (le_get (sdo_Data r)))"

definition resp_Int32 :: "SDOUploadResponse \<Rightarrow> can_error + f64" where
  "resp_Int32 r = map_sum id F64_of_int32 (resp_Uint32 r)"

definition resp_Float32 :: "SDOUploadResponse \<Rightarrow> can_error + f64" where
  "resp_Float32 r = map_sum id F64_of_float32 (resp_Uint32 r)"

definition resp_Byte :: "SDOUploadResponse \<Rightarrow> can_error + byte" where
  "resp_Byte r =
     (if length (sdo_Data r) \<noteq> 1
      then Inl (SDOValueLength (sdo_Index r) (sdo_SubIndex r) (length (sdo_Data r)))
      else Inr (sdo_Data r ! 0))"

definition SDODownloadExpeditedRequest :: "byte \<Rightarrow> u16 \<Rightarrow> byte \<Rightarrow> byte list \<Rightarrow> can_error + Frame" where
  "SDODownloadExpeditedRequest nodeID index subIndex val =
     (case validateNodeID nodeID of
        Some e \<Rightarrow> Inl e
      | None \<Rightarrow>
          if length val = 0 \<or> 4 < length val then Inl (SDOPayloadLength (length val))
          else
            let unused = 4 - length val;
                cmd = 0x23 OR push_bit 2 (word_of_nat unused);
                data = pad8 [cmd, ucast index, ucast (drop_bit 8 index), subIndex]
            in Inr \<lparr>fr_ID = 0x600 + ucast nodeID,
                     fr_Data = take 4 data @ val @ drop (4 + length val) data, fr_DLC = 8\<rparr>)"

definition ParseSDODownloadResponse :: "Frame \<Rightarrow> SDODownloadResponse \<times> can_error option" where
  "ParseSDODownloadResponse f =
     (case frame_Validate f of
        Some e \<Rightarrow> (zero_download, Some e)
      | None \<Rightarrow>
          if fr_DLC f \<noteq> 8 then (zero_download, Some (SDODownloadDLC (fr_DLC f)))
          else if fr_ID f < 0x580 \<or> 0x5ff < fr_ID f then (zero_download, Some (SDODownloadID (fr_ID f)))
          else
            let resp = \<lparr>sdo_NodeID = ucast (fr_ID f - 0x580), sdo_Index = frame_index f,
                        sdo_SubIndex = fr_Data f ! 3, sdo_Frame = f\<rparr>;
                cmd = fr_Data f ! 0
            in if cmd = 0x80 then (resp, Some (frame_abort f))
               else if cmd \<noteq> 0x60 then (resp, Some (SDODownloadCommand cmd))
               else (resp, None))"

section \<open>The server side of CiA 301\<close>

text \<open>
  An expedited transfer carries its data in bytes 4 to 7; the command byte holds the specifier in
  bits 5 to 7, the number of unused bytes in bits 2 and 3, and the flags \<open>e\<close> and \<open>s\<close> in bits 1
  and 0.
\<close>

definition sdo_header :: "byte \<Rightarrow> u16 \<Rightarrow> byte \<Rightarrow> byte list" where
  "sdo_header cmd index sub = [cmd, ucast index, ucast (drop_bit 8 index), sub]"

definition sdo_command :: "byte \<Rightarrow> nat \<Rightarrow> byte" where
  "sdo_command spec len = spec * 32 + word_of_nat (4 - len) * 4 + 3"

definition sdo_server_download :: "Frame \<Rightarrow> (u32 \<times> u16 \<times> byte \<times> byte list) option" where
  "sdo_server_download f =
     (let cmd = fr_Data f ! 0 in
      if fr_DLC f = 8 \<and> drop_bit 5 cmd = 1 \<and> cmd AND 3 = 3
      then Some (fr_ID f - 0x600, frame_index f, fr_Data f ! 3,
                 take (4 - unat (drop_bit 2 cmd AND 3)) (drop 4 (fr_Data f)))
      else None)"

definition sdo_server_upload_reply :: "byte \<Rightarrow> u16 \<Rightarrow> byte \<Rightarrow> byte list \<Rightarrow> Frame" where
  "sdo_server_upload_reply node index sub val =
     \<lparr>fr_ID = 0x580 + ucast node,
      fr_Data = pad8 (sdo_header (sdo_command 2 (length val)) index sub @ val), fr_DLC = 8\<rparr>"

definition sdo_server_download_reply :: "byte \<Rightarrow> u16 \<Rightarrow> byte \<Rightarrow> Frame" where
  "sdo_server_download_reply node index sub =
     \<lparr>fr_ID = 0x580 + ucast node, fr_Data = pad8 (sdo_header 0x60 index sub), fr_DLC = 8\<rparr>"

definition sdo_server_abort :: "byte \<Rightarrow> u16 \<Rightarrow> byte \<Rightarrow> u32 \<Rightarrow> Frame" where
  "sdo_server_abort node index sub code =
     \<lparr>fr_ID = 0x580 + ucast node, fr_Data = pad8 (sdo_header 0x80 index sub @ le_put 4 code), fr_DLC = 8\<rparr>"

section \<open>Lemmas\<close>

lemma length_pad8 [simp]: "length (pad8 bs) = 8"
  by (simp add: pad8_def)

lemma index_bytes: "(ucast (ucast (x :: u16) :: byte) :: u16) OR push_bit 8 (ucast (ucast (drop_bit 8 x) :: byte)) = x"
  by (rule bit_word_eqI) (auto simp: bit_or_iff bit_push_bit_iff bit_ucast_iff bit_drop_bit_eq)

lemma frame_index_header:
  "frame_index \<lparr>fr_ID = i, fr_Data = pad8 (sdo_header cmd index sub @ rest), fr_DLC = d\<rparr> = index"
  by (simp add: frame_index_def sdo_header_def pad8_def index_bytes)

lemma nodeID_iff: "validateNodeID n = None \<longleftrightarrow> n \<noteq> 0 \<and> n \<le> 0x7f"
  by (auto simp: validateNodeID_def)

lemma reply_id:
  assumes "n \<le> (0x7f :: byte)"
  shows "\<not> (0x580 + ucast n < (0x580 :: u32) \<or> 0x5ff < (0x580 + ucast n :: u32))"
    and "ucast (0x580 + ucast n - 0x580 :: u32) = n"
proof -
  have "unat n \<le> 0x7f" using assms by (simp add: word_le_nat_alt)
  then have "unat (0x580 + ucast n :: u32) = 0x580 + unat n"
    by (subst unat_add_lem [THEN iffD1]) (simp_all add: unat_ucast_up)
  then show "\<not> (0x580 + ucast n < (0x580 :: u32) \<or> 0x5ff < (0x580 + ucast n :: u32))"
    using \<open>unat n \<le> 0x7f\<close> by (simp add: word_less_nat_alt)
  show "ucast (0x580 + ucast n - 0x580 :: u32) = n" by (simp add: ucast_up_down)
qed

lemma one_to_four:
  assumes "0 < length (xs :: 'a list)" and "length xs \<le> 4"
  obtains a where "xs = [a]" | a b where "xs = [a, b]" | a b c where "xs = [a, b, c]"
    | a b c d where "xs = [a, b, c, d]"
proof -
  from assms have "length xs = 1 \<or> length xs = 2 \<or> length xs = 3 \<or> length xs = 4" by linarith
  with that show ?thesis by (auto simp: length_Suc_conv numeral_eq_Suc)
qed

lemma upload_reply_wf: "frame_wf (sdo_server_upload_reply n i s v)"
  by (simp add: frame_wf_def sdo_server_upload_reply_def)

lemma request_wf:
  "SDODownloadExpeditedRequest n i s v = Inr f \<Longrightarrow> frame_wf f"
  by (auto simp: SDODownloadExpeditedRequest_def frame_wf_def Let_def split: option.splits if_splits)

lemma download_parse_reply:
  assumes "n \<le> 0x7f"
  shows "ParseSDODownloadResponse (sdo_server_download_reply n i s) =
    (\<lparr>sdo_NodeID = n, sdo_Index = i, sdo_SubIndex = s, sdo_Frame = sdo_server_download_reply n i s\<rparr>, None)"
  using reply_id [OF assms] frame_index_header [of _ _ _ _ "[]"]
  by (simp add: ParseSDODownloadResponse_def sdo_server_download_reply_def frame_Validate_def Let_def)
    (simp add: sdo_header_def pad8_def)

lemma upload_parse_reply:
  assumes "n \<le> 0x7f" and "0 < length v" "length v \<le> 4"
  shows "ParseSDOUploadResponse (sdo_server_upload_reply n i s v) =
    (\<lparr>sdo_NodeID = n, sdo_Index = i, sdo_SubIndex = s, sdo_Frame = sdo_server_upload_reply n i s v, sdo_Data = v\<rparr>, None)"
  using assms(2,3)
  by (cases v rule: one_to_four)
    (use reply_id [OF assms(1)] in \<open>simp_all add: ParseSDOUploadResponse_def sdo_server_upload_reply_def
      frame_Validate_def Let_def frame_index_header sdo_command_def\<close>,
     simp_all add: sdo_header_def pad8_def)

lemma abort_parse:
  assumes "n \<le> 0x7f"
  shows "snd (ParseSDOUploadResponse (sdo_server_abort n i s code)) = Some (SDOAbort i s code)"
    and "snd (ParseSDODownloadResponse (sdo_server_abort n i s code)) = Some (SDOAbort i s code)"
  using reply_id [OF assms] frame_index_header
  by (simp_all add: ParseSDOUploadResponse_def ParseSDODownloadResponse_def sdo_server_abort_def
      frame_Validate_def Let_def frame_abort_def)
    (simp_all add: sdo_header_def pad8_def)

lemma sdo_download_frame:
  assumes "SDODownloadExpeditedRequest n i s v = Inr f"
  shows "sdo_server_download f = Some (ucast n, i, s, v) \<and> frame_Validate f = None \<and>
    0 < length v \<and> length v \<le> 4 \<and> validateNodeID n = None"
proof -
  from assms have n: "validateNodeID n = None" and v: "0 < length v" "length v \<le> 4"
    by (auto simp: SDODownloadExpeditedRequest_def split: option.splits if_splits)
  from v show ?thesis
    by (cases v rule: one_to_four)
      (use assms n in \<open>auto simp: SDODownloadExpeditedRequest_def Let_def frame_Validate_def pad8_def
        sdo_server_download_def frame_index_def index_bytes\<close>)
qed

section \<open>Properties\<close>

text \<open>
  Expedited downloads carry exactly what was asked: \<open>SDODownloadExpeditedRequest\<close> fails only
  for a node outside 1..127 or a payload outside 1..4 bytes, and otherwise builds a valid classic
  CAN frame from which a CiA 301 server reads back the node, the index, the sub-index and the
  payload bytes, neither more nor fewer.
\<close>

theorem sdo_download_roundtrip:
  "case SDODownloadExpeditedRequest n i s v of
     Inr f \<Rightarrow> 1 \<le> n \<and> n \<le> 127 \<and> length v \<in> {1..4} \<and> frame_Validate f = None \<and>
             sdo_server_download f = Some (ucast n, i, s, v)
   | Inl e \<Rightarrow> e = NodeOutOfRange n \<and> (n = 0 \<or> 127 < n) \<or>
             e = SDOPayloadLength (length v) \<and> length v \<notin> {1..4}"
proof (cases "SDODownloadExpeditedRequest n i s v")
  case (Inl e)
  then show ?thesis
    by (auto simp: SDODownloadExpeditedRequest_def validateNodeID_def Let_def split: if_splits)
next
  case (Inr f)
  from sdo_download_frame [OF Inr] have "1 \<le> n \<and> n \<le> 127"
    by (simp add: nodeID_iff word_le_nat_alt unat_gt_0 Suc_le_eq)
  with sdo_download_frame [OF Inr] Inr show ?thesis by (simp add: Suc_le_eq)
qed

text \<open>
  Expedited uploads and aborts are decoded exactly: for every node, index and sub-index,
  \<open>ParseSDOUploadResponse\<close> returns the 1 to 4 bytes a server put into its reply, and both parsers
  return a server's abort as the \<open>SDOAbortError\<close> with its index, sub-index and abort code.
\<close>

theorem sdo_response_roundtrip:
  assumes "n \<le> 127" and "0 < length v" and "length v \<le> 4"
  shows "ParseSDOUploadResponse (sdo_server_upload_reply n i s v) =
      (\<lparr>sdo_NodeID = n, sdo_Index = i, sdo_SubIndex = s,
        sdo_Frame = sdo_server_upload_reply n i s v, sdo_Data = v\<rparr>, None) \<and>
    snd (ParseSDOUploadResponse (sdo_server_abort n i s code)) = Some (SDOAbort i s code) \<and>
    snd (ParseSDODownloadResponse (sdo_server_abort n i s code)) = Some (SDOAbort i s code) \<and>
    snd (ParseSDODownloadResponse (sdo_server_download_reply n i s)) = None"
  using upload_parse_reply [OF assms] abort_parse [OF assms(1)] download_parse_reply [OF assms(1)]
  by simp_all

theorem sdo_response_roundtrip_witness:
  "ParseSDOUploadResponse (sdo_server_upload_reply 5 0x2100 1 [7, 8]) =
     (\<lparr>sdo_NodeID = 5, sdo_Index = 0x2100, sdo_SubIndex = 1,
       sdo_Frame = sdo_server_upload_reply 5 0x2100 1 [7, 8], sdo_Data = [7, 8]\<rparr>, None) \<and>
   snd (ParseSDOUploadResponse (sdo_server_abort 5 0x2100 1 0x06020000)) = Some (SDOAbort 0x2100 1 0x06020000)"
  using sdo_response_roundtrip [where n = 5 and v = "[7, 8]" and i = "0x2100" and s = 1 and code = "0x06020000"]
  by simp

end
