(* ===== verification/CanTransport.thy ===== *)
theory CanTransport
  imports CanopenFrame
begin

text \<open>
  What the two CAN clients share.  A client sends one frame and then loops: it looks at the
  context and at the clock, calls \<open>Recv\<close> with the time it is willing to wait and either ignores the
  frame or returns.  One iteration's observations are a \<open>turn\<close>, in which what \<open>Recv\<close> returns may
  depend on the wait it is given; a list of turns is what the transceiver and the clock do during one
  call.  \<open>recv_loop\<close> is the loop, with the tests (which give an error or the wait) and the
  classification of a frame as arguments; its result is \<open>None\<close> when the turns end while the client is
  still waiting.

  The locale \<open>can_wait\<close> is the contract of such a loop: its test fires once the clock has reached
  the deadline, and not before it unless the context has ended, and otherwise the wait is the time
  left.  From it follow that the loop returns by the deadline, that no \<open>Recv\<close> is given more or less
  than the time left and that frames it ignores do not matter.
  \<open>read_bulk_loop\<close> is the loop of both \<open>ReadBulk\<close> methods, \<open>readBulkShouldReturnError\<close> is from
  \<open>mecom/readout.go\<close>.
\<close>

section \<open>Waiting for a reply\<close>

record turn =
  t_ctx :: "mecom_error option"
  t_now :: gotime
  t_recv :: "int \<Rightarrow> mecom_error + Frame"

fun recv_loop ::
    "(turn \<Rightarrow> mecom_error + int) \<Rightarrow> (Frame \<Rightarrow> (mecom_error + 'a) option) \<Rightarrow> turn list \<Rightarrow> (mecom_error + 'a) option"
where
  "recv_loop check classify [] = None"
| "recv_loop check classify (t # ts) =
     (case check t of
        Inl e \<Rightarrow> Some (Inl e)
      | Inr left \<Rightarrow>
          (case t_recv t left of
             Inl e \<Rightarrow> Some (Inl e)
           | Inr f \<Rightarrow> (case classify f of Some r \<Rightarrow> Some r | None \<Rightarrow> recv_loop check classify ts)))"

text \<open>A turn in which the client is not cancelled and receives a frame, and one that receives none.\<close>

definition live_turn :: "gotime \<Rightarrow> Frame \<Rightarrow> turn" where
  "live_turn now f = \<lparr>t_ctx = None, t_now = now, t_recv = (\<lambda>_. Inr f)\<rparr>"

definition silent_turn :: "gotime \<Rightarrow> turn" where
  "silent_turn now = \<lparr>t_ctx = None, t_now = now, t_recv = (\<lambda>_. Inl ErrTimeout)\<rparr>"

text \<open>
  The turn as seen through a transceiver that fails with the error \<open>e\<close> unless it is given exactly the
  time that is left until \<open>deadline\<close>.
\<close>

definition waits_until :: "gotime \<Rightarrow> mecom_error \<Rightarrow> turn \<Rightarrow> turn" where
  "waits_until deadline e t =
     t\<lparr>t_recv := (\<lambda>wait. if t_now t + wait = deadline then t_recv t wait else Inl e)\<rparr>"

locale can_wait =
  fixes deadline :: gotime
    and check :: "turn \<Rightarrow> mecom_error + int"
    and classify :: "Frame \<Rightarrow> (mecom_error + 'a) option"
  assumes check_expired: "deadline \<le> t_now t \<Longrightarrow> \<exists>e. check t = Inl e"
    and check_live: "t_now t < deadline \<Longrightarrow> t_ctx t = None \<Longrightarrow> check t = Inr (deadline - t_now t)"
    and check_left: "check t = Inr left \<Longrightarrow> t_now t + left = deadline"
    and check_recv: "check (t\<lparr>t_recv := r\<rparr>) = check t"
begin

lemma returns_by_deadline:
  "t \<in> set ts \<Longrightarrow> deadline \<le> t_now t \<Longrightarrow> recv_loop check classify ts \<noteq> None"
proof (induction ts)
  case (Cons x ts)
  then show ?case using check_expired [of x] by (cases "check x") (auto split: option.splits sum.splits)
qed simp

lemma waits_the_time_left:
  "recv_loop check classify (map (waits_until deadline e) ts) = recv_loop check classify ts"
proof (induction ts)
  case (Cons t ts)
  have "check (waits_until deadline e t) = check t" by (simp add: waits_until_def check_recv)
  moreover have "t_recv (waits_until deadline e t) left = t_recv t left" if "check t = Inr left" for left
    using check_left [OF that] by (simp add: waits_until_def)
  ultimately show ?case using Cons.IH by (auto split: sum.splits option.splits)
qed simp

lemma ignores:
  "(\<And>n f. (n, f) \<in> set nfs \<Longrightarrow> n < deadline \<and> classify f = None) \<Longrightarrow>
   recv_loop check classify (map (\<lambda>(n, f). live_turn n f) nfs @ ts) = recv_loop check classify ts"
proof (induction nfs)
  case (Cons x nfs)
  obtain n f where x: "x = (n, f)" by (cases x)
  with Cons.prems [of n f] have "n < deadline" "classify f = None" by simp_all
  then have "check (live_turn n f) = Inr (deadline - n)" by (simp add: live_turn_def check_live)
  moreover have "recv_loop check classify (map (\<lambda>(n, f). live_turn n f) nfs @ ts) = recv_loop check classify ts"
    by (rule Cons.IH) (rule Cons.prems, simp)
  moreover have "t_recv (live_turn n f) = (\<lambda>_. Inr f)" by (simp add: live_turn_def)
  ultimately show ?case using x \<open>classify f = None\<close> by simp
qed simp

lemma answers:
  "n < deadline \<Longrightarrow> classify f = Some r \<Longrightarrow> recv_loop check classify (live_turn n f # ts) = Some r"
  by (simp add: live_turn_def check_live)

lemma answers_after:
  "(\<And>n f. (n, f) \<in> set nfs \<Longrightarrow> n < deadline \<and> classify f = None) \<Longrightarrow> n < deadline \<Longrightarrow> classify f = Some r \<Longrightarrow>
   recv_loop check classify (map (\<lambda>(n, f). live_turn n f) nfs @ live_turn n f # ts) = Some r"
  using ignores [of nfs "live_turn n f # ts"] answers [of n f r ts] by simp

lemma result_source:
  "recv_loop check classify ts = Some (Inr v) \<Longrightarrow>
   \<exists>t f left. t \<in> set ts \<and> check t = Inr left \<and> t_recv t left = Inr f \<and> classify f = Some (Inr v)"
proof (induction ts)
  case (Cons t ts)
  then show ?case by (auto split: option.splits sum.splits)
qed simp

end

section \<open>Bulk reads\<close>

fun ctx_category :: "mecom_error \<Rightarrow> bool" where
  "ctx_category ErrTimeout = True"
| "ctx_category (ErrUnknownParameter i n) = True"
| "ctx_category (SDOAbortUnknown c i s) = True"
| "ctx_category CtxDeadlineExceeded = True"
| "ctx_category _ = False"

definition readBulkShouldReturnError :: "mecom_error option \<Rightarrow> mecom_error option \<Rightarrow> bool" where
  "readBulkShouldReturnError ctxErr err =
     (case err of
        None \<Rightarrow> False
      | Some e \<Rightarrow>
          if ctxErr \<noteq> None then True
          else if e = CtxCanceled then True
          else if ctx_category e then False
          else True)"

text \<open>
  What one call meets: the context at its start and the deadline of the context, the outcome of
  \<open>Send\<close>, the clock when the deadline is computed, the turns of its loop, and the context when the
  bulk loop looks at its error.
\<close>

record can_call =
  k_ctx :: "mecom_error option"
  k_ctxDeadline :: "gotime option"
  k_send :: "mecom_error option"
  k_now :: gotime
  k_turns :: "turn list"
  k_after :: "mecom_error option"

definition call_seen :: "gotime \<Rightarrow> mecom_error \<Rightarrow> can_call \<Rightarrow> can_call" where
  "call_seen deadline e k = k\<lparr>k_turns := map (waits_until deadline e) (k_turns k)\<rparr>"

text \<open>
  \<open>read_bulk_loop read\<close> runs \<open>read\<close> once per parameter, threading the client's state; the result is
  the state, the values gathered and the error, or \<open>None\<close> while a read is still waiting.
\<close>

fun read_bulk_loop ::
    "('c \<Rightarrow> can_call \<Rightarrow> Parameter \<Rightarrow> 'c \<times> (mecom_error + f64) option) \<Rightarrow> 'c \<Rightarrow> can_call list \<Rightarrow>
     Parameter list \<Rightarrow> ('c \<times> f64 list \<times> mecom_error option) option"
where
  "read_bulk_loop rd c ks [] = Some (c, [], None)"
| "read_bulk_loop rd c [] (p # ps) = None"
| "read_bulk_loop rd c (k # ks) (p # ps) =
     (case rd c k p of
        (c', None) \<Rightarrow> None
      | (c', Some (Inl e)) \<Rightarrow>
          if readBulkShouldReturnError (k_after k) (Some e) then Some (c', [], Some e)
          else map_option (\<lambda>(c'', vs, err). (c'', F64_NaN # vs, err)) (read_bulk_loop rd c' ks ps)
      | (c', Some (Inr v)) \<Rightarrow>
          map_option (\<lambda>(c'', vs, err). (c'', v # vs, err)) (read_bulk_loop rd c' ks ps))"

lemma read_bulk_length:
  "read_bulk_loop rd c ks ps = Some (c', vs, err) \<Longrightarrow>
   length vs \<le> length ps \<and> (err = None \<longrightarrow> length vs = length ps)"
  by (induction rd c ks ps arbitrary: c' vs err rule: read_bulk_loop.induct)
    (auto split: prod.splits option.splits sum.splits if_splits)

text \<open>The values of a bulk read, slot by slot: a slot is what its read returned, or NaN.\<close>

fun slot_ok :: "can_call \<Rightarrow> (mecom_error + f64) option \<Rightarrow> f64 \<Rightarrow> bool" where
  "slot_ok k None v = False"
| "slot_ok k (Some (Inr w)) v = (v = w)"
| "slot_ok k (Some (Inl e)) v = (v = F64_NaN \<and> \<not> readBulkShouldReturnError (k_after k) (Some e))"

lemma read_bulk_slots:
  assumes "\<And>c k p. fst (rd c k p) = c"
    and "read_bulk_loop rd c ks ps = Some (c', vs, None)"
  shows "list_all2 (\<lambda>(k, p) v. slot_ok k (snd (rd c k p)) v) (zip ks ps) vs"
  using assms(2)
proof (induction ps arbitrary: ks vs)
  case (Cons p ps)
  then obtain k ks' where ks: "ks = k # ks'" by (cases ks) auto
  have "rd c k p = (c, snd (rd c k p))" using assms(1) [of c k p] by (metis prod.collapse)
  then show ?case
    using Cons by (auto simp: ks split: prod.splits option.splits sum.splits if_splits)
qed simp

end
