(* ===== verification/SdoMap.thy ===== *)
theory SdoMap
  imports Complex_Main Frames Strings "HOL-Library.Multiset"
begin

text \<open>
  The MeCom to CANopen object map of \<open>mecom/canopen_sdo_map.go\<close>: \<open>LoadCANopenSDOMap\<close> from the
  decoded JSON document (\<open>json.Unmarshal\<close> itself is outside the model), its validation helpers,
  \<open>ObjectForMeCom\<close> and the derived views.  A Go map is a HOL map; the compatibility profiles,
  whose iteration order the code is exposed to, are association lists, and a view over them is
  shown not to depend on the order.  A JSON number is a rational, a \<open>float64\<close> that is only
  compared with zero is kept as its bits.
\<close>

section \<open>The JSON document\<close>

record canopenInstanceSource =
  is_Mode :: string
  is_Min :: int
  is_Max :: int
  is_Fixed :: int

record canopenSDOMappingSource =
  ms_MeComID :: int
  ms_Name :: string
  ms_ValueType :: DataType
  ms_Access :: string
  ms_Instances :: canopenInstanceSource
  ms_Index :: string
  ms_Subindex :: string
  ms_SubindexMode :: string
  ms_DataType :: string
  ms_SourceEvidence :: "string list"

record canopenBridgeTransformSource =
  ts_MeComID :: int
  ts_Name :: string
  ts_ValueType :: DataType
  ts_Access :: string
  ts_Instances :: canopenInstanceSource
  ts_Trigger :: string
  ts_Kind :: string
  ts_SourceMeComID :: int
  ts_Scale :: u64
  ts_Int32Mask :: string
  ts_Int32Value :: u32
  ts_MaxElements :: int
  ts_CANopenIndexBase :: string
  ts_MetadataFlags :: "int option"
  ts_SourceEvidence :: "string list"

datatype any_id = IdFloat64 rat | IdInt int | IdString string | IdOther

record canopenUnsupportedSource =
  us_ID :: any_id
  us_Reason :: string
  us_BridgeBehavior :: string
  us_SourceEvidence :: "string list"

record canopenCompatibilityProfileParameterSource =
  cs_MeComID :: int
  cs_MaxInstance :: int
  cs_Translation :: string
  cs_ValueType :: DataType
  cs_Access :: string
  cs_CacheBehavior :: string

record canopenCompatibilityProfileSource =
  ps_Name :: string
  ps_SourceEvidence :: "string list"
  ps_Parameters :: "canopenCompatibilityProfileParameterSource list"

record canopenSDOMapSource =
  SchemaVersion :: string
  Mappings :: "canopenSDOMappingSource list"
  BridgeTransforms_src :: "canopenBridgeTransformSource list"
  Unsupported :: "canopenUnsupportedSource list"
  CompatibilityProfiles :: "canopenCompatibilityProfileSource list"

section \<open>The map\<close>

record CANopenSDOObject =
  obj_Index :: u16
  obj_SubIndex :: byte
  obj_Kind :: DataType
  obj_Writable :: bool

record CANopenSDOMapping =
  map_index :: u16
  map_kind :: DataType
  map_writable :: bool
  minInstance :: int
  maxInstance :: int
  fixedInstance :: int
  fixedSubIndex :: byte
  subIndexFromInstance :: bool

record BridgeTransform =
  bt_MeComID :: int
  bt_Name :: string
  bt_Type :: DataType
  bt_Trigger :: string
  bt_Kind :: string
  bt_SourceMeComID :: int
  bt_Scale :: u64
  bt_Int32Mask :: u32
  bt_Int32Value :: u32
  bt_MaxElements :: int
  bt_CANopenIndexBase :: u16
  bt_MetadataFlags :: byte
  bt_HasMetadataFlags :: bool
  bt_Writable :: bool
  bt_MinInstance :: int
  bt_MaxInstance :: int

record CANopenCompatibilityParameter =
  cp_MeComID :: int
  cp_MaxInstance :: int
  cp_Type :: DataType
  cp_Writable :: bool
  cp_Supported :: bool
  cp_Translation :: string
  cp_CacheBehavior :: string

type_synonym compat_profile = "(int \<times> CANopenCompatibilityParameter) list"

record CANopenSDOMap =
  byMeComID :: "int \<rightharpoonup> CANopenSDOMapping"
  bridgeTransform :: "int \<rightharpoonup> BridgeTransform"
  unsupported :: "int \<rightharpoonup> string"
  unsupportedBridgeBehavior :: "int \<rightharpoonup> string"
  compatibilityProfile :: "(string \<times> compat_profile) list"

datatype sdo_map_error =
    UnexpectedSchema string
  | InvalidMeComID int
  | DuplicateMeComID int
  | NoSourceEvidence int
  | InMapping int sdo_map_error
  | ParseNumber string num_err
  | InvalidFixedInstance int
  | SubindexMustUseInstance
  | InvalidInstanceRange int int
  | UnknownInstanceMode string
  | UnsupportedDataType string
  | MissingName
  | MissingTrigger
  | InvalidMetadataFlags int
  | WrongTransformType string DataType
  | MissingField string
  | UnknownRuntimeKind string
  | InvalidUnsupportedID any_id
  | NoReason int
  | UnknownBridgeBehavior int string
  | ProfileNoName
  | DuplicateProfile string
  | ProfileNoEvidence string
  | ProfileInvalidID string int
  | ProfileInvalidMaxInstance string int int
  | ProfileDuplicateID string int
  | ProfileUnresolved string int
  | ProfileTranslationMismatch string int string string
  | ProfileValueType string int sdo_map_error
  | ProfileTypeMismatch string int DataType DataType
  | ProfileCacheUnsupported string int string
  | ProfileUnknownCache string int string

section \<open>Loading\<close>

definition parseCANopenMapNumber :: "string \<Rightarrow> nat \<Rightarrow> num_err + nat" where
  "parseCANopenMapNumber v0 bitSize =
     (let v = TrimSpace v0 in
      if HasPrefix (ToLower v) ''0x'' then ParseUint (drop 2 v) bitSize else ParseUint10 v bitSize)"

definition canopenSDOMapDataType :: "DataType \<Rightarrow> string \<Rightarrow> sdo_map_error + DataType" where
  "canopenSDOMapDataType valueType dataTypeCode =
     (let v = ToLower valueType; c = ToLower (TrimSpace dataTypeCode) in
      if v = DataTypeInt32 then Inr DataTypeInt32
      else if v = DataTypeFloat32 then Inr DataTypeFloat32
      else if v = DataTypeLatin1 then Inr DataTypeLatin1
      else if v = DataTypeByte then Inr DataTypeByte
      else if c = ''0x0002'' then Inr DataTypeByte
      else if c = ''0x0004'' then Inr DataTypeInt32
      else if c = ''0x0008'' then Inr DataTypeFloat32
      else Inl (UnsupportedDataType dataTypeCode))"

definition buildCANopenSDOMapping :: "canopenSDOMappingSource \<Rightarrow> sdo_map_error + CANopenSDOMapping" where
  "buildCANopenSDOMapping entry =
     (case parseCANopenMapNumber (ms_Index entry) 16 of
        Inl e \<Rightarrow> Inl (ParseNumber (ms_Index entry) e)
      | Inr index \<Rightarrow>
     res_bind (canopenSDOMapDataType (ms_ValueType entry) (ms_DataType entry)) (\<lambda>kind.
       let mapping = \<lparr>map_index = word_of_nat index, map_kind = kind,
             map_writable = Contains (ToLower (ms_Access entry)) ''w'',
             minInstance = is_Min (ms_Instances entry), maxInstance = is_Max (ms_Instances entry),
             fixedInstance = 0, fixedSubIndex = 0, subIndexFromInstance = False\<rparr>;
           mode = ToLower (is_Mode (ms_Instances entry));
           fixed = is_Fixed (ms_Instances entry)
       in if mode = ''fixed'' then
            (if fixed \<le> 0 \<or> 0xff < fixed then Inl (InvalidFixedInstance fixed)
             else case parseCANopenMapNumber (ms_Subindex entry) 8 of
                    Inl e \<Rightarrow> Inl (ParseNumber (ms_Subindex entry) e)
                  | Inr sub \<Rightarrow> Inr (mapping\<lparr>fixedInstance := fixed, fixedSubIndex := word_of_nat sub\<rparr>))
          else if mode = ''subindex'' then
            (if ms_SubindexMode entry \<noteq> ''instance'' \<or> ms_Subindex entry \<noteq> ''instance''
             then Inl SubindexMustUseInstance
             else
               let mn = (if minInstance mapping = 0 then 1 else minInstance mapping);
                   mx = (if maxInstance mapping = 0 then 0xff else maxInstance mapping)
               in if mn \<le> 0 \<or> 0xff < mx \<or> mx < mn then Inl (InvalidInstanceRange mn mx)
                  else Inr (mapping\<lparr>minInstance := mn, maxInstance := mx, subIndexFromInstance := True\<rparr>))
          else Inl (UnknownInstanceMode (is_Mode (ms_Instances entry)))))"

definition canopenInstanceBounds :: "canopenInstanceSource \<Rightarrow> sdo_map_error + int \<times> int" where
  "canopenInstanceBounds inst =
     (let mode = ToLower (TrimSpace (is_Mode inst)) in
      if mode = ''fixed'' then
        (if is_Fixed inst \<le> 0 \<or> 0xff < is_Fixed inst then Inl (InvalidFixedInstance (is_Fixed inst))
         else Inr (is_Fixed inst, is_Fixed inst))
      else if mode = ''subindex'' then
        (let mn = (if is_Min inst = 0 then 1 else is_Min inst);
             mx = (if is_Max inst = 0 then 0xff else is_Max inst)
         in if mn \<le> 0 \<or> 0xff < mx \<or> mx < mn then Inl (InvalidInstanceRange mn mx) else Inr (mn, mx))
      else Inl (UnknownInstanceMode (is_Mode inst)))"

definition float64_is_zero :: "u64 \<Rightarrow> bool" where
  "float64_is_zero bits = (bits = 0 \<or> bits = 0x8000000000000000)"

text \<open>The switch over \<open>transform.Kind\<close> at the end of \<open>buildCANopenBridgeTransform\<close>.\<close>

definition transform_runtime ::
    "canopenBridgeTransformSource \<Rightarrow> BridgeTransform \<Rightarrow> sdo_map_error + BridgeTransform" where
  "transform_runtime entry t =
     (let k = bt_Kind t in
      if k = ''synthesize_float32_from_int32'' then
        (if bt_Type t \<noteq> DataTypeFloat32 then Inl (WrongTransformType k (bt_Type t))
         else if bt_SourceMeComID t \<le> 0 then Inl (MissingField ''source_mecom_id'')
         else if float64_is_zero (bt_Scale t) then Inl (MissingField ''scale'')
         else Inr t)
      else if k = ''mask_int32'' then
        (if bt_Type t \<noteq> DataTypeInt32 then Inl (WrongTransformType k (bt_Type t))
         else case parseCANopenMapNumber (ts_Int32Mask entry) 32 of
                Inl e \<Rightarrow> Inl (ParseNumber (ts_Int32Mask entry) e)
              | Inr m32 \<Rightarrow> Inr (t\<lparr>bt_Int32Mask := word_of_nat m32\<rparr>))
      else if k = ''latin1_big_data'' then
        (if bt_Type t \<noteq> DataTypeLatin1 then Inl (WrongTransformType k (bt_Type t)) else Inr t)
      else if k = ''canopen_pdo_config_bytes'' then
        (if bt_Type t \<noteq> DataTypeByte then Inl (WrongTransformType k (bt_Type t))
         else if ts_MaxElements entry \<le> 0 then Inl (MissingField ''max_elements'')
         else case parseCANopenMapNumber (ts_CANopenIndexBase entry) 16 of
                Inl e \<Rightarrow> Inl (ParseNumber (ts_CANopenIndexBase entry) e)
              | Inr base \<Rightarrow>
                  Inr (t\<lparr>bt_MaxElements := ts_MaxElements entry, bt_CANopenIndexBase := word_of_nat base\<rparr>))
      else if k = ''constant_int32'' then
        (if bt_Type t \<noteq> DataTypeInt32 then Inl (WrongTransformType k (bt_Type t))
         else Inr (t\<lparr>bt_Int32Value := ts_Int32Value entry\<rparr>))
      else if k = ''virtual_parameter'' then
        (if bt_Type t = DataTypeInt32 \<or> bt_Type t = DataTypeFloat32 \<or> bt_Type t = DataTypeLatin1 then Inr t
         else Inl (WrongTransformType k (bt_Type t)))
      else Inl (UnknownRuntimeKind k))"

definition buildCANopenBridgeTransform ::
    "canopenBridgeTransformSource \<Rightarrow> sdo_map_error + BridgeTransform" where
  "buildCANopenBridgeTransform entry =
     (if TrimSpace (ts_Name entry) = [] then Inl MissingName
      else if TrimSpace (ts_Trigger entry) = [] then Inl MissingTrigger
      else
        res_bind (canopenSDOMapDataType (ts_ValueType entry) []) (\<lambda>typ.
        res_bind (canopenInstanceBounds (ts_Instances entry)) (\<lambda>(mn, mx).
          let t = \<lparr>bt_MeComID = ts_MeComID entry, bt_Name = ts_Name entry, bt_Type = typ,
                bt_Trigger = ts_Trigger entry, bt_Kind = TrimSpace (ts_Kind entry),
                bt_SourceMeComID = ts_SourceMeComID entry, bt_Scale = ts_Scale entry,
                bt_Int32Mask = 0, bt_Int32Value = 0, bt_MaxElements = 0, bt_CANopenIndexBase = 0,
                bt_MetadataFlags = 0, bt_HasMetadataFlags = False,
                bt_Writable = Contains (ToLower (ts_Access entry)) ''w'',
                bt_MinInstance = mn, bt_MaxInstance = mx\<rparr>
          in case ts_MetadataFlags entry of
               None \<Rightarrow> transform_runtime entry t
             | Some fl \<Rightarrow>
                 if fl < 0 \<or> 0xff < fl then Inl (InvalidMetadataFlags fl)
                 else transform_runtime entry
                        (t\<lparr>bt_MetadataFlags := word_of_int fl, bt_HasMetadataFlags := True\<rparr>))))"

text \<open>
  \<open>int(v)\<close> truncates.  For a \<open>float64\<close> outside the range of \<open>int\<close> the language leaves the result to the
  implementation; the model has that of amd64, where it is \<open>-2^63\<close>, so the value is refused like a
  fraction.  (An implementation that saturates, as on arm64, differs for exactly one value: it takes
  \<open>2^63\<close> for \<open>2^63 - 1\<close>.)
\<close>

definition parseCANopenUnsupportedID :: "any_id \<Rightarrow> sdo_map_error + int \<times> bool" where
  "parseCANopenUnsupportedID v =
     (case v of
        IdFloat64 r \<Rightarrow>
          (if r \<le> 0 \<or> of_int \<lfloor>r\<rfloor> \<noteq> r \<or> 2 ^ 63 \<le> r then Inl (InvalidUnsupportedID v) else Inr (\<lfloor>r\<rfloor>, True))
      | IdInt i \<Rightarrow> (if i \<le> 0 then Inl (InvalidUnsupportedID v) else Inr (i, True))
      | IdString s \<Rightarrow>
          (case Atoi (TrimSpace s) of
             Inl _ \<Rightarrow> Inr (0, False)
           | Inr i \<Rightarrow> if i \<le> 0 then Inl (InvalidUnsupportedID v) else Inr (i, True))
      | IdOther \<Rightarrow> Inr (0, False))"

definition CacheMetadataLiveActual :: string where "CacheMetadataLiveActual = ''metadata_live_actual''"

definition resolve_translation ::
    "CANopenSDOMap \<Rightarrow> string \<Rightarrow> canopenCompatibilityProfileParameterSource \<Rightarrow>
     sdo_map_error + CANopenCompatibilityParameter" where
  "resolve_translation m profileName p =
     (let r = \<lparr>cp_MeComID = cs_MeComID p, cp_MaxInstance = cs_MaxInstance p, cp_Type = [],
               cp_Writable = False, cp_Supported = False, cp_Translation = [], cp_CacheBehavior = []\<rparr>
      in case bridgeTransform m (cs_MeComID p) of
           Some t \<Rightarrow> Inr (r\<lparr>cp_Type := bt_Type t, cp_Writable := bt_Writable t, cp_Supported := True,
                              cp_Translation := ''bridge_transform''\<rparr>)
         | None \<Rightarrow>
             (case byMeComID m (cs_MeComID p) of
                Some mp \<Rightarrow> Inr (r\<lparr>cp_Type := map_kind mp, cp_Writable := map_writable mp,
                                   cp_Supported := True, cp_Translation := ''direct_mapping''\<rparr>)
              | None \<Rightarrow>
                  (case unsupported m (cs_MeComID p) of
                     Some _ \<Rightarrow> Inr (r\<lparr>cp_Supported := False, cp_Translation := ''unsupported''\<rparr>)
                   | None \<Rightarrow> Inl (ProfileUnresolved profileName (cs_MeComID p)))))"

definition resolve_value_type ::
    "string \<Rightarrow> canopenCompatibilityProfileParameterSource \<Rightarrow> CANopenCompatibilityParameter \<Rightarrow>
     sdo_map_error + CANopenCompatibilityParameter" where
  "resolve_value_type profileName p r =
     (if cs_ValueType p = [] then Inr r
      else case canopenSDOMapDataType (cs_ValueType p) [] of
             Inl e \<Rightarrow> Inl (ProfileValueType profileName (cs_MeComID p) e)
           | Inr typ \<Rightarrow>
               if cp_Supported r \<and> typ \<noteq> cp_Type r
               then Inl (ProfileTypeMismatch profileName (cs_MeComID p) typ (cp_Type r))
               else Inr (r\<lparr>cp_Type := typ\<rparr>))"

definition resolve_cache ::
    "string \<Rightarrow> canopenCompatibilityProfileParameterSource \<Rightarrow> CANopenCompatibilityParameter \<Rightarrow>
     sdo_map_error + CANopenCompatibilityParameter" where
  "resolve_cache profileName p r =
     (let cacheBehavior = ToLower (TrimSpace (cs_CacheBehavior p)) in
      if cacheBehavior = [] then Inr r
      else if cacheBehavior = CacheMetadataLiveActual then
        (if \<not> cp_Supported r then Inl (ProfileCacheUnsupported profileName (cs_MeComID p) cacheBehavior)
         else Inr (r\<lparr>cp_CacheBehavior := cacheBehavior\<rparr>))
      else Inl (ProfileUnknownCache profileName (cs_MeComID p) (cs_CacheBehavior p)))"

definition resolveCANopenCompatibilityProfileParameter ::
    "CANopenSDOMap \<Rightarrow> string \<Rightarrow> canopenCompatibilityProfileParameterSource \<Rightarrow>
     sdo_map_error + CANopenCompatibilityParameter" where
  "resolveCANopenCompatibilityProfileParameter m profileName p =
     res_bind (resolve_translation m profileName p) (\<lambda>r.
       let translation = ToLower (TrimSpace (cs_Translation p)) in
       if translation \<noteq> [] \<and> translation \<noteq> cp_Translation r
       then Inl (ProfileTranslationMismatch profileName (cs_MeComID p) translation (cp_Translation r))
       else
         res_bind (resolve_value_type profileName p r) (\<lambda>r.
           let access = ToLower (TrimSpace (cs_Access p));
               r' = (if access \<noteq> [] then r\<lparr>cp_Writable := Contains access ''w''\<rparr> else r)
           in resolve_cache profileName p r'))"

text \<open>The four loops of \<open>LoadCANopenSDOMap\<close>, each threading the map under construction.\<close>

fun load_mappings :: "canopenSDOMappingSource list \<Rightarrow> CANopenSDOMap \<Rightarrow> sdo_map_error + CANopenSDOMap" where
  "load_mappings [] m = Inr m"
| "load_mappings (e # es) m =
     (let pid = ms_MeComID e in
      if pid \<le> 0 then Inl (InvalidMeComID pid)
      else if byMeComID m pid \<noteq> None then Inl (DuplicateMeComID pid)
      else if ms_SourceEvidence e = [] then Inl (NoSourceEvidence pid)
      else case buildCANopenSDOMapping e of
             Inl err \<Rightarrow> Inl (InMapping pid err)
           | Inr mp \<Rightarrow> load_mappings es (m\<lparr>byMeComID := (byMeComID m)(pid \<mapsto> mp)\<rparr>))"

fun load_transforms :: "canopenBridgeTransformSource list \<Rightarrow> CANopenSDOMap \<Rightarrow> sdo_map_error + CANopenSDOMap" where
  "load_transforms [] m = Inr m"
| "load_transforms (e # es) m =
     (let pid = ts_MeComID e in
      if pid \<le> 0 then Inl (InvalidMeComID pid)
      else if bridgeTransform m pid \<noteq> None then Inl (DuplicateMeComID pid)
      else if ts_SourceEvidence e = [] then Inl (NoSourceEvidence pid)
      else case buildCANopenBridgeTransform e of
             Inl err \<Rightarrow> Inl (InMapping pid err)
           | Inr t \<Rightarrow> load_transforms es (m\<lparr>bridgeTransform := (bridgeTransform m)(pid \<mapsto> t)\<rparr>))"

definition BehaviorNACKBulkRead :: string where "BehaviorNACKBulkRead = ''nack_bulk_read''"
definition BehaviorSerialFallbackRead :: string where "BehaviorSerialFallbackRead = ''serial_fallback_read''"

fun load_unsupported :: "canopenUnsupportedSource list \<Rightarrow> CANopenSDOMap \<Rightarrow> sdo_map_error + CANopenSDOMap" where
  "load_unsupported [] m = Inr m"
| "load_unsupported (e # es) m =
     (case parseCANopenUnsupportedID (us_ID e) of
        Inl err \<Rightarrow> Inl err
      | Inr (pid, numeric) \<Rightarrow>
          if \<not> numeric then load_unsupported es m
          else if TrimSpace (us_Reason e) = [] then Inl (NoReason pid)
          else if us_SourceEvidence e = [] then Inl (NoSourceEvidence pid)
          else
            let m1 = m\<lparr>unsupported := (unsupported m)(pid \<mapsto> us_Reason e)\<rparr>;
                behavior = ToLower (TrimSpace (us_BridgeBehavior e))
            in if behavior = [] then load_unsupported es m1
               else if behavior = BehaviorNACKBulkRead \<or> behavior = BehaviorSerialFallbackRead
               then load_unsupported es
                 (m1\<lparr>unsupportedBridgeBehavior := (unsupportedBridgeBehavior m1)(pid \<mapsto> behavior)\<rparr>)
               else Inl (UnknownBridgeBehavior pid (us_BridgeBehavior e)))"

fun load_profile_params ::
    "CANopenSDOMap \<Rightarrow> string \<Rightarrow> string \<Rightarrow> canopenCompatibilityProfileParameterSource list \<Rightarrow>
     compat_profile \<Rightarrow> sdo_map_error + compat_profile" where
  "load_profile_params m raw name [] acc = Inr acc"
| "load_profile_params m raw name (p # ps) acc =
     (let pid = cs_MeComID p in
      if pid \<le> 0 then Inl (ProfileInvalidID raw pid)
      else if cs_MaxInstance p \<le> 0 \<or> 0xff < cs_MaxInstance p
      then Inl (ProfileInvalidMaxInstance raw pid (cs_MaxInstance p))
      else if map_of acc pid \<noteq> None then Inl (ProfileDuplicateID raw pid)
      else case resolveCANopenCompatibilityProfileParameter m name p of
             Inl e \<Rightarrow> Inl e
           | Inr r \<Rightarrow> load_profile_params m raw name ps (amap_put pid r acc))"

fun load_profiles :: "canopenCompatibilityProfileSource list \<Rightarrow> CANopenSDOMap \<Rightarrow> sdo_map_error + CANopenSDOMap" where
  "load_profiles [] m = Inr m"
| "load_profiles (p # ps) m =
     (let name = ToLower (TrimSpace (ps_Name p)) in
      if name = [] then Inl ProfileNoName
      else if map_of (compatibilityProfile m) name \<noteq> None then Inl (DuplicateProfile (ps_Name p))
      else if ps_SourceEvidence p = [] then Inl (ProfileNoEvidence (ps_Name p))
      else case load_profile_params m (ps_Name p) name (ps_Parameters p) [] of
             Inl e \<Rightarrow> Inl e
           | Inr params \<Rightarrow>
               load_profiles ps
                 (m\<lparr>compatibilityProfile := amap_put name params (compatibilityProfile m)\<rparr>))"

definition empty_sdo_map :: CANopenSDOMap where
  "empty_sdo_map = \<lparr>byMeComID = Map.empty, bridgeTransform = Map.empty, unsupported = Map.empty,
     unsupportedBridgeBehavior = Map.empty, compatibilityProfile = []\<rparr>"

definition LoadCANopenSDOMap :: "canopenSDOMapSource \<Rightarrow> sdo_map_error + CANopenSDOMap" where
  "LoadCANopenSDOMap src =
     (if \<not> HasSuffix (SchemaVersion src) ''_canopen_sdo_map.v1'' then Inl (UnexpectedSchema (SchemaVersion src))
      else
        res_bind (load_mappings (Mappings src) empty_sdo_map) (\<lambda>m1.
        res_bind (load_transforms (BridgeTransforms_src src) m1) (\<lambda>m2.
        res_bind (load_unsupported (Unsupported src) m2) (load_profiles (CompatibilityProfiles src)))))"

section \<open>Lookups and views\<close>

definition ObjectForMeCom :: "CANopenSDOMap \<Rightarrow> int \<Rightarrow> int \<Rightarrow> CANopenSDOObject option" where
  "ObjectForMeCom m paramID inst =
     (if inst \<le> 0 \<or> 0xff < inst then None
      else case byMeComID m paramID of
             None \<Rightarrow> None
           | Some mp \<Rightarrow>
               let obj = \<lparr>obj_Index = map_index mp, obj_SubIndex = 0, obj_Kind = map_kind mp,
                          obj_Writable = map_writable mp\<rparr>
               in if subIndexFromInstance mp then
                    (if inst < minInstance mp \<or> maxInstance mp < inst then None
                     else Some (obj\<lparr>obj_SubIndex := word_of_int inst\<rparr>))
                  else if inst \<noteq> fixedInstance mp then None
                  else Some (obj\<lparr>obj_SubIndex := fixedSubIndex mp\<rparr>))"

definition ParameterTypes :: "CANopenSDOMap \<Rightarrow> int \<rightharpoonup> DataType" where
  "ParameterTypes m pid = map_option map_kind (byMeComID m pid)"

definition ParameterType :: "CANopenSDOMap \<Rightarrow> int \<Rightarrow> DataType option" where
  "ParameterType m pid = (case byMeComID m pid of Some mp \<Rightarrow> Some (map_kind mp) | None \<Rightarrow> None)"

definition ParameterMaxInstances :: "CANopenSDOMap \<Rightarrow> int \<rightharpoonup> int" where
  "ParameterMaxInstances m pid =
     map_option (\<lambda>mp. if subIndexFromInstance mp then maxInstance mp else 1) (byMeComID m pid)"

definition ParameterWritability :: "CANopenSDOMap \<Rightarrow> int \<rightharpoonup> bool" where
  "ParameterWritability m pid = map_option map_writable (byMeComID m pid)"

text \<open>
  The three compatibility views share one shape: the direct view, overridden by the transforms
  that qualify, less the unsupported identifiers that no qualifying transform covers.
\<close>

definition drop_unsupported :: "CANopenSDOMap \<Rightarrow> (BridgeTransform \<Rightarrow> bool) \<Rightarrow> (int \<rightharpoonup> 'a) \<Rightarrow> (int \<rightharpoonup> 'a)" where
  "drop_unsupported m qualifies out pid =
     (if unsupported m pid \<noteq> None \<and> \<not> (case bridgeTransform m pid of Some t \<Rightarrow> qualifies t | None \<Rightarrow> False)
      then None else out pid)"

definition put_transforms ::
    "CANopenSDOMap \<Rightarrow> (BridgeTransform \<Rightarrow> bool) \<Rightarrow> (BridgeTransform \<Rightarrow> 'a) \<Rightarrow> (int \<rightharpoonup> 'a) \<Rightarrow> (int \<rightharpoonup> 'a)" where
  "put_transforms m qualifies f out pid =
     (case bridgeTransform m pid of
        Some t \<Rightarrow> if qualifies t then Some (f t) else out pid
      | None \<Rightarrow> out pid)"

definition CompatibilityParameterTypes :: "CANopenSDOMap \<Rightarrow> int \<rightharpoonup> DataType" where
  "CompatibilityParameterTypes m =
     drop_unsupported m (\<lambda>t. bt_Type t \<noteq> [])
       (put_transforms m (\<lambda>t. bt_Type t \<noteq> []) bt_Type (ParameterTypes m))"

definition CompatibilityParameterWritability :: "CANopenSDOMap \<Rightarrow> int \<rightharpoonup> bool" where
  "CompatibilityParameterWritability m =
     drop_unsupported m (\<lambda>t. True) (put_transforms m (\<lambda>t. True) bt_Writable (ParameterWritability m))"

definition cap_instance :: "int \<times> CANopenCompatibilityParameter \<Rightarrow> (int \<rightharpoonup> int) \<Rightarrow> (int \<rightharpoonup> int)" where
  "cap_instance ip out =
     (case ip of (pid, p) \<Rightarrow>
        if \<not> cp_Supported p \<or> cp_MaxInstance p \<le> 0 then out
        else if (case out pid of Some cur \<Rightarrow> 0 < cur \<and> cur < cp_MaxInstance p | None \<Rightarrow> False) then out
        else out(pid \<mapsto> cp_MaxInstance p))"

definition CompatibilityParameterMaxInstances :: "CANopenSDOMap \<Rightarrow> int \<rightharpoonup> int" where
  "CompatibilityParameterMaxInstances m =
     drop_unsupported m (\<lambda>t. 0 < bt_MaxInstance t)
       (fold cap_instance (concat (map snd (compatibilityProfile m)))
         (put_transforms m (\<lambda>t. 0 < bt_MaxInstance t) bt_MaxInstance (ParameterMaxInstances m)))"

definition put_cache :: "int \<times> CANopenCompatibilityParameter \<Rightarrow> (int \<rightharpoonup> string) \<Rightarrow> (int \<rightharpoonup> string)" where
  "put_cache ip out =
     (case ip of (pid, p) \<Rightarrow>
        if \<not> cp_Supported p \<or> cp_CacheBehavior p = [] then out else out(pid \<mapsto> cp_CacheBehavior p))"

definition CompatibilityParameterCacheBehaviors :: "CANopenSDOMap \<Rightarrow> int \<rightharpoonup> string" where
  "CompatibilityParameterCacheBehaviors m =
     fold put_cache (concat (map snd (compatibilityProfile m))) Map.empty"

definition CompatibilityProfile :: "CANopenSDOMap \<Rightarrow> string \<Rightarrow> int \<rightharpoonup> CANopenCompatibilityParameter" where
  "CompatibilityProfile m name =
     (case map_of (compatibilityProfile m) (ToLower (TrimSpace name)) of
        Some params \<Rightarrow> map_of params
      | None \<Rightarrow> Map.empty)"

definition CompatibilityProfileParameterTypes :: "CANopenSDOMap \<Rightarrow> string \<Rightarrow> int \<rightharpoonup> DataType" where
  "CompatibilityProfileParameterTypes m name pid =
     (case CompatibilityProfile m name pid of
        Some p \<Rightarrow> if \<not> cp_Supported p \<or> cp_Type p = [] then None else Some (cp_Type p)
      | None \<Rightarrow> None)"

definition CompatibilityProfileParameterMaxInstances :: "CANopenSDOMap \<Rightarrow> string \<Rightarrow> int \<rightharpoonup> int" where
  "CompatibilityProfileParameterMaxInstances m name pid =
     (case CompatibilityProfile m name pid of
        Some p \<Rightarrow> if \<not> cp_Supported p \<or> cp_MaxInstance p \<le> 0 then None else Some (cp_MaxInstance p)
      | None \<Rightarrow> None)"

definition CompatibilityProfileParameterWritability :: "CANopenSDOMap \<Rightarrow> string \<Rightarrow> int \<rightharpoonup> bool" where
  "CompatibilityProfileParameterWritability m name pid =
     (case CompatibilityProfile m name pid of
        Some p \<Rightarrow> if \<not> cp_Supported p then None else Some (cp_Writable p)
      | None \<Rightarrow> None)"

definition ResolveCANopenSDOMap ::
    "CANopenSDOMap \<Rightarrow> CANopenSDOMap \<Rightarrow> string \<Rightarrow> string \<Rightarrow> CANopenSDOMap option" where
  "ResolveCANopenSDOMap tecMap lddMap subFamily variant =
     (if ToLower subFamily = ''tec'' then Some tecMap
      else if ToLower subFamily = ''ldd'' \<and> (Contains (ToLower variant) ''130x'' \<or> variant = []) then Some lddMap
      else None)"

section \<open>Well-formed maps\<close>

definition known_kind :: "DataType \<Rightarrow> bool" where
  "known_kind k \<longleftrightarrow> k \<in> {DataTypeInt32, DataTypeFloat32, DataTypeLatin1, DataTypeByte}"

definition wf_mapping :: "CANopenSDOMapping \<Rightarrow> bool" where
  "wf_mapping mp \<longleftrightarrow> known_kind (map_kind mp) \<and>
     (if subIndexFromInstance mp then 1 \<le> minInstance mp \<and> minInstance mp \<le> maxInstance mp \<and> maxInstance mp \<le> 255
      else 1 \<le> fixedInstance mp \<and> fixedInstance mp \<le> 255)"

definition wf_transform :: "BridgeTransform \<Rightarrow> bool" where
  "wf_transform t \<longleftrightarrow> known_kind (bt_Type t) \<and>
     1 \<le> bt_MinInstance t \<and> bt_MinInstance t \<le> bt_MaxInstance t \<and> bt_MaxInstance t \<le> 255"

definition wf_compat :: "CANopenSDOMap \<Rightarrow> int \<Rightarrow> CANopenCompatibilityParameter \<Rightarrow> bool" where
  "wf_compat m pid p \<longleftrightarrow> 0 < pid \<and> 1 \<le> cp_MaxInstance p \<and> cp_MaxInstance p \<le> 255 \<and>
     (cp_Supported p \<longrightarrow> pid \<in> dom (bridgeTransform m) \<union> dom (byMeComID m)) \<and>
     (\<not> cp_Supported p \<longrightarrow> pid \<in> dom (unsupported m)) \<and>
     (cp_CacheBehavior p \<noteq> [] \<longrightarrow> cp_Supported p \<and> cp_CacheBehavior p = CacheMetadataLiveActual)"

definition sdo_map_wf :: "CANopenSDOMap \<Rightarrow> bool" where
  "sdo_map_wf m \<longleftrightarrow>
     (\<forall>pid mp. byMeComID m pid = Some mp \<longrightarrow> 0 < pid \<and> wf_mapping mp) \<and>
     (\<forall>pid t. bridgeTransform m pid = Some t \<longrightarrow> 0 < pid \<and> wf_transform t) \<and>
     (\<forall>pid \<in> dom (unsupported m). 0 < pid) \<and>
     (\<forall>pid b. unsupportedBridgeBehavior m pid = Some b \<longrightarrow>
        pid \<in> dom (unsupported m) \<and> b \<in> {BehaviorNACKBulkRead, BehaviorSerialFallbackRead}) \<and>
     (\<forall>(name, params) \<in> set (compatibilityProfile m). name \<noteq> [] \<and>
        (\<forall>(pid, p) \<in> set params. wf_compat m pid p))"

lemma data_type_known: "canopenSDOMapDataType v c = Inr k \<Longrightarrow> known_kind k"
  by (auto simp: canopenSDOMapDataType_def known_kind_def Let_def split: if_splits)

lemma build_mapping_wf: "buildCANopenSDOMapping e = Inr mp \<Longrightarrow> wf_mapping mp"
  by (auto simp: buildCANopenSDOMapping_def wf_mapping_def Let_def res_bind_eq_Inr
      split: if_splits sum.splits dest!: data_type_known)

lemma instance_bounds_wf:
  "canopenInstanceBounds i = Inr (mn, mx) \<Longrightarrow> 1 \<le> mn \<and> mn \<le> mx \<and> mx \<le> 255"
  by (auto simp: canopenInstanceBounds_def Let_def split: if_splits)

lemma transform_runtime_keeps:
  "transform_runtime e t = Inr t' \<Longrightarrow>
   bt_Type t' = bt_Type t \<and> bt_MinInstance t' = bt_MinInstance t \<and> bt_MaxInstance t' = bt_MaxInstance t"
  by (auto simp: transform_runtime_def Let_def split: if_splits sum.splits)

lemma build_transform_wf: "buildCANopenBridgeTransform e = Inr t \<Longrightarrow> wf_transform t"
  by (auto simp: buildCANopenBridgeTransform_def wf_transform_def Let_def res_bind_eq_Inr
      split: if_splits option.splits
      dest!: data_type_known instance_bounds_wf transform_runtime_keeps)

text \<open>While the profiles are still empty, each update keeps the map well-formed.\<close>

definition bare_wf :: "CANopenSDOMap \<Rightarrow> bool" where
  "bare_wf m \<longleftrightarrow> sdo_map_wf m \<and> compatibilityProfile m = []"

lemma bare_put_mapping:
  "bare_wf m \<Longrightarrow> 0 < i \<Longrightarrow> wf_mapping mp \<Longrightarrow> bare_wf (m\<lparr>byMeComID := (byMeComID m)(i \<mapsto> mp)\<rparr>)"
  by (simp add: bare_wf_def sdo_map_wf_def)

lemma bare_put_transform:
  "bare_wf m \<Longrightarrow> 0 < i \<Longrightarrow> wf_transform t \<Longrightarrow> bare_wf (m\<lparr>bridgeTransform := (bridgeTransform m)(i \<mapsto> t)\<rparr>)"
  by (simp add: bare_wf_def sdo_map_wf_def)

lemma bare_put_unsupported:
  "bare_wf m \<Longrightarrow> 0 < i \<Longrightarrow> bare_wf (m\<lparr>unsupported := (unsupported m)(i \<mapsto> r)\<rparr>)"
  by (simp add: bare_wf_def sdo_map_wf_def)

lemma bare_put_behavior:
  "bare_wf m \<Longrightarrow> i \<in> dom (unsupported m) \<Longrightarrow> b = BehaviorNACKBulkRead \<or> b = BehaviorSerialFallbackRead \<Longrightarrow>
   bare_wf (m\<lparr>unsupportedBridgeBehavior := (unsupportedBridgeBehavior m)(i \<mapsto> b)\<rparr>)"
  by (simp add: bare_wf_def sdo_map_wf_def)

lemma load_mappings_wf: "load_mappings es m = Inr m' \<Longrightarrow> bare_wf m \<Longrightarrow> bare_wf m'"
proof (induction es arbitrary: m)
  case (Cons e es)
  then obtain mp where "0 < ms_MeComID e" "buildCANopenSDOMapping e = Inr mp"
    "load_mappings es (m\<lparr>byMeComID := (byMeComID m)(ms_MeComID e \<mapsto> mp)\<rparr>) = Inr m'"
    by (auto simp: Let_def split: if_splits sum.splits)
  then show ?case using Cons.IH Cons.prems(2) by (blast intro: bare_put_mapping build_mapping_wf)
qed simp

lemma load_transforms_wf: "load_transforms es m = Inr m' \<Longrightarrow> bare_wf m \<Longrightarrow> bare_wf m'"
proof (induction es arbitrary: m)
  case (Cons e es)
  then obtain t where "0 < ts_MeComID e" "buildCANopenBridgeTransform e = Inr t"
    "load_transforms es (m\<lparr>bridgeTransform := (bridgeTransform m)(ts_MeComID e \<mapsto> t)\<rparr>) = Inr m'"
    by (auto simp: Let_def split: if_splits sum.splits)
  then show ?case using Cons.IH Cons.prems(2) by (blast intro: bare_put_transform build_transform_wf)
qed simp

lemma unsupported_id_pos: "parseCANopenUnsupportedID v = Inr (i, True) \<Longrightarrow> 0 < i"
  by (auto simp: parseCANopenUnsupportedID_def split: any_id.splits if_splits sum.splits)

lemma load_unsupported_wf: "load_unsupported es m = Inr m' \<Longrightarrow> bare_wf m \<Longrightarrow> bare_wf m'"
proof (induction es arbitrary: m)
  case (Cons e es)
  obtain i b where p: "parseCANopenUnsupportedID (us_ID e) = Inr (i, b)"
    using Cons.prems(1) by (auto split: sum.splits)
  let ?m = "m\<lparr>unsupported := (unsupported m)(i \<mapsto> us_Reason e)\<rparr>"
  let ?b = "ToLower (TrimSpace (us_BridgeBehavior e))"
  let ?m2 = "?m\<lparr>unsupportedBridgeBehavior := (unsupportedBridgeBehavior ?m)(i \<mapsto> ?b)\<rparr>"
  consider "\<not> b" "load_unsupported es m = Inr m'" | "b" "load_unsupported es ?m = Inr m'"
    | "b" "?b = BehaviorNACKBulkRead \<or> ?b = BehaviorSerialFallbackRead" "load_unsupported es ?m2 = Inr m'"
    using Cons.prems(1) p by (auto simp: Let_def split: if_splits)
  then show ?case
  proof cases
    case 1
    then show ?thesis using Cons.IH Cons.prems(2) by blast
  next
    case 2
    have "0 < i" using 2(1) p unsupported_id_pos by simp
    then show ?thesis using Cons.IH [OF 2(2)] Cons.prems(2) by (simp add: bare_put_unsupported)
  next
    case 3
    have "0 < i" using 3(1) p unsupported_id_pos by simp
    then have "bare_wf ?m" using Cons.prems(2) by (simp add: bare_put_unsupported)
    then have "bare_wf ?m2" using 3(2) by (intro bare_put_behavior) simp_all
    then show ?thesis using Cons.IH [OF 3(3)] by simp
  qed
qed simp

lemma resolve_wf:
  assumes "resolveCANopenCompatibilityProfileParameter m n p = Inr r" and "0 < cs_MeComID p"
    and "0 < cs_MaxInstance p" and "cs_MaxInstance p \<le> 255"
  shows "wf_compat m (cs_MeComID p) r"
  using assms
  by (auto simp: resolveCANopenCompatibilityProfileParameter_def resolve_translation_def resolve_value_type_def
      resolve_cache_def res_bind_eq_Inr Let_def wf_compat_def split: option.splits if_splits sum.splits)

lemma load_params_wf:
  "load_profile_params m raw name ps acc = Inr params \<Longrightarrow> (\<forall>(pid, p) \<in> set acc. wf_compat m pid p) \<Longrightarrow>
   \<forall>(pid, p) \<in> set params. wf_compat m pid p"
proof (induction ps arbitrary: acc)
  case (Cons p ps)
  then obtain r where "resolveCANopenCompatibilityProfileParameter m name p = Inr r"
    and "0 < cs_MeComID p" "0 < cs_MaxInstance p" "cs_MaxInstance p \<le> 255"
    and rest: "load_profile_params m raw name ps (amap_put (cs_MeComID p) r acc) = Inr params"
    by (auto simp: Let_def split: if_splits sum.splits)
  then have "wf_compat m (cs_MeComID p) r" by (simp add: resolve_wf)
  with Cons.prems(2) have "\<forall>(pid, p) \<in> set (amap_put (cs_MeComID p) r acc). wf_compat m pid p"
    by (auto simp: amap_put_def)
  with rest show ?case by (rule Cons.IH)
qed simp

lemma load_profiles_wf: "load_profiles ps m = Inr m' \<Longrightarrow> sdo_map_wf m \<Longrightarrow> sdo_map_wf m'"
proof (induction ps arbitrary: m)
  case (Cons p ps)
  let ?n = "ToLower (TrimSpace (ps_Name p))"
  obtain params where n: "?n \<noteq> []"
    and ld: "load_profile_params m (ps_Name p) ?n (ps_Parameters p) [] = Inr params"
    and rest: "load_profiles ps (m\<lparr>compatibilityProfile := amap_put ?n params (compatibilityProfile m)\<rparr>) = Inr m'"
    using Cons.prems(1) by (auto simp: Let_def split: if_splits sum.splits)
  have "\<forall>(pid, p) \<in> set params. wf_compat m pid p" using load_params_wf [OF ld] by simp
  then have "sdo_map_wf (m\<lparr>compatibilityProfile := amap_put ?n params (compatibilityProfile m)\<rparr>)"
    using Cons.prems(2) n by (auto simp: sdo_map_wf_def wf_compat_def amap_put_def)
  with rest show ?case by (rule Cons.IH)
qed simp

lemma empty_map_wf: "bare_wf empty_sdo_map"
  by (simp add: bare_wf_def sdo_map_wf_def empty_sdo_map_def)

lemma load_wf: "LoadCANopenSDOMap src = Inr m \<Longrightarrow> sdo_map_wf m"
  using empty_map_wf
  by (auto simp: LoadCANopenSDOMap_def res_bind_eq_Inr bare_wf_def split: if_splits
      dest!: load_mappings_wf load_transforms_wf load_unsupported_wf intro: load_profiles_wf)

lemma ObjectForMeCom_SomeD:
  assumes "ObjectForMeCom m pid i = Some obj"
  obtains mp where "byMeComID m pid = Some mp" "1 \<le> i" "i \<le> 255" "obj_Index obj = map_index mp"
    "obj_Kind obj = map_kind mp" "obj_Writable obj = map_writable mp"
    "if subIndexFromInstance mp then minInstance mp \<le> i \<and> i \<le> maxInstance mp \<and> obj_SubIndex obj = word_of_int i
     else i = fixedInstance mp \<and> obj_SubIndex obj = fixedSubIndex mp"
  using assms by (auto simp: ObjectForMeCom_def Let_def split: if_splits option.splits)

lemma byte_of_int_inj:
  assumes "1 \<le> i" "i \<le> 255" "1 \<le> j" "j \<le> 255" "(word_of_int i :: byte) = word_of_int j"
  shows "i = j"
proof -
  have "uint (word_of_int i :: byte) = i" "uint (word_of_int j :: byte) = j"
    using assms(1-4) by (simp_all add: uint_word_of_int)
  with assms(5) show ?thesis by metis
qed

lemma cap_instance_commute:
  "cap_instance x \<circ> cap_instance y = cap_instance y \<circ> cap_instance x"
proof
  fix out
  obtain i p j q where "x = (i, p)" "y = (j, q)" by (metis prod.exhaust)
  then show "(cap_instance x \<circ> cap_instance y) out = (cap_instance y \<circ> cap_instance x) out"
    by (cases "i = j") (auto simp: cap_instance_def fun_upd_twist split: option.splits)
qed

lemma cap_fold_perm: "mset xs = mset ys \<Longrightarrow> fold cap_instance xs out = fold cap_instance ys out"
  by (simp add: fold_multiset_equiv [of xs cap_instance ys] cap_instance_commute)

lemma profile_irrelevant:
  "put_transforms (m\<lparr>compatibilityProfile := ps\<rparr>) = put_transforms m"
  "drop_unsupported (m\<lparr>compatibilityProfile := ps\<rparr>) = drop_unsupported m"
  "ParameterMaxInstances (m\<lparr>compatibilityProfile := ps\<rparr>) = ParameterMaxInstances m"
  by (simp_all add: put_transforms_def drop_unsupported_def ParameterMaxInstances_def fun_eq_iff)

lemma put_cache_pair:
  "put_cache (i, p) out = (if \<not> cp_Supported p \<or> cp_CacheBehavior p = [] then out else out(i \<mapsto> cp_CacheBehavior p))"
  by (simp add: put_cache_def)

lemma put_cache_same:
  assumes "\<forall>(pid, p) \<in> set es. cp_CacheBehavior p \<noteq> [] \<longrightarrow> cp_CacheBehavior p = b"
  shows "fold put_cache es out =
    (\<lambda>pid. if \<exists>p. (pid, p) \<in> set es \<and> cp_Supported p \<and> cp_CacheBehavior p \<noteq> [] then Some b else out pid)"
  using assms
proof (induction es arbitrary: out)
  case (Cons e es)
  obtain i p where e: "e = (i, p)" by (cases e)
  from Cons.prems have "\<forall>(pid, p) \<in> set es. cp_CacheBehavior p \<noteq> [] \<longrightarrow> cp_CacheBehavior p = b" by simp
  note IH = Cons.IH [OF this]
  show ?case using Cons.prems by (auto simp: e IH put_cache_pair fun_eq_iff)
qed simp

section \<open>Properties\<close>

text \<open>
  C20.  Loading validates: whatever document \<open>LoadCANopenSDOMap\<close> accepts, every mapping of the
  result has a positive MeCom ID, a known data type and instances within 1..255 (a non-empty range
  or one fixed instance), every transform likewise, every bridge behaviour belongs to a declared
  unsupported ID and is one of the two known ones, and every profile parameter is resolved: a
  supported one has a mapping or a transform, and only a supported one carries a cache behaviour.
\<close>

theorem load_sdo_map_wf:
  assumes "LoadCANopenSDOMap src = Inr m"
  shows "sdo_map_wf m"
  using assms by (rule load_wf)

definition demo_source :: canopenSDOMapSource where
  "demo_source = \<lparr>SchemaVersion = ''tec_canopen_sdo_map.v1'',
     Mappings = [\<lparr>ms_MeComID = 1000, ms_Name = ''T'', ms_ValueType = ''float32'', ms_Access = ''rw'',
       ms_Instances = \<lparr>is_Mode = ''subindex'', is_Min = 1, is_Max = 4, is_Fixed = 0\<rparr>,
       ms_Index = ''0x2100'', ms_Subindex = ''instance'', ms_SubindexMode = ''instance'',
       ms_DataType = ''0x0008'', ms_SourceEvidence = [''manual'']\<rparr>],
     BridgeTransforms_src = [],
     Unsupported = [\<lparr>us_ID = IdInt 120, us_Reason = ''string'', us_BridgeBehavior = ''nack_bulk_read'',
       us_SourceEvidence = [''manual'']\<rparr>],
     CompatibilityProfiles = [\<lparr>ps_Name = ''CoSo'', ps_SourceEvidence = [''trace''],
       ps_Parameters = [\<lparr>cs_MeComID = 1000, cs_MaxInstance = 2, cs_Translation = ''direct_mapping'',
         cs_ValueType = ''float32'', cs_Access = ''r'', cs_CacheBehavior = ''metadata_live_actual''\<rparr>]\<rparr>]\<rparr>"

lemmas load_eval = LoadCANopenSDOMap_def demo_source_def HasSuffix_def buildCANopenSDOMapping_def
  parseCANopenMapNumber_def TrimSpace_def is_space_def ToLower_def to_lower_def HasPrefix_def ParseUint_def
  hex_val_def canopenSDOMapDataType_def DataTypeInt32_def DataTypeFloat32_def DataTypeLatin1_def
  DataTypeByte_def parseCANopenUnsupportedID_def BehaviorNACKBulkRead_def BehaviorSerialFallbackRead_def
  resolveCANopenCompatibilityProfileParameter_def resolve_translation_def resolve_value_type_def
  resolve_cache_def CacheMetadataLiveActual_def empty_sdo_map_def

lemma demo_source_loads: "\<not> isl (LoadCANopenSDOMap demo_source)"
  by (simp add: load_eval)

theorem load_sdo_map_wf_witness:
  "\<exists>m. LoadCANopenSDOMap demo_source = Inr m \<and> sdo_map_wf m"
proof (cases "LoadCANopenSDOMap demo_source")
  case (Inl e)
  with demo_source_loads show ?thesis by simp
next
  case (Inr m)
  with load_sdo_map_wf [OF Inr] show ?thesis by blast
qed

text \<open>
  Instances never alias: in a loaded map, two instances of one MeCom parameter that resolve
  to the same CANopen object are the same instance, the object is typed by a known data type and
  the instance lies within 1..255, so a read of one channel cannot return another channel's value.
\<close>

theorem sdo_instances_distinct:
  assumes "LoadCANopenSDOMap src = Inr m"
    and "ObjectForMeCom m pid i = Some obj" and "ObjectForMeCom m pid j = Some obj"
  shows "i = j \<and> 1 \<le> i \<and> i \<le> 255 \<and> known_kind (obj_Kind obj)"
proof -
  from assms(2) obtain mp where mp: "byMeComID m pid = Some mp" "1 \<le> i" "i \<le> 255" "obj_Kind obj = map_kind mp"
    "if subIndexFromInstance mp then minInstance mp \<le> i \<and> i \<le> maxInstance mp \<and> obj_SubIndex obj = word_of_int i
     else i = fixedInstance mp \<and> obj_SubIndex obj = fixedSubIndex mp"
    by (rule ObjectForMeCom_SomeD)
  from assms(3) obtain mp' where mp': "byMeComID m pid = Some mp'" "1 \<le> j" "j \<le> 255"
    "if subIndexFromInstance mp' then minInstance mp' \<le> j \<and> j \<le> maxInstance mp' \<and> obj_SubIndex obj = word_of_int j
     else j = fixedInstance mp' \<and> obj_SubIndex obj = fixedSubIndex mp'"
    by (rule ObjectForMeCom_SomeD)
  have "wf_mapping mp" using load_wf [OF assms(1)] mp(1) by (auto simp: sdo_map_wf_def)
  then have "known_kind (obj_Kind obj)" using mp(4) by (simp add: wf_mapping_def)
  moreover have "i = j"
    using mp mp' byte_of_int_inj [of i j] by (auto split: if_splits)
  ultimately show ?thesis using mp by simp
qed

theorem sdo_instances_distinct_witness:
  "\<exists>m obj. LoadCANopenSDOMap demo_source = Inr m \<and> ObjectForMeCom m 1000 2 = Some obj \<and>
     known_kind (obj_Kind obj)"
proof (cases "LoadCANopenSDOMap demo_source")
  case (Inl e)
  with demo_source_loads show ?thesis by simp
next
  case (Inr m)
  have "case LoadCANopenSDOMap demo_source of Inr m \<Rightarrow> ObjectForMeCom m 1000 2 \<noteq> None | Inl e \<Rightarrow> False"
    by (simp add: load_eval ObjectForMeCom_def)
  with Inr obtain obj where obj: "ObjectForMeCom m 1000 2 = Some obj" by auto
  with sdo_instances_distinct [OF Inr obj obj] Inr show ?thesis by blast
qed

text \<open>
  The compatibility views do not depend on Go's random map iteration order: for a loaded map,
  any other order of the profiles and of their parameters (the same entries as a multiset) gives
  the same instance caps and the same cache behaviours.
\<close>

theorem compat_views_order_independent:
  assumes "LoadCANopenSDOMap src = Inr m"
    and "mset (concat (map snd ps)) = mset (concat (map snd (compatibilityProfile m)))"
  shows "CompatibilityParameterMaxInstances (m\<lparr>compatibilityProfile := ps\<rparr>) = CompatibilityParameterMaxInstances m \<and>
         CompatibilityParameterCacheBehaviors (m\<lparr>compatibilityProfile := ps\<rparr>) = CompatibilityParameterCacheBehaviors m"
proof -
  let ?es = "concat (map snd (compatibilityProfile m))" and ?fs = "concat (map snd ps)"
  have st: "set ?fs = set ?es" using assms(2) by (rule mset_eq_setD)
  have "\<forall>(pid, p) \<in> set ?es. cp_CacheBehavior p \<noteq> [] \<longrightarrow> cp_CacheBehavior p = CacheMetadataLiveActual"
    using load_wf [OF assms(1)] by (fastforce simp: sdo_map_wf_def wf_compat_def)
  then have "fold put_cache ?fs Map.empty = fold put_cache ?es Map.empty"
    using st by (simp only: put_cache_same)
  moreover have "fold cap_instance ?fs out = fold cap_instance ?es out" for out
    using assms(2) by (rule cap_fold_perm)
  ultimately show ?thesis
    by (simp add: CompatibilityParameterMaxInstances_def CompatibilityParameterCacheBehaviors_def
        profile_irrelevant)
qed

theorem compat_views_order_independent_witness:
  "\<exists>m. LoadCANopenSDOMap demo_source = Inr m \<and>
     CompatibilityParameterMaxInstances (m\<lparr>compatibilityProfile := rev (compatibilityProfile m)\<rparr>) =
       CompatibilityParameterMaxInstances m"
proof (cases "LoadCANopenSDOMap demo_source")
  case (Inl e)
  with demo_source_loads show ?thesis by simp
next
  case (Inr m)
  have "mset (concat (map snd (rev (compatibilityProfile m)))) = mset (concat (map snd (compatibilityProfile m)))"
    by (induction "compatibilityProfile m" arbitrary: m) (simp_all add: mset_concat rev_map [symmetric])
  from compat_views_order_independent [OF Inr this] Inr show ?thesis by blast
qed

end
