(* ===== verification/CanClient.thy ===== *)
theory CanClient
  imports CanTransport SdoMap
begin

text \<open>
  Binary MeCom over CAN: the frame codec of \<open>mecom/protocol.go\<close> (\<open>BuildBinarySingleGetFrame\<close>,
  \<open>BinaryResponseMatchesRequest\<close>, \<open>DecodeBinaryCANFrame\<close>) and \<open>CANClient\<close> of
  \<open>mecom/can_client.go\<close>.  The client's mutex makes a read one transition on its sequence counter;
  the transceiver and the clock during the read are a \<open>can_call\<close>.  A read returns the client, the
  frames it sent and its result, \<open>None\<close> while it waits.
\<close>

unbundle bit_operations_syntax

section \<open>The codec\<close>

definition BinaryCmdQueryValue :: u16 where "BinaryCmdQueryValue = 0x01"
definition BinaryCmdSetValue :: u16 where "BinaryCmdSetValue = 0x02"
definition BinaryCmdQueryBulk :: u16 where "BinaryCmdQueryBulk = 0x05"
definition BinaryCmdResponseError :: u16 where "BinaryCmdResponseError = 0x06"

definition BuildBinarySingleGetFrame :: "int \<Rightarrow> u16 \<Rightarrow> int \<Rightarrow> int \<Rightarrow> byte list" where
  "BuildBinarySingleGetFrame addr seq paramID inst =
     [ucast (seq AND 0x7F), word_of_int addr] @ be_put 2 BinaryCmdQueryValue @
     be_put 2 (word_of_int paramID :: u16) @ [word_of_int inst]"

definition BinaryResponseMatchesRequest :: "Frame \<Rightarrow> byte \<Rightarrow> u16 \<Rightarrow> u16 \<Rightarrow> bool" where
  "BinaryResponseMatchesRequest f addr seq command =
     (if fr_DLC f < 8 then False
      else if fr_Data f ! 1 \<noteq> addr then False
      else if fr_Data f ! 0 AND 0x80 = 0 then False
      else if (ucast (fr_Data f ! 0 AND 0x7f) :: u16) \<noteq> seq AND 0x7f then False
      else be_get (take 2 (drop 2 (fr_Data f))) = command)"

definition DecodeBinaryCANFrame :: "Frame \<Rightarrow> DataType \<Rightarrow> mecom_error + f64" where
  "DecodeBinaryCANFrame f dataType =
     (if fr_DLC f < 8 then Inl (Can (BinaryShortDLC (fr_DLC f)))
      else if fr_Data f ! 0 AND 0x80 = 0 then Inl (Can BinaryNotResponse)
      else
        let cmd = (be_get (take 2 (drop 2 (fr_Data f))) :: u16) in
        if cmd = BinaryCmdResponseError
        then Inl (Can (BinaryNack (fr_Data f ! 4) (errorsByCode (unat (fr_Data f ! 4)))))
        else if cmd \<noteq> BinaryCmdQueryValue then Inl (Can (BinaryUnexpectedCommand cmd))
        else
          let bits = be_get (take 4 (drop 4 (fr_Data f))) in
          if dataType = DataTypeInt32 then Inr (F64_of_int32 bits) else Inr (F64_of_float32 bits))"

section \<open>The client\<close>

record ClientConfig =
  cfg_Address :: byte
  cfg_Timeout :: int
  cfg_SDOMap :: "CANopenSDOMap option"

definition config_timeout :: "ClientConfig \<Rightarrow> int" where
  "config_timeout cfg = (if cfg_Timeout cfg = 0 then 2 * second else cfg_Timeout cfg)"

record CANClient =
  cc_address :: byte
  cc_timeout :: int
  cc_seq :: u16

definition NewCANClient :: "ClientConfig \<Rightarrow> CANClient" where
  "NewCANClient cfg = \<lparr>cc_address = cfg_Address cfg, cc_timeout = config_timeout cfg, cc_seq = 0\<rparr>"

definition next_seq :: "u16 \<Rightarrow> u16" where
  "next_seq s = (if s + 1 = 0 then 1 else s + 1)"

definition can_nextSeq :: "CANClient \<Rightarrow> CANClient" where
  "can_nextSeq c = c\<lparr>cc_seq := next_seq (cc_seq c)\<rparr>"

definition can_request :: "CANClient \<Rightarrow> int \<Rightarrow> int \<Rightarrow> Frame" where
  "can_request c paramID inst =
     (let payload = BuildBinarySingleGetFrame (uint (cc_address c)) (cc_seq c) paramID inst
      in \<lparr>fr_ID = 0x300 + ucast (cc_address c), fr_Data = pad8 payload, fr_DLC = word_of_nat (length payload)\<rparr>)"

text \<open>The two tests at the head of the loop with the time left for \<open>Recv\<close>, and what the loop does with a received frame.\<close>

definition can_check :: "gotime \<Rightarrow> turn \<Rightarrow> mecom_error + int" where
  "can_check deadline t =
     (case t_ctx t of
        Some e \<Rightarrow> Inl e
      | None \<Rightarrow> let left = deadline - t_now t in if left \<le> 0 then Inl ErrTimeout else Inr left)"

definition can_classify :: "byte \<Rightarrow> u16 \<Rightarrow> DataType \<Rightarrow> Frame \<Rightarrow> (mecom_error + f64) option" where
  "can_classify addr seq dataType f =
     (if fr_ID f = 0x300 + ucast addr then None
      else if fr_ID f \<noteq> 0x400 + ucast addr then None
      else if \<not> BinaryResponseMatchesRequest f addr seq BinaryCmdQueryValue then None
      else Some (DecodeBinaryCANFrame f dataType))"

definition can_readNumeric ::
    "CANClient \<Rightarrow> can_call \<Rightarrow> int \<Rightarrow> int \<Rightarrow> DataType \<Rightarrow> CANClient \<times> Frame list \<times> (mecom_error + f64) option" where
  "can_readNumeric c k paramID inst dt0 =
     (case validateParameterAddress paramID inst of
        Inl e \<Rightarrow> (c, [], Some (Inl e))
      | Inr _ \<Rightarrow>
          let dataType = (if dt0 = [] then DataTypeFloat32 else dt0) in
          (case k_ctx k of
             Some e \<Rightarrow> (c, [], Some (Inl e))
           | None \<Rightarrow>
               let c' = can_nextSeq c; req = can_request c' paramID inst in
               (case k_send k of
                  Some e \<Rightarrow> (c', [req], Some (Inl e))
                | None \<Rightarrow>
                    (c', [req], recv_loop (can_check (k_now k + cc_timeout c))
                       (can_classify (cc_address c') (cc_seq c') dataType) (k_turns k)))))"

definition can_ReadFloat32 ::
    "CANClient \<Rightarrow> can_call \<Rightarrow> int \<Rightarrow> int \<Rightarrow> CANClient \<times> Frame list \<times> (mecom_error + f64) option" where
  "can_ReadFloat32 c k paramID inst = can_readNumeric c k paramID inst DataTypeFloat32"

text \<open>
  \<open>int32(v)\<close>: exact on a converted \<open>int32\<close>; on a converted \<open>float32\<close> the value is truncated
  toward zero, and outside the range of \<open>int32\<close> the language leaves the result to the
  implementation (\<open>None\<close>).
\<close>

fun int32_of_f64 :: "f64 \<Rightarrow> u32 option" where
  "int32_of_f64 (F64_of_int32 b) = Some b"
| "int32_of_f64 (F64_of_float32 b) =
     (let e = unat (drop_bit 23 b AND 0xff); m = unat (b AND 0x7fffff) + 2 ^ 23;
          mag = (if e = 0 then 0 else if 150 \<le> e then m * 2 ^ (e - 150) else m div 2 ^ (150 - e));
          v = (if bit b 31 then - int mag else int mag)
      in if e = 255 \<or> v < - (2 ^ 31) \<or> 2 ^ 31 \<le> v then None else Some (word_of_int v))"
| "int32_of_f64 F64_NaN = None"

definition can_ReadInt32 ::
    "CANClient \<Rightarrow> can_call \<Rightarrow> int \<Rightarrow> int \<Rightarrow> CANClient \<times> Frame list \<times> (mecom_error + u32 option) option" where
  "can_ReadInt32 c k paramID inst =
     (case can_readNumeric c k paramID inst DataTypeInt32 of
        (c', fs, r) \<Rightarrow> (c', fs, map_option (map_sum (\<lambda>e. e) int32_of_f64) r))"

definition can_read_param :: "CANClient \<Rightarrow> can_call \<Rightarrow> Parameter \<Rightarrow> CANClient \<times> (mecom_error + f64) option" where
  "can_read_param c k p =
     (case can_readNumeric c k (par_ID p) (par_Instance p) (par_Type p) of (c', fs, r) \<Rightarrow> (c', r))"

definition can_ReadBulk ::
    "CANClient \<Rightarrow> can_call list \<Rightarrow> Parameter list \<Rightarrow> (CANClient \<times> f64 list \<times> mecom_error option) option" where
  "can_ReadBulk c ks params =
     (case validateParameterList params of
        Inl e \<Rightarrow> Some (c, [], Some e)
      | Inr _ \<Rightarrow> read_bulk_loop can_read_param c ks params)"

definition can_SupportsRingReadout :: "CANClient \<Rightarrow> bool" where
  "can_SupportsRingReadout c = False"

definition can_ConfigureRingCapture :: "u16 \<Rightarrow> RingCaptureParameter list \<Rightarrow> mecom_error option" where
  "can_ConfigureRingCapture captureID params = Some ErrTransportNotSupported"

definition can_TriggerRingSync :: "mecom_error option" where
  "can_TriggerRingSync = Some ErrTransportNotSupported"

definition can_ReadRingPointer :: "mecom_error + u32" where
  "can_ReadRingPointer = Inl ErrTransportNotSupported"

definition can_ReadRingChunk :: "u32 \<Rightarrow> u16 \<Rightarrow> mecom_error + RingReadResponse" where
  "can_ReadRingChunk start maxBytes = Inl ErrTransportNotSupported"

section \<open>Waiting\<close>

interpretation can_loop: can_wait deadline "can_check deadline" "can_classify addr seq dt"
  for deadline addr seq dt
  by unfold_locales (auto simp: can_check_def Let_def split: option.splits if_splits)

text \<open>The controller's answers: a value and a negative acknowledgement.\<close>

definition can_value_reply :: "byte \<Rightarrow> u16 \<Rightarrow> u32 \<Rightarrow> Frame" where
  "can_value_reply addr seq bits =
     \<lparr>fr_ID = 0x400 + ucast addr,
      fr_Data = [ucast (seq AND 0x7f) OR 0x80, addr] @ be_put 2 BinaryCmdQueryValue @ be_put 4 bits,
      fr_DLC = 8\<rparr>"

definition can_nack_reply :: "byte \<Rightarrow> u16 \<Rightarrow> byte \<Rightarrow> Frame" where
  "can_nack_reply addr seq code =
     \<lparr>fr_ID = 0x400 + ucast addr,
      fr_Data = pad8 ([ucast (seq AND 0x7f) OR 0x80, addr] @ be_put 2 BinaryCmdResponseError @ [code]),
      fr_DLC = 8\<rparr>"

lemma bit_0x80: "bit (0x80 :: int) n \<longleftrightarrow> n = 7"
proof -
  have "push_bit 7 (1 :: int) = 0x80" by simp
  moreover have "bit (push_bit 7 (1 :: int)) n \<longleftrightarrow> n = 7"
    by (simp only: bit_push_bit_iff_int bit_1_iff) auto
  ultimately show ?thesis by (simp only:)
qed

lemma control_byte:
  fixes seq :: u16
  shows "((ucast (seq AND 0x7f) :: byte) OR 0x80) AND 0x80 \<noteq> 0"
    and "(ucast (((ucast (seq AND 0x7f) :: byte) OR 0x80) AND 0x7f) :: u16) = seq AND 0x7f"
proof -
  have "bit (((ucast (seq AND 0x7f) :: byte) OR 0x80) AND 0x80) 7" by (simp add: bit_simps)
  then show "((ucast (seq AND 0x7f) :: byte) OR 0x80) AND 0x80 \<noteq> 0" by auto
  have m: "(0x7f :: 'a::len word) = mask 7" by (simp add: mask_numeral)
  show "(ucast (((ucast (seq AND 0x7f) :: byte) OR 0x80) AND 0x7f) :: u16) = seq AND 0x7f"
    unfolding m
    by (rule bit_word_eqI) (auto simp: bit_simps bit_0x80)
qed

lemma reply_ids: "(0x400 + ucast (a :: byte) :: u32) \<noteq> 0x300 + ucast a"
  by simp

lemma pad8_short: "length xs \<le> 8 \<Longrightarrow> pad8 xs = xs @ replicate (8 - length xs) 0"
  by (simp add: pad8_def)

lemma value_reply_answers:
  "can_classify a s dt (can_value_reply a s bits) =
     Some (Inr (if dt = DataTypeInt32 then F64_of_int32 bits else F64_of_float32 bits))"
  by (simp add: can_classify_def can_value_reply_def BinaryResponseMatchesRequest_def
      DecodeBinaryCANFrame_def control_byte Let_def)
    (simp add: BinaryCmdQueryValue_def BinaryCmdResponseError_def)

lemma nack_reply_ignored: "can_classify a s dt (can_nack_reply a s code) = None"
  by (simp add: can_classify_def can_nack_reply_def BinaryResponseMatchesRequest_def pad8_short)
    (simp add: BinaryCmdQueryValue_def BinaryCmdResponseError_def)

section \<open>Sequence numbers\<close>

lemma next_seq_nonzero: "next_seq s \<noteq> 0"
  by (simp add: next_seq_def)

lemma unat_next_seq: "unat (next_seq s) = (if unat s = 65535 then 1 else Suc (unat s))"
proof (cases "s + 1 = 0")
  case True
  then have "s = - 1" by (simp add: eq_neg_iff_add_eq_0)
  then show ?thesis by (simp add: next_seq_def unsigned_minus_1_eq_mask mask_eq_exp_minus_1)
next
  case False
  have "unat s \<noteq> 65535"
  proof
    assume "unat s = 65535"
    then have "s = 65535" by (intro word_unat_eq_iff [THEN iffD2]) simp
    with False show False by simp
  qed
  moreover from this have "unat (s + 1) = Suc (unat s)"
    using unat_add_lem [of s 1] unat_word_bound [of s] by simp
  ultimately show ?thesis using False by (simp add: next_seq_def)
qed

lemma unat_seq_iterate:
  assumes "s \<noteq> 0" and "d \<le> 65535"
  shows "unat ((next_seq ^^ d) s) = (if unat s + d \<le> 65535 then unat s + d else unat s + d - 65535)"
  using assms(2)
proof (induction d)
  case 0
  show ?case using unat_word_bound [of s] by simp
next
  case (Suc d)
  have "0 < unat s" using assms(1) by (simp add: unat_gt_0)
  then show ?case using Suc unat_word_bound [of s] by (simp add: unat_next_seq) linarith
qed

lemma seq7: "unat (s AND 0x7f :: u16) = unat s mod 128"
proof -
  have "s AND 0x7f = take_bit 7 s" by (simp add: take_bit_eq_mask mask_numeral)
  then have "unat (s AND 0x7f) = unat (take_bit 7 s)" by (rule arg_cong)
  also have "\<dots> = take_bit 7 (unat s)" by (rule unsigned_take_bit_eq)
  finally show ?thesis by (simp add: take_bit_eq_mod)
qed

lemma seq7_fresh:
  assumes "s \<noteq> 0" and "0 < d" and "d \<le> 126"
  shows "(next_seq ^^ d) s AND 0x7f \<noteq> s AND (0x7f :: u16)"
proof
  assume eq: "(next_seq ^^ d) s AND 0x7f = s AND (0x7f :: u16)"
  let ?n = "unat s"
  have "unat ((next_seq ^^ d) s) mod 128 = ?n mod 128" using eq by (metis seq7)
  then have m: "(if ?n + d \<le> 65535 then ?n + d else ?n + d - 65535) mod 128 = ?n mod 128"
    using unat_seq_iterate [OF assms(1), of d] assms(3) by simp
  show False
  proof (cases "?n + d \<le> 65535")
    case True
    with m have "(?n + d) mod 128 = ?n mod 128" by simp
    then have "128 dvd d" using mod_eq_dvd_iff_nat [of ?n "?n + d" 128] by simp
    then show False using assms(2,3) by (auto dest: dvd_imp_le)
  next
    case False
    let ?k = "?n + d - 65535"
    have "?k \<le> ?n" using assms(3) by simp
    moreover have "?n mod 128 = ?k mod 128" using m False by simp
    ultimately have "128 dvd ?n - ?k" using mod_eq_dvd_iff_nat [of ?k ?n 128] by simp
    moreover have "?n - ?k = 65535 - d" using False assms(3) unat_word_bound [of s] by simp
    ultimately have "128 dvd 65535 - d" by simp
    then obtain q where "65535 - d = 128 * q" by (elim dvdE)
    then show False using assms(2,3) by presburger
  qed
qed

section \<open>Properties\<close>

text \<open>
  A read over CAN returns the controller's value whatever else is on the bus: for a valid
  parameter address and any frames received before the reply that are not a matching reply
  (foreign identifiers, other nodes, stale sequence numbers, the client's own echo), one request is
  sent and the result is the 32 bits of the reply, read as the parameter's type.
\<close>

theorem can_read_value:
  assumes "validateParameterAddress p i = Inr ()"
    and "\<forall>(n, f) \<in> set nfs. n < now + cc_timeout c \<and> (fr_ID f = 0x400 + ucast (cc_address c) \<longrightarrow>
           \<not> BinaryResponseMatchesRequest f (cc_address c) (next_seq (cc_seq c)) BinaryCmdQueryValue)"
    and "tr < now + cc_timeout c"
  shows "can_readNumeric c \<lparr>k_ctx = None, k_ctxDeadline = dl, k_send = None, k_now = now,
       k_turns = map (\<lambda>(n, f). live_turn n f) nfs @
         live_turn tr (can_value_reply (cc_address c) (next_seq (cc_seq c)) bits) # ts,
       k_after = a\<rparr> p i dt =
     (c\<lparr>cc_seq := next_seq (cc_seq c)\<rparr>, [can_request (c\<lparr>cc_seq := next_seq (cc_seq c)\<rparr>) p i],
      Some (Inr (if dt = DataTypeInt32 then F64_of_int32 bits else F64_of_float32 bits)))"
proof -
  let ?s = "next_seq (cc_seq c)" and ?d = "if dt = [] then DataTypeFloat32 else dt"
  have "recv_loop (can_check (now + cc_timeout c)) (can_classify (cc_address c) ?s ?d)
      (map (\<lambda>(n, f). live_turn n f) nfs @ live_turn tr (can_value_reply (cc_address c) ?s bits) # ts) =
      Some (Inr (if ?d = DataTypeInt32 then F64_of_int32 bits else F64_of_float32 bits))"
    using assms(2,3) by (intro can_loop.answers_after value_reply_answers) (auto simp: can_classify_def)
  then show ?thesis
    using assms(1)
    by (auto simp: can_readNumeric_def Let_def can_nextSeq_def DataTypeInt32_def DataTypeFloat32_def)
qed

theorem can_read_value_witness:
  "can_readNumeric (NewCANClient \<lparr>cfg_Address = 5, cfg_Timeout = 0, cfg_SDOMap = None\<rparr>)
     \<lparr>k_ctx = None, k_ctxDeadline = None, k_send = None, k_now = 0,
      k_turns = [live_turn 10 zero_frame, live_turn 20 (can_value_reply 5 1 42)], k_after = None\<rparr>
     1000 1 DataTypeInt32 =
   (\<lparr>cc_address = 5, cc_timeout = 2 * second, cc_seq = 1\<rparr>,
    [can_request \<lparr>cc_address = 5, cc_timeout = 2 * second, cc_seq = 1\<rparr> 1000 1], Some (Inr (F64_of_int32 42)))"
  using can_read_value [of 1000 1 "[(10, zero_frame)]" 0 "NewCANClient \<lparr>cfg_Address = 5, cfg_Timeout = 0, cfg_SDOMap = None\<rparr>"
      20 None 42 "[]" None DataTypeInt32]
  by (simp add: validateParameterAddress_iff zero_frame_def second_def NewCANClient_def config_timeout_def next_seq_def)

text \<open>
  Stale replies are told apart: only seven bits of the sequence number travel in a binary
  frame, but a reply that matches a request never matches any of the following 126 requests of the
  same client, also across the wrap of the counter from 65535 to 1.
\<close>

theorem can_stale_reply_rejected:
  assumes "s \<noteq> 0" and "0 < d" and "d \<le> 126"
    and "BinaryResponseMatchesRequest f addr s cmd"
  shows "\<not> BinaryResponseMatchesRequest f addr ((next_seq ^^ d) s) cmd'"
  using assms(4) seq7_fresh [OF assms(1-3)]
  by (auto simp: BinaryResponseMatchesRequest_def split: if_splits)

theorem can_stale_reply_rejected_witness:
  "\<not> BinaryResponseMatchesRequest (can_value_reply 5 65535 1) 5 ((next_seq ^^ 2) 65535) BinaryCmdQueryValue"
  by (rule can_stale_reply_rejected [where cmd = BinaryCmdQueryValue])
    (simp_all add: BinaryResponseMatchesRequest_def can_value_reply_def)

text \<open>
  C21.  A negative acknowledgement is never reported: the loop only accepts frames whose command is
  the query's, and a nack carries command 6, so the client ignores it and the read ends in a
  timeout; the nack branch of \<open>DecodeBinaryCANFrame\<close> cannot be reached from the client.
\<close>

theorem can_nack_times_out:
  assumes "validateParameterAddress p i = Inr ()" and "now + cc_timeout c \<le> late" and "tr < now + cc_timeout c"
  shows "snd (snd (can_readNumeric c \<lparr>k_ctx = None, k_ctxDeadline = None, k_send = None, k_now = now,
       k_turns = [live_turn tr (can_nack_reply (cc_address c) (next_seq (cc_seq c)) code), silent_turn late],
       k_after = None\<rparr> p i dt)) = Some (Inl ErrTimeout) \<and>
     DecodeBinaryCANFrame (can_nack_reply (cc_address c) (next_seq (cc_seq c)) code) dt =
       Inl (Can (BinaryNack code (errorsByCode (unat code))))"
proof -
  have "DecodeBinaryCANFrame (can_nack_reply a s code) dt = Inl (Can (BinaryNack code (errorsByCode (unat code))))" for a s
    by (simp add: DecodeBinaryCANFrame_def can_nack_reply_def pad8_short control_byte Let_def nth_append)
  then show ?thesis
    using assms
    by (simp add: can_readNumeric_def Let_def can_nextSeq_def live_turn_def nack_reply_ignored
        silent_turn_def can_check_def)
qed

theorem can_nack_times_out_witness:
  "snd (snd (can_readNumeric \<lparr>cc_address = 5, cc_timeout = 100, cc_seq = 0\<rparr>
     \<lparr>k_ctx = None, k_ctxDeadline = None, k_send = None, k_now = 0,
      k_turns = [live_turn 10 (can_nack_reply 5 (next_seq 0) 5), silent_turn 100], k_after = None\<rparr>
     1000 1 DataTypeInt32)) = Some (Inl ErrTimeout)"
  using can_nack_times_out [of 1000 1 0 "\<lparr>cc_address = 5, cc_timeout = 100, cc_seq = 0\<rparr>" 100 10 5 DataTypeInt32]
  by (simp add: validateParameterAddress_iff)

end
