(* ===== verification/CanopenClient.thy ===== *)
theory CanopenClient
  imports CanClient
begin

text \<open>
  \<open>CANopenClient\<close> of \<open>mecom/canopen_client.go\<close>: reads and writes of CANopen objects by expedited
  SDO.  The map attached to the context, the client's own map and the embedded default map are
  arguments; \<open>Send\<close>, the clock and the received frames of a call are a \<open>can_call\<close>.  Each of the
  three loops is \<open>recv_loop\<close> with its classification of a frame.
\<close>

section \<open>The client\<close>

record CANopenClient =
  co_node :: byte
  co_timeout :: int
  co_sdoMap :: "CANopenSDOMap option"

definition NewCANopenClient :: "ClientConfig \<Rightarrow> CANopenClient" where
  "NewCANopenClient cfg =
     \<lparr>co_node = cfg_Address cfg, co_timeout = config_timeout cfg, co_sdoMap = cfg_SDOMap cfg\<rparr>"

definition co_SupportsRingReadout :: "CANopenClient \<Rightarrow> bool" where
  "co_SupportsRingReadout c = False"

definition canopenSDOObjectForMeCom ::
    "CANopenSDOMap \<Rightarrow> CANopenSDOMap option \<Rightarrow> CANopenClient \<Rightarrow> int \<Rightarrow> int \<Rightarrow> CANopenSDOObject option" where
  "canopenSDOObjectForMeCom defMap ctxMap c paramID inst =
     (case ctxMap of
        Some m \<Rightarrow> ObjectForMeCom m paramID inst
      | None \<Rightarrow>
          (case co_sdoMap c of
             Some m \<Rightarrow> ObjectForMeCom m paramID inst
           | None \<Rightarrow> ObjectForMeCom defMap paramID inst))"

definition co_ParameterType :: "CANopenSDOMap \<Rightarrow> CANopenClient \<Rightarrow> int \<Rightarrow> DataType" where
  "co_ParameterType defMap c pid =
     (let m = (case co_sdoMap c of Some m \<Rightarrow> m | None \<Rightarrow> defMap)
      in case ParameterType m pid of Some typ \<Rightarrow> typ | None \<Rightarrow> [])"

definition co_deadline :: "CANopenClient \<Rightarrow> can_call \<Rightarrow> gotime" where
  "co_deadline c k =
     (let deadline = k_now k + co_timeout c
      in case k_ctxDeadline k of
           Some d \<Rightarrow> if d < deadline then d else deadline
         | None \<Rightarrow> deadline)"

definition co_check :: "gotime \<Rightarrow> turn \<Rightarrow> mecom_error + int" where
  "co_check deadline t =
     (let wait = deadline - t_now t in
      if wait \<le> 0 then Inl ErrTimeout else case t_ctx t of Some e \<Rightarrow> Inl e | None \<Rightarrow> Inr wait)"

section \<open>Reading\<close>

definition lift_can :: "can_error + 'a \<Rightarrow> mecom_error + 'a" where
  "lift_can r = (case r of Inl e \<Rightarrow> Inl (Can e) | Inr v \<Rightarrow> Inr v)"

definition read_classify :: "byte \<Rightarrow> CANopenSDOObject \<Rightarrow> Frame \<Rightarrow> (mecom_error + f64) option" where
  "read_classify node obj f =
     (if fr_ID f \<noteq> 0x580 + ucast node then None
      else case ParseSDOUploadResponse f of
             (resp, Some (SDOAbort index sub code)) \<Rightarrow>
               if index = obj_Index obj \<and> sub = obj_SubIndex obj
               then Some (Inl (SDOAbortUnknown code (obj_Index obj) (obj_SubIndex obj)))
               else None
           | (resp, Some _) \<Rightarrow> None
           | (resp, None) \<Rightarrow>
               if sdo_Index resp \<noteq> obj_Index obj \<or> sdo_SubIndex resp \<noteq> obj_SubIndex obj then None
               else Some (lift_can (if obj_Kind obj = DataTypeInt32 then resp_Int32 resp else resp_Float32 resp)))"

definition co_readNumeric ::
    "CANopenSDOMap \<Rightarrow> CANopenSDOMap option \<Rightarrow> CANopenClient \<Rightarrow> can_call \<Rightarrow> int \<Rightarrow> int \<Rightarrow>
     Frame list \<times> (mecom_error + f64) option" where
  "co_readNumeric defMap ctxMap c k paramID inst =
     (case canopenSDOObjectForMeCom defMap ctxMap c paramID inst of
        None \<Rightarrow> ([], Some (Inl (ErrUnknownParameter paramID inst)))
      | Some obj \<Rightarrow>
          (case SDOUploadRequest (co_node c) (obj_Index obj) (obj_SubIndex obj) of
             Inl e \<Rightarrow> ([], Some (Inl (Can e)))
           | Inr req \<Rightarrow>
               (case k_send k of
                  Some e \<Rightarrow> ([req], Some (Inl e))
                | None \<Rightarrow> ([req], recv_loop (co_check (co_deadline c k)) (read_classify (co_node c) obj) (k_turns k)))))"

definition co_ReadFloat32 ::
    "CANopenSDOMap \<Rightarrow> CANopenSDOMap option \<Rightarrow> CANopenClient \<Rightarrow> can_call \<Rightarrow> int \<Rightarrow> int \<Rightarrow>
     Frame list \<times> (mecom_error + f64) option" where
  "co_ReadFloat32 defMap ctxMap c k paramID inst = co_readNumeric defMap ctxMap c k paramID inst"

definition co_ReadInt32 ::
    "CANopenSDOMap \<Rightarrow> CANopenSDOMap option \<Rightarrow> CANopenClient \<Rightarrow> can_call \<Rightarrow> int \<Rightarrow> int \<Rightarrow>
     Frame list \<times> (mecom_error + u32 option) option" where
  "co_ReadInt32 defMap ctxMap c k paramID inst =
     (case co_readNumeric defMap ctxMap c k paramID inst of
        (fs, r) \<Rightarrow> (fs, map_option (map_sum (\<lambda>e. e) int32_of_f64) r))"

definition co_read_param ::
    "CANopenSDOMap \<Rightarrow> CANopenSDOMap option \<Rightarrow> CANopenClient \<Rightarrow> can_call \<Rightarrow> Parameter \<Rightarrow>
     CANopenClient \<times> (mecom_error + f64) option" where
  "co_read_param defMap ctxMap c k p =
     (c, snd (co_readNumeric defMap ctxMap c k (par_ID p) (par_Instance p)))"

definition co_ReadBulk ::
    "CANopenSDOMap \<Rightarrow> CANopenSDOMap option \<Rightarrow> CANopenClient \<Rightarrow> can_call list \<Rightarrow> Parameter list \<Rightarrow>
     (CANopenClient \<times> f64 list \<times> mecom_error option) option" where
  "co_ReadBulk defMap ctxMap c ks params =
     (case validateParameterList params of
        Inl e \<Rightarrow> Some (c, [], Some e)
      | Inr _ \<Rightarrow> read_bulk_loop (co_read_param defMap ctxMap) c ks params)"

definition raw_classify :: "byte \<Rightarrow> u16 \<Rightarrow> byte \<Rightarrow> Frame \<Rightarrow> (mecom_error + byte list) option" where
  "raw_classify node index subIndex f =
     (if fr_ID f \<noteq> 0x580 + ucast node then None
      else case ParseSDOUploadResponse f of
             (resp, Some (SDOAbort i s code)) \<Rightarrow>
               if i = index \<and> s = subIndex then Some (Inl (Can (SDOAbort i s code))) else None
           | (resp, Some _) \<Rightarrow> None
           | (resp, None) \<Rightarrow>
               if sdo_Index resp \<noteq> index \<or> sdo_SubIndex resp \<noteq> subIndex then None
               else Some (Inr (sdo_Data resp)))"

definition ReadSDORaw ::
    "CANopenClient \<Rightarrow> can_call \<Rightarrow> u16 \<Rightarrow> byte \<Rightarrow> Frame list \<times> (mecom_error + byte list) option" where
  "ReadSDORaw c k index subIndex =
     (case SDOUploadRequest (co_node c) index subIndex of
        Inl e \<Rightarrow> ([], Some (Inl (Can e)))
      | Inr req \<Rightarrow>
          (case k_send k of
             Some e \<Rightarrow> ([req], Some (Inl e))
           | None \<Rightarrow> ([req], recv_loop (co_check (co_deadline c k)) (raw_classify (co_node c) index subIndex) (k_turns k))))"

section \<open>Writing\<close>

definition write_classify :: "byte \<Rightarrow> CANopenSDOObject \<Rightarrow> Frame \<Rightarrow> (mecom_error + unit) option" where
  "write_classify node obj f =
     (if fr_ID f \<noteq> 0x580 + ucast node then None
      else case ParseSDODownloadResponse f of
             (resp, Some (SDOAbort index sub code)) \<Rightarrow>
               if index = obj_Index obj \<and> sub = obj_SubIndex obj then Some (Inl (ErrWriteRejected index sub code)) else None
           | (resp, Some _) \<Rightarrow> None
           | (resp, None) \<Rightarrow>
               if sdo_Index resp \<noteq> obj_Index obj \<or> sdo_SubIndex resp \<noteq> obj_SubIndex obj then None
               else Some (Inr ()))"

definition writeSDO ::
    "CANopenClient \<Rightarrow> can_call \<Rightarrow> CANopenSDOObject \<Rightarrow> byte list \<Rightarrow> Frame list \<times> (mecom_error + unit) option" where
  "writeSDO c k obj val =
     (case SDODownloadExpeditedRequest (co_node c) (obj_Index obj) (obj_SubIndex obj) val of
        Inl e \<Rightarrow> ([], Some (Inl (Can e)))
      | Inr req \<Rightarrow>
          (case k_send k of
             Some e \<Rightarrow> ([req], Some (Inl e))
           | None \<Rightarrow> ([req], recv_loop (co_check (co_deadline c k)) (write_classify (co_node c) obj) (k_turns k))))"

definition WriteSDORaw ::
    "CANopenClient \<Rightarrow> can_call \<Rightarrow> u16 \<Rightarrow> byte \<Rightarrow> byte list \<Rightarrow> Frame list \<times> (mecom_error + unit) option" where
  "WriteSDORaw c k index subIndex val =
     writeSDO c k \<lparr>obj_Index = index, obj_SubIndex = subIndex, obj_Kind = [], obj_Writable = True\<rparr> val"

text \<open>A \<open>float32\<close> argument is its bits, an \<open>int32\<close> its two's complement.\<close>

definition co_WriteFloat32 ::
    "CANopenSDOMap \<Rightarrow> CANopenSDOMap option \<Rightarrow> CANopenClient \<Rightarrow> can_call \<Rightarrow> int \<Rightarrow> int \<Rightarrow> u32 \<Rightarrow>
     Frame list \<times> (mecom_error + unit) option" where
  "co_WriteFloat32 defMap ctxMap c k paramID inst val =
     (case canopenSDOObjectForMeCom defMap ctxMap c paramID inst of
        None \<Rightarrow> ([], Some (Inl (ErrUnknownParameter paramID inst)))
      | Some obj \<Rightarrow>
          if \<not> obj_Writable obj then ([], Some (Inl (ErrParameterReadOnly paramID inst)))
          else if obj_Kind obj \<noteq> DataTypeFloat32 then ([], Some (Inl (WrongKind paramID inst)))
          else writeSDO c k obj (le_put 4 val))"

definition co_WriteInt32 ::
    "CANopenSDOMap \<Rightarrow> CANopenSDOMap option \<Rightarrow> CANopenClient \<Rightarrow> can_call \<Rightarrow> int \<Rightarrow> int \<Rightarrow> u32 \<Rightarrow>
     Frame list \<times> (mecom_error + unit) option" where
  "co_WriteInt32 defMap ctxMap c k paramID inst val =
     (case canopenSDOObjectForMeCom defMap ctxMap c paramID inst of
        None \<Rightarrow> ([], Some (Inl (ErrUnknownParameter paramID inst)))
      | Some obj \<Rightarrow>
          if \<not> obj_Writable obj then ([], Some (Inl (ErrParameterReadOnly paramID inst)))
          else if obj_Kind obj \<noteq> DataTypeInt32 then ([], Some (Inl (WrongKind paramID inst)))
          else writeSDO c k obj (le_put 4 val))"

definition co_ConfigureRingCapture :: "u16 \<Rightarrow> RingCaptureParameter list \<Rightarrow> mecom_error option" where
  "co_ConfigureRingCapture captureID params = Some ErrTransportNotSupported"

definition co_TriggerRingSync :: "mecom_error option" where
  "co_TriggerRingSync = Some ErrTransportNotSupported"

definition co_ReadRingPointer :: "mecom_error + u32" where
  "co_ReadRingPointer = Inl ErrTransportNotSupported"

definition co_ReadRingChunk :: "u32 \<Rightarrow> u16 \<Rightarrow> mecom_error + RingReadResponse" where
  "co_ReadRingChunk start maxBytes = Inl ErrTransportNotSupported"

section \<open>The loops meet the contract\<close>

lemma co_check_laws:
  "deadline \<le> t_now t \<Longrightarrow> \<exists>e. co_check deadline t = Inl e"
  "t_now t < deadline \<Longrightarrow> t_ctx t = None \<Longrightarrow> co_check deadline t = Inr (deadline - t_now t)"
  "co_check deadline t = Inr left \<Longrightarrow> t_now t + left = deadline"
  "co_check deadline (t\<lparr>t_recv := r\<rparr>) = co_check deadline t"
  by (auto simp: co_check_def Let_def split: option.splits if_splits)

interpretation sdo_read: can_wait deadline "co_check deadline" "read_classify node obj" for deadline node obj
  by unfold_locales (auto simp: co_check_laws)

interpretation sdo_raw: can_wait deadline "co_check deadline" "raw_classify node index sub" for deadline node index sub
  by unfold_locales (auto simp: co_check_laws)

interpretation sdo_write: can_wait deadline "co_check deadline" "write_classify node obj" for deadline node obj
  by unfold_locales (auto simp: co_check_laws)

lemma server_ids:
  "fr_ID (sdo_server_upload_reply n i s v) = 0x580 + ucast n"
  "fr_ID (sdo_server_abort n i s code) = 0x580 + ucast n"
  "fr_ID (sdo_server_download_reply n i s) = 0x580 + ucast n"
  by (simp_all add: sdo_server_upload_reply_def sdo_server_abort_def sdo_server_download_reply_def)

lemma read_classify_reply:
  assumes "n \<le> 127"
  shows "read_classify n obj (sdo_server_upload_reply n (obj_Index obj) (obj_SubIndex obj) (le_put 4 bits)) =
    Some (Inr (if obj_Kind obj = DataTypeInt32 then F64_of_int32 bits else F64_of_float32 bits))"
  using upload_parse_reply [OF assms, of "le_put 4 bits"]
  by (simp add: read_classify_def server_ids resp_Int32_def resp_Float32_def resp_Uint32_def lift_can_def)

lemma read_classify_abort:
  assumes "n \<le> 127"
  shows "read_classify n obj (sdo_server_abort n (obj_Index obj) (obj_SubIndex obj) code) =
    Some (Inl (SDOAbortUnknown code (obj_Index obj) (obj_SubIndex obj)))"
  using abort_parse(1) [OF assms, of "obj_Index obj" "obj_SubIndex obj" code]
  by (cases "ParseSDOUploadResponse (sdo_server_abort n (obj_Index obj) (obj_SubIndex obj) code)")
    (simp add: read_classify_def server_ids)

lemma write_classify_reply:
  assumes "n \<le> 127"
  shows "write_classify n obj (sdo_server_download_reply n (obj_Index obj) (obj_SubIndex obj)) = Some (Inr ())"
  using download_parse_reply [OF assms] by (simp add: write_classify_def server_ids)

lemma write_classify_abort:
  assumes "n \<le> 127"
  shows "write_classify n obj (sdo_server_abort n (obj_Index obj) (obj_SubIndex obj) code) =
    Some (Inl (ErrWriteRejected (obj_Index obj) (obj_SubIndex obj) code))"
  using abort_parse(2) [OF assms, of "obj_Index obj" "obj_SubIndex obj" code]
  by (cases "ParseSDODownloadResponse (sdo_server_abort n (obj_Index obj) (obj_SubIndex obj) code)")
    (simp add: write_classify_def server_ids)

lemma write_guard:
  assumes "f \<in> set (fst (writeSDO c k obj val))"
  shows "sdo_server_download f = Some (ucast (co_node c), obj_Index obj, obj_SubIndex obj, val)"
  using assms sdo_download_frame [of "co_node c" "obj_Index obj" "obj_SubIndex obj" val]
  by (auto simp: writeSDO_def split: sum.splits option.splits)

section \<open>Properties\<close>

text \<open>
  An SDO read returns the object's value and survives foreign traffic: when the parameter is
  mapped and the node is valid, one upload request is sent, every frame received before the
  deadline from another identifier is ignored, and the server's reply for the mapped index and
  sub-index is returned as the mapped type; an abort for it is reported as an unknown parameter, so
  a bulk read fills the slot with NaN instead of failing.
\<close>

theorem sdo_read_value:
  assumes "canopenSDOObjectForMeCom defMap ctxMap c p i = Some obj"
    and "validateNodeID (co_node c) = None" and "k_send k = None"
    and "\<forall>(n, f) \<in> set nfs. n < co_deadline c k \<and> fr_ID f \<noteq> 0x580 + ucast (co_node c)"
    and "tr < co_deadline c k"
  shows "snd (co_readNumeric defMap ctxMap c (k\<lparr>k_turns := map (\<lambda>(n, f). live_turn n f) nfs @
           live_turn tr (sdo_server_upload_reply (co_node c) (obj_Index obj) (obj_SubIndex obj) (le_put 4 bits)) # ts\<rparr>) p i) =
         Some (Inr (if obj_Kind obj = DataTypeInt32 then F64_of_int32 bits else F64_of_float32 bits)) \<and>
         snd (co_readNumeric defMap ctxMap c (k\<lparr>k_turns := map (\<lambda>(n, f). live_turn n f) nfs @
           live_turn tr (sdo_server_abort (co_node c) (obj_Index obj) (obj_SubIndex obj) code) # ts\<rparr>) p i) =
         Some (Inl (SDOAbortUnknown code (obj_Index obj) (obj_SubIndex obj))) \<and>
         \<not> readBulkShouldReturnError None (Some (SDOAbortUnknown code (obj_Index obj) (obj_SubIndex obj)))"
proof -
  have n: "co_node c \<le> 127" using assms(2) by (simp add: nodeID_iff)
  have dl: "co_deadline c (k\<lparr>k_turns := x\<rparr>) = co_deadline c k" for x by (simp add: co_deadline_def)
  have ign: "\<And>n f. (n, f) \<in> set nfs \<Longrightarrow> n < co_deadline c k \<and> read_classify (co_node c) obj f = None"
    using assms(4) by (auto simp: read_classify_def)
  have loop: "recv_loop (co_check (co_deadline c k)) (read_classify (co_node c) obj)
      (map (\<lambda>(n, f). live_turn n f) nfs @ live_turn tr f # ts) = Some r"
    if "read_classify (co_node c) obj f = Some r" for f r
    using ign assms(5) that by (rule sdo_read.answers_after)
  show ?thesis
    using loop [OF read_classify_reply [OF n]] loop [OF read_classify_abort [OF n]] assms(1-3)
    by (simp add: co_readNumeric_def SDOUploadRequest_def dl readBulkShouldReturnError_def)
qed

definition demo_client :: CANopenClient where
  "demo_client = \<lparr>co_node = 5, co_timeout = 100, co_sdoMap = Some (empty_sdo_map\<lparr>byMeComID := [1000 \<mapsto>
     \<lparr>map_index = 0x2100, map_kind = DataTypeInt32, map_writable = True, minInstance = 1, maxInstance = 4,
      fixedInstance = 0, fixedSubIndex = 0, subIndexFromInstance = True\<rparr>]\<rparr>)\<rparr>"

definition demo_object :: CANopenSDOObject where
  "demo_object = \<lparr>obj_Index = 0x2100, obj_SubIndex = 2, obj_Kind = DataTypeInt32, obj_Writable = True\<rparr>"

definition demo_call :: can_call where
  "demo_call = \<lparr>k_ctx = None, k_ctxDeadline = None, k_send = None, k_now = 0, k_turns = [], k_after = None\<rparr>"

lemma demo_object_mapped: "canopenSDOObjectForMeCom m None demo_client 1000 2 = Some demo_object"
  by (simp add: canopenSDOObjectForMeCom_def demo_client_def ObjectForMeCom_def demo_object_def)

theorem sdo_read_value_witness:
  "snd (co_readNumeric empty_sdo_map None demo_client
     (demo_call\<lparr>k_turns := [live_turn 1 zero_frame, live_turn 2 (sdo_server_upload_reply 5 0x2100 2 (le_put 4 (7 :: u32)))]\<rparr>) 1000 2) =
   Some (Inr (F64_of_int32 7))"
  using sdo_read_value [OF demo_object_mapped [of empty_sdo_map], of demo_call "[(1, zero_frame)]" 2 7 "[]" 0]
  by (simp add: demo_client_def demo_call_def demo_object_def validateNodeID_def co_deadline_def zero_frame_def)

text \<open>
  Writes are guarded: a write to an unmapped, read-only or differently typed parameter sends
  nothing and returns the corresponding error; every frame any write sends is an expedited download
  of exactly the four little-endian bytes of the value to the mapped index and sub-index of this
  node.
\<close>

theorem sdo_write_guarded:
  assumes "f \<in> set (fst (co_WriteFloat32 defMap ctxMap c k p i val)) \<union> set (fst (co_WriteInt32 defMap ctxMap c k p i val))"
  shows "\<exists>obj. canopenSDOObjectForMeCom defMap ctxMap c p i = Some obj \<and> obj_Writable obj \<and>
           (obj_Kind obj = DataTypeFloat32 \<or> obj_Kind obj = DataTypeInt32) \<and>
           sdo_server_download f = Some (ucast (co_node c), obj_Index obj, obj_SubIndex obj, le_put 4 val)"
  using assms
  by (auto simp: co_WriteFloat32_def co_WriteInt32_def split: option.splits if_splits dest!: write_guard)

theorem sdo_write_guarded_witness:
  "\<exists>obj. canopenSDOObjectForMeCom empty_sdo_map None demo_client 1000 2 = Some obj \<and> obj_Writable obj"
proof -
  have "fst (co_WriteInt32 empty_sdo_map None demo_client demo_call 1000 2 7) \<noteq> []"
    by (simp add: co_WriteInt32_def demo_object_mapped)
      (simp add: demo_object_def demo_client_def demo_call_def writeSDO_def SDODownloadExpeditedRequest_def
        validateNodeID_def Let_def)
  then obtain f where "f \<in> set (fst (co_WriteInt32 empty_sdo_map None demo_client demo_call 1000 2 7))"
    by (meson list.set_intros(1) neq_Nil_conv ex_in_conv set_empty)
  from sdo_write_guarded [OF UnI2 [OF this]] show ?thesis by blast
qed

text \<open>
  C22.  Every CAN exchange ends by its deadline, which is the timeout after the request was sent or, for
  CANopen, the context's deadline when that is sooner.  Every \<open>Recv\<close> of the binary read, the SDO
  read, the raw SDO read and the SDO write is given exactly the time left until then (a transceiver
  that fails on any other wait makes no difference), so it comes back by the deadline; and once some
  turn of the call finds the clock at or past the deadline, all of them have returned a result.
\<close>

theorem can_exchanges_return:
  "(let deadline = k_now k + cc_timeout cc in
      can_readNumeric cc (call_seen deadline e k) p i dt = can_readNumeric cc k p i dt \<and>
      (list_ex (\<lambda>t. deadline \<le> t_now t) (k_turns k) \<longrightarrow> snd (snd (can_readNumeric cc k p i dt)) \<noteq> None)) \<and>
    (let deadline = (case k_ctxDeadline k of None \<Rightarrow> k_now k + co_timeout c | Some d \<Rightarrow> min d (k_now k + co_timeout c)) in
      co_readNumeric defMap ctxMap c (call_seen deadline e k) p i = co_readNumeric defMap ctxMap c k p i \<and>
      ReadSDORaw c (call_seen deadline e k) index sub = ReadSDORaw c k index sub \<and>
      writeSDO c (call_seen deadline e k) obj val = writeSDO c k obj val \<and>
      (list_ex (\<lambda>t. deadline \<le> t_now t) (k_turns k) \<longrightarrow>
         snd (co_readNumeric defMap ctxMap c k p i) \<noteq> None \<and> snd (ReadSDORaw c k index sub) \<noteq> None \<and>
         snd (writeSDO c k obj val) \<noteq> None))"
proof -
  have d: "(case k_ctxDeadline k of None \<Rightarrow> k_now k + co_timeout c | Some d \<Rightarrow> min d (k_now k + co_timeout c)) = co_deadline c k"
    by (simp add: co_deadline_def Let_def min_def split: option.splits)
  have d': "co_deadline c (k\<lparr>k_turns := ts\<rparr>) = co_deadline c k" for ts by (simp add: co_deadline_def)
  note unfolded = can_readNumeric_def co_readNumeric_def ReadSDORaw_def writeSDO_def can_nextSeq_def
  have same: "can_readNumeric cc (call_seen (k_now k + cc_timeout cc) e k) p i dt = can_readNumeric cc k p i dt"
      "co_readNumeric defMap ctxMap c (call_seen (co_deadline c k) e k) p i = co_readNumeric defMap ctxMap c k p i"
      "ReadSDORaw c (call_seen (co_deadline c k) e k) index sub = ReadSDORaw c k index sub"
      "writeSDO c (call_seen (co_deadline c k) e k) obj val = writeSDO c k obj val"
    by (simp_all add: unfolded call_seen_def d' can_loop.waits_the_time_left sdo_read.waits_the_time_left
        sdo_raw.waits_the_time_left sdo_write.waits_the_time_left Let_def cong: option.case_cong sum.case_cong)
  have ret: "snd (snd (can_readNumeric cc k p i dt)) \<noteq> None" if "list_ex (\<lambda>t. k_now k + cc_timeout cc \<le> t_now t) (k_turns k)"
    using that can_loop.returns_by_deadline
    by (auto simp: unfolded list_ex_iff Let_def split: sum.splits option.splits)
  have ret': "snd (co_readNumeric defMap ctxMap c k p i) \<noteq> None" "snd (ReadSDORaw c k index sub) \<noteq> None"
      "snd (writeSDO c k obj val) \<noteq> None" if late: "list_ex (\<lambda>t. co_deadline c k \<le> t_now t) (k_turns k)"
  proof -
    obtain t where t: "t \<in> set (k_turns k)" "co_deadline c k \<le> t_now t" using late by (auto simp: list_ex_iff)
    show "snd (co_readNumeric defMap ctxMap c k p i) \<noteq> None"
      using sdo_read.returns_by_deadline [OF t] by (auto simp: unfolded split: sum.splits option.splits)
    show "snd (ReadSDORaw c k index sub) \<noteq> None"
      using sdo_raw.returns_by_deadline [OF t] by (auto simp: unfolded split: sum.splits option.splits)
    show "snd (writeSDO c k obj val) \<noteq> None"
      using sdo_write.returns_by_deadline [OF t] by (auto simp: unfolded split: sum.splits option.splits)
  qed
  show ?thesis unfolding d Let_def using same ret ret' by blast
qed

theorem can_exchanges_return_witness:
  "snd (writeSDO demo_client (demo_call\<lparr>k_ctxDeadline := Some 50, k_turns := [live_turn 1 zero_frame, silent_turn 50]\<rparr>)
     demo_object [1]) \<noteq> None"
  using can_exchanges_return [where k = "demo_call\<lparr>k_ctxDeadline := Some 50, k_turns := [live_turn 1 zero_frame, silent_turn 50]\<rparr>"
      and c = demo_client and obj = demo_object and val = "[1]" and e = ErrTimeout]
  by (simp add: demo_client_def demo_call_def silent_turn_def Let_def)

end
