(* ===== verification/Client.thy ===== *)
theory Client
  imports CanClient
begin

text \<open>
  The textual MeCom client, \<open>Client\<close> of \<open>mecom/protocol.go\<close>: sequence numbers, \<open>readFrame\<close>, the
  request/response round trip and every read and write method.  An \<open>io_call\<close> is what one round trip
  meets: the context, the outcomes of \<open>Write\<close> and \<open>SetReadDeadline\<close>, and the results of the
  successive one-byte \<open>Read\<close> calls (a byte, an error, or both).  A method returns the client, the
  frames it wrote and its result, which is \<open>None\<close> while \<open>Read\<close> still blocks.  A call takes the
  mutex twice, to draw its sequence number and for the exchange; in between it is free, so that
  concurrent calls may exchange in another order than they drew their numbers.  The model has the
  calls of one goroutine: the number is drawn and the exchange follows with no other call in between.
\<close>

section \<open>Round trips\<close>

record Client =
  cl_address :: byte
  cl_timeout :: int
  cl_seq :: u16

definition NewClient :: "ClientConfig \<Rightarrow> Client" where
  "NewClient cfg = \<lparr>cl_address = cfg_Address cfg, cl_timeout = config_timeout cfg, cl_seq = 0\<rparr>"

definition cl_SupportsRingReadout :: "Client \<Rightarrow> bool" where
  "cl_SupportsRingReadout c = True"

record io_call =
  io_ctx :: "mecom_error option"
  io_write :: "mecom_error option"
  io_deadlineRW :: bool
  io_setDeadline :: "mecom_error option"
  io_reads :: "(char option \<times> mecom_error option) list"
  io_ctxAfter :: "mecom_error option"

definition nextSeqLocked :: "Client \<Rightarrow> Client" where
  "nextSeqLocked c =
     (let c1 = c\<lparr>cl_seq := cl_seq c + 1\<rparr> in if cl_seq c1 = 0 then c1\<lparr>cl_seq := 1\<rparr> else c1)"

fun readFrame :: "string \<Rightarrow> (char option \<times> mecom_error option) list \<Rightarrow> (string \<times> mecom_error option) option" where
  "readFrame out [] = None"
| "readFrame out ((b, err) # rs) =
     (let out' = (case b of Some c \<Rightarrow> out @ [c] | None \<Rightarrow> out) in
      if b = Some FrameTerminator then Some (out', None)
      else case err of Some e \<Rightarrow> Some (out', Some e) | None \<Rightarrow> readFrame out' rs)"

definition roundTripRaw :: "io_call \<Rightarrow> string \<Rightarrow> string list \<times> (mecom_error + string) option" where
  "roundTripRaw k frame =
     (case io_ctx k of
        Some e \<Rightarrow> ([], Some (Inl e))
      | None \<Rightarrow>
          (case io_write k of
             Some e \<Rightarrow> ([frame], Some (Inl e))
           | None \<Rightarrow>
               (case (if io_deadlineRW k then io_setDeadline k else None) of
                  Some e \<Rightarrow> ([frame], Some (Inl e))
                | None \<Rightarrow>
                    ([frame],
                     (case readFrame [] (io_reads k) of
                        None \<Rightarrow> None
                      | Some (raw, None) \<Rightarrow> Some (Inr raw)
                      | Some (raw, Some e) \<Rightarrow>
                          Some (Inl (case io_ctxAfter k of
                                       Some ce \<Rightarrow> ce
                                     | None \<Rightarrow> if e = NetTimeout then ErrTimeout else e)))))))"

definition roundTripWithRequest ::
    "Client \<Rightarrow> io_call \<Rightarrow> (u16 \<Rightarrow> mecom_error + string) \<Rightarrow>
     Client \<times> string list \<times> (mecom_error + string \<times> string) option" where
  "roundTripWithRequest c k buildFrame =
     (let c' = nextSeqLocked c in
      case buildFrame (cl_seq c') of
        Inl e \<Rightarrow> (c', [], Some (Inl e))
      | Inr frame \<Rightarrow>
          (case roundTripRaw k frame of
             (ws, r) \<Rightarrow> (c', ws, map_option (map_sum (\<lambda>e. e) (\<lambda>raw. (frame, raw))) r)))"

definition roundTrip ::
    "Client \<Rightarrow> io_call \<Rightarrow> (u16 \<Rightarrow> mecom_error + string) \<Rightarrow> Client \<times> string list \<times> (mecom_error + string) option" where
  "roundTrip c k buildFrame =
     (case roundTripWithRequest c k buildFrame of
        (c', ws, r) \<Rightarrow> (c', ws, map_option (map_sum (\<lambda>e. e) snd) r))"

text \<open>The common shape of the methods: exchange, then parse the answer.\<close>

definition exchange ::
    "Client \<Rightarrow> io_call \<Rightarrow> (u16 \<Rightarrow> mecom_error + string) \<Rightarrow> (string \<Rightarrow> mecom_error + 'a) \<Rightarrow>
     Client \<times> string list \<times> (mecom_error + 'a) option" where
  "exchange c k buildFrame parse =
     (case roundTrip c k buildFrame of
        (c', ws, r) \<Rightarrow> (c', ws, map_option (\<lambda>x. res_bind x parse) r))"

definition write_exchange ::
    "Client \<Rightarrow> io_call \<Rightarrow> (u16 \<Rightarrow> mecom_error + string) \<Rightarrow> Client \<times> string list \<times> (mecom_error + unit) option" where
  "write_exchange c k buildFrame =
     (case roundTripWithRequest c k buildFrame of
        (c', ws, r) \<Rightarrow>
          (c', ws, map_option (\<lambda>x. res_bind x (\<lambda>(request, raw). ParseWriteResponseForRequest raw request)) r))"

section \<open>Methods\<close>

definition cl_readNumeric ::
    "Client \<Rightarrow> io_call \<Rightarrow> int \<Rightarrow> int \<Rightarrow> DataType \<Rightarrow> Client \<times> string list \<times> (mecom_error + f64) option" where
  "cl_readNumeric c k paramID inst dataType =
     (case validateParameterAddress paramID inst of
        Inl e \<Rightarrow> (c, [], Some (Inl e))
      | Inr _ \<Rightarrow>
          exchange c k (\<lambda>seq. Inr (BuildSingleGetFrame (uint (cl_address c)) seq paramID inst))
            (\<lambda>raw. ParseSingleResponse raw dataType))"

definition cl_ReadFloat32 ::
    "Client \<Rightarrow> io_call \<Rightarrow> int \<Rightarrow> int \<Rightarrow> Client \<times> string list \<times> (mecom_error + f64) option" where
  "cl_ReadFloat32 c k paramID inst = cl_readNumeric c k paramID inst DataTypeFloat32"

definition cl_ReadInt32 ::
    "Client \<Rightarrow> io_call \<Rightarrow> int \<Rightarrow> int \<Rightarrow> Client \<times> string list \<times> (mecom_error + u32 option) option" where
  "cl_ReadInt32 c k paramID inst =
     (case cl_readNumeric c k paramID inst DataTypeInt32 of
        (c', ws, r) \<Rightarrow> (c', ws, map_option (map_sum (\<lambda>e. e) int32_of_f64) r))"

definition cl_ReadBulk ::
    "Client \<Rightarrow> io_call \<Rightarrow> Parameter list \<Rightarrow> Client \<times> string list \<times> (mecom_error + f64 list) option" where
  "cl_ReadBulk c k params =
     (case validateParameterList params of
        Inl e \<Rightarrow> (c, [], Some (Inl e))
      | Inr _ \<Rightarrow>
          exchange c k (\<lambda>seq. Inr (BuildBulkGetFrame (uint (cl_address c)) seq params))
            (\<lambda>raw. ParseBulkResponse raw params))"

definition cl_ReadRingPointer :: "Client \<Rightarrow> io_call \<Rightarrow> Client \<times> string list \<times> (mecom_error + u32) option" where
  "cl_ReadRingPointer c k =
     exchange c k (\<lambda>seq. Inr (BuildRingPointerFrame (uint (cl_address c)) seq)) ParseRingPointerResponse"

definition MaxRingReadMaxBytes :: u16 where "MaxRingReadMaxBytes = 279"

definition clampRingReadMaxBytes :: "u16 \<Rightarrow> u16" where
  "clampRingReadMaxBytes maxBytes =
     (if maxBytes = 0 \<or> MaxRingReadMaxBytes < maxBytes then MaxRingReadMaxBytes else maxBytes)"

definition cl_ReadRingChunk ::
    "Client \<Rightarrow> io_call \<Rightarrow> u32 \<Rightarrow> u16 \<Rightarrow> Client \<times> string list \<times> (mecom_error + RingReadResponse) option" where
  "cl_ReadRingChunk c k start maxBytes =
     exchange c k (\<lambda>seq. Inr (BuildRingReadFrame (uint (cl_address c)) seq start (clampRingReadMaxBytes maxBytes)))
       ParseRingReadResponse"

definition cl_ConfigureRingCapture ::
    "Client \<Rightarrow> io_call \<Rightarrow> u16 \<Rightarrow> RingCaptureParameter list \<Rightarrow> Client \<times> string list \<times> (mecom_error + unit) option" where
  "cl_ConfigureRingCapture c k captureID params =
     exchange c k (\<lambda>seq. BuildRingCaptureConfigFrame (uint (cl_address c)) seq captureID params)
       ParseRingCaptureConfigResponse"

definition cl_TriggerRingSync :: "Client \<Rightarrow> io_call \<Rightarrow> Client \<times> string list \<times> (mecom_error + unit) option" where
  "cl_TriggerRingSync c k =
     write_exchange c k (\<lambda>seq. Inr (BuildRingTriggerSyncFrame (uint (cl_address c)) seq))"

definition guarded_write ::
    "Client \<Rightarrow> io_call \<Rightarrow> int \<Rightarrow> int \<Rightarrow> (u16 \<Rightarrow> mecom_error + string) \<Rightarrow>
     Client \<times> string list \<times> (mecom_error + unit) option" where
  "guarded_write c k paramID inst buildFrame =
     (case validateParameterAddress paramID inst of
        Inl e \<Rightarrow> (c, [], Some (Inl e))
      | Inr _ \<Rightarrow> write_exchange c k buildFrame)"

definition cl_WriteFloat32 ::
    "Client \<Rightarrow> io_call \<Rightarrow> int \<Rightarrow> int \<Rightarrow> u32 \<Rightarrow> Client \<times> string list \<times> (mecom_error + unit) option" where
  "cl_WriteFloat32 c k paramID inst val =
     guarded_write c k paramID inst
       (\<lambda>seq. Inr (BuildWriteFloat32Frame (uint (cl_address c)) seq paramID inst val))"

definition cl_WriteInt32 ::
    "Client \<Rightarrow> io_call \<Rightarrow> int \<Rightarrow> int \<Rightarrow> u32 \<Rightarrow> Client \<times> string list \<times> (mecom_error + unit) option" where
  "cl_WriteInt32 c k paramID inst val =
     guarded_write c k paramID inst
       (\<lambda>seq. Inr (BuildWriteInt32Frame (uint (cl_address c)) seq paramID inst val))"

definition cl_WriteString ::
    "Client \<Rightarrow> io_call \<Rightarrow> int \<Rightarrow> int \<Rightarrow> string \<Rightarrow> Client \<times> string list \<times> (mecom_error + unit) option" where
  "cl_WriteString c k paramID inst val =
     guarded_write c k paramID inst
       (\<lambda>seq. Inr (BuildWriteStringFrame (uint (cl_address c)) seq paramID inst val))"

definition cl_WriteBigDataString ::
    "Client \<Rightarrow> io_call \<Rightarrow> int \<Rightarrow> int \<Rightarrow> string \<Rightarrow> Client \<times> string list \<times> (mecom_error + unit) option" where
  "cl_WriteBigDataString c k paramID inst val =
     guarded_write c k paramID inst
       (\<lambda>seq. BuildSetBigDataStringFrame (uint (cl_address c)) seq paramID inst 0 val True)"

definition cl_SaveToFlash :: "Client \<Rightarrow> io_call \<Rightarrow> Client \<times> string list \<times> (mecom_error + unit) option" where
  "cl_SaveToFlash c k = write_exchange c k (\<lambda>seq. Inr (BuildSaveToFlashFrame (uint (cl_address c)) seq))"

definition cl_Reset :: "Client \<Rightarrow> io_call \<Rightarrow> Client \<times> string list \<times> (mecom_error + unit) option" where
  "cl_Reset c k = write_exchange c k (\<lambda>seq. Inr (BuildResetFrame (uint (cl_address c)) seq))"

section \<open>Exchanges with an answering device\<close>

definition delivers :: "string \<Rightarrow> (char option \<times> mecom_error option) list" where
  "delivers s = map (\<lambda>c. (Some c, None)) s"

definition answering :: "string \<Rightarrow> io_call" where
  "answering reply = \<lparr>io_ctx = None, io_write = None, io_deadlineRW = True, io_setDeadline = None,
     io_reads = delivers reply, io_ctxAfter = None\<rparr>"

definition silent :: io_call where
  "silent = \<lparr>io_ctx = None, io_write = None, io_deadlineRW = True, io_setDeadline = None,
     io_reads = [(None, Some NetTimeout)], io_ctxAfter = None\<rparr>"

lemma readFrame_delivers:
  "FrameTerminator \<notin> set body \<Longrightarrow>
   readFrame out (delivers (body @ [FrameTerminator]) @ rs) = Some (out @ body @ [FrameTerminator], None)"
  by (induction body arbitrary: out) (auto simp: delivers_def)

lemma seal_readable:
  assumes "FrameTerminator \<notin> set p"
  shows "readFrame [] (delivers (seal p)) = Some (seal p, None)"
proof -
  have "FrameTerminator \<notin> set (p @ hexN 4 (unat (CRC16 p)))"
    using assms CR_not_hex [of 4 "unat (CRC16 p)"] by auto
  from readFrame_delivers [OF this, of "[]" "[]"] show ?thesis by (simp add: seal_eq)
qed

lemma resp_prefix_no_CR: "FrameTerminator \<notin> set q \<Longrightarrow> FrameTerminator \<notin> set (resp_prefix a s q)"
  using CR_not_hex [of 2 "unat a"] CR_not_hex [of 4 "unat s"] by (auto simp: resp_prefix_def FrameTerminator_def)

lemma roundTripRaw_answering:
  "readFrame [] (delivers reply) = Some (reply, None) \<Longrightarrow> roundTripRaw (answering reply) frame = ([frame], Some (Inr reply))"
  by (simp add: roundTripRaw_def answering_def)

lemma exchange_answering:
  assumes "readFrame [] (delivers reply) = Some (reply, None)"
  shows "exchange c (answering reply) (\<lambda>seq. Inr (f seq)) parse =
      (nextSeqLocked c, [f (cl_seq (nextSeqLocked c))], Some (parse reply))"
    and "write_exchange c (answering reply) (\<lambda>seq. Inr (f seq)) =
      (nextSeqLocked c, [f (cl_seq (nextSeqLocked c))],
       Some (ParseWriteResponseForRequest reply (f (cl_seq (nextSeqLocked c)))))"
  using roundTripRaw_answering [OF assms]
  by (simp_all add: exchange_def write_exchange_def roundTrip_def roundTripWithRequest_def Let_def)

lemma hex_no_CR: "FrameTerminator \<notin> set (encodeInt32 v)" "FrameTerminator \<notin> set (concat (map encodeInt32 vs))"
  using CR_not_hex [of 8] by (auto simp: encodeInt32_hexN)

lemma data_readable:
  "FrameTerminator \<notin> set pl \<Longrightarrow>
   readFrame [] (delivers (deviceBridgeData a s pl)) = Some (deviceBridgeData a s pl, None)"
  unfolding response_seal by (rule seal_readable) (rule resp_prefix_no_CR)

lemma nack_readable:
  "readFrame [] (delivers (deviceBridgeNACK a s code)) = Some (deviceBridgeNACK a s code, None)"
  unfolding response_seal
  by (rule seal_readable, rule resp_prefix_no_CR) (use CR_not_hex [of 2 "unat code"] in \<open>auto simp: FrameTerminator_def\<close>)

lemma read_answered:
  assumes "validateParameterAddress p i = Inr ()"
  shows "cl_readNumeric c (answering (deviceBridgeData a s (encodeInt32 v))) p i dt =
    (nextSeqLocked c, [BuildSingleGetFrame (uint (cl_address c)) (cl_seq (nextSeqLocked c)) p i],
     Some (Inr (decoded dt v)))"
  using assms
  by (simp add: cl_readNumeric_def ParseSingleResponse_Data exchange_answering(1) [OF data_readable [OF hex_no_CR(1)]])

lemma bulk_answered:
  assumes "validateParameterList ps = Inr ()" and "length vs = length ps"
  shows "cl_ReadBulk c (answering (deviceBridgeData a s (concat (map encodeInt32 vs)))) ps =
    (nextSeqLocked c, [BuildBulkGetFrame (uint (cl_address c)) (cl_seq (nextSeqLocked c)) ps],
     Some (Inr (map2 (\<lambda>p v. decoded (par_Type p) v) ps vs)))"
  using assms
  by (simp add: cl_ReadBulk_def ParseBulkResponse_Data exchange_answering(1) [OF data_readable [OF hex_no_CR(2)]])

lemma nack_write_parse:
  "ParseWriteResponseForRequest (deviceBridgeNACK a s code) request =
     Inl (Response (Nack (unat code) (errorsByCode (unat code))))"
proof -
  have "parsePayload (deviceBridgeNACK a s code) = Inl (Response (Nack (unat code) (errorsByCode (unat code))))"
    unfolding response_seal by (subst parsePayload_seal) (auto simp: ParseUint_hexN_u8)
  moreover have "length (trim_suffix1 FrameTerminator (deviceBridgeNACK a s code)) = 14"
    unfolding response_seal trim_seal by simp
  ultimately show ?thesis
    by (simp add: ParseWriteResponseForRequest_def ParseWriteResponse_def isBareRequestCRCAck_def Let_def)
qed

lemma empty_data_write_parse: "ParseWriteResponseForRequest (deviceBridgeData a s []) request = Inr ()"
  by (simp add: ParseWriteResponseForRequest_def ParseWriteResponse_def parsePayload_Data)

section \<open>Properties\<close>

text \<open>
  C23.  End to end over a byte stream: for a valid parameter address a read writes exactly one
  request with a fresh sequence number and, when the device answers it, returns the device's 32
  bits as the parameter's type; a bulk read returns the values of all its parameters in order.
\<close>

theorem client_read_roundtrip:
  assumes "validateParameterAddress p i = Inr ()" and "validateParameterList ps = Inr ()"
    and "length vs = length ps"
  shows "cl_readNumeric c (answering (deviceBridgeData (cl_address c) (cl_seq (nextSeqLocked c)) (encodeInt32 v))) p i dt =
      (nextSeqLocked c, [BuildSingleGetFrame (uint (cl_address c)) (cl_seq (nextSeqLocked c)) p i],
       Some (Inr (decoded dt v))) \<and>
    cl_ReadBulk c (answering (deviceBridgeData (cl_address c) (cl_seq (nextSeqLocked c)) (concat (map encodeInt32 vs)))) ps =
      (nextSeqLocked c, [BuildBulkGetFrame (uint (cl_address c)) (cl_seq (nextSeqLocked c)) ps],
       Some (Inr (map2 (\<lambda>p v. decoded (par_Type p) v) ps vs))) \<and>
    cl_seq (nextSeqLocked c) \<noteq> 0 \<and> cl_seq (nextSeqLocked c) \<noteq> cl_seq c"
proof -
  have "cl_seq (nextSeqLocked c) \<noteq> cl_seq c \<and> cl_seq (nextSeqLocked c) \<noteq> 0"
  proof (cases "cl_seq c + 1 = 0")
    case True
    then have "cl_seq c = - 1" by (simp add: eq_neg_iff_add_eq_0)
    then show ?thesis by (simp add: nextSeqLocked_def)
  qed (simp add: nextSeqLocked_def)
  then show ?thesis using read_answered [OF assms(1)] bulk_answered [OF assms(2,3)] by simp
qed

theorem client_read_roundtrip_witness:
  "snd (snd (cl_readNumeric (NewClient \<lparr>cfg_Address = 75, cfg_Timeout = 0, cfg_SDOMap = None\<rparr>)
     (answering (deviceBridgeData 75 1 (encodeInt32 42))) 1000 1 DataTypeInt32)) = Some (Inr (F64_of_int32 42))"
  using client_read_roundtrip [of 1000 1 "[]" "[]" "NewClient \<lparr>cfg_Address = 75, cfg_Timeout = 0, cfg_SDOMap = None\<rparr>"
      42 DataTypeInt32]
  by (simp add: validateParameterAddress_iff validateParameterList_def NewClient_def nextSeqLocked_def decoded_def)

text \<open>
  C24.  A late answer is taken for the next request: the client compares neither the address nor the
  sequence number of a response with its request, so after a timeout the late reply to the first
  read is returned as the value of the second read, of whatever parameter.
\<close>

theorem client_accepts_late_reply:
  assumes "validateParameterAddress p i = Inr ()" and "validateParameterAddress p' i' = Inr ()"
  shows "snd (snd (cl_readNumeric c silent p i dt)) = Some (Inl ErrTimeout) \<and>
    snd (snd (cl_readNumeric (fst (cl_readNumeric c silent p i dt))
      (answering (deviceBridgeData (cl_address c) (cl_seq (nextSeqLocked c)) (encodeInt32 v))) p' i' dt')) =
      Some (Inr (decoded dt' v))"
  using assms
  by (simp add: read_answered)
    (simp add: cl_readNumeric_def exchange_def roundTrip_def roundTripWithRequest_def roundTripRaw_def silent_def Let_def)

theorem client_accepts_late_reply_witness:
  "snd (snd (cl_readNumeric (fst (cl_readNumeric \<lparr>cl_address = 75, cl_timeout = 0, cl_seq = 0\<rparr> silent 1000 1 DataTypeFloat32))
      (answering (deviceBridgeData 75 1 (encodeInt32 42))) 1010 2 DataTypeInt32)) = Some (Inr (F64_of_int32 42))"
  using client_accepts_late_reply [of 1000 1 1010 2 "\<lparr>cl_address = 75, cl_timeout = 0, cl_seq = 0\<rparr>" DataTypeFloat32 42 DataTypeInt32]
  by (simp add: validateParameterAddress_iff nextSeqLocked_def decoded_def)

text \<open>
  The outcome of a write is the device's: for a valid address one write frame is sent, a NACK
  is returned as the error with its code, an empty acknowledgement as success; for an invalid
  address nothing is written and the sequence number is not used up.
\<close>

theorem client_write_outcome:
  "case validateParameterAddress p i of
     Inr _ \<Rightarrow>
       cl_WriteInt32 c (answering (deviceBridgeNACK a s code)) p i v =
         (nextSeqLocked c, [BuildWriteInt32Frame (uint (cl_address c)) (cl_seq (nextSeqLocked c)) p i v],
          Some (Inl (Response (Nack (unat code) (errorsByCode (unat code)))))) \<and>
       cl_WriteFloat32 c (answering (deviceBridgeData a s [])) p i v =
         (nextSeqLocked c, [BuildWriteFloat32Frame (uint (cl_address c)) (cl_seq (nextSeqLocked c)) p i v], Some (Inr ()))
   | Inl e \<Rightarrow>
       cl_WriteInt32 c k p i v = (c, [], Some (Inl e)) \<and> cl_WriteFloat32 c k p i v = (c, [], Some (Inl e)) \<and>
       cl_WriteString c k p i str = (c, [], Some (Inl e)) \<and> cl_WriteBigDataString c k p i str = (c, [], Some (Inl e))"
proof (cases "validateParameterAddress p i")
  case (Inl e)
  then show ?thesis
    by (simp add: cl_WriteInt32_def cl_WriteFloat32_def cl_WriteString_def cl_WriteBigDataString_def guarded_write_def)
next
  case (Inr u)
  then show ?thesis
    using exchange_answering(2) [OF nack_readable] exchange_answering(2) [OF data_readable [of "[]"]]
    by (simp add: cl_WriteInt32_def cl_WriteFloat32_def guarded_write_def nack_write_parse empty_data_write_parse)
qed

end
