(* ===== verification/RingReader.thy ===== *)
theory RingReader
  imports RingStream Client
begin

text \<open>
  The oversampling reader of \<open>mecom/ring_reader.go\<close>: pointer arithmetic modulo \<open>2^32\<close>, timestamp
  arithmetic modulo \<open>2^16\<close>, the failure and reset counters that disable the reader, and one
  \<open>fetch\<close>, which reads the producer pointer and then up to 16 chunks of the device ring.  What a
  fetch meets (the client's answers, the clock, and when the sample channel yields to \<open>quit\<close>) is a
  \<open>fetch_env\<close>; the result of a fetch is the new state, the chunk requests it made and the samples
  it delivered.  \<open>log.Printf\<close> and the ticker goroutine are left out; \<open>poll\<close> is the sequence of
  fetches.
\<close>

section \<open>Pointer and timestamp arithmetic\<close>

definition RingBufferSizeBytes :: nat where "RingBufferSizeBytes = 4096"
definition ringReaderMaxChunksFetch :: nat where "ringReaderMaxChunksFetch = 16"
definition ringReaderConsecutiveFailureLimit :: nat where "ringReaderConsecutiveFailureLimit = 3"
definition ringReaderConsecutiveResetLimit :: nat where "ringReaderConsecutiveResetLimit = 4"
definition ringReaderResetWindow :: int where "ringReaderResetWindow = 30 * second"
definition ringReaderResetWindowLimit :: nat where "ringReaderResetWindowLimit = 8"
definition ringReaderDefaultRequestTimeout :: int where "ringReaderDefaultRequestTimeout = 2 * second"
definition ringTimestampStep :: int where "ringTimestampStep = 10000"

definition ringPointerDistance :: "u32 \<Rightarrow> u32 \<Rightarrow> u32 \<times> bool" where
  "ringPointerDistance from_p to_p =
     (if from_p \<le> to_p then (to_p - from_p, True)
      else
        let distance = (ucast to_p :: u64) + push_bit 32 1 - ucast from_p in
        if unat distance \<le> RingBufferSizeBytes then (ucast distance, True) else (0, False))"

definition ringTimestampDelta :: "u16 \<Rightarrow> u16 \<Rightarrow> u32" where
  "ringTimestampDelta newest older =
     (if older \<le> newest then ucast (newest - older)
      else ucast newest + push_bit 16 1 - ucast older)"

definition stampRingFrameSamples :: "RingFrame list \<Rightarrow> gotime \<Rightarrow> RingSample list" where
  "stampRingFrameSamples frames observedAt =
     (case filter (\<lambda>f. rf_Samples f \<noteq> []) frames of
        [] \<Rightarrow> []
      | fs \<Rightarrow>
          let newest = last fs in
          concat (map (\<lambda>f.
            let tm = observedAt - uint (ringTimestampDelta (rf_Timestamp10us newest) (rf_Timestamp10us f)) * ringTimestampStep
            in map (\<lambda>s. s\<lparr>rs_At := tm\<rparr>) (rf_Samples f)) fs))"

section \<open>The reader\<close>

datatype ring_reason =
    ConsecutiveFailures nat string mecom_error
  | ConsecutiveResets nat
  | WindowResets nat
  | ClientNil

record RingReader =
  rg_Config :: "RingCaptureParameter list"
  rg_hasSamples :: bool
  rg_requestTimeout :: int
  lastPointer :: u32
  rg_tail :: "byte list"
  consecutiveFailures :: nat
  consecutiveResets :: nat
  resetWindowStarted :: gotime
  resetWindowResets :: nat
  rg_disabled :: bool
  disabledReason :: "ring_reason option"
  quit_closed :: bool

definition newRingReader :: "int \<Rightarrow> RingCaptureParameter list \<Rightarrow> bool \<Rightarrow> RingReader" where
  "newRingReader timeout config hasSamples =
     \<lparr>rg_Config = config, rg_hasSamples = hasSamples,
      rg_requestTimeout = (if timeout \<le> 0 then ringReaderDefaultRequestTimeout else timeout),
      lastPointer = 0, rg_tail = [], consecutiveFailures = 0, consecutiveResets = 0,
      resetWindowStarted = zero_time, resetWindowResets = 0, rg_disabled = False, disabledReason = None,
      quit_closed = False\<rparr>"

definition ring_Stop :: "RingReader \<Rightarrow> RingReader" where
  "ring_Stop r = r\<lparr>quit_closed := True\<rparr>"

definition ring_disable :: "ring_reason \<Rightarrow> RingReader \<Rightarrow> RingReader" where
  "ring_disable reason r =
     (if rg_disabled r then r else ring_Stop (r\<lparr>rg_disabled := True, disabledReason := Some reason\<rparr>))"

definition noteFailure :: "string \<Rightarrow> mecom_error \<Rightarrow> RingReader \<Rightarrow> RingReader" where
  "noteFailure operation err r =
     (let r1 = r\<lparr>consecutiveFailures := consecutiveFailures r + 1, consecutiveResets := 0\<rparr> in
      if ringReaderConsecutiveFailureLimit \<le> consecutiveFailures r1
      then ring_disable (ConsecutiveFailures (consecutiveFailures r1) operation err) r1 else r1)"

definition noteCursorReset :: "gotime \<Rightarrow> RingReader \<Rightarrow> bool \<times> RingReader" where
  "noteCursorReset now r =
     (let r1 = r\<lparr>consecutiveFailures := 0, consecutiveResets := consecutiveResets r + 1\<rparr>;
          r2 = (if resetWindowStarted r1 = zero_time \<or> ringReaderResetWindow < now - resetWindowStarted r1
                then r1\<lparr>resetWindowStarted := now, resetWindowResets := 0\<rparr> else r1);
          r3 = r2\<lparr>resetWindowResets := resetWindowResets r2 + 1\<rparr>
      in if ringReaderConsecutiveResetLimit \<le> consecutiveResets r3
         then (False, ring_disable (ConsecutiveResets (consecutiveResets r3)) r3)
         else if ringReaderResetWindowLimit \<le> resetWindowResets r3
         then (False, ring_disable (WindowResets (resetWindowResets r3)) r3)
         else (True, r3))"

definition noteHealthy :: "RingReader \<Rightarrow> RingReader" where
  "noteHealthy r = r\<lparr>consecutiveFailures := 0, consecutiveResets := 0\<rparr>"

record start_env =
  se_clientNil :: bool
  se_capable :: bool
  se_configure :: "mecom_error option"
  se_sync :: "mecom_error option"
  se_pointer :: "mecom_error + u32"

datatype start_error =
    StartClientNil
  | StartNotSupported
  | StartConfigFailed mecom_error
  | StartSyncFailed mecom_error
  | StartPointerFailed mecom_error

definition ring_Start :: "start_env \<Rightarrow> RingReader \<Rightarrow> RingReader \<times> start_error option" where
  "ring_Start env r =
     (if se_clientNil env then (r, Some StartClientNil)
      else if \<not> se_capable env then (r, Some StartNotSupported)
      else case se_configure env of
        Some e \<Rightarrow> (r, Some (StartConfigFailed e))
      | None \<Rightarrow>
          (case se_sync env of
             Some e \<Rightarrow> (r, Some (StartSyncFailed e))
           | None \<Rightarrow>
               (case se_pointer env of
                  Inl e \<Rightarrow> (r, Some (StartPointerFailed e))
                | Inr ptr \<Rightarrow>
                    (r\<lparr>lastPointer := ptr, rg_tail := [], consecutiveFailures := 0, consecutiveResets := 0,
                       resetWindowStarted := zero_time, resetWindowResets := 0, rg_disabled := False,
                       disabledReason := None\<rparr>, None))))"

section \<open>One fetch\<close>

text \<open>
  \<open>fe_chunk i\<close> answers the i-th chunk request, \<open>fe_now i\<close> is the clock when its frames are stamped
  and \<open>fe_quit i\<close> the number of its samples sent before the select takes \<open>quit\<close>, if it does.
\<close>

record fetch_env =
  fe_clientNil :: bool
  fe_pointer :: "mecom_error + u32"
  fe_resetNow :: gotime
  fe_chunk :: "nat \<Rightarrow> mecom_error + RingReadResponse"
  fe_now :: "nat \<Rightarrow> gotime"
  fe_quit :: "nat \<Rightarrow> nat option"

type_synonym fetch_result = "RingReader \<times> (u32 \<times> u16) list \<times> RingSample list"

definition cursor_reset :: "gotime \<Rightarrow> u32 \<Rightarrow> RingReader \<Rightarrow> RingReader" where
  "cursor_reset now ptr r =
     (case noteCursorReset now r of
        (False, r1) \<Rightarrow> r1
      | (True, r1) \<Rightarrow> r1\<lparr>lastPointer := ptr, rg_tail := []\<rparr>)"

definition next_remaining :: "u32 \<Rightarrow> u32 \<Rightarrow> byte \<Rightarrow> u32" where
  "next_remaining lp ptr status =
     (let rem1 = (case ringPointerDistance lp ptr of (d, True) \<Rightarrow> d | (d, False) \<Rightarrow> 0) in
      if rem1 = 0 \<and> status = RingStatusHasMoreData then 279 else rem1)"

text \<open>The frames of a chunk: the new state, the samples sent, and whether \<open>quit\<close> was taken.\<close>

definition consume_chunk ::
    "gotime \<Rightarrow> nat option \<Rightarrow> byte list \<Rightarrow> RingReader \<Rightarrow> RingReader \<times> RingSample list \<times> bool" where
  "consume_chunk now quit data r =
     (case ParseRingFrames (rg_Config r) (rg_tail r @ data) of
        (frames, rest, Some err) \<Rightarrow> ((noteFailure ''parse'' err r)\<lparr>rg_tail := []\<rparr>, [], False)
      | (frames, rest, None) \<Rightarrow>
          let r1 = (noteHealthy r)\<lparr>rg_tail := rest\<rparr>;
              samples = (if rg_hasSamples r then stampRingFrameSamples frames now else [])
          in case quit of
               None \<Rightarrow> (r1, samples, False)
             | Some n \<Rightarrow> if n < length samples then (r1, take n samples, True) else (r1, samples, False))"

fun fetch_loop :: "fetch_env \<Rightarrow> u32 \<Rightarrow> nat \<Rightarrow> u32 \<Rightarrow> RingReader \<Rightarrow> fetch_result" where
  "fetch_loop env ptr 0 remaining r = (r, [], [])"
| "fetch_loop env ptr (Suc n) remaining r =
     (if remaining = 0 then (r, [], [])
      else
        let i = ringReaderMaxChunksFetch - Suc n;
            maxBytes = (if remaining < 279 then ucast remaining else 279);
            req = (lastPointer r, maxBytes)
        in case fe_chunk env i of
             Inl e \<Rightarrow> (noteFailure ''chunk read'' e r, [req], [])
           | Inr resp \<Rightarrow>
               if rr_Status resp = RingStatusOverlap then (cursor_reset (fe_resetNow env) ptr r, [req], [])
               else if rr_BytesAdded resp = 0 then (noteHealthy r, [req], [])
               else
                 case consume_chunk (fe_now env i) (fe_quit env i) (rr_Data resp) r of
                   (r1, samples, True) \<Rightarrow> (r1, [req], samples)
                 | (r1, samples, False) \<Rightarrow>
                     let r2 = r1\<lparr>lastPointer := lastPointer r1 + ucast (rr_BytesAdded resp)\<rparr> in
                     if rr_Status resp = RingStatusAllDataRead then (r2, [req], samples)
                     else case fetch_loop env ptr n (next_remaining (lastPointer r2) ptr (rr_Status resp)) r2 of
                            (r3, reqs, ss) \<Rightarrow> (r3, req # reqs, samples @ ss))"

definition ring_fetch :: "fetch_env \<Rightarrow> RingReader \<Rightarrow> fetch_result" where
  "ring_fetch env r =
     (if rg_disabled r then (r, [], [])
      else if fe_clientNil env then (ring_disable ClientNil r, [], [])
      else case fe_pointer env of
        Inl e \<Rightarrow> (noteFailure ''pointer fetch'' e r, [], [])
      | Inr ptr \<Rightarrow>
          if ptr = lastPointer r then (noteHealthy r, [], [])
          else case ringPointerDistance (lastPointer r) ptr of
            (remaining, False) \<Rightarrow> (cursor_reset (fe_resetNow env) ptr r, [], [])
          | (remaining, True) \<Rightarrow>
              if remaining = 0 then (r, [], [])
              else if RingBufferSizeBytes < unat remaining then (cursor_reset (fe_resetNow env) ptr r, [], [])
              else fetch_loop env ptr ringReaderMaxChunksFetch remaining r)"

section \<open>Arithmetic\<close>

lemma forward_distance: "(to_p :: u32) = from_p + (to_p - from_p)"
  by simp

lemma u64_distance:
  assumes "to_p < (from_p :: u32)"
  shows "unat ((ucast to_p :: u64) + push_bit 32 1 - ucast from_p) = unat to_p + 2 ^ 32 - unat from_p"
proof -
  have b: "unat to_p < 2 ^ 32" "unat from_p < 2 ^ 32" using unat_word_bound [of to_p] unat_word_bound [of from_p] by simp_all
  have t: "unat (ucast to_p :: u64) = unat to_p" and f: "unat (ucast from_p :: u64) = unat from_p"
    by (simp_all add: unat_ucast_up)
  have p: "unat (push_bit 32 1 :: u64) = 2 ^ 32" by simp
  have s: "unat ((ucast to_p :: u64) + push_bit 32 1) = unat to_p + 2 ^ 32"
    using unat_add_lem [of "ucast to_p :: u64" "push_bit 32 1"] t p b by simp
  have "(ucast from_p :: u64) \<le> ucast to_p + push_bit 32 1"
    unfolding word_le_nat_alt s f using b by simp
  then show ?thesis using unat_sub [of "ucast from_p :: u64" "ucast to_p + push_bit 32 1"] s f by simp
qed

lemma u32_distance_wrap:
  assumes "to_p < (from_p :: u32)"
  shows "unat (to_p - from_p) = unat to_p + 2 ^ 32 - unat from_p"
  using assms by (simp add: unat_sub_if_size word_less_nat_alt word_size)

lemma ringPointerDistance_cases:
  "ringPointerDistance from_p to_p =
     (if from_p \<le> to_p \<or> unat (to_p - from_p) \<le> 4096 then (to_p - from_p, True) else (0, False))"
proof (cases "from_p \<le> to_p")
  case False
  then have lt: "to_p < from_p" by simp
  let ?d = "(ucast to_p :: u64) + push_bit 32 1 - ucast from_p"
  have d: "unat ?d = unat (to_p - from_p)" using u64_distance [OF lt] u32_distance_wrap [OF lt] by simp
  have "unat (ucast ?d :: u32) = unat (to_p - from_p)"
    using d unat_word_bound [of "to_p - from_p"] by (simp only: unsigned_ucast_eq) (simp add: take_bit_nat_eq_self)
  then have "(ucast ?d :: u32) = to_p - from_p" by (simp only: word_unat_eq_iff)
  with False d show ?thesis by (simp add: ringPointerDistance_def Let_def RingBufferSizeBytes_def)
qed (simp add: ringPointerDistance_def)

lemma timestamp_delta: "unat (ringTimestampDelta newest older) = unat (newest - older)"
proof (cases "older \<le> newest")
  case True
  then show ?thesis by (simp add: ringTimestampDelta_def unat_ucast_up)
next
  case False
  then have lt: "newest < older" by simp
  have b: "unat newest < 2 ^ 16" "unat older < 2 ^ 16" using unat_word_bound [of newest] unat_word_bound [of older] by simp_all
  have t: "unat (ucast newest :: u32) = unat newest" "unat (ucast older :: u32) = unat older"
    by (simp_all add: unat_ucast_up)
  have s: "unat ((ucast newest :: u32) + push_bit 16 1) = unat newest + 2 ^ 16"
    using unat_add_lem [of "ucast newest :: u32" "push_bit 16 1"] t b by simp
  have "(ucast older :: u32) \<le> ucast newest + push_bit 16 1" unfolding word_le_nat_alt s t using b by simp
  then have "unat ((ucast newest :: u32) + push_bit 16 1 - ucast older) = unat newest + 2 ^ 16 - unat older"
    using unat_sub [of "ucast older :: u32" "ucast newest + push_bit 16 1"] s t by simp
  moreover have "unat (newest - older) = unat newest + 2 ^ 16 - unat older"
    using lt by (simp add: unat_sub_if_size word_less_nat_alt word_size)
  ultimately show ?thesis using False by (simp add: ringTimestampDelta_def)
qed

section \<open>The breaker\<close>

definition ring_inv :: "RingReader \<Rightarrow> bool" where
  "ring_inv r \<longleftrightarrow>
     (if rg_disabled r then disabledReason r \<noteq> None \<and> quit_closed r
      else consecutiveFailures r < 3 \<and> consecutiveResets r < 4 \<and> resetWindowResets r < 8)"

lemmas ring_limits = ringReaderConsecutiveFailureLimit_def ringReaderConsecutiveResetLimit_def
  ringReaderResetWindowLimit_def

lemma ring_inv_disable: "rg_disabled r \<longrightarrow> ring_inv r \<Longrightarrow> ring_inv (ring_disable reason r)"
  by (auto simp: ring_inv_def ring_disable_def ring_Stop_def)

lemma ring_inv_noteFailure: "ring_inv r \<Longrightarrow> ring_inv (noteFailure op err r)"
  by (auto simp: noteFailure_def Let_def ring_limits ring_inv_def ring_disable_def ring_Stop_def)

lemma ring_inv_noteHealthy: "ring_inv r \<Longrightarrow> ring_inv (noteHealthy r)"
  by (simp add: ring_inv_def noteHealthy_def split: if_splits)

lemma ring_inv_cursor_reset: "ring_inv r \<Longrightarrow> ring_inv (cursor_reset now ptr r)"
  by (auto simp: cursor_reset_def noteCursorReset_def Let_def ring_limits ring_inv_def ring_disable_def
      ring_Stop_def split: prod.splits if_splits)

lemma ring_inv_update [simp]:
  "ring_inv (r\<lparr>lastPointer := p\<rparr>) = ring_inv r" "ring_inv (r\<lparr>rg_tail := t\<rparr>) = ring_inv r"
  by (simp_all add: ring_inv_def)

lemma ring_inv_consume: "ring_inv r \<Longrightarrow> ring_inv (fst (consume_chunk now q data r))"
  by (auto simp: consume_chunk_def Let_def ring_inv_noteFailure ring_inv_noteHealthy split: prod.splits option.splits)

lemma ring_inv_fetch_loop: "ring_inv r \<Longrightarrow> ring_inv (fst (fetch_loop env ptr n rem r))"
proof (induction n arbitrary: rem r)
  case (Suc n)
  have c: "ring_inv r1" if "consume_chunk t q d r = (r1, ss, b)" for t q d r1 ss b
    using ring_inv_consume [OF Suc.prems, of t q d] that by simp
  have h: "ring_inv r3" if "fetch_loop env ptr n rem2 (r1\<lparr>lastPointer := p\<rparr>) = (r3, qs, ss)" "ring_inv r1"
    for r3 rem2 r1 p qs ss
    using Suc.IH [of "r1\<lparr>lastPointer := p\<rparr>" rem2] that by simp
  show ?case
    using Suc.prems
    by (auto simp: Let_def ring_inv_noteFailure ring_inv_noteHealthy ring_inv_cursor_reset
        split: sum.splits prod.splits bool.splits dest: c h)
qed simp

lemma ring_inv_fetch: "ring_inv r \<Longrightarrow> ring_inv (fst (ring_fetch env r))"
  by (auto simp: ring_fetch_def ring_inv_fetch_loop ring_inv_noteFailure ring_inv_noteHealthy
      ring_inv_cursor_reset split: sum.splits prod.splits bool.splits intro!: ring_inv_disable)

inductive ring_reachable :: "RingReader \<Rightarrow> bool" where
  New: "ring_reachable (newRingReader timeout config hasSamples)"
| Start: "ring_reachable r \<Longrightarrow> ring_reachable (fst (ring_Start env r))"
| Fetch: "ring_reachable r \<Longrightarrow> ring_reachable (fst (ring_fetch env r))"
| Stop: "ring_reachable r \<Longrightarrow> ring_reachable (ring_Stop r)"

lemma ring_inv_Start: "ring_inv r \<Longrightarrow> ring_inv (fst (ring_Start env r))"
  by (auto simp: ring_Start_def ring_inv_def split: option.splits sum.splits)

lemma ring_reachable_inv: "ring_reachable r \<Longrightarrow> ring_inv r"
proof (induction rule: ring_reachable.induct)
  case (New timeout config hasSamples)
  show ?case by (simp add: ring_inv_def newRingReader_def)
next
  case (Stop r)
  then show ?case by (simp add: ring_inv_def ring_Stop_def split: if_splits)
qed (simp_all add: ring_inv_Start ring_inv_fetch)

text \<open>
  A fetch of a reader at the pointer \<open>p\<close> that fails before it has decoded anything, and what it leaves:
  the reader where it was, and disabled or with one failure more.
\<close>

definition fetch_fails :: "fetch_env \<Rightarrow> u32 \<Rightarrow> bool" where
  "fetch_fails env p \<longleftrightarrow> \<not> fe_clientNil env \<and>
     (case fe_pointer env of
        Inl e \<Rightarrow> True
      | Inr ptr \<Rightarrow> ptr \<noteq> p \<and> unat (ptr - p) \<le> 4096 \<and> (\<exists>e. fe_chunk env 0 = Inl e))"

definition failed_once :: "RingReader \<Rightarrow> RingReader \<Rightarrow> bool" where
  "failed_once r r' \<longleftrightarrow> lastPointer r' = lastPointer r \<and>
     (rg_disabled r \<longrightarrow> rg_disabled r') \<and>
     (\<not> rg_disabled r \<longrightarrow>
        consecutiveFailures r' = Suc (consecutiveFailures r) \<and> (2 \<le> consecutiveFailures r \<longrightarrow> rg_disabled r'))"

lemma failed_noteFailure: "failed_once r (noteFailure op e r)"
  by (auto simp: failed_once_def noteFailure_def Let_def ring_limits ring_disable_def ring_Stop_def)

lemma failing_fetch: 
  assumes "fetch_fails env (lastPointer r)"
  shows "failed_once r (fst (ring_fetch env r))"
proof (cases "rg_disabled r")
  case True
  then show ?thesis by (simp add: failed_once_def ring_fetch_def)
next
  case False
  show ?thesis
  proof (cases "fe_pointer env")
    case (Inl e)
    then show ?thesis using False assms failed_noteFailure by (simp add: ring_fetch_def fetch_fails_def)
  next
    case (Inr ptr)
    then obtain e where p: "ptr \<noteq> lastPointer r" "unat (ptr - lastPointer r) \<le> 4096" "fe_chunk env 0 = Inl e"
      using assms by (auto simp: fetch_fails_def)
    have d: "ringPointerDistance (lastPointer r) ptr = (ptr - lastPointer r, True)" "ptr - lastPointer r \<noteq> 0"
      using p by (simp_all add: ringPointerDistance_cases)
    obtain n where n: "ringReaderMaxChunksFetch = Suc n" by (simp add: ringReaderMaxChunksFetch_def)
    have "ring_fetch env r = fetch_loop env ptr ringReaderMaxChunksFetch (ptr - lastPointer r) r"
      using False Inr p d assms by (simp add: ring_fetch_def fetch_fails_def RingBufferSizeBytes_def)
    moreover have "fst (fetch_loop env ptr ringReaderMaxChunksFetch (ptr - lastPointer r) r) = noteFailure ''chunk read'' e r"
      using p(3) d(2) by (simp add: n Let_def)
    ultimately have "fst (ring_fetch env r) = noteFailure ''chunk read'' e r" by simp
    then show ?thesis using failed_noteFailure by simp
  qed
qed

section \<open>Requests\<close>

definition added :: "fetch_env \<Rightarrow> nat \<Rightarrow> u32" where
  "added env i = (case fe_chunk env i of Inr resp \<Rightarrow> ucast (rr_BytesAdded resp) | Inl _ \<Rightarrow> 0)"

lemma consume_pointer: "consume_chunk now q data r = (r1, ss, b) \<Longrightarrow> lastPointer r1 = lastPointer r"
  by (auto simp: consume_chunk_def noteFailure_def noteHealthy_def ring_disable_def ring_Stop_def Let_def
      split: prod.splits option.splits if_splits)

lemma request_size:
  assumes "remaining \<noteq> (0 :: u32)"
  shows "(if remaining < 279 then ucast remaining else 279 :: u16) \<in> {1..279}"
proof (cases "remaining < 279")
  case True
  have "unat (ucast remaining :: u16) = unat remaining"
    using True by (simp add: unsigned_ucast_eq word_less_nat_alt take_bit_nat_eq_self)
  moreover have "0 < unat remaining" using assms by (simp add: unat_gt_0)
  ultimately show ?thesis using True by (simp add: word_le_nat_alt word_less_nat_alt)
qed simp

lemma fetch_loop_requests:
  assumes "fetch_loop env ptr n remaining r = (r', reqs, ss)" and "n \<le> ringReaderMaxChunksFetch"
  shows "length reqs \<le> n \<and> (\<forall>i < length reqs. snd (reqs ! i) \<in> {1..279} \<and>
     fst (reqs ! i) = lastPointer r + (\<Sum>j < i. added env (ringReaderMaxChunksFetch - n + j)))"
  using assms
proof (induction n arbitrary: remaining r r' reqs ss)
  case (Suc n)
  let ?k = "ringReaderMaxChunksFetch - Suc n"
  let ?m = "if remaining < 279 then ucast remaining else 279 :: u16"
  show ?case
  proof (cases "length reqs \<le> 1")
    case True
    have "reqs = [] \<or> reqs = [(lastPointer r, ?m)] \<and> remaining \<noteq> 0"
      using Suc.prems(1) True
      by (auto simp: Let_def split: if_splits sum.splits prod.splits bool.splits)
    then show ?thesis using request_size [of remaining] by auto
  next
    case False
    then obtain resp r1 s1 qs ss1 where st: "remaining \<noteq> 0" "fe_chunk env ?k = Inr resp"
        "consume_chunk (fe_now env ?k) (fe_quit env ?k) (rr_Data resp) r = (r1, s1, False)"
        "fetch_loop env ptr n (next_remaining (lastPointer r1 + ucast (rr_BytesAdded resp)) ptr (rr_Status resp))
           (r1\<lparr>lastPointer := lastPointer r1 + ucast (rr_BytesAdded resp)\<rparr>) = (r', qs, ss1)"
        "reqs = (lastPointer r, ?m) # qs"
      using Suc.prems(1)
      by (auto simp: Let_def split: if_splits sum.splits prod.splits bool.splits)
    have lp: "lastPointer r1 = lastPointer r" using st(3) by (rule consume_pointer)
    have k: "ringReaderMaxChunksFetch - n = Suc ?k" using Suc.prems(2) by simp
    have IH: "length qs \<le> n" "\<And>i. i < length qs \<Longrightarrow> snd (qs ! i) \<in> {1..279} \<and>
        fst (qs ! i) = lastPointer r + added env ?k + (\<Sum>j < i. added env (Suc ?k + j))"
      using Suc.IH [OF st(4)] Suc.prems(2) lp st(2) by (simp_all add: k added_def)
    show ?thesis
    proof (intro conjI allI impI)
      show "length reqs \<le> Suc n" using IH(1) st(5) by simp
      fix i assume i: "i < length reqs"
      show "snd (reqs ! i) \<in> {1..279}"
        using i IH(2) [of "i - 1"] request_size [OF st(1)] by (cases i) (auto simp: st(5))
      show "fst (reqs ! i) = lastPointer r + (\<Sum>j < i. added env (?k + j))"
        using i IH(2) [of "i - 1"] by (cases i) (auto simp: st(5) sum.lessThan_Suc_shift simp del: sum.lessThan_Suc)
    qed
  qed
qed simp

lemma ring_fetch_loop_cases:
  assumes "ring_fetch env r = (r', reqs, ss)"
  shows "reqs = [] \<or> (\<exists>ptr rem. fetch_loop env ptr ringReaderMaxChunksFetch rem r = (r', reqs, ss))"
  using assms by (auto simp: ring_fetch_def split: if_splits sum.splits prod.splits bool.splits)

section \<open>Stamps\<close>

lemma stamp_eq:
  assumes "filter (\<lambda>f. rf_Samples f \<noteq> []) frames = fs" and "fs \<noteq> []"
  shows "stampRingFrameSamples frames obs =
    concat (map (\<lambda>f. map (\<lambda>s. s\<lparr>rs_At := obs - int (unat (rf_Timestamp10us (last fs) - rf_Timestamp10us f)) * 10000\<rparr>)
      (rf_Samples f)) fs)"
proof -
  have "uint (ringTimestampDelta a b) = int (unat (a - b))" for a b
    by (metis timestamp_delta uint_nat)
  then show ?thesis using assms
    by (cases fs) (simp_all add: stampRingFrameSamples_def Let_def ringTimestampStep_def)
qed

section \<open>Properties\<close>

text \<open>
  Ring pointers are compared modulo \<open>2^32\<close>: when \<open>ringPointerDistance\<close> succeeds, its result
  added to the reader's pointer gives the producer's pointer, also across the wrap of the 32-bit
  counter; it refuses exactly when the producer is numerically behind and the wrapped distance
  exceeds the device's 4096-byte ring, and ring timestamps are subtracted modulo \<open>2^16\<close>.
\<close>

theorem ring_pointer_arithmetic:
  "(case ringPointerDistance from_p to_p of
      (d, True) \<Rightarrow> from_p + d = to_p
    | (d, False) \<Rightarrow> to_p < from_p \<and> 4096 < unat (to_p - from_p)) \<and>
   (ringPointerDistance from_p (from_p + d) = (d, True) \<or> 4096 < unat d) \<and>
   unat (ringTimestampDelta newest older) = (unat newest + 65536 - unat older) mod 65536"
proof -
  have "(ringPointerDistance from_p (from_p + d) = (d, True) \<or> 4096 < unat d)"
    by (auto simp: ringPointerDistance_cases)
  moreover have "unat (newest - older) = (unat newest + 65536 - unat older) mod 65536"
    using unat_word_bound [of newest] unat_word_bound [of older]
    by (auto simp: unat_sub_if_size word_size word_less_nat_alt word_le_nat_alt not_le mod_if)
  ultimately show ?thesis
    by (simp add: ringPointerDistance_cases timestamp_delta not_le)
qed

text \<open>
  C25.  The breaker holds: in every state a reader can reach, an enabled reader has had fewer than
  three failures in a row, fewer than four cursor resets in a row and fewer than eight within the
  window; a disabled one has recorded its reason, has stopped, and its fetches do nothing; and
  three fetches in a row that fail without decoding anything (the pointer request fails, or the
  pointer has moved within the ring and the first chunk request fails) leave the reader disabled,
  whatever their errors are.
\<close>

theorem ring_breaker:
  assumes "ring_reachable r"
  shows "(if rg_disabled r
          then disabledReason r \<noteq> None \<and> quit_closed r \<and> ring_fetch env r = (r, [], [])
          else consecutiveFailures r < 3 \<and> consecutiveResets r < 4 \<and> resetWindowResets r < 8) \<and>
         (fetch_fails env1 (lastPointer r) \<and> fetch_fails env2 (lastPointer r) \<and> fetch_fails env3 (lastPointer r) \<longrightarrow>
          rg_disabled (fst (ring_fetch env3 (fst (ring_fetch env2 (fst (ring_fetch env1 r)))))))"
proof -
  have "rg_disabled (fst (ring_fetch env3 (fst (ring_fetch env2 (fst (ring_fetch env1 r))))))"
    if f: "fetch_fails env1 (lastPointer r)" "fetch_fails env2 (lastPointer r)" "fetch_fails env3 (lastPointer r)"
  proof -
    let ?r1 = "fst (ring_fetch env1 r)" and ?r2 = "fst (ring_fetch env2 (fst (ring_fetch env1 r)))"
    have 1: "failed_once r ?r1" using failing_fetch [OF f(1)] by simp
    have 2: "failed_once ?r1 ?r2" using failing_fetch [of env2 ?r1] f(2) 1 by (simp add: failed_once_def)
    have "failed_once ?r2 (fst (ring_fetch env3 ?r2))"
      using failing_fetch [of env3 ?r2] f(3) 1 2 by (simp add: failed_once_def)
    with 1 2 show ?thesis unfolding failed_once_def by linarith
  qed
  then show ?thesis
    using ring_reachable_inv [OF assms] by (auto simp: ring_inv_def ring_fetch_def split: if_splits)
qed

definition demo_fetch :: fetch_env where
  "demo_fetch = \<lparr>fe_clientNil = False, fe_pointer = Inl ErrTimeout, fe_resetNow = 0,
     fe_chunk = (\<lambda>i. Inl ErrTimeout), fe_now = (\<lambda>i. 0), fe_quit = (\<lambda>i. None)\<rparr>"

definition demo_chunk_failure :: fetch_env where
  "demo_chunk_failure = demo_fetch\<lparr>fe_pointer := Inr 100\<rparr>"

theorem ring_breaker_witness:
  "rg_disabled (fst (ring_fetch demo_fetch (fst (ring_fetch demo_chunk_failure
     (fst (ring_fetch demo_fetch (newRingReader 0 [] True)))))))"
proof -
  have "fetch_fails demo_fetch 0" "fetch_fails demo_chunk_failure 0"
    by (simp_all add: fetch_fails_def demo_fetch_def demo_chunk_failure_def)
  then show ?thesis
    using ring_breaker [OF ring_reachable.New, of 0 "[]" True demo_fetch demo_fetch demo_chunk_failure demo_fetch]
    by (simp add: newRingReader_def)
qed

text \<open>
  C26.  A fetch reads the ring without gap or overlap: it makes at most 16 chunk requests, each for
  1 to 279 bytes, and each one starts where the reader's pointer stood plus the bytes that the
  preceding chunks added, modulo \<open>2^32\<close>.
\<close>

theorem fetch_requests_contiguous:
  assumes "ring_fetch env r = (r', reqs, ss)"
  shows "length reqs \<le> 16 \<and> (\<forall>i < length reqs. snd (reqs ! i) \<in> {1..279} \<and>
     fst (reqs ! i) = lastPointer r + (\<Sum>j < i. added env j))"
  using ring_fetch_loop_cases [OF assms]
  by (auto dest!: fetch_loop_requests simp: ringReaderMaxChunksFetch_def)

definition demo_chunks :: fetch_env where
  "demo_chunks = \<lparr>fe_clientNil = False, fe_pointer = Inr 500, fe_resetNow = 0,
     fe_chunk = (\<lambda>i. Inr \<lparr>rr_BytesAdded = (if i = 0 then 279 else 221), rr_Status = (if i = 0 then 1 else 0), rr_Data = []\<rparr>),
     fe_now = (\<lambda>i. 0), fe_quit = (\<lambda>i. None)\<rparr>"

theorem fetch_requests_contiguous_witness:
  "length (fst (snd (ring_fetch demo_chunks (newRingReader 0 [] True)))) \<le> 16 \<and>
   fst (snd (ring_fetch demo_chunks (newRingReader 0 [] True))) = [(0, 279), (279, 221)]"
proof -
  have "fst (snd (ring_fetch demo_chunks (newRingReader 0 [] True))) = [(0, 279), (279, 221)]"
    by code_simp
  moreover obtain r' reqs ss where "ring_fetch demo_chunks (newRingReader 0 [] True) = (r', reqs, ss)"
    by (metis prod.exhaust)
  moreover from fetch_requests_contiguous [OF this] have "length reqs \<le> 16" by blast
  ultimately show ?thesis by simp
qed

text \<open>
  Stamps are consistent: \<open>stampRingFrameSamples\<close> returns every decoded sample once and in
  order, changing only its time; the samples of the newest frame get the time of observation, and
  every other sample an earlier one by its frame's distance to the newest in 10 us steps, at most
  65535 of them.
\<close>

theorem stamps_consistent:
  "map (\<lambda>s. s\<lparr>rs_At := t\<rparr>) (stampRingFrameSamples frames obs) =
     map (\<lambda>s. s\<lparr>rs_At := t\<rparr>) (concat (map rf_Samples frames)) \<and>
   (stampRingFrameSamples frames obs = [] \<or> rs_At (last (stampRingFrameSamples frames obs)) = obs) \<and>
   list_all (\<lambda>s. obs - 655350000 \<le> rs_At s \<and> rs_At s \<le> obs) (stampRingFrameSamples frames obs)"
proof (cases "filter (\<lambda>f. rf_Samples f \<noteq> []) frames = []")
  case True
  then have "concat (map rf_Samples frames) = []" by (auto simp: filter_empty_conv)
  then show ?thesis using True by (simp add: stampRingFrameSamples_def)
next
  case False
  let ?fs = "filter (\<lambda>f. rf_Samples f \<noteq> []) frames"
  note eq = stamp_eq [OF refl False, of obs]
  have cc: "concat (map rf_Samples ?fs) = concat (map rf_Samples frames)"
    by (induction frames) auto
  have "map (\<lambda>s. s\<lparr>rs_At := t\<rparr>) (stampRingFrameSamples frames obs) =
      map (\<lambda>s. s\<lparr>rs_At := t\<rparr>) (concat (map rf_Samples ?fs))"
    unfolding eq by (simp add: map_concat comp_def)
  moreover have "rs_At (last (stampRingFrameSamples frames obs)) = obs"
  proof -
    obtain gs g where fs: "?fs = gs @ [g]" using False by (metis rev_exhaust)
    have "g \<in> set ?fs" unfolding fs by simp
    then have "rf_Samples g \<noteq> []" by simp
    then show ?thesis unfolding eq fs by (simp add: last_map)
  qed
  moreover have "list_all (\<lambda>s. obs - 655350000 \<le> rs_At s \<and> rs_At s \<le> obs) (stampRingFrameSamples frames obs)"
  proof -
    have "uint (x :: u16) \<le> 65535" for x
    proof -
      have "unat x < 65536" using unat_word_bound [of x] by simp
      then have "int (unat x) \<le> 65535" by linarith
      then show ?thesis by (simp only: uint_nat)
    qed
    then show ?thesis unfolding eq list_all_iff by auto
  qed
  ultimately show ?thesis using cc by simp
qed

end
