(* ===== verification/CanRingMerge.thy ===== *)
theory CanRingMerge
  imports CanopenFrame "HOL-Library.Product_Lexorder" "HOL-Library.List_Lexorder"
    "HOL-Library.Multiset"
begin

text \<open>
  The capture records of \<open>canring/ring.go\<close> and \<open>MergeRecords\<close>, which combines a primary and a
  fallback ring.  For sorted inputs the code uses a merge that keeps only the last \<open>limit\<close> records
  in a circular buffer (\<open>mergeRecordsTail\<close>), otherwise it de-duplicates, sorts and cuts
  (\<open>mergeRecordsFull\<close>); the two are shown equal.  \<open>sort.SliceStable\<close> is the stable \<open>sort_key\<close>, a
  Go set is a HOL set, a \<open>time.Time\<close> its nanoseconds since the epoch.
\<close>

section \<open>Records\<close>

record CanRecord =
  rec_Seq :: u64
  rec_Time :: gotime
  rec_ElapsedNanos :: u64
  rec_ID :: u32
  rec_DLC :: byte
  rec_Data :: "byte list"
  rec_Interface :: string
  rec_Chunk :: u64

type_synonym recordKey = "u64 \<times> u32 \<times> byte \<times> byte list \<times> string"

definition newRecordKey :: "CanRecord \<Rightarrow> recordKey" where
  "newRecordKey r = (word_of_int (rec_Time r), rec_ID r, rec_DLC r, rec_Data r, rec_Interface r)"

definition recordBefore :: "CanRecord \<Rightarrow> CanRecord \<Rightarrow> bool" where
  "recordBefore a b =
     (if rec_Time a \<noteq> rec_Time b then rec_Time a < rec_Time b
      else if rec_Seq a \<noteq> rec_Seq b then rec_Seq a < rec_Seq b
      else if rec_ID a \<noteq> rec_ID b then rec_ID a < rec_ID b
      else rec_Interface a < rec_Interface b)"

fun recordsSorted :: "CanRecord list \<Rightarrow> bool" where
  "recordsSorted (a # b # rs) = (\<not> recordBefore b a \<and> recordsSorted (b # rs))"
| "recordsSorted rs = True"

section \<open>Merging\<close>

text \<open>The two de-duplicating loops; \<open>seen\<close> is the set of keys.\<close>

fun keep_new :: "recordKey set \<Rightarrow> CanRecord list \<Rightarrow> CanRecord list" where
  "keep_new seen [] = []"
| "keep_new seen (r # rs) =
     (if newRecordKey r \<in> seen then keep_new seen rs
      else r # keep_new (insert (newRecordKey r) seen) rs)"

definition order_key :: "CanRecord \<Rightarrow> gotime \<times> u64 \<times> u32 \<times> string" where
  "order_key r = (rec_Time r, rec_Seq r, rec_ID r, rec_Interface r)"

definition last_n :: "int \<Rightarrow> 'a list \<Rightarrow> 'a list" where
  "last_n limit xs = (if 0 < limit \<and> limit < int (length xs) then drop (length xs - nat limit) xs else xs)"

definition mergeRecordsFull :: "CanRecord list \<Rightarrow> CanRecord list \<Rightarrow> int \<Rightarrow> CanRecord list" where
  "mergeRecordsFull primary fallback limit =
     last_n limit (sort_key order_key (keep_new {} (primary @ fallback)))"

text \<open>
  The circular buffer of \<open>mergeRecordsTail\<close>: the array, \<open>start\<close> and \<open>count\<close>; \<open>buf_push\<close> is the
  tail end of \<open>push\<close>, \<open>buf_read\<close> the final loop.
\<close>

record 'a circ =
  cb_tail :: "'a list"
  cb_start :: nat
  cb_count :: nat

definition buf_push :: "nat \<Rightarrow> 'a \<Rightarrow> 'a circ \<Rightarrow> 'a circ" where
  "buf_push limit x b =
     (if cb_count b < limit
      then b\<lparr>cb_tail := (cb_tail b)[(cb_start b + cb_count b) mod limit := x], cb_count := cb_count b + 1\<rparr>
      else b\<lparr>cb_tail := (cb_tail b)[cb_start b := x], cb_start := (cb_start b + 1) mod limit\<rparr>)"

definition buf_read :: "nat \<Rightarrow> 'a circ \<Rightarrow> 'a list" where
  "buf_read limit b = map (\<lambda>i. cb_tail b ! ((cb_start b + i) mod limit)) [0 ..< cb_count b]"

text \<open>The main loop with \<open>push\<close>: \<open>sp\<close> and \<open>sf\<close> are \<open>seenPrimary\<close> and \<open>seenFallback\<close>.\<close>

fun merge_loop ::
    "nat \<Rightarrow> recordKey set \<Rightarrow> recordKey set \<Rightarrow> recordKey set \<Rightarrow> CanRecord list \<Rightarrow> CanRecord list \<Rightarrow>
     CanRecord circ \<Rightarrow> CanRecord circ" where
  "merge_loop limit pk sp sf [] [] b = b"
| "merge_loop limit pk sp sf (p # ps) [] b =
     (if newRecordKey p \<in> sp then merge_loop limit pk sp sf ps [] b
      else merge_loop limit pk (insert (newRecordKey p) sp) sf ps [] (buf_push limit p b))"
| "merge_loop limit pk sp sf [] (f # fs) b =
     (if newRecordKey f \<in> pk \<or> newRecordKey f \<in> sf then merge_loop limit pk sp sf [] fs b
      else merge_loop limit pk sp (insert (newRecordKey f) sf) [] fs (buf_push limit f b))"
| "merge_loop limit pk sp sf (p # ps) (f # fs) b =
     (if \<not> recordBefore p f \<and> recordBefore f p
      then (if newRecordKey f \<in> pk \<or> newRecordKey f \<in> sf then merge_loop limit pk sp sf (p # ps) fs b
            else merge_loop limit pk sp (insert (newRecordKey f) sf) (p # ps) fs (buf_push limit f b))
      else (if newRecordKey p \<in> sp then merge_loop limit pk sp sf ps (f # fs) b
            else merge_loop limit pk (insert (newRecordKey p) sp) sf ps (f # fs) (buf_push limit p b)))"

definition zero_record :: CanRecord where
  "zero_record = \<lparr>rec_Seq = 0, rec_Time = zero_time, rec_ElapsedNanos = 0, rec_ID = 0, rec_DLC = 0,
     rec_Data = pad8 [], rec_Interface = [], rec_Chunk = 0\<rparr>"

definition mergeRecordsTail :: "CanRecord list \<Rightarrow> CanRecord list \<Rightarrow> int \<Rightarrow> CanRecord list" where
  "mergeRecordsTail primary fallback limit =
     buf_read (nat limit)
       (merge_loop (nat limit) (newRecordKey ` set primary) {} {} primary fallback
          \<lparr>cb_tail = replicate (nat limit) zero_record, cb_start = 0, cb_count = 0\<rparr>)"

definition MergeRecords :: "CanRecord list \<Rightarrow> CanRecord list \<Rightarrow> int \<Rightarrow> CanRecord list" where
  "MergeRecords primary fallback limit =
     (if 0 < limit \<and> recordsSorted primary \<and> recordsSorted fallback
      then mergeRecordsTail primary fallback limit
      else mergeRecordsFull primary fallback limit)"

section \<open>The circular buffer keeps the last records\<close>

definition circ_ok :: "nat \<Rightarrow> 'a circ \<Rightarrow> bool" where
  "circ_ok limit b \<longleftrightarrow> length (cb_tail b) = limit \<and> cb_start b < limit \<and> cb_count b \<le> limit \<and>
     (cb_count b < limit \<longrightarrow> cb_start b = 0)"

lemma buf_push_ok: "circ_ok limit b \<Longrightarrow> circ_ok limit (buf_push limit x b)"
  by (auto simp: circ_ok_def buf_push_def)

lemma last_n_nat: "last_n (int n) xs = (if 0 < n \<and> n < length xs then drop (length xs - n) xs else xs)"
  by (simp add: last_n_def)

lemma buf_push_read:
  assumes "circ_ok limit b"
  shows "buf_read limit (buf_push limit x b) = last_n (int limit) (buf_read limit b @ [x])"
proof (cases "cb_count b < limit")
  case True
  then have s: "cb_start b = 0" and len: "length (cb_tail b) = limit" and pos: "0 < limit"
    using assms by (auto simp: circ_ok_def)
  have "map (\<lambda>i. (cb_tail b)[cb_count b := x] ! (i mod limit)) [0 ..< cb_count b] =
      map (\<lambda>i. cb_tail b ! (i mod limit)) [0 ..< cb_count b]"
    using True by (intro map_cong) auto
  then show ?thesis
    using True s len by (simp add: buf_read_def buf_push_def last_n_nat)
next
  case False
  then have c: "cb_count b = limit" and len: "length (cb_tail b) = limit" and st: "cb_start b < limit"
    using assms by (auto simp: circ_ok_def)
  let ?s = "cb_start b"
  have "map (\<lambda>i. (cb_tail b)[?s := x] ! (((?s + 1) mod limit + i) mod limit)) [0 ..< limit] =
      tl (map (\<lambda>i. cb_tail b ! ((?s + i) mod limit)) [0 ..< limit]) @ [x]"
  proof (rule nth_equalityI)
    show "length (map (\<lambda>i. (cb_tail b)[?s := x] ! (((?s + 1) mod limit + i) mod limit)) [0 ..< limit]) =
        length (tl (map (\<lambda>i. cb_tail b ! ((?s + i) mod limit)) [0 ..< limit]) @ [x])"
      using st by simp
  next
    fix i assume "i < length (map (\<lambda>i. (cb_tail b)[?s := x] ! (((?s + 1) mod limit + i) mod limit)) [0 ..< limit])"
    then have i: "i < limit" by simp
    have m: "((?s + 1) mod limit + i) mod limit = (?s + Suc i) mod limit" by (simp add: mod_add_left_eq)
    show "map (\<lambda>i. (cb_tail b)[?s := x] ! (((?s + 1) mod limit + i) mod limit)) [0 ..< limit] ! i =
        (tl (map (\<lambda>i. cb_tail b ! ((?s + i) mod limit)) [0 ..< limit]) @ [x]) ! i"
    proof (cases "Suc i = limit")
      case True
      then have "(?s + Suc i) mod limit = ?s" using st by simp
      then show ?thesis using i True st len m by (auto simp: nth_append nth_tl)
    next
      case False
      then have lt: "Suc i < limit" using i by simp
      have "(?s + Suc i) mod limit \<noteq> ?s"
      proof
        assume "(?s + Suc i) mod limit = ?s"
        then have "(?s + Suc i) mod limit = ?s mod limit" using st by simp
        then have "limit dvd Suc i" using mod_eq_dvd_iff_nat [of ?s "?s + Suc i" limit] by simp
        then show False using lt by (auto dest: dvd_imp_le)
      qed
      then show ?thesis using i lt len m by (auto simp: nth_append nth_tl)
    qed
  qed
  then show ?thesis
    using False c st by (simp add: buf_read_def buf_push_def last_n_nat drop_Suc)
qed

lemma last_n_snoc: "last_n (int n) (last_n (int n) xs @ ys) = last_n (int n) (xs @ ys)"
  by (auto simp: last_n_nat add.commute)

section \<open>Merging sorted lists\<close>

text \<open>The records that the loop pushes, in order.\<close>

fun merge_out ::
    "recordKey set \<Rightarrow> recordKey set \<Rightarrow> recordKey set \<Rightarrow> CanRecord list \<Rightarrow> CanRecord list \<Rightarrow> CanRecord list" where
  "merge_out pk sp sf [] [] = []"
| "merge_out pk sp sf (p # ps) [] =
     (if newRecordKey p \<in> sp then merge_out pk sp sf ps []
      else p # merge_out pk (insert (newRecordKey p) sp) sf ps [])"
| "merge_out pk sp sf [] (f # fs) =
     (if newRecordKey f \<in> pk \<or> newRecordKey f \<in> sf then merge_out pk sp sf [] fs
      else f # merge_out pk sp (insert (newRecordKey f) sf) [] fs)"
| "merge_out pk sp sf (p # ps) (f # fs) =
     (if \<not> recordBefore p f \<and> recordBefore f p
      then (if newRecordKey f \<in> pk \<or> newRecordKey f \<in> sf then merge_out pk sp sf (p # ps) fs
            else f # merge_out pk sp (insert (newRecordKey f) sf) (p # ps) fs)
      else (if newRecordKey p \<in> sp then merge_out pk sp sf ps (f # fs)
            else p # merge_out pk (insert (newRecordKey p) sp) sf ps (f # fs)))"

lemma merge_loop_out:
  "circ_ok limit b \<Longrightarrow>
   buf_read limit (merge_loop limit pk sp sf ps fs b) = last_n (int limit) (buf_read limit b @ merge_out pk sp sf ps fs)"
proof (induction limit pk sp sf ps fs b rule: merge_loop.induct)
  case (1 limit pk sp sf b)
  then have "length (buf_read limit b) \<le> limit" by (simp add: circ_ok_def buf_read_def)
  then show ?case by (simp add: last_n_nat)
next
  case (2 limit pk sp sf p ps b)
  then show ?case by (simp add: buf_push_ok buf_push_read last_n_snoc)
next
  case (3 limit pk sp sf f fs b)
  then show ?case by (simp add: buf_push_ok buf_push_read last_n_snoc)
next
  case (4 limit pk sp sf p ps f fs b)
  then show ?case by (simp add: buf_push_ok buf_push_read last_n_snoc)
qed

fun mrg :: "('a \<Rightarrow> 'k::linorder) \<Rightarrow> 'a list \<Rightarrow> 'a list \<Rightarrow> 'a list" where
  "mrg k [] ys = ys"
| "mrg k xs [] = xs"
| "mrg k (x # xs) (y # ys) = (if k y < k x then y # mrg k (x # xs) ys else x # mrg k xs (y # ys))"

lemma mrg_Nil2 [simp]: "mrg k xs [] = xs"
  by (cases xs) simp_all

lemma mset_mrg: "mset (mrg k xs ys) = mset xs + mset ys"
  by (induction k xs ys rule: mrg.induct) simp_all

lemma set_mrg: "set (mrg k xs ys) = set xs \<union> set ys"
  by (metis mset_mrg set_mset_mset set_mset_union)

lemma sorted_mrg: "sorted (map k xs) \<Longrightarrow> sorted (map k ys) \<Longrightarrow> sorted (map k (mrg k xs ys))"
  by (induction k xs ys rule: mrg.induct) (auto simp: set_mrg not_less intro: order.trans less_imp_le dest: less_le_trans)

lemma filter_mrg:
  "sorted (map k xs) \<Longrightarrow>
   filter (\<lambda>x. c = k x) (mrg k xs ys) = filter (\<lambda>x. c = k x) xs @ filter (\<lambda>x. c = k x) ys"
proof (induction k xs ys rule: mrg.induct)
  case (3 k x xs y ys)
  show ?case
  proof (cases "k y < k x")
    case True
    then have "filter (\<lambda>x. k y = k x) (x # xs) = []" using 3(3) by (auto simp: filter_empty_conv)
    with True 3 show ?thesis by auto
  qed (use 3 in auto)
qed simp_all

lemma sort_key_merge:
  assumes "sorted (map k xs)" and "sorted (map k ys)"
  shows "sort_key k (xs @ ys) = mrg k xs ys"
  using assms by (intro properties_for_sort_key) (simp_all add: mset_mrg filter_mrg sorted_mrg)

lemma recordBefore_iff: "recordBefore a b \<longleftrightarrow> order_key a < order_key b"
  by (auto simp: recordBefore_def order_key_def less_prod_def')

lemma recordsSorted_iff: "recordsSorted rs \<longleftrightarrow> sorted (map order_key rs)"
  by (induction rs rule: recordsSorted.induct) (auto simp: recordBefore_iff not_less intro: order_trans)

lemma keep_new_append: "keep_new seen (xs @ ys) = keep_new seen xs @ keep_new (seen \<union> newRecordKey ` set xs) ys"
  by (induction seen xs rule: keep_new.induct) (auto simp: insert_absorb)

lemma set_keep_new: "set (keep_new seen xs) \<subseteq> set xs"
  by (induction seen xs rule: keep_new.induct) auto

lemma sorted_keep_new: "sorted (map order_key xs) \<Longrightarrow> sorted (map order_key (keep_new seen xs))"
  by (induction seen xs rule: keep_new.induct) (use set_keep_new in fastforce)+

lemma mrg_first: "(\<forall>y \<in> set ys. k x \<le> k y) \<Longrightarrow> mrg k (x # xs) ys = x # mrg k xs ys"
  by (cases ys) auto

lemma mrg_second: "(\<forall>x \<in> set xs. k y < k x) \<Longrightarrow> mrg k xs (y # ys) = y # mrg k xs ys"
  by (cases xs) auto

lemma merge_out_mrg:
  "sorted (map order_key ps) \<Longrightarrow> sorted (map order_key fs) \<Longrightarrow>
   merge_out pk sp sf ps fs = mrg order_key (keep_new sp ps) (keep_new (pk \<union> sf) fs)"
proof (induction pk sp sf ps fs rule: merge_out.induct)
  case (4 pk sp sf p ps f fs)
  show ?case
  proof (cases "order_key f < order_key p")
    case True
    have "\<forall>x \<in> set (keep_new sp (p # ps)). order_key f < order_key x"
      using True 4(5) set_keep_new [of sp "p # ps"] by fastforce
    then show ?thesis using True 4 by (auto simp: recordBefore_iff mrg_second)
  next
    case False
    have "\<forall>y \<in> set (keep_new (pk \<union> sf) (f # fs)). order_key p \<le> order_key y"
      using False 4(6) set_keep_new [of "pk \<union> sf" "f # fs"] by fastforce
    then show ?thesis using False 4 by (auto simp: recordBefore_iff mrg_first)
  qed
qed auto

lemma mergeRecordsTail_eq_Full:
  assumes "0 < limit" and "recordsSorted p" and "recordsSorted f"
  shows "mergeRecordsTail p f limit = mergeRecordsFull p f limit"
proof -
  have sp: "sorted (map order_key p)" and sf: "sorted (map order_key f)"
    using assms(2,3) by (simp_all add: recordsSorted_iff)
  let ?k = "newRecordKey ` set p"
  have "circ_ok (nat limit) \<lparr>cb_tail = replicate (nat limit) zero_record, cb_start = 0, cb_count = 0\<rparr>"
    using assms(1) by (simp add: circ_ok_def)
  then have "mergeRecordsTail p f limit = last_n (int (nat limit)) (merge_out ?k {} {} p f)"
    unfolding mergeRecordsTail_def by (subst merge_loop_out) (simp_all add: buf_read_def)
  also have "merge_out ?k {} {} p f = mrg order_key (keep_new {} p) (keep_new ?k f)"
    by (simp add: merge_out_mrg sp sf)
  also have "\<dots> = sort_key order_key (keep_new {} (p @ f))"
    by (simp add: keep_new_append sort_key_merge sorted_keep_new sp sf)
  finally show ?thesis using assms(1) by (simp add: mergeRecordsFull_def)
qed

section \<open>Properties\<close>

text \<open>
  C27.  The optimised merge is exact: for all inputs \<open>MergeRecords\<close> returns what de-duplicating both
  rings (the primary's record wins), sorting stably by time, sequence, identifier and interface and
  keeping the last \<open>limit\<close> records returns; in particular the circular-buffer merge of sorted rings
  loses and reorders nothing.
\<close>

theorem MergeRecords_eq_reference:
  "MergeRecords primary fallback limit =
     last_n limit (sort_key order_key (keep_new {} (primary @ fallback)))"
  using mergeRecordsTail_eq_Full [of limit primary fallback]
  by (simp add: MergeRecords_def mergeRecordsFull_def)

end
