(* ===== verification/CanRing.thy ===== *)
theory CanRing
  imports CanRingMerge Strings
begin

text \<open>
  The fixed-size capture ring of \<open>canring/ring.go\<close> on a byte-list file: the superblock and record
  codecs, \<open>Writer\<close> (\<open>OpenWriter\<close>, \<open>Append\<close>, \<open>flushChunk\<close>, \<open>writeHeader\<close>, \<open>Close\<close>) and \<open>Reader\<close>
  (\<open>readLatestHeader\<close>, \<open>readChunk\<close>, \<open>Snapshot\<close>).  A Go slice that is written in place is a list
  updated with \<open>put_at\<close>.  An I/O call may fail: then the environment names the error and the
  contents the file is left with.  A slice expression or a size of \<open>make\<close> out of range is the value \<open>CRPanic\<close>.
  Counters are 64-bit words; file offsets are natural numbers, since the code bounds the file by an
  \<open>int64\<close>.
\<close>

unbundle bit_operations_syntax

section \<open>Bytes in place\<close>

definition put_at :: "nat \<Rightarrow> 'a list \<Rightarrow> 'a list \<Rightarrow> 'a list" where
  "put_at off xs buf = take off buf @ xs @ drop (off + length xs) buf"

definition get_at :: "nat \<Rightarrow> nat \<Rightarrow> 'a list \<Rightarrow> 'a list" where
  "get_at off n buf = take n (drop off buf)"

lemma length_put_at [simp]: "off + length xs \<le> length buf \<Longrightarrow> length (put_at off xs buf) = length buf"
  by (simp add: put_at_def)

lemma get_put_same: "off \<le> length buf \<Longrightarrow> length xs = n \<Longrightarrow> get_at off n (put_at off xs buf) = xs"
  by (simp add: get_at_def put_at_def)

lemma get_put_before: "o1 + n \<le> off \<Longrightarrow> off \<le> length buf \<Longrightarrow> get_at o1 n (put_at off xs buf) = get_at o1 n buf"
  by (simp add: get_at_def put_at_def drop_take)

lemma get_put_after:
  assumes "off + length xs \<le> o1" and "off + length xs \<le> length buf"
  shows "get_at o1 n (put_at off xs buf) = get_at o1 n buf"
proof -
  have "drop o1 (put_at off xs buf) = drop (o1 - off - length xs) (drop (off + length xs) buf)"
    using assms by (simp add: put_at_def)
  also have "\<dots> = drop o1 buf" using assms by simp
  finally show ?thesis by (simp add: get_at_def)
qed

lemma get_at_sub: "o2 + m \<le> n \<Longrightarrow> get_at o2 m (get_at o1 n buf) = get_at (o1 + o2) m buf"
  by (simp add: get_at_def drop_take add.commute)

section \<open>Checksum\<close>

definition crc32_bit :: "u32 \<Rightarrow> u32" where
  "crc32_bit c = (if bit c 0 then drop_bit 1 c XOR 0xEDB88320 else drop_bit 1 c)"

definition crc32_byte :: "u32 \<Rightarrow> byte \<Rightarrow> u32" where
  "crc32_byte c b = (crc32_bit ^^ 8) (c XOR ucast b)"

definition ChecksumIEEE :: "byte list \<Rightarrow> u32" where
  "ChecksumIEEE bs = NOT (foldl crc32_byte (NOT 0) bs)"

section \<open>Superblocks\<close>

definition superblockSize :: nat where "superblockSize = 4096"
definition superblockCount :: nat where "superblockCount = 2"
definition chunkHeaderSize :: nat where "chunkHeaderSize = 64"
definition recordSize :: nat where "recordSize = 48"
definition minChunkBytes :: nat where "minChunkBytes = 65536"
definition chunkMagic :: u32 where "chunkMagic = 0x4d43524b"
definition ring_version :: u16 where "ring_version = 1"

definition bytes_to_string :: "byte list \<Rightarrow> string" where
  "bytes_to_string bs = map (\<lambda>b. char_of (unat b)) bs"

definition superblockMagic :: "byte list" where
  "superblockMagic = string_bytes ''MECANRNG''"

record header =
  h_Generation :: u64
  h_FileBytes :: u64
  h_ChunkBytes :: u64
  h_ChunkCount :: u64
  h_NextChunk :: u64
  h_TotalChunks :: u64
  h_TotalRecords :: u64
  h_Interface :: string

definition encode_fields :: "header \<Rightarrow> byte list \<Rightarrow> byte list" where
  "encode_fields h =
     put_at 104 (le_put 2 (48 :: u16)) \<circ> put_at 72 (take 32 (string_bytes (h_Interface h))) \<circ>
     put_at 64 (le_put 8 (h_TotalRecords h)) \<circ> put_at 56 (le_put 8 (h_TotalChunks h)) \<circ>
     put_at 48 (le_put 8 (h_NextChunk h)) \<circ> put_at 40 (le_put 8 (h_ChunkCount h)) \<circ>
     put_at 32 (le_put 8 (h_ChunkBytes h)) \<circ> put_at 24 (le_put 8 (h_FileBytes h)) \<circ>
     put_at 16 (le_put 8 (h_Generation h)) \<circ> put_at 10 (le_put 2 (4096 :: u16)) \<circ>
     put_at 8 (le_put 2 ring_version) \<circ> put_at 0 superblockMagic"

definition encodeHeader :: "header \<Rightarrow> byte list" where
  "encodeHeader h =
     (let buf = encode_fields h (replicate superblockSize 0)
      in put_at 12 (le_put 4 (ChecksumIEEE (drop 16 buf))) buf)"

definition trim_right_nul :: "string \<Rightarrow> string" where
  "trim_right_nul s = rev (dropWhile (\<lambda>c. c = CHR 0x00) (rev s))"

definition decodeHeader :: "byte list \<Rightarrow> header option" where
  "decodeHeader buf =
     (if length buf \<noteq> superblockSize \<or> get_at 0 8 buf \<noteq> superblockMagic then None
      else if le_get (get_at 8 2 buf) \<noteq> ring_version \<or> le_get (get_at 10 2 buf) \<noteq> (4096 :: u16) then None
      else if ChecksumIEEE (drop 16 buf) \<noteq> le_get (get_at 12 4 buf) then None
      else if le_get (get_at 104 2 buf) \<noteq> (48 :: u16) then None
      else Some \<lparr>h_Generation = le_get (get_at 16 8 buf), h_FileBytes = le_get (get_at 24 8 buf),
        h_ChunkBytes = le_get (get_at 32 8 buf), h_ChunkCount = le_get (get_at 40 8 buf),
        h_NextChunk = le_get (get_at 48 8 buf), h_TotalChunks = le_get (get_at 56 8 buf),
        h_TotalRecords = le_get (get_at 64 8 buf),
        h_Interface = trim_right_nul (bytes_to_string (get_at 72 32 buf))\<rparr>)"

type_synonym ring_file = "byte list"

text \<open>
  \<open>ReadAt\<close> of \<open>n\<close> bytes into a zeroed buffer: what is there, zeros beyond the end of the file (the
  code accepts \<open>io.EOF\<close> here); \<open>readable i\<close> says whether the i-th slot can be read at all.
\<close>

definition read_slot :: "ring_file \<Rightarrow> nat \<Rightarrow> nat \<Rightarrow> byte list" where
  "read_slot f off n = (let bs = get_at off n f in bs @ replicate (n - length bs) 0)"

definition better :: "header option \<Rightarrow> header option \<Rightarrow> header option" where
  "better best h =
     (case h of
        None \<Rightarrow> best
      | Some x \<Rightarrow> (case best of None \<Rightarrow> Some x | Some b \<Rightarrow> if h_Generation b < h_Generation x then Some x else best))"

definition readLatestHeader :: "(nat \<Rightarrow> bool) \<Rightarrow> ring_file \<Rightarrow> header option" where
  "readLatestHeader readable f =
     fold (\<lambda>i best. if readable i then better best (decodeHeader (read_slot f (i * superblockSize) superblockSize)) else best)
       [0 ..< superblockCount] None"

section \<open>Records\<close>

definition encodeRecord :: "nat \<Rightarrow> u64 \<Rightarrow> gotime \<Rightarrow> int \<Rightarrow> Frame \<Rightarrow> byte list \<Rightarrow> byte list" where
  "encodeRecord off seq ts elapsed f =
     put_at (off + 32) (fr_Data f) \<circ> put_at (off + 28) [fr_DLC f] \<circ> put_at (off + 24) (le_put 4 (fr_ID f)) \<circ>
     put_at (off + 16) (le_put 8 (word_of_int elapsed :: u64)) \<circ>
     put_at (off + 8) (le_put 8 (word_of_int ts :: u64)) \<circ> put_at off (le_put 8 seq)"

definition decodeRecord :: "byte list \<Rightarrow> string \<Rightarrow> u64 \<Rightarrow> CanRecord" where
  "decodeRecord src iface chunk =
     \<lparr>rec_Seq = le_get (get_at 0 8 src), rec_Time = sint (le_get (get_at 8 8 src) :: u64),
      rec_ElapsedNanos = le_get (get_at 16 8 src), rec_ID = le_get (get_at 24 4 src), rec_DLC = src ! 28,
      rec_Data = get_at 32 8 src, rec_Interface = iface, rec_Chunk = chunk\<rparr>"

section \<open>The writer\<close>

datatype canring_error =
    PathRequired
  | SizeNotPositive
  | ChunkTooSmall
  | SizeTooSmall
  | CRIO string
  | WriterClosed
  | CRFrame can_error
  | HeaderUnreadable
  | CRPanic

record Config =
  cf_Path :: string
  cf_SizeBytes :: int
  cf_ChunkBytes :: int
  cf_Interface :: string
  cf_SyncOnChunk :: bool

record Writer =
  w_file :: ring_file
  w_path :: string
  w_chunkBytes :: nat
  w_chunkCount :: u64
  w_nextChunk :: u64
  w_syncChunk :: bool
  w_iface :: string
  w_buf :: "byte list"
  w_records :: nat
  w_firstSeq :: u64
  w_lastSeq :: u64
  w_firstWallNS :: u64
  w_lastWallNS :: u64
  w_totalChunks :: u64
  w_totalRecords :: u64
  w_generation :: u64
  w_closed :: bool

text \<open>An I/O call succeeds, or fails and leaves the file with the given contents.\<close>

type_synonym io_outcome = "(string \<times> ring_file) option"

definition file_write :: "nat \<Rightarrow> byte list \<Rightarrow> ring_file \<Rightarrow> ring_file" where
  "file_write off bs f = put_at off bs (f @ replicate (off + length bs - length f) 0)"

definition data_start :: nat where "data_start = superblockCount * superblockSize"

definition writer_header :: "Writer \<Rightarrow> header" where
  "writer_header w =
     \<lparr>h_Generation = w_generation w,
      h_FileBytes = of_nat data_start + w_chunkCount w * of_nat (w_chunkBytes w),
      h_ChunkBytes = of_nat (w_chunkBytes w), h_ChunkCount = w_chunkCount w, h_NextChunk = w_nextChunk w,
      h_TotalChunks = w_totalChunks w, h_TotalRecords = w_totalRecords w, h_Interface = w_iface w\<rparr>"

definition writeHeader :: "io_outcome \<Rightarrow> Writer \<Rightarrow> canring_error option \<times> Writer" where
  "writeHeader io w =
     (let w1 = w\<lparr>w_generation := w_generation w + 1\<rparr>;
          slot = unat (w_generation w1 mod of_nat superblockCount) * superblockSize
      in case io of
           Some (e, f) \<Rightarrow> (Some (CRIO e), w1\<lparr>w_file := f\<rparr>)
         | None \<Rightarrow> (None, w1\<lparr>w_file := file_write slot (encodeHeader (writer_header w1)) (w_file w1)\<rparr>))"

definition maxRecordsPerChunk :: "Writer \<Rightarrow> nat" where
  "maxRecordsPerChunk w = (w_chunkBytes w - chunkHeaderSize) div recordSize"

record flush_env =
  fl_chunk :: io_outcome
  fl_header :: io_outcome
  fl_sync :: "string option"

definition chunk_header :: "Writer \<Rightarrow> byte list \<Rightarrow> byte list" where
  "chunk_header w buf =
     (let payloadLen = w_records w * recordSize in
      (put_at 56 (le_put 4 (ChecksumIEEE (get_at chunkHeaderSize payloadLen buf))) \<circ>
       put_at 52 (le_put 4 (of_nat payloadLen :: u32)) \<circ> put_at 48 (le_put 4 (of_nat (w_records w) :: u32)) \<circ>
       put_at 40 (le_put 8 (w_lastWallNS w)) \<circ> put_at 32 (le_put 8 (w_firstWallNS w)) \<circ>
       put_at 24 (le_put 8 (w_lastSeq w)) \<circ> put_at 16 (le_put 8 (w_firstSeq w)) \<circ>
       put_at 8 (le_put 8 (w_totalChunks w)) \<circ> put_at 6 (le_put 2 (64 :: u16)) \<circ>
       put_at 4 (le_put 2 ring_version) \<circ> put_at 0 (le_put 4 chunkMagic)) buf)"

definition flushChunk :: "flush_env \<Rightarrow> Writer \<Rightarrow> canring_error option \<times> Writer" where
  "flushChunk env w =
     (if w_records w = 0 then (None, w)
      else
        let w1 = w\<lparr>w_buf := chunk_header w (w_buf w)\<rparr>;
            offset = data_start + unat (w_nextChunk w) * w_chunkBytes w
        in case fl_chunk env of
             Some (e, f) \<Rightarrow> (Some (CRIO e), w1\<lparr>w_file := f\<rparr>)
           | None \<Rightarrow>
               let w2 = w1\<lparr>w_file := file_write offset (w_buf w1) (w_file w1),
                     w_nextChunk := (w_nextChunk w + 1) mod w_chunkCount w,
                     w_totalChunks := w_totalChunks w + 1, w_records := 0\<rparr>
               in case writeHeader (fl_header env) w2 of
                    (Some e, w3) \<Rightarrow> (Some e, w3)
                  | (None, w3) \<Rightarrow>
                      (if w_syncChunk w3 then map_option CRIO (fl_sync env) else None, w3))"

definition Append :: "flush_env \<Rightarrow> Frame \<Rightarrow> gotime \<Rightarrow> int \<Rightarrow> Writer \<Rightarrow> canring_error option \<times> Writer" where
  "Append env f ts elapsed w =
     (if w_closed w then (Some WriterClosed, w)
      else case frame_Validate f of
        Some e \<Rightarrow> (Some (CRFrame e), w)
      | None \<Rightarrow>
          let w1 = (if w_records w = 0
                    then w\<lparr>w_buf := replicate (length (w_buf w)) 0, w_firstSeq := w_totalRecords w,
                           w_firstWallNS := word_of_int ts\<rparr> else w);
              offset = chunkHeaderSize + w_records w1 * recordSize
          in if length (w_buf w1) < offset + recordSize then (Some CRPanic, w1)
             else
               let w2 = w1\<lparr>w_buf := encodeRecord offset (w_totalRecords w1) ts elapsed f (w_buf w1),
                     w_lastSeq := w_totalRecords w1, w_lastWallNS := word_of_int ts,
                     w_records := w_records w1 + 1, w_totalRecords := w_totalRecords w1 + 1\<rparr>
               in if maxRecordsPerChunk w2 \<le> w_records w2 then flushChunk env w2 else (None, w2))"

definition ring_Close :: "flush_env \<Rightarrow> string option \<Rightarrow> Writer \<Rightarrow> canring_error option \<times> Writer" where
  "ring_Close env closeErr w =
     (if w_closed w then (None, w)
      else
        let (err, w1) = (if 0 < w_records w then flushChunk env w else (None, w));
            err' = (if err = None then map_option CRIO closeErr else err)
        in (err', w1\<lparr>w_closed := True\<rparr>))"

record open_env =
  oe_mkdir :: "string option"
  oe_open :: "string option"
  oe_truncate :: "string option"
  oe_readable :: "nat \<Rightarrow> bool"
  oe_clear :: "string option"
  oe_header :: io_outcome

definition resize :: "nat \<Rightarrow> ring_file \<Rightarrow> ring_file" where
  "resize n f = take n f @ replicate (n - length f) 0"

definition clearDataRegion :: "ring_file \<Rightarrow> nat \<Rightarrow> ring_file" where
  "clearDataRegion f fileBytes =
     (if fileBytes \<le> data_start then f else file_write data_start (replicate (fileBytes - data_start) 0) f)"

definition open_fresh :: "open_env \<Rightarrow> nat \<Rightarrow> Writer \<Rightarrow> canring_error + Writer" where
  "open_fresh env fileBytes w =
     (case oe_clear env of
        Some e \<Rightarrow> Inl (CRIO e)
      | None \<Rightarrow>
          (case writeHeader (oe_header env) (w\<lparr>w_file := clearDataRegion (w_file w) fileBytes\<rparr>) of
             (Some e, w1) \<Rightarrow> Inl e
           | (None, w1) \<Rightarrow> Inr w1))"

text \<open>
  \<open>cfg.ChunkBytes*2\<close> is computed in \<open>int64\<close>; from \<open>2^62\<close> on it wraps and the size check passes, but then
  \<open>make\<close> panics, as for every buffer beyond the address space of the runtime (\<open>maxAlloc\<close>, 48 bits).
  Whether a smaller buffer fits into memory is not modelled.
\<close>

definition maxAlloc :: int where "maxAlloc = 2 ^ 48"

definition OpenWriter :: "open_env \<Rightarrow> Config \<Rightarrow> ring_file \<Rightarrow> canring_error + Writer" where
  "OpenWriter env cfg content =
     (if TrimSpace (cf_Path cfg) = [] then Inl PathRequired
      else if cf_SizeBytes cfg \<le> 0 then Inl SizeNotPositive
      else if cf_ChunkBytes cfg < int minChunkBytes then Inl ChunkTooSmall
      else
        let usable = cf_SizeBytes cfg - int data_start in
        if usable < sint (word_of_int (cf_ChunkBytes cfg * 2) :: u64) then Inl SizeTooSmall
        else
          let chunkBytes = nat (cf_ChunkBytes cfg);
              chunkCount = nat usable div chunkBytes;
              fileBytes = data_start + chunkCount * chunkBytes
          in case oe_mkdir env of Some e \<Rightarrow> Inl (CRIO e) | None \<Rightarrow>
             (case oe_open env of Some e \<Rightarrow> Inl (CRIO e) | None \<Rightarrow>
             (case oe_truncate env of Some e \<Rightarrow> Inl (CRIO e) | None \<Rightarrow>
               if maxAlloc < cf_ChunkBytes cfg then Inl CRPanic
               else let w = \<lparr>w_file = resize fileBytes content, w_path = cf_Path cfg, w_chunkBytes = chunkBytes,
                     w_chunkCount = of_nat chunkCount, w_nextChunk = 0, w_syncChunk = cf_SyncOnChunk cfg,
                     w_iface = cf_Interface cfg, w_buf = replicate chunkBytes 0, w_records = 0,
                     w_firstSeq = 0, w_lastSeq = 0, w_firstWallNS = 0, w_lastWallNS = 0, w_totalChunks = 0,
                     w_totalRecords = 0, w_generation = 0, w_closed = False\<rparr>
               in case readLatestHeader (oe_readable env) (w_file w) of
                    None \<Rightarrow> open_fresh env fileBytes w
                  | Some h \<Rightarrow>
                      if h_FileBytes h = of_nat fileBytes \<and> h_ChunkBytes h = of_nat chunkBytes \<and>
                         h_ChunkCount h = of_nat chunkCount
                      then Inr (w\<lparr>w_generation := h_Generation h, w_nextChunk := h_NextChunk h mod of_nat chunkCount,
                             w_totalChunks := h_TotalChunks h, w_totalRecords := h_TotalRecords h,
                             w_iface := (if w_iface w = [] then h_Interface h else w_iface w)\<rparr>)
                      else open_fresh env fileBytes (w\<lparr>w_generation := h_Generation h\<rparr>))))"

record Stats =
  st_Path :: string
  st_SizeBytes :: int
  st_ChunkBytes :: int
  st_ChunkCount :: u64
  st_NextChunk :: u64
  st_TotalChunks :: u64
  st_TotalRecords :: u64

definition writer_Stats :: "Writer \<Rightarrow> Stats" where
  "writer_Stats w =
     \<lparr>st_Path = w_path w, st_SizeBytes = int data_start + uint (w_chunkCount w) * int (w_chunkBytes w),
      st_ChunkBytes = int (w_chunkBytes w), st_ChunkCount = w_chunkCount w, st_NextChunk = w_nextChunk w,
      st_TotalChunks = w_totalChunks w, st_TotalRecords = w_totalRecords w\<rparr>"

section \<open>The reader\<close>

record Reader =
  r_file :: ring_file
  r_path :: string
  r_h :: header

record ringChunk =
  chunkSeq :: u64
  firstSeq :: u64
  lastSeq :: u64
  chunk_records :: nat
  chunk_payload :: "byte list"

definition statsFromHeader :: "string \<Rightarrow> header \<Rightarrow> Stats" where
  "statsFromHeader path h =
     \<lparr>st_Path = path, st_SizeBytes = sint (h_FileBytes h), st_ChunkBytes = sint (h_ChunkBytes h),
      st_ChunkCount = h_ChunkCount h, st_NextChunk = h_NextChunk h, st_TotalChunks = h_TotalChunks h,
      st_TotalRecords = h_TotalRecords h\<rparr>"

definition OpenReader :: "string option \<Rightarrow> (nat \<Rightarrow> bool) \<Rightarrow> string \<Rightarrow> ring_file \<Rightarrow> canring_error + Reader" where
  "OpenReader openErr readable path content =
     (if TrimSpace path = [] then Inl PathRequired
      else case openErr of
        Some e \<Rightarrow> Inl (CRIO e)
      | None \<Rightarrow>
          (case readLatestHeader readable content of
             None \<Rightarrow> Inl HeaderUnreadable
           | Some h \<Rightarrow> Inr \<lparr>r_file = content, r_path = path, r_h = h\<rparr>))"

text \<open>
  \<open>readChunk\<close>: \<open>Inr None\<close> is the result \<open>ok = false\<close>.  A header beyond the end of the file is not
  ok, a payload beyond it is the error \<open>io.EOF\<close>; other read errors are the environment's.
\<close>

definition readChunk :: "(u64 \<Rightarrow> string option) \<Rightarrow> Reader \<Rightarrow> u64 \<Rightarrow> canring_error + ringChunk option" where
  "readChunk fails r index =
     (if h_ChunkBytes (r_h r) = 0 \<or> h_ChunkCount (r_h r) = 0 then Inr None
      else case fails index of
        Some e \<Rightarrow> Inl (CRIO e)
      | None \<Rightarrow>
          let offset = data_start + unat index * unat (h_ChunkBytes (r_h r));
              buf = get_at offset chunkHeaderSize (r_file r)
          in if length buf < chunkHeaderSize then Inr None
             else if le_get (get_at 0 4 buf) \<noteq> chunkMagic then Inr None
             else if le_get (get_at 4 2 buf) \<noteq> ring_version \<or> le_get (get_at 6 2 buf) \<noteq> (64 :: u16) then Inr None
             else
               let records = unat (le_get (get_at 48 4 buf) :: u32);
                   payloadLen = unat (le_get (get_at 52 4 buf) :: u32)
               in if records = 0 \<or> payloadLen \<noteq> records * recordSize \<or>
                     unat (h_ChunkBytes (r_h r)) < payloadLen + chunkHeaderSize then Inr None
                  else
                    let payload = get_at (offset + chunkHeaderSize) payloadLen (r_file r) in
                    if length payload < payloadLen then Inl (CRIO ''EOF'')
                    else if ChecksumIEEE payload \<noteq> le_get (get_at 56 4 buf) then Inr None
                    else Inr (Some \<lparr>chunkSeq = le_get (get_at 8 8 buf), firstSeq = le_get (get_at 16 8 buf),
                           lastSeq = le_get (get_at 24 8 buf), chunk_records = records, chunk_payload = payload\<rparr>))"

fun read_chunks :: "(u64 \<Rightarrow> string option) \<Rightarrow> Reader \<Rightarrow> u64 list \<Rightarrow> canring_error + ringChunk list" where
  "read_chunks fails r [] = Inr []"
| "read_chunks fails r (i # is) =
     res_bind (readChunk fails r i) (\<lambda>c.
     res_bind (read_chunks fails r is) (\<lambda>cs.
       Inr (case c of Some ch \<Rightarrow> ch # cs | None \<Rightarrow> cs)))"

definition max_chunks :: "header \<Rightarrow> nat" where
  "max_chunks h = (if h_TotalChunks h < h_ChunkCount h then unat (h_TotalChunks h) else unat (h_ChunkCount h))"

definition readAllChunks :: "(u64 \<Rightarrow> string option) \<Rightarrow> Reader \<Rightarrow> canring_error + ringChunk list" where
  "readAllChunks fails r = read_chunks fails r (map of_nat [0 ..< max_chunks (r_h r)])"

fun recent_loop ::
    "(u64 \<Rightarrow> string option) \<Rightarrow> Reader \<Rightarrow> int \<Rightarrow> u64 list \<Rightarrow> nat \<Rightarrow> canring_error + ringChunk list" where
  "recent_loop fails r limit [] records = Inr []"
| "recent_loop fails r limit (i # is) records =
     (case readChunk fails r i of
        Inl e \<Rightarrow> Inl e
      | Inr None \<Rightarrow> recent_loop fails r limit is records
      | Inr (Some c) \<Rightarrow>
          if limit \<le> int (records + chunk_records c) then Inr [c]
          else res_bind (recent_loop fails r limit is (records + chunk_records c)) (\<lambda>cs. Inr (c # cs)))"

definition readRecentChunks :: "(u64 \<Rightarrow> string option) \<Rightarrow> Reader \<Rightarrow> int \<Rightarrow> canring_error + ringChunk list" where
  "readRecentChunks fails r limit =
     (let h = r_h r in
      recent_loop fails r limit
        (map (\<lambda>s. (h_NextChunk h + h_ChunkCount h - 1 - of_nat s) mod h_ChunkCount h) [0 ..< max_chunks h]) 0)"

definition snapshotChunks :: "(u64 \<Rightarrow> string option) \<Rightarrow> Reader \<Rightarrow> int \<Rightarrow> canring_error + ringChunk list" where
  "snapshotChunks fails r limit =
     (if h_ChunkCount (r_h r) = 0 then Inr []
      else if limit \<le> 0 then readAllChunks fails r
      else readRecentChunks fails r limit)"

record Snapshot =
  sn_Stats :: Stats
  sn_Records :: "CanRecord list"
  sn_ValidChunks :: nat

definition chunk_decode :: "string \<Rightarrow> ringChunk \<Rightarrow> CanRecord list" where
  "chunk_decode iface c =
     map (\<lambda>i. decodeRecord (get_at (i * recordSize) recordSize (chunk_payload c)) iface (chunkSeq c)) [0 ..< chunk_records c]"

definition ring_Snapshot ::
    "(nat \<Rightarrow> bool) \<Rightarrow> (u64 \<Rightarrow> string option) \<Rightarrow> int \<Rightarrow> Reader \<Rightarrow> (canring_error + Snapshot) \<times> Reader" where
  "ring_Snapshot readable fails limit r =
     (case readLatestHeader readable (r_file r) of
        None \<Rightarrow> (Inl HeaderUnreadable, r)
      | Some h \<Rightarrow>
          let r1 = r\<lparr>r_h := h\<rparr> in
          (res_bind (snapshotChunks fails r1 limit) (\<lambda>chunks0.
             let chunks = sort_key (\<lambda>c. (firstSeq c, chunkSeq c)) chunks0;
                 records = concat (map (chunk_decode (h_Interface h)) chunks)
             in Inr \<lparr>sn_Stats = statsFromHeader (r_path r) h, sn_Records = last_n limit records,
                     sn_ValidChunks = length chunks\<rparr>), r1))"

section \<open>Codec lemmas\<close>

lemma drop_put_at: "off + length xs \<le> k \<Longrightarrow> off + length xs \<le> length buf \<Longrightarrow> drop k (put_at off xs buf) = drop k buf"
proof -
  assume "off + length xs \<le> k" "off + length xs \<le> length buf"
  then have "drop k (put_at off xs buf) = drop (k - off - length xs) (drop (off + length xs) buf)"
    by (simp add: put_at_def)
  then show ?thesis using \<open>off + length xs \<le> k\<close> by simp
qed

lemma get_put_prefix:
  "length xs \<le> n \<Longrightarrow> off \<le> length buf \<Longrightarrow>
   get_at off n (put_at off xs buf) = xs @ get_at (off + length xs) (n - length xs) buf"
  by (simp add: get_at_def put_at_def)

lemma get_at_replicate: "off + n \<le> m \<Longrightarrow> get_at off n (replicate m x) = replicate n x"
  by (simp add: get_at_def)

lemma length_magic [simp]: "length superblockMagic = 8"
  by (simp add: superblockMagic_def string_bytes_def)

lemma length_string_bytes [simp]: "length (string_bytes s) = length s"
  by (simp add: string_bytes_def)

lemma bytes_string_bytes: "bytes_to_string (string_bytes s) = s"
proof -
  have "(char_of (unat (word_of_nat (of_char c) :: byte)) :: char) = c" for c
    by (simp add: unat_of_nat)
  then show ?thesis by (simp add: bytes_to_string_def string_bytes_def comp_def map_idI)
qed

lemma trim_right_pad: "s = [] \<or> last s \<noteq> CHR 0x00 \<Longrightarrow> trim_right_nul (s @ replicate n CHR 0x00) = s"
proof -
  assume s: "s = [] \<or> last s \<noteq> CHR 0x00"
  have d: "dropWhile (\<lambda>c. c = CHR 0x00) (replicate n CHR 0x00 @ t) = dropWhile (\<lambda>c. c = CHR 0x00) t" for t
    by (induction n) simp_all
  have "dropWhile (\<lambda>c. c = CHR 0x00) (rev s) = rev s"
    using s by (cases s rule: rev_cases) auto
  then show ?thesis by (simp add: trim_right_nul_def d)
qed

lemmas in_place = get_put_same get_put_before get_put_after drop_put_at

lemma length_encode_fields: "106 \<le> length buf \<Longrightarrow> length (encode_fields h buf) = length buf"
  by (simp add: encode_fields_def)

lemma encode_fields_get:
  assumes "length buf = 4096"
  shows "get_at 0 8 (encode_fields h buf) = superblockMagic"
    and "get_at 8 2 (encode_fields h buf) = le_put 2 ring_version"
    and "get_at 10 2 (encode_fields h buf) = le_put 2 (4096 :: u16)"
    and "get_at 16 8 (encode_fields h buf) = le_put 8 (h_Generation h)"
    and "get_at 24 8 (encode_fields h buf) = le_put 8 (h_FileBytes h)"
    and "get_at 32 8 (encode_fields h buf) = le_put 8 (h_ChunkBytes h)"
    and "get_at 40 8 (encode_fields h buf) = le_put 8 (h_ChunkCount h)"
    and "get_at 48 8 (encode_fields h buf) = le_put 8 (h_NextChunk h)"
    and "get_at 56 8 (encode_fields h buf) = le_put 8 (h_TotalChunks h)"
    and "get_at 64 8 (encode_fields h buf) = le_put 8 (h_TotalRecords h)"
    and "get_at 104 2 (encode_fields h buf) = le_put 2 (48 :: u16)"
  using assms by (simp_all add: encode_fields_def in_place)

lemma encode_fields_iface:
  assumes "length (h_Interface h) \<le> 32"
  shows "get_at 72 32 (encode_fields h (replicate 4096 0)) =
    string_bytes (h_Interface h) @ replicate (32 - length (h_Interface h)) 0"
  using assms by (simp add: encode_fields_def in_place get_put_prefix get_at_replicate)

definition iface_ok :: "string \<Rightarrow> bool" where
  "iface_ok s \<longleftrightarrow> length s \<le> 32 \<and> (s = [] \<or> last s \<noteq> CHR 0x00)"

lemma bytes_to_string_zeros: "bytes_to_string (replicate n 0) = replicate n CHR 0x00"
proof -
  have "(char_of (0 :: nat) :: char) = CHR 0x00" by code_simp
  then show ?thesis by (simp add: bytes_to_string_def)
qed

lemma bytes_to_string_append: "bytes_to_string (a @ b) = bytes_to_string a @ bytes_to_string b"
  by (simp add: bytes_to_string_def)

lemma length_encodeHeader [simp]: "length (encodeHeader h) = 4096"
  by (simp add: encodeHeader_def Let_def superblockSize_def length_encode_fields)

lemma decode_encodeHeader:
  assumes "iface_ok (h_Interface h)"
  shows "decodeHeader (encodeHeader h) = Some h"
proof -
  let ?b = "encode_fields h (replicate 4096 0)"
  have len: "length ?b = 4096" by (simp add: length_encode_fields)
  have e: "encodeHeader h = put_at 12 (le_put 4 (ChecksumIEEE (drop 16 ?b))) ?b"
    by (simp add: encodeHeader_def Let_def superblockSize_def)
  have g: "get_at o1 n (encodeHeader h) = get_at o1 n ?b" if "o1 + n \<le> 12 \<or> 16 \<le> o1" for o1 n
    using that len by (auto simp: e in_place)
  have c: "get_at 12 4 (encodeHeader h) = le_put 4 (ChecksumIEEE (drop 16 ?b))"
    using len by (simp add: e in_place)
  have d: "drop 16 (encodeHeader h) = drop 16 ?b" using len by (simp add: e in_place)
  have i: "trim_right_nul (bytes_to_string (get_at 72 32 ?b)) = h_Interface h"
    using assms
    by (simp add: iface_ok_def encode_fields_iface bytes_to_string_append bytes_to_string_zeros
        bytes_string_bytes trim_right_pad)
  have r: "length (replicate 4096 (0 :: byte)) = 4096" by simp
  show ?thesis
    by (simp add: decodeHeader_def g c d superblockSize_def encode_fields_get [OF r] i)
qed

section \<open>Superblock slots\<close>

definition slot_header :: "ring_file \<Rightarrow> nat \<Rightarrow> header option" where
  "slot_header f i = decodeHeader (get_at (i * 4096) 4096 f)"

lemma latest_of_slots:
  assumes "8192 \<le> length f"
  shows "readLatestHeader (\<lambda>_. True) f = better (better None (slot_header f 0)) (slot_header f 1)"
proof -
  have "read_slot f (i * 4096) 4096 = get_at (i * 4096) 4096 f" if "i < 2" for i
    using assms that by (simp add: read_slot_def get_at_def Let_def)
  from this [of 0] this [of 1] show ?thesis
    by (simp add: readLatestHeader_def superblockCount_def superblockSize_def slot_header_def upt_rec)
qed

lemma file_write_inside: "off + length bs \<le> length f \<Longrightarrow> file_write off bs f = put_at off bs f"
  by (simp add: file_write_def)

lemma slot_put:
  assumes "8192 \<le> length f" and "i < 2" and "j < 2"
  shows "slot_header (put_at (i * 4096) (encodeHeader h) f) j =
    (if j = i then decodeHeader (encodeHeader h) else slot_header f j)"
proof -
  have "i = 0 \<or> i = 1" "j = 0 \<or> j = 1" using assms(2,3) by auto
  then show ?thesis using assms(1) by (auto simp: slot_header_def in_place)
qed

lemma parity_slot:
  assumes "g \<noteq> (- 1 :: u64)"
  shows "unat ((g + 1) mod 2) = 1 - unat (g mod 2)" and "unat (g mod 2) < 2" and "unat (g + 1) = Suc (unat g)"
proof -
  have "unat g \<noteq> 2 ^ 64 - 1"
  proof
    assume "unat g = 2 ^ 64 - 1"
    then have "unat g = unat (- 1 :: u64)" by (simp add: unsigned_minus_1_eq_mask mask_eq_exp_minus_1)
    with assms show False by (simp only: word_unat_eq_iff)
  qed
  moreover have "unat g < 2 ^ 64" using unat_word_bound [of g] by simp
  ultimately have "unat g + unat (1 :: u64) < 2 ^ LENGTH(64)" by simp
  then show s: "unat (g + 1) = Suc (unat g)" using unat_add_lem [of g 1] by simp
  have m: "unat (x mod 2 :: u64) = unat x mod 2" for x by (simp add: unat_mod)
  show "unat ((g + 1) mod 2) = 1 - unat (g mod 2)" unfolding m s by presburger
  show "unat (g mod 2) < 2" unfolding m by simp
qed

definition header_current :: "Writer \<Rightarrow> header \<Rightarrow> bool" where
  "header_current w h \<longleftrightarrow> 8192 \<le> length (w_file w) \<and> h_Generation h = w_generation w \<and>
     slot_header (w_file w) (unat (w_generation w mod 2)) = Some h"

section \<open>Records in the buffer\<close>

lemma nth_get_at: "i < n \<Longrightarrow> off + n \<le> length b \<Longrightarrow> get_at off n b ! i = b ! (off + i)"
  by (simp add: get_at_def)

lemma nth_put_at: "i < length xs \<Longrightarrow> off \<le> length b \<Longrightarrow> put_at off xs b ! (off + i) = xs ! i"
  by (simp add: put_at_def nth_append)

lemma nth_put_at_before: "i < off \<Longrightarrow> off \<le> length b \<Longrightarrow> put_at off xs b ! i = b ! i"
  by (simp add: put_at_def nth_append)

type_synonym captured = "u64 \<times> gotime \<times> int \<times> Frame"

definition record_of :: "string \<Rightarrow> u64 \<Rightarrow> captured \<Rightarrow> CanRecord" where
  "record_of iface chunk e =
     (case e of (seq, ts, elapsed, f) \<Rightarrow>
        \<lparr>rec_Seq = seq, rec_Time = sint (word_of_int ts :: u64), rec_ElapsedNanos = word_of_int elapsed,
         rec_ID = fr_ID f, rec_DLC = fr_DLC f, rec_Data = fr_Data f, rec_Interface = iface, rec_Chunk = chunk\<rparr>)"

lemma length_encodeRecord:
  "frame_wf f \<Longrightarrow> off + 48 \<le> length buf \<Longrightarrow> length (encodeRecord off seq ts el f buf) = length buf"
  by (simp add: encodeRecord_def frame_wf_def)

lemma encodeRecord_other:
  "frame_wf f \<Longrightarrow> off + 48 \<le> length buf \<Longrightarrow> o1 + n \<le> off \<Longrightarrow>
   get_at o1 n (encodeRecord off seq ts el f buf) = get_at o1 n buf"
  by (simp add: encodeRecord_def frame_wf_def in_place)

lemma decode_encodeRecord:
  assumes "frame_wf f" and "off + 48 \<le> length buf"
  shows "decodeRecord (get_at off 48 (encodeRecord off seq ts el f buf)) iface ch = record_of iface ch (seq, ts, el, f)"
proof -
  let ?b = "encodeRecord off seq ts el f buf"
  have len: "length ?b = length buf" using assms by (rule length_encodeRecord)
  have l8: "length (fr_Data f) = 8" using assms(1) by (simp add: frame_wf_def)
  have "get_at (off + 32) 8 ?b = fr_Data f" "get_at (off + 24) 4 ?b = le_put 4 (fr_ID f)"
    "get_at (off + 16) 8 ?b = le_put 8 (word_of_int el :: u64)"
    "get_at (off + 8) 8 ?b = le_put 8 (word_of_int ts :: u64)" "get_at off 8 ?b = le_put 8 seq"
    using assms(2) l8 by (simp_all add: encodeRecord_def in_place)
  moreover have "?b ! (off + 28) = fr_DLC f"
    using assms(2) l8 nth_put_at [of 0 "[fr_DLC f]" "off + 28"]
    by (simp add: encodeRecord_def nth_put_at_before)
  ultimately show ?thesis
    using assms(2) len by (simp add: decodeRecord_def get_at_sub nth_get_at record_of_def)
qed

section \<open>Capturing a chunk\<close>

text \<open>
  The geometry of an opened writer, and the captured frames that its buffer holds but the file does
  not yet.
\<close>

definition writer_geom :: "Writer \<Rightarrow> bool" where
  "writer_geom w \<longleftrightarrow> length (w_buf w) = w_chunkBytes w \<and> minChunkBytes \<le> w_chunkBytes w \<and>
     w_chunkBytes w < 2 ^ 32 \<and> w_nextChunk w < w_chunkCount w \<and>
     length (w_file w) = data_start + unat (w_chunkCount w) * w_chunkBytes w"

definition pending :: "Writer \<Rightarrow> captured list \<Rightarrow> bool" where
  "pending w es \<longleftrightarrow> w_records w = length es \<and> length es < maxRecordsPerChunk w \<and>
     (\<forall>i < length es. \<forall>iface ch. decodeRecord (get_at (64 + i * 48) 48 (w_buf w)) iface ch = record_of iface ch (es ! i))"

lemma max_records_fit: "k \<le> maxRecordsPerChunk w \<Longrightarrow> minChunkBytes \<le> w_chunkBytes w \<Longrightarrow> 64 + k * 48 \<le> w_chunkBytes w"
proof -
  assume k: "k \<le> maxRecordsPerChunk w" and m: "minChunkBytes \<le> w_chunkBytes w"
  have "k * 48 \<le> (w_chunkBytes w - 64) div 48 * 48"
    using k by (simp add: maxRecordsPerChunk_def chunkHeaderSize_def recordSize_def)
  also have "\<dots> \<le> w_chunkBytes w - 64" by (rule div_times_less_eq_dividend)
  finally show ?thesis using m by (simp add: minChunkBytes_def)
qed

lemma Append_pending:
  assumes "writer_geom w" and "pending w es" and "\<not> w_closed w" and "frame_wf f" and "frame_Validate f = None"
    and "length es + 1 < maxRecordsPerChunk w"
  shows "fst (Append env f ts el w) = None \<and>
    pending (snd (Append env f ts el w)) (es @ [(w_totalRecords w, ts, el, f)]) \<and>
    writer_geom (snd (Append env f ts el w)) \<and> \<not> w_closed (snd (Append env f ts el w)) \<and>
    w_totalRecords (snd (Append env f ts el w)) = w_totalRecords w + 1 \<and>
    w_nextChunk (snd (Append env f ts el w)) = w_nextChunk w \<and>
    w_totalChunks (snd (Append env f ts el w)) = w_totalChunks w \<and>
    w_chunkBytes (snd (Append env f ts el w)) = w_chunkBytes w"
proof -
  let ?w1 = "if w_records w = 0
    then w\<lparr>w_buf := replicate (length (w_buf w)) 0, w_firstSeq := w_totalRecords w, w_firstWallNS := word_of_int ts\<rparr>
    else w"
  let ?off = "64 + length es * 48"
  let ?b = "encodeRecord ?off (w_totalRecords w) ts el f (w_buf ?w1)"
  let ?w2 = "?w1\<lparr>w_buf := ?b, w_lastSeq := w_totalRecords w, w_lastWallNS := word_of_int ts,
    w_records := length es + 1, w_totalRecords := w_totalRecords w + 1\<rparr>"
  have n: "w_records w = length es" using assms(2) by (simp add: pending_def)
  have fit: "?off + 48 \<le> length (w_buf ?w1)"
    using max_records_fit [of "length es + 1" w] assms(1,6) by (simp add: writer_geom_def)
  have len: "length ?b = length (w_buf w)" using length_encodeRecord [OF assms(4) fit] by simp
  have mx: "maxRecordsPerChunk ?w2 = maxRecordsPerChunk w" by (simp add: maxRecordsPerChunk_def)
  have ap: "Append env f ts el w = (None, ?w2)"
    using assms(3,5,6) fit n
    by (cases "es = []") (simp_all add: Append_def Let_def maxRecordsPerChunk_def chunkHeaderSize_def recordSize_def)
  have dec: "decodeRecord (get_at (64 + i * 48) 48 ?b) iface ch = record_of iface ch ((es @ [(w_totalRecords w, ts, el, f)]) ! i)"
    if "i < length es + 1" for i iface ch
  proof (cases "i < length es")
    case True
    then have "64 + i * 48 + 48 \<le> ?off" by simp
    then have "get_at (64 + i * 48) 48 ?b = get_at (64 + i * 48) 48 (w_buf ?w1)"
      by (rule encodeRecord_other [OF assms(4) fit])
    moreover have "w_records w \<noteq> 0" using True n by auto
    ultimately show ?thesis using assms(2) True by (simp add: pending_def nth_append)
  next
    case False
    with that have "i = length es" by simp
    then show ?thesis using decode_encodeRecord [OF assms(4) fit] by simp
  qed
  show ?thesis
    unfolding ap using assms(1,3,6) len mx dec by (simp add: pending_def writer_geom_def)
qed

lemma chunk_header_get:
  assumes "64 \<le> length buf"
  shows "get_at 0 4 (chunk_header w buf) = le_put 4 chunkMagic"
    and "get_at 4 2 (chunk_header w buf) = le_put 2 ring_version"
    and "get_at 6 2 (chunk_header w buf) = le_put 2 (64 :: u16)"
    and "get_at 8 8 (chunk_header w buf) = le_put 8 (w_totalChunks w)"
    and "get_at 16 8 (chunk_header w buf) = le_put 8 (w_firstSeq w)"
    and "get_at 24 8 (chunk_header w buf) = le_put 8 (w_lastSeq w)"
    and "get_at 48 4 (chunk_header w buf) = le_put 4 (of_nat (w_records w) :: u32)"
    and "get_at 52 4 (chunk_header w buf) = le_put 4 (of_nat (w_records w * 48) :: u32)"
    and "get_at 56 4 (chunk_header w buf) = le_put 4 (ChecksumIEEE (get_at 64 (w_records w * 48) buf))"
    and "length (chunk_header w buf) = length buf"
    and "\<And>o1 n. 64 \<le> o1 \<Longrightarrow> get_at o1 n (chunk_header w buf) = get_at o1 n buf"
  using assms by (simp_all add: chunk_header_def Let_def in_place chunkHeaderSize_def recordSize_def)

definition io_ok :: flush_env where
  "io_ok = \<lparr>fl_chunk = None, fl_header = None, fl_sync = None\<rparr>"

lemma writeHeader_data:
  assumes "8192 \<le> off" and "8192 \<le> length (w_file w)"
  shows "get_at off n (w_file (snd (writeHeader None w))) = get_at off n (w_file w)"
    and "length (w_file (snd (writeHeader None w))) = length (w_file w)"
proof -
  let ?s = "unat ((w_generation w + 1) mod 2) * 4096"
  have "unat ((w_generation w + 1) mod 2) < 2" by (simp add: unat_mod)
  then have "?s \<le> 4096" by simp
  then show "get_at off n (w_file (snd (writeHeader None w))) = get_at off n (w_file w)"
    and "length (w_file (snd (writeHeader None w))) = length (w_file w)"
    using assms
    by (simp_all add: writeHeader_def Let_def superblockCount_def superblockSize_def file_write_inside in_place)
qed

lemma chunk_inside:
  assumes "writer_geom w"
  shows "data_start + unat (w_nextChunk w) * w_chunkBytes w + w_chunkBytes w \<le> length (w_file w)"
    and "8192 \<le> length (w_file w)"
proof -
  have "Suc (unat (w_nextChunk w)) \<le> unat (w_chunkCount w)"
    using assms by (simp add: writer_geom_def word_less_nat_alt)
  then have "Suc (unat (w_nextChunk w)) * w_chunkBytes w \<le> unat (w_chunkCount w) * w_chunkBytes w"
    by (rule mult_le_mono1)
  then show "data_start + unat (w_nextChunk w) * w_chunkBytes w + w_chunkBytes w \<le> length (w_file w)"
    using assms by (simp add: writer_geom_def add.commute)
  show "8192 \<le> length (w_file w)"
    using assms by (simp add: writer_geom_def data_start_def superblockCount_def superblockSize_def)
qed

lemma flush_file:
  assumes "writer_geom w" and "w_records w \<noteq> 0"
  defines "off \<equiv> data_start + unat (w_nextChunk w) * w_chunkBytes w"
  shows "get_at off (w_chunkBytes w) (w_file (snd (flushChunk io_ok w))) = chunk_header w (w_buf w)"
    and "fst (flushChunk io_ok w) = None"
proof -
  have lb: "length (chunk_header w (w_buf w)) = w_chunkBytes w"
    using assms(1) chunk_header_get(10) [of "w_buf w" w] by (simp add: writer_geom_def minChunkBytes_def)
  have in1: "off + w_chunkBytes w \<le> length (w_file w)" and in2: "8192 \<le> length (w_file w)"
    using chunk_inside [OF assms(1)] by (simp_all add: off_def)
  have ge: "8192 \<le> off" by (simp add: off_def data_start_def superblockCount_def superblockSize_def)
  let ?w2 = "w\<lparr>w_buf := chunk_header w (w_buf w), w_file := file_write off (chunk_header w (w_buf w)) (w_file w),
    w_nextChunk := (w_nextChunk w + 1) mod w_chunkCount w, w_totalChunks := w_totalChunks w + 1, w_records := 0\<rparr>"
  have fw: "file_write off (chunk_header w (w_buf w)) (w_file w) = put_at off (chunk_header w (w_buf w)) (w_file w)"
    using in1 lb by (simp add: file_write_inside)
  have len: "length (w_file ?w2) = length (w_file w)" using in1 lb by (simp add: fw)
  obtain w3 where w3: "writeHeader None ?w2 = (None, w3)" by (simp add: writeHeader_def Let_def)
  have fl: "flushChunk io_ok w = (None, snd (writeHeader None ?w2))"
    using assms(2) w3 by (simp add: flushChunk_def Let_def io_ok_def off_def)
  show "fst (flushChunk io_ok w) = None" by (simp add: fl)
  have "get_at off (w_chunkBytes w) (w_file (snd (writeHeader None ?w2))) = get_at off (w_chunkBytes w) (w_file ?w2)"
    using ge in2 len by (intro writeHeader_data) simp_all
  also have "\<dots> = chunk_header w (w_buf w)" using in1 lb by (simp add: fw get_put_same)
  finally show "get_at off (w_chunkBytes w) (w_file (snd (flushChunk io_ok w))) = chunk_header w (w_buf w)"
    by (simp add: fl)
qed

lemma flush_read:
  assumes geom: "writer_geom w" and pend: "pending w es" and ne: "es \<noteq> []"
    and r: "r_file r = w_file (snd (flushChunk io_ok w))" "h_ChunkBytes (r_h r) = of_nat (w_chunkBytes w)"
      "h_ChunkCount (r_h r) \<noteq> 0"
  shows "\<exists>c. readChunk (\<lambda>_. None) r (w_nextChunk w) = Inr (Some c) \<and> chunk_records c = length es \<and>
    chunkSeq c = w_totalChunks w \<and> firstSeq c = w_firstSeq w \<and> lastSeq c = w_lastSeq w \<and>
    chunk_decode iface c = map (record_of iface (w_totalChunks w)) es"
proof -
  let ?off = "data_start + unat (w_nextChunk w) * w_chunkBytes w" and ?n = "length es"
  let ?b = "chunk_header w (w_buf w)" and ?f = "r_file r"
  have n: "w_records w = ?n" and rn: "w_records w \<noteq> 0" using pend ne by (simp_all add: pending_def)
  have cb: "minChunkBytes \<le> w_chunkBytes w" "w_chunkBytes w < 2 ^ 32" "length (w_buf w) = w_chunkBytes w"
    using geom by (simp_all add: writer_geom_def)
  have fit: "64 + ?n * 48 \<le> w_chunkBytes w"
    using max_records_fit [OF _ cb(1), of ?n] pend by (simp add: pending_def)
  have f: "get_at ?off (w_chunkBytes w) ?f = ?b" using flush_file(1) [OF geom rn] by (simp add: r(1))
  have sub: "get_at (?off + o1) m ?f = get_at o1 m ?b" if "o1 + m \<le> w_chunkBytes w" for o1 m
    using get_at_sub [OF that, of ?off ?f] by (simp add: f)
  have l64: "64 \<le> length (w_buf w)" using cb by (simp add: minChunkBytes_def)
  have cbn: "unat (of_nat (w_chunkBytes w) :: u64) = w_chunkBytes w"
    using cb(2) by (simp add: unat_of_nat)
  have u32: "unat (of_nat ?n :: u32) = ?n" "unat (of_nat (?n * 48) :: u32) = ?n * 48"
    using fit cb(2) by (simp_all add: unat_of_nat del: of_nat_mult)
  have u32m: "unat (of_nat ?n * 48 :: u32) = ?n * 48" using u32(2) by simp
  have hd: "get_at ?off 64 ?f = get_at 0 64 ?b" using sub [of 0 64] fit by simp
  have hl: "length (get_at 0 64 ?b) = 64" using chunk_header_get(10) [OF l64, of w] l64 by (simp add: get_at_def)
  have h: "get_at o1 m (get_at 0 64 ?b) = get_at o1 m ?b" if "o1 + m \<le> 64" for o1 m
    using get_at_sub [OF that, of 0 ?b] by simp
  let ?p = "get_at 64 (?n * 48) (w_buf w)"
  have pl: "get_at (?off + 64) (?n * 48) ?f = ?p"
    using sub [of 64 "?n * 48"] fit by (simp add: chunk_header_get(11) [OF l64])
  have lp: "length ?p = ?n * 48" using fit cb(3) by (simp add: get_at_def)
  have cz: "(of_nat (w_chunkBytes w) :: u64) \<noteq> 0" using cbn cb(1) by (auto simp: minChunkBytes_def)
  let ?c = "\<lparr>chunkSeq = w_totalChunks w, firstSeq = w_firstSeq w, lastSeq = w_lastSeq w,
    chunk_records = ?n, chunk_payload = ?p\<rparr>"
  have "readChunk (\<lambda>_. None) r (w_nextChunk w) = Inr (Some ?c)"
    using r(2,3) cz ne fit
    by (simp add: readChunk_def Let_def chunkHeaderSize_def recordSize_def cbn hd hl h chunk_header_get [OF l64] n u32 u32m pl lp)
  moreover have "chunk_decode iface ?c = map (record_of iface (w_totalChunks w)) es"
  proof (rule nth_equalityI)
    fix i assume "i < length (chunk_decode iface ?c)"
    then have i: "i < ?n" by (simp add: chunk_decode_def)
    then have "i * 48 + 48 \<le> ?n * 48" by simp
    then have "get_at (i * 48) 48 ?p = get_at (64 + i * 48) 48 (w_buf w)" by (rule get_at_sub)
    then show "chunk_decode iface ?c ! i = map (record_of iface (w_totalChunks w)) es ! i"
      using i pend by (simp add: chunk_decode_def recordSize_def pending_def)
  qed (simp add: chunk_decode_def)
  ultimately show ?thesis by auto
qed

fun append_all :: "(Frame \<times> gotime \<times> int) list \<Rightarrow> Writer \<Rightarrow> Writer" where
  "append_all [] w = w"
| "append_all ((f, ts, el) # xs) w = append_all xs (snd (Append io_ok f ts el w))"

fun captures :: "u64 \<Rightarrow> (Frame \<times> gotime \<times> int) list \<Rightarrow> captured list" where
  "captures seq [] = []"
| "captures seq ((f, ts, el) # xs) = (seq, ts, el, f) # captures (seq + 1) xs"

lemma append_all_pending:
  "writer_geom w \<Longrightarrow> pending w es \<Longrightarrow> \<not> w_closed w \<Longrightarrow>
   list_all (\<lambda>(f, ts, el). frame_wf f \<and> frame_Validate f = None) xs \<Longrightarrow>
   length es + length xs < maxRecordsPerChunk w \<Longrightarrow>
   pending (append_all xs w) (es @ captures (w_totalRecords w) xs) \<and> writer_geom (append_all xs w) \<and>
   \<not> w_closed (append_all xs w) \<and> w_nextChunk (append_all xs w) = w_nextChunk w \<and>
   w_totalChunks (append_all xs w) = w_totalChunks w \<and> w_chunkBytes (append_all xs w) = w_chunkBytes w"
proof (induction xs arbitrary: w es)
  case (Cons x xs)
  obtain f ts el where x: "x = (f, ts, el)" by (cases x)
  let ?w = "snd (Append io_ok f ts el w)"
  have a: "pending ?w (es @ [(w_totalRecords w, ts, el, f)])" "writer_geom ?w" "\<not> w_closed ?w"
    "w_totalRecords ?w = w_totalRecords w + 1" "w_nextChunk ?w = w_nextChunk w"
    "w_totalChunks ?w = w_totalChunks w" "w_chunkBytes ?w = w_chunkBytes w"
    using Append_pending [of w es f io_ok ts el] Cons.prems x by simp_all
  have "maxRecordsPerChunk ?w = maxRecordsPerChunk w" using a(7) by (simp add: maxRecordsPerChunk_def)
  then show ?case using Cons.IH [OF a(2,1,3)] Cons.prems a x by simp
qed simp

section \<open>Properties\<close>

text \<open>
  C28.  Superblocks survive a torn write: \<open>encodeHeader\<close> and \<open>decodeHeader\<close> are inverse; while the
  file holds the header of the writer's generation, a completed \<open>writeHeader\<close> makes
  \<open>readLatestHeader\<close> return the new header, and a \<open>writeHeader\<close> that was cut short, leaving anything
  that does not decode in the slot it was writing, leaves the previous header in force.
\<close>

theorem superblock_torn_write:
  assumes "header_current w h" and "w_generation w \<noteq> - 1" and "iface_ok (w_iface w)"
    and "8192 \<le> length torn"
    and "slot_header torn (unat (w_generation w mod 2)) = slot_header (w_file w) (unat (w_generation w mod 2))"
    and "slot_header torn (unat ((w_generation w + 1) mod 2)) = None"
  shows "decodeHeader (encodeHeader (writer_header w)) = Some (writer_header w) \<and>
    readLatestHeader (\<lambda>_. True) (w_file (snd (writeHeader None w))) =
      Some (writer_header (w\<lparr>w_generation := w_generation w + 1\<rparr>)) \<and>
    readLatestHeader (\<lambda>_. True) torn = Some h"
proof -
  let ?g = "unat (w_generation w mod 2)" and ?w1 = "w\<lparr>w_generation := w_generation w + 1\<rparr>"
  note par = parity_slot [OF assms(2)]
  have dec: "decodeHeader (encodeHeader (writer_header x)) = Some (writer_header x)" if "iface_ok (w_iface x)" for x :: Writer
    using that by (intro decode_encodeHeader) (simp add: writer_header_def)
  have ins: "(1 - ?g) * 4096 + length (encodeHeader (writer_header ?w1)) \<le> length (w_file w)"
  proof -
    have "(1 - ?g) * 4096 \<le> 1 * 4096" by (rule mult_le_mono1) simp
    moreover have "8192 \<le> length (w_file w)" using assms(1) by (simp add: header_current_def)
    ultimately show ?thesis by simp
  qed
  have fw: "w_file (snd (writeHeader None w)) = put_at ((1 - ?g) * 4096) (encodeHeader (writer_header ?w1)) (w_file w)"
    using file_write_inside [OF ins] par(1)
    by (simp add: writeHeader_def Let_def superblockCount_def superblockSize_def header_current_def file_write_inside)
  have lf: "8192 \<le> length (w_file w)" and sh: "slot_header (w_file w) ?g = Some h" and hg: "h_Generation h = w_generation w"
    using assms(1) by (simp_all add: header_current_def)
  have len: "8192 \<le> length (w_file (snd (writeHeader None w)))"
    using lf par(2) by (simp add: fw)
  have slots: "slot_header (w_file (snd (writeHeader None w))) j =
      (if j = 1 - ?g then Some (writer_header ?w1) else slot_header (w_file w) j)" if "j < 2" for j
    unfolding fw using slot_put [OF lf _ that, of "1 - ?g"] dec [of ?w1] assms(3) by simp
  have lt: "w_generation w < w_generation w + 1" using par(3) by (simp add: word_less_nat_alt)
  have "?g = 0 \<or> ?g = 1" using par(2) by auto
  then have "readLatestHeader (\<lambda>_. True) (w_file (snd (writeHeader None w))) = Some (writer_header ?w1)"
    using slots [of 0] slots [of 1] sh hg lt
    by (auto simp: latest_of_slots [OF len] better_def writer_header_def)
  moreover have "readLatestHeader (\<lambda>_. True) torn = Some h"
    using \<open>?g = 0 \<or> ?g = 1\<close> assms(5,6) sh par(1) by (auto simp: latest_of_slots [OF assms(4)] better_def)
  ultimately show ?thesis using dec assms(3) by simp
qed

text \<open>
  C29.  What is captured is read back: on a writer with an empty buffer, appending any number of
  valid frames below a chunk's capacity and closing it (I/O succeeding) leaves a file from which
  \<open>readChunk\<close>, with the header just written, accepts the chunk and decodes exactly the appended
  frames, in order, with consecutive sequence numbers and their times.
\<close>

theorem capture_roundtrip:
  assumes "writer_geom w" and "w_records w = 0" and "\<not> w_closed w" and "w_chunkCount w \<noteq> 0"
    and "xs \<noteq> []" and "length xs < maxRecordsPerChunk w"
    and "list_all (\<lambda>(f, ts, el). frame_wf f \<and> frame_Validate f = None) xs"
  shows "\<exists>c. readChunk (\<lambda>_. None)
        \<lparr>r_file = w_file (snd (ring_Close io_ok None (append_all xs w))), r_path = p,
         r_h = (writer_header w)\<lparr>h_Generation := g\<rparr>\<rparr> (w_nextChunk w) = Inr (Some c) \<and>
      chunk_decode iface c = map (record_of iface (w_totalChunks w)) (captures (w_totalRecords w) xs)"
proof -
  let ?w = "append_all xs w" and ?es = "captures (w_totalRecords w) xs"
  let ?r = "\<lparr>r_file = w_file (snd (ring_Close io_ok None ?w)), r_path = p, r_h = (writer_header w)\<lparr>h_Generation := g\<rparr>\<rparr>"
  have "pending w []" using assms(2,6) by (simp add: pending_def)
  from append_all_pending [OF assms(1) this assms(3,7)] assms(6)
  have a: "pending ?w ?es" "writer_geom ?w" "\<not> w_closed ?w" "w_nextChunk ?w = w_nextChunk w"
    "w_totalChunks ?w = w_totalChunks w" "w_chunkBytes ?w = w_chunkBytes w" by simp_all
  have ne: "?es \<noteq> []" using assms(5) by (cases xs) auto
  then have "0 < w_records ?w" using a(1) by (simp add: pending_def)
  then have "w_file (snd (ring_Close io_ok None ?w)) = w_file (snd (flushChunk io_ok ?w))"
    using a(3) by (simp add: ring_Close_def split_def Let_def)
  then have "r_file ?r = w_file (snd (flushChunk io_ok ?w))" by simp
  from flush_read [OF a(2,1) ne this, of iface] assms(4) a(4-6) show ?thesis
    by (auto simp: writer_header_def)
qed

definition demo_writer :: Writer where
  "demo_writer = \<lparr>w_file = replicate (8192 + 2 * 65536) 0, w_path = ''r'', w_chunkBytes = 65536, w_chunkCount = 2,
     w_nextChunk = 0, w_syncChunk = False, w_iface = ''can0'', w_buf = replicate 65536 0, w_records = 0, w_firstSeq = 0,
     w_lastSeq = 0, w_firstWallNS = 0, w_lastWallNS = 0, w_totalChunks = 0, w_totalRecords = 0, w_generation = 0,
     w_closed = False\<rparr>"

theorem capture_roundtrip_witness:
  "\<exists>c. readChunk (\<lambda>_. None)
        \<lparr>r_file = w_file (snd (ring_Close io_ok None (append_all [(zero_frame, 5, 6)] demo_writer))), r_path = [],
         r_h = (writer_header demo_writer)\<lparr>h_Generation := 1\<rparr>\<rparr> 0 = Inr (Some c) \<and>
      chunk_decode ''can0'' c = [record_of ''can0'' 0 (0, 5, 6, zero_frame)]"
proof -
  have "writer_geom demo_writer" "maxRecordsPerChunk demo_writer = 1364"
    by (simp_all add: writer_geom_def demo_writer_def minChunkBytes_def data_start_def superblockCount_def
        superblockSize_def maxRecordsPerChunk_def chunkHeaderSize_def recordSize_def)
  then show ?thesis
    using capture_roundtrip [of demo_writer "[(zero_frame, 5, 6)]" "[]" 1 "''can0''"]
    by (simp add: demo_writer_def zero_frame_def frame_wf_def frame_Validate_def)
qed

theorem superblock_torn_write_witness:
  "\<exists>w h torn. header_current w h \<and> readLatestHeader (\<lambda>_. True) torn = Some h"
proof -
  let ?h = "writer_header demo_writer"
  let ?f = "put_at (0 * 4096) (encodeHeader ?h) (w_file demo_writer)"
  let ?w = "demo_writer\<lparr>w_file := ?f\<rparr>"
  have lf: "8192 \<le> length (w_file demo_writer)" "8192 \<le> length ?f" by (simp_all add: demo_writer_def)
  have ok: "iface_ok (w_iface demo_writer)" by (simp add: iface_ok_def demo_writer_def)
  then have d: "decodeHeader (encodeHeader ?h) = Some ?h"
    by (intro decode_encodeHeader) (simp add: writer_header_def)
  have s0: "slot_header ?f 0 = Some ?h" using slot_put [OF lf(1), of 0 0 ?h] d by simp
  have "get_at 4096 4096 (w_file demo_writer) = replicate 4096 0"
    by (simp add: demo_writer_def get_at_replicate)
  moreover have "superblockMagic \<noteq> replicate 8 0"
  proof
    assume "superblockMagic = replicate 8 0"
    then have "superblockMagic ! 0 = replicate 8 0 ! 0" by (rule arg_cong)
    then show False by (simp add: superblockMagic_def string_bytes_def)
  qed
  ultimately have "slot_header (w_file demo_writer) 1 = None"
    by (simp add: slot_header_def decodeHeader_def get_at_replicate)
  then have s1: "slot_header ?f 1 = None" using slot_put [OF lf(1), of 0 1 ?h] by simp
  have g: "w_generation ?w = 0" by (simp add: demo_writer_def)
  have cur: "header_current ?w ?h"
    using lf(2) s0 by (simp add: header_current_def g) (simp add: writer_header_def demo_writer_def)
  from superblock_torn_write [OF cur, of ?f] have "readLatestHeader (\<lambda>_. True) ?f = Some ?h"
    using g ok lf(2) s1 by simp
  with cur show ?thesis by blast
qed

text \<open>
  C30.  A failed chunk write makes the next append panic: when the write of a full chunk fails, the
  writer keeps the full buffer and its record count, so the next \<open>Append\<close> of a valid frame slices
  the buffer beyond its end.
\<close>

theorem append_after_failed_flush_panics:
  assumes "writer_geom w" and "w_records w + 1 = maxRecordsPerChunk w" and "0 < w_records w" and "\<not> w_closed w"
    and "frame_Validate f = None" and "frame_wf f" and "frame_Validate f' = None"
    and "fl_chunk env = Some (e, file')"
  shows "fst (Append env f ts el w) = Some (CRIO e) \<and>
    fst (Append env' f' ts' el' (snd (Append env f ts el w))) = Some CRPanic"
proof -
  let ?off = "64 + w_records w * 48"
  let ?b = "encodeRecord ?off (w_totalRecords w) ts el f (w_buf w)"
  let ?w2 = "w\<lparr>w_buf := ?b, w_lastSeq := w_totalRecords w, w_lastWallNS := word_of_int ts,
    w_records := w_records w + 1, w_totalRecords := w_totalRecords w + 1\<rparr>"
  have cb: "length (w_buf w) = w_chunkBytes w" "minChunkBytes \<le> w_chunkBytes w" using assms(1) by (simp_all add: writer_geom_def)
  have fit: "?off + 48 \<le> length (w_buf w)" using max_records_fit [of "w_records w + 1" w] assms(2) cb by simp
  have lb: "length ?b = w_chunkBytes w" using length_encodeRecord [OF assms(6) fit] cb by simp
  have ap: "Append env f ts el w = flushChunk env ?w2"
    using assms(2-5) fit by (simp add: Append_def Let_def chunkHeaderSize_def recordSize_def maxRecordsPerChunk_def)
  also have "\<dots> = (Some (CRIO e), ?w2\<lparr>w_buf := chunk_header ?w2 ?b, w_file := file'\<rparr>)"
    using assms(8) by (simp add: flushChunk_def Let_def)
  finally have a: "Append env f ts el w = (Some (CRIO e), ?w2\<lparr>w_buf := chunk_header ?w2 ?b, w_file := file'\<rparr>)" .
  have "length (chunk_header ?w2 ?b) = w_chunkBytes w"
    using chunk_header_get(10) [of ?b ?w2] lb cb by (simp add: minChunkBytes_def)
  moreover have "w_chunkBytes w < 64 + (w_records w + 1) * 48 + 48"
    using assms(2) by (simp add: maxRecordsPerChunk_def chunkHeaderSize_def recordSize_def)
  ultimately show ?thesis
    unfolding a using assms(4,7) by (simp add: Append_def Let_def chunkHeaderSize_def recordSize_def)
qed

theorem append_after_failed_flush_panics_witness:
  "fst (Append io_ok zero_frame 0 0 (snd (Append \<lparr>fl_chunk = Some (''ENOSPC'', []), fl_header = None, fl_sync = None\<rparr>
     zero_frame 0 0 (demo_writer\<lparr>w_records := 1363\<rparr>)))) = Some CRPanic"
proof -
  have "writer_geom (demo_writer\<lparr>w_records := 1363\<rparr>)" "maxRecordsPerChunk (demo_writer\<lparr>w_records := 1363\<rparr>) = 1364"
    by (simp_all add: writer_geom_def demo_writer_def minChunkBytes_def data_start_def superblockCount_def
        superblockSize_def maxRecordsPerChunk_def chunkHeaderSize_def recordSize_def)
  then show ?thesis
    using append_after_failed_flush_panics [of "demo_writer\<lparr>w_records := 1363\<rparr>" zero_frame zero_frame
        "\<lparr>fl_chunk = Some (''ENOSPC'', []), fl_header = None, fl_sync = None\<rparr>" "''ENOSPC''" "[]" 0 0 io_ok 0 0]
    by (simp add: demo_writer_def zero_frame_def frame_wf_def frame_Validate_def)
qed

end
