(* ===== verification/Commander.thy ===== *)
theory Commander
  imports Floats Strings
begin

text \<open>
  The telecommand bridge of \<open>mecom/commander.go\<close>: argument decoding, the authorisation hook and the
  dispatch of a telecommand to the write, string and control clients.  A value of type \<open>any\<close> is one
  of the dynamic types the code distinguishes; \<open>strconv.ParseFloat\<close>, \<open>fmt.Sprint\<close> and the result
  of an out-of-range conversion from \<open>float64\<close> to \<open>int64\<close> (left open by the Go specification) are
  arguments, gathered in \<open>golib\<close>.  The clients are the record \<open>client_env\<close> of the results their
  calls return under the deadline of the call; \<open>dispatch\<close> returns the calls it made, in order.  The
  authoriser may keep state (the lease registry does), which is threaded through.
\<close>

section \<open>Telecommands and clients\<close>

datatype any =
    AnyInt int
  | AnyInt32 u32
  | AnyInt64 int
  | AnyFloat32 u32
  | AnyFloat64 u64
  | AnyNumber string
  | AnyString string
  | AnyOther string

record Telecommand =
  tc_ID :: string
  tc_SessionID :: string
  tc_IdempotencyKey :: string
  tc_TargetID :: string
  tc_Name :: string
  tc_Arguments :: "string \<rightharpoonup> any"
  tc_Metadata :: "string \<rightharpoonup> string"

record golib =
  ParseFloat64 :: "string \<Rightarrow> num_err + u64"
  Sprint :: "any \<Rightarrow> string"
  int64_overflow :: "u64 \<Rightarrow> int"

record client_env =
  ce_WriteFloat32 :: "int \<Rightarrow> int \<Rightarrow> u32 \<Rightarrow> mecom_error option"
  ce_WriteInt32 :: "int \<Rightarrow> int \<Rightarrow> u32 \<Rightarrow> mecom_error option"
  ce_ReadFloat32 :: "int \<Rightarrow> int \<Rightarrow> mecom_error + u64"
  ce_ReadInt32 :: "int \<Rightarrow> int \<Rightarrow> mecom_error + u32"
  ce_WriteString :: "int \<Rightarrow> int \<Rightarrow> string \<Rightarrow> mecom_error option"
  ce_WriteBigDataString :: "int \<Rightarrow> int \<Rightarrow> string \<Rightarrow> mecom_error option"
  ce_Reset :: "mecom_error option"
  ce_SaveToFlash :: "mecom_error option"

datatype client_op =
    OpWriteFloat32 int int u32
  | OpWriteInt32 int int u32
  | OpReadFloat32 int int
  | OpReadInt32 int int
  | OpWriteString int int string
  | OpWriteBigDataString int int string
  | OpReset
  | OpSaveToFlash

datatype 'a cmd_error =
    NoWriter
  | MissingArgument string
  | InvalidArgument string num_err
  | NotAnInteger string
  | OverflowsInt string
  | InvalidArgumentType string
  | Unsupported string
  | UnknownCommand string
  | ErrReadbackMismatch
  | ClientError mecom_error
  | CommandRejectedError 'a

record ('r, 'a) Commander =
  c_Writer :: bool
  c_Reader :: bool
  c_StringWriter :: bool
  c_Control :: bool
  c_Timeout :: int
  c_TargetID :: string
  c_Authorizer :: "(string \<Rightarrow> Telecommand \<Rightarrow> 'r \<Rightarrow> 'a option \<times> 'r) option"

text \<open>\<open>NewCommander\<close>: which of the optional interfaces the writer implements is given.\<close>

definition NewCommander :: "bool \<Rightarrow> bool \<Rightarrow> bool \<Rightarrow> int \<Rightarrow> ('r, 'a) Commander" where
  "NewCommander isReader isStringWriter isControl timeout =
     \<lparr>c_Writer = True, c_Reader = isReader, c_StringWriter = isStringWriter, c_Control = isControl,
      c_Timeout = timeout, c_TargetID = [], c_Authorizer = None\<rparr>"

section \<open>Arguments\<close>

definition checkedInt64Arg :: "string \<Rightarrow> int \<Rightarrow> 'a cmd_error + int" where
  "checkedInt64Arg key v =
     (let maxInt = 2 ^ 63 - 1; minInt = - maxInt - 1 in
      if v < minInt \<or> maxInt < v then Inl (OverflowsInt key) else Inr v)"

definition int64_of_f64 :: "golib \<Rightarrow> u64 \<Rightarrow> int" where
  "int64_of_f64 lib v =
     (if f64_finite v \<and> - (2 ^ 63) \<le> f64_trunc v \<and> f64_trunc v < 2 ^ 63 then f64_trunc v
      else int64_overflow lib v)"

text \<open>In \<open>checkedFloatIntArg\<close> the constant \<open>float64(maxInt)\<close> is \<open>2^63\<close>: \<open>2^63 - 1\<close> is not a \<open>float64\<close>.\<close>

definition checkedFloatIntArg :: "golib \<Rightarrow> string \<Rightarrow> u64 \<Rightarrow> 'a cmd_error + int" where
  "checkedFloatIntArg lib key v =
     (if f64_isNaN v \<or> f64_isInf v \<or> \<not> f64_integral v then Inl (NotAnInteger key)
      else if f64_less_int v (- (2 ^ 63)) \<or> f64_greater_int v (2 ^ 63) then Inl (OverflowsInt key)
      else checkedInt64Arg key (int64_of_f64 lib v))"

definition num_result :: "string \<Rightarrow> num_err + 'b \<Rightarrow> 'a cmd_error + 'b" where
  "num_result key r = map_sum (InvalidArgument key) (\<lambda>x. x) r"

lemma num_result_Inr [simp]: "num_result key r = Inr x \<longleftrightarrow> r = Inr x"
  by (cases r) (auto simp: num_result_def)

fun int_of_any :: "golib \<Rightarrow> string \<Rightarrow> any \<Rightarrow> 'a cmd_error + int" where
  "int_of_any lib key (AnyInt v) = Inr v"
| "int_of_any lib key (AnyInt32 v) = Inr (sint v)"
| "int_of_any lib key (AnyInt64 v) = checkedInt64Arg key v"
| "int_of_any lib key (AnyFloat32 v) = checkedFloatIntArg lib key (float64_of_float32 v)"
| "int_of_any lib key (AnyFloat64 v) = checkedFloatIntArg lib key v"
| "int_of_any lib key (AnyNumber s) = res_bind (num_result key (Atoi s)) (checkedInt64Arg key)"
| "int_of_any lib key (AnyString s) = num_result key (Atoi s)"
| "int_of_any lib key (AnyOther s) = Inl (InvalidArgumentType key)"

definition intArg :: "golib \<Rightarrow> (string \<rightharpoonup> any) \<Rightarrow> string \<Rightarrow> 'a cmd_error + int" where
  "intArg lib args key = (case args key of None \<Rightarrow> Inl (MissingArgument key) | Some raw \<Rightarrow> int_of_any lib key raw)"

fun float_of_any :: "golib \<Rightarrow> string \<Rightarrow> any \<Rightarrow> 'a cmd_error + u64" where
  "float_of_any lib key (AnyFloat32 v) = Inr (float64_of_float32 v)"
| "float_of_any lib key (AnyFloat64 v) = Inr v"
| "float_of_any lib key (AnyInt v) = Inr (float64_of_int v)"
| "float_of_any lib key (AnyInt64 v) = Inr (float64_of_int v)"
| "float_of_any lib key (AnyNumber s) = num_result key (ParseFloat64 lib s)"
| "float_of_any lib key (AnyString s) = num_result key (ParseFloat64 lib s)"
| "float_of_any lib key v = Inl (InvalidArgumentType key)"

definition floatArg :: "golib \<Rightarrow> (string \<rightharpoonup> any) \<Rightarrow> string \<Rightarrow> 'a cmd_error + u64" where
  "floatArg lib args key = (case args key of None \<Rightarrow> Inl (MissingArgument key) | Some raw \<Rightarrow> float_of_any lib key raw)"

definition stringArg :: "golib \<Rightarrow> (string \<rightharpoonup> any) \<Rightarrow> string \<Rightarrow> 'a cmd_error + string" where
  "stringArg lib args key =
     (case args key of
        None \<Rightarrow> Inl (MissingArgument key)
      | Some raw \<Rightarrow> (case raw of AnyString v \<Rightarrow> Inr v | AnyNumber v \<Rightarrow> Inr v | v \<Rightarrow> Inr (Sprint lib v)))"

definition instanceArg :: "golib \<Rightarrow> (string \<rightharpoonup> any) \<Rightarrow> 'a cmd_error + int" where
  "instanceArg lib args = (if args ''instance'' = None then Inr 1 else intArg lib args ''instance'')"

definition checked_address :: "int \<Rightarrow> int \<Rightarrow> 'a cmd_error + int \<times> int" where
  "checked_address paramID inst =
     (case validateParameterAddress paramID inst of Inl e \<Rightarrow> Inl (ClientError e) | Inr _ \<Rightarrow> Inr (paramID, inst))"

definition paramAndInstance :: "golib \<Rightarrow> (string \<rightharpoonup> any) \<Rightarrow> 'a cmd_error + int \<times> int" where
  "paramAndInstance lib args =
     res_bind (intArg lib args ''param'') (\<lambda>paramID.
     res_bind (instanceArg lib args) (\<lambda>inst. checked_address paramID inst))"

section \<open>Dispatch\<close>

type_synonym ('r, 'a) outcome = "client_op list \<times> 'a cmd_error option \<times> 'r"

definition cmd_authorize :: "('r, 'a) Commander \<Rightarrow> Telecommand \<Rightarrow> 'r \<Rightarrow> 'a option \<times> 'r" where
  "cmd_authorize c tc r =
     (case c_Authorizer c of
        None \<Rightarrow> (None, r)
      | Some auth \<Rightarrow>
          let targetID = (if tc_TargetID tc = [] then c_TargetID c else tc_TargetID tc)
          in auth targetID tc r)"

text \<open>
  Every case of \<open>dispatch\<close> ends the same way: the decoded arguments, then the authorisation, then
  the client calls \<open>act\<close>; an error of either of the first two returns before any call.
\<close>

definition authorized ::
    "('r, 'a) Commander \<Rightarrow> Telecommand \<Rightarrow> 'r \<Rightarrow> 'a cmd_error + 'b \<Rightarrow>
     ('b \<Rightarrow> client_op list \<times> 'a cmd_error option) \<Rightarrow> ('r, 'a) outcome" where
  "authorized c tc r args act =
     (case args of
        Inl e \<Rightarrow> ([], Some e, r)
      | Inr x \<Rightarrow>
          (case cmd_authorize c tc r of
             (Some e, r') \<Rightarrow> ([], Some (CommandRejectedError e), r')
           | (None, r') \<Rightarrow> (case act x of (ops, res) \<Rightarrow> (ops, res, r'))))"

definition lift_result :: "mecom_error option \<Rightarrow> 'a cmd_error option" where
  "lift_result e = map_option ClientError e"

definition address_value ::
    "golib \<Rightarrow> (golib \<Rightarrow> (string \<rightharpoonup> any) \<Rightarrow> string \<Rightarrow> 'a cmd_error + 'b) \<Rightarrow> (string \<rightharpoonup> any) \<Rightarrow> 'a cmd_error + int \<times> int \<times> 'b" where
  "address_value lib arg args =
     res_bind (paramAndInstance lib args) (\<lambda>(p, i). res_bind (arg lib args ''value'') (\<lambda>v. Inr (p, i, v)))"

definition send_float32 :: "client_env \<Rightarrow> bool \<Rightarrow> int \<times> int \<times> u64 \<Rightarrow> client_op list \<times> 'a cmd_error option" where
  "send_float32 env reader x =
     (case x of (p, i, v) \<Rightarrow>
        let w = float32_of_float64 v in
        case ce_WriteFloat32 env p i w of
          Some e \<Rightarrow> ([OpWriteFloat32 p i w], Some (ClientError e))
        | None \<Rightarrow>
            if reader then
              ([OpWriteFloat32 p i w, OpReadFloat32 p i],
               (case ce_ReadFloat32 env p i of
                  Inl _ \<Rightarrow> None
                | Inr got \<Rightarrow> if f32_eq (float32_of_float64 got) w then None else Some ErrReadbackMismatch))
            else ([OpWriteFloat32 p i w], None))"

definition send_int32 :: "client_env \<Rightarrow> bool \<Rightarrow> int \<times> int \<times> int \<Rightarrow> client_op list \<times> 'a cmd_error option" where
  "send_int32 env reader x =
     (case x of (p, i, v) \<Rightarrow>
        let w = word_of_int v in
        case ce_WriteInt32 env p i w of
          Some e \<Rightarrow> ([OpWriteInt32 p i w], Some (ClientError e))
        | None \<Rightarrow>
            if reader then
              ([OpWriteInt32 p i w, OpReadInt32 p i],
               (case ce_ReadInt32 env p i of
                  Inl _ \<Rightarrow> None
                | Inr got \<Rightarrow> if got = w then None else Some ErrReadbackMismatch))
            else ([OpWriteInt32 p i w], None))"

definition user_note_args :: "golib \<Rightarrow> (string \<rightharpoonup> any) \<Rightarrow> 'a cmd_error + int \<times> string" where
  "user_note_args lib args =
     res_bind (instanceArg lib args) (\<lambda>inst.
     res_bind (checked_address 120 inst) (\<lambda>_.
     res_bind (stringArg lib args ''value'') (\<lambda>v. Inr (inst, v))))"

definition dispatch ::
    "golib \<Rightarrow> client_env \<Rightarrow> ('r, 'a) Commander \<Rightarrow> Telecommand \<Rightarrow> 'r \<Rightarrow> ('r, 'a) outcome" where
  "dispatch lib env c tc r =
     (let name = tc_Name tc; args = tc_Arguments tc in
      if name = ''write_float32'' \<or> name = ''set_float32'' then
        authorized c tc r (address_value lib floatArg args) (send_float32 env (c_Reader c))
      else if name = ''write_int32'' \<or> name = ''set_int32'' then
        authorized c tc r (address_value lib intArg args) (send_int32 env (c_Reader c))
      else if name = ''write_string'' \<or> name = ''set_string'' then
        (if \<not> c_StringWriter c then ([], Some (Unsupported name), r)
         else authorized c tc r (address_value lib stringArg args)
           (\<lambda>(p, i, v). ([OpWriteString p i v], lift_result (ce_WriteString env p i v))))
      else if name = ''write_big_data_string'' then
        (if \<not> c_StringWriter c then ([], Some (Unsupported name), r)
         else authorized c tc r (address_value lib stringArg args)
           (\<lambda>(p, i, v). ([OpWriteBigDataString p i v], lift_result (ce_WriteBigDataString env p i v))))
      else if name = ''write_user_note'' then
        (if \<not> c_StringWriter c then ([], Some (Unsupported name), r)
         else authorized c tc r (user_note_args lib args)
           (\<lambda>(i, v). ([OpWriteBigDataString 120 i v], lift_result (ce_WriteBigDataString env 120 i v))))
      else if name = ''reset'' then
        (if \<not> c_Control c then ([], Some (Unsupported name), r)
         else authorized c tc r (Inr ()) (\<lambda>_. ([OpReset], lift_result (ce_Reset env))))
      else if name = ''save_to_flash'' \<or> name = ''save'' then
        (if \<not> c_Control c then ([], Some (Unsupported ''save''), r)
         else authorized c tc r (Inr ()) (\<lambda>_. ([OpSaveToFlash], lift_result (ce_SaveToFlash env))))
      else ([], Some (UnknownCommand name), r))"

datatype CommandStatus = CommandCompleted | CommandRejected | CommandFailed

record 'a CommandEvent =
  ev_CommandID :: string
  ev_SessionID :: string
  ev_IdempotencyKey :: string
  ev_Time :: gotime
  ev_Status :: CommandStatus
  ev_Error :: "'a cmd_error option"

definition send_timeout :: "('r, 'a) Commander \<Rightarrow> int" where
  "send_timeout c = (if c_Timeout c \<le> 0 then 2 * second else c_Timeout c)"

text \<open>
  \<open>SendContext\<close> on a non-nil commander; \<open>env\<close> gives the clients' results under a deadline that many
  nanoseconds away, \<open>now\<close> is the event's time.
\<close>

definition SendContext ::
    "golib \<Rightarrow> (int \<Rightarrow> client_env) \<Rightarrow> gotime \<Rightarrow> ('r, 'a) Commander \<Rightarrow> Telecommand \<Rightarrow> 'r \<Rightarrow>
     client_op list \<times> 'a CommandEvent \<times> 'r" where
  "SendContext lib env now c tc r =
     (if \<not> c_Writer c then
        ([], \<lparr>ev_CommandID = tc_ID tc, ev_SessionID = [], ev_IdempotencyKey = [], ev_Time = now,
              ev_Status = CommandFailed, ev_Error = Some NoWriter\<rparr>, r)
      else
        case dispatch lib (env (send_timeout c)) c tc r of
          (ops, err, r') \<Rightarrow>
            (ops,
             \<lparr>ev_CommandID = tc_ID tc, ev_SessionID = tc_SessionID tc, ev_IdempotencyKey = tc_IdempotencyKey tc,
              ev_Time = now,
              ev_Status = (case err of
                  None \<Rightarrow> CommandCompleted
                | Some (CommandRejectedError _) \<Rightarrow> CommandRejected
                | Some _ \<Rightarrow> CommandFailed),
              ev_Error = err\<rparr>, r'))"

section \<open>What reaches the clients\<close>

fun op_address :: "client_op \<Rightarrow> (int \<times> int) option" where
  "op_address (OpWriteFloat32 p i _) = Some (p, i)"
| "op_address (OpWriteInt32 p i _) = Some (p, i)"
| "op_address (OpReadFloat32 p i) = Some (p, i)"
| "op_address (OpReadInt32 p i) = Some (p, i)"
| "op_address (OpWriteString p i _) = Some (p, i)"
| "op_address (OpWriteBigDataString p i _) = Some (p, i)"
| "op_address _ = None"

lemma authorized_ops:
  "authorized c tc r args act = (ops, err, r') \<Longrightarrow> ops \<noteq> [] \<Longrightarrow>
   \<exists>x. args = Inr x \<and> cmd_authorize c tc r = (None, r') \<and> act x = (ops, err)"
  by (auto simp: authorized_def split: sum.splits prod.splits option.splits)

lemma authorized_refused:
  "authorized c tc r args act = (ops, Some (CommandRejectedError e), r') \<Longrightarrow>
   (\<And>x e. snd (act x) \<noteq> Some (CommandRejectedError e)) \<Longrightarrow> (\<And>e. args \<noteq> Inl (CommandRejectedError e)) \<Longrightarrow>
   ops = [] \<and> cmd_authorize c tc r = (Some e, r')"
  by (auto simp: authorized_def split: sum.splits prod.splits option.splits) (metis snd_conv)+

lemma send_float32_ops: "send_float32 env rd (p, i, v) = (ops, err) \<Longrightarrow> op \<in> set ops \<Longrightarrow> op_address op = Some (p, i)"
  by (auto simp: send_float32_def Let_def split: option.splits if_splits)

lemma send_int32_ops: "send_int32 env rd (p, i, v) = (ops, err) \<Longrightarrow> op \<in> set ops \<Longrightarrow> op_address op = Some (p, i)"
  by (auto simp: send_int32_def Let_def split: option.splits if_splits)

lemma checked_address_Inr: "checked_address p i = Inr q \<longleftrightarrow> validateParameterAddress p i = Inr () \<and> q = (p, i)"
  by (auto simp: checked_address_def split: sum.splits)

lemma address_value_Inr:
  fixes arg :: "golib \<Rightarrow> (string \<rightharpoonup> any) \<Rightarrow> string \<Rightarrow> 'a cmd_error + 'b"
  shows "address_value lib arg args = Inr (p, i, v) \<Longrightarrow>
   (intArg lib args ''param'' :: 'a cmd_error + int) = Inr p \<and> validateParameterAddress p i = Inr ()"
  by (auto simp: address_value_def paramAndInstance_def res_bind_eq_Inr checked_address_Inr)

lemma user_note_Inr: "user_note_args lib args = Inr (i, v) \<Longrightarrow> validateParameterAddress 120 i = Inr ()"
  by (auto simp: user_note_args_def res_bind_eq_Inr checked_address_Inr)

text \<open>Whatever reaches a client was authorised, and where the address of the call comes from.\<close>

lemma dispatch_ops:
  assumes "dispatch lib env (c :: ('r, 'a) Commander) tc r = (ops, err, r')" and "op \<in> set ops"
  shows "cmd_authorize c tc r = (None, r')"
    and "op_address op = Some (p, i) \<Longrightarrow> validateParameterAddress p i = Inr () \<and>
      (p = 120 \<and> tc_Name tc = ''write_user_note'' \<or> (intArg lib (tc_Arguments tc) ''param'' :: 'a cmd_error + int) = Inr p)"
proof -
  have ne: "ops \<noteq> []" using assms(2) by auto
  note ops = authorized_ops [OF _ ne]
  show "cmd_authorize c tc r = (None, r')"
    using assms(1) ne by (auto simp: dispatch_def Let_def dest: ops split: if_splits)
  assume a: "op_address op = Some (p, i)"
  from assms(1) ne
  consider (usernote) i' v where "tc_Name tc = ''write_user_note''" "user_note_args lib (tc_Arguments tc) = (Inr (i', v) :: 'a cmd_error + _)"
      "ops = [OpWriteBigDataString 120 i' v]"
    | (ctl) "ops = [OpReset] \<or> ops = [OpSaveToFlash]"
    | (flt) p' i' v where "address_value lib floatArg (tc_Arguments tc) = (Inr (p', i', v) :: 'a cmd_error + _)"
      "send_float32 env (c_Reader c) (p', i', v) = (ops, err)"
    | (num) p' i' v where "address_value lib intArg (tc_Arguments tc) = (Inr (p', i', v) :: 'a cmd_error + _)"
      "send_int32 env (c_Reader c) (p', i', v) = (ops, err)"
    | (str) p' i' v where "address_value lib stringArg (tc_Arguments tc) = (Inr (p', i', v) :: 'a cmd_error + _)"
      "ops = [OpWriteString p' i' v] \<or> ops = [OpWriteBigDataString p' i' v]"
    by (auto simp: dispatch_def Let_def dest!: ops split: if_splits)
  then show "validateParameterAddress p i = Inr () \<and>
      (p = 120 \<and> tc_Name tc = ''write_user_note'' \<or> (intArg lib (tc_Arguments tc) ''param'' :: 'a cmd_error + int) = Inr p)"
  proof cases
    case usernote
    then show ?thesis using a assms(2) user_note_Inr by auto
  next
    case ctl
    then show ?thesis using a assms(2) by auto
  next
    case flt
    then show ?thesis using a send_float32_ops [OF flt(2) assms(2)] address_value_Inr [OF flt(1)] by simp
  next
    case num
    then show ?thesis using a send_int32_ops [OF num(2) assms(2)] address_value_Inr [OF num(1)] by simp
  next
    case str
    then show ?thesis using a assms(2) address_value_Inr [OF str(1)] by auto
  qed
qed

section \<open>Properties\<close>

text \<open>
  What an integer write does: with decoded arguments and an authorisation, \<open>write_int32\<close> makes
  one write of the value truncated to 32 bits and, when that succeeds and a reader is configured,
  one readback of the same address; the event is completed exactly if the write succeeded and the
  readback failed or returned the truncated value.  The truncated value is the requested one only
  between \<open>-2^31\<close> and \<open>2^31 - 1\<close>: a value outside is written wrapped, and still confirmed.
\<close>

theorem commander_int32_outcome:
  fixes c :: "('r, 'a) Commander"
  assumes "c_Writer c" and "tc_Name tc \<in> {''write_int32'', ''set_int32''}"
    and "(address_value lib intArg (tc_Arguments tc) :: 'a cmd_error + int \<times> int \<times> int) = Inr (p, i, v)"
    and "cmd_authorize c tc r = (None, r1)"
    and "SendContext lib env now c tc r = (ops, ev, r')"
    and "w = word_of_int v" and "ok = (ce_WriteInt32 (env (send_timeout c)) p i w = None)"
  shows "ops = OpWriteInt32 p i w # (if ok \<and> c_Reader c then [OpReadInt32 p i] else []) \<and> r' = r1 \<and>
    (ev_Status ev = CommandCompleted \<longleftrightarrow>
       ok \<and> (\<not> c_Reader c \<or> (case ce_ReadInt32 (env (send_timeout c)) p i of Inl _ \<Rightarrow> True | Inr got \<Rightarrow> got = w))) \<and>
    (sint w = v \<longleftrightarrow> - (2 ^ 31) \<le> v \<and> v < 2 ^ 31)"
proof -
  have "dispatch lib (env (send_timeout c)) c tc r =
      (case send_int32 (env (send_timeout c)) (c_Reader c) (p, i, v) of (ops, err) \<Rightarrow> (ops, err, r1))"
    using assms(2-4) by (auto simp: dispatch_def authorized_def split: prod.splits)
  moreover have "sint w = v \<longleftrightarrow> - (2 ^ 31) \<le> v \<and> v < 2 ^ 31"
    using sint_range_size [of w] assms(6) by (auto simp: word_size signed_of_int signed_take_bit_int_eq_self_iff)
  ultimately show ?thesis
    using assms(1,5-7)
    by (auto simp: SendContext_def send_int32_def Let_def split: option.splits sum.splits if_splits prod.splits)
qed

definition demo_lib :: golib where
  "demo_lib = \<lparr>ParseFloat64 = (\<lambda>s. if s = ''NaN'' then Inr f64_nan else Inl NumSyntax), Sprint = (\<lambda>_. []),
     int64_overflow = (\<lambda>_. - (2 ^ 63))\<rparr>"

definition echo_client :: client_env where
  "echo_client = \<lparr>ce_WriteFloat32 = (\<lambda>_ _ _. None), ce_WriteInt32 = (\<lambda>_ _ _. None), ce_ReadFloat32 = (\<lambda>_ _. Inl ErrTimeout),
     ce_ReadInt32 = (\<lambda>_ _. Inr 5), ce_WriteString = (\<lambda>_ _ _. None), ce_WriteBigDataString = (\<lambda>_ _ _. None),
     ce_Reset = None, ce_SaveToFlash = None\<rparr>"

definition wrapping_command :: Telecommand where
  "wrapping_command = \<lparr>tc_ID = [], tc_SessionID = [], tc_IdempotencyKey = [], tc_TargetID = [], tc_Name = ''write_int32'',
     tc_Arguments = [''param'' \<mapsto> AnyInt 2010, ''value'' \<mapsto> AnyInt 4294967301], tc_Metadata = Map.empty\<rparr>"

theorem commander_int32_outcome_witness:
  "fst (SendContext demo_lib (\<lambda>_. echo_client) 0 (NewCommander True False False 0 :: (unit, unit) Commander) wrapping_command ()) =
     [OpWriteInt32 2010 1 5, OpReadInt32 2010 1]"
proof -
  let ?c = "NewCommander True False False 0 :: (unit, unit) Commander"
  obtain ops ev r' where s: "SendContext demo_lib (\<lambda>_. echo_client) 0 ?c wrapping_command () = (ops, ev, r')"
    by (metis prod.exhaust)
  have c: "c_Writer ?c" "c_Reader ?c" "cmd_authorize ?c wrapping_command () = (None, ())"
    by (simp_all add: NewCommander_def cmd_authorize_def)
  have n: "tc_Name wrapping_command \<in> {''write_int32'', ''set_int32''}" by (simp add: wrapping_command_def)
  have a: "(address_value demo_lib intArg (tc_Arguments wrapping_command) :: unit cmd_error + _) = Inr (2010, 1, 4294967301)"
    by (simp add: wrapping_command_def address_value_def paramAndInstance_def intArg_def instanceArg_def checked_address_def
        validateParameterAddress_def maxMeComParameterID_def minMeComInstance_def maxMeComInstance_def)
  from commander_int32_outcome [OF c(1) n a c(3) s refl refl] c(2) show ?thesis
    unfolding s by (simp add: echo_client_def)
qed

end
