(* ===== verification/Sentinels.thy ===== *)
theory Sentinels
  imports Frames
begin

text \<open>
  The sentinel errors of \<open>mecom/errors.go\<close> (and those of the lease registry and the gateway) that
  \<open>errors.Is\<close> is asked for, and which of them the errors of package \<open>mecom\<close> wrap.
\<close>

datatype sentinel =
    IsUnreachable | IsTimeout | IsBadAddress | IsUnknownParameter | IsParameterReadOnly | IsWriteRejected
  | IsTransportNotSupported | IsInvalidArgument | IsReadbackMismatch | IsInvalidToken | IsUnknownDevice
  | IsExpired | IsUnknownGatewayDevice

fun mecom_is :: "mecom_error \<Rightarrow> sentinel option" where
  "mecom_is (BadParameterID _) = Some IsInvalidArgument"
| "mecom_is (BadParameterInstance _) = Some IsInvalidArgument"
| "mecom_is (ParameterAt _ e) = mecom_is e"
| "mecom_is ErrTimeout = Some IsTimeout"
| "mecom_is (ErrUnknownParameter _ _) = Some IsUnknownParameter"
| "mecom_is (SDOAbortUnknown _ _ _) = Some IsUnknownParameter"
| "mecom_is (ErrParameterReadOnly _ _) = Some IsParameterReadOnly"
| "mecom_is (WrongKind _ _) = Some IsInvalidArgument"
| "mecom_is (ErrWriteRejected _ _ _) = Some IsWriteRejected"
| "mecom_is ErrTransportNotSupported = Some IsTransportNotSupported"
| "mecom_is _ = None"

end
