(* ===== verification/GatewayWrite.thy ===== *)
theory GatewayWrite
  imports Commander WriteLease Sentinels
begin

text \<open>
  The write endpoint of the HTTP gateway, \<open>cmd/mecomgw\<close>: \<open>server.authorize\<close>, \<open>handleWrite\<close> with
  the third-party power-control branch, the back-off on a device fault, the readback verification,
  the classification of errors and the command log.  The gateway's state is its lease registry,
  its virtual parameters, its command log and the bindings it has torn down.  What the HTTP request
  and the bus deliver during one call is the record \<open>write_env\<close>; the trace lists every call that
  reaches the device's client, in order.  A virtual parameter's key, the text
  \<open>device:parameter:instance\<close>, is the triple it determines.
\<close>

section \<open>Errors and their classification\<close>

datatype auth_error = LeaseTokenRequired | LeaseFault lease_error

datatype gw_error =
    UnknownGatewayDevice
  | BindError "sentinel option"
  | WritesUnsupported
  | InvalidJSON
  | PowerControlDisabled
  | PowerTargetNotANumber
  | PowerTargetOutOfBounds
  | NotAuthorized auth_error
  | DeviceReportsError int
  | CommandFault "auth_error cmd_error"
  | ReadbackNoClient
  | ReadbackFault mecom_error
  | ReadbackCount nat
  | ReadbackUnknownParameter int
  | ReadbackDiffers
  | WriteFault mecom_error

fun lease_is :: "lease_error \<Rightarrow> sentinel option" where
  "lease_is ErrInvalidToken = Some IsInvalidToken"
| "lease_is ErrUnknownDevice = Some IsUnknownDevice"
| "lease_is ErrExpired = Some IsExpired"
| "lease_is _ = None"

fun auth_is :: "auth_error \<Rightarrow> sentinel option" where
  "auth_is LeaseTokenRequired = None"
| "auth_is (LeaseFault e) = lease_is e"

fun gw_is :: "gw_error \<Rightarrow> sentinel option" where
  "gw_is UnknownGatewayDevice = Some IsUnknownGatewayDevice"
| "gw_is (BindError s) = s"
| "gw_is (NotAuthorized e) = auth_is e"
| "gw_is (CommandFault (CommandRejectedError e)) = auth_is e"
| "gw_is (CommandFault (ClientError e)) = mecom_is e"
| "gw_is (CommandFault ErrReadbackMismatch) = Some IsReadbackMismatch"
| "gw_is (ReadbackFault e) = mecom_is e"
| "gw_is (WriteFault e) = mecom_is e"
| "gw_is _ = None"

definition is_lease_error :: "gw_error \<Rightarrow> bool" where
  "is_lease_error e \<longleftrightarrow> gw_is e \<in> {Some IsInvalidToken, Some IsUnknownDevice, Some IsExpired}"

definition gatewayCommandErrorCategory :: "gw_error option \<Rightarrow> string" where
  "gatewayCommandErrorCategory err =
     (case err of
        None \<Rightarrow> []
      | Some e \<Rightarrow>
          if is_lease_error e then ''lease''
          else if gw_is e \<in> {Some IsUnreachable, Some IsTimeout} then ''transport''
          else if gw_is e \<in> {Some IsUnknownParameter, Some IsParameterReadOnly, Some IsWriteRejected,
              Some IsTransportNotSupported, Some IsBadAddress, Some IsInvalidArgument} then ''mecom''
          else ''gateway'')"

definition shouldResetDeviceBinding :: "gw_error option \<Rightarrow> bool" where
  "shouldResetDeviceBinding err =
     (case err of
        None \<Rightarrow> False
      | Some e \<Rightarrow>
          if gw_is e \<in> {Some IsUnreachable, Some IsTimeout} then True
          else if gw_is e \<in> {Some IsUnknownParameter, Some IsParameterReadOnly, Some IsWriteRejected,
              Some IsTransportNotSupported, Some IsBadAddress, Some IsInvalidArgument} then False
          else True)"

definition httpStatusForError :: "gw_error \<Rightarrow> nat" where
  "httpStatusForError e =
     (case gw_is e of
        Some IsUnreachable \<Rightarrow> 503
      | Some IsTimeout \<Rightarrow> 504
      | Some IsBadAddress \<Rightarrow> 400
      | Some IsInvalidArgument \<Rightarrow> 400
      | Some IsUnknownParameter \<Rightarrow> 404
      | Some IsParameterReadOnly \<Rightarrow> 403
      | Some IsWriteRejected \<Rightarrow> 409
      | Some IsTransportNotSupported \<Rightarrow> 501
      | Some IsReadbackMismatch \<Rightarrow> 409
      | _ \<Rightarrow> 500)"

definition bindStatusForError :: "gw_error \<Rightarrow> nat" where
  "bindStatusForError e = (if gw_is e = Some IsUnknownGatewayDevice then 404 else httpStatusForError e)"

definition gatewayCommandHTTPStatus :: "CommandStatus \<Rightarrow> gw_error option \<Rightarrow> nat" where
  "gatewayCommandHTTPStatus status err =
     (case status of
        CommandCompleted \<Rightarrow> 200
      | CommandRejected \<Rightarrow> (case err of Some e \<Rightarrow> if is_lease_error e then 423 else 400 | None \<Rightarrow> 400)
      | CommandFailed \<Rightarrow> (case err of Some e \<Rightarrow> if gw_is e = Some IsReadbackMismatch then 409 else 400 | None \<Rightarrow> 400))"

section \<open>The gateway\<close>

datatype gw_value = GVInt32 u32 | GVFloat u64

datatype gw_status = StFailed | StBlocked | StCompleted | StRejected | StReadbackMismatch | StVerifyFailed

record gatewayCommandActivity =
  ga_Time :: gotime
  ga_TargetID :: string
  ga_DeviceID :: string
  ga_ParamID :: int
  ga_Instance :: int
  ga_SignalName :: string
  ga_SignalUnit :: string
  ga_RequestedValue :: "any option"
  ga_ConfirmedValue :: "gw_value option"
  ga_PrevValue :: "gw_value option"
  ga_ReadbackMatched :: "bool option"
  ga_Status :: gw_status
  ga_Transport :: string
  ga_LeaseHolder :: string
  ga_Error :: "gw_error option"
  ga_ErrorCategory :: string
  ga_HTTPStatus :: nat
  ga_IdempotencyKey :: string

record gateway =
  gs_leases :: Registry
  gs_virtual :: "string \<times> int \<times> int \<rightharpoonup> u64"
  gs_log :: "gatewayCommandActivity list"
  gs_resets :: "(string \<times> gw_error) list"

definition recordCommandActivity :: "gatewayCommandActivity \<Rightarrow> gateway \<Rightarrow> gateway" where
  "recordCommandActivity act st =
     (let log = gs_log st @ [act] in
      st\<lparr>gs_log := (if 100 < length log then drop (length log - 100) log else log)\<rparr>)"

definition getVirtualParam :: "string \<Rightarrow> int \<Rightarrow> int \<Rightarrow> u64 \<Rightarrow> gateway \<Rightarrow> u64" where
  "getVirtualParam deviceID paramID inst def st =
     (case gs_virtual st (deviceID, paramID, inst) of Some v \<Rightarrow> v | None \<Rightarrow> def)"

definition setVirtualParam :: "string \<Rightarrow> int \<Rightarrow> int \<Rightarrow> u64 \<Rightarrow> gateway \<Rightarrow> gateway" where
  "setVirtualParam deviceID paramID inst val st =
     st\<lparr>gs_virtual := (gs_virtual st)((deviceID, paramID, inst) \<mapsto> val)\<rparr>"

text \<open>\<open>server.authorize\<close>; \<open>now\<close> is the time the registry reads.\<close>

definition gw_authorize :: "gotime \<Rightarrow> string \<Rightarrow> Telecommand \<Rightarrow> Registry \<Rightarrow> auth_error option \<times> Registry" where
  "gw_authorize now targetID tc r =
     (let token = (case tc_Metadata tc ''lease_token'' of None \<Rightarrow> [] | Some t \<Rightarrow> TrimSpace t) in
      if token = [] then (Some LeaseTokenRequired, r)
      else case Validate targetID token now r of
        (Inl e, r') \<Rightarrow> (Some (LeaseFault e), r')
      | (Inr _, r') \<Rightarrow> (None, r'))"

text \<open>The commander that \<open>bind\<close> builds for a client with the given optional interfaces.\<close>

definition bind_commander ::
    "gotime \<Rightarrow> string \<Rightarrow> bool \<times> bool \<times> bool \<Rightarrow> (Registry, auth_error) Commander" where
  "bind_commander now deviceID caps =
     (case caps of (isReader, isStringWriter, isControl) \<Rightarrow>
        (NewCommander isReader isStringWriter isControl (2 * second))
          \<lparr>c_TargetID := deviceID, c_Authorizer := Some (gw_authorize now)\<rparr>)"

definition commanderTransportName :: "('r, 'a) Commander \<Rightarrow> string" where
  "commanderTransportName c =
     (if c_StringWriter c then ''string'' else if c_Writer c then ''mecom'' else [])"

definition leaseHolderForToken :: "gotime \<Rightarrow> string \<Rightarrow> Registry \<Rightarrow> string \<times> Registry" where
  "leaseHolderForToken now token0 r =
     (let token = TrimSpace token0 in
      if token = [] then ([], r)
      else case List now r of
        (ls, r') \<Rightarrow> ((case find (\<lambda>l. l_Token l = token) ls of Some l \<Rightarrow> l_Holder l | None \<Rightarrow> []), r'))"

section \<open>Requests\<close>

record writeRequest =
  wr_Name :: string
  wr_Arguments :: "string \<rightharpoonup> any"
  wr_Metadata :: "string \<rightharpoonup> string"

fun floatFromAny :: "golib \<Rightarrow> any option \<Rightarrow> u64 option" where
  "floatFromAny lib (Some (AnyFloat64 x)) = Some x"
| "floatFromAny lib (Some (AnyFloat32 x)) = Some (float64_of_float32 x)"
| "floatFromAny lib (Some (AnyInt x)) = Some (float64_of_int x)"
| "floatFromAny lib (Some (AnyInt32 x)) = Some (float64_of_int (sint x))"
| "floatFromAny lib (Some (AnyInt64 x)) = Some (float64_of_int x)"
| "floatFromAny lib (Some (AnyNumber s)) = (case ParseFloat64 lib s of Inl _ \<Rightarrow> None | Inr f \<Rightarrow> Some f)"
| "floatFromAny lib (Some (AnyString s)) = (case ParseFloat64 lib (TrimSpace s) of Inl _ \<Rightarrow> None | Inr f \<Rightarrow> Some f)"
| "floatFromAny lib _ = None"

text \<open>
  \<open>i, _ := x.Int64()\<close> keeps the value \<open>strconv\<close> returns beside an error: zero for a syntax error,
  the nearest bound of \<open>int64\<close> for one out of range.
\<close>

definition clamped_Atoi :: "string \<Rightarrow> int" where
  "clamped_Atoi s =
     (case Atoi s of
        Inr n \<Rightarrow> n
      | Inl NumSyntax \<Rightarrow> 0
      | Inl NumRange \<Rightarrow> if s \<noteq> [] \<and> hd s = CHR ''-'' then - (2 ^ 63) else 2 ^ 63 - 1)"

fun intFromAny :: "golib \<Rightarrow> any option \<Rightarrow> int" where
  "intFromAny lib (Some (AnyFloat64 x)) = int64_of_f64 lib x"
| "intFromAny lib (Some (AnyFloat32 x)) = int64_of_f64 lib (float64_of_float32 x)"
| "intFromAny lib (Some (AnyInt x)) = x"
| "intFromAny lib (Some (AnyInt64 x)) = x"
| "intFromAny lib (Some (AnyNumber s)) = clamped_Atoi s"
| "intFromAny lib (Some (AnyString s)) = clamped_Atoi (TrimSpace s)"
| "intFromAny lib _ = 0"

text \<open>The virtual parameters known to \<open>gatewayParameterByID\<close>; \<open>cat\<close> looks up the device catalogues.\<close>

definition virtual_parameter :: "int \<Rightarrow> string \<Rightarrow> string \<Rightarrow> bool \<Rightarrow> string \<Rightarrow> string \<Rightarrow> Parameter" where
  "virtual_parameter i name unit writable role kind =
     \<lparr>par_ID = i, par_Instance = 1, par_Name = name, par_Unit = unit, par_Type = DataTypeFloat32,
      par_Writable = writable, par_Role = role, par_Kind = kind\<rparr>"

definition power_target :: Parameter where
  "power_target = virtual_parameter 2035 ''Third-Party Power Control Target'' ''W'' True ''control'' ''setpoint''"

definition gatewayWriteParameterByID :: "(int \<rightharpoonup> Parameter) \<Rightarrow> int \<Rightarrow> Parameter option" where
  "gatewayWriteParameterByID writeParams i = (if i = 2035 then Some power_target else writeParams i)"

definition gatewayParameterByID :: "(int \<rightharpoonup> Parameter) \<Rightarrow> int \<Rightarrow> Parameter option" where
  "gatewayParameterByID cat i =
     (if i = 2035 then Some power_target
      else if i = 2036 then Some (virtual_parameter 2036 ''Third-Party Measured Resistance'' ''Ohm'' False ''monitor'' ''telemetry'')
      else if i = 2038 then Some (virtual_parameter 2038 ''Third-Party Power Control Status'' [] False ''monitor'' ''telemetry'')
      else cat i)"

definition signal_of :: "(int \<rightharpoonup> Parameter) \<Rightarrow> (int \<rightharpoonup> Parameter) \<Rightarrow> int \<Rightarrow> string \<times> string" where
  "signal_of writeParams cat i =
     (case gatewayWriteParameterByID writeParams i of
        Some p \<Rightarrow> (par_Name p, par_Unit p)
      | None \<Rightarrow> (case gatewayParameterByID cat i of Some p \<Rightarrow> (par_Name p, par_Unit p) | None \<Rightarrow> ([], [])))"

definition gatewayCommandTargetFromTelecommand ::
    "golib \<Rightarrow> (int \<rightharpoonup> Parameter) \<Rightarrow> (int \<rightharpoonup> Parameter) \<Rightarrow> writeRequest \<Rightarrow> int \<times> int \<times> (string \<times> string) \<times> any option" where
  "gatewayCommandTargetFromTelecommand lib writeParams cat req =
     (let paramID = intFromAny lib (wr_Arguments req ''param'');
          inst = intFromAny lib (wr_Arguments req ''instance'')
      in (paramID, inst, signal_of writeParams cat paramID, wr_Arguments req ''value''))"

definition gatewayWriteParameterFromRequest ::
    "golib \<Rightarrow> (int \<rightharpoonup> Parameter) \<Rightarrow> writeRequest \<Rightarrow> gw_error + (Parameter \<times> u64) option" where
  "gatewayWriteParameterFromRequest lib cat req =
     (let paramID = intFromAny lib (wr_Arguments req ''param'');
          inst0 = intFromAny lib (wr_Arguments req ''instance'');
          inst = (if inst0 = 0 then 1 else inst0)
      in if paramID = 0 \<or> wr_Arguments req ''value'' = None then Inr None
         else case floatFromAny lib (wr_Arguments req ''value'') of
           None \<Rightarrow> Inr None
         | Some want \<Rightarrow>
             (case gatewayParameterByID cat paramID of
                None \<Rightarrow> Inl (ReadbackUnknownParameter paramID)
              | Some p \<Rightarrow>
                  let typ = (if Contains (ToLower (wr_Name req)) ''int32'' then DataTypeInt32
                             else if Contains (ToLower (wr_Name req)) ''float32'' then DataTypeFloat32
                             else par_Type p);
                      q = p\<lparr>par_Instance := inst, par_Type := typ\<rparr>
                  in if typ \<noteq> DataTypeInt32 \<and> typ \<noteq> DataTypeFloat32 then Inr None else Inr (Some (q, want))))"

definition int32_of_rounded :: "golib \<Rightarrow> u64 \<Rightarrow> u32" where
  "int32_of_rounded lib v =
     (if f64_finite v \<and> - (2 ^ 31) \<le> f64_round v \<and> f64_round v < 2 ^ 31 then word_of_int (f64_round v)
      else word_of_int (int64_overflow lib v))"

definition gatewayConfirmedWriteValue :: "golib \<Rightarrow> DataType \<Rightarrow> u64 \<Rightarrow> gw_value" where
  "gatewayConfirmedWriteValue lib typ v =
     (if typ = DataTypeInt32 then GVInt32 (int32_of_rounded lib v) else GVFloat v)"

text \<open>The tolerance uses the constants \<open>1e-4\<close> and \<open>1e-5\<close>, given by their bit patterns.\<close>

definition gatewayWriteValueMatches :: "golib \<Rightarrow> DataType \<Rightarrow> u64 \<Rightarrow> u64 \<Rightarrow> bool" where
  "gatewayWriteValueMatches lib typ got want =
     (if typ = DataTypeInt32 then int32_of_rounded lib got = int32_of_rounded lib want
      else let tolerance = f64_max 0x3f1a36e2eb1c432d (f64_mul (f64_abs want) 0x3ee4f8b588e368f1)
        in f64_le (f64_abs (f64_sub got want)) tolerance)"

section \<open>The write handler\<close>

record bound_device =
  bo_commander :: "(bool \<times> bool \<times> bool) option"
  bo_client :: bool
  bo_powerControl :: bool

record write_env =
  we_time :: gotime
  we_bind :: "gw_error + bound_device"
  we_token :: string
  we_body :: "writeRequest option"
  we_idempotencyKey :: string
  we_listTime :: gotime
  we_authTime :: gotime
  we_errorRead :: "mecom_error + u64 list"
  we_prevRead :: "mecom_error + u64 list"
  we_sendTime :: gotime
  we_validateTime :: gotime
  we_client :: "int \<Rightarrow> client_env"
  we_verifyRead :: "mecom_error + u64 list"
  we_writeParams :: "int \<rightharpoonup> Parameter"
  we_catalogue :: "int \<rightharpoonup> Parameter"

datatype gw_op = GwReadBulk int int | GwClient client_op

type_synonym response = "gw_op list \<times> nat \<times> gateway"

definition respond :: "gw_op list \<Rightarrow> gatewayCommandActivity \<Rightarrow> nat \<Rightarrow> gateway \<Rightarrow> response" where
  "respond ops act status st = (ops, status, recordCommandActivity act st)"

definition failing ::
    "gw_error \<Rightarrow> string \<Rightarrow> nat \<Rightarrow> gatewayCommandActivity \<Rightarrow> gatewayCommandActivity" where
  "failing e category status act =
     act\<lparr>ga_Error := Some e, ga_ErrorCategory := category, ga_HTTPStatus := status\<rparr>"

text \<open>\<open>writeJSON\<close> answers 500 when the body does not marshal: JSON has no NaN and no infinity.\<close>

fun marshals :: "gw_value option \<Rightarrow> bool" where
  "marshals (Some (GVFloat v)) = f64_finite v"
| "marshals _ = True"

definition writeJSON :: "nat \<Rightarrow> gw_value option list \<Rightarrow> nat" where
  "writeJSON status vals = (if list_all marshals vals then status else 500)"

definition gatewayWriteAllowedDuringDeviceError :: "golib \<Rightarrow> writeRequest \<Rightarrow> gatewayCommandActivity \<Rightarrow> bool" where
  "gatewayWriteAllowedDuringDeviceError lib req act =
     (if wr_Name req = ''reset'' then True
      else if ga_ParamID act = 2035 then
        (case floatFromAny lib (wr_Arguments req ''value'') of Some v \<Rightarrow> f64_eq_int v 0 | None \<Rightarrow> False)
      else False)"

text \<open>The back-off: the reads it makes and, when it blocks, the error number it reports.\<close>

definition gatewayWriteDeviceErrorBackoff ::
    "golib \<Rightarrow> write_env \<Rightarrow> bool \<Rightarrow> writeRequest \<Rightarrow> gatewayCommandActivity \<Rightarrow> gw_op list \<times> int option" where
  "gatewayWriteDeviceErrorBackoff lib env client req act =
     (if \<not> client then ([], None)
      else ([GwReadBulk 105 1],
        (case we_errorRead env of
           Inr [errorNumber] \<Rightarrow>
             if f64_eq_int errorNumber 0 \<or> f64_isNaN errorNumber then None
             else if gatewayWriteAllowedDuringDeviceError lib req act then None
             else Some (f64_round errorNumber)
         | _ \<Rightarrow> None)))"

definition blocked_response :: "gw_op list \<Rightarrow> int \<Rightarrow> gatewayCommandActivity \<Rightarrow> gateway \<Rightarrow> response" where
  "blocked_response ops n act st =
     respond ops ((failing (DeviceReportsError n) ''device_error'' 409 act)\<lparr>ga_Status := StBlocked\<rparr>) 409 st"

definition auth_category :: "gw_error \<Rightarrow> string" where
  "auth_category e =
     (let c = gatewayCommandErrorCategory (Some e) in if c = [] \<or> c = ''gateway'' then ''lease'' else c)"

definition denied :: "auth_error \<Rightarrow> gatewayCommandActivity \<Rightarrow> gateway \<Rightarrow> response" where
  "denied e act st = respond [] (failing (NotAuthorized e) (auth_category (NotAuthorized e)) 423 act) 423 st"

text \<open>The branch for parameter 2035, which writes a virtual parameter and never the device.\<close>

definition power_write ::
    "golib \<Rightarrow> write_env \<Rightarrow> bound_device \<Rightarrow> writeRequest \<Rightarrow> Telecommand \<Rightarrow> string \<Rightarrow>
     gatewayCommandActivity \<Rightarrow> gateway \<Rightarrow> response" where
  "power_write lib env bound req tc deviceID act st =
     (if \<not> bo_powerControl bound then respond [] (failing PowerControlDisabled ''authorization'' 403 act) 403 st
      else case gw_authorize (we_authTime env) deviceID tc (gs_leases st) of
        (Some e, r) \<Rightarrow> denied e act (st\<lparr>gs_leases := r\<rparr>)
      | (None, r) \<Rightarrow>
          let st1 = st\<lparr>gs_leases := r\<rparr> in
          case floatFromAny lib (wr_Arguments req ''value'') of
            None \<Rightarrow> respond [] (failing PowerTargetNotANumber ''validation'' 400 act) 400 st1
          | Some val \<Rightarrow>
              if f64_less_int val 0 \<or> f64_greater_int val 500 then
                respond [] (failing PowerTargetOutOfBounds ''validation'' 400 act) 400 st1
              else case gatewayWriteDeviceErrorBackoff lib env (bo_client bound) req act of
                (ops, Some n) \<Rightarrow> blocked_response ops n act st1
              | (ops, None) \<Rightarrow>
                  respond ops
                    (act\<lparr>ga_HTTPStatus := 200, ga_Status := StCompleted,
                       ga_ConfirmedValue := Some (GVFloat val), ga_ReadbackMatched := Some True\<rparr>)
                    (writeJSON 200 [Some (GVFloat val), ga_PrevValue act])
                    (setVirtualParam deviceID (ga_ParamID act) (ga_Instance act) val st1))"

definition verifyGatewayWrite ::
    "golib \<Rightarrow> write_env \<Rightarrow> bool \<Rightarrow> writeRequest \<Rightarrow> string \<Rightarrow> gateway \<Rightarrow>
     gw_op list \<times> (gw_error + gw_value option \<times> bool option)" where
  "verifyGatewayWrite lib env client req deviceID st =
     (case gatewayWriteParameterFromRequest lib (we_catalogue env) req of
        Inl e \<Rightarrow> ([], Inl e)
      | Inr None \<Rightarrow> ([], Inr (None, None))
      | Inr (Some (p, want)) \<Rightarrow>
          if par_ID p = 2035 then
            (let confirmed = getVirtualParam deviceID (par_ID p) (par_Instance p) 0 st
             in ([], Inr (Some (GVFloat confirmed), Some (gatewayWriteValueMatches lib (par_Type p) confirmed want))))
          else if \<not> client then ([], Inl ReadbackNoClient)
          else ([GwReadBulk (par_ID p) (par_Instance p)],
            (case we_verifyRead env of
               Inl e \<Rightarrow> Inl (ReadbackFault e)
             | Inr [v] \<Rightarrow> Inr (Some (gatewayConfirmedWriteValue lib (par_Type p) v),
                              Some (gatewayWriteValueMatches lib (par_Type p) v want))
             | Inr vs \<Rightarrow> Inl (ReadbackCount (length vs)))))"

definition reset_if :: "bool \<Rightarrow> string \<Rightarrow> gw_error \<Rightarrow> gateway \<Rightarrow> gateway" where
  "reset_if b deviceID cause st = (if b then st\<lparr>gs_resets := gs_resets st @ [(deviceID, cause)]\<rparr> else st)"

definition completed_response ::
    "golib \<Rightarrow> write_env \<Rightarrow> bool \<Rightarrow> writeRequest \<Rightarrow> string \<Rightarrow> gw_op list \<Rightarrow> gatewayCommandActivity \<Rightarrow> gateway \<Rightarrow> response" where
  "completed_response lib env client req deviceID ops act st =
     (case verifyGatewayWrite lib env client req deviceID st of
        (ops1, Inl e) \<Rightarrow>
          respond (ops @ ops1)
            ((failing e (gatewayCommandErrorCategory (Some e)) (httpStatusForError e) act)\<lparr>ga_Status := StVerifyFailed\<rparr>)
            (httpStatusForError e)
            (reset_if (shouldResetDeviceBinding (Some e)) deviceID e st)
      | (ops1, Inr (confirmed, matched)) \<Rightarrow>
          let act1 = act\<lparr>ga_ConfirmedValue := confirmed, ga_ReadbackMatched := matched\<rparr> in
          if matched = Some False then
            respond (ops @ ops1) ((failing ReadbackDiffers ''readback'' 409 act1)\<lparr>ga_Status := StReadbackMismatch\<rparr>)
              (writeJSON 409 [confirmed]) st
          else
            respond (ops @ ops1) (act1\<lparr>ga_HTTPStatus := 200\<rparr>)
              (if confirmed \<noteq> None \<or> matched \<noteq> None \<or> ga_PrevValue act \<noteq> None
               then writeJSON 200 [confirmed, ga_PrevValue act] else 200) st)"

definition failed_response ::
    "string \<Rightarrow> CommandStatus \<Rightarrow> gw_error \<Rightarrow> gw_op list \<Rightarrow> gatewayCommandActivity \<Rightarrow> gateway \<Rightarrow> response" where
  "failed_response deviceID status e ops act st =
     (let st1 = reset_if (shouldResetDeviceBinding (Some e)) deviceID e st;
          http = (if is_lease_error e then 423 else gatewayCommandHTTPStatus status (Some e))
      in respond ops (failing e (gatewayCommandErrorCategory (Some e)) http act) http st1)"

fun status_name :: "CommandStatus \<Rightarrow> auth_error cmd_error option \<Rightarrow> gw_status" where
  "status_name s (Some ErrReadbackMismatch) = StReadbackMismatch"
| "status_name CommandCompleted _ = StCompleted"
| "status_name CommandRejected _ = StRejected"
| "status_name CommandFailed _ = StFailed"

definition device_write ::
    "golib \<Rightarrow> write_env \<Rightarrow> bound_device \<Rightarrow> (Registry, auth_error) Commander \<Rightarrow> writeRequest \<Rightarrow> Telecommand \<Rightarrow> string \<Rightarrow>
     gatewayCommandActivity \<Rightarrow> gateway \<Rightarrow> response" where
  "device_write lib env bound cmdr req tc deviceID act0 st =
     (case gw_authorize (we_authTime env) deviceID tc (gs_leases st) of
        (Some e, r) \<Rightarrow> denied e act0 (st\<lparr>gs_leases := r\<rparr>)
      | (None, r) \<Rightarrow>
          let st1 = st\<lparr>gs_leases := r\<rparr> in
          case gatewayWriteDeviceErrorBackoff lib env (bo_client bound) req act0 of
            (ops, Some n) \<Rightarrow> blocked_response ops n act0 st1
          | (ops, None) \<Rightarrow>
              let precheck = (bo_client bound \<and> ga_ParamID act0 \<noteq> 0);
                  ops1 = (if precheck then [GwReadBulk (ga_ParamID act0) (ga_Instance act0)] else []);
                  act1 = (case (precheck, we_prevRead env) of
                      (True, Inr [v]) \<Rightarrow> act0\<lparr>ga_PrevValue := Some (GVFloat v)\<rparr>
                    | _ \<Rightarrow> act0)
              in case SendContext lib (we_client env) (we_sendTime env) cmdr tc (gs_leases st1) of
                (cops, ev, r2) \<Rightarrow>
                  let st2 = st1\<lparr>gs_leases := r2\<rparr>;
                      all = ops @ ops1 @ map GwClient cops;
                      act2 = act1\<lparr>ga_HTTPStatus := 200, ga_Status := status_name (ev_Status ev) (ev_Error ev),
                                ga_Error := map_option CommandFault (ev_Error ev)\<rparr>
                  in case ev_Error ev of
                       None \<Rightarrow> completed_response lib env (bo_client bound) req deviceID all act2 st2
                     | Some e \<Rightarrow> failed_response deviceID (ev_Status ev) (CommandFault e) all act2 st2)"

definition new_activity :: "gotime \<Rightarrow> string \<Rightarrow> gatewayCommandActivity" where
  "new_activity now deviceID =
     \<lparr>ga_Time = now, ga_TargetID = deviceID, ga_DeviceID = deviceID, ga_ParamID = 0, ga_Instance = 0,
      ga_SignalName = [], ga_SignalUnit = [], ga_RequestedValue = None, ga_ConfirmedValue = None,
      ga_PrevValue = None, ga_ReadbackMatched = None, ga_Status = StFailed, ga_Transport = [],
      ga_LeaseHolder = [], ga_Error = None, ga_ErrorCategory = [], ga_HTTPStatus = 0, ga_IdempotencyKey = []\<rparr>"

definition write_telecommand :: "write_env \<Rightarrow> writeRequest \<Rightarrow> string \<Rightarrow> Telecommand" where
  "write_telecommand env req deviceID =
     (let token = TrimSpace (we_token env) in
      \<lparr>tc_ID = [], tc_SessionID = [], tc_IdempotencyKey = we_idempotencyKey env, tc_TargetID = deviceID,
       tc_Name = wr_Name req, tc_Arguments = wr_Arguments req,
       tc_Metadata = (if token \<noteq> [] then (wr_Metadata req)(''lease_token'' \<mapsto> token) else wr_Metadata req)\<rparr>)"

definition write_activity ::
    "golib \<Rightarrow> write_env \<Rightarrow> writeRequest \<Rightarrow> string \<Rightarrow> Telecommand \<Rightarrow> string \<Rightarrow> gatewayCommandActivity \<Rightarrow> gatewayCommandActivity" where
  "write_activity lib env req transport tc holder act0 =
     (case gatewayCommandTargetFromTelecommand lib (we_writeParams env) (we_catalogue env) req of
        (paramID, inst, (name, unit), val) \<Rightarrow>
          act0\<lparr>ga_Transport := transport, ga_IdempotencyKey := tc_IdempotencyKey tc, ga_LeaseHolder := holder,
            ga_ParamID := paramID, ga_Instance := inst, ga_SignalName := name, ga_SignalUnit := unit,
            ga_RequestedValue := val\<rparr>)"

definition handleWrite :: "golib \<Rightarrow> write_env \<Rightarrow> string \<Rightarrow> gateway \<Rightarrow> response" where
  "handleWrite lib env deviceID st =
     (let act0 = new_activity (we_time env) deviceID in
      case we_bind env of
        Inl e \<Rightarrow>
          respond [] (failing e (gatewayCommandErrorCategory (Some e)) (bindStatusForError e) act0) (bindStatusForError e) st
      | Inr bound \<Rightarrow>
          case bo_commander bound of
            None \<Rightarrow> respond [] ((failing WritesUnsupported ''transport'' 422 act0)\<lparr>ga_Transport := ''unsupported''\<rparr>) 422 st
          | Some caps \<Rightarrow>
              case we_body env of
                None \<Rightarrow> respond [] (failing InvalidJSON ''request'' 400 act0) 400 st
              | Some req \<Rightarrow>
                  let cmdr = bind_commander (we_validateTime env) deviceID caps;
                      tc = write_telecommand env req deviceID;
                      holder = leaseHolderForToken (we_listTime env) (TrimSpace (we_token env)) (gs_leases st);
                      st1 = st\<lparr>gs_leases := snd holder\<rparr>;
                      act = write_activity lib env req (commanderTransportName cmdr) tc (fst holder) act0
                  in if ga_ParamID act = 2035
                     then power_write lib env bound req tc deviceID act st1
                     else device_write lib env bound cmdr req tc deviceID act st1)"

section \<open>Authorisation\<close>

definition presented_token :: "write_env \<Rightarrow> writeRequest \<Rightarrow> string" where
  "presented_token env req =
     (if TrimSpace (we_token env) \<noteq> [] then TrimSpace (we_token env)
      else case wr_Metadata req ''lease_token'' of None \<Rightarrow> [] | Some t \<Rightarrow> TrimSpace t)"

lemma TrimSpace_idem [simp]: "TrimSpace (TrimSpace s) = TrimSpace s"
proof -
  have dw: "dropWhile is_space (rev (dropWhile is_space (rev xs))) = rev (dropWhile is_space (rev xs))"
    if "xs = [] \<or> \<not> is_space (hd xs)" for xs
  proof (cases "rev (dropWhile is_space (rev xs))")
    case (Cons c cs)
    moreover have "\<exists>ys. xs = rev (dropWhile is_space (rev xs)) @ ys"
      by (metis rev_append rev_rev_ident takeWhile_dropWhile_id)
    ultimately have "hd xs = c" "xs \<noteq> []" by (metis append_Cons list.sel(1), auto)
    then show ?thesis using that Cons by simp
  next
    case Nil
    show ?thesis unfolding Nil by simp
  qed
  have "dropWhile is_space s = [] \<or> \<not> is_space (hd (dropWhile is_space s))" by (meson hd_dropWhile)
  note eq = dw [OF this]
  show ?thesis by (simp add: TrimSpace_def eq)
qed

lemma gw_authorize_None:
  assumes "gw_authorize now d (write_telecommand env req dev) r = (None, r')" and "lease_inv r"
  shows "presented_token env req \<noteq> []" "active_token r d now = Some (presented_token env req)"
    "r' = snd (Validate d (presented_token env req) now r)"
proof -
  have "(case tc_Metadata (write_telecommand env req dev) ''lease_token'' of None \<Rightarrow> [] | Some t \<Rightarrow> TrimSpace t) = presented_token env req"
    by (simp add: write_telecommand_def presented_token_def Let_def)
  then have v: "presented_token env req \<noteq> []" "Validate d (presented_token env req) now r = (Inr (), r')"
    using assms(1) by (auto simp: gw_authorize_def Let_def split: if_splits prod.splits sum.splits)
  then show "presented_token env req \<noteq> []" "r' = snd (Validate d (presented_token env req) now r)" by simp_all
  show "active_token r d now = Some (presented_token env req)"
    using registry.validate_ok [OF assms(2), of d "presented_token env req" now] v by simp
qed

lemma leaseHolder_keeps:
  assumes "lease_inv r" and "t \<le> now"
  shows "lease_inv (snd (leaseHolderForToken t tok r))"
    "active_token (snd (leaseHolderForToken t tok r)) d now = active_token r d now"
  using assms by (auto simp: leaseHolderForToken_def Let_def List_def active_token_def active_sweep split: prod.splits)

lemma cmd_authorize_gateway:
  "tc_TargetID tc = dev \<Longrightarrow> cmd_authorize (bind_commander now dev caps) tc r = gw_authorize now dev tc r"
  by (auto simp: cmd_authorize_def bind_commander_def split: prod.splits)

text \<open>The classification of a request agrees with what the commander accepts.\<close>

lemma int_of_any_agrees:
  "(int_of_any lib key raw :: 'a cmd_error + int) = Inr p \<Longrightarrow> (\<forall>x. raw \<noteq> AnyInt32 x) \<Longrightarrow> intFromAny lib (Some raw) = p"
  by (cases raw) (auto simp: checkedInt64Arg_def checkedFloatIntArg_def clamped_Atoi_def Let_def
      res_bind_eq_Inr Atoi_TrimSpace split: if_splits sum.splits)

lemma SendContext_dispatch:
  "SendContext lib env now c tc r = (ops, ev, r') \<Longrightarrow> op \<in> set ops \<Longrightarrow>
   \<exists>err. dispatch lib (env (send_timeout c)) c tc r = (ops, err, r')"
  by (auto simp: SendContext_def split: if_splits prod.splits)

lemma backoff_ops: "gatewayWriteDeviceErrorBackoff lib env cl req act = (ops, x) \<Longrightarrow> GwClient op \<notin> set ops"
  by (auto simp: gatewayWriteDeviceErrorBackoff_def split: if_splits)

lemma respond_virtual [simp]: "gs_virtual (recordCommandActivity act st) = gs_virtual st"
  by (simp add: recordCommandActivity_def Let_def)

lemma reset_if_virtual [simp]: "gs_virtual (reset_if b d e st) = gs_virtual st"
  by (simp add: reset_if_def)

lemma verify_ops: "verifyGatewayWrite lib env cl req dev st = (ops, x) \<Longrightarrow> GwClient op \<notin> set ops"
  by (auto simp: verifyGatewayWrite_def Let_def split: sum.splits option.splits prod.splits if_splits)

lemma completed_ops:
  "completed_response lib env cl req dev ops0 act st = (ops, status, st') \<Longrightarrow>
   (GwClient op \<in> set ops \<longleftrightarrow> GwClient op \<in> set ops0) \<and> gs_virtual st' = gs_virtual st"
  by (auto simp: completed_response_def respond_def Let_def dest: verify_ops split: prod.splits sum.splits if_splits)

lemma failed_ops:
  "failed_response dev s e ops0 act st = (ops, status, st') \<Longrightarrow> ops = ops0 \<and> gs_virtual st' = gs_virtual st"
  by (auto simp: failed_response_def respond_def Let_def)

lemma device_write_cases:
  assumes "device_write lib env bound cmdr req tc dev act st = (ops, status, st')"
  shows "gs_virtual st' = gs_virtual st"
    and "GwClient op \<in> set ops \<Longrightarrow> \<exists>r1 r2 cops ev. gw_authorize (we_authTime env) dev tc (gs_leases st) = (None, r1) \<and>
      SendContext lib (we_client env) (we_sendTime env) cmdr tc r1 = (cops, ev, r2) \<and> op \<in> set cops"
proof -
  show "gs_virtual st' = gs_virtual st"
    using assms by (auto simp: device_write_def Let_def denied_def blocked_response_def respond_def
        dest!: completed_ops failed_ops split: prod.splits option.splits)
  show "\<exists>r1 r2 cops ev. gw_authorize (we_authTime env) dev tc (gs_leases st) = (None, r1) \<and>
      SendContext lib (we_client env) (we_sendTime env) cmdr tc r1 = (cops, ev, r2) \<and> op \<in> set cops" if op: "GwClient op \<in> set ops"
  proof (cases "gw_authorize (we_authTime env) dev tc (gs_leases st)")
    case (Pair e r1)
    obtain bops x where b: "gatewayWriteDeviceErrorBackoff lib env (bo_client bound) req act = (bops, x)" by force
    obtain cops ev r2 where c: "SendContext lib (we_client env) (we_sendTime env) cmdr tc r1 = (cops, ev, r2)"
      by (metis prod.exhaust)
    show ?thesis
      using assms op Pair b backoff_ops [OF b]  c
      by (auto simp: device_write_def Let_def denied_def blocked_response_def respond_def
          dest!: failed_ops split: option.splits if_splits dest: completed_ops [where op = op])
  qed
qed

lemma power_write_cases:
  assumes "power_write lib env bound req tc dev act st = (ops, status, st')"
  shows "GwClient op \<notin> set ops"
    and "gs_virtual st' = gs_virtual st \<or>
      (\<exists>r1 v. gw_authorize (we_authTime env) dev tc (gs_leases st) = (None, r1) \<and> bo_powerControl bound \<and>
         \<not> f64_less_int v 0 \<and> \<not> f64_greater_int v 500 \<and>
         gs_virtual st' = (gs_virtual st)((dev, ga_ParamID act, ga_Instance act) \<mapsto> v))"
  using assms
  by (auto simp: power_write_def Let_def denied_def blocked_response_def respond_def setVirtualParam_def
      dest: backoff_ops split: prod.splits option.splits if_splits)

lemma write_activity_param:
  "ga_ParamID (write_activity lib env req tr tc h act0) = intFromAny lib (wr_Arguments req ''param'')"
  by (auto simp: write_activity_def gatewayCommandTargetFromTelecommand_def Let_def split: prod.splits)

lemma handleWrite_cases:
  assumes "handleWrite lib env dev st = (ops, status, st')" and "we_body env = Some req"
  obtains (none) "ops = []" "gs_virtual st' = gs_virtual st"
  | (power) bound act st1 where "we_bind env = Inr bound" "ga_ParamID act = 2035"
      "st1 = st\<lparr>gs_leases := snd (leaseHolderForToken (we_listTime env) (TrimSpace (we_token env)) (gs_leases st))\<rparr>"
      "power_write lib env bound req (write_telecommand env req dev) dev act st1 = (ops, status, st')"
  | (device) bound caps act st1 where
      "intFromAny lib (wr_Arguments req ''param'') \<noteq> 2035"
      "st1 = st\<lparr>gs_leases := snd (leaseHolderForToken (we_listTime env) (TrimSpace (we_token env)) (gs_leases st))\<rparr>"
      "device_write lib env bound (bind_commander (we_validateTime env) dev caps) req (write_telecommand env req dev) dev act st1 = (ops, status, st')"
proof (cases "we_bind env")
  case (Inl e)
  then show thesis using assms none by (auto simp: handleWrite_def Let_def respond_def)
next
  case (Inr bound)
  show thesis
  proof (cases "bo_commander bound")
    case None
    then show thesis using assms Inr none by (auto simp: handleWrite_def Let_def respond_def)
  next
    case (Some caps)
    let ?holder = "leaseHolderForToken (we_listTime env) (TrimSpace (we_token env)) (gs_leases st)"
    let ?c = "bind_commander (we_validateTime env) dev caps" and ?tc = "write_telecommand env req dev"
    let ?act = "write_activity lib env req (commanderTransportName ?c) ?tc (fst ?holder) (new_activity (we_time env) dev)"
    show thesis
    proof (cases "intFromAny lib (wr_Arguments req ''param'') = 2035")
      case True
      then have "power_write lib env bound req ?tc dev ?act (st\<lparr>gs_leases := snd ?holder\<rparr>) = (ops, status, st')"
        using assms Inr Some by (simp add: handleWrite_def Let_def write_activity_param)
      then show thesis using power [OF Inr _ refl, of ?act] True by (simp add: write_activity_param)
    next
      case False
      then have "device_write lib env bound ?c req ?tc dev ?act (st\<lparr>gs_leases := snd ?holder\<rparr>) = (ops, status, st')"
        using assms Inr Some by (simp add: handleWrite_def Let_def write_activity_param)
      then show thesis using device [OF False refl] by blast
    qed
  qed
qed

definition known_commands :: "string list" where
  "known_commands = [''write_float32'', ''set_float32'', ''write_int32'', ''set_int32'', ''write_string'', ''set_string'',
     ''write_big_data_string'', ''write_user_note'', ''reset'', ''save_to_flash'', ''save'']"

text \<open>A write request of the token's holder to a device that reports no error.\<close>

definition admitted :: "write_env \<Rightarrow> string \<Rightarrow> gateway \<Rightarrow> writeRequest \<Rightarrow> bound_device \<Rightarrow> bool \<times> bool \<times> bool \<Rightarrow> bool" where
  "admitted env dev st req bound caps \<longleftrightarrow>
     we_bind env = Inr bound \<and> bo_commander bound = Some caps \<and> we_body env = Some req \<and>
     presented_token env req \<noteq> [] \<and> lease_inv (gs_leases st) \<and> we_listTime env \<le> we_authTime env \<and>
     active_token (gs_leases st) dev (we_authTime env) = Some (presented_token env req) \<and> we_errorRead env = Inr [0]"

lemma gw_authorize_presented:
  "lease_inv r \<Longrightarrow> presented_token env req \<noteq> [] \<Longrightarrow> active_token r dev now = Some (presented_token env req) \<Longrightarrow>
   gw_authorize now dev (write_telecommand env req dev) r = (None, snd (Validate dev (presented_token env req) now r))"
proof -
  assume a: "lease_inv r" "presented_token env req \<noteq> []" "active_token r dev now = Some (presented_token env req)"
  have "(case tc_Metadata (write_telecommand env req dev) ''lease_token'' of None \<Rightarrow> [] | Some t \<Rightarrow> TrimSpace t) = presented_token env req"
    by (simp add: write_telecommand_def presented_token_def Let_def)
  moreover have "fst (Validate dev (presented_token env req) now r) = Inr ()"
    using registry.validate_ok [OF a(1)] a(3) by simp
  ultimately show ?thesis using a(2) by (auto simp: gw_authorize_def Let_def split: prod.splits)
qed

lemma backoff_quiet:
  "we_errorRead env = Inr [0] \<Longrightarrow> snd (gatewayWriteDeviceErrorBackoff lib env cl req act) = None"
  by (simp add: gatewayWriteDeviceErrorBackoff_def f64_eq_int_def f64_finite_def f64_exp_def f64_units_def
      fp_units_def f64_frac_def int_units_def)

lemma admitted_authorize:
  assumes "admitted env dev st req bound caps"
    and "st1 = st\<lparr>gs_leases := snd (leaseHolderForToken (we_listTime env) tok (gs_leases st))\<rparr>"
  shows "\<exists>r. gw_authorize (we_authTime env) dev (write_telecommand env req dev) (gs_leases st1) = (None, r)"
  using assms leaseHolder_keeps [of "gs_leases st" "we_listTime env" "we_authTime env"]
  by (auto simp: admitted_def gw_authorize_presented)

text \<open>A whole number of a JSON body: \<open>encoding/json\<close> decodes every number to a \<open>float64\<close>.\<close>

definition json_int :: "int \<Rightarrow> any" where
  "json_int n = AnyFloat64 (float64_of_int n)"

lemma json_int_value:
  assumes "\<bar>n\<bar> < 2 ^ 53"
  shows "intFromAny lib (Some (json_int n)) = n" "(int_of_any lib key (json_int n) :: 'a cmd_error + int) = Inr n"
proof -
  note e = float64_of_int_exact [OF assms]
  have "- (2 ^ 63) \<le> n" "n < 2 ^ 63" using assms by auto
  then have i: "int64_of_f64 lib (float64_of_int n) = n" using e(2,3) by (simp add: int64_of_f64_def)
  then show "intFromAny lib (Some (json_int n)) = n" by (simp add: json_int_def)
  have "\<not> f64_isNaN (float64_of_int n)" "\<not> f64_isInf (float64_of_int n)"
    using e(2) by (auto simp: f64_finite_def f64_isNaN_def f64_isInf_def)
  moreover have "f64_integral (float64_of_int n)" using e(1,2) by (simp add: f64_integral_def int_units_def)
  moreover have "\<not> f64_less_int (float64_of_int n) (- (2 ^ 63))" "\<not> f64_greater_int (float64_of_int n) (2 ^ 63)"
  proof -
    have "int_units (- (2 ^ 63)) \<le> int_units n" "int_units n \<le> int_units (2 ^ 63)"
      unfolding int_units_def by (rule mult_right_mono; use assms in simp)+
    then show "\<not> f64_less_int (float64_of_int n) (- (2 ^ 63))" "\<not> f64_greater_int (float64_of_int n) (2 ^ 63)"
      unfolding f64_less_int_def f64_greater_int_def e(1) by (simp_all only: not_less de_Morgan_conj simp_thms)
  qed
  ultimately show "(int_of_any lib key (json_int n) :: 'a cmd_error + int) = Inr n"
    using i \<open>- (2 ^ 63) \<le> n\<close> \<open>n < 2 ^ 63\<close> by (simp add: json_int_def checkedFloatIntArg_def checkedInt64Arg_def Let_def)
qed

lemma json_int_simps [simp]:
  "json_int n \<noteq> AnyInt32 x" "floatFromAny lib (Some (json_int n)) = Some (float64_of_int n)"
  by (simp_all add: json_int_def)

section \<open>Properties\<close>

text \<open>
  C1.  Writes through the gateway are authorised.  Whatever a write request holds: a call reaches
  the device's write, string or control client only if the presented lease token is the active one
  of that device, both when the handler and when the commander checks it, and it never addresses
  the virtual parameter 2035; a virtual parameter changes only under the same condition, with power
  control enabled, and only at 2035, to a value that is neither below 0 nor above 500.
  (\<open>encoding/json\<close> never produces an \<open>int32\<close>.)
\<close>

theorem gateway_write_safe:
  assumes "handleWrite lib env dev st = (ops, status, st')" and "we_body env = Some req"
    and "lease_inv (gs_leases st)"
    and "we_listTime env \<le> we_authTime env" and "we_authTime env \<le> we_validateTime env"
    and "\<forall>x. wr_Arguments req ''param'' \<noteq> Some (AnyInt32 x)"
  shows "(GwClient op \<in> set ops \<longrightarrow>
      active_token (gs_leases st) dev (we_authTime env) = Some (presented_token env req) \<and>
      active_token (gs_leases st) dev (we_validateTime env) = Some (presented_token env req) \<and>
      (\<forall>p i. op_address op = Some (p, i) \<longrightarrow> p \<noteq> 2035)) \<and>
    (gs_virtual st' \<noteq> gs_virtual st \<longrightarrow>
      active_token (gs_leases st) dev (we_authTime env) = Some (presented_token env req) \<and>
      (\<exists>bound inst v. we_bind env = Inr bound \<and> bo_powerControl bound \<and>
         \<not> f64_less_int v 0 \<and> \<not> f64_greater_int v 500 \<and>
         gs_virtual st' = (gs_virtual st)((dev, 2035, inst) \<mapsto> v)))"
  using assms(1,2)
proof (cases rule: handleWrite_cases)
  case none
  then show ?thesis by simp
next
  case (power bound act st1)
  have inv: "lease_inv (gs_leases st1)" using leaseHolder_keeps(1) [OF assms(3,4)] power(3) by simp
  have act: "active_token (gs_leases st1) dev (we_authTime env) = active_token (gs_leases st) dev (we_authTime env)"
    using leaseHolder_keeps(2) [OF assms(3,4)] power(3) by simp
  have v: "gs_virtual st1 = gs_virtual st" using power(3) by simp
  from power_write_cases [OF power(4)] show ?thesis
    using gw_authorize_None [OF _ inv] act power(1,2) v by (auto 0 3)
next
  case (device bound caps act st1)
  let ?tc = "write_telecommand env req dev" and ?c = "bind_commander (we_validateTime env) dev caps"
  have inv: "lease_inv (gs_leases st1)" using leaseHolder_keeps(1) [OF assms(3,4)] device(2) by simp
  have act: "active_token (gs_leases st1) dev t = active_token (gs_leases st) dev t" if "we_authTime env \<le> t" for t
    using leaseHolder_keeps(2) [OF assms(3), of "we_listTime env" t] assms(4) that device(2) by simp
  have v: "gs_virtual st' = gs_virtual st" using device_write_cases(1) [OF device(3)] device(2) by simp
  have "active_token (gs_leases st) dev (we_authTime env) = Some (presented_token env req) \<and>
      active_token (gs_leases st) dev (we_validateTime env) = Some (presented_token env req) \<and>
      (\<forall>p i. op_address op = Some (p, i) \<longrightarrow> p \<noteq> 2035)" if op: "GwClient op \<in> set ops"
  proof -
    from device_write_cases(2) [OF device(3) op] obtain r1 r2 cops ev where
      a: "gw_authorize (we_authTime env) dev ?tc (gs_leases st1) = (None, r1)"
      and c: "SendContext lib (we_client env) (we_sendTime env) ?c ?tc r1 = (cops, ev, r2)" and o: "op \<in> set cops" by blast
    note t1 = gw_authorize_None [OF a inv]
    from SendContext_dispatch [OF c o] obtain err where
      d: "dispatch lib (we_client env (send_timeout ?c)) ?c ?tc r1 = (cops, err, r2)" by blast
    have a2: "gw_authorize (we_validateTime env) dev ?tc r1 = (None, r2)"
      using dispatch_ops(1) [OF d o] cmd_authorize_gateway [of ?tc dev "we_validateTime env" caps r1]
      by (simp add: write_telecommand_def Let_def)
    have inv1: "lease_inv r1" using t1(3) registry.validate_inv [OF inv] by simp
    have "active_token r1 dev (we_validateTime env) = active_token (gs_leases st1) dev (we_validateTime env)"
      using t1(3) registry.validate_keeps [OF inv assms(5)] by simp
    moreover have "p \<noteq> 2035" if pa: "op_address op = Some (p, i)" for p i
    proof
      assume p: "p = 2035"
      then have "(intArg lib (wr_Arguments req) ''param'' :: auth_error cmd_error + int) = Inr 2035"
        using dispatch_ops(2) [OF d o pa] by (simp add: write_telecommand_def Let_def)
      then show False using int_of_any_agrees assms(6) device(1)
        by (auto simp: intArg_def split: option.splits)
    qed
    ultimately show ?thesis using t1(2) gw_authorize_None(2) [OF a2 inv1] act assms(5) by auto
  qed
  then show ?thesis using v by blast
qed

definition demo_request :: writeRequest where
  "demo_request = \<lparr>wr_Name = ''write_int32'',
     wr_Arguments = [''param'' \<mapsto> json_int 2010, ''value'' \<mapsto> json_int 1], wr_Metadata = Map.empty\<rparr>"

definition nan_request :: writeRequest where
  "nan_request = \<lparr>wr_Name = ''write_float32'',
     wr_Arguments = [''param'' \<mapsto> json_int 2035, ''value'' \<mapsto> AnyString ''NaN''], wr_Metadata = Map.empty\<rparr>"

definition typo_request :: writeRequest where
  "typo_request = \<lparr>wr_Name = ''write_flot32'',
     wr_Arguments = [''param'' \<mapsto> json_int 2010, ''value'' \<mapsto> json_int 1], wr_Metadata = Map.empty\<rparr>"

definition demo_client :: client_env where
  "demo_client = \<lparr>ce_WriteFloat32 = (\<lambda>_ _ _. None), ce_WriteInt32 = (\<lambda>_ _ _. None), ce_ReadFloat32 = (\<lambda>_ _. Inl ErrTimeout),
     ce_ReadInt32 = (\<lambda>_ _. Inr 1), ce_WriteString = (\<lambda>_ _ _. None), ce_WriteBigDataString = (\<lambda>_ _ _. None),
     ce_Reset = None, ce_SaveToFlash = None\<rparr>"

definition demo_env :: "writeRequest \<Rightarrow> write_env" where
  "demo_env req = \<lparr>we_time = 100,
     we_bind = Inr \<lparr>bo_commander = Some (True, False, False), bo_client = False, bo_powerControl = True\<rparr>,
     we_token = ''t1'', we_body = Some req, we_idempotencyKey = ''k'', we_listTime = 100, we_authTime = 100,
     we_errorRead = Inr [0], we_prevRead = Inl ErrTimeout, we_sendTime = 100, we_validateTime = 101,
     we_client = (\<lambda>_. demo_client), we_verifyRead = Inl ErrTimeout, we_writeParams = Map.empty, we_catalogue = Map.empty\<rparr>"

definition demo_gateway :: gateway where
  "demo_gateway = \<lparr>gs_leases = [(''tec-31'', demo_lease)], gs_virtual = Map.empty, gs_log = [], gs_resets = []\<rparr>"

lemma demo_trim: "TrimSpace ''t1'' = ''t1''"
  by (rule TrimSpace_no_space) (auto simp: is_space_def)

lemma demo_inv: "lease_inv (gs_leases demo_gateway)"
  by (simp add: demo_gateway_def lease_inv_def demo_lease_def)

lemma demo_active:
  "presented_token (demo_env req) r = ''t1''" "we_body (demo_env req) = Some req"
  "t < 200 \<Longrightarrow> active_token (gs_leases demo_gateway) ''tec-31'' t = Some ''t1''"
  by (simp_all add: presented_token_def demo_env_def demo_trim demo_gateway_def active_token_def active_lease_def
      demo_lease_def Active_def zero_time_def)

lemma demo_admitted:
  "admitted (demo_env req) ''tec-31'' demo_gateway req \<lparr>bo_commander = Some (True, False, False), bo_client = False, bo_powerControl = True\<rparr> (True, False, False)"
  using demo_inv demo_active(1) [of req req] demo_active(3) [of 100] by (simp add: admitted_def demo_env_def)

lemma demo_authorized:
  "gw_authorize t ''tec-31'' (write_telecommand (demo_env req) req ''tec-31'') r = (None, snd (Validate ''tec-31'' ''t1'' t r))"
  if "t < 200" "lease_inv r" "active_token r ''tec-31'' t = Some ''t1''"
  using gw_authorize_presented [OF that(2), of "demo_env req" req "''tec-31''" t] that demo_active(1) by simp

lemmas demo_simps = handleWrite_def write_activity_def gatewayCommandTargetFromTelecommand_def signal_of_def
  gatewayWriteParameterByID_def gatewayParameterByID_def demo_request_def demo_env_def demo_gateway_def demo_trim
  leaseHolderForToken_def List_def sweepLockedAt_def sort_leases_def demo_lease_def Active_def zero_time_def
  device_write_def gw_authorize_def write_telecommand_def Validate_def gatewayWriteDeviceErrorBackoff_def
  bind_commander_def NewCommander_def SendContext_def dispatch_def authorized_def address_value_def paramAndInstance_def
  intArg_def instanceArg_def checked_address_def validateParameterAddress_def maxMeComParameterID_def
  minMeComInstance_def maxMeComInstance_def cmd_authorize_def send_int32_def demo_client_def json_int_value
  completed_response_def verifyGatewayWrite_def gatewayWriteParameterFromRequest_def respond_def Let_def

lemma demo_gateway_handled:
  "GwClient (OpWriteInt32 2010 1 1) \<in> set (fst (handleWrite demo_lib (demo_env demo_request) ''tec-31'' demo_gateway))"
  by (simp add: demo_simps)

theorem gateway_write_safe_witness:
  "GwClient (OpWriteInt32 2010 1 1) \<in> set (fst (handleWrite demo_lib (demo_env demo_request) ''tec-31'' demo_gateway)) \<and>
   active_token (gs_leases demo_gateway) ''tec-31'' 100 = Some (presented_token (demo_env demo_request) demo_request)"
proof -
  let ?e = "demo_env demo_request"
  obtain ops status st' where h: "handleWrite demo_lib ?e ''tec-31'' demo_gateway = (ops, status, st')" by (metis prod.exhaust)
  have times: "we_listTime ?e \<le> we_authTime ?e" "we_authTime ?e \<le> we_validateTime ?e" "we_authTime ?e = 100" by (simp_all add: demo_env_def)
  have p: "\<forall>x. wr_Arguments demo_request ''param'' \<noteq> Some (AnyInt32 x)" by (simp add: demo_request_def)
  have "GwClient (OpWriteInt32 2010 1 1) \<in> set (fst (handleWrite demo_lib ?e ''tec-31'' demo_gateway))"
    using demo_gateway_handled by simp
  then show ?thesis
    using gateway_write_safe [OF h demo_active(2) demo_inv times(1,2) p, of "OpWriteInt32 2010 1 1"] h times(3) by simp
qed

lemma param_2035: "intFromAny lib (Some (json_int 2035)) = 2035" "intFromAny lib (Some (AnyString ''2035'')) = 2035"
proof -
  have "TrimSpace ''2035'' = ''2035''" by (rule TrimSpace_no_space) (auto simp: is_space_def)
  then show "intFromAny lib (Some (AnyString ''2035'')) = 2035"
    by (simp add: clamped_Atoi_def Atoi_def ParseUint10_def digit_val_def Let_def)
qed (simp add: json_int_value)

text \<open>
  C31.  A power target of NaN passes the bounds check: for every holder of the device's lease, if power
  control is enabled and the device reports no error, a write of the text NaN to parameter 2035 (given
  in the JSON body as a number or as a text) stores NaN as the target although it is not between 0 and
  500, and the answer is status 500, since NaN does not marshal.
\<close>

theorem power_target_nan_accepted:
  assumes "admitted env dev st req bound caps" and "bo_powerControl bound"
    and "wr_Arguments req ''param'' = Some (json_int 2035) \<or> wr_Arguments req ''param'' = Some (AnyString ''2035'')" and "wr_Arguments req ''value'' = Some (AnyString ''NaN'')"
    and "ParseFloat64 lib ''NaN'' = Inr nan" and "f64_isNaN nan"
  shows "gs_virtual (snd (snd (handleWrite lib env dev st)))
       (dev, 2035, intFromAny lib (wr_Arguments req ''instance'')) = Some nan \<and>
     fst (snd (handleWrite lib env dev st)) = 500"
proof -
  let ?st1 = "st\<lparr>gs_leases := snd (leaseHolderForToken (we_listTime env) (TrimSpace (we_token env)) (gs_leases st))\<rparr>"
  obtain r where a: "gw_authorize (we_authTime env) dev (write_telecommand env req dev) (gs_leases ?st1) = (None, r)"
    using admitted_authorize [OF assms(1) refl] by blast
  have ad: "we_bind env = Inr bound" "bo_commander bound = Some caps" "we_body env = Some req" "we_errorRead env = Inr [0]"
    using assms(1) by (simp_all add: admitted_def)
  have fl: "floatFromAny lib (Some (AnyString ''NaN'')) = Some nan"
  proof -
    have "TrimSpace ''NaN'' = ''NaN''" by (rule TrimSpace_no_space) (auto simp: is_space_def)
    then show ?thesis using assms(5) by simp
  qed
  have nf: "\<not> f64_finite nan" "\<not> f64_less_int nan 0" "\<not> f64_greater_int nan 500"
    using assms(6) by (simp_all add: f64_isNaN_def f64_finite_def f64_less_int_def f64_greater_int_def)
  have pw: "gs_virtual (snd (snd (power_write lib env bound req (write_telecommand env req dev) dev act ?st1)))
        (dev, ga_ParamID act, ga_Instance act) = Some nan \<and>
      fst (snd (power_write lib env bound req (write_telecommand env req dev) dev act ?st1)) = 500" for act
    using assms(2,4) a fl nf backoff_quiet [OF ad(4), of lib "bo_client bound" req act]
    by (auto simp: power_write_def respond_def writeJSON_def setVirtualParam_def Let_def split: prod.splits)
  have inst: "ga_Instance (write_activity lib env req tr tc h act0) = intFromAny lib (wr_Arguments req ''instance'')" for tr tc h act0
    by (auto simp: write_activity_def gatewayCommandTargetFromTelecommand_def Let_def split: prod.splits)
  have par: "ga_ParamID (write_activity lib env req tr tc h act0) = 2035" for tr tc h act0
    using assms(3) param_2035 by (auto simp: write_activity_param)
  show ?thesis
    using ad pw [of "write_activity lib env req _ _ _ _"] unfolding par inst
    by (auto simp: handleWrite_def Let_def par)
qed

theorem power_target_nan_accepted_witness:
  "gs_virtual (snd (snd (handleWrite demo_lib (demo_env nan_request) ''tec-31'' demo_gateway))) (''tec-31'', 2035, 0) = Some f64_nan"
  using power_target_nan_accepted [OF demo_admitted [of nan_request], of demo_lib f64_nan]
  by (simp add: nan_request_def demo_lib_def)

text \<open>
  C32.  A malformed command tears down the device's connection: a request of the lease holder whose
  command name is unknown and whose parameter is not the virtual 2035, to a device that reports no
  error, makes no call to the device's write client, is answered with 400, and resets the device
  binding; a NACK of the device to a write is classified in the same way, since \<open>errors.Is\<close> does not
  recognise it as \<open>ErrWriteRejected\<close>.
\<close>

theorem bad_command_resets_binding:
  assumes "admitted env dev st req bound caps"
    and "intFromAny lib (wr_Arguments req ''param'') \<noteq> 2035" and "wr_Name req \<notin> set known_commands"
  shows "(case handleWrite lib env dev st of (ops, status, st') \<Rightarrow>
      (\<forall>op. GwClient op \<notin> set ops) \<and>
      status = 400 \<and> gs_resets st' = gs_resets st @ [(dev, CommandFault (UnknownCommand (wr_Name req)))]) \<and>
    shouldResetDeviceBinding (Some (CommandFault (ClientError (Response (Nack code name)))))"
proof -
  let ?st1 = "st\<lparr>gs_leases := snd (leaseHolderForToken (we_listTime env) (TrimSpace (we_token env)) (gs_leases st))\<rparr>"
  let ?tc = "write_telecommand env req dev" and ?c = "bind_commander (we_validateTime env) dev caps"
  obtain r where a: "gw_authorize (we_authTime env) dev ?tc (gs_leases ?st1) = (None, r)"
    using admitted_authorize [OF assms(1) refl] by blast
  have ad: "we_bind env = Inr bound" "bo_commander bound = Some caps" "we_body env = Some req" "we_errorRead env = Inr [0]"
    using assms(1) by (simp_all add: admitted_def)
  have d: "SendContext lib (we_client env) (we_sendTime env) ?c ?tc r = ([], ev, r')
      \<Longrightarrow> ev_Status ev = CommandFailed \<and> ev_Error ev = Some (UnknownCommand (wr_Name req))" for ev r'
    using assms(3) by (auto simp: SendContext_def dispatch_def write_telecommand_def Let_def known_commands_def bind_commander_def
        NewCommander_def split: if_splits prod.splits)
  have e: "\<exists>ev r'. SendContext lib (we_client env) (we_sendTime env) ?c ?tc r = ([], ev, r')"
    using assms(3) by (auto simp: SendContext_def dispatch_def write_telecommand_def Let_def known_commands_def)
  have rs: "gs_resets (recordCommandActivity act s) = gs_resets s" for act s
    by (simp add: recordCommandActivity_def Let_def)
  have nc: "GwClient op \<notin> set (fst (device_write lib env bound ?c req ?tc dev act ?st1))" for op act
  proof
    obtain ops status st' where w: "device_write lib env bound ?c req ?tc dev act ?st1 = (ops, status, st')" by (metis prod.exhaust)
    assume "GwClient op \<in> set (fst (device_write lib env bound ?c req ?tc dev act ?st1))"
    then have "GwClient op \<in> set ops" by (simp only: w fst_conv)
    from device_write_cases(2) [OF w this] show False using a e by auto
  qed
  have dw: "case device_write lib env bound ?c req ?tc dev act ?st1 of (ops, status, st') \<Rightarrow>
      status = 400 \<and> gs_resets st' = gs_resets st @ [(dev, CommandFault (UnknownCommand (wr_Name req)))]" for act
    using a e d backoff_quiet [OF ad(4), of lib "bo_client bound" req act]
    by (auto simp: device_write_def Let_def failed_response_def respond_def rs reset_if_def shouldResetDeviceBinding_def
        is_lease_error_def gatewayCommandHTTPStatus_def split: prod.splits)
  show ?thesis
    using ad assms(2) dw nc
    by (simp add: handleWrite_def Let_def write_activity_param shouldResetDeviceBinding_def case_prod_beta)
qed

theorem bad_command_resets_binding_witness:
  "fst (snd (handleWrite demo_lib (demo_env typo_request) ''tec-31'' demo_gateway)) = 400 \<and>
   GwClient (OpWriteInt32 2010 1 1) \<notin> set (fst (handleWrite demo_lib (demo_env typo_request) ''tec-31'' demo_gateway))"
proof -
  have "intFromAny demo_lib (wr_Arguments typo_request ''param'') \<noteq> 2035" "wr_Name typo_request \<notin> set known_commands"
    by (simp_all add: typo_request_def known_commands_def json_int_value)
  from bad_command_resets_binding [OF demo_admitted this, of 5 None] show ?thesis by (auto split: prod.splits)
qed

end
