(* ===== verification/PowerControl.thy ===== *)
theory PowerControl
  imports GatewayWrite
begin

text \<open>
  The third-party power controller of the gateway (\<open>cmd/mecomgw/main.go\<close>): \<open>smoothSamples\<close>,
  \<open>runChannelPowerControl\<close> and the loop over a device's supply channels.  All quantities are
  \<open>float64\<close> bit patterns and the arithmetic is that of theory \<open>Floats\<close>, each operation rounded
  (no fused multiply-add, as on amd64).  A call returns the operations on the device's client, in
  order, the samples handed to the graph history, and the new gateway state.
\<close>

section \<open>Constants\<close>

definition c0_015 :: u64 where "c0_015 = 0x3f8eb851eb851eb8"
definition c0_05 :: u64 where "c0_05 = 0x3fa999999999999a"
definition c0_1 :: u64 where "c0_1 = 0x3fb999999999999a"
definition c0_2 :: u64 where "c0_2 = 0x3fc999999999999a"
definition c0_4 :: u64 where "c0_4 = 0x3fd999999999999a"
definition c0_5 :: u64 where "c0_5 = 0x3fe0000000000000"
definition c0_8 :: u64 where "c0_8 = 0x3fe999999999999a"
definition c1 :: u64 where "c1 = 0x3ff0000000000000"
definition c1_2 :: u64 where "c1_2 = 0x3ff3333333333333"
definition c2 :: u64 where "c2 = 0x4000000000000000"
definition c5 :: u64 where "c5 = 0x4014000000000000"
definition c25 :: u64 where "c25 = 0x4039000000000000"
definition c80 :: u64 where "c80 = 0x4054000000000000"
definition c1000 :: u64 where "c1000 = 0x408f400000000000"

section \<open>Samples\<close>

type_synonym powerControlSample = "u64 \<times> u64"

text \<open>The order of \<open>sort.Float64s\<close>, NaN first; with at most five samples the sort is an insertion sort.\<close>

definition sort_less :: "u64 \<Rightarrow> u64 \<Rightarrow> bool" where
  "sort_less a b \<longleftrightarrow> f64_less a b \<or> f64_isNaN a \<and> \<not> f64_isNaN b"

fun insert_float :: "u64 \<Rightarrow> u64 list \<Rightarrow> u64 list" where
  "insert_float x [] = [x]"
| "insert_float x (y # ys) = (if sort_less x y then x # y # ys else y # insert_float x ys)"

definition Float64s :: "u64 list \<Rightarrow> u64 list" where
  "Float64s xs = fold insert_float xs []"

definition trimmed_sum :: "u64 list \<Rightarrow> u64" where
  "trimmed_sum xs = foldl f64_add 0 (butlast (tl (Float64s xs)))"

definition smoothSamples :: "powerControlSample list \<Rightarrow> (u64 \<times> u64) option" where
  "smoothSamples h =
     (let n = length h in
      if n = 0 then None
      else if n < 3 then Some (last h)
      else let divisor = float64_of_int (int n - 2)
        in Some (f64_div (trimmed_sum (map fst h)) divisor, f64_div (trimmed_sum (map snd h)) divisor))"

section \<open>One channel\<close>

datatype pc_op = PcRead "(int \<times> int) list" | PcWrite int int u32

datatype quality = QualityOK | QualityNaN

type_synonym graph_sample = "int \<times> int \<times> u64 \<times> quality"

record pc_env =
  pe_time :: gotime
  pe_measure :: "mecom_error + u64 list"
  pe_status :: "mecom_error + u64 list"
  pe_write :: "int \<Rightarrow> int \<Rightarrow> u32 \<Rightarrow> mecom_error option"
  pe_catalogue :: "int \<rightharpoonup> Parameter"

type_synonym pc_result = "pc_op list \<times> graph_sample list \<times> gateway"

definition setPowerControlStatus ::
    "string \<Rightarrow> int \<Rightarrow> u64 \<Rightarrow> quality \<Rightarrow> graph_sample list \<times> gateway \<Rightarrow> graph_sample list \<times> gateway" where
  "setPowerControlStatus deviceID inst status q x =
     (case x of (gs, st) \<Rightarrow> (gs @ [(2038, inst, status, q)], setVirtualParam deviceID 2038 inst status st))"

definition recordPowerControlWriteActivity ::
    "pc_env \<Rightarrow> string \<Rightarrow> int \<Rightarrow> int \<Rightarrow> u64 \<Rightarrow> mecom_error option \<Rightarrow> gateway \<Rightarrow> gateway" where
  "recordPowerControlWriteActivity env deviceID inst paramID val err st =
     (let signal = (case gatewayParameterByID (pe_catalogue env) paramID of
            Some p \<Rightarrow> (par_Name p, par_Unit p) | None \<Rightarrow> ([], []));
          base = (new_activity (pe_time env) deviceID)
            \<lparr>ga_ParamID := paramID, ga_Instance := inst, ga_RequestedValue := Some (AnyFloat64 val),
             ga_Status := StCompleted, ga_Transport := ''mecom'', ga_LeaseHolder := ''third-party-power-control'',
             ga_HTTPStatus := 200, ga_SignalName := fst signal, ga_SignalUnit := snd signal\<rparr>
      in recordCommandActivity
           (case err of
              None \<Rightarrow> base
            | Some e \<Rightarrow>
                (failing (WriteFault e) (gatewayCommandErrorCategory (Some (WriteFault e))) 502 base)\<lparr>ga_Status := StFailed\<rparr>)
           st)"

text \<open>The filtered resistance and whether the raw sample is non-ohmic.\<close>

definition resistance :: "u64 \<Rightarrow> u64 \<Rightarrow> u64 \<times> bool" where
  "resistance rRaw rPrev =
     (let filtered = f64_add (f64_mul c0_8 rPrev) (f64_mul c0_2 rRaw);
          rCandidate =
            (if f64_greater_int rPrev 0 then
               (if f64_less (f64_div (f64_abs (f64_sub filtered rPrev)) rPrev) c0_015 then rPrev else filtered)
             else rRaw);
          nonOhmic =
            (if f64_less rRaw c0_1 \<or> f64_less c1000 rRaw then True
             else if f64_greater_int rPrev 0 then
               (let ratio = f64_div rRaw rPrev in f64_less ratio c0_5 \<or> f64_less c2 ratio)
             else False)
      in (rCandidate, nonOhmic))"

definition clamp :: "u64 \<Rightarrow> u64 \<Rightarrow> u64" where
  "clamp hi x = (let y = (if f64_less hi x then hi else x) in if f64_less_int y 0 then 0 else y)"

text \<open>A step of 40 per cent of the way to the target, at most \<open>limit\<close> in either direction.\<close>

definition slew :: "u64 \<Rightarrow> u64 \<Rightarrow> u64 \<Rightarrow> u64" where
  "slew limit current target =
     (let step = f64_add current (f64_mul c0_4 (f64_sub target current));
          diff = f64_sub step current
      in if f64_less limit diff then f64_add current limit
         else if f64_less diff (f64_negate limit) then f64_sub current limit
         else step)"

definition setpoints :: "u64 \<Rightarrow> u64 \<Rightarrow> u64 \<Rightarrow> u64 \<Rightarrow> (u64 \<times> u64) option" where
  "setpoints pTarget rCandidate vCmd iLim =
     (let vTarget = clamp c80 (f64_sqrt (f64_mul pTarget rCandidate));
          iTarget = clamp c25 (f64_sqrt (f64_div pTarget rCandidate));
          headroom = f64_mul iTarget c1_2
      in if f64_isNaN vTarget \<or> f64_isNaN iTarget then None
         else Some (slew c5 vCmd vTarget, slew c2 iLim (if f64_less c25 headroom then c25 else headroom)))"

definition write_setpoint ::
    "pc_env \<Rightarrow> string \<Rightarrow> int \<Rightarrow> int \<Rightarrow> int \<Rightarrow> u64 \<Rightarrow> pc_op list \<times> gateway \<Rightarrow> mecom_error option \<times> pc_op list \<times> gateway" where
  "write_setpoint env deviceID inst paramID shadowID val x =
     (case x of (ops, st) \<Rightarrow>
        let w = float32_of_float64 val; err = pe_write env paramID inst w;
            st1 = recordPowerControlWriteActivity env deviceID inst paramID val err st
        in (err, ops @ [PcWrite paramID inst w],
            if err = None then setVirtualParam deviceID shadowID inst val st1 else st1))"

definition write_setpoints ::
    "pc_env \<Rightarrow> string \<Rightarrow> int \<Rightarrow> u64 \<times> u64 \<Rightarrow> pc_op list \<Rightarrow> graph_sample list \<Rightarrow> gateway \<Rightarrow> pc_result" where
  "write_setpoints env deviceID inst vi ops gs st =
     (case write_setpoint env deviceID inst 2021 2041 (fst vi) (ops, st) of
        (errV, x) \<Rightarrow>
          (case write_setpoint env deviceID inst 2030 2042 (snd vi) x of
             (errI, ops2, st2) \<Rightarrow>
               if errV = None \<and> errI = None then (ops2, gs, st2)
               else case setPowerControlStatus deviceID inst c2 QualityOK (gs, st2) of
                 (gs3, st3) \<Rightarrow>
                   (ops2, gs3,
                    (case errV of
                       Some e \<Rightarrow>
                         if shouldResetDeviceBinding (Some (WriteFault e)) then reset_if True deviceID (WriteFault e) st3
                         else (case errI of
                            Some e' \<Rightarrow> reset_if (shouldResetDeviceBinding (Some (WriteFault e'))) deviceID (WriteFault e') st3
                          | None \<Rightarrow> st3)
                     | None \<Rightarrow>
                         (case errI of
                            Some e' \<Rightarrow> reset_if (shouldResetDeviceBinding (Some (WriteFault e'))) deviceID (WriteFault e') st3
                          | None \<Rightarrow> st3)))))"

text \<open>No regulation on this tick: the resistance is reported as zero, the fault counter is cleared.\<close>

definition idle ::
    "string \<Rightarrow> int \<Rightarrow> u64 \<Rightarrow> quality \<Rightarrow> gateway \<Rightarrow> graph_sample list \<times> gateway" where
  "idle deviceID inst status q st =
     (case setPowerControlStatus deviceID inst status q
         ([(2036, inst, 0, QualityNaN)], setVirtualParam deviceID 2036 inst 0 st) of
        (gs, st1) \<Rightarrow> (gs, setVirtualParam deviceID 2043 inst 0 st1))"

definition regulate ::
    "golib \<Rightarrow> pc_env \<Rightarrow> string \<Rightarrow> int \<Rightarrow> u64 \<Rightarrow> u64 \<Rightarrow> u64 \<Rightarrow> u64 \<Rightarrow> pc_op list \<Rightarrow> gateway \<Rightarrow> pc_result" where
  "regulate lib env deviceID inst pTarget rRaw vCmd iLim ops st =
     (let rPrev = getVirtualParam deviceID 2037 inst 0 st;
          rCandidate = fst (resistance rRaw rPrev);
          nonOhmic = snd (resistance rRaw rPrev);
          count0 = int64_of_f64 lib (getVirtualParam deviceID 2043 inst 0 st);
          count = (if nonOhmic then count0 + 1 else 0);
          reportedR = (if f64_less_int rPrev 0 \<or> f64_eq_int rPrev 0 then rRaw else rPrev);
          st1 = (if nonOhmic
                 then setVirtualParam deviceID 2036 inst reportedR
                        (setVirtualParam deviceID 2043 inst (float64_of_int count) st)
                 else setVirtualParam deviceID 2037 inst rCandidate
                        (setVirtualParam deviceID 2036 inst rCandidate (setVirtualParam deviceID 2043 inst 0 st)));
          gs = (if nonOhmic then [(2036, inst, reportedR, QualityNaN)] else [(2036, inst, rCandidate, QualityOK)]);
          done = (\<lambda>s. case setPowerControlStatus deviceID inst s QualityOK (gs, st1) of (gs2, st2) \<Rightarrow> (ops, gs2, st2))
      in if f64_less_int pTarget 0 \<or> f64_eq_int pTarget 0 then done 0
         else if 3 \<le> count then done c2
         else if nonOhmic then done c1
         else case setPowerControlStatus deviceID inst c1 QualityOK (gs, st1) of
           (gs2, st2) \<Rightarrow>
             (case setpoints pTarget rCandidate vCmd iLim of
                None \<Rightarrow> (ops, gs2, st2)
              | Some vi \<Rightarrow> write_setpoints env deviceID inst vi ops gs2 st2))"

definition runChannelPowerControl ::
    "golib \<Rightarrow> pc_env \<Rightarrow> string \<Rightarrow> int \<Rightarrow> powerControlSample list \<Rightarrow> gateway \<Rightarrow> pc_result" where
  "runChannelPowerControl lib env deviceID inst h st =
     (let pTarget = getVirtualParam deviceID 2035 inst 0 st;
          measured = (case smoothSamples h of
              Some m \<Rightarrow> ([], Some m)
            | None \<Rightarrow> ([PcRead [(1021, inst), (1020, inst)]],
                (case pe_measure env of Inr [v, i] \<Rightarrow> Some (v, i) | _ \<Rightarrow> None)))
      in case snd measured of
           None \<Rightarrow> (fst measured, [], st)
         | Some (vMeas, iMeas) \<Rightarrow>
             let ops = fst measured @ [PcRead [(105, 1), (2010, inst), (2021, inst), (2030, inst)]] in
             case pe_status env of
               Inr [errorNumber, outEnable, vCmd, iLim] \<Rightarrow>
                 if \<not> f64_eq_int errorNumber 0 then
                   (case idle deviceID inst c2 QualityNaN (setVirtualParam deviceID 2035 inst 0 st) of (gs, st') \<Rightarrow> (ops, gs, st'))
                 else if \<not> f64_eq_int outEnable 1 \<or> f64_less iMeas c0_05 then
                   (case idle deviceID inst 0 QualityOK st of (gs, st') \<Rightarrow> (ops, gs, st'))
                 else regulate lib env deviceID inst pTarget (f64_div vMeas iMeas) vCmd iLim ops st
             | _ \<Rightarrow> (ops, [], st))"

section \<open>All channels of a device\<close>

fun run_channels ::
    "golib \<Rightarrow> (int \<Rightarrow> pc_env) \<Rightarrow> string \<Rightarrow> (int \<Rightarrow> string) \<Rightarrow> (int \<Rightarrow> powerControlSample list) \<Rightarrow> int list \<Rightarrow> gateway \<Rightarrow> pc_result" where
  "run_channels lib env deviceID role h [] st = ([], [], st)"
| "run_channels lib env deviceID role h (inst # is) st =
     (if role inst \<noteq> ''supply'' then run_channels lib env deviceID role h is st
      else case runChannelPowerControl lib (env inst) deviceID inst (h inst) st of
        (ops, gs, st1) \<Rightarrow>
          (case run_channels lib env deviceID role h is st1 of (ops2, gs2, st2) \<Rightarrow> (ops @ ops2, gs @ gs2, st2)))"

text \<open>\<open>bound\<close> is the result of \<open>bind\<close>: whether it returned a client, and one that can write.\<close>

definition runDevicePowerControl ::
    "golib \<Rightarrow> (int \<Rightarrow> pc_env) \<Rightarrow> string \<Rightarrow> bool \<Rightarrow> (bool \<times> bool) option \<Rightarrow> (int \<Rightarrow> string) \<Rightarrow> nat \<Rightarrow>
     (int \<Rightarrow> powerControlSample list) \<Rightarrow> gateway \<Rightarrow> pc_result" where
  "runDevicePowerControl lib env deviceID enabled bound role channelCount h st =
     (case (enabled, bound) of
        (True, Some (True, True)) \<Rightarrow> run_channels lib env deviceID role h (map int [1..<Suc channelCount]) st
      | _ \<Rightarrow> ([], [], st))"

section \<open>What the controller writes\<close>

definition is_write :: "pc_op \<Rightarrow> bool" where
  "is_write op = (case op of PcWrite _ _ _ \<Rightarrow> True | _ \<Rightarrow> False)"

text \<open>A set-point at most one step away from the current one, in the arithmetic of the code.\<close>

definition within_step :: "u64 \<Rightarrow> u64 \<Rightarrow> u64 \<Rightarrow> bool" where
  "within_step limit current v \<longleftrightarrow>
     v = f64_add current limit \<or> v = f64_sub current limit \<or>
     \<not> f64_less limit (f64_sub v current) \<and> \<not> f64_less (f64_sub v current) (f64_negate limit)"

lemma slew_within: "within_step limit current (slew limit current target)"
  by (auto simp: within_step_def slew_def Let_def)


lemma float32_NaN: "f64_isNaN b \<Longrightarrow> f32_isNaN (float32_of_float64 b)"
proof -
  assume n: "f64_isNaN b"
  define x where "x = f64_frac b div 2 ^ 29 mod 2 ^ 22"
  define sg :: nat where "sg = (if f64_neg b then 1 else 0)"
  have x: "x < 2 ^ 22" "sg < 2" by (simp_all add: x_def sg_def)
  have small: "unat (of_nat k :: u32) = k" if "k < 2 ^ 32" for k using that by (simp add: unat_of_nat)
  have "float32_of_float64 b = of_nat (sg * 2 ^ 31 + 255 * 2 ^ 23 + 2 ^ 22 + x)"
    using n by (simp add: float32_of_float64_def x_def sg_def Let_def)
  moreover have "sg * 2 ^ 31 + 255 * 2 ^ 23 + 2 ^ 22 + x < 2 ^ 32" using x by auto
  ultimately have u: "unat (float32_of_float64 b) = sg * 2 ^ 31 + 255 * 2 ^ 23 + 2 ^ 22 + x"
    by (simp only: small)
  also have "\<dots> = (sg * 256 + 255) * 2 ^ 23 + (2 ^ 22 + x)" by simp
  finally have u: "unat (float32_of_float64 b) = (sg * 256 + 255) * 2 ^ 23 + (2 ^ 22 + x)" .
  have q: "((sg * 256 + 255) * 2 ^ 23 + (2 ^ 22 + x)) div 2 ^ 23 = sg * 256 + 255"
    "((sg * 256 + 255) * 2 ^ 23 + (2 ^ 22 + x)) mod 2 ^ 23 = 2 ^ 22 + x"
    using x by (simp_all only: div_mult_self3 mod_mult_self3) simp_all
  have "(sg * 256 + 255) mod 256 = 255" by simp
  then show ?thesis unfolding f32_isNaN_def f32_exp_def f32_frac_def u q by simp
qed

lemma slew_NaN: "f64_isNaN current \<Longrightarrow> f64_isNaN (slew limit current target)"
  by (simp add: slew_def Let_def f64_sub_def)

lemma setpoints_within:
  "setpoints p r vCmd iLim = Some (v, i) \<Longrightarrow>
   within_step c5 vCmd v \<and> within_step c2 iLim i \<and> (f64_isNaN vCmd \<longrightarrow> f32_isNaN (float32_of_float64 v))"
  by (auto simp: setpoints_def Let_def slew_within float32_NaN slew_NaN split: if_splits)

lemma write_setpoints_ops:
  "fst (write_setpoints env d inst (v, i) ops gs st) =
     ops @ [PcWrite 2021 inst (float32_of_float64 v), PcWrite 2030 inst (float32_of_float64 i)]"
  by (simp add: write_setpoints_def write_setpoint_def Let_def split: prod.splits)

lemma regulate_writes:
  assumes "regulate lib env d inst pT rRaw vCmd iLim ops st = (ops', gs, st')"
  shows "ops' = ops \<or> \<not> f64_less_int pT 0 \<and> \<not> f64_eq_int pT 0 \<and>
    (\<exists>v i. within_step c5 vCmd v \<and> within_step c2 iLim i \<and> (f64_isNaN vCmd \<longrightarrow> f32_isNaN (float32_of_float64 v)) \<and>
       ops' = ops @ [PcWrite 2021 inst (float32_of_float64 v), PcWrite 2030 inst (float32_of_float64 i)])"
proof -
  let ?r = "fst (resistance rRaw (getVirtualParam d 2037 inst 0 st))"
  show ?thesis
  proof (cases "setpoints pT ?r vCmd iLim")
    case None
    then show ?thesis using assms by (auto simp: regulate_def Let_def split: if_splits prod.splits)
  next
    case (Some vi)
    obtain v i where vi: "vi = (v, i)" by force
    have "ops' = ops \<or> \<not> f64_less_int pT 0 \<and> \<not> f64_eq_int pT 0 \<and> (\<exists>gs st. ops' = fst (write_setpoints env d inst vi ops gs st))"
      using assms Some by (auto simp: regulate_def Let_def split: if_splits prod.splits) (metis fst_conv)+
    then show ?thesis using setpoints_within Some unfolding vi write_setpoints_ops by blast
  qed
qed

section \<open>Properties\<close>

text \<open>
  C33.  The power controller acts only on a healthy channel and in small steps: a tick writes
  nothing, or exactly the voltage set-point 2021 followed by the current limit 2030 of its own
  channel, and then the device reported no error, the output is enabled, the power target is
  positive or NaN, and neither value is more than 5 V or 2 A from the one the device reported.  If
  the device reported NaN as its voltage set-point, NaN is written.
\<close>

theorem power_control_guarded:
  assumes "runChannelPowerControl lib env dev inst h st = (ops, gs, st')"
  shows "filter is_write ops = [] \<or>
    (\<exists>err out vCmd iLim v i. pe_status env = Inr [err, out, vCmd, iLim] \<and> f64_eq_int err 0 \<and> f64_eq_int out 1 \<and>
       \<not> f64_less_int (getVirtualParam dev 2035 inst 0 st) 0 \<and> \<not> f64_eq_int (getVirtualParam dev 2035 inst 0 st) 0 \<and>
       within_step c5 vCmd v \<and> within_step c2 iLim i \<and> (f64_isNaN vCmd \<longrightarrow> f32_isNaN (float32_of_float64 v)) \<and>
       filter is_write ops = [PcWrite 2021 inst (float32_of_float64 v), PcWrite 2030 inst (float32_of_float64 i)])"
  using assms
  by (auto simp: runChannelPowerControl_def Let_def is_write_def dest!: regulate_writes
      split: option.splits prod.splits sum.splits list.splits if_splits) blast+

definition faulty_channel :: pc_env where
  "faulty_channel = \<lparr>pe_time = 0, pe_measure = Inr [c80, c2], pe_status = Inr [c5, c1, c80, c2],
     pe_write = (\<lambda>_ _ _. None), pe_catalogue = Map.empty\<rparr>"

theorem power_control_guarded_witness:
  "filter is_write (fst (runChannelPowerControl demo_lib faulty_channel ''tec-31'' 1 [] demo_gateway)) = []"
proof -
  obtain ops gs st' where r: "runChannelPowerControl demo_lib faulty_channel ''tec-31'' 1 [] demo_gateway = (ops, gs, st')"
    by (metis prod.exhaust)
  have "\<not> f64_eq_int c5 0"
    by (simp add: c5_def f64_eq_int_def f64_units_def fp_units_def f64_exp_def f64_frac_def f64_neg_def int_units_def Let_def)
  with power_control_guarded [OF r] show ?thesis unfolding r by (auto simp: faulty_channel_def)
qed

end
