(* ===== verification/Broker.thy ===== *)
theory Broker
  imports Frames Strings
begin

text \<open>
  The downstream broker of \<open>mecomserver/server.go\<close> with its statistics (\<open>stats.go\<close>): one goroutine
  owns the connection to a device and serves the requests of all clients one after the other.
  A connection is the bytes it has received and not yet delivered; what a request meets (dial
  result, write result, the bytes that arrive before its deadline, the error of the read, the bytes
  that the device sends only after the request has ended) is the
  record \<open>exchange_env\<close>.  Also the bounded frame reader of the client side and the error answer
  \<open>deviceServerError\<close>.
\<close>

section \<open>Constants and errors\<close>

definition defaultRequestTimeout :: int where "defaultRequestTimeout = 2 * second"
definition defaultReconnectDelay :: int where "defaultReconnectDelay = 500000000"
definition defaultClientIdleTimeout :: int where "defaultClientIdleTimeout = 30 * second"
definition defaultCommandIdempotencyTTL :: int where "defaultCommandIdempotencyTTL = 30 * second"
definition maxClientFrameBytes :: nat where "maxClientFrameBytes = 4096"

datatype server_error =
    DeadlineExceeded
  | Canceled
  | ClosedPipe
  | EndOfFile
  | NetClosed
  | EPIPE
  | ECONNRESET
  | ECONNABORTED
  | OtherIO string
  | BadMaxFrameSize
  | FrameTooLong nat
  | ShortFrame
  | NotARequest
  | InvalidAddress string
  | NoRoute byte
  | RouteNACK byte
  | NoCandidates

section \<open>Reading a bounded frame\<close>

text \<open>
  \<open>bufio.Reader.ReadSlice\<close> on a reader with a buffer of \<open>size\<close> bytes whose unread stream is \<open>s\<close>
  and ends with the error \<open>e\<close>: up to the first delimiter when it lies within the buffer, a full
  buffer otherwise, what is left when the stream ends first.
\<close>

datatype slice_error = ErrBufferFull | StreamError server_error

definition bufioSize :: nat where "bufioSize = 4096"

definition ReadSlice :: "server_error \<Rightarrow> string \<Rightarrow> string \<times> string \<times> slice_error option" where
  "ReadSlice e s =
     (let line = takeWhile (\<lambda>c. c \<noteq> FrameTerminator) s; n = length line in
      if n < length s \<and> n < bufioSize then (take (n + 1) s, drop (n + 1) s, None)
      else if bufioSize \<le> length s then (take bufioSize s, drop bufioSize s, Some ErrBufferFull)
      else (s, [], Some (StreamError e)))"

function read_bounded :: "nat \<Rightarrow> server_error \<Rightarrow> string \<Rightarrow> string \<Rightarrow> (string \<times> server_error option) \<times> string" where
  "read_bounded maxBytes e frame s =
     (case ReadSlice e s of
        (part, rest, err) \<Rightarrow>
          let frame1 = frame @ part in
          if maxBytes < length frame1 then (([], Some (FrameTooLong maxBytes)), rest)
          else case err of
            None \<Rightarrow> ((frame1, None), rest)
          | Some ErrBufferFull \<Rightarrow> read_bounded maxBytes e frame1 rest
          | Some (StreamError x) \<Rightarrow> ((frame1, Some x), rest))"
  by pat_completeness auto
termination
  by (relation "measure (\<lambda>(m, e, f, s). length s)")
    (auto simp: ReadSlice_def Let_def bufioSize_def split: if_splits)

declare read_bounded.simps [simp del]

definition readBoundedFramePartial :: "nat \<Rightarrow> server_error \<Rightarrow> string \<Rightarrow> (string \<times> server_error option) \<times> string" where
  "readBoundedFramePartial maxBytes e s =
     (if maxBytes = 0 then (([], Some BadMaxFrameSize), s) else read_bounded maxBytes e [] s)"

section \<open>The error answer\<close>

definition deviceServerError :: "string \<Rightarrow> string" where
  "deviceServerError requestFrame =
     (let frame = TrimSpace requestFrame;
          addressed = (7 \<le> length frame \<and> frame ! 0 = CHR ''#'');
          addr = (if addressed then take 2 (drop 1 frame) else ''00'');
          seq = (if addressed then take 4 (drop 3 frame) else ''0000'')
      in seal (''!'' @ addr @ seq @ ''-03''))"

section \<open>Statistics\<close>

record BrokerStats =
  bs_Address :: byte
  bs_RouteID :: string
  bs_Priority :: nat
  bs_Target :: string
  bs_Connected :: bool
  bs_LastConnectAt :: gotime
  bs_LastErrorAt :: gotime
  bs_LastError :: "server_error option"
  bs_FramesIn :: u64
  bs_FramesOut :: u64
  bs_ErrorCount :: u64

definition newBrokerStatsRecorder :: "byte \<Rightarrow> string \<Rightarrow> string \<Rightarrow> nat \<Rightarrow> BrokerStats" where
  "newBrokerStatsRecorder addr target routeID priority =
     \<lparr>bs_Address = addr, bs_RouteID = routeID, bs_Priority = priority, bs_Target = target, bs_Connected = False,
      bs_LastConnectAt = zero_time, bs_LastErrorAt = zero_time, bs_LastError = None, bs_FramesIn = 0,
      bs_FramesOut = 0, bs_ErrorCount = 0\<rparr>"

definition markConnected :: "gotime \<Rightarrow> string \<Rightarrow> BrokerStats \<Rightarrow> BrokerStats" where
  "markConnected now target s =
     (let s1 = s\<lparr>bs_Connected := True, bs_LastConnectAt := now\<rparr>
      in if target \<noteq> [] then s1\<lparr>bs_Target := target\<rparr> else s1)"

definition markError :: "gotime \<Rightarrow> server_error option \<Rightarrow> BrokerStats \<Rightarrow> BrokerStats" where
  "markError now err s =
     (case err of
        None \<Rightarrow> s
      | Some e \<Rightarrow> s\<lparr>bs_LastErrorAt := now, bs_LastError := Some e, bs_ErrorCount := bs_ErrorCount s + 1\<rparr>)"

definition markDisconnected :: "gotime \<Rightarrow> server_error option \<Rightarrow> BrokerStats \<Rightarrow> BrokerStats" where
  "markDisconnected now err s =
     (let s1 = s\<lparr>bs_Connected := False\<rparr> in
      case err of
        None \<Rightarrow> s1
      | Some e \<Rightarrow> s1\<lparr>bs_LastErrorAt := now, bs_LastError := Some e, bs_ErrorCount := bs_ErrorCount s1 + 1\<rparr>)"

definition markFrameIn :: "BrokerStats \<Rightarrow> BrokerStats" where
  "markFrameIn s = s\<lparr>bs_FramesIn := bs_FramesIn s + 1\<rparr>"

definition markFrameOut :: "BrokerStats \<Rightarrow> BrokerStats" where
  "markFrameOut s = s\<lparr>bs_FramesOut := bs_FramesOut s + 1\<rparr>"

section \<open>The broker\<close>

record exchange_env =
  xe_reqDone :: "server_error option"
  xe_dial :: "server_error + string"
  xe_time :: gotime
  xe_write :: "server_error option"
  xe_arrived :: string
  xe_readError :: server_error
  xe_ctxErr :: "server_error option"
  xe_late :: string

record broker =
  br_conn :: "string option"
  br_stats :: BrokerStats

text \<open>
  \<open>exchange\<close> on a connection with the undelivered bytes \<open>rx\<close>: the answer, or an error (that of the
  request's context when it is done), and the bytes left in the reader.
\<close>

definition broker_exchange :: "exchange_env \<Rightarrow> string \<Rightarrow> (server_error + string) \<times> string" where
  "broker_exchange env rx =
     (let ctxOr = (\<lambda>e. case xe_ctxErr env of Some c \<Rightarrow> c | None \<Rightarrow> e) in
      case xe_write env of
        Some e \<Rightarrow> (Inl (ctxOr e), rx)
      | None \<Rightarrow>
          let s = rx @ xe_arrived env; n = length (takeWhile (\<lambda>c. c \<noteq> FrameTerminator) s) in
          if n < length s then (Inr (take (n + 1) s), drop (n + 1) s)
          else (Inl (ctxOr (xe_readError env)), []))"

text \<open>One request through \<open>runBroker\<close>: the response it is given and the frame written downstream, if any.\<close>

definition serve_connected ::
    "exchange_env \<Rightarrow> string \<Rightarrow> broker \<Rightarrow> string \<Rightarrow> (server_error + string) \<times> string option \<times> broker" where
  "serve_connected env frame b rx =
     (case broker_exchange env rx of
        (Inl e, _) \<Rightarrow>
          (Inl e, Some frame, b\<lparr>br_conn := None, br_stats := markDisconnected (xe_time env) (Some e) (br_stats b)\<rparr>)
      | (Inr resp, rx') \<Rightarrow>
          (Inr resp, Some frame, b\<lparr>br_conn := Some rx', br_stats := markFrameOut (br_stats b)\<rparr>))"

definition runBroker ::
    "exchange_env \<Rightarrow> string \<Rightarrow> broker \<Rightarrow> (server_error + string) \<times> string option \<times> broker" where
  "runBroker env frame b0 =
     (let b = b0\<lparr>br_stats := markFrameIn (br_stats b0)\<rparr> in
      case xe_reqDone env of
        Some e \<Rightarrow> (Inl e, None, b)
      | None \<Rightarrow>
          (case br_conn b of
             Some rx \<Rightarrow> serve_connected env frame b rx
           | None \<Rightarrow>
               (case xe_dial env of
                  Inl e \<Rightarrow> (Inl e, None, b\<lparr>br_stats := markDisconnected (xe_time env) (Some e) (br_stats b)\<rparr>)
                | Inr desc \<Rightarrow>
                    serve_connected env frame
                      (b\<lparr>br_conn := Some [], br_stats := markConnected (xe_time env) desc (br_stats b)\<rparr>) [])))"

text \<open>
  Between two requests the device may still send: the bytes wait in the connection if it is open, and
  are lost with it otherwise.
\<close>

definition late_bytes :: "string \<Rightarrow> broker \<Rightarrow> broker" where
  "late_bytes late b = b\<lparr>br_conn := map_option (\<lambda>rx. rx @ late) (br_conn b)\<rparr>"

fun run_broker :: "(exchange_env \<times> string) list \<Rightarrow> broker \<Rightarrow> (server_error + string) list \<times> broker" where
  "run_broker [] b = ([], b)"
| "run_broker ((env, frame) # rs) b =
     (case runBroker env frame b of (resp, _, b1) \<Rightarrow>
        (case run_broker rs (late_bytes (xe_late env) b1) of (resps, b2) \<Rightarrow> (resp # resps, b2)))"

section \<open>Every reply belongs to its request\<close>

definition one_frame :: "string \<Rightarrow> bool" where
  "one_frame s \<longleftrightarrow> s \<noteq> [] \<and> last s = FrameTerminator \<and> FrameTerminator \<notin> set (butlast s)"

definition broker_ok :: "broker \<Rightarrow> bool" where
  "broker_ok b \<longleftrightarrow> br_conn b \<in> {None, Some []} \<and> (bs_Connected (br_stats b) \<longleftrightarrow> br_conn b \<noteq> None)"

lemma takeWhile_one_frame:
  "one_frame s \<Longrightarrow> length (takeWhile (\<lambda>c. c \<noteq> FrameTerminator) s) = length s - 1"
proof -
  assume "one_frame s"
  then obtain t where s: "s = t @ [FrameTerminator]" and t: "FrameTerminator \<notin> set t"
    unfolding one_frame_def by (metis append_butlast_last_id)
  have "takeWhile (\<lambda>c. c \<noteq> FrameTerminator) (t @ [FrameTerminator]) = t"
    using t by (subst takeWhile_append2) auto
  then show ?thesis by (simp add: s)
qed

lemma takeWhile_no_frame: "FrameTerminator \<notin> set s \<Longrightarrow> takeWhile (\<lambda>c. c \<noteq> FrameTerminator) s = s"
  by (rule takeWhile_eq_all_conv [THEN iffD2]) auto

text \<open>
  What the device sends for one request: one complete frame in time and nothing else, or nothing
  complete in time and then anything, later; nothing for a request that was never sent.
\<close>

definition device_answers_once :: "exchange_env \<Rightarrow> bool" where
  "device_answers_once env \<longleftrightarrow>
     one_frame (xe_arrived env) \<and> xe_late env = [] \<or>
     FrameTerminator \<notin> set (xe_arrived env) \<and> (xe_reqDone env = None \<or> xe_late env = [])"

text \<open>What a request must be answered: its own reply and nothing else, and that reply if nothing fails.\<close>

definition own_reply :: "exchange_env \<Rightarrow> server_error + string \<Rightarrow> bool" where
  "own_reply env resp \<longleftrightarrow>
     (case resp of Inr r \<Rightarrow> r = xe_arrived env | Inl _ \<Rightarrow> True) \<and>
     (one_frame (xe_arrived env) \<and> xe_reqDone env = None \<and> xe_write env = None \<and> (\<forall>e. xe_dial env \<noteq> Inl e) \<longrightarrow>
        resp = Inr (xe_arrived env))"

lemma serve_connected_ok:
  assumes "device_answers_once env" and "xe_reqDone env = None"
    and "serve_connected env frame b [] = (resp, w, b')" and "bs_Connected (br_stats b)"
  shows "broker_ok (late_bytes (xe_late env) b') \<and> own_reply env resp \<and>
    bs_FramesIn (br_stats b') = bs_FramesIn (br_stats b)"
proof (cases "one_frame (xe_arrived env) \<and> xe_late env = []")
  case True
  then have "xe_arrived env \<noteq> []" by (simp add: one_frame_def)
  then show ?thesis using assms(2-4) True
    by (auto simp: serve_connected_def broker_exchange_def broker_ok_def own_reply_def late_bytes_def
        markDisconnected_def markFrameOut_def takeWhile_one_frame Let_def split: option.splits)
next
  case False
  then have no: "FrameTerminator \<notin> set (xe_arrived env)" using assms(1) by (auto simp: device_answers_once_def)
  then have "\<not> one_frame (xe_arrived env)" unfolding one_frame_def by (metis last_in_set)
  then show ?thesis using assms(3,4) no
    by (auto simp: serve_connected_def broker_exchange_def broker_ok_def own_reply_def late_bytes_def
        markDisconnected_def takeWhile_no_frame Let_def split: option.splits)
qed

lemma runBroker_ok:
  assumes "device_answers_once env" and "broker_ok b" and "runBroker env frame b = (resp, w, b')"
  shows "broker_ok (late_bytes (xe_late env) b') \<and> own_reply env resp \<and>
    bs_FramesIn (br_stats b') = bs_FramesIn (br_stats b) + 1"
proof -
  let ?b = "b\<lparr>br_stats := markFrameIn (br_stats b)\<rparr>"
  have f: "bs_FramesIn (br_stats ?b) = bs_FramesIn (br_stats b) + 1" "broker_ok ?b" "br_conn ?b = br_conn b"
    using assms(2) by (simp_all add: markFrameIn_def broker_ok_def)
  show ?thesis
  proof (cases "xe_reqDone env")
    case (Some e)
    then have "xe_late env = []" using assms(1) by (auto simp: device_answers_once_def)
    then show ?thesis using assms(3) f Some by (auto simp: runBroker_def late_bytes_def own_reply_def option.map_ident broker_ok_def)
  next
    case None
    show ?thesis
    proof (cases "br_conn b")
      case (Some rx)
      then have "rx = []" "bs_Connected (br_stats ?b)" using f(2,3) by (auto simp: broker_ok_def)
      then show ?thesis using serve_connected_ok [OF assms(1) None, of frame ?b resp w b'] None Some assms(3) f
        by (auto simp: runBroker_def)
    next
      case nc: None
      show ?thesis
      proof (cases "xe_dial env")
        case (Inl e)
        then have "resp = Inl e" using assms(3) nc None by (simp add: runBroker_def)
        then show ?thesis using assms(2,3) nc None f Inl
          by (auto simp: runBroker_def broker_ok_def markDisconnected_def late_bytes_def own_reply_def)
      next
        case (Inr desc)
        then show ?thesis
          using serve_connected_ok [OF assms(1) None, of frame "?b\<lparr>br_conn := Some [], br_stats := markConnected (xe_time env) desc (br_stats ?b)\<rparr>" resp w b']
            assms(3) nc None f
          by (auto simp: runBroker_def markConnected_def Let_def)
      qed
    qed
  qed
qed

section \<open>Properties\<close>

text \<open>
  C8.  A broker never answers with another request's reply: however many requests fail before it, and
  whatever the device still sends for a request after that request has failed (a whole late reply, for
  example), every response the broker delivers is exactly what arrived during that request's own
  exchange, because a failed exchange closes the connection with whatever it may still deliver.  A
  request whose reply arrives in time, over a connection that can be opened and written, gets it.
  (For one request the device sends one frame in time, or nothing complete in time.)  The statistics
  count every request.
\<close>

theorem broker_no_stale_reply:
  assumes "broker_ok b" and "run_broker rs b = (resps, b')"
    and "list_all (\<lambda>(env, frame). device_answers_once env) rs"
  shows "length resps = length rs \<and> broker_ok b' \<and>
    list_all2 (\<lambda>(env, frame) resp. own_reply env resp) rs resps \<and>
    bs_FramesIn (br_stats b') = bs_FramesIn (br_stats b) + of_nat (length rs)"
  using assms
proof (induction rs arbitrary: b resps)
  case (Cons r rs)
  obtain env frame where r: "r = (env, frame)" by force
  obtain resp w b1 where one: "runBroker env frame b = (resp, w, b1)" by (metis prod.exhaust)
  let ?b1 = "late_bytes (xe_late env) b1"
  obtain resps' where rest: "run_broker rs ?b1 = (resps', b')" "resps = resp # resps'"
    using Cons.prems(2) r one by (auto split: prod.splits)
  have "device_answers_once env" using Cons.prems(3) r by simp
  note ok = runBroker_ok [OF this Cons.prems(1) one]
  moreover have "br_stats ?b1 = br_stats b1" by (simp add: late_bytes_def)
  ultimately show ?case using Cons.IH [OF _ rest(1)] Cons.prems(3) rest(2) r by auto
qed (simp add: broker_ok_def)

definition demo_exchange :: "string \<Rightarrow> string \<Rightarrow> exchange_env" where
  "demo_exchange bytes late = \<lparr>xe_reqDone = None, xe_dial = Inr ''tcp'', xe_time = 0, xe_write = None, xe_arrived = bytes,
     xe_readError = OtherIO ''i/o timeout'', xe_ctxErr = Some DeadlineExceeded, xe_late = late\<rparr>"

definition idle_broker :: broker where
  "idle_broker = \<lparr>br_conn = None, br_stats = newBrokerStatsRecorder 1 ''t'' ''r'' 0\<rparr>"

text \<open>The first reply comes after its deadline, complete; the second request gets its own reply.\<close>

definition demo_requests :: "(exchange_env \<times> string) list" where
  "demo_requests =
     [(demo_exchange ''!0'' (CHR ''1'' # [FrameTerminator]), ''a''), (demo_exchange [CHR ''!'', FrameTerminator] [], ''b'')]"

theorem broker_no_stale_reply_witness:
  "fst (run_broker demo_requests idle_broker) ! 1 = Inr [CHR ''!'', FrameTerminator] \<and>
   broker_ok (snd (run_broker demo_requests idle_broker))"
proof -
  obtain resps b' where r: "run_broker demo_requests idle_broker = (resps, b')" by force
  have "broker_ok idle_broker" by (simp add: broker_ok_def idle_broker_def newBrokerStatsRecorder_def)
  moreover have "list_all (\<lambda>(env, frame). device_answers_once env) demo_requests"
    by (simp add: demo_requests_def demo_exchange_def device_answers_once_def one_frame_def FrameTerminator_def)
  ultimately have "broker_ok b' \<and> list_all2 (\<lambda>(env, frame) resp. own_reply env resp) demo_requests resps"
    using broker_no_stale_reply [OF _ r] by simp
  then show ?thesis unfolding r
    by (auto simp: demo_requests_def list_all2_Cons1 own_reply_def demo_exchange_def one_frame_def FrameTerminator_def)
qed

end
