(* ===== verification/RouterFrames.thy ===== *)
theory RouterFrames
  imports Broker
begin

text \<open>
  The router's view of MeCom frames (\<open>mecomserver/router.go\<close> and the request parser of
  \<open>device_bridge.go\<close>): the destination address, read frames, NACK codes, and the rewriting that lets
  one device answer at address zero.
\<close>

section \<open>Requests\<close>

record deviceBridgeRequest =
  dr_raw :: string
  dr_address :: byte
  dr_seq :: u16
  dr_payload :: string

datatype request_error =
    InvalidRequestFrame string
  | FrameTooShortForCRC string
  | InvalidRequestCRC string num_err
  | RequestCRCMismatch nat u16
  | InvalidRequestAddress string num_err
  | InvalidRequestSequence string num_err

definition verifyDeviceBridgeCRC :: "string \<Rightarrow> request_error + unit" where
  "verifyDeviceBridgeCRC frame =
     (if length frame \<le> 4 then Inl (FrameTooShortForCRC frame)
      else let payloadEnd = length frame - 4 in
        case ParseUint (drop payloadEnd frame) 16 of
          Inl e \<Rightarrow> Inl (InvalidRequestCRC (drop payloadEnd frame) e)
        | Inr got \<Rightarrow>
            (let want = CRC16 (take payloadEnd frame) in
             if of_nat got \<noteq> want then Inl (RequestCRCMismatch got want) else Inr ()))"

definition parseDeviceBridgeRequest :: "string \<Rightarrow> request_error + deviceBridgeRequest" where
  "parseDeviceBridgeRequest raw =
     (let frame = trim_suffix1 FrameTerminator (TrimSpace raw) in
      if 2 \<le> length frame \<and> frame ! 0 = CHR ''?'' then
        Inr \<lparr>dr_raw = raw, dr_address = 0, dr_seq = 0, dr_payload = ToUpper frame\<rparr>
      else if length frame < 11 \<or> frame ! 0 \<noteq> CHR ''#'' then Inl (InvalidRequestFrame frame)
      else case verifyDeviceBridgeCRC frame of
        Inl e \<Rightarrow> Inl e
      | Inr _ \<Rightarrow>
          (case ParseUint (slice 1 3 frame) 8 of
             Inl e \<Rightarrow> Inl (InvalidRequestAddress (slice 1 3 frame) e)
           | Inr addr \<Rightarrow>
               (case ParseUint (slice 3 7 frame) 16 of
                  Inl e \<Rightarrow> Inl (InvalidRequestSequence (slice 3 7 frame) e)
                | Inr seq \<Rightarrow>
                    Inr \<lparr>dr_raw = raw, dr_address = of_nat addr, dr_seq = of_nat seq,
                         dr_payload = ToUpper (slice 7 (length frame - 4) frame)\<rparr>)))"

definition parseDeviceBridgeParameter :: "string \<Rightarrow> (int \<times> int) option" where
  "parseDeviceBridgeParameter payload =
     (if length payload \<noteq> 6 then None
      else case ParseUint (take 4 payload) 16 of
        Inl _ \<Rightarrow> None
      | Inr paramID \<Rightarrow>
          (case ParseUint (drop 4 payload) 8 of Inl _ \<Rightarrow> None | Inr inst \<Rightarrow> Some (int paramID, int inst)))"

definition RequestAddress :: "string \<Rightarrow> server_error + byte" where
  "RequestAddress frame0 =
     (let frame = TrimSpace frame0 in
      if length frame < 3 then Inl ShortFrame
      else if frame ! 0 \<noteq> CHR ''#'' then
        (if frame ! 0 = CHR ''?'' then Inr 0 else Inl NotARequest)
      else case ParseUint (slice 1 3 frame) 8 of
        Inl _ \<Rightarrow> Inl (InvalidAddress (slice 1 3 frame))
      | Inr n \<Rightarrow> Inr (of_nat n))"

definition isMeComReadFrame :: "string \<Rightarrow> bool" where
  "isMeComReadFrame frame =
     (let s = TrimSpace frame in
      if HasPrefix s ''?'' then True
      else if 7 < length s \<and> s ! 0 = CHR ''#'' then s ! 7 = CHR ''?''
      else False)"

section \<open>Rewriting\<close>

definition routedRequestFrame :: "byte \<Rightarrow> u16 \<Rightarrow> string \<Rightarrow> string" where
  "routedRequestFrame addr seq payload = seal (''#'' @ fmtX 2 (uint addr) @ fmtX 4 (uint seq) @ ToUpper payload)"

definition routeRequestAliases :: "string \<rightharpoonup> string" where
  "routeRequestAliases = [''?VI'' \<mapsto> ''?IF'']"

definition rewriteRouteCompatibilityFrame :: "string \<Rightarrow> string" where
  "rewriteRouteCompatibilityFrame frame =
     (let s = TrimSpace frame in
      if s = [] then frame
      else if HasPrefix s ''?'' then
        (case routeRequestAliases (ToUpper s) of
           None \<Rightarrow> frame
         | Some replacement \<Rightarrow> replacement @ [FrameTerminator])
      else if s ! 0 \<noteq> CHR ''#'' then frame
      else case parseDeviceBridgeRequest frame of
        Inl _ \<Rightarrow> frame
      | Inr req \<Rightarrow>
          (case routeRequestAliases (dr_payload req) of
             None \<Rightarrow> frame
           | Some replacement \<Rightarrow> routedRequestFrame (dr_address req) (dr_seq req) replacement))"

definition isAddressedRouteFrame :: "string \<Rightarrow> byte \<Rightarrow> bool" where
  "isAddressedRouteFrame frame addr =
     (let s = TrimSpace frame in
      3 \<le> length s \<and> s ! 0 = CHR ''#'' \<and> EqualFold (slice 1 3 s) (fmtX 2 (uint addr)))"

definition rewriteRouteAddressZeroRequest :: "string \<Rightarrow> byte \<Rightarrow> string" where
  "rewriteRouteAddressZeroRequest frame addr =
     (if addr = 0 \<or> \<not> isAddressedRouteFrame frame 0 then frame
      else case parseDeviceBridgeRequest frame of
        Inl _ \<Rightarrow> frame
      | Inr req \<Rightarrow> if dr_address req \<noteq> 0 then frame else routedRequestFrame addr (dr_seq req) (dr_payload req))"

definition rewriteMeComResponseAddress :: "string \<Rightarrow> byte \<Rightarrow> string" where
  "rewriteMeComResponseAddress frame addr =
     (let s = TrimSpace frame in
      if length s < 11 \<or> s ! 0 \<noteq> CHR ''!'' then frame
      else let payloadEnd = length s - 4 in
        if payloadEnd \<le> 7 then frame
        else seal (''!'' @ fmtX 2 (uint addr) @ slice 3 payloadEnd s))"

definition restoreRouteAddressZeroResponse :: "string \<Rightarrow> string \<Rightarrow> string" where
  "restoreRouteAddressZeroResponse requestFrame responseFrame =
     (if \<not> isAddressedRouteFrame requestFrame 0 then responseFrame
      else rewriteMeComResponseAddress responseFrame 0)"

definition meComResponseNACKCode :: "string \<Rightarrow> byte option" where
  "meComResponseNACKCode frame =
     (let s = TrimSpace frame in
      if length s < 10 \<or> s ! 0 \<noteq> CHR ''!'' \<or> s ! 7 \<noteq> CHR ''-'' then None
      else case ParseUint (slice 8 10 s) 8 of Inl _ \<Rightarrow> None | Inr n \<Rightarrow> Some (of_nat n))"

section \<open>Which NACKs another route may answer\<close>

text \<open>
  The tables of the default SDO map: the transforms to virtual parameters, the parameters whose
  unsupported behaviour is the serial fallback, the known parameter types and instance counts.
\<close>

record bridge_tables =
  bt_virtual :: "int \<Rightarrow> bool"
  bt_serialFallback :: "int \<Rightarrow> bool"
  bt_typed :: "int \<Rightarrow> bool"
  bt_maxInstances :: "int \<Rightarrow> int"

definition deviceBridgeEncodedParameterIsVirtual :: "bridge_tables \<Rightarrow> string \<Rightarrow> bool" where
  "deviceBridgeEncodedParameterIsVirtual t encoded =
     (case parseDeviceBridgeParameter encoded of None \<Rightarrow> False | Some (paramID, _) \<Rightarrow> bt_virtual t paramID)"

definition bulk_entries :: "string \<Rightarrow> nat \<Rightarrow> string list" where
  "bulk_entries payload count = map (\<lambda>i. slice (5 + i * 6) (11 + i * 6) payload) [0..<count]"

definition single_read :: "string \<Rightarrow> bool" where
  "single_read payload \<longleftrightarrow> HasPrefix payload ''?VM'' \<or> HasPrefix payload ''?VR''"

definition isRouteVirtualRead :: "bridge_tables \<Rightarrow> string \<Rightarrow> bool" where
  "isRouteVirtualRead t frame =
     (case parseDeviceBridgeRequest frame of
        Inl _ \<Rightarrow> False
      | Inr req \<Rightarrow>
          let payload = dr_payload req in
          if single_read payload then
            length payload = 9 \<and> deviceBridgeEncodedParameterIsVirtual t (drop 3 payload)
          else if HasPrefix payload ''?VX'' then
            (if length payload < 5 then False
             else case ParseUint (slice 3 5 payload) 8 of
               Inl _ \<Rightarrow> False
             | Inr count \<Rightarrow>
                 count \<noteq> 0 \<and> length payload = 5 + count * 6 \<and>
                 list_ex (deviceBridgeEncodedParameterIsVirtual t) (bulk_entries payload count))
          else False)"

definition fallback_entry :: "bridge_tables \<Rightarrow> string \<Rightarrow> bool option" where
  "fallback_entry t encoded =
     map_option (\<lambda>(paramID, inst). inst = 1 \<and> bt_serialFallback t paramID) (parseDeviceBridgeParameter encoded)"

fun any_fallback :: "bridge_tables \<Rightarrow> string list \<Rightarrow> bool" where
  "any_fallback t [] = False"
| "any_fallback t (e # es) =
     (case fallback_entry t e of None \<Rightarrow> False | Some True \<Rightarrow> True | Some False \<Rightarrow> any_fallback t es)"

definition isRouteUnsupportedSerialFallbackRead :: "bridge_tables \<Rightarrow> string \<Rightarrow> bool" where
  "isRouteUnsupportedSerialFallbackRead t frame =
     (case parseDeviceBridgeRequest frame of
        Inl _ \<Rightarrow> False
      | Inr req \<Rightarrow>
          let payload = dr_payload req in
          if single_read payload \<and> length payload = 9 then fallback_entry t (drop 3 payload) = Some True
          else if HasPrefix payload ''?VX'' \<and> 5 \<le> length payload then
            (case ParseUint (slice 3 5 payload) 8 of
               Inl _ \<Rightarrow> False
             | Inr count \<Rightarrow>
                 if length payload < 5 + count * 6 then False else any_fallback t (bulk_entries payload count))
          else False)"

definition deviceBridgeValidateParameterInstance :: "bridge_tables \<Rightarrow> int \<Rightarrow> int \<Rightarrow> bool" where
  "deviceBridgeValidateParameterInstance t paramID inst =
     (let maxInstance = (if bt_maxInstances t paramID \<le> 0 then 1 else bt_maxInstances t paramID)
      in \<not> (inst < 1 \<or> maxInstance < inst))"

definition single_parameter :: "string \<Rightarrow> (int \<times> int) option" where
  "single_parameter frame =
     (case parseDeviceBridgeRequest frame of
        Inl _ \<Rightarrow> None
      | Inr req \<Rightarrow>
          if \<not> HasPrefix (dr_payload req) ''?VR'' \<or> length (dr_payload req) \<noteq> 9 then None
          else parseDeviceBridgeParameter (drop 3 (dr_payload req)))"

definition isRouteCatalogueParameterRead :: "bridge_tables \<Rightarrow> string \<Rightarrow> bool" where
  "isRouteCatalogueParameterRead t frame =
     (case single_parameter frame of
        None \<Rightarrow> False
      | Some (paramID, inst) \<Rightarrow> bt_typed t paramID \<and> deviceBridgeValidateParameterInstance t paramID inst)"

definition isRouteIdentityParameterRead :: "string \<Rightarrow> bool" where
  "isRouteIdentityParameterRead frame = (single_parameter frame = Some (102, 1))"

definition shouldFallThroughRouteNACK :: "bridge_tables \<Rightarrow> string \<Rightarrow> byte \<Rightarrow> bool" where
  "shouldFallThroughRouteNACK t frame code =
     (if code = 0x01 then True
      else if code = 0x03 then isRouteIdentityParameterRead frame \<or> isRouteCatalogueParameterRead t frame
      else if code = 0x04 \<or> code = 0x05 then isRouteUnsupportedSerialFallbackRead t frame
      else False)"

section \<open>Sealed frames\<close>

lemma space_terminator [simp]: "is_space FrameTerminator" "\<not> is_space (CHR ''#'')" "\<not> is_space (CHR ''!'')"
  by (simp_all add: is_space_def FrameTerminator_def)

lemma hexN_not_space: "c \<in> set (hexN w n) \<Longrightarrow> \<not> is_space c"
proof -
  assume "c \<in> set (hexN w n)"
  then have "c \<in> set ''0123456789ABCDEF''" using set_hexN by blast
  then show ?thesis by (auto simp: is_space_def)
qed

lemma TrimSpace_hex:
  assumes "p \<noteq> []" and "\<not> is_space (hd p)"
  shows "TrimSpace (p @ hexN 4 n @ [FrameTerminator]) = p @ hexN 4 n"
proof -
  let ?h = "hexN 4 n"
  have h: "rev ?h \<noteq> []" by (metis length_hexN list.size(3) rev_is_Nil_conv zero_neq_numeral)
  then have "\<not> is_space (hd (rev ?h))" using hexN_not_space [of "hd (rev ?h)"] by (metis hd_in_set set_rev)
  then have d: "dropWhile is_space (rev ?h @ xs) = rev ?h @ xs" for xs using h by (cases "rev ?h") auto
  have "dropWhile is_space (p @ ?h @ [FrameTerminator]) = p @ ?h @ [FrameTerminator]"
    using assms by (cases p) auto
  then show ?thesis by (simp add: TrimSpace_def d)
qed

lemma TrimSpace_seal: "p \<noteq> [] \<Longrightarrow> \<not> is_space (hd p) \<Longrightarrow> TrimSpace (seal p) = p @ hexN 4 (unat (CRC16 p))"
  by (simp add: seal_eq TrimSpace_hex)

lemma trim_suffix1_hex: "trim_suffix1 FrameTerminator (p @ hexN 4 n) = p @ hexN 4 n"
proof (rule trim_suffix1_other)
  have "hexN 4 n \<noteq> []" by (metis length_hexN list.size(3) zero_neq_numeral)
  then have "last (p @ hexN 4 n) \<in> set (hexN 4 n)" by simp
  then show "last (p @ hexN 4 n) \<noteq> FrameTerminator" using CR_not_hex [of 4 n] by auto
qed

lemma to_upper_idem [simp]: "to_upper (to_upper c) = to_upper c"
proof -
  have "of_char (char_of (n :: nat) :: char) = n" if "n < 256" for n using that by simp
  then show ?thesis unfolding to_upper_def Let_def by (auto simp: of_char_of)
qed

lemma ToUpper_idem [simp]: "ToUpper (ToUpper s) = ToUpper s"
  by (simp add: ToUpper_def)

lemma verifyDeviceBridgeCRC_sealed: "p \<noteq> [] \<Longrightarrow> verifyDeviceBridgeCRC (p @ hexN 4 (unat (CRC16 p))) = Inr ()"
  by (cases p) (auto simp: verifyDeviceBridgeCRC_def Let_def ParseUint_hexN_u16)

definition req_prefix :: "byte \<Rightarrow> u16 \<Rightarrow> string \<Rightarrow> string" where
  "req_prefix a s pl = CHR ''#'' # hexN 2 (unat a) @ hexN 4 (unat s) @ pl"

lemma routed_seal: "routedRequestFrame a s pl = seal (req_prefix a s (ToUpper pl))"
  by (simp add: routedRequestFrame_def req_prefix_def fmtX_u8 fmtX_u16)

lemma req_prefix_simps [simp]:
  "req_prefix a s pl \<noteq> []" "hd (req_prefix a s pl) = CHR ''#''" "req_prefix a s pl ! 0 = CHR ''#''"
  "length (req_prefix a s pl) = 7 + length pl"
  "slice (Suc 0) 3 (req_prefix a s pl @ t) = hexN 2 (unat a)" "slice 3 7 (req_prefix a s pl @ t) = hexN 4 (unat s)"
  "slice 7 (7 + length pl) (req_prefix a s pl @ t) = pl" "slice (Suc 0) 7 (req_prefix a s pl @ t) = hexN 2 (unat a) @ hexN 4 (unat s)"
  by (simp_all add: req_prefix_def slice_def)

lemma parse_request_seal:
  "parseDeviceBridgeRequest (seal (req_prefix a s pl)) =
     Inr \<lparr>dr_raw = seal (req_prefix a s pl), dr_address = a, dr_seq = s, dr_payload = ToUpper pl\<rparr>"
  by (simp add: parseDeviceBridgeRequest_def TrimSpace_seal trim_suffix1_hex verifyDeviceBridgeCRC_sealed nth_append
      ParseUint_hexN_u8 ParseUint_hexN_u16 Let_def)

lemma EqualFold_refl [simp]: "EqualFold s s"
  by (simp add: EqualFold_def)

lemma fmtX_zero [simp]: "fmtX 2 0 = hexN 2 0"
  using fmtX_u8 [of 0] by simp

lemma addressed_zero [simp]: "isAddressedRouteFrame (seal (req_prefix 0 s pl)) 0"
  by (simp add: isAddressedRouteFrame_def TrimSpace_seal nth_append Let_def)

lemma rewrite_zero_request:
  "a \<noteq> 0 \<Longrightarrow> rewriteRouteAddressZeroRequest (routedRequestFrame 0 s pl) a = routedRequestFrame a s pl"
  by (simp add: routed_seal rewriteRouteAddressZeroRequest_def parse_request_seal)

lemma rewrite_response:
  assumes "pl \<noteq> []"
  shows "rewriteMeComResponseAddress (seal (resp_prefix a s pl)) b = seal (resp_prefix b s pl)"
proof -
  have p: "resp_prefix a s pl \<noteq> []" "hd (resp_prefix a s pl) = CHR ''!''"
    by (simp_all add: resp_prefix_def)
  have "slice 3 (length (resp_prefix a s pl)) (resp_prefix a s pl @ t) = hexN 4 (unat s) @ pl" for t
    by (simp add: slice_def resp_prefix_def)
  then show ?thesis using assms p
    by (simp add: rewriteMeComResponseAddress_def TrimSpace_seal nth_append Let_def fmtX_u8 resp_prefix_def)
qed

section \<open>Properties\<close>

text \<open>
  Address zero is transparent for replies with a payload: a request for address zero is sent to
  the chosen device re-addressed and re-sealed, the router parses what it sends, and the reply of
  that device, data, acknowledgement or NACK, comes back to the client exactly as the device would
  have sealed it at address zero, so the client decodes the same payload.
\<close>

theorem address_zero_transparent:
  assumes "a \<noteq> 0" and "pl \<noteq> []" and "hd pl \<notin> {CHR ''+'', CHR ''-''}"
  shows "rewriteRouteAddressZeroRequest (routedRequestFrame 0 s q) a = routedRequestFrame a s q \<and>
    parseDeviceBridgeRequest (routedRequestFrame a s q) =
      Inr \<lparr>dr_raw = routedRequestFrame a s q, dr_address = a, dr_seq = s, dr_payload = ToUpper q\<rparr> \<and>
    restoreRouteAddressZeroResponse (routedRequestFrame 0 s q) (deviceBridgeData a s pl) = deviceBridgeData 0 s pl \<and>
    parsePayload (restoreRouteAddressZeroResponse (routedRequestFrame 0 s q) (deviceBridgeData a s pl)) = Inr pl \<and>
    restoreRouteAddressZeroResponse (routedRequestFrame 0 s q) (deviceBridgeOK a s pl) = deviceBridgeOK 0 s pl \<and>
    restoreRouteAddressZeroResponse (routedRequestFrame 0 s q) (deviceBridgeNACK a s code) = deviceBridgeNACK 0 s code"
  using assms rewrite_zero_request [OF assms(1)] parsePayload_Data [of pl 0 s]
  by (simp add: routed_seal parse_request_seal restoreRouteAddressZeroResponse_def response_seal rewrite_response)

theorem address_zero_transparent_witness:
  "parsePayload (restoreRouteAddressZeroResponse (routedRequestFrame 0 7 ''?VR03E801'') (deviceBridgeData 75 7 ''41C80000'')) =
     Inr ''41C80000''"
proof -
  have "(75 :: byte) \<noteq> 0" "''41C80000'' \<noteq> []" "hd ''41C80000'' \<notin> {CHR ''+'', CHR ''-''}" by simp_all
  from address_zero_transparent [OF this, of 7 "''?VR03E801''" 5] show ?thesis by blast
qed

text \<open>The acknowledgement that carries only the checksum of the request it answers.\<close>

definition bare_ack :: "string \<Rightarrow> byte \<Rightarrow> u16 \<Rightarrow> string" where
  "bare_ack prefix a s = CHR ''!'' # hexN 2 (unat a) @ hexN 4 (unat s) @ hexN 4 (unat (CRC16 prefix)) @ [FrameTerminator]"

lemma resp_prefix_split: "resp_prefix a s (x @ y) = resp_prefix a s x @ y"
  by (simp add: resp_prefix_def)

lemma bare_ack_eq: "bare_ack p a s = resp_prefix a s [] @ hexN 4 (unat (CRC16 p)) @ [FrameTerminator]"
  by (simp add: bare_ack_def resp_prefix_def)

lemma bare_ack_trim:
  "TrimSpace (bare_ack p a s) = resp_prefix a s [] @ hexN 4 (unat (CRC16 p))"
  "trim_suffix1 FrameTerminator (bare_ack p a s) = resp_prefix a s [] @ hexN 4 (unat (CRC16 p))"
proof -
  show "TrimSpace (bare_ack p a s) = resp_prefix a s [] @ hexN 4 (unat (CRC16 p))"
    unfolding bare_ack_eq by (rule TrimSpace_hex) (simp_all add: resp_prefix_def)
  show "trim_suffix1 FrameTerminator (bare_ack p a s) = resp_prefix a s [] @ hexN 4 (unat (CRC16 p))"
    unfolding bare_ack_eq append_assoc [symmetric] by (rule trim_suffix1_snoc)
qed

lemma bare_ack_unsealed:
  "CRC16 (resp_prefix a s []) \<noteq> CRC16 p \<Longrightarrow> \<exists>e. ParseWriteResponse (bare_ack p a s) = Inl e"
  by (auto simp: ParseWriteResponse_def parsePayload_def bare_ack_trim verifyCRC_def Let_def nth_append ParseUint_hexN_u16)

lemma bare_ack_matches:
  "isBareRequestCRCAck (bare_ack (req_prefix a s pl) a s) (seal (req_prefix b s pl)) \<longleftrightarrow>
     hexN 2 (unat a) = hexN 2 (unat b) \<and> CRC16 (req_prefix a s pl) = CRC16 (req_prefix b s pl)"
proof -
  have "slice (Suc 0) 7 (resp_prefix a s [] @ t) = hexN 2 (unat a) @ hexN 4 (unat s)" for t
    by (simp add: slice_def resp_prefix_def)
  then show ?thesis
    by (simp add: isBareRequestCRCAck_def bare_ack_trim trim_seal Let_def nth_append ParseUint_hexN_u16)
qed

lemma hexN_u8_inj: "hexN 2 (unat (a :: byte)) = hexN 2 (unat b) \<Longrightarrow> a = b"
  by (metis ParseUint_hexN_u8 sum.inject(2) word_unat_eq_iff)

text \<open>
  C34.  A bare acknowledgement does not survive address zero: a device that acknowledges a write with
  the checksum of the request (which \<open>ParseWriteResponseForRequest\<close> accepts) acknowledges the
  re-addressed request, and the router passes that acknowledgement on unchanged, so the client that
  wrote to address zero reports an error although the write was accepted.
\<close>

theorem address_zero_bare_ack_rejected:
  assumes "a \<noteq> 0" and "CRC16 (resp_prefix a s []) \<noteq> CRC16 (req_prefix a s (ToUpper q))"
    and "ack = bare_ack (req_prefix a s (ToUpper q)) a s"
  shows "ParseWriteResponseForRequest ack (rewriteRouteAddressZeroRequest (routedRequestFrame 0 s q) a) = Inr () \<and>
    (\<exists>e. ParseWriteResponseForRequest (restoreRouteAddressZeroResponse (routedRequestFrame 0 s q) ack)
            (routedRequestFrame 0 s q) = Inl e)"
proof -
  obtain e where e: "ParseWriteResponse ack = Inl e" using bare_ack_unsealed [OF assms(2)] assms(3) by blast
  have "\<not> isBareRequestCRCAck ack (routedRequestFrame 0 s q)"
    using hexN_u8_inj [of a 0] assms(1,3) by (auto simp: routed_seal bare_ack_matches)
  moreover have "rewriteMeComResponseAddress ack 0 = ack"
    by (simp add: rewriteMeComResponseAddress_def assms(3) bare_ack_trim Let_def)
  moreover have "isBareRequestCRCAck ack (routedRequestFrame a s q)"
    by (simp add: assms(3) routed_seal bare_ack_matches)
  moreover have "restoreRouteAddressZeroResponse (routedRequestFrame 0 s q) ack = rewriteMeComResponseAddress ack 0"
    by (simp add: restoreRouteAddressZeroResponse_def routed_seal)
  ultimately show ?thesis
    using e by (simp add: ParseWriteResponseForRequest_def rewrite_zero_request [OF assms(1)])
qed

theorem address_zero_bare_ack_rejected_witness:
  "\<exists>e. ParseWriteResponseForRequest
      (restoreRouteAddressZeroResponse (routedRequestFrame 0 1 ''RS'') (bare_ack (req_prefix 75 1 (ToUpper ''RS'')) 75 1))
      (routedRequestFrame 0 1 ''RS'') = Inl e"
proof -
  have u: "ToUpper ''RS'' = ''RS''" by (simp add: ToUpper_def to_upper_def)
  have "CRC16 (resp_prefix 75 1 []) \<noteq> CRC16 (req_prefix 75 1 ''RS'')"
    by code_simp
  then have "CRC16 (resp_prefix 75 1 []) \<noteq> CRC16 (req_prefix 75 1 (ToUpper ''RS''))" by (simp only: u not_False_eq_True)
  from address_zero_bare_ack_rejected [OF _ this refl] show ?thesis by auto
qed

end
