(* ===== verification/BridgeStore.thy ===== *)
theory BridgeStore
  imports SdoMap RouterFrames Floats Sentinels "HOL-Library.Product_Lexorder"
begin

text \<open>
  The state of the device bridge (\<open>mecomserver/device_bridge.go\<close>): the tables derived from the
  default SDO map, the per-device parameter cache with its file, and the observation of frames that
  pass through a route.  The default map is the argument \<open>m\<close>.  \<open>time.Now\<close> and the outcome of
  writing the cache file are answers of the environment, numbered by \<open>bg_ticks\<close>; the file is the
  snapshot that its JSON text decodes to.  The sources call these functions with a state and a
  client that are not nil (the nil cases belong to helpers of the tests).
\<close>

section \<open>Constants and tables\<close>

definition deviceBridgeFirmwareIdentification :: string where
  "deviceBridgeFirmwareIdentification = ''8065-TEC SW G01     ''"
definition deviceBridgeBoardIdentification :: string where
  "deviceBridgeBoardIdentification = ''00000000''"
definition deviceBridgeMetadataReadFlag :: byte where "deviceBridgeMetadataReadFlag = 0x01"
definition deviceBridgeMetadataWriteFlag :: byte where "deviceBridgeMetadataWriteFlag = 0x02"
definition deviceBridgeBigDataMaxElements :: nat where "deviceBridgeBigDataMaxElements = 0x100"

definition SynthesizeFloat32 :: string where "SynthesizeFloat32 = ''synthesize_float32_from_int32''"
definition MaskInt32 :: string where "MaskInt32 = ''mask_int32''"
definition ConstantInt32 :: string where "ConstantInt32 = ''constant_int32''"
definition VirtualParameter :: string where "VirtualParameter = ''virtual_parameter''"
definition PDOConfigBytes :: string where "PDOConfigBytes = ''canopen_pdo_config_bytes''"
definition UnsupportedParameterType :: DataType where "UnsupportedParameterType = ''unsupported''"
definition SourceLocal :: string where "SourceLocal = ''local''"
definition SourceDownstream :: string where "SourceDownstream = ''downstream''"
definition SourcePlaceholder :: string where "SourcePlaceholder = ''placeholder''"

definition deviceBridgeCoSoLooseParameterTypes :: "int \<rightharpoonup> DataType" where
  "deviceBridgeCoSoLooseParameterTypes = map_of
     (map (\<lambda>p. (p, DataTypeLatin1)) [1065, 6024, 6025, 6026, 53000] @
      map (\<lambda>p. (p, DataTypeInt32))
        [200, 203, 204, 209, 210, 213, 214, 1081, 2072, 2080, 2100, 3034, 4034, 6001, 6020, 6023, 6051, 6052,
         6100, 6101, 6102, 6103, 6120, 6143, 6330, 51000, 51001, 51002, 51020, 52000, 52001, 52002, 52013, 52014,
         53100, 53101, 53126, 53132, 53160, 53181, 53182])"

definition deviceBridgeCoSoLooseParameterMaxInstances :: "int \<rightharpoonup> int" where
  "deviceBridgeCoSoLooseParameterMaxInstances = map_of
     (map (\<lambda>p. (p, 10)) [6100, 6101, 6102, 6103] @
      map (\<lambda>p. (p, 4))
        [3034, 6023, 6024, 6025, 6026, 6143, 51000, 51001, 51002, 51020, 52000, 52001, 52002, 52013, 52014] @
      map (\<lambda>p. (p, 2)) [4034, 6001, 6051, 6052, 6120, 53100, 53101, 53126, 53132, 53160, 53181, 53182])"

definition keep_nonempty :: "string option \<Rightarrow> string option" where
  "keep_nonempty v = (case v of None \<Rightarrow> None | Some s \<Rightarrow> if s = [] then None else Some s)"

definition defaultDeviceBridgeParameterTypes :: "CANopenSDOMap \<Rightarrow> int \<rightharpoonup> DataType" where
  "defaultDeviceBridgeParameterTypes m pid = keep_nonempty (CompatibilityParameterTypes m pid)"

definition defaultDeviceBridgeUnsupportedParameterBridgeBehavior :: "CANopenSDOMap \<Rightarrow> int \<rightharpoonup> string" where
  "defaultDeviceBridgeUnsupportedParameterBridgeBehavior m pid =
     keep_nonempty (map_option (\<lambda>b. ToLower (TrimSpace b)) (unsupportedBridgeBehavior m pid))"

definition defaultDeviceBridgeWritableParameters :: "CANopenSDOMap \<Rightarrow> int \<rightharpoonup> bool" where
  "defaultDeviceBridgeWritableParameters m = CompatibilityParameterWritability m"

definition defaultDeviceBridgeCacheBehaviors :: "CANopenSDOMap \<Rightarrow> int \<rightharpoonup> string" where
  "defaultDeviceBridgeCacheBehaviors m pid =
     keep_nonempty (map_option (\<lambda>b. ToLower (TrimSpace b)) (CompatibilityParameterCacheBehaviors m pid))"

definition defaultDeviceBridgeParameterMaxInstances :: "CANopenSDOMap \<Rightarrow> int \<rightharpoonup> int" where
  "defaultDeviceBridgeParameterMaxInstances m pid =
     (case CompatibilityParameterMaxInstances m pid of
        None \<Rightarrow> None
      | Some n \<Rightarrow> if n \<le> 0 \<or> 0xff < n then None else Some n)"

definition deviceBridgeCoSoLooseParameter :: "int \<Rightarrow> bool" where
  "deviceBridgeCoSoLooseParameter pid \<longleftrightarrow> deviceBridgeCoSoLooseParameterTypes pid \<noteq> None"

definition deviceBridgeLooseFallbackParameter :: "CANopenSDOMap \<Rightarrow> int \<Rightarrow> bool" where
  "deviceBridgeLooseFallbackParameter m pid \<longleftrightarrow>
     deviceBridgeCoSoLooseParameter pid \<and> defaultDeviceBridgeParameterTypes m pid = None"

definition deviceBridgeUnsupportedReadNACK :: "CANopenSDOMap \<Rightarrow> int \<Rightarrow> bool" where
  "deviceBridgeUnsupportedReadNACK m pid =
     (case defaultDeviceBridgeUnsupportedParameterBridgeBehavior m pid of
        None \<Rightarrow> False
      | Some b \<Rightarrow> b = BehaviorNACKBulkRead \<or> b = BehaviorSerialFallbackRead)"

definition deviceBridgeUnsupportedSerialFallbackRead :: "CANopenSDOMap \<Rightarrow> int \<Rightarrow> bool" where
  "deviceBridgeUnsupportedSerialFallbackRead m pid \<longleftrightarrow>
     defaultDeviceBridgeUnsupportedParameterBridgeBehavior m pid = Some BehaviorSerialFallbackRead"

definition deviceBridgeParameterType :: "CANopenSDOMap \<Rightarrow> int \<Rightarrow> DataType" where
  "deviceBridgeParameterType m pid =
     (case defaultDeviceBridgeParameterTypes m pid of
        Some typ \<Rightarrow> typ
      | None \<Rightarrow>
          (case deviceBridgeCoSoLooseParameterTypes pid of Some typ \<Rightarrow> typ | None \<Rightarrow> UnsupportedParameterType))"

definition deviceBridgeParameterTypeSupported :: "DataType \<Rightarrow> bool" where
  "deviceBridgeParameterTypeSupported typ \<longleftrightarrow> typ \<in> {DataTypeFloat32, DataTypeInt32, DataTypeLatin1}"

definition deviceBridgeParameterWritable :: "CANopenSDOMap \<Rightarrow> int \<Rightarrow> bool" where
  "deviceBridgeParameterWritable m pid =
     (case defaultDeviceBridgeWritableParameters m pid of Some w \<Rightarrow> w | None \<Rightarrow> False)"

definition deviceBridgeParameterMaxInstances :: "CANopenSDOMap \<Rightarrow> int \<Rightarrow> int" where
  "deviceBridgeParameterMaxInstances m pid =
     (case defaultDeviceBridgeParameterMaxInstances m pid of
        Some n \<Rightarrow> n
      | None \<Rightarrow> (case deviceBridgeCoSoLooseParameterMaxInstances pid of Some n \<Rightarrow> n | None \<Rightarrow> 1))"

definition deviceBridgeTransform :: "CANopenSDOMap \<Rightarrow> int \<Rightarrow> string \<Rightarrow> BridgeTransform option" where
  "deviceBridgeTransform m pid kind =
     (case bridgeTransform m pid of
        Some t \<Rightarrow> if bt_Kind t = kind then Some t else None
      | None \<Rightarrow> None)"

definition deviceBridgeMetadataLiveActualParameter :: "CANopenSDOMap \<Rightarrow> int \<Rightarrow> bool" where
  "deviceBridgeMetadataLiveActualParameter m pid \<longleftrightarrow>
     defaultDeviceBridgeCacheBehaviors m pid = Some CacheMetadataLiveActual \<or>
     deviceBridgeTransform m pid VirtualParameter \<noteq> None"

definition deviceBridgeCompatibleInt32Value :: "CANopenSDOMap \<Rightarrow> int \<Rightarrow> u32 \<Rightarrow> u32" where
  "deviceBridgeCompatibleInt32Value m pid v =
     (case deviceBridgeTransform m pid MaskInt32 of Some t \<Rightarrow> v AND bt_Int32Mask t | None \<Rightarrow> v)"

text \<open>The tables that the router consults.\<close>

definition bridge_tables_of :: "CANopenSDOMap \<Rightarrow> bridge_tables" where
  "bridge_tables_of m =
     \<lparr>bt_virtual = (\<lambda>pid. deviceBridgeTransform m pid VirtualParameter \<noteq> None),
      bt_serialFallback = deviceBridgeUnsupportedSerialFallbackRead m,
      bt_typed = (\<lambda>pid. defaultDeviceBridgeParameterTypes m pid \<noteq> None),
      bt_maxInstances = deviceBridgeParameterMaxInstances m\<rparr>"

abbreviation instance_ok :: "CANopenSDOMap \<Rightarrow> int \<Rightarrow> int \<Rightarrow> bool" where
  "instance_ok m \<equiv> deviceBridgeValidateParameterInstance (bridge_tables_of m)"

definition deviceBridgeValidateTransformInstance :: "BridgeTransform \<Rightarrow> int \<Rightarrow> bool" where
  "deviceBridgeValidateTransformInstance t inst =
     (let mn = (if bt_MinInstance t \<le> 0 then 1 else bt_MinInstance t);
          mx = (if bt_MaxInstance t \<le> 0 then mn else bt_MaxInstance t)
      in \<not> (inst < mn \<or> mx < inst))"


section \<open>Parameter values and stores\<close>

record deviceBridgeVirtualParameterValue =
  dv_typ :: DataType
  dv_float :: u64
  dv_int :: u32
  dv_latin1 :: string
  dv_source :: string
  dv_liveRefresh :: bool
  dv_updatedAt :: gotime

type_synonym parameter_store = "((int \<times> int) \<times> deviceBridgeVirtualParameterValue) list"

definition zero_value :: "DataType \<Rightarrow> string \<Rightarrow> deviceBridgeVirtualParameterValue" where
  "zero_value typ source =
     \<lparr>dv_typ = typ, dv_float = 0, dv_int = 0, dv_latin1 = [], dv_source = source, dv_liveRefresh = False,
      dv_updatedAt = zero_time\<rparr>"

text \<open>The errors by the sentinel they wrap, with what the message names.\<close>

datatype bridge_error =
    BridgeInvalid string
  | BridgeUnknownParameter int
  | BridgeReadOnly int int
  | BridgeUnsupported string
  | BridgeClient mecom_error

fun bridge_is :: "bridge_error \<Rightarrow> sentinel option" where
  "bridge_is (BridgeInvalid _) = Some IsInvalidArgument"
| "bridge_is (BridgeUnknownParameter _) = Some IsUnknownParameter"
| "bridge_is (BridgeReadOnly _ _) = Some IsParameterReadOnly"
| "bridge_is (BridgeUnsupported _) = Some IsTransportNotSupported"
| "bridge_is (BridgeClient e) = mecom_is e"

definition nackCodeForError :: "bridge_error \<Rightarrow> byte" where
  "nackCodeForError e =
     (if bridge_is e = Some IsUnknownParameter then 0x05
      else if bridge_is e = Some IsParameterReadOnly then 0x06
      else if bridge_is e = Some IsInvalidArgument then 0x04
      else if bridge_is e = Some IsTransportNotSupported then 0x01
      else 0x03)"

text \<open>\<open>string(bytes.TrimRight(data, "\x00"))\<close>.\<close>

definition text_of_bytes :: "byte list \<Rightarrow> string" where
  "text_of_bytes bs = map (\<lambda>b. char_of (unat b)) bs"

definition trim_nul :: "byte list \<Rightarrow> byte list" where
  "trim_nul bs = rev (dropWhile (\<lambda>b. b = 0) (rev bs))"

text \<open>The hexadecimal text of a value, as the three writers of the store read it.\<close>

definition decode_bits :: "string \<Rightarrow> bridge_error + u32" where
  "decode_bits valueHex =
     (if length valueHex \<noteq> 8 then Inl (BridgeInvalid ''value length'')
      else case ParseUint valueHex 32 of Inl _ \<Rightarrow> Inl (BridgeInvalid ''value'') | Inr bits \<Rightarrow> Inr (of_nat bits))"

definition decode_text :: "string \<Rightarrow> bridge_error + string" where
  "decode_text valueHex =
     (case hex_decode valueHex of
        Inl _ \<Rightarrow> Inl (BridgeInvalid ''LATIN1 value'')
      | Inr data \<Rightarrow> Inr (text_of_bytes (trim_nul data)))"

definition decode_value :: "DataType \<Rightarrow> string \<Rightarrow> bridge_error + deviceBridgeVirtualParameterValue" where
  "decode_value typ valueHex =
     (let v = zero_value typ [] in
      if typ = DataTypeFloat32 then
        res_bind (decode_bits valueHex) (\<lambda>bits. Inr (v\<lparr>dv_float := float64_of_float32 bits\<rparr>))
      else if typ = DataTypeInt32 then res_bind (decode_bits valueHex) (\<lambda>bits. Inr (v\<lparr>dv_int := bits\<rparr>))
      else if typ = DataTypeLatin1 then res_bind (decode_text valueHex) (\<lambda>text. Inr (v\<lparr>dv_latin1 := text\<rparr>))
      else Inl (BridgeUnsupported ''soft write''))"

definition lookupParameter ::
    "CANopenSDOMap \<Rightarrow> int \<Rightarrow> int \<Rightarrow> DataType \<Rightarrow> parameter_store \<Rightarrow>
     bridge_error + deviceBridgeVirtualParameterValue option" where
  "lookupParameter m pid inst typ s =
     (if \<not> instance_ok m pid inst then Inl (BridgeInvalid ''parameter instance'')
      else if \<not> deviceBridgeParameterTypeSupported typ then Inl (BridgeUnsupported ''soft read'')
      else case map_of s (pid, inst) of
        None \<Rightarrow> Inr None
      | Some v \<Rightarrow>
          if dv_typ v \<noteq> [] \<and> dv_typ v \<noteq> typ then Inl (BridgeInvalid ''stored type'') else Inr (Some v))"

definition store_storeParameterValue ::
    "CANopenSDOMap \<Rightarrow> int \<Rightarrow> int \<Rightarrow> deviceBridgeVirtualParameterValue \<Rightarrow> parameter_store \<Rightarrow>
     bridge_error + parameter_store" where
  "store_storeParameterValue m pid inst v s =
     (if \<not> instance_ok m pid inst then Inl (BridgeInvalid ''parameter instance'')
      else if \<not> deviceBridgeParameterTypeSupported (dv_typ v) then Inl (BridgeUnsupported ''soft write'')
      else Inr (amap_put (pid, inst) v s))"

definition store_writeParameter ::
    "CANopenSDOMap \<Rightarrow> gotime \<Rightarrow> int \<Rightarrow> int \<Rightarrow> DataType \<Rightarrow> string \<Rightarrow> parameter_store \<Rightarrow>
     bridge_error + parameter_store" where
  "store_writeParameter m now pid inst typ valueHex s =
     (if \<not> instance_ok m pid inst then Inl (BridgeInvalid ''parameter instance'')
      else res_bind (decode_value typ valueHex) (\<lambda>v.
        Inr (amap_put (pid, inst) (v\<lparr>dv_source := SourceLocal, dv_updatedAt := now\<rparr>) s)))"

section \<open>The cache file\<close>

record deviceBridgeCacheParameterSnapshot =
  cs_ID :: int
  cs_Instance :: int
  cs_Type :: string
  cs_Source :: string
  cs_LiveRefresh :: bool
  cs_UpdatedAt :: "gotime option"
  cs_Int32 :: "u32 option"
  cs_Float32 :: "u64 option"
  cs_Latin1 :: string

record deviceBridgeCacheSnapshot =
  cs_Device :: string
  cs_Parameters :: "deviceBridgeCacheParameterSnapshot list"

text \<open>
  JSON text is UTF-8: \<open>json.Marshal\<close> writes U+FFFD for every byte of a string that does not begin a
  valid sequence.  \<open>utf8_rune\<close> is the length of the valid sequence at the head, 0 when there is none.
\<close>

definition utf8_tail :: "nat \<Rightarrow> bool" where
  "utf8_tail n \<longleftrightarrow> 0x80 \<le> n \<and> n \<le> 0xBF"

fun utf8_rune :: "nat list \<Rightarrow> nat" where
  "utf8_rune [] = 0"
| "utf8_rune (a # t) =
     (if a < 0x80 then 1
      else if 0xC2 \<le> a \<and> a \<le> 0xDF then (if 1 \<le> length t \<and> utf8_tail (t ! 0) then 2 else 0)
      else if 0xE0 \<le> a \<and> a \<le> 0xEF then
        (if 2 \<le> length t \<and> utf8_tail (t ! 0) \<and> (a = 0xE0 \<longrightarrow> 0xA0 \<le> t ! 0) \<and> (a = 0xED \<longrightarrow> t ! 0 \<le> 0x9F) \<and>
            utf8_tail (t ! 1) then 3 else 0)
      else if 0xF0 \<le> a \<and> a \<le> 0xF4 then
        (if 3 \<le> length t \<and> utf8_tail (t ! 0) \<and> (a = 0xF0 \<longrightarrow> 0x90 \<le> t ! 0) \<and> (a = 0xF4 \<longrightarrow> t ! 0 \<le> 0x8F) \<and>
            utf8_tail (t ! 1) \<and> utf8_tail (t ! 2) then 4 else 0)
      else 0)"

definition replacement_rune :: string where
  "replacement_rune = map char_of [0xEF, 0xBF, 0xBD :: nat]"

function json_text :: "string \<Rightarrow> string" where
  "json_text [] = []"
| "json_text (c # s) =
     (let n = utf8_rune (map of_char (c # s)) in
      if n = 0 then replacement_rune @ json_text s
      else c # take (n - 1) s @ json_text (drop (n - 1) s))"
  by pat_completeness auto
termination by (relation "measure length") auto

definition json_parameter :: "deviceBridgeCacheParameterSnapshot \<Rightarrow> deviceBridgeCacheParameterSnapshot" where
  "json_parameter p =
     p\<lparr>cs_Type := json_text (cs_Type p), cs_Source := json_text (cs_Source p), cs_Latin1 := json_text (cs_Latin1 p)\<rparr>"

definition json_snapshot :: "deviceBridgeCacheSnapshot \<Rightarrow> deviceBridgeCacheSnapshot" where
  "json_snapshot s =
     s\<lparr>cs_Device := json_text (cs_Device s), cs_Parameters := map json_parameter (cs_Parameters s)\<rparr>"

definition is_finite_float :: "u64 \<Rightarrow> bool" where
  "is_finite_float v \<longleftrightarrow> \<not> f64_isNaN v \<and> \<not> f64_isInf v"

definition snapshot_parameter ::
    "(int \<times> int) \<times> deviceBridgeVirtualParameterValue \<Rightarrow> deviceBridgeCacheParameterSnapshot option" where
  "snapshot_parameter e =
     (case e of ((pid, inst), v) \<Rightarrow>
        let p = \<lparr>cs_ID = pid, cs_Instance = inst, cs_Type = dv_typ v, cs_Source = dv_source v,
                 cs_LiveRefresh = dv_liveRefresh v,
                 cs_UpdatedAt = (if dv_updatedAt v = zero_time then None else Some (dv_updatedAt v)),
                 cs_Int32 = None, cs_Float32 = None, cs_Latin1 = []\<rparr>
        in if dv_typ v = DataTypeInt32 then Some (p\<lparr>cs_Int32 := Some (dv_int v)\<rparr>)
           else if dv_typ v = DataTypeFloat32 then
             (if \<not> is_finite_float (dv_float v) then None else Some (p\<lparr>cs_Float32 := Some (dv_float v)\<rparr>))
           else if dv_typ v = DataTypeLatin1 then Some (p\<lparr>cs_Latin1 := dv_latin1 v\<rparr>)
           else Some p)"

definition load_value :: "deviceBridgeCacheParameterSnapshot \<Rightarrow> deviceBridgeVirtualParameterValue option" where
  "load_value p =
     (if cs_Source p = SourcePlaceholder then None
      else let v = (zero_value (cs_Type p) (if cs_Source p = [] then SourceDownstream else cs_Source p))
                     \<lparr>dv_liveRefresh := cs_LiveRefresh p,
                      dv_updatedAt := (case cs_UpdatedAt p of Some t \<Rightarrow> t | None \<Rightarrow> zero_time)\<rparr>
        in if cs_Type p = DataTypeInt32 then map_option (\<lambda>i. v\<lparr>dv_int := i\<rparr>) (cs_Int32 p)
           else if cs_Type p = DataTypeFloat32 then
             (case cs_Float32 p of
                None \<Rightarrow> None
              | Some f \<Rightarrow> if \<not> is_finite_float f then None else Some (v\<lparr>dv_float := f\<rparr>))
           else if cs_Type p = DataTypeLatin1 then Some (v\<lparr>dv_latin1 := cs_Latin1 p\<rparr>)
           else None)"

definition load_parameter ::
    "CANopenSDOMap \<Rightarrow> deviceBridgeCacheParameterSnapshot \<Rightarrow> parameter_store \<Rightarrow> parameter_store" where
  "load_parameter m p s =
     (case load_value p of
        None \<Rightarrow> s
      | Some v \<Rightarrow>
          (case store_storeParameterValue m (cs_ID p) (cs_Instance p) v s of Inl _ \<Rightarrow> s | Inr s' \<Rightarrow> s'))"

text \<open>\<open>deviceBridgeCacheFileName\<close>: the loop over the runes writes one underscore per run of other characters.\<close>

definition file_char :: "char \<Rightarrow> bool" where
  "file_char c =
     (let n = of_char c :: nat in
      97 \<le> n \<and> n \<le> 122 \<or> 65 \<le> n \<and> n \<le> 90 \<or> 48 \<le> n \<and> n \<le> 57 \<or> c \<in> set ''.-_'')"

fun file_chars :: "bool \<Rightarrow> string \<Rightarrow> string" where
  "file_chars lastUnderscore [] = []"
| "file_chars lastUnderscore (c # s) =
     (if file_char c then c # file_chars False s
      else if \<not> lastUnderscore then CHR ''_'' # file_chars True s
      else file_chars lastUnderscore s)"

definition trim_underscores :: "string \<Rightarrow> string" where
  "trim_underscores s = rev (dropWhile (\<lambda>c. c = CHR ''_'') (rev (dropWhile (\<lambda>c. c = CHR ''_'') s)))"

definition device_name :: "string \<Rightarrow> string" where
  "device_name device = (if TrimSpace device = [] then ''unknown'' else TrimSpace device)"

definition deviceBridgeCacheFileName :: "string \<Rightarrow> string" where
  "deviceBridgeCacheFileName device =
     (let name = trim_underscores (file_chars False (device_name device))
      in (if name = [] then ''device'' else name) @ ''.json'')"

text \<open>A path is the directory and the file name that \<open>filepath.Join\<close> is given.\<close>

definition deviceBridgeCachePath :: "string \<Rightarrow> string \<Rightarrow> (string \<times> string) option" where
  "deviceBridgeCachePath dir device =
     (if TrimSpace dir = [] then None else Some (TrimSpace dir, deviceBridgeCacheFileName device))"

end
