(* ===== verification/BridgeState.thy ===== *)
theory BridgeState
  imports BridgeStore
begin

text \<open>
  The per-device state of the bridge (\<open>deviceBridgeState\<close> of \<open>mecomserver/device_bridge.go\<close>) with the
  world it acts on: the device client behind it, the clock and the cache file.  A client answers
  each call from the calls made before it, so its answers may change over time; \<open>bg_calls\<close> is the
  list of the calls made.  The optional interfaces that the code tests for by type assertion are
  options.
\<close>

section \<open>Clients and states\<close>

datatype client_call =
    CallReadInt32 int int
  | CallReadFloat32 int int
  | CallReadBulk "Parameter list"
  | CallReadSDORaw u16 byte
  | CallWriteInt32 int int u32
  | CallWriteFloat32 int int u32
  | CallWriteString int int string
  | CallWriteBigDataString int int string
  | CallSaveToFlash
  | CallReset
  | CallReadRingPointer
  | CallReadRingChunk u32 u16
  | CallConfigureRingCapture u16 "RingCaptureParameter list"
  | CallTriggerRingSync

record device_client =
  dc_ReadInt32 :: "client_call list \<Rightarrow> int \<Rightarrow> int \<Rightarrow> mecom_error + u32"
  dc_ReadFloat32 :: "client_call list \<Rightarrow> int \<Rightarrow> int \<Rightarrow> mecom_error + u64"
  dc_ReadBulk :: "client_call list \<Rightarrow> Parameter list \<Rightarrow> mecom_error + u64 list"
  dc_ReadRingPointer :: "client_call list \<Rightarrow> mecom_error + u32"
  dc_ReadRingChunk :: "client_call list \<Rightarrow> u32 \<Rightarrow> u16 \<Rightarrow> mecom_error + RingReadResponse"
  dc_effect :: "client_call list \<Rightarrow> mecom_error option"
  dc_rawSDO :: "(client_call list \<Rightarrow> u16 \<Rightarrow> byte \<Rightarrow> mecom_error + byte list) option"
  dc_isWriter :: bool
  dc_isStringWriter :: bool
  dc_isControl :: bool

text \<open>\<open>deviceBridgeVirtualOnlyClient\<close>, the client of the frames the router answers itself.\<close>

definition deviceBridgeVirtualOnlyClient :: device_client where
  "deviceBridgeVirtualOnlyClient =
     \<lparr>dc_ReadInt32 = (\<lambda>_ _ _. Inl ErrTransportNotSupported), dc_ReadFloat32 = (\<lambda>_ _ _. Inl ErrTransportNotSupported),
      dc_ReadBulk = (\<lambda>_ _. Inl ErrTransportNotSupported), dc_ReadRingPointer = (\<lambda>_. Inl ErrTransportNotSupported),
      dc_ReadRingChunk = (\<lambda>_ _ _. Inl ErrTransportNotSupported), dc_effect = (\<lambda>_. Some ErrTransportNotSupported),
      dc_rawSDO = None, dc_isWriter = False, dc_isStringWriter = False, dc_isControl = False\<rparr>"

record bridge_env =
  be_clock :: "nat \<Rightarrow> gotime"
  be_flush :: "nat \<Rightarrow> bool"
  be_int32_overflow :: "u64 \<Rightarrow> u32"
  be_client :: device_client

record deviceBridgeState =
  ds_device :: string
  ds_cachePath :: "(string \<times> string) option"
  ds_virtualParameters :: parameter_store
  ds_softParameters :: parameter_store

record bridge = deviceBridgeState +
  bg_calls :: "client_call list"
  bg_ticks :: nat
  bg_file :: "deviceBridgeCacheSnapshot option"

section \<open>Cache operations\<close>

definition cache_snapshot :: "bridge \<Rightarrow> deviceBridgeCacheSnapshot" where
  "cache_snapshot b =
     \<lparr>cs_Device = ds_device b,
      cs_Parameters = List.map_filter snapshot_parameter (sort_key fst (ds_softParameters b))\<rparr>"

definition flushCacheBestEffort :: "bridge_env \<Rightarrow> bridge \<Rightarrow> bridge" where
  "flushCacheBestEffort env b =
     (if ds_cachePath b = None then b
      else if be_flush env (bg_ticks b)
      then b\<lparr>bg_file := Some (json_snapshot (cache_snapshot b)), bg_ticks := bg_ticks b + 1\<rparr>
      else b\<lparr>bg_ticks := bg_ticks b + 1\<rparr>)"

definition loadCacheBestEffort :: "CANopenSDOMap \<Rightarrow> bridge \<Rightarrow> bridge" where
  "loadCacheBestEffort m b =
     (if ds_cachePath b = None then b
      else case bg_file b of
        None \<Rightarrow> b
      | Some snap \<Rightarrow> b\<lparr>ds_softParameters := fold (load_parameter m) (cs_Parameters snap) (ds_softParameters b)\<rparr>)"

text \<open>A new state, on the cache directory \<open>dir\<close> and what is in the device's cache file.\<close>

definition newDeviceBridgeState ::
    "CANopenSDOMap \<Rightarrow> string \<Rightarrow> string \<Rightarrow> deviceBridgeCacheSnapshot option \<Rightarrow> bridge" where
  "newDeviceBridgeState m dir device cacheFile =
     loadCacheBestEffort m
       \<lparr>ds_device = device_name device, ds_cachePath = deviceBridgeCachePath dir (device_name device),
        ds_virtualParameters = [], ds_softParameters = [], bg_calls = [], bg_ticks = 0, bg_file = cacheFile\<rparr>"

definition time_Now :: "bridge_env \<Rightarrow> bridge \<Rightarrow> gotime \<times> bridge" where
  "time_Now env b = (be_clock env (bg_ticks b), b\<lparr>bg_ticks := bg_ticks b + 1\<rparr>)"

definition state_storeParameterValue ::
    "CANopenSDOMap \<Rightarrow> bridge_env \<Rightarrow> int \<Rightarrow> int \<Rightarrow> deviceBridgeVirtualParameterValue \<Rightarrow> bridge \<Rightarrow>
     bridge_error option \<times> bridge" where
  "state_storeParameterValue m env pid inst v0 b0 =
     (let (v, b) = (if dv_source v0 \<noteq> SourcePlaceholder \<and> dv_updatedAt v0 = zero_time
                    then (case time_Now env b0 of (now, b) \<Rightarrow> (v0\<lparr>dv_updatedAt := now\<rparr>, b)) else (v0, b0))
      in case store_storeParameterValue m pid inst v (ds_softParameters b) of
           Inl e \<Rightarrow> (Some e, b)
         | Inr s \<Rightarrow>
             let b1 = b\<lparr>ds_softParameters := s\<rparr> in
             (None, if dv_source v \<noteq> SourcePlaceholder then flushCacheBestEffort env b1 else b1))"

definition state_writeParameter ::
    "CANopenSDOMap \<Rightarrow> bridge_env \<Rightarrow> int \<Rightarrow> int \<Rightarrow> DataType \<Rightarrow> string \<Rightarrow> bridge \<Rightarrow> bridge_error option \<times> bridge" where
  "state_writeParameter m env pid inst typ valueHex b0 =
     (case time_Now env b0 of (now, b) \<Rightarrow>
        case store_writeParameter m now pid inst typ valueHex (ds_softParameters b0) of
          Inl e \<Rightarrow> (Some e, b0)
        | Inr s \<Rightarrow> (None, flushCacheBestEffort env (b\<lparr>ds_softParameters := s\<rparr>)))"

text \<open>\<open>int32(value)\<close> of a \<open>float64\<close> that is outside its range, or NaN, is up to the processor.\<close>

definition int32_of_float64 :: "bridge_env \<Rightarrow> u64 \<Rightarrow> u32" where
  "int32_of_float64 env v =
     (if f64_finite v \<and> - (2 ^ 31) \<le> f64_trunc v \<and> f64_trunc v < 2 ^ 31 then of_int (f64_trunc v)
      else be_int32_overflow env v)"

definition deviceBridgeStoreLiveNumericValue ::
    "CANopenSDOMap \<Rightarrow> bridge_env \<Rightarrow> int \<Rightarrow> int \<Rightarrow> DataType \<Rightarrow> u64 \<Rightarrow> bridge \<Rightarrow> bridge" where
  "deviceBridgeStoreLiveNumericValue m env pid inst typ v b0 =
     (if f64_isNaN v then b0
      else case time_Now env b0 of (now, b) \<Rightarrow>
        let c = (zero_value typ SourceDownstream)\<lparr>dv_liveRefresh := True, dv_updatedAt := now\<rparr> in
        if typ = DataTypeInt32 then
          snd (state_storeParameterValue m env pid inst
                 (c\<lparr>dv_int := deviceBridgeCompatibleInt32Value m pid (int32_of_float64 env v)\<rparr>) b)
        else if typ = DataTypeFloat32 then snd (state_storeParameterValue m env pid inst (c\<lparr>dv_float := v\<rparr>) b)
        else if typ = [] then
          snd (state_storeParameterValue m env pid inst (c\<lparr>dv_typ := DataTypeFloat32, dv_float := v\<rparr>) b)
        else b)"

section \<open>Observing the frames of a route\<close>

definition observed_value ::
    "CANopenSDOMap \<Rightarrow> int \<Rightarrow> DataType \<Rightarrow> string \<Rightarrow> deviceBridgeVirtualParameterValue option" where
  "observed_value m pid typ valueHex =
     (case decode_value typ valueHex of
        Inl _ \<Rightarrow> None
      | Inr v \<Rightarrow>
          if typ = DataTypeInt32 then Some (v\<lparr>dv_int := deviceBridgeCompatibleInt32Value m pid (dv_int v)\<rparr>)
          else if typ = DataTypeFloat32 \<and> f64_isNaN (dv_float v) then None
          else Some v)"

definition deviceBridgeObserveHexValue ::
    "CANopenSDOMap \<Rightarrow> bridge_env \<Rightarrow> int \<Rightarrow> int \<Rightarrow> DataType \<Rightarrow> string \<Rightarrow> string \<Rightarrow> bool \<Rightarrow> bridge \<Rightarrow> bridge" where
  "deviceBridgeObserveHexValue m env pid inst typ0 valueHex source liveRefresh b0 =
     (let typ = (if typ0 = [] then DataTypeFloat32 else typ0) in
      if \<not> deviceBridgeParameterTypeSupported typ then b0
      else case time_Now env b0 of (now, b) \<Rightarrow>
        (case observed_value m pid typ valueHex of
           None \<Rightarrow> b
         | Some v \<Rightarrow>
             snd (state_storeParameterValue m env pid inst
                    (v\<lparr>dv_source := source, dv_liveRefresh := liveRefresh, dv_updatedAt := now\<rparr>) b)))"

definition deviceBridgeObserveBigDataReadValue ::
    "CANopenSDOMap \<Rightarrow> bridge_env \<Rightarrow> int \<Rightarrow> int \<Rightarrow> string \<Rightarrow> bridge \<Rightarrow> bridge" where
  "deviceBridgeObserveBigDataReadValue m env pid inst responsePayload b =
     (if deviceBridgeParameterType m pid \<noteq> DataTypeLatin1 \<or> length responsePayload < 6 then b
      else case ParseUint (take 4 responsePayload) 16 of
        Inl _ \<Rightarrow> b
      | Inr n \<Rightarrow>
          if n = 0 \<or> length responsePayload - 6 < n * 2 then b
          else deviceBridgeObserveHexValue m env pid inst DataTypeLatin1
                 (slice 6 (6 + n * 2) responsePayload) SourceDownstream True b)"

definition observe_bulk_slot ::
    "CANopenSDOMap \<Rightarrow> bridge_env \<Rightarrow> string \<Rightarrow> string \<Rightarrow> nat \<Rightarrow> bridge \<Rightarrow> bridge" where
  "observe_bulk_slot m env req resp i b =
     (case parseDeviceBridgeParameter (slice (5 + i * 6) (11 + i * 6) req) of
        None \<Rightarrow> b
      | Some (pid, inst) \<Rightarrow>
          deviceBridgeObserveHexValue m env pid inst (deviceBridgeParameterType m pid)
            (slice (i * 8) (i * 8 + 8) resp) SourceDownstream True b)"

definition deviceBridgeObservePayload ::
    "CANopenSDOMap \<Rightarrow> bridge_env \<Rightarrow> string \<Rightarrow> string \<Rightarrow> bridge \<Rightarrow> bridge" where
  "deviceBridgeObservePayload m env requestPayload responsePayload b =
     (let req = ToUpper (TrimSpace requestPayload);
          resp = ToUpper (TrimSpace responsePayload);
          observe = (\<lambda>encoded typ valueHex source live.
            case parseDeviceBridgeParameter encoded of
              None \<Rightarrow> b
            | Some (pid, inst) \<Rightarrow> deviceBridgeObserveHexValue m env pid inst (typ pid) valueHex source live b)
      in
      if HasPrefix req ''?VM'' then
        (if length req \<noteq> 9 \<or> length resp < 38 then b
         else case parseDeviceBridgeParameter (drop 3 req) of
           None \<Rightarrow> b
         | Some (pid, inst) \<Rightarrow>
             if \<not> deviceBridgeMetadataLiveActualParameter m pid then b
             else observe (drop 3 req) (deviceBridgeParameterType m) (drop (length resp - 8) resp) SourceDownstream True)
      else if HasPrefix req ''?VR'' then
        (if length req \<noteq> 9 \<or> length resp < 8 then b
         else observe (drop 3 req) (deviceBridgeParameterType m) (take 8 resp) SourceDownstream True)
      else if HasPrefix req ''?VX'' then
        (if length req < 5 then b
         else case ParseUint (slice 3 5 req) 8 of
           Inl _ \<Rightarrow> b
         | Inr n \<Rightarrow>
             if length req \<noteq> 5 + n * 6 \<or> length resp < n * 8 then b
             else fold (observe_bulk_slot m env req resp) [0..<n] b)
      else if HasPrefix req ''?VB'' then
        (if length req \<noteq> 21 then b
         else case parseDeviceBridgeParameter (slice 3 9 req) of
           None \<Rightarrow> b
         | Some (pid, inst) \<Rightarrow> deviceBridgeObserveBigDataReadValue m env pid inst resp b)
      else if HasPrefix req ''VS'' then
        (if length req < 16 then b
         else observe (slice 2 8 req) (deviceBridgeParameterType m) (drop 8 req) SourceLocal False)
      else if HasPrefix req ''VB'' then
        (if length req < 22 then b
         else case parseDeviceBridgeParameter (slice 2 8 req) of
           None \<Rightarrow> b
         | Some (pid, inst) \<Rightarrow>
             if deviceBridgeParameterType m pid \<noteq> DataTypeLatin1 then b
             else case ParseUint (slice 16 20 req) 16 of
               Inl _ \<Rightarrow> b
             | Inr n \<Rightarrow>
                 if length req - 22 \<noteq> n * 2 then b
                 else observe (slice 2 8 req) (\<lambda>_. DataTypeLatin1) (drop 22 req) SourceLocal False)
      else b)"

definition parseDeviceBridgeResponsePayload :: "deviceBridgeRequest \<Rightarrow> string \<Rightarrow> string option" where
  "parseDeviceBridgeResponsePayload req raw =
     (let frame = trim_suffix1 FrameTerminator (TrimSpace raw) in
      if length frame < 11 \<or> frame ! 0 \<noteq> CHR ''!'' then None
      else case (verifyDeviceBridgeCRC frame, ParseUint (slice 1 3 frame) 8, ParseUint (slice 3 7 frame) 16) of
        (Inr _, Inr addr, Inr seq) \<Rightarrow>
          if dr_address req \<noteq> 0 \<and> of_nat addr \<noteq> dr_address req \<or> of_nat seq \<noteq> dr_seq req then None
          else if frame ! 7 = CHR ''-'' then None
          else let payloadStart = (if frame ! 7 = CHR ''+'' then 8 else 7); payloadEnd = length frame - 4 in
            if payloadEnd < payloadStart then None else Some (ToUpper (slice payloadStart payloadEnd frame))
      | _ \<Rightarrow> None)"

definition deviceBridgeObserveFrame ::
    "CANopenSDOMap \<Rightarrow> bridge_env \<Rightarrow> string \<Rightarrow> string \<Rightarrow> bridge \<Rightarrow> bridge" where
  "deviceBridgeObserveFrame m env requestFrame responseFrame b =
     (case parseDeviceBridgeRequest requestFrame of
        Inl _ \<Rightarrow> b
      | Inr req \<Rightarrow>
          (case parseDeviceBridgeResponsePayload req responseFrame of
             None \<Rightarrow> b
           | Some payload \<Rightarrow> deviceBridgeObservePayload m env (dr_payload req) payload b))"

end
