(* ===== verification/BridgeRead.thy ===== *)
theory BridgeRead
  imports BridgeState
begin

text \<open>
  The read side of the device bridge (\<open>mecomserver/device_bridge.go\<close>): single and bulk reads, the
  metadata and limits of a parameter, big-data reads, bootloader status and the ring commands.  Each
  operation takes the payload of the request and returns the payload of the answer, or an error, and
  the new state.
\<close>

section \<open>Client calls\<close>

definition log_call :: "client_call \<Rightarrow> bridge \<Rightarrow> bridge" where
  "log_call c b = b\<lparr>bg_calls := bg_calls b @ [c]\<rparr>"

definition client_ReadInt32 :: "bridge_env \<Rightarrow> int \<Rightarrow> int \<Rightarrow> bridge \<Rightarrow> (mecom_error + u32) \<times> bridge" where
  "client_ReadInt32 env pid inst b =
     (dc_ReadInt32 (be_client env) (bg_calls b) pid inst, log_call (CallReadInt32 pid inst) b)"

definition client_ReadFloat32 :: "bridge_env \<Rightarrow> int \<Rightarrow> int \<Rightarrow> bridge \<Rightarrow> (mecom_error + u64) \<times> bridge" where
  "client_ReadFloat32 env pid inst b =
     (dc_ReadFloat32 (be_client env) (bg_calls b) pid inst, log_call (CallReadFloat32 pid inst) b)"

definition client_ReadBulk :: "bridge_env \<Rightarrow> Parameter list \<Rightarrow> bridge \<Rightarrow> (mecom_error + u64 list) \<times> bridge" where
  "client_ReadBulk env params b = (dc_ReadBulk (be_client env) (bg_calls b) params, log_call (CallReadBulk params) b)"

text \<open>A call that only succeeds or fails; its arguments are in the log that the client answers from.\<close>

definition client_effect :: "bridge_env \<Rightarrow> client_call \<Rightarrow> bridge \<Rightarrow> mecom_error option \<times> bridge" where
  "client_effect env c b = (dc_effect (be_client env) (bg_calls b @ [c]), log_call c b)"

definition fmt32 :: "u32 \<Rightarrow> string" where
  "fmt32 v = fmtX 8 (uint v)"

section \<open>Values\<close>

definition soft_cached ::
    "CANopenSDOMap \<Rightarrow> int \<Rightarrow> int \<Rightarrow> DataType \<Rightarrow> bridge \<Rightarrow> bridge_error + deviceBridgeVirtualParameterValue" where
  "soft_cached m pid inst typ b =
     (case lookupParameter m pid inst typ (ds_softParameters b) of
        Inl e \<Rightarrow> Inl e
      | Inr (Some v) \<Rightarrow> Inr v
      | Inr None \<Rightarrow> Inr (zero_value typ SourcePlaceholder))"

definition store_live ::
    "CANopenSDOMap \<Rightarrow> bridge_env \<Rightarrow> int \<Rightarrow> int \<Rightarrow> deviceBridgeVirtualParameterValue \<Rightarrow> bridge \<Rightarrow>
     (bridge_error + deviceBridgeVirtualParameterValue) \<times> bridge" where
  "store_live m env pid inst v b =
     (case state_storeParameterValue m env pid inst v b of (Some e, b') \<Rightarrow> (Inl e, b') | (None, b') \<Rightarrow> (Inr v, b'))"

definition live_value :: "DataType \<Rightarrow> gotime \<Rightarrow> deviceBridgeVirtualParameterValue" where
  "live_value typ now = (zero_value typ SourceDownstream)\<lparr>dv_liveRefresh := True, dv_updatedAt := now\<rparr>"

definition deviceBridgeSoftParameterValue ::
    "CANopenSDOMap \<Rightarrow> bridge_env \<Rightarrow> int \<Rightarrow> int \<Rightarrow> DataType \<Rightarrow> bridge \<Rightarrow>
     (bridge_error + deviceBridgeVirtualParameterValue) \<times> bridge" where
  "deviceBridgeSoftParameterValue m env pid inst typ b =
     (if \<not> instance_ok m pid inst then (Inl (BridgeInvalid ''parameter instance''), b)
      else if typ = DataTypeInt32 then
        (case client_ReadInt32 env pid inst b of
           (Inl _, b1) \<Rightarrow> (soft_cached m pid inst typ b1, b1)
         | (Inr i, b1) \<Rightarrow>
             (case time_Now env b1 of (now, b2) \<Rightarrow>
                store_live m env pid inst
                  ((live_value typ now)\<lparr>dv_int := deviceBridgeCompatibleInt32Value m pid i\<rparr>) b2))
      else if typ = DataTypeFloat32 \<or> typ = [] then
        (case client_ReadFloat32 env pid inst b of
           (Inl _, b1) \<Rightarrow> (soft_cached m pid inst DataTypeFloat32 b1, b1)
         | (Inr f, b1) \<Rightarrow>
             (case time_Now env b1 of (now, b2) \<Rightarrow>
                let v = (live_value DataTypeFloat32 now)\<lparr>dv_float := f\<rparr> in
                if f64_isNaN f then (Inr v, b2) else store_live m env pid inst v b2))
      else if typ = DataTypeLatin1 then (soft_cached m pid inst typ b, b)
      else (Inl (BridgeUnsupported ''soft read''), b))"

definition deviceBridgeVirtualParameterDefault :: "BridgeTransform \<Rightarrow> DataType \<Rightarrow> deviceBridgeVirtualParameterValue" where
  "deviceBridgeVirtualParameterDefault t typ =
     (if typ = DataTypeFloat32 \<or> typ = [] then
        (zero_value DataTypeFloat32 SourcePlaceholder)\<lparr>dv_float :=
           (if bt_MeComID t = 52200 then f64_nan else if bt_MeComID t = 52201 then 0x4039000000000000 else 0)\<rparr>
      else zero_value typ SourcePlaceholder)"

definition deviceBridgeVirtualParameterValueWithState ::
    "CANopenSDOMap \<Rightarrow> bridge_env \<Rightarrow> BridgeTransform \<Rightarrow> int \<Rightarrow> bridge \<Rightarrow>
     (bridge_error + deviceBridgeVirtualParameterValue) \<times> bridge" where
  "deviceBridgeVirtualParameterValueWithState m env t inst b =
     (if \<not> deviceBridgeValidateTransformInstance t inst then (Inl (BridgeInvalid ''transform instance''), b)
      else let typ = (if bt_Type t = [] then DataTypeFloat32 else bt_Type t) in
        if typ \<noteq> DataTypeInt32 \<and> typ \<noteq> DataTypeFloat32 then (Inl (BridgeUnsupported ''virtual read''), b)
        else case deviceBridgeSoftParameterValue m env (bt_MeComID t) inst typ b of
          (Inl e, b1) \<Rightarrow> (Inl e, b1)
        | (Inr v, b1) \<Rightarrow>
            if dv_source v \<noteq> SourcePlaceholder then (Inr v, b1)
            else (case lookupParameter m (bt_MeComID t) inst typ (ds_virtualParameters b1) of
                    Inl e \<Rightarrow> (Inl e, b1)
                  | Inr (Some c) \<Rightarrow> (Inr c, b1)
                  | Inr None \<Rightarrow> (Inr (deviceBridgeVirtualParameterDefault t typ), b1)))"

definition deviceBridgeSynthesizedFloat32 ::
    "bridge_env \<Rightarrow> BridgeTransform \<Rightarrow> int \<Rightarrow> bridge \<Rightarrow> (mecom_error + u64) \<times> bridge" where
  "deviceBridgeSynthesizedFloat32 env t inst b =
     (case client_ReadInt32 env (bt_SourceMeComID t) inst b of
        (Inl e, b1) \<Rightarrow> (Inl e, b1)
      | (Inr version, b1) \<Rightarrow> (Inr (f64_mul (float64_of_int (sint version)) (bt_Scale t)), b1))"

section \<open>Single reads\<close>

definition virtual_text ::
    "DataType \<Rightarrow> bridge_error + deviceBridgeVirtualParameterValue \<Rightarrow> bridge_error + string" where
  "virtual_text typ r =
     res_bind r (\<lambda>v.
       if typ = DataTypeInt32 then Inr (fmt32 (dv_int v))
       else if typ = DataTypeFloat32 \<or> typ = [] then Inr (fmt32 (float32_of_float64 (dv_float v)))
       else Inl (BridgeUnsupported ''single read of virtual parameter''))"

definition soft_text ::
    "DataType \<Rightarrow> bridge_error + deviceBridgeVirtualParameterValue \<Rightarrow> bridge_error + string" where
  "soft_text typ r =
     res_bind r (\<lambda>v.
       if typ = DataTypeInt32 then Inr (fmt32 (dv_int v))
       else if typ = DataTypeFloat32 \<or> typ = [] then Inr (fmt32 (float32_of_float64 (dv_float v)))
       else if typ = DataTypeLatin1 then Inr ''00000000''
       else Inl (BridgeUnsupported ''single read of soft parameter''))"

definition read_int ::
    "CANopenSDOMap \<Rightarrow> bridge_env \<Rightarrow> int \<Rightarrow> int \<Rightarrow> bridge \<Rightarrow> (bridge_error + string) \<times> bridge" where
  "read_int m env pid inst b =
     (case deviceBridgeTransform m pid ConstantInt32 of
        Some t \<Rightarrow> (Inr (fmt32 (bt_Int32Value t)), b)
      | None \<Rightarrow>
          (case client_ReadInt32 env pid inst b of
             (Inl e, b1) \<Rightarrow> (Inl (BridgeClient e), b1)
           | (Inr i, b1) \<Rightarrow>
               let v = deviceBridgeCompatibleInt32Value m pid i in
               (Inr (fmt32 v),
                deviceBridgeStoreLiveNumericValue m env pid inst DataTypeInt32 (float64_of_int (sint v)) b1)))"

definition read_float ::
    "CANopenSDOMap \<Rightarrow> bridge_env \<Rightarrow> int \<Rightarrow> int \<Rightarrow> DataType \<Rightarrow> bridge \<Rightarrow> (bridge_error + string) \<times> bridge" where
  "read_float m env pid inst typ b =
     (case deviceBridgeTransform m pid SynthesizeFloat32 of
        Some t \<Rightarrow>
          (case deviceBridgeSynthesizedFloat32 env t inst b of
             (Inl e, b1) \<Rightarrow> (Inl (BridgeClient e), b1)
           | (Inr f, b1) \<Rightarrow>
               (Inr (fmt32 (float32_of_float64 f)),
                deviceBridgeStoreLiveNumericValue m env pid inst DataTypeFloat32 f b1))
      | None \<Rightarrow>
          (case client_ReadFloat32 env pid inst b of
             (Inl e, b1) \<Rightarrow> (Inl (BridgeClient e), b1)
           | (Inr f, b1) \<Rightarrow>
               (Inr (fmt32 (float32_of_float64 f)), deviceBridgeStoreLiveNumericValue m env pid inst typ f b1)))"

definition single_value ::
    "CANopenSDOMap \<Rightarrow> bridge_env \<Rightarrow> int \<Rightarrow> int \<Rightarrow> bridge \<Rightarrow> (bridge_error + string) \<times> bridge" where
  "single_value m env pid inst b =
     (let typ = deviceBridgeParameterType m pid in
      case deviceBridgeTransform m pid VirtualParameter of
        Some t \<Rightarrow>
          (case deviceBridgeVirtualParameterValueWithState m env t inst b of
             (r, b1) \<Rightarrow> (virtual_text (bt_Type t) r, b1))
      | None \<Rightarrow>
          if deviceBridgeLooseFallbackParameter m pid then
            (case deviceBridgeSoftParameterValue m env pid inst typ b of (r, b1) \<Rightarrow> (soft_text typ r, b1))
          else if typ = DataTypeInt32 then read_int m env pid inst b
          else if typ = DataTypeFloat32 \<or> typ = [] then read_float m env pid inst typ b
          else (Inl (BridgeUnsupported ''single read''), b))"

definition deviceBridgeSingleReadWithState ::
    "CANopenSDOMap \<Rightarrow> bridge_env \<Rightarrow> string \<Rightarrow> bridge \<Rightarrow> (bridge_error + string) \<times> bridge" where
  "deviceBridgeSingleReadWithState m env payload b =
     (if length payload \<noteq> 9 then (Inl (BridgeInvalid ''?VR payload length''), b)
      else case parseDeviceBridgeParameter (drop 3 payload) of
        None \<Rightarrow> (Inl (BridgeInvalid ''parameter''), b)
      | Some (pid, inst) \<Rightarrow> single_value m env pid inst b)"

section \<open>Metadata and limits\<close>

definition deviceBridgeMeParType :: "DataType \<Rightarrow> bridge_error + byte" where
  "deviceBridgeMeParType typ =
     (if typ = DataTypeFloat32 \<or> typ = [] then Inr 0
      else if typ = DataTypeInt32 then Inr 1
      else if typ = DataTypeLatin1 then Inr 3
      else if typ = DataTypeByte then Inr 4
      else Inl (BridgeUnsupported ''metadata type''))"

definition deviceBridgeParameterBounds :: "DataType \<Rightarrow> bridge_error + string \<times> string \<times> string" where
  "deviceBridgeParameterBounds typ =
     (if typ = DataTypeFloat32 \<or> typ = [] then Inr (''FF800000'', ''7F800000'', ''00000000'')
      else if typ = DataTypeInt32 then Inr (''80000000'', ''7FFFFFFF'', ''00000000'')
      else if typ = DataTypeLatin1 then Inr (''00'', ''00'', ''00'')
      else if typ = DataTypeByte then Inr (''00'', ''FF'', ''00'')
      else Inl (BridgeUnsupported ''bounds type''))"

definition deviceBridgeParameterMaxElements :: "CANopenSDOMap \<Rightarrow> int \<Rightarrow> DataType \<Rightarrow> u32" where
  "deviceBridgeParameterMaxElements m pid typ =
     (if typ = DataTypeLatin1 then of_nat deviceBridgeBigDataMaxElements
      else if typ = DataTypeByte then
        (case deviceBridgeTransform m pid PDOConfigBytes of
           Some t \<Rightarrow> if 0 < bt_MaxElements t then of_int (bt_MaxElements t) else 1
         | None \<Rightarrow> 1)
      else 1)"

definition metadata_text ::
    "byte \<Rightarrow> byte \<Rightarrow> int \<Rightarrow> u32 \<Rightarrow> string \<Rightarrow> string \<Rightarrow> string \<Rightarrow> string" where
  "metadata_text meParType flags maxInstances maxElements minimum maximum actual =
     fmtX 2 (uint meParType) @ fmtX 2 (uint flags) @ fmtX 2 maxInstances @ fmtX 8 (uint maxElements) @
     minimum @ maximum @ actual"

definition deviceBridgeFallbackMetadata :: "int \<Rightarrow> string" where
  "deviceBridgeFallbackMetadata inst =
     metadata_text 0 deviceBridgeMetadataReadFlag (if 0 < inst \<and> inst \<le> 0xff then inst else 1) 1
       ''FF800000'' ''7F800000'' ''00000000''"

definition deviceBridgeLiveMetadataActual ::
    "CANopenSDOMap \<Rightarrow> bridge_env \<Rightarrow> int \<Rightarrow> int \<Rightarrow> DataType \<Rightarrow> bridge \<Rightarrow> string option \<times> bridge" where
  "deviceBridgeLiveMetadataActual m env pid inst typ b =
     (if typ \<noteq> DataTypeInt32 \<and> typ \<noteq> DataTypeFloat32 \<and> typ \<noteq> [] then (None, b)
      else case deviceBridgeSingleReadWithState m env (''?VR'' @ fmtX 4 pid @ fmtX 2 inst) b of
        (Inl _, b1) \<Rightarrow> (None, b1)
      | (Inr actual, b1) \<Rightarrow> (if length actual \<noteq> 8 then None else Some actual, b1))"

definition deviceBridgeCachedMetadataActual ::
    "CANopenSDOMap \<Rightarrow> int \<Rightarrow> int \<Rightarrow> DataType \<Rightarrow> bridge \<Rightarrow> string option" where
  "deviceBridgeCachedMetadataActual m pid inst typ0 b =
     (let typ = (if typ0 = [] then DataTypeFloat32 else typ0) in
      case lookupParameter m pid inst typ (ds_softParameters b) of
        Inr (Some v) \<Rightarrow>
          if dv_source v = SourcePlaceholder then None
          else if typ = DataTypeInt32 then Some (fmt32 (dv_int v))
          else if typ = DataTypeFloat32 then Some (fmt32 (float32_of_float64 (dv_float v)))
          else None
      | _ \<Rightarrow> None)"

definition metadata_flags :: "CANopenSDOMap \<Rightarrow> int \<Rightarrow> byte" where
  "metadata_flags m pid =
     (case bridgeTransform m pid of
        Some t \<Rightarrow> if bt_HasMetadataFlags t then bt_MetadataFlags t
                  else (if deviceBridgeParameterWritable m pid
                        then deviceBridgeMetadataReadFlag OR deviceBridgeMetadataWriteFlag
                        else deviceBridgeMetadataReadFlag)
      | None \<Rightarrow> (if deviceBridgeParameterWritable m pid
                 then deviceBridgeMetadataReadFlag OR deviceBridgeMetadataWriteFlag
                 else deviceBridgeMetadataReadFlag))"

definition metadata_actual ::
    "CANopenSDOMap \<Rightarrow> bridge_env \<Rightarrow> int \<Rightarrow> int \<Rightarrow> DataType \<Rightarrow> string \<Rightarrow> bridge \<Rightarrow> string \<times> bridge" where
  "metadata_actual m env pid inst typ actual b =
     (if \<not> deviceBridgeMetadataLiveActualParameter m pid then (actual, b)
      else case deviceBridgeLiveMetadataActual m env pid inst typ b of
        (Some live, b1) \<Rightarrow> (live, b1)
      | (None, b1) \<Rightarrow>
          (case deviceBridgeCachedMetadataActual m pid inst typ b1 of Some c \<Rightarrow> (c, b1) | None \<Rightarrow> (actual, b1)))"

definition deviceBridgeMetadataWithActual ::
    "CANopenSDOMap \<Rightarrow> bridge_env \<Rightarrow> string \<Rightarrow> bridge \<Rightarrow> (bridge_error + string) \<times> bridge" where
  "deviceBridgeMetadataWithActual m env payload b =
     (if length payload \<noteq> 9 then (Inl (BridgeInvalid ''?VM payload length''), b)
      else case parseDeviceBridgeParameter (drop 3 payload) of
        None \<Rightarrow> (Inl (BridgeInvalid ''parameter''), b)
      | Some (pid, inst) \<Rightarrow>
          let typ = deviceBridgeParameterType m pid in
          (case deviceBridgeMeParType typ of
             Inl _ \<Rightarrow>
               if deviceBridgeUnsupportedReadNACK m pid then (Inl (BridgeUnknownParameter pid), b)
               else (Inr (deviceBridgeFallbackMetadata inst), b)
           | Inr meParType \<Rightarrow>
               (case deviceBridgeParameterBounds typ of
                  Inl e \<Rightarrow> (Inl e, b)
                | Inr (minimum, maximum, actual) \<Rightarrow>
                    (case metadata_actual m env pid inst typ actual b of
                       (actual', b1) \<Rightarrow>
                         (Inr (metadata_text meParType (metadata_flags m pid) (deviceBridgeParameterMaxInstances m pid)
                                (deviceBridgeParameterMaxElements m pid typ) minimum maximum actual'), b1)))))"

definition deviceBridgeLimits :: "CANopenSDOMap \<Rightarrow> string \<Rightarrow> bridge_error + string" where
  "deviceBridgeLimits m payload =
     (if length payload \<noteq> 9 then Inl (BridgeInvalid ''?VL payload length'')
      else case parseDeviceBridgeParameter (drop 3 payload) of
        None \<Rightarrow> Inl (BridgeInvalid ''parameter'')
      | Some (pid, _) \<Rightarrow>
          res_bind (deviceBridgeMeParType (deviceBridgeParameterType m pid)) (\<lambda>meParType.
          res_bind (deviceBridgeParameterBounds (deviceBridgeParameterType m pid)) (\<lambda>(minimum, maximum, _).
            Inr (fmtX 2 (uint meParType) @ minimum @ maximum))))"

end
