(* ===== verification/BridgeBulk.thy ===== *)
theory BridgeBulk
  imports BridgeRead
begin

text \<open>
  Bulk reads, big-data reads, the bootloader status and the ring commands of the device bridge
  (\<open>mecomserver/device_bridge.go\<close>).
\<close>

section \<open>Bulk reads\<close>

definition plain_parameter :: "int \<Rightarrow> int \<Rightarrow> DataType \<Rightarrow> Parameter" where
  "plain_parameter pid inst typ =
     \<lparr>par_ID = pid, par_Instance = inst, par_Name = [], par_Unit = [], par_Type = typ, par_Writable = False,
      par_Role = [], par_Kind = []\<rparr>"

text \<open>The first loop: the parameters with the marks of \<open>unsupportedSlots\<close>.\<close>

fun bulk_params :: "CANopenSDOMap \<Rightarrow> string list \<Rightarrow> bridge_error + (Parameter \<times> bool) list" where
  "bulk_params m [] = Inr []"
| "bulk_params m (e # es) =
     (case parseDeviceBridgeParameter e of
        None \<Rightarrow> Inl (BridgeInvalid ''parameter'')
      | Some (pid, inst) \<Rightarrow>
          let typ = deviceBridgeParameterType m pid;
              skip = res_bind (bulk_params m es) (\<lambda>ps. Inr ((plain_parameter pid inst DataTypeFloat32, True) # ps))
          in
          if deviceBridgeLooseFallbackParameter m pid \<and> typ = DataTypeLatin1 then skip
          else if \<not> deviceBridgeParameterTypeSupported typ then
            (if typ = DataTypeByte \<or> deviceBridgeUnsupportedReadNACK m pid then Inl (BridgeUnsupported ''bulk read'')
             else skip)
          else res_bind (bulk_params m es) (\<lambda>ps. Inr ((plain_parameter pid inst typ, False) # ps)))"

definition deviceBridgeBulkReadSingleFallback ::
    "bridge_env \<Rightarrow> Parameter \<Rightarrow> bridge \<Rightarrow> (u64 \<times> bool) \<times> bridge" where
  "deviceBridgeBulkReadSingleFallback env p b =
     (if par_Type p = DataTypeInt32 then
        (case client_ReadInt32 env (par_ID p) (par_Instance p) b of
           (Inl _, b1) \<Rightarrow> ((0, False), b1)
         | (Inr i, b1) \<Rightarrow> ((float64_of_int (sint i), True), b1))
      else if par_Type p = DataTypeFloat32 \<or> par_Type p = [] then
        (case client_ReadFloat32 env (par_ID p) (par_Instance p) b of
           (Inl _, b1) \<Rightarrow> ((0, False), b1)
         | (Inr f, b1) \<Rightarrow> ((f, True), b1))
      else ((0, False), b))"

definition deviceBridgeCachedBulkReadValue :: "CANopenSDOMap \<Rightarrow> Parameter \<Rightarrow> bridge \<Rightarrow> u64 option" where
  "deviceBridgeCachedBulkReadValue m p b =
     (case lookupParameter m (par_ID p) (par_Instance p) (par_Type p) (ds_softParameters b) of
        Inr (Some v) \<Rightarrow>
          if dv_source v = SourcePlaceholder then None
          else if par_Type p = DataTypeInt32 then Some (float64_of_int (sint (dv_int v)))
          else if par_Type p = DataTypeFloat32 \<or> par_Type p = [] then Some (dv_float v)
          else None
      | _ \<Rightarrow> None)"

text \<open>A slot has its value and its live mark, or waits for the downstream bulk read.\<close>

datatype bulk_slot = Slot u64 bool | Downstream

definition numeric_value ::
    "DataType \<Rightarrow> bridge_error + deviceBridgeVirtualParameterValue \<Rightarrow> u64" where
  "numeric_value typ r =
     (case r of
        Inl _ \<Rightarrow> 0
      | Inr v \<Rightarrow> if typ = DataTypeInt32 then float64_of_int (sint (dv_int v)) else dv_float v)"

definition bulk_slot_value ::
    "CANopenSDOMap \<Rightarrow> bridge_env \<Rightarrow> Parameter \<times> bool \<Rightarrow> bridge \<Rightarrow> bulk_slot \<times> bridge" where
  "bulk_slot_value m env ps b =
     (let p = fst ps; pid = par_ID p; inst = par_Instance p in
      if snd ps then (Slot 0 False, b)
      else case deviceBridgeTransform m pid VirtualParameter of
        Some t \<Rightarrow>
          (case deviceBridgeVirtualParameterValueWithState m env t inst b of
             (r, b1) \<Rightarrow> (Slot (numeric_value (bt_Type t) r) False, b1))
      | None \<Rightarrow>
          if deviceBridgeLooseFallbackParameter m pid then
            (case deviceBridgeSoftParameterValue m env pid inst (par_Type p) b of
               (r, b1) \<Rightarrow> (Slot (numeric_value (par_Type p) r) False, b1))
          else case deviceBridgeTransform m pid ConstantInt32 of
            Some t \<Rightarrow> (Slot (float64_of_int (sint (bt_Int32Value t))) False, b)
          | None \<Rightarrow>
              (case deviceBridgeTransform m pid SynthesizeFloat32 of
                 Some t \<Rightarrow>
                   (case deviceBridgeSynthesizedFloat32 env t inst b of
                      (Inl _, b1) \<Rightarrow> (Slot 0 False, b1)
                    | (Inr f, b1) \<Rightarrow> (Slot f True, b1))
               | None \<Rightarrow>
                   if deviceBridgeMetadataLiveActualParameter m pid then
                     (case deviceBridgeBulkReadSingleFallback env p b of
                        ((v, True), b1) \<Rightarrow> (Slot v True, b1)
                      | ((_, False), b1) \<Rightarrow>
                          (case deviceBridgeCachedBulkReadValue m p b1 of
                             Some v \<Rightarrow> (Slot v False, b1)
                           | None \<Rightarrow> (Slot 0 False, b1)))
                   else (Downstream, b)))"

fun bulk_slots ::
    "CANopenSDOMap \<Rightarrow> bridge_env \<Rightarrow> (Parameter \<times> bool) list \<Rightarrow> bridge \<Rightarrow> bulk_slot list \<times> bridge" where
  "bulk_slots m env [] b = ([], b)"
| "bulk_slots m env (p # ps) b =
     (case bulk_slot_value m env p b of (s, b1) \<Rightarrow>
        (case bulk_slots m env ps b1 of (ss, b2) \<Rightarrow> (s # ss, b2)))"

fun single_fallbacks :: "bridge_env \<Rightarrow> Parameter list \<Rightarrow> bridge \<Rightarrow> (u64 \<times> bool) list \<times> bridge" where
  "single_fallbacks env [] b = ([], b)"
| "single_fallbacks env (p # ps) b =
     (case deviceBridgeBulkReadSingleFallback env p b of (v, b1) \<Rightarrow>
        (case single_fallbacks env ps b1 of (vs, b2) \<Rightarrow> (v # vs, b2)))"

definition downstream_values :: "bridge_env \<Rightarrow> Parameter list \<Rightarrow> bridge \<Rightarrow> (u64 \<times> bool) list \<times> bridge" where
  "downstream_values env params b =
     (if params = [] then ([], b)
      else case client_ReadBulk env params b of
        (Inr vs, b1) \<Rightarrow>
          if length vs = length params then (map (\<lambda>v. (v, True)) vs, b1) else single_fallbacks env params b1
      | (Inl _, b1) \<Rightarrow> single_fallbacks env params b1)"

text \<open>The downstream values go to the waiting slots in order (\<open>downstreamIndexes\<close>).\<close>

fun fill_slots :: "bulk_slot list \<Rightarrow> (u64 \<times> bool) list \<Rightarrow> (u64 \<times> bool) list" where
  "fill_slots [] vs = []"
| "fill_slots (Slot v live # ss) vs = (v, live) # fill_slots ss vs"
| "fill_slots (Downstream # ss) [] = (0, False) # fill_slots ss []"
| "fill_slots (Downstream # ss) (v # vs) = v # fill_slots ss vs"

definition waiting :: "(Parameter \<times> bool) list \<Rightarrow> bulk_slot list \<Rightarrow> Parameter list" where
  "waiting params ss = map (fst \<circ> fst) (filter (\<lambda>ps. snd ps = Downstream) (zip params ss))"

definition bulk_int :: "CANopenSDOMap \<Rightarrow> bridge_env \<Rightarrow> int \<Rightarrow> u64 \<Rightarrow> u32" where
  "bulk_int m env pid v =
     deviceBridgeCompatibleInt32Value m pid (int32_of_float64 env (if f64_isNaN v then 0 else v))"

fun bulk_output ::
    "CANopenSDOMap \<Rightarrow> bridge_env \<Rightarrow> (Parameter \<times> u64 \<times> bool) list \<Rightarrow> bridge \<Rightarrow> (bridge_error + string) \<times> bridge" where
  "bulk_output m env [] b = (Inr [], b)"
| "bulk_output m env ((p, v, live) # rest) b =
     (let b1 = (if live then deviceBridgeStoreLiveNumericValue m env (par_ID p) (par_Instance p) (par_Type p) v b else b)
      in if par_Type p = DataTypeInt32 then
           (case bulk_output m env rest b1 of
              (r, b2) \<Rightarrow> (res_bind r (\<lambda>out. Inr (fmt32 (bulk_int m env (par_ID p) v) @ out)), b2))
         else if par_Type p = DataTypeFloat32 then
           (case bulk_output m env rest b1 of
              (r, b2) \<Rightarrow> (res_bind r (\<lambda>out. Inr (fmt32 (float32_of_float64 v) @ out)), b2))
         else (Inl (BridgeUnsupported ''bulk read''), b1))"

definition deviceBridgeBulkReadWithState ::
    "CANopenSDOMap \<Rightarrow> bridge_env \<Rightarrow> string \<Rightarrow> bridge \<Rightarrow> (bridge_error + string) \<times> bridge" where
  "deviceBridgeBulkReadWithState m env payload b =
     (if length payload < 5 then (Inl (BridgeInvalid ''?VX payload length''), b)
      else case ParseUint (slice 3 5 payload) 8 of
        Inl _ \<Rightarrow> (Inl (BridgeInvalid ''?VX count''), b)
      | Inr _ \<Rightarrow>
          if (length payload - 5) mod 6 \<noteq> 0 then (Inl (BridgeInvalid ''?VX count''), b)
          else (case bulk_params m (bulk_entries payload ((length payload - 5) div 6)) of
                  Inl e \<Rightarrow> (Inl e, b)
                | Inr params \<Rightarrow>
                    (case bulk_slots m env params b of (ss, b1) \<Rightarrow>
                       (case downstream_values env (waiting params ss) b1 of (vs, b2) \<Rightarrow>
                          bulk_output m env (zip (map fst params) (fill_slots ss vs)) b2))))"

section \<open>Big data\<close>

definition deviceBridgeBigDataResponse :: "byte list \<Rightarrow> nat \<Rightarrow> nat \<Rightarrow> string" where
  "deviceBridgeBigDataResponse data start maxElements =
     (if maxElements = 0 \<or> length data \<le> start then ''000000''
      else let segment = slice start (min (start + maxElements) (length data)) data
        in fmtX 4 (int (length segment)) @ fmtX 2 (if segment \<noteq> [] then 1 else 0) @ hex_encode segment)"

definition pdo_layout :: "int \<Rightarrow> (byte \<times> nat) list option" where
  "pdo_layout pid =
     (if pid = 2150 then Some [(1, 4), (2, 1)]
      else if pid = 2151 \<or> pid = 2153 then Some [(0, 1), (1, 4), (2, 4)]
      else if pid = 2152 then Some [(1, 4), (2, 1), (3, 2), (5, 2)]
      else None)"

definition deviceBridgeAppendSDOBytes ::
    "(client_call list \<Rightarrow> u16 \<Rightarrow> byte \<Rightarrow> mecom_error + byte list) \<Rightarrow> byte list \<Rightarrow> u16 \<Rightarrow> byte \<Rightarrow> nat \<Rightarrow> bridge \<Rightarrow>
     byte list \<times> mecom_error option \<times> bridge" where
  "deviceBridgeAppendSDOBytes reader out index subIndex width b =
     (let b1 = log_call (CallReadSDORaw index subIndex) b in
      case reader (bg_calls b) index subIndex of
        Inl e \<Rightarrow> (out @ replicate width 0, Some e, b1)
      | Inr data \<Rightarrow> (out @ take width (data @ replicate (width - length data) 0), None, b1))"

fun append_all ::
    "(client_call list \<Rightarrow> u16 \<Rightarrow> byte \<Rightarrow> mecom_error + byte list) \<Rightarrow> (u16 \<times> byte \<times> nat) list \<Rightarrow>
     byte list \<Rightarrow> nat \<Rightarrow> mecom_error option \<Rightarrow> bridge \<Rightarrow> byte list \<times> nat \<times> mecom_error option \<times> bridge" where
  "append_all reader [] out successes lastErr b = (out, successes, lastErr, b)"
| "append_all reader ((index, subIndex, width) # rest) out successes lastErr b =
     (case deviceBridgeAppendSDOBytes reader out index subIndex width b of
        (out', e, b') \<Rightarrow> append_all reader rest out' (if e = None then successes + 1 else successes) e b')"

definition deviceBridgeCANopenPDOConfigBytes ::
    "bridge_env \<Rightarrow> BridgeTransform \<Rightarrow> bridge \<Rightarrow> (bridge_error + byte list) \<times> bridge" where
  "deviceBridgeCANopenPDOConfigBytes env t b =
     (case dc_rawSDO (be_client env) of
        None \<Rightarrow> (Inl (BridgeUnsupported ''raw SDO reads''), b)
      | Some reader \<Rightarrow>
          if bt_CANopenIndexBase t = 0 \<or> bt_MaxElements t \<le> 0 then (Inl (BridgeInvalid ''incomplete PDO config''), b)
          else case pdo_layout (bt_MeComID t) of
            None \<Rightarrow> (Inl (BridgeInvalid ''unsupported PDO config''), b)
          | Some layout \<Rightarrow>
              (case append_all reader
                      (concat (map (\<lambda>n. map (\<lambda>(s, w). (bt_CANopenIndexBase t + of_nat n, s, w)) layout) [0..<16]))
                      [] 0 None b of
                 (out, successes, lastErr, b1) \<Rightarrow>
                   (case lastErr of
                      Some e \<Rightarrow>
                        if successes = 0 then (Inl (BridgeClient e), b1)
                        else (Inr (take (nat (bt_MaxElements t)) (out @ replicate (nat (bt_MaxElements t) - length out) 0)), b1)
                    | None \<Rightarrow>
                        (Inr (take (nat (bt_MaxElements t)) (out @ replicate (nat (bt_MaxElements t) - length out) 0)), b1))))"

definition deviceBridgeBigDataReadWithState ::
    "CANopenSDOMap \<Rightarrow> bridge_env \<Rightarrow> string \<Rightarrow> bridge \<Rightarrow> (bridge_error + string) \<times> bridge" where
  "deviceBridgeBigDataReadWithState m env payload b =
     (if length payload \<noteq> 21 then (Inl (BridgeInvalid ''?VB payload length''), b)
      else case (parseDeviceBridgeParameter (slice 3 9 payload), ParseUint (slice 9 17 payload) 32,
                 ParseUint (slice 17 21 payload) 16) of
        (Some (pid, inst), Inr start, Inr maxElements) \<Rightarrow>
          let typ = deviceBridgeParameterType m pid in
          if typ = DataTypeByte then
            (case deviceBridgeTransform m pid PDOConfigBytes of
               None \<Rightarrow> (Inr ''000000'', b)
             | Some t \<Rightarrow>
                 (case deviceBridgeCANopenPDOConfigBytes env t b of
                    (Inl e, b1) \<Rightarrow> (Inl e, b1)
                  | (Inr data, b1) \<Rightarrow> (Inr (deviceBridgeBigDataResponse data start maxElements), b1)))
          else if typ = DataTypeLatin1 then
            (case lookupParameter m pid inst DataTypeLatin1 (ds_softParameters b) of
               Inl e \<Rightarrow> (Inl e, b)
             | Inr (Some v) \<Rightarrow>
                 if dv_latin1 v \<noteq> []
                 then (Inr (deviceBridgeBigDataResponse (string_bytes (dv_latin1 v)) start maxElements), b)
                 else (Inr ''000000'', b)
             | Inr None \<Rightarrow> (Inr ''000000'', b))
          else (Inr ''000000'', b)
      | _ \<Rightarrow> (Inl (BridgeInvalid ''?VB payload''), b))"

definition deviceBridgeBootloaderStatus :: "string \<Rightarrow> bridge_error + string" where
  "deviceBridgeBootloaderStatus payload =
     (if length payload \<noteq> 11 then Inl (BridgeInvalid ''?BC payload length'')
      else case ParseUint (drop 3 payload) 32 of
        Inl _ \<Rightarrow> Inl (BridgeInvalid ''bootloader command'')
      | Inr command \<Rightarrow> if command \<noteq> 0 then Inl (BridgeUnsupported ''bootloader command'') else Inr ''00000000'')"

section \<open>Ring commands\<close>

fun ring_parameters :: "CANopenSDOMap \<Rightarrow> string list \<Rightarrow> bridge_error + RingCaptureParameter list" where
  "ring_parameters m [] = Inr []"
| "ring_parameters m (e # es) =
     (case (parseDeviceBridgeParameter (take 6 e), ParseUint (drop 6 e) 16) of
        (Some (pid, inst), Inr inhibit) \<Rightarrow>
          res_bind (ring_parameters m es) (\<lambda>ps.
            Inr (Parameter.extend (plain_parameter pid inst (deviceBridgeParameterType m pid))
                   (RingCaptureParameter.fields (of_nat inhibit)) # ps))
      | _ \<Rightarrow> Inl (BridgeInvalid ''ring capture parameter''))"

text \<open>The answer to a call that the transport may not support.\<close>

definition unless_unsupported :: "string \<Rightarrow> mecom_error option \<Rightarrow> bridge_error + string" where
  "unless_unsupported text e =
     (case e of
        None \<Rightarrow> Inr text
      | Some e \<Rightarrow> if mecom_is e = Some IsTransportNotSupported then Inr text else Inl (BridgeClient e))"

definition ring_pointer :: "bridge_env \<Rightarrow> bridge \<Rightarrow> (bridge_error + string) \<times> bridge" where
  "ring_pointer env b =
     (case dc_ReadRingPointer (be_client env) (bg_calls b) of
        Inl e \<Rightarrow> unless_unsupported ''00000000'' (Some e)
      | Inr pointer \<Rightarrow> Inr (fmt32 pointer), log_call CallReadRingPointer b)"

definition ring_chunk :: "bridge_env \<Rightarrow> u32 \<Rightarrow> u16 \<Rightarrow> bridge \<Rightarrow> (bridge_error + string) \<times> bridge" where
  "ring_chunk env start maxBytes b =
     (case dc_ReadRingChunk (be_client env) (bg_calls b) start maxBytes of
        Inl e \<Rightarrow> unless_unsupported ''000000'' (Some e)
      | Inr resp \<Rightarrow>
          Inr (fmtX 4 (uint (rr_BytesAdded resp)) @ fmtX 2 (uint (rr_Status resp)) @ hex_encode (rr_Data resp)),
      log_call (CallReadRingChunk start maxBytes) b)"

definition ring_configure ::
    "CANopenSDOMap \<Rightarrow> bridge_env \<Rightarrow> string \<Rightarrow> bridge \<Rightarrow> (bridge_error + string) \<times> bridge" where
  "ring_configure m env payload b =
     (if length payload < 13 then (Inl (BridgeInvalid ''ring capture-config payload length''), b)
      else case (ParseUint (slice 7 11 payload) 16, ParseUint (slice 11 13 payload) 8) of
        (Inr captureID, Inr n) \<Rightarrow>
          if length payload \<noteq> 13 + n * 10 then (Inl (BridgeInvalid ''ring capture count''), b)
          else (case ring_parameters m (map (\<lambda>i. slice (13 + i * 10) (23 + i * 10) payload) [0..<n]) of
                  Inl e \<Rightarrow> (Inl e, b)
                | Inr params \<Rightarrow>
                    (case client_effect env (CallConfigureRingCapture (of_nat captureID) params) b of
                       (e, b1) \<Rightarrow> (unless_unsupported ''00'' e, b1)))
      | _ \<Rightarrow> (Inl (BridgeInvalid ''ring capture''), b))"

definition deviceBridgeRingPayload ::
    "CANopenSDOMap \<Rightarrow> bridge_env \<Rightarrow> string \<Rightarrow> bridge \<Rightarrow> (bridge_error + string) \<times> bridge" where
  "deviceBridgeRingPayload m env payload b =
     (if length payload < 7 then (Inl (BridgeInvalid ''?RS payload length''), b)
      else let command = slice 3 7 payload in
        if command = ''0000'' then
          (if length payload \<noteq> 7 then (Inl (BridgeInvalid ''ring pointer payload length''), b) else ring_pointer env b)
        else if command = ''0001'' then
          (if length payload \<noteq> 19 then (Inl (BridgeInvalid ''ring read payload length''), b)
           else case (ParseUint (slice 7 15 payload) 32, ParseUint (slice 15 19 payload) 16) of
             (Inr start, Inr maxBytes) \<Rightarrow> ring_chunk env (of_nat start) (of_nat maxBytes) b
           | _ \<Rightarrow> (Inl (BridgeInvalid ''ring read''), b))
        else if command = ''0002'' then ring_configure m env payload b
        else if command = ''0003'' then
          (if length payload \<noteq> 7 then (Inl (BridgeInvalid ''ring trigger-sync payload length''), b)
           else case client_effect env CallTriggerRingSync b of (e, b1) \<Rightarrow> (unless_unsupported ''00'' e, b1))
        else (Inl (BridgeUnsupported ''ring command''), b))"

end
