(* ===== verification/DeviceBridge.thy ===== *)
theory DeviceBridge
  imports BridgeBulk
begin

text \<open>
  The device bridge (\<open>mecomserver/device_bridge.go\<close>): writes, the dispatch over the payload of a
  request, the handler of a frame, and the frames that the router answers itself.  \<open>runDeviceClientBridge\<close>
  is the sequence of \<open>handleDeviceClientFrameWithState\<close> on the frames of its pipe.
\<close>

section \<open>Writes\<close>

definition deviceBridgeWriteVirtualParameter ::
    "CANopenSDOMap \<Rightarrow> bridge_env \<Rightarrow> BridgeTransform \<Rightarrow> int \<Rightarrow> string \<Rightarrow> bridge \<Rightarrow> bridge_error option \<times> bridge" where
  "deviceBridgeWriteVirtualParameter m env t inst valueHex b =
     (if \<not> deviceBridgeValidateTransformInstance t inst then (Some (BridgeInvalid ''transform instance''), b)
      else if \<not> bt_Writable t then (Some (BridgeReadOnly (bt_MeComID t) inst), b)
      else state_writeParameter m env (bt_MeComID t) inst (if bt_Type t = [] then DataTypeFloat32 else bt_Type t)
             valueHex b)"

text \<open>A write into the soft store that is not flushed to the cache file.\<close>

definition soft_write ::
    "CANopenSDOMap \<Rightarrow> bridge_env \<Rightarrow> int \<Rightarrow> int \<Rightarrow> DataType \<Rightarrow> string \<Rightarrow> bridge \<Rightarrow> bridge_error option \<times> bridge" where
  "soft_write m env pid inst typ valueHex b0 =
     (case time_Now env b0 of (now, b) \<Rightarrow>
        case store_writeParameter m now pid inst typ valueHex (ds_softParameters b0) of
          Inl e \<Rightarrow> (Some e, b0)
        | Inr s \<Rightarrow> (None, b\<lparr>ds_softParameters := s\<rparr>))"

definition client_write :: "bridge_env \<Rightarrow> client_call \<Rightarrow> bridge \<Rightarrow> bridge_error option \<times> bridge" where
  "client_write env c b = (case client_effect env c b of (e, b1) \<Rightarrow> (map_option BridgeClient e, b1))"

definition device_write_value ::
    "bridge_env \<Rightarrow> int \<Rightarrow> int \<Rightarrow> DataType \<Rightarrow> string \<Rightarrow> bridge \<Rightarrow> bridge_error option \<times> bridge" where
  "device_write_value env pid inst typ valueHex b =
     (if \<not> dc_isWriter (be_client env) then (Some (BridgeClient ErrTransportNotSupported), b)
      else if typ = DataTypeInt32 then
        (case decode_bits valueHex of Inl e \<Rightarrow> (Some e, b) | Inr bits \<Rightarrow> client_write env (CallWriteInt32 pid inst bits) b)
      else if typ = DataTypeFloat32 \<or> typ = [] then
        (case decode_bits valueHex of Inl e \<Rightarrow> (Some e, b) | Inr bits \<Rightarrow> client_write env (CallWriteFloat32 pid inst bits) b)
      else if typ = DataTypeLatin1 then
        (if \<not> dc_isStringWriter (be_client env) then (Some (BridgeClient ErrTransportNotSupported), b)
         else case decode_text valueHex of
           Inl e \<Rightarrow> (Some e, b)
         | Inr text \<Rightarrow> client_write env (CallWriteString pid inst text) b)
      else (Some (BridgeUnsupported ''write''), b))"

definition deviceBridgeWriteWithState ::
    "CANopenSDOMap \<Rightarrow> bridge_env \<Rightarrow> string \<Rightarrow> bridge \<Rightarrow> bridge_error option \<times> bridge" where
  "deviceBridgeWriteWithState m env payload b =
     (if length payload < 8 then (Some (BridgeInvalid ''VS payload length''), b)
      else case parseDeviceBridgeParameter (slice 2 8 payload) of
        None \<Rightarrow> (Some (BridgeInvalid ''parameter''), b)
      | Some (pid, inst) \<Rightarrow>
          let valueHex = drop 8 payload; typ = deviceBridgeParameterType m pid in
          if \<not> deviceBridgeParameterWritable m pid then (Some (BridgeReadOnly pid inst), b)
          else case deviceBridgeTransform m pid VirtualParameter of
            Some t \<Rightarrow> deviceBridgeWriteVirtualParameter m env t inst valueHex b
          | None \<Rightarrow>
              if deviceBridgeLooseFallbackParameter m pid then soft_write m env pid inst typ valueHex b
              else device_write_value env pid inst typ valueHex b)"

definition deviceBridgeBigDataWriteWithState ::
    "CANopenSDOMap \<Rightarrow> bridge_env \<Rightarrow> string \<Rightarrow> bridge \<Rightarrow> bridge_error option \<times> bridge" where
  "deviceBridgeBigDataWriteWithState m env payload b =
     (if length payload < 22 then (Some (BridgeInvalid ''VB payload length''), b)
      else case parseDeviceBridgeParameter (slice 2 8 payload) of
        None \<Rightarrow> (Some (BridgeInvalid ''parameter''), b)
      | Some (pid, inst) \<Rightarrow>
          if \<not> deviceBridgeParameterWritable m pid then (Some (BridgeReadOnly pid inst), b)
          else case (ParseUint (slice 8 16 payload) 32, ParseUint (slice 16 20 payload) 16, ParseUint (slice 20 22 payload) 8) of
            (Inr start, Inr n, Inr isLast) \<Rightarrow>
              let valueHex = drop 22 payload in
              if length valueHex \<noteq> n * 2 then (Some (BridgeInvalid ''VB element count''), b)
              else if deviceBridgeParameterType m pid \<noteq> DataTypeLatin1 then (Some (BridgeUnsupported ''big-data write''), b)
              else if start \<noteq> 0 \<or> isLast \<noteq> 1 then (Some (BridgeUnsupported ''multi-package big-data write''), b)
              else if deviceBridgeLooseFallbackParameter m pid then soft_write m env pid inst DataTypeLatin1 valueHex b
              else if \<not> dc_isStringWriter (be_client env) then (Some (BridgeClient ErrTransportNotSupported), b)
              else (case decode_text valueHex of
                      Inl e \<Rightarrow> (Some e, b)
                    | Inr text \<Rightarrow> client_write env (CallWriteBigDataString pid inst text) b)
          | _ \<Rightarrow> (Some (BridgeInvalid ''VB payload''), b))"

section \<open>Frames\<close>

definition write_result :: "bridge_error option \<times> bridge \<Rightarrow> (bridge_error + string) \<times> bridge" where
  "write_result r = ((case fst r of None \<Rightarrow> Inr [] | Some e \<Rightarrow> Inl e), snd r)"

definition deviceBridgePayloadWithState ::
    "CANopenSDOMap \<Rightarrow> bridge_env \<Rightarrow> string \<Rightarrow> bridge \<Rightarrow> (bridge_error + string) \<times> bridge" where
  "deviceBridgePayloadWithState m env payload b =
     (if payload = ''?IF'' \<or> payload = ''?VI'' then (Inr deviceBridgeFirmwareIdentification, b)
      else if payload = ''?BI'' \<or> payload = ''?BID'' \<or> payload = ''?BIF'' then (Inr deviceBridgeBoardIdentification, b)
      else if HasPrefix payload ''?VM'' then deviceBridgeMetadataWithActual m env payload b
      else if HasPrefix payload ''?VB'' then deviceBridgeBigDataReadWithState m env payload b
      else if HasPrefix payload ''?VL'' then (deviceBridgeLimits m payload, b)
      else if HasPrefix payload ''?BC'' then (deviceBridgeBootloaderStatus payload, b)
      else if HasPrefix payload ''?RS'' then deviceBridgeRingPayload m env payload b
      else if HasPrefix payload ''?VR'' then deviceBridgeSingleReadWithState m env payload b
      else if HasPrefix payload ''?VX'' then deviceBridgeBulkReadWithState m env payload b
      else if HasPrefix payload ''VB'' then write_result (deviceBridgeBigDataWriteWithState m env payload b)
      else if HasPrefix payload ''VS'' then write_result (deviceBridgeWriteWithState m env payload b)
      else if payload = ''SP'' then
        (if \<not> dc_isControl (be_client env) then (Inr [], b)
         else write_result (client_write env CallSaveToFlash b))
      else if payload = ''RS'' then
        (if \<not> dc_isControl (be_client env) then (Inl (BridgeClient ErrTransportNotSupported), b)
         else write_result (client_write env CallReset b))
      else (Inl (BridgeUnsupported ''ASCII command''), b))"

definition isDeviceBridgeInfoProbe :: "string \<Rightarrow> bool" where
  "isDeviceBridgeInfoProbe payload \<longleftrightarrow> payload \<in> {''?IF'', ''?VI'', ''?BI'', ''?BID'', ''?BIF''}"

definition isDeviceBridgeRead :: "string \<Rightarrow> bool" where
  "isDeviceBridgeRead payload \<longleftrightarrow>
     list_ex (HasPrefix payload) [''?VR'', ''?VX'', ''?VM'', ''?VB'', ''?VL'', ''?RS'', ''?BC'']"

definition handleDeviceClientFrameWithState ::
    "CANopenSDOMap \<Rightarrow> bridge_env \<Rightarrow> string \<Rightarrow> bridge \<Rightarrow> string \<times> bridge" where
  "handleDeviceClientFrameWithState m env raw b =
     (case parseDeviceBridgeRequest raw of
        Inl _ \<Rightarrow> (deviceServerError raw, b)
      | Inr req \<Rightarrow>
          (case deviceBridgePayloadWithState m env (dr_payload req) b of
             (Inl e, b1) \<Rightarrow> (deviceBridgeNACK (dr_address req) (dr_seq req) (nackCodeForError e), b1)
           | (Inr payload, b1) \<Rightarrow>
               (if isDeviceBridgeInfoProbe (dr_payload req) then deviceBridgeData (dr_address req) (dr_seq req) payload
                else if isDeviceBridgeRead (dr_payload req) then deviceBridgeData (dr_address req) (dr_seq req) payload
                else deviceBridgeOK (dr_address req) (dr_seq req) payload, b1)))"

definition deviceBridgePayloadUsesRouterLocalVirtualWrite :: "CANopenSDOMap \<Rightarrow> string \<Rightarrow> bool" where
  "deviceBridgePayloadUsesRouterLocalVirtualWrite m payload =
     (if HasPrefix payload ''VB'' then
        \<not> length payload < 22 \<and> deviceBridgeEncodedParameterIsVirtual (bridge_tables_of m) (slice 2 8 payload)
      else if HasPrefix payload ''VS'' then
        \<not> length payload < 8 \<and> deviceBridgeEncodedParameterIsVirtual (bridge_tables_of m) (slice 2 8 payload)
      else False)"

definition handleDeviceBridgeRouterLocalFrame ::
    "CANopenSDOMap \<Rightarrow> bridge_env \<Rightarrow> string \<Rightarrow> bridge \<Rightarrow> (string \<times> bridge) option" where
  "handleDeviceBridgeRouterLocalFrame m env raw b =
     (case parseDeviceBridgeRequest raw of
        Inl _ \<Rightarrow> None
      | Inr req \<Rightarrow>
          if \<not> deviceBridgePayloadUsesRouterLocalVirtualWrite m (dr_payload req) then None
          else Some (handleDeviceClientFrameWithState m (env\<lparr>be_client := deviceBridgeVirtualOnlyClient\<rparr>) raw b))"

end
