(* ===== verification/BridgeEffects.thy ===== *)
theory BridgeEffects
  imports DeviceBridge
begin

text \<open>
  What the operations of the device bridge do to its state.  Every operation is built from five
  primitive steps: reading the clock, calling the client, storing a value that did not come from a
  placeholder, writing a value, each with the flush of the cache file that goes with it.  The locale
  \<open>bridge_effects\<close> says that a preorder on states contains these steps; its lemmas show that then
  it contains the operations.  It is interpreted for the invariant of the parameter stores together
  with the calls made, and for the agreement of the cache file with the store.
\<close>

fun is_read_call :: "client_call \<Rightarrow> bool" where
  "is_read_call (CallReadInt32 _ _) = True"
| "is_read_call (CallReadFloat32 _ _) = True"
| "is_read_call (CallReadBulk _) = True"
| "is_read_call (CallReadSDORaw _ _) = True"
| "is_read_call CallReadRingPointer = True"
| "is_read_call (CallReadRingChunk _ _) = True"
| "is_read_call _ = False"

text \<open>The call with an effect on the device that the payload of a request asks for.\<close>

fun requested :: "CANopenSDOMap \<Rightarrow> string \<Rightarrow> client_call \<Rightarrow> bool" where
  "requested m pl (CallWriteInt32 pid inst v) \<longleftrightarrow>
     HasPrefix pl ''VS'' \<and> parseDeviceBridgeParameter (slice 2 8 pl) = Some (pid, inst) \<and>
     deviceBridgeParameterWritable m pid \<and> deviceBridgeTransform m pid VirtualParameter = None \<and>
     deviceBridgeParameterType m pid = DataTypeInt32 \<and> decode_bits (drop 8 pl) = Inr v"
| "requested m pl (CallWriteFloat32 pid inst v) \<longleftrightarrow>
     HasPrefix pl ''VS'' \<and> parseDeviceBridgeParameter (slice 2 8 pl) = Some (pid, inst) \<and>
     deviceBridgeParameterWritable m pid \<and> deviceBridgeTransform m pid VirtualParameter = None \<and>
     deviceBridgeParameterType m pid \<in> {DataTypeFloat32, []} \<and> decode_bits (drop 8 pl) = Inr v"
| "requested m pl (CallWriteString pid inst text) \<longleftrightarrow>
     HasPrefix pl ''VS'' \<and> parseDeviceBridgeParameter (slice 2 8 pl) = Some (pid, inst) \<and>
     deviceBridgeParameterWritable m pid \<and> deviceBridgeTransform m pid VirtualParameter = None \<and>
     deviceBridgeParameterType m pid = DataTypeLatin1 \<and> decode_text (drop 8 pl) = Inr text"
| "requested m pl (CallWriteBigDataString pid inst text) \<longleftrightarrow>
     HasPrefix pl ''VB'' \<and> parseDeviceBridgeParameter (slice 2 8 pl) = Some (pid, inst) \<and>
     deviceBridgeParameterWritable m pid \<and>
     deviceBridgeParameterType m pid = DataTypeLatin1 \<and> decode_text (drop 22 pl) = Inr text"
| "requested m pl CallSaveToFlash \<longleftrightarrow> pl = ''SP''"
| "requested m pl CallReset \<longleftrightarrow> pl = ''RS''"
| "requested m pl (CallConfigureRingCapture _ _) \<longleftrightarrow> HasPrefix pl ''?RS'' \<and> slice 3 7 pl = ''0002''"
| "requested m pl CallTriggerRingSync \<longleftrightarrow> HasPrefix pl ''?RS'' \<and> slice 3 7 pl = ''0003''"
| "requested m pl _ \<longleftrightarrow> False"

text \<open>In a well-formed map a parameter that is only known loosely is read-only.\<close>

lemma known_kind_nonempty: "known_kind k \<Longrightarrow> k \<noteq> []"
  by (auto simp: known_kind_def DataTypeInt32_def DataTypeFloat32_def DataTypeLatin1_def DataTypeByte_def)

lemma loose_not_writable:
  assumes "sdo_map_wf m" and "deviceBridgeLooseFallbackParameter m pid"
  shows "\<not> deviceBridgeParameterWritable m pid"
proof
  assume w: "deviceBridgeParameterWritable m pid"
  have "CompatibilityParameterTypes m pid = None \<or> CompatibilityParameterTypes m pid = Some []"
    using assms(2) by (auto simp: deviceBridgeLooseFallbackParameter_def defaultDeviceBridgeParameterTypes_def
        keep_nonempty_def split: option.splits if_splits)
  moreover have "bt_Type t \<noteq> []" if "bridgeTransform m pid = Some t" for t
    using assms(1) that by (metis sdo_map_wf_def wf_transform_def known_kind_nonempty)
  moreover have "map_kind mp \<noteq> []" if "byMeComID m pid = Some mp" for mp
    using assms(1) that by (metis sdo_map_wf_def wf_mapping_def known_kind_nonempty)
  ultimately show False using w
    by (auto simp: deviceBridgeParameterWritable_def defaultDeviceBridgeWritableParameters_def
        CompatibilityParameterWritability_def CompatibilityParameterTypes_def drop_unsupported_def put_transforms_def
        ParameterTypes_def ParameterWritability_def split: option.splits if_splits)
qed

locale bridge_effects =
  fixes m :: CANopenSDOMap
    and env :: bridge_env
    and P :: "client_call \<Rightarrow> bool"
    and R :: "bridge \<Rightarrow> bridge \<Rightarrow> bool"
  assumes R_refl: "R b b"
    and R_trans: "R a b \<Longrightarrow> R b d \<Longrightarrow> R a d"
    and R_tick: "R b (b\<lparr>bg_ticks := Suc (bg_ticks b)\<rparr>)"
    and R_call: "P c \<Longrightarrow> R b (log_call c b)"
    and P_read: "is_read_call c \<Longrightarrow> P c"
    and R_store: "dv_source v \<in> {SourceLocal, SourceDownstream} \<Longrightarrow> R b (snd (state_storeParameterValue m env pid inst v b))"
    and R_write: "R b (snd (state_writeParameter m env pid inst typ valueHex b))"
begin

lemma after_now: "time_Now env b = (now, b1) \<Longrightarrow> R a b \<Longrightarrow> R a b1"
  using R_trans R_tick [of b] by (auto simp: time_Now_def)

lemma after_store:
  "state_storeParameterValue m env pid inst v b = (e, b1) \<Longrightarrow> dv_source v \<in> {SourceLocal, SourceDownstream} \<Longrightarrow> R a b \<Longrightarrow> R a b1"
  by (metis R_trans R_store snd_conv)

lemma after_write: "state_writeParameter m env pid inst typ valueHex b = (e, b1) \<Longrightarrow> R a b \<Longrightarrow> R a b1"
  by (metis R_trans R_write snd_conv)

lemma after_call: "P c \<Longrightarrow> R a b \<Longrightarrow> R a (log_call c b)"
  using R_trans R_call by blast

lemma after_read [simp, intro]: "is_read_call c \<Longrightarrow> R a b \<Longrightarrow> R a (log_call c b)"
  using after_call P_read by blast

lemma after_client:
  "client_ReadInt32 env pid inst b = (ri, b1) \<Longrightarrow> R a b \<Longrightarrow> R a b1"
  "client_ReadFloat32 env pid inst b = (rf, b1) \<Longrightarrow> R a b \<Longrightarrow> R a b1"
  "client_ReadBulk env params b = (rb, b1) \<Longrightarrow> R a b \<Longrightarrow> R a b1"
  by (auto simp: client_ReadInt32_def client_ReadFloat32_def client_ReadBulk_def)

lemma sources: "SourceDownstream \<in> {SourceLocal, SourceDownstream}" "SourceLocal \<in> {SourceLocal, SourceDownstream}"
  by simp_all

lemma live_value_source [simp]: "dv_source (live_value typ now) = SourceDownstream"
  by (simp add: live_value_def zero_value_def)

lemma after_store_live: "store_live m env pid inst v b = (r, b1) \<Longrightarrow> dv_source v \<in> {SourceLocal, SourceDownstream} \<Longrightarrow> R a b \<Longrightarrow> R a b1"
  by (auto simp: store_live_def split: prod.splits option.splits intro: after_store)

lemma after_live: "R a b \<Longrightarrow> R a (deviceBridgeStoreLiveNumericValue m env pid inst typ v b)"
proof (cases "time_Now env b")
  case (Pair now b1)
  assume "R a b"
  with Pair have "R a b1" by (rule after_now)
  then have "R a (snd (state_storeParameterValue m env pid inst x b1))" if "dv_source x = SourceDownstream" for x
    using that R_trans R_store sources(1) by metis
  with \<open>R a b\<close> \<open>R a b1\<close> show ?thesis
    by (simp add: deviceBridgeStoreLiveNumericValue_def Pair zero_value_def Let_def)
qed

lemma after_live_values:
  "store_live m env pid inst ((live_value typ now)\<lparr>dv_int := i\<rparr>) b = (r, b1) \<Longrightarrow> R a b \<Longrightarrow> R a b1"
  "store_live m env pid inst ((live_value typ now)\<lparr>dv_float := f\<rparr>) b = (r, b1) \<Longrightarrow> R a b \<Longrightarrow> R a b1"
  by (auto intro: after_store_live)

lemma after_soft: "deviceBridgeSoftParameterValue m env pid inst typ b = (r, b1) \<Longrightarrow> R a b \<Longrightarrow> R a b1"
  by (auto simp: deviceBridgeSoftParameterValue_def Let_def split: if_splits prod.splits sum.splits
      dest: after_client after_now after_live_values)

lemma after_virtual:
  "deviceBridgeVirtualParameterValueWithState m env t inst b = (r, b1) \<Longrightarrow> R a b \<Longrightarrow> R a b1"
  by (auto simp: deviceBridgeVirtualParameterValueWithState_def Let_def
      split: if_splits prod.splits sum.splits option.splits intro: after_soft)

lemma after_synthesized: "deviceBridgeSynthesizedFloat32 env t inst b = (r, b1) \<Longrightarrow> R a b \<Longrightarrow> R a b1"
  by (auto simp: deviceBridgeSynthesizedFloat32_def split: prod.splits sum.splits intro: after_client)

lemma after_read_int: "read_int m env pid inst b = (r, b1) \<Longrightarrow> R a b \<Longrightarrow> R a b1"
  by (auto simp: read_int_def Let_def split: prod.splits sum.splits option.splits intro: after_live after_client)

lemma after_read_float: "read_float m env pid inst typ b = (r, b1) \<Longrightarrow> R a b \<Longrightarrow> R a b1"
  by (auto simp: read_float_def split: prod.splits sum.splits option.splits
      intro: after_live after_client after_synthesized)

lemma after_single: "single_value m env pid inst b = (r, b1) \<Longrightarrow> R a b \<Longrightarrow> R a b1"
  by (auto simp: single_value_def Let_def split: if_splits prod.splits option.splits
      intro: after_virtual after_soft after_read_int after_read_float)

lemma after_single_read: "deviceBridgeSingleReadWithState m env payload b = (r, b1) \<Longrightarrow> R a b \<Longrightarrow> R a b1"
  by (auto simp: deviceBridgeSingleReadWithState_def split: if_splits option.splits intro: after_single)

lemma after_metadata: "deviceBridgeMetadataWithActual m env payload b = (r, b1) \<Longrightarrow> R a b \<Longrightarrow> R a b1"
  by (auto simp: deviceBridgeMetadataWithActual_def metadata_actual_def deviceBridgeLiveMetadataActual_def Let_def
      split: if_splits prod.splits sum.splits option.splits intro: after_single_read)

lemma after_fallback: "deviceBridgeBulkReadSingleFallback env p b = (r, b1) \<Longrightarrow> R a b \<Longrightarrow> R a b1"
  by (auto simp: deviceBridgeBulkReadSingleFallback_def split: if_splits prod.splits sum.splits intro: after_client)

lemma after_slot: "bulk_slot_value m env ps b = (r, b1) \<Longrightarrow> R a b \<Longrightarrow> R a b1"
  by (auto simp: bulk_slot_value_def Let_def split: if_splits prod.splits sum.splits option.splits bool.splits
      intro: after_virtual after_soft after_synthesized after_fallback)

lemma after_slots: "bulk_slots m env ps b = (r, b1) \<Longrightarrow> R a b \<Longrightarrow> R a b1"
  by (induction ps arbitrary: b r) (auto split: prod.splits dest: after_slot)

lemma after_fallbacks: "single_fallbacks env ps b = (r, b1) \<Longrightarrow> R a b \<Longrightarrow> R a b1"
  by (induction ps arbitrary: b r) (auto split: prod.splits dest: after_fallback)

lemma after_downstream: "downstream_values env ps b = (r, b1) \<Longrightarrow> R a b \<Longrightarrow> R a b1"
  by (auto simp: downstream_values_def split: if_splits prod.splits sum.splits dest: after_client(3) after_fallbacks)

lemma after_output: "bulk_output m env xs b = (r, b1) \<Longrightarrow> R a b \<Longrightarrow> R a b1"
proof (induction xs arbitrary: b r)
  case (Cons x xs)
  obtain p v live where x: "x = (p, v, live)" by (metis prod_cases3)
  let ?b = "if live then deviceBridgeStoreLiveNumericValue m env (par_ID p) (par_Instance p) (par_Type p) v b else b"
  have "R a ?b" using Cons.prems(2) after_live by simp
  then show ?case using Cons.IH [of ?b] Cons.prems(1) unfolding x by (auto simp: Let_def split: if_splits prod.splits)
qed simp

lemma after_bulk: "deviceBridgeBulkReadWithState m env payload b = (r, b1) \<Longrightarrow> R a b \<Longrightarrow> R a b1"
  by (auto simp: deviceBridgeBulkReadWithState_def split: if_splits prod.splits sum.splits
      dest: after_output after_downstream after_slots)

lemma after_append: "append_all reader xs out n e b = (out', n', e', b1) \<Longrightarrow> R a b \<Longrightarrow> R a b1"
  by (induction reader xs out n e b rule: append_all.induct)
     (auto simp: deviceBridgeAppendSDOBytes_def Let_def split: prod.splits sum.splits if_splits)

lemma after_big_data: "deviceBridgeBigDataReadWithState m env payload b = (r, b1) \<Longrightarrow> R a b \<Longrightarrow> R a b1"
  by (auto simp: deviceBridgeBigDataReadWithState_def deviceBridgeCANopenPDOConfigBytes_def Let_def
      split: if_splits prod.splits sum.splits option.splits intro: after_append)

lemma after_ring:
  assumes "\<And>c. requested m payload c \<Longrightarrow> P c" and "HasPrefix payload ''?RS''"
    and "deviceBridgeRingPayload m env payload b = (r, b1)" and "R a b"
  shows "R a b1"
  using assms by (auto simp: deviceBridgeRingPayload_def ring_pointer_def ring_chunk_def ring_configure_def client_effect_def
      Let_def split: if_splits prod.splits sum.splits intro: after_call)

lemma after_writes:
  assumes "\<And>c. requested m payload c \<Longrightarrow> P c" and "sdo_map_wf m" and "R a b"
  shows "HasPrefix payload ''VS'' \<Longrightarrow> deviceBridgeWriteWithState m env payload b = (r, b1) \<Longrightarrow> R a b1"
    and "HasPrefix payload ''VB'' \<Longrightarrow> deviceBridgeBigDataWriteWithState m env payload b = (r, b1) \<Longrightarrow> R a b1"
  using assms(1,3) loose_not_writable [OF assms(2)]
  by (auto simp: deviceBridgeWriteWithState_def deviceBridgeWriteVirtualParameter_def device_write_value_def
      deviceBridgeBigDataWriteWithState_def client_write_def client_effect_def Let_def
      split: if_splits prod.splits sum.splits option.splits intro!: after_call dest: after_write)

lemma after_control:
  "\<lbrakk>\<And>c. requested m payload c \<Longrightarrow> P c; requested m payload c; client_write env c b = (r, b1); R a b\<rbrakk> \<Longrightarrow> R a b1"
  by (auto simp: client_write_def client_effect_def intro!: after_call)

theorem after_payload:
  assumes "\<And>c. requested m payload c \<Longrightarrow> P c" and "sdo_map_wf m"
    and "deviceBridgePayloadWithState m env payload b = (r, b1)" and "R a b"
  shows "R a b1"
  using assms(3,4)
  by (auto simp: deviceBridgePayloadWithState_def write_result_def split: if_splits
      dest: after_metadata after_big_data after_single_read after_bulk
      dest!: after_ring [OF assms(1), rotated]
      intro: after_writes [OF assms(1,2) _ _ prod.collapse [symmetric]]
        after_control [OF assms(1) _ prod.collapse [symmetric]])

lemma after_observed: "R a b \<Longrightarrow> source \<in> {SourceLocal, SourceDownstream} \<Longrightarrow>
    R a (deviceBridgeObserveHexValue m env pid inst typ valueHex source live b)"
proof (cases "time_Now env b")
  case (Pair now b1)
  assume R: "R a b" and src: "source \<in> {SourceLocal, SourceDownstream}"
  from Pair R have "R a b1" by (rule after_now)
  then have "R a (snd (state_storeParameterValue m env pid inst x b1))" if "dv_source x = source" for x
    using that src R_trans R_store by metis
  with \<open>R a b\<close> \<open>R a b1\<close> show ?thesis
    by (simp add: deviceBridgeObserveHexValue_def Pair Let_def split: option.splits)
qed

lemma after_observe_slot: "R a b \<Longrightarrow> R a (observe_bulk_slot m env req resp i b)"
  by (auto simp: observe_bulk_slot_def intro!: after_observed split: option.splits)

lemma after_observe_slots: "R a b \<Longrightarrow> R a (fold (observe_bulk_slot m env req resp) is b)"
  by (induction "is" arbitrary: b) (auto intro: after_observe_slot)

lemma R_cases:
  "\<lbrakk>R a x; R a y\<rbrakk> \<Longrightarrow> R a (if q then x else y)"
  "\<lbrakk>R a x; \<And>v. R a (f v)\<rbrakk> \<Longrightarrow> R a (case opt of None \<Rightarrow> x | Some v \<Rightarrow> f v)"
  "\<lbrakk>\<And>e. R a (h e); \<And>v. R a (g v)\<rbrakk> \<Longrightarrow> R a (case s of Inl e \<Rightarrow> h e | Inr v \<Rightarrow> g v)"
  "(\<And>x y. R a (k x y)) \<Longrightarrow> R a (case p of (x, y) \<Rightarrow> k x y)"
  by (auto split: option.splits sum.splits prod.splits)

theorem after_observe: "R a b \<Longrightarrow> R a (deviceBridgeObserveFrame m env req resp b)"
  unfolding deviceBridgeObserveFrame_def deviceBridgeObservePayload_def deviceBridgeObserveBigDataReadValue_def Let_def
  by (intro R_cases after_observed after_observe_slots sources)

end

end
