(* ===== verification/BridgeCacheFile.thy ===== *)
theory BridgeCacheFile
  imports BridgeEffects
begin

text \<open>
  The invariant of the bridge's parameter store, the calls its operations make, and the cache file
  of \<open>mecomserver/device_bridge.go\<close>: what a new state loads from a file that was written from a
  store.
\<close>

section \<open>The store invariant and the calls\<close>

definition value_ok :: "CANopenSDOMap \<Rightarrow> (int \<times> int) \<times> deviceBridgeVirtualParameterValue \<Rightarrow> bool" where
  "value_ok m e \<longleftrightarrow>
     instance_ok m (fst (fst e)) (snd (fst e)) \<and> deviceBridgeParameterTypeSupported (dv_typ (snd e)) \<and>
     dv_source (snd e) \<noteq> [] \<and> dv_source (snd e) \<noteq> SourcePlaceholder \<and>
     json_text (dv_source (snd e)) = dv_source (snd e)"

definition soft_ok :: "CANopenSDOMap \<Rightarrow> parameter_store \<Rightarrow> bool" where
  "soft_ok m s \<longleftrightarrow> distinct (map fst s) \<and> list_all (value_ok m) s"

lemma soft_ok_put: "soft_ok m s \<Longrightarrow> value_ok m (k, v) \<Longrightarrow> soft_ok m (amap_put k v s)"
  by (auto simp: soft_ok_def amap_put_def distinct_filter_keys list_all_iff)

lemma json_text_ascii: "list_all (\<lambda>c. (of_char c :: nat) < 128) s \<Longrightarrow> json_text s = s"
  by (induction s) auto

lemma json_text_names [simp]:
  "json_text SourceLocal = SourceLocal" "json_text SourceDownstream = SourceDownstream"
  "json_text DataTypeInt32 = DataTypeInt32" "json_text DataTypeFloat32 = DataTypeFloat32"
  "json_text DataTypeLatin1 = DataTypeLatin1"
  by (rule json_text_ascii; simp add: SourceLocal_def SourceDownstream_def DataTypeInt32_def DataTypeFloat32_def
      DataTypeLatin1_def)+

lemma source_names [simp]:
  "SourceLocal \<noteq> []" "SourceDownstream \<noteq> []" "[] \<noteq> SourceLocal" "[] \<noteq> SourceDownstream"
  "SourceLocal \<noteq> SourcePlaceholder" "SourceDownstream \<noteq> SourcePlaceholder"
  "SourcePlaceholder \<noteq> SourceLocal" "SourcePlaceholder \<noteq> SourceDownstream"
  by (simp_all add: SourceLocal_def SourceDownstream_def SourcePlaceholder_def)

lemma flush_keeps [simp]:
  "ds_device (flushCacheBestEffort env b) = ds_device b" "ds_cachePath (flushCacheBestEffort env b) = ds_cachePath b"
  "ds_virtualParameters (flushCacheBestEffort env b) = ds_virtualParameters b"
  "ds_softParameters (flushCacheBestEffort env b) = ds_softParameters b" "bg_calls (flushCacheBestEffort env b) = bg_calls b"
  by (simp_all add: flushCacheBestEffort_def)

text \<open>The two ways a value gets into the store: the new state is a flushed put, or only the clock moved.\<close>

lemma store_cases:
  assumes "dv_source v \<in> {SourceLocal, SourceDownstream}"
  obtains n where "snd (state_storeParameterValue m env pid inst v b) = b\<lparr>bg_ticks := n\<rparr>"
  | n w where "snd (state_storeParameterValue m env pid inst v b) =
      flushCacheBestEffort env (b\<lparr>bg_ticks := n, ds_softParameters := amap_put (pid, inst) w (ds_softParameters b)\<rparr>)"
      and "value_ok m ((pid, inst), w)"
proof -
  define w b1 where "w = (if dv_updatedAt v = zero_time then v\<lparr>dv_updatedAt := be_clock env (bg_ticks b)\<rparr> else v)"
    and "b1 = (if dv_updatedAt v = zero_time then b\<lparr>bg_ticks := bg_ticks b + 1\<rparr> else b)"
  have eq: "snd (state_storeParameterValue m env pid inst v b) =
      (case store_storeParameterValue m pid inst w (ds_softParameters b1) of
         Inl e \<Rightarrow> b1 | Inr s \<Rightarrow> flushCacheBestEffort env (b1\<lparr>ds_softParameters := s\<rparr>))"
    using assms by (auto simp: state_storeParameterValue_def w_def b1_def time_Now_def Let_def split: sum.splits)
  have src: "dv_source w \<in> {SourceLocal, SourceDownstream}" using assms by (simp add: w_def)
  show thesis
  proof (cases "store_storeParameterValue m pid inst w (ds_softParameters b1)")
    case (Inl e)
    then show ?thesis using that(1) [of "bg_ticks b1"] by (simp add: eq b1_def)
  next
    case (Inr s)
    then have "s = amap_put (pid, inst) w (ds_softParameters b)" "value_ok m ((pid, inst), w)"
      using src by (auto simp: store_storeParameterValue_def b1_def value_ok_def split: if_splits)
    then show ?thesis using that(2) [of w "bg_ticks b1"] Inr by (simp add: eq b1_def)
  qed
qed

lemma decode_value_typ: "decode_value typ h = Inr v \<Longrightarrow> dv_typ v = typ \<and> deviceBridgeParameterTypeSupported typ"
  by (auto simp: decode_value_def zero_value_def deviceBridgeParameterTypeSupported_def Let_def res_bind_eq_Inr
      split: if_splits)

lemma write_cases:
  obtains "snd (state_writeParameter m env pid inst typ h b) = b"
  | n w where "snd (state_writeParameter m env pid inst typ h b) =
      flushCacheBestEffort env (b\<lparr>bg_ticks := n, ds_softParameters := amap_put (pid, inst) w (ds_softParameters b)\<rparr>)"
      and "value_ok m ((pid, inst), w)"
proof (cases "store_writeParameter m (be_clock env (bg_ticks b)) pid inst typ h (ds_softParameters b)")
  case (Inl e)
  then show thesis using that(1) by (simp add: state_writeParameter_def time_Now_def)
next
  case (Inr s)
  then obtain v where v: "decode_value typ h = Inr v" "instance_ok m pid inst"
      "s = amap_put (pid, inst) (v\<lparr>dv_source := SourceLocal, dv_updatedAt := be_clock env (bg_ticks b)\<rparr>) (ds_softParameters b)"
    by (auto simp: store_writeParameter_def res_bind_eq_Inr split: if_splits)
  then show thesis using that(2) Inr decode_value_typ [OF v(1)]
    by (simp add: state_writeParameter_def time_Now_def value_ok_def)
qed

definition bridge_evolves :: "CANopenSDOMap \<Rightarrow> (client_call \<Rightarrow> bool) \<Rightarrow> bridge \<Rightarrow> bridge \<Rightarrow> bool" where
  "bridge_evolves m P b b' \<longleftrightarrow>
     ds_device b' = ds_device b \<and> ds_cachePath b' = ds_cachePath b \<and> ds_virtualParameters b' = ds_virtualParameters b \<and>
     (soft_ok m (ds_softParameters b) \<longrightarrow> soft_ok m (ds_softParameters b')) \<and>
     (\<exists>cs. bg_calls b' = bg_calls b @ cs \<and> list_all P cs)"

interpretation evolves: bridge_effects m env "\<lambda>c. is_read_call c \<or> Q c" "bridge_evolves m (\<lambda>c. is_read_call c \<or> Q c)"
  for m env Q
proof
  let ?R = "bridge_evolves m (\<lambda>c. is_read_call c \<or> Q c)"
  show "?R b b" for b by (simp add: bridge_evolves_def)
  show "?R a d" if "?R a b" "?R b d" for a b d using that by (auto simp: bridge_evolves_def)
  show "?R b (b\<lparr>bg_ticks := Suc (bg_ticks b)\<rparr>)" for b by (simp add: bridge_evolves_def)
  show "?R b (log_call c b)" if "is_read_call c \<or> Q c" for b c
    using that by (simp add: bridge_evolves_def log_call_def)
  show "is_read_call c \<or> Q c" if "is_read_call c" for c using that by simp
  show "?R b (snd (state_storeParameterValue m env pid inst v b))" if "dv_source v \<in> {SourceLocal, SourceDownstream}"
    for v b pid inst
    by (rule store_cases [OF that, of m env pid inst b]) (auto simp: bridge_evolves_def intro: soft_ok_put)
  show "?R b (snd (state_writeParameter m env pid inst typ h b))" for b pid inst "typ" h
    by (rule write_cases [of m env pid inst "typ" h b]) (auto simp: bridge_evolves_def intro: soft_ok_put)
qed

section \<open>What the cache file keeps\<close>

definition persisted :: "deviceBridgeVirtualParameterValue \<Rightarrow> deviceBridgeVirtualParameterValue option" where
  "persisted v =
     (let base = (zero_value (dv_typ v) (dv_source v))\<lparr>dv_liveRefresh := dv_liveRefresh v, dv_updatedAt := dv_updatedAt v\<rparr> in
      if dv_typ v = DataTypeInt32 then Some (base\<lparr>dv_int := dv_int v\<rparr>)
      else if dv_typ v = DataTypeFloat32 then
        (if is_finite_float (dv_float v) then Some (base\<lparr>dv_float := dv_float v\<rparr>) else None)
      else Some (base\<lparr>dv_latin1 := json_text (dv_latin1 v)\<rparr>))"

lemma type_names [simp]:
  "DataTypeInt32 \<noteq> DataTypeFloat32" "DataTypeFloat32 \<noteq> DataTypeInt32" "DataTypeLatin1 \<noteq> DataTypeInt32"
  "DataTypeLatin1 \<noteq> DataTypeFloat32" "DataTypeInt32 \<noteq> DataTypeLatin1" "DataTypeFloat32 \<noteq> DataTypeLatin1"
  by (simp_all add: DataTypeInt32_def DataTypeFloat32_def DataTypeLatin1_def)

lemma load_snapshot:
  assumes "value_ok m (k, v)"
  shows "(case snapshot_parameter (k, v) of
            None \<Rightarrow> persisted v = None
          | Some p \<Rightarrow> load_parameter m (json_parameter p) s =
              (case persisted v of None \<Rightarrow> s | Some w \<Rightarrow> amap_put k w s))"
proof -
  obtain pid inst where k: "k = (pid, inst)" by (cases k)
  have t: "dv_typ v = DataTypeInt32 \<or> dv_typ v = DataTypeFloat32 \<or> dv_typ v = DataTypeLatin1"
    using assms by (auto simp: value_ok_def deviceBridgeParameterTypeSupported_def)
  have r: "instance_ok m pid inst" "dv_source v \<noteq> []" "dv_source v \<noteq> SourcePlaceholder" "json_text (dv_source v) = dv_source v"
    using assms by (simp_all add: value_ok_def k)
  show ?thesis using t r
    by (elim disjE) (simp_all add: k snapshot_parameter_def persisted_def json_parameter_def load_parameter_def
        load_value_def store_storeParameterValue_def deviceBridgeParameterTypeSupported_def zero_value_def Let_def)
qed

lemma load_entries:
  assumes "distinct (map fst s)" and "list_all (value_ok m) s"
  shows "map_of (fold (load_parameter m) (map json_parameter (List.map_filter snapshot_parameter s)) acc) k =
    (case map_of s k of
       None \<Rightarrow> map_of acc k
     | Some v \<Rightarrow> (case persisted v of None \<Rightarrow> map_of acc k | Some w \<Rightarrow> Some w))"
  using assms
proof (induction s arbitrary: acc)
  case (Cons e s)
  obtain j v where e: "e = (j, v)" by (cases e)
  define acc' where "acc' = (case persisted v of None \<Rightarrow> acc | Some w \<Rightarrow> amap_put j w acc)"
  have "fold (load_parameter m) (map json_parameter (List.map_filter snapshot_parameter (e # s))) acc =
      fold (load_parameter m) (map json_parameter (List.map_filter snapshot_parameter s)) acc'"
    using load_snapshot [of m j v acc] Cons.prems(2)
    by (auto simp: e map_filter_simps acc'_def split: option.splits)
  moreover have "map_of s j = None" using Cons.prems(1) by (simp add: e map_of_eq_None_iff)
  ultimately show ?case using Cons.IH [of acc'] Cons.prems
    by (auto simp: e acc'_def split: option.splits)
qed (simp add: map_filter_simps)

definition file_values ::
    "CANopenSDOMap \<Rightarrow> deviceBridgeCacheSnapshot option \<Rightarrow> (int \<times> int) \<rightharpoonup> deviceBridgeVirtualParameterValue" where
  "file_values m f = (case f of None \<Rightarrow> Map.empty | Some s \<Rightarrow> map_of (fold (load_parameter m) (cs_Parameters s) []))"

lemma file_values_snapshot:
  assumes "soft_ok m (ds_softParameters b)"
  shows "file_values m (Some (json_snapshot (cache_snapshot b))) k = Option.bind (map_of (ds_softParameters b) k) persisted"
proof -
  let ?s = "sort_key fst (ds_softParameters b)"
  have d: "distinct (map fst (ds_softParameters b))" and v: "list_all (value_ok m) (ds_softParameters b)"
    using assms by (simp_all add: soft_ok_def)
  have ds: "distinct (map fst ?s)" using d by (simp add: distinct_map)
  have "map_of ?s = map_of (ds_softParameters b)"
    by (subst map_of_inject_set [OF ds d]) simp
  moreover have "list_all (value_ok m) ?s" using v by (simp add: list_all_iff)
  ultimately show ?thesis using load_entries [OF ds, of m "[]" k]
    by (auto simp: file_values_def json_snapshot_def cache_snapshot_def split: option.splits)
qed

definition file_current :: "CANopenSDOMap \<Rightarrow> bridge \<Rightarrow> bool" where
  "file_current m b \<longleftrightarrow>
     ds_cachePath b \<noteq> None \<and> soft_ok m (ds_softParameters b) \<and>
     (\<forall>k. file_values m (bg_file b) k = Option.bind (map_of (ds_softParameters b) k) persisted)"

lemma file_current_flush:
  "ds_cachePath b \<noteq> None \<Longrightarrow> soft_ok m (ds_softParameters b) \<Longrightarrow> (\<And>n. be_flush env n) \<Longrightarrow>
   file_current m (flushCacheBestEffort env b)"
  using file_values_snapshot [of m b] by (auto simp: file_current_def flushCacheBestEffort_def)

interpretation current: bridge_effects m env "\<lambda>_. True"
    "\<lambda>b b'. (\<forall>n. be_flush env n) \<longrightarrow> file_current m b \<longrightarrow> file_current m b'"
  for m env
proof
  let ?R = "\<lambda>b b'. (\<forall>n. be_flush env n) \<longrightarrow> file_current m b \<longrightarrow> file_current m b'"
  show "?R b (b\<lparr>bg_ticks := Suc (bg_ticks b)\<rparr>)" for b by (simp add: file_current_def)
  show "?R b (log_call c b)" for b c by (simp add: file_current_def log_call_def)
  show "?R b (snd (state_storeParameterValue m env pid inst v b))" if "dv_source v \<in> {SourceLocal, SourceDownstream}"
    for v b pid inst
    by (rule store_cases [OF that, of m env pid inst b])
       (auto simp: file_current_def [of _ b] intro!: file_current_flush soft_ok_put, simp add: file_current_def)
  show "?R b (snd (state_writeParameter m env pid inst typ h b))" for b pid inst "typ" h
    by (rule write_cases [of m env pid inst "typ" h b])
       (auto simp: file_current_def [of _ b] intro!: file_current_flush soft_ok_put)
qed auto

end
