(* ===== verification/BridgeAnswers.thy ===== *)
theory BridgeAnswers
  imports BridgeCacheFile
begin

text \<open>
  The answers of the device bridge as the textual client reads them: requests built with the frame
  builders of \<open>mecom/protocol.go\<close>, handled by \<open>mecomserver/device_bridge.go\<close> and decoded with the
  client's parsers.
\<close>

section \<open>Requests of the textual client\<close>

lemma to_upper_hex: "c \<in> set ''0123456789ABCDEF'' \<Longrightarrow> to_upper c = c"
  by (auto simp: to_upper_def)

lemma ToUpper_hexN [simp]: "ToUpper (hexN w n) = hexN w n"
  using set_hexN [of w n] to_upper_hex by (simp add: ToUpper_def map_idI subset_iff)

lemma ToUpper_append [simp]: "ToUpper (xs @ ys) = ToUpper xs @ ToUpper ys"
  by (simp add: ToUpper_def)

lemma appendCRC_request: "appendCRC (uint (a :: byte)) s body = seal (req_prefix a s body)"
  by (simp add: appendCRC_seal req_prefix_def fmtX_u8 fmtX_u16)

lemma handle_request:
  fixes a :: byte
  assumes "ToUpper body = body'"
  shows "handleDeviceClientFrameWithState m env (appendCRC (uint a) s body) b =
    (case deviceBridgePayloadWithState m env body' b of
       (Inl e, b1) \<Rightarrow> (deviceBridgeNACK a s (nackCodeForError e), b1)
     | (Inr payload, b1) \<Rightarrow>
         (if isDeviceBridgeInfoProbe body' \<or> isDeviceBridgeRead body' then deviceBridgeData a s payload
          else deviceBridgeOK a s payload, b1))"
  using assms by (auto simp: handleDeviceClientFrameWithState_def appendCRC_request parse_request_seal
      split: prod.splits sum.splits)

definition encoded_parameter :: "u16 \<Rightarrow> byte \<Rightarrow> string" where
  "encoded_parameter p i = hexN 4 (unat p) @ hexN 2 (unat i)"

lemma encoded_parameter [simp]:
  "length (encoded_parameter p i) = 6" "ToUpper (encoded_parameter p i) = encoded_parameter p i"
  "parseDeviceBridgeParameter (encoded_parameter p i) = Some (uint p, uint i)"
  by (simp_all add: encoded_parameter_def parseDeviceBridgeParameter_def ParseUint_hexN_u8 ParseUint_hexN_u16)

lemma ToUpper_commands [simp]:
  "ToUpper ''?VR'' = ''?VR''" "ToUpper ''?VX'' = ''?VX''" "ToUpper ''VS'' = ''VS''" "ToUpper ''VB'' = ''VB''"
  by (simp_all add: ToUpper_def to_upper_def)

lemma HasPrefix_append: "length p \<le> length xs \<Longrightarrow> HasPrefix (xs @ ys) p = HasPrefix xs p"
  by (auto simp: HasPrefix_def)

lemma live_calls [simp]: "bg_calls (deviceBridgeStoreLiveNumericValue m env pid inst typ v b) = bg_calls b"
proof -
  have s: "bg_calls (snd (state_storeParameterValue m env pid inst v b)) = bg_calls b" for v b
    by (auto simp: state_storeParameterValue_def time_Now_def Let_def split: if_splits sum.splits prod.splits)
  show ?thesis by (simp add: deviceBridgeStoreLiveNumericValue_def time_Now_def Let_def s)
qed

section \<open>Single reads\<close>

definition plain :: "CANopenSDOMap \<Rightarrow> int \<Rightarrow> bool" where
  "plain m pid \<longleftrightarrow>
     deviceBridgeTransform m pid VirtualParameter = None \<and> \<not> deviceBridgeLooseFallbackParameter m pid \<and>
     deviceBridgeTransform m pid ConstantInt32 = None \<and> deviceBridgeTransform m pid SynthesizeFloat32 = None"

lemma single_payload:
  "deviceBridgePayloadWithState m env (''?VR'' @ encoded_parameter p i) b = single_value m env (uint p) (uint i) b"
  by (simp add: deviceBridgePayloadWithState_def deviceBridgeSingleReadWithState_def HasPrefix_def)

lemma handle_single_read:
  fixes a i :: byte and p :: u16
  shows "handleDeviceClientFrameWithState m env (BuildSingleGetFrame (uint a) s (uint p) (uint i)) b =
    (case single_value m env (uint p) (uint i) b of
       (Inl e, b1) \<Rightarrow> (deviceBridgeNACK a s (nackCodeForError e), b1)
     | (Inr payload, b1) \<Rightarrow> (deviceBridgeData a s payload, b1))"
proof -
  have f: "BuildSingleGetFrame (uint a) s (uint p) (uint i) = appendCRC (uint a) s (''?VR'' @ encoded_parameter p i)"
    by (simp add: BuildSingleGetFrame_def encoded_parameter_def fmtX_u8 fmtX_u16)
  have r: "isDeviceBridgeRead (''?VR'' @ encoded_parameter p i)"
    by (simp add: isDeviceBridgeRead_def HasPrefix_def)
  have u: "ToUpper (''?VR'' @ encoded_parameter p i) = ''?VR'' @ encoded_parameter p i"
    by (simp only: ToUpper_append ToUpper_commands encoded_parameter)
  show ?thesis unfolding f by (simp only: handle_request [OF u] single_payload r disj_not1 simp_thms if_True)
qed

lemma parse_nack: "ParseSingleResponse (deviceBridgeNACK a s c) dt = Inl (Response (Nack (unat c) (errorsByCode (unat c))))"
proof -
  have "parsePayload (deviceBridgeNACK a s c) = Inl (Response (Nack (unat c) (errorsByCode (unat c))))"
    unfolding response_seal by (subst parsePayload_seal) (auto simp: ParseUint_hexN_u8)
  then show ?thesis by (simp add: ParseSingleResponse_def)
qed

lemma parse_fmt32: "ParseSingleResponse (deviceBridgeData a s (fmt32 v)) dt = Inr (decoded dt v)"
  using ParseSingleResponse_Data [of a s v dt] by (simp add: fmt32_def encodeInt32_def)

text \<open>
  A read through the bridge is a read of the device: for a parameter that the SDO map serves
  directly, the client that sends \<open>?VR\<close> to the bridge makes it issue exactly one typed read for that
  parameter and instance, and decodes the very value the device returned (masked where the map says
  so), or, when the device read fails, a NACK with the code that \<open>nackCodeForError\<close> gives its error.
\<close>

theorem bridge_single_read:
  fixes a i :: byte and p :: u16
  assumes "plain m (uint p)"
    and "handleDeviceClientFrameWithState m env (BuildSingleGetFrame (uint a) s (uint p) (uint i)) b = (resp, b')"
  shows "(deviceBridgeParameterType m (uint p) = DataTypeInt32 \<longrightarrow>
      bg_calls b' = bg_calls b @ [CallReadInt32 (uint p) (uint i)] \<and>
      ParseSingleResponse resp DataTypeInt32 =
        (case dc_ReadInt32 (be_client env) (bg_calls b) (uint p) (uint i) of
           Inr v \<Rightarrow> Inr (F64_of_int32 (deviceBridgeCompatibleInt32Value m (uint p) v))
         | Inl e \<Rightarrow> (let c = unat (nackCodeForError (BridgeClient e)) in Inl (Response (Nack c (errorsByCode c)))))) \<and>
    (deviceBridgeParameterType m (uint p) = DataTypeFloat32 \<longrightarrow>
      bg_calls b' = bg_calls b @ [CallReadFloat32 (uint p) (uint i)] \<and>
      (\<forall>v. dc_ReadFloat32 (be_client env) (bg_calls b) (uint p) (uint i) = Inr (float64_of_float32 v) \<longrightarrow> \<not> f32_isNaN v \<longrightarrow>
        ParseSingleResponse resp DataTypeFloat32 = Inr (F64_of_float32 v)) \<and>
      (\<forall>e. dc_ReadFloat32 (be_client env) (bg_calls b) (uint p) (uint i) = Inl e \<longrightarrow>
        (let c = unat (nackCodeForError (BridgeClient e)) in
         ParseSingleResponse resp DataTypeFloat32 = Inl (Response (Nack c (errorsByCode c))))))"
proof -
  note defs = single_value_def read_int_def read_float_def client_ReadInt32_def client_ReadFloat32_def
    log_call_def parse_nack parse_fmt32 decoded_def float32_of_float64_of_float32 Let_def
  have tr: "deviceBridgeTransform m (uint p) VirtualParameter = None" "\<not> deviceBridgeLooseFallbackParameter m (uint p)"
    "deviceBridgeTransform m (uint p) ConstantInt32 = None" "deviceBridgeTransform m (uint p) SynthesizeFloat32 = None"
    using assms(1) by (simp_all add: plain_def)
  show ?thesis using assms(2) tr unfolding handle_single_read
    by (intro conjI impI) (auto simp: defs split: sum.splits prod.splits)
qed

section \<open>Bulk reads\<close>

lemma slice_append_right: "length h = n \<Longrightarrow> slice (n + i) (n + j) (h @ xs) = slice i j xs"
  by (simp add: slice_def)

lemma slice_blocks:
  "(\<And>x. x \<in> set xs \<Longrightarrow> length x = k) \<Longrightarrow> i < length xs \<Longrightarrow> slice (i * k) (k + i * k) (concat xs) = xs ! i"
proof (induction xs arbitrary: i)
  case (Cons x xs)
  then show ?case by (cases i) (auto simp: slice_def)
qed simp

text \<open>A parameter whose bulk value comes from the device: the model of \<open>downstreamParams\<close>.\<close>

definition direct :: "CANopenSDOMap \<Rightarrow> int \<Rightarrow> bool" where
  "direct m pid \<longleftrightarrow> plain m pid \<and> \<not> deviceBridgeMetadataLiveActualParameter m pid \<and>
     deviceBridgeParameterType m pid \<in> {DataTypeInt32, DataTypeFloat32}"

definition bulk_parameter :: "CANopenSDOMap \<Rightarrow> u16 \<times> byte \<Rightarrow> Parameter" where
  "bulk_parameter m q = plain_parameter (uint (fst q)) (uint (snd q)) (deviceBridgeParameterType m (uint (fst q)))"

definition bulk_payload :: "(u16 \<times> byte) list \<Rightarrow> string" where
  "bulk_payload qs = ''?VX'' @ hexN 2 (length qs) @ concat (map (\<lambda>q. encoded_parameter (fst q) (snd q)) qs)"

lemma bulk_parameter_fields [simp]:
  "par_ID (bulk_parameter m q) = uint (fst q)" "par_Instance (bulk_parameter m q) = uint (snd q)"
  "par_Type (bulk_parameter m q) = deviceBridgeParameterType m (uint (fst q))"
  by (simp_all add: bulk_parameter_def plain_parameter_def)

lemma length_bulk_payload: "length (bulk_payload qs) = 5 + length qs * 6"
  by (induction qs) (auto simp: bulk_payload_def)

lemma bulk_entries_payload: "bulk_entries (bulk_payload qs) (length qs) = map (\<lambda>q. encoded_parameter (fst q) (snd q)) qs"
proof (rule nth_equalityI)
  fix i assume "i < length (bulk_entries (bulk_payload qs) (length qs))"
  then have i: "i < length qs" by (simp add: bulk_entries_def)
  let ?xs = "map (\<lambda>q. encoded_parameter (fst q) (snd q)) qs"
  have "bulk_payload qs = (''?VX'' @ hexN 2 (length qs)) @ concat ?xs" by (simp add: bulk_payload_def)
  moreover have "length (''?VX'' @ hexN 2 (length qs)) = 5" by simp
  ultimately have "slice (5 + i * 6) (11 + i * 6) (bulk_payload qs) = slice (i * 6) (6 + i * 6) (concat ?xs)"
    using slice_append_right [of "''?VX'' @ hexN 2 (length qs)" 5 "i * 6" "6 + i * 6"] by (simp only: add.assoc [symmetric]) simp
  moreover have "slice (i * 6) (6 + i * 6) (concat ?xs) = ?xs ! i" by (rule slice_blocks) (use i in auto)
  ultimately show "bulk_entries (bulk_payload qs) (length qs) ! i = ?xs ! i" using i by (simp add: bulk_entries_def)
qed (simp add: bulk_entries_def)

lemma bulk_params_direct:
  "list_all (\<lambda>q. direct m (uint (fst q))) qs \<Longrightarrow>
   bulk_params m (map (\<lambda>q. encoded_parameter (fst q) (snd q)) qs) = Inr (map (\<lambda>q. (bulk_parameter m q, False)) qs)"
  by (induction qs) (auto simp: direct_def plain_def bulk_parameter_def deviceBridgeParameterTypeSupported_def Let_def)

lemma bulk_slots_direct:
  "list_all (\<lambda>q. direct m (uint (fst q))) qs \<Longrightarrow>
   bulk_slots m env (map (\<lambda>q. (bulk_parameter m q, False)) qs) b = (replicate (length qs) Downstream, b)"
  by (induction qs) (auto simp: direct_def plain_def bulk_parameter_def plain_parameter_def bulk_slot_value_def Let_def)

lemma waiting_direct:
  "waiting (map (\<lambda>q. (bulk_parameter m q, False)) qs) (replicate (length qs) Downstream) = map (bulk_parameter m) qs"
  by (induction qs) (simp_all add: waiting_def)

lemma fill_slots_all: "length vs = n \<Longrightarrow> fill_slots (replicate n Downstream) vs = vs"
  by (induction vs arbitrary: n) auto

definition device_value :: "CANopenSDOMap \<Rightarrow> u16 \<times> byte \<Rightarrow> u32 \<Rightarrow> u64" where
  "device_value m q w =
     (if deviceBridgeParameterType m (uint (fst q)) = DataTypeInt32 then float64_of_int (sint w) else float64_of_float32 w)"

definition answered_value :: "CANopenSDOMap \<Rightarrow> u16 \<times> byte \<Rightarrow> u32 \<Rightarrow> u32" where
  "answered_value m q w =
     (if deviceBridgeParameterType m (uint (fst q)) = DataTypeInt32
      then deviceBridgeCompatibleInt32Value m (uint (fst q)) w else w)"

lemma int32_of_float64_exact: "int32_of_float64 env (float64_of_int (sint (w :: u32))) = w"
proof -
  have "\<bar>sint w\<bar> < 2 ^ 53" "- (2 ^ 31) \<le> sint w" "sint w < 2 ^ 31"
    using sint_ge [of w] sint_lt [of w] by auto
  then show ?thesis by (simp add: int32_of_float64_def float64_of_int_exact)
qed

lemma float64_of_int_not_NaN: "\<not> f64_isNaN (float64_of_int (sint (w :: u32)))"
proof -
  have "\<bar>sint w\<bar> < 2 ^ 53" using sint_ge [of w] sint_lt [of w] by auto
  from float64_of_int_exact(2) [OF this] show ?thesis by (auto simp: f64_finite_def f64_isNaN_def)
qed

lemma bulk_output_direct:
  assumes "list_all (\<lambda>q. direct m (uint (fst q))) qs" and "length ws = length qs"
    and "list_all2 (\<lambda>q w. deviceBridgeParameterType m (uint (fst q)) = DataTypeFloat32 \<longrightarrow> \<not> f32_isNaN w) qs ws"
  shows "\<exists>b'. bulk_output m env (zip (map (bulk_parameter m) qs) (map (\<lambda>v. (v, True)) (map2 (device_value m) qs ws))) b =
      (Inr (concat (map fmt32 (map2 (answered_value m) qs ws))), b') \<and> bg_calls b' = bg_calls b"
  using assms
proof (induction qs arbitrary: ws b)
  case (Cons q qs)
  then obtain w ws' where ws: "ws = w # ws'" by (cases ws) auto
  let ?b = "deviceBridgeStoreLiveNumericValue m env (uint (fst q)) (uint (snd q))
      (deviceBridgeParameterType m (uint (fst q))) (device_value m q w) b"
  obtain b' where b': "bulk_output m env (zip (map (bulk_parameter m) qs) (map (\<lambda>v. (v, True)) (map2 (device_value m) qs ws'))) ?b =
      (Inr (concat (map fmt32 (map2 (answered_value m) qs ws'))), b')" "bg_calls b' = bg_calls ?b"
    using Cons.IH [of ws' ?b] Cons.prems ws by auto
  have "deviceBridgeParameterType m (uint (fst q)) \<in> {DataTypeInt32, DataTypeFloat32}"
    using Cons.prems(1) by (simp add: direct_def)
  moreover have "bulk_int m env (uint (fst q)) (device_value m q w) = answered_value m q w"
    if "deviceBridgeParameterType m (uint (fst q)) = DataTypeInt32"
    using that by (simp add: bulk_int_def device_value_def answered_value_def int32_of_float64_exact float64_of_int_not_NaN)
  moreover have "float32_of_float64 (device_value m q w) = answered_value m q w"
    if "deviceBridgeParameterType m (uint (fst q)) = DataTypeFloat32"
    using that Cons.prems(3) by (simp add: ws device_value_def answered_value_def float32_of_float64_of_float32)
  ultimately show ?case using b' unfolding ws by (auto simp: Let_def)
qed simp

lemma bulk_get_body_payload:
  assumes "length qs < 256"
  shows "bulk_get_body (map (bulk_parameter m) qs) = bulk_payload qs"
proof -
  have "fmtX 2 (int (length qs)) = hexN 2 (length qs)" using assms fmtX_fixed [of "int (length qs)" 2] by simp
  moreover have "concat (map (\<lambda>p. fmtX 4 (par_ID p) @ fmtX 2 (par_Instance p)) (map (bulk_parameter m) qs)) =
      concat (map (\<lambda>q. encoded_parameter (fst q) (snd q)) qs)"
    by (induction qs) (simp_all add: encoded_parameter_def fmtX_u8 fmtX_u16)
  ultimately show ?thesis by (simp add: bulk_get_body_def bulk_payload_def)
qed

lemma bulk_payload_upper: "ToUpper (bulk_payload qs) = bulk_payload qs"
proof -
  have "ToUpper (concat (map (\<lambda>q. encoded_parameter (fst q) (snd q)) qs)) =
      concat (map (\<lambda>q. encoded_parameter (fst q) (snd q)) qs)"
    by (induction qs) (simp_all add: ToUpper_def [of "[]"])
  then show ?thesis unfolding bulk_payload_def by (simp only: ToUpper_append ToUpper_commands ToUpper_hexN)
qed

text \<open>
  C13.  A bulk read through the bridge returns what the device returned: for parameters that the SDO
  map serves directly, the client that sends \<open>?VX\<close> for up to 255 of them makes the bridge issue one
  bulk read of exactly these parameters in this order and decodes, position by position, the
  integers and the floats that the device holds (integers pass through \<open>float64\<close> unchanged, floats
  are not rounded), masked where the map says so.  Every 32-bit integer is covered; of the floats, those
  that are not NaN.
\<close>

theorem bridge_bulk_read:
  fixes a :: byte and qs :: "(u16 \<times> byte) list" and ws :: "u32 list"
  assumes "list_all (\<lambda>q. direct m (uint (fst q))) qs" and "length ws = length qs" and "qs \<noteq> []" and "length qs < 256"
    and "list_all2 (\<lambda>q w. deviceBridgeParameterType m (uint (fst q)) = DataTypeFloat32 \<longrightarrow> \<not> f32_isNaN w) qs ws"
    and "dc_ReadBulk (be_client env) (bg_calls b) (map (bulk_parameter m) qs) = Inr (map2 (device_value m) qs ws)"
    and "handleDeviceClientFrameWithState m env (BuildBulkGetFrame (uint a) s (map (bulk_parameter m) qs)) b = (resp, b')"
  shows "ParseBulkResponse resp (map (bulk_parameter m) qs) =
      Inr (map2 (\<lambda>q w. decoded (deviceBridgeParameterType m (uint (fst q))) (answered_value m q w)) qs ws) \<and>
    bg_calls b' = bg_calls b @ [CallReadBulk (map (bulk_parameter m) qs)]"
proof -
  let ?ps = "map (bulk_parameter m) qs" and ?pl = "bulk_payload qs"
  let ?b = "log_call (CallReadBulk ?ps) b"
  obtain b1 where out: "bulk_output m env (zip ?ps (map (\<lambda>v. (v, True)) (map2 (device_value m) qs ws))) ?b =
      (Inr (concat (map fmt32 (map2 (answered_value m) qs ws))), b1)" "bg_calls b1 = bg_calls ?b"
    using bulk_output_direct [OF assms(1,2,5), of env ?b] by blast
  have count: "ParseUint (slice 3 5 ?pl) 8 = Inr (length qs)"
    using assms(4) ParseUint_hexN [of "length qs" 2 8] by (simp add: bulk_payload_def slice_def)
  have len: "(length ?pl - 5) mod 6 = 0" "(length ?pl - 5) div 6 = length qs" "\<not> length ?pl < 5"
    by (simp_all add: length_bulk_payload)
  have down: "downstream_values env ?ps b = (map (\<lambda>v. (v, True)) (map2 (device_value m) qs ws), ?b)"
    using assms(2,3,6) by (simp add: downstream_values_def client_ReadBulk_def)
  have fill: "fill_slots (replicate (length qs) Downstream) (map (\<lambda>v. (v, True)) (map2 (device_value m) qs ws)) =
      map (\<lambda>v. (v, True)) (map2 (device_value m) qs ws)"
    by (rule fill_slots_all) (simp add: assms(2))
  have "deviceBridgeBulkReadWithState m env ?pl b = (Inr (concat (map fmt32 (map2 (answered_value m) qs ws))), b1)"
    unfolding deviceBridgeBulkReadWithState_def len count sum.case bulk_entries_payload bulk_params_direct [OF assms(1)]
      bulk_slots_direct [OF assms(1)] prod.case waiting_direct down fill
    using out len(3) by (simp add: comp_def)
  moreover have "deviceBridgePayloadWithState m env ?pl b = deviceBridgeBulkReadWithState m env ?pl b"
    by (simp add: deviceBridgePayloadWithState_def bulk_payload_def HasPrefix_def)
  moreover have "isDeviceBridgeRead ?pl" by (simp add: isDeviceBridgeRead_def bulk_payload_def HasPrefix_def)
  ultimately have "(resp, b') = (deviceBridgeData a s (concat (map fmt32 (map2 (answered_value m) qs ws))), b1)"
    using assms(7) by (simp add: BuildBulkGetFrame_def bulk_get_body_payload [OF assms(4)] handle_request [OF bulk_payload_upper])
  moreover have "map fmt32 xs = map encodeInt32 xs" for xs by (simp add: fmt32_def encodeInt32_def)
  moreover have "map2 (\<lambda>p v. decoded (par_Type p) v) ?ps (map2 (answered_value m) qs ws) =
      map2 (\<lambda>q w. decoded (deviceBridgeParameterType m (uint (fst q))) (answered_value m q w)) qs ws"
    by (rule nth_equalityI) (use assms(2) in auto)
  ultimately show ?thesis using ParseBulkResponse_Data [of "map2 (answered_value m) qs ws" ?ps a s] assms(2) out(2)
    by (simp only: prod.inject length_map length_zip) (simp add: log_call_def)
qed

section \<open>Rejected writes\<close>

text \<open>
  Read-only means read-only: a \<open>VS\<close> write to a parameter that the loaded SDO map does not mark
  writable, whatever its value, is answered with NACK 6 (\<open>PAR_NOT_WRITABLE\<close>), reaches no device and
  changes nothing; every parameter that only the loose CoSo table knows is such a parameter.
\<close>

theorem bridge_rejects_read_only:
  fixes a i :: byte and p :: u16
  assumes "LoadCANopenSDOMap src = Inr m"
    and "deviceBridgeLooseFallbackParameter m (uint p) \<or> \<not> deviceBridgeParameterWritable m (uint p)"
  shows "handleDeviceClientFrameWithState m env (buildWriteFrame (uint a) s (uint p) (uint i) h) b =
      (deviceBridgeNACK a s 6, b)"
proof -
  have w: "\<not> deviceBridgeParameterWritable m (uint p)"
    using assms(2) loose_not_writable [OF load_wf [OF assms(1)]] by blast
  let ?pl = "''VS'' @ encoded_parameter p i @ ToUpper h"
  have f: "buildWriteFrame (uint a) s (uint p) (uint i) h = appendCRC (uint a) s (''VS'' @ encoded_parameter p i @ h)"
    by (simp add: buildWriteFrame_def encoded_parameter_def fmtX_u8 fmtX_u16)
  have u: "ToUpper (''VS'' @ encoded_parameter p i @ h) = ?pl"
    by (simp only: ToUpper_append ToUpper_commands encoded_parameter)
  have "deviceBridgeWriteWithState m env ?pl b = (Some (BridgeReadOnly (uint p) (uint i)), b)"
    using w by (simp add: deviceBridgeWriteWithState_def slice_def)
  then have "deviceBridgePayloadWithState m env ?pl b = (Inl (BridgeReadOnly (uint p) (uint i)), b)"
    by (simp add: deviceBridgePayloadWithState_def write_result_def HasPrefix_def)
  then show ?thesis unfolding f handle_request [OF u] by (simp add: nackCodeForError_def)
qed

section \<open>Witnesses\<close>

definition demo_mapping :: "DataType \<Rightarrow> CANopenSDOMapping" where
  "demo_mapping kind = \<lparr>map_index = 0x2100, map_kind = kind, map_writable = False,
     minInstance = 1, maxInstance = 4, fixedInstance = 1, fixedSubIndex = 1, subIndexFromInstance = True\<rparr>"

definition demo_bridge_map :: CANopenSDOMap where
  "demo_bridge_map = empty_sdo_map\<lparr>byMeComID := [104 \<mapsto> demo_mapping DataTypeInt32, 1000 \<mapsto> demo_mapping DataTypeFloat32]\<rparr>"

definition demo_client :: device_client where
  "demo_client = deviceBridgeVirtualOnlyClient\<lparr>dc_ReadInt32 := (\<lambda>_ _ _. Inr 7),
     dc_ReadBulk := (\<lambda>_ _. Inr [device_value demo_bridge_map (104, 1) 0xFFFFFFFF, device_value demo_bridge_map (1000, 1) 0x41C80000])\<rparr>"

definition demo_env :: bridge_env where
  "demo_env = \<lparr>be_clock = (\<lambda>n. int n), be_flush = (\<lambda>_. True), be_int32_overflow = (\<lambda>_. 0), be_client = demo_client\<rparr>"

definition demo_bridge :: bridge where
  "demo_bridge = newDeviceBridgeState demo_bridge_map ''/var/cache'' ''0x4B'' None"

lemma demo_types:
  "deviceBridgeParameterType demo_bridge_map 104 = DataTypeInt32" "deviceBridgeParameterType demo_bridge_map 1000 = DataTypeFloat32"
  by (simp_all add: deviceBridgeParameterType_def defaultDeviceBridgeParameterTypes_def keep_nonempty_def
      CompatibilityParameterTypes_def drop_unsupported_def put_transforms_def ParameterTypes_def demo_bridge_map_def
      demo_mapping_def empty_sdo_map_def DataTypeInt32_def DataTypeFloat32_def)

lemma demo_transform: "deviceBridgeTransform demo_bridge_map pid kind = None"
  by (simp add: deviceBridgeTransform_def demo_bridge_map_def empty_sdo_map_def)

lemma demo_cache: "defaultDeviceBridgeCacheBehaviors demo_bridge_map pid = None"
  by (simp add: defaultDeviceBridgeCacheBehaviors_def CompatibilityParameterCacheBehaviors_def keep_nonempty_def
      demo_bridge_map_def empty_sdo_map_def)

lemma demo_direct: "direct demo_bridge_map 104" "direct demo_bridge_map 1000"
  by (auto simp: direct_def plain_def demo_transform demo_types demo_cache deviceBridgeLooseFallbackParameter_def
      deviceBridgeCoSoLooseParameter_def deviceBridgeCoSoLooseParameterTypes_def deviceBridgeMetadataLiveActualParameter_def)

lemma demo_compatible: "deviceBridgeCompatibleInt32Value demo_bridge_map pid v = v"
  by (simp add: deviceBridgeCompatibleInt32Value_def demo_transform)

theorem bridge_single_read_witness:
  "ParseSingleResponse (fst (handleDeviceClientFrameWithState demo_bridge_map demo_env (BuildSingleGetFrame 75 9 104 1) demo_bridge))
     DataTypeInt32 = Inr (F64_of_int32 7)"
proof -
  obtain resp b' where h: "handleDeviceClientFrameWithState demo_bridge_map demo_env
      (BuildSingleGetFrame (uint (75 :: byte)) 9 (uint (104 :: u16)) (uint (1 :: byte))) demo_bridge = (resp, b')" by force
  have "plain demo_bridge_map (uint (104 :: u16))" using demo_direct(1) by (simp add: direct_def)
  from bridge_single_read [OF this h] h show ?thesis
    by (simp add: demo_types demo_compatible demo_env_def demo_client_def deviceBridgeVirtualOnlyClient_def)
qed

theorem bridge_bulk_read_witness:
  "ParseBulkResponse (fst (handleDeviceClientFrameWithState demo_bridge_map demo_env
       (BuildBulkGetFrame 75 9 [bulk_parameter demo_bridge_map (104, 1), bulk_parameter demo_bridge_map (1000, 1)]) demo_bridge))
     [bulk_parameter demo_bridge_map (104, 1), bulk_parameter demo_bridge_map (1000, 1)] =
   Inr [F64_of_int32 (- 1), F64_of_float32 0x41C80000]"
proof -
  let ?qs = "[(104, 1), (1000, 1)] :: (u16 \<times> byte) list"
  obtain resp b' where h: "handleDeviceClientFrameWithState demo_bridge_map demo_env
      (BuildBulkGetFrame (uint (75 :: byte)) 9 (map (bulk_parameter demo_bridge_map) ?qs)) demo_bridge = (resp, b')" by force
  have n: "list_all2 (\<lambda>q w. deviceBridgeParameterType demo_bridge_map (uint (fst q)) = DataTypeFloat32 \<longrightarrow> \<not> f32_isNaN w)
      ?qs [0xFFFFFFFF, 0x41C80000]"
    by (simp add: demo_types f32_isNaN_def f32_exp_def f32_frac_def DataTypeInt32_def DataTypeFloat32_def)
  have r: "dc_ReadBulk (be_client demo_env) (bg_calls demo_bridge) (map (bulk_parameter demo_bridge_map) ?qs) =
      Inr (map2 (device_value demo_bridge_map) ?qs [0xFFFFFFFF, 0x41C80000])"
    by (simp add: demo_env_def demo_client_def)
  from bridge_bulk_read [OF _ _ _ _ n r h] h demo_direct show ?thesis
    by (simp add: demo_types demo_compatible decoded_def answered_value_def)
qed

theorem bridge_rejects_read_only_witness:
  "\<exists>m. LoadCANopenSDOMap demo_source = Inr m \<and>
     handleDeviceClientFrameWithState m demo_env (buildWriteFrame 75 9 203 1 ''00000001'') demo_bridge =
       (deviceBridgeNACK 75 9 6, demo_bridge)"
proof -
  obtain m where m: "LoadCANopenSDOMap demo_source = Inr m" using demo_source_loads by (cases "LoadCANopenSDOMap demo_source") auto
  have "\<not> deviceBridgeParameterWritable m (uint (203 :: u16))"
    using m by (auto simp: deviceBridgeParameterWritable_def defaultDeviceBridgeWritableParameters_def
        CompatibilityParameterWritability_def drop_unsupported_def put_transforms_def ParameterWritability_def load_eval)
  from bridge_rejects_read_only [OF m disjI2 [OF this], where a = 75 and i = 1 and s = 9] show ?thesis using m by auto
qed

end
