(* ===== verification/BridgeProps.thy ===== *)
theory BridgeProps
  imports BridgeAnswers
begin

text \<open>
  Properties of the device bridge of \<open>mecomserver/device_bridge.go\<close>: what a frame may do to the
  device and to the state, the answers to reads, the cache file across a restart.
\<close>

section \<open>Effects of a frame\<close>

lemma frame_state:
  "snd (handleDeviceClientFrameWithState m env raw b) =
     (case parseDeviceBridgeRequest raw of
        Inl _ \<Rightarrow> b | Inr req \<Rightarrow> snd (deviceBridgePayloadWithState m env (dr_payload req) b))"
  by (simp add: handleDeviceClientFrameWithState_def split: sum.splits prod.splits)

lemma frame_evolves:
  assumes "sdo_map_wf m"
  shows "bridge_evolves m
     (\<lambda>c. is_read_call c \<or> (\<exists>req. parseDeviceBridgeRequest raw = Inr req \<and> requested m (dr_payload req) c))
     b (snd (handleDeviceClientFrameWithState m env raw b))"
proof (cases "parseDeviceBridgeRequest raw")
  case (Inl e)
  then show ?thesis by (simp add: frame_state bridge_evolves_def)
next
  case (Inr req)
  show ?thesis unfolding frame_state Inr sum.case
    by (rule evolves.after_payload [OF _ assms prod.collapse [symmetric] evolves.R_refl]) auto
qed

text \<open>
  C4.  A frame does to the device only what it asks for: for every loaded SDO map, client and state,
  each call that handling one frame makes on the device client is a read, or is the write (with the
  identifier, the instance and the value of the frame, to a parameter the map marks writable, of the
  type the map gives it), the save, the reset or the ring command that the payload of the frame
  spells out.  The parameter store keeps its invariant (distinct keys, instances within the
  parameter's bounds, supported types, no placeholders) and the store of virtual parameters, the
  device name and the cache path never change.
\<close>

theorem bridge_frame_effects:
  assumes "LoadCANopenSDOMap src = Inr m" and "soft_ok m (ds_softParameters b)"
    and "handleDeviceClientFrameWithState m env raw b = (resp, b')"
  shows "soft_ok m (ds_softParameters b') \<and> ds_virtualParameters b' = ds_virtualParameters b \<and>
    ds_device b' = ds_device b \<and> ds_cachePath b' = ds_cachePath b \<and>
    (\<exists>cs. bg_calls b' = bg_calls b @ cs \<and>
       list_all (\<lambda>c. is_read_call c \<or>
         (\<exists>req. parseDeviceBridgeRequest raw = Inr req \<and> requested m (dr_payload req) c)) cs)"
  using frame_evolves [OF load_wf [OF assms(1)], of raw b env] assms(2,3) by (auto simp: bridge_evolves_def)

theorem bridge_frame_effects_witness:
  "\<exists>m. LoadCANopenSDOMap demo_source = Inr m \<and>
     soft_ok m (ds_softParameters (snd (handleDeviceClientFrameWithState m demo_env
       (buildWriteFrame 75 9 1000 1 ''41C80000'') demo_bridge)))"
proof -
  obtain m where m: "LoadCANopenSDOMap demo_source = Inr m" using demo_source_loads by (cases "LoadCANopenSDOMap demo_source") auto
  have "soft_ok m (ds_softParameters demo_bridge)"
    by (simp add: demo_bridge_def newDeviceBridgeState_def loadCacheBestEffort_def soft_ok_def)
  from bridge_frame_effects [OF m this prod.collapse [symmetric]] m show ?thesis by blast
qed

section \<open>The cache file across a restart\<close>

text \<open>
  The states of the bridge of a device: a new state, and what frames and observed exchanges make of
  it, with any clients and clocks.
\<close>

inductive bridge_reaches ::
    "CANopenSDOMap \<Rightarrow> string \<Rightarrow> string \<Rightarrow> deviceBridgeCacheSnapshot option \<Rightarrow> (nat \<Rightarrow> bool) \<Rightarrow> bridge \<Rightarrow> bool"
  for m dir device f flush where
  start: "bridge_reaches m dir device f flush (newDeviceBridgeState m dir device f)"
| frame: "bridge_reaches m dir device f flush b \<Longrightarrow> be_flush env = flush \<Longrightarrow>
    bridge_reaches m dir device f flush (snd (handleDeviceClientFrameWithState m env raw b))"
| observed: "bridge_reaches m dir device f flush b \<Longrightarrow> be_flush env = flush \<Longrightarrow>
    bridge_reaches m dir device f flush (deviceBridgeObserveFrame m env req resp b)"

definition decoded_file :: "deviceBridgeCacheSnapshot option \<Rightarrow> bool" where
  "decoded_file f \<longleftrightarrow> (case f of None \<Rightarrow> True | Some s \<Rightarrow> json_snapshot s = s)"

lemma load_value_persisted:
  assumes "load_value p = Some v" and "json_parameter p = p"
  shows "persisted v = Some v \<and> dv_source v \<noteq> [] \<and> dv_source v \<noteq> SourcePlaceholder \<and> json_text (dv_source v) = dv_source v"
proof -
  have "json_text (cs_Source p) = cs_Source p" "json_text (cs_Latin1 p) = cs_Latin1 p"
    using arg_cong [OF assms(2), of cs_Source] arg_cong [OF assms(2), of cs_Latin1] by (simp_all add: json_parameter_def)
  with assms(1) show ?thesis
    by (auto simp: load_value_def persisted_def zero_value_def Let_def split: if_splits option.splits)
qed

lemma load_parameter_ok:
  assumes "json_parameter p = p" and "soft_ok m s" and "list_all (\<lambda>e. persisted (snd e) = Some (snd e)) s"
  shows "soft_ok m (load_parameter m p s) \<and> list_all (\<lambda>e. persisted (snd e) = Some (snd e)) (load_parameter m p s)"
proof (cases "load_value p")
  case None
  then show ?thesis using assms by (simp add: load_parameter_def)
next
  case (Some v)
  show ?thesis using load_value_persisted [OF Some assms(1)] assms(2,3) Some
    by (auto simp: load_parameter_def store_storeParameterValue_def value_ok_def amap_put_def list_all_iff
        split: sum.splits if_splits intro!: soft_ok_put [unfolded amap_put_def])
qed

lemma load_fold_ok:
  "list_all (\<lambda>p. json_parameter p = p) ps \<Longrightarrow> soft_ok m s \<Longrightarrow> list_all (\<lambda>e. persisted (snd e) = Some (snd e)) s \<Longrightarrow>
   soft_ok m (fold (load_parameter m) ps s) \<and>
   list_all (\<lambda>e. persisted (snd e) = Some (snd e)) (fold (load_parameter m) ps s)"
  by (induction ps arbitrary: s) (auto dest: load_parameter_ok)

lemma new_state_values:
  "TrimSpace dir \<noteq> [] \<Longrightarrow> map_of (ds_softParameters (newDeviceBridgeState m dir device f)) = file_values m f"
  by (auto simp: newDeviceBridgeState_def loadCacheBestEffort_def deviceBridgeCachePath_def file_values_def
      split: option.splits)

lemma new_state_current:
  assumes "TrimSpace dir \<noteq> []" and "decoded_file f"
  shows "file_current m (newDeviceBridgeState m dir device f)"
proof -
  let ?b = "newDeviceBridgeState m dir device f"
  have "soft_ok m (ds_softParameters ?b) \<and> list_all (\<lambda>e. persisted (snd e) = Some (snd e)) (ds_softParameters ?b)"
  proof (cases f)
    case None
    then show ?thesis by (simp add: newDeviceBridgeState_def loadCacheBestEffort_def soft_ok_def)
  next
    case (Some s)
    have "json_snapshot s = s" using assms(2) Some by (simp add: decoded_file_def)
    from arg_cong [OF this, of cs_Parameters] have "map json_parameter (cs_Parameters s) = cs_Parameters s"
      by (simp add: json_snapshot_def)
    then have "list_all (\<lambda>p. json_parameter p = p) (cs_Parameters s)" by (simp add: list_all_iff map_idI) (metis map_eq_conv list.map_ident)
    then show ?thesis using load_fold_ok [of "cs_Parameters s" m "[]"] Some assms(1)
      by (simp add: newDeviceBridgeState_def loadCacheBestEffort_def deviceBridgeCachePath_def soft_ok_def)
  qed
  moreover from this have "Option.bind (map_of (ds_softParameters ?b) k) persisted = map_of (ds_softParameters ?b) k" for k
    by (cases "map_of (ds_softParameters ?b) k") (auto simp: list_all_iff dest!: map_of_SomeD)
  moreover have "ds_cachePath ?b \<noteq> None" "bg_file ?b = f"
    using assms(1) by (auto simp: newDeviceBridgeState_def loadCacheBestEffort_def deviceBridgeCachePath_def split: option.splits)
  ultimately show ?thesis using new_state_values [OF assms(1), of m device f] by (simp add: file_current_def)
qed

lemma reaches_current:
  assumes "sdo_map_wf m" and "TrimSpace dir \<noteq> []" and "decoded_file f" and "\<And>n. flush n"
    and "bridge_reaches m dir device f flush b"
  shows "file_current m b"
  using assms(5)
proof induction
  case start
  show ?case by (rule new_state_current [OF assms(2,3)])
next
  case (frame b env raw)
  show ?case
  proof (cases "parseDeviceBridgeRequest raw")
    case (Inr req)
    show ?thesis unfolding frame_state Inr sum.case
      using current.after_payload [OF _ assms(1) prod.collapse [symmetric], where payload = "dr_payload req" and a = b and b = b and env = env] frame assms(4) by simp
  qed (use frame in \<open>simp add: frame_state\<close>)
next
  case (observed b env req resp)
  then show ?case using current.after_observe [where env = env and m = m and a = b and b = b] assms(4) by simp
qed

text \<open>
  C12.  The cache file brings every value back: with a cache directory and a file system that accepts
  the writes, in every state that a device's bridge reaches from the file it found, through any
  sequence of frames and observed exchanges, a bridge started from the file as it is then holds for
  each parameter instance exactly the value the running bridge holds, with its type, source and
  time.  Values that are not finite are left out, and a LATIN1 text comes back as JSON stores it:
  every byte that is not UTF-8 is replaced.
\<close>

theorem cache_survives_restart:
  assumes "LoadCANopenSDOMap src = Inr m" and "TrimSpace dir \<noteq> []" and "decoded_file f" and "\<forall>n. flush n"
    and "bridge_reaches m dir device f flush b"
  shows "map_of (ds_softParameters (newDeviceBridgeState m dir device (bg_file b))) k =
    Option.bind (map_of (ds_softParameters b) k) persisted"
proof -
  have "file_current m b" using reaches_current [OF load_wf [OF assms(1)] assms(2,3) _ assms(5)] assms(4) by simp
  then show ?thesis unfolding new_state_values [OF assms(2)] file_current_def by blast
qed

theorem cache_survives_restart_witness:
  "\<exists>m b. LoadCANopenSDOMap demo_source = Inr m \<and>
     b = snd (handleDeviceClientFrameWithState m demo_env (BuildSingleGetFrame 75 9 1000 1)
           (newDeviceBridgeState m ''/var/cache'' ''0x4B'' None)) \<and>
     map_of (ds_softParameters (newDeviceBridgeState m ''/var/cache'' ''0x4B'' (bg_file b))) (1000, 1) =
       Option.bind (map_of (ds_softParameters b) (1000, 1)) persisted"
proof -
  obtain m where m: "LoadCANopenSDOMap demo_source = Inr m" using demo_source_loads by (cases "LoadCANopenSDOMap demo_source") auto
  let ?b = "snd (handleDeviceClientFrameWithState m demo_env (BuildSingleGetFrame 75 9 1000 1)
      (newDeviceBridgeState m ''/var/cache'' ''0x4B'' None))"
  have d: "TrimSpace ''/var/cache'' \<noteq> []" by (simp add: TrimSpace_def is_space_def)
  have r: "bridge_reaches m ''/var/cache'' ''0x4B'' None (\<lambda>_. True) ?b"
    by (rule bridge_reaches.frame [OF bridge_reaches.start]) (simp add: demo_env_def)
  have "decoded_file None" by (simp add: decoded_file_def)
  from cache_survives_restart [OF m d this _ r, of "(1000, 1)"] m show ?thesis by auto
qed

text \<open>The degree sign of LATIN1 is no UTF-8 text: the file holds U+FFFD instead of it.\<close>

lemma latin1_degree_replaced: "json_text [char_of (0xB0 :: nat)] = replacement_rune"
  by (simp add: of_char_of)

end
