(* ===== verification/Router.thy ===== *)
theory Router
  imports BridgeState
begin

text \<open>
  Routing in \<open>mecomserver/router.go\<close>: the route table, the order of the candidates of a request,
  \<open>routeFrame\<close> with its retries and fall-throughs, and the selection of a device for address zero.
  What happens to the \<open>k\<close>-th send of a request is given by the environment (\<open>send_outcome\<close>, and
  whether the client's context is still alive then); the model returns the list of frames that were
  handed to a broker, in order, and the states of the device bridges (one per address), which record
  what the answered requests show of the device.
\<close>

section \<open>Routes\<close>

record Route =
  rt_Address :: byte
  rt_Target :: string
  rt_dial :: "server_error option"

record routeBroker =
  rb_address :: byte
  rb_target :: string
  rb_priority :: nat
  rb_queued :: nat
  rb_stats :: BrokerStats

type_synonym preparedRoutes = "byte \<Rightarrow> routeBroker list"

datatype RouteSelectionPolicy = FixedPreference | Dynamic

datatype route_error =
    NoRoutes
  | RouteAddressZero
  | RouteDial byte server_error
  | DefaultAddressUnrouted byte
  | OrderHasZero
  | OrderUnrouted byte
  | InvalidPolicy string
  | BothDefaultAndOrder

record RouterConfig =
  rc_Routes :: "Route list"
  rc_DefaultAddress :: byte
  rc_AddressZeroOrder :: "byte list"
  rc_RouteSelection :: string

definition normalizeRouteSelectionPolicy :: "string \<Rightarrow> route_error + RouteSelectionPolicy" where
  "normalizeRouteSelectionPolicy policy =
     (let p = ToLower (TrimSpace policy) in
      if p = [] \<or> p = ''fixed'' \<or> p = ''fixed-preference'' then Inr FixedPreference
      else if p = ''dynamic'' then Inr Dynamic
      else Inl (InvalidPolicy policy))"

definition add_route :: "Route \<Rightarrow> preparedRoutes \<Rightarrow> preparedRoutes" where
  "add_route r routes =
     (let priority = length (routes (rt_Address r));
          routeID = ''0x'' @ fmtX 2 (uint (rt_Address r)) @ '':'' @ fmtD (int priority) @ '':'' @ rt_Target r;
          broker = \<lparr>rb_address = rt_Address r, rb_target = rt_Target r, rb_priority = priority, rb_queued = 0,
                    rb_stats = newBrokerStatsRecorder (rt_Address r) (rt_Target r) routeID priority\<rparr>
      in routes(rt_Address r := routes (rt_Address r) @ [broker]))"

fun add_routes :: "Route list \<Rightarrow> preparedRoutes \<Rightarrow> route_error + preparedRoutes" where
  "add_routes [] routes = Inr routes"
| "add_routes (r # rs) routes =
     (if rt_Address r = 0 then Inl RouteAddressZero
      else case rt_dial r of
        Some e \<Rightarrow> Inl (RouteDial (rt_Address r) e)
      | None \<Rightarrow> add_routes rs (add_route r routes))"

fun check_order :: "preparedRoutes \<Rightarrow> byte list \<Rightarrow> route_error option" where
  "check_order routes [] = None"
| "check_order routes (a # as) =
     (if a = 0 then Some OrderHasZero
      else if routes a = [] then Some (OrderUnrouted a)
      else check_order routes as)"

definition prepareRoutes :: "RouterConfig \<Rightarrow> route_error + RouteSelectionPolicy \<times> preparedRoutes" where
  "prepareRoutes cfg =
     (if rc_Routes cfg = [] then Inl NoRoutes
      else case normalizeRouteSelectionPolicy (rc_RouteSelection cfg) of
        Inl e \<Rightarrow> Inl e
      | Inr policy \<Rightarrow>
          (case add_routes (rc_Routes cfg) (\<lambda>_. []) of
             Inl e \<Rightarrow> Inl e
           | Inr routes \<Rightarrow>
               if rc_DefaultAddress cfg \<noteq> 0 \<and> routes (rc_DefaultAddress cfg) = []
               then Inl (DefaultAddressUnrouted (rc_DefaultAddress cfg))
               else case check_order routes (rc_AddressZeroOrder cfg) of
                 Some e \<Rightarrow> Inl e
               | None \<Rightarrow> Inr (policy, routes)))"

text \<open>The bridge state of each address, made from the cache files of the directory \<open>dir\<close>.\<close>

type_synonym device_states = "byte \<Rightarrow> bridge"

definition prepared_states :: "CANopenSDOMap \<Rightarrow> string \<Rightarrow> (string \<Rightarrow> deviceBridgeCacheSnapshot option) \<Rightarrow> device_states" where
  "prepared_states m dir files a =
     (let device = ''0x'' @ fmtX 2 (uint a) in newDeviceBridgeState m dir device (files (deviceBridgeCacheFileName device)))"

section \<open>Candidates\<close>

definition routeCandidateScore :: "routeBroker \<Rightarrow> bool \<Rightarrow> int" where
  "routeCandidateScore c readFrame =
     (let s = rb_stats c; errs = bs_ErrorCount s in
      int (rb_priority c) * 200 + int (rb_queued c) - (if bs_Connected s then 25 else 0) +
      (if errs > 0 then
         250 + (if bs_Connected s then 0 else 250) + (if readFrame then sint (errs * 25) else sint (errs * 50))
       else 0) -
      (if rb_priority c = 0 then 25 else 0))"

definition orderRouteCandidates :: "routeBroker list \<Rightarrow> RouteSelectionPolicy \<Rightarrow> bool \<Rightarrow> routeBroker list" where
  "orderRouteCandidates candidates policy readFrame =
     (if length candidates \<le> 1 then candidates
      else if policy \<noteq> Dynamic \<or> \<not> readFrame then sort_key rb_priority candidates
      else sort_key (\<lambda>c. routeCandidateScore c readFrame) candidates)"

definition selectRouteCandidates ::
    "string \<Rightarrow> preparedRoutes \<Rightarrow> byte \<Rightarrow> RouteSelectionPolicy \<Rightarrow> server_error + routeBroker list" where
  "selectRouteCandidates frame routes addressZero policy =
     (case RequestAddress frame of
        Inl e \<Rightarrow> Inl e
      | Inr addr0 \<Rightarrow>
          let addr = (if addr0 = 0 \<and> addressZero \<noteq> 0 then addressZero else addr0) in
          if routes addr = [] then Inl (NoRoute addr)
          else Inr (orderRouteCandidates (routes addr) policy (isMeComReadFrame frame)))"

text \<open>\<open>native\<close> tells which targets \<open>mecom.ParseTarget\<close> resolves to something else than a CAN bus.\<close>

definition routeTargetIsNativeMeCom :: "(string \<Rightarrow> bool) \<Rightarrow> string \<Rightarrow> bool" where
  "routeTargetIsNativeMeCom native target =
     (let lower = ToLower (TrimSpace target) in
      if HasPrefix lower ''can:'' \<or> HasPrefix lower ''can-'' \<or> HasPrefix lower ''can_'' then False
      else native target)"

definition preferNativeMeComRouteForVirtualRead ::
    "bridge_tables \<Rightarrow> (string \<Rightarrow> bool) \<Rightarrow> string \<Rightarrow> routeBroker list \<Rightarrow> routeBroker list" where
  "preferNativeMeComRouteForVirtualRead t native frame candidates =
     (if length candidates < 2 \<or> \<not> isRouteVirtualRead t frame then candidates
      else let isNative = (\<lambda>c. routeTargetIsNativeMeCom native (rb_target c)); out = filter isNative candidates in
        if out = [] then candidates else out @ filter (\<lambda>c. \<not> isNative c) candidates)"

section \<open>Sending a request\<close>

datatype send_outcome =
    NotQueued server_error
  | QueueCanceled server_error
  | Answer string
  | Failed server_error
  | WaitTimeout server_error
  | WaitCanceled server_error

datatype candidate_result = Fail server_error | Answered string string | NextCandidate server_error

type_synonym sent = "routeBroker \<times> string"

definition isTransientRouteReadError :: "server_error \<Rightarrow> bool" where
  "isTransientRouteReadError e \<longleftrightarrow> e \<in> {ClosedPipe, EndOfFile, NetClosed, EPIPE, ECONNRESET, ECONNABORTED}"

text \<open>
  The attempts of one candidate, which fail for good, are answered (\<open>Answered\<close> has the frame that was
  sent and the device's answer) or leave the request to the next candidate; \<open>further\<close>: there is a further candidate; \<open>k\<close>: sends so far;
  \<open>routed\<close>: the request before it was re-addressed to the candidate.
\<close>

fun attempt_loop ::
    "(nat \<Rightarrow> send_outcome \<times> bool) \<Rightarrow> bridge_tables \<Rightarrow> bool \<Rightarrow> bool \<Rightarrow> string \<Rightarrow> routeBroker \<Rightarrow> nat \<Rightarrow> nat \<Rightarrow>
     candidate_result \<times> sent list \<times> nat" where
  "attempt_loop env t readFrame further routed c 0 k = (NextCandidate NoCandidates, [], k)"
| "attempt_loop env t readFrame further routed c (Suc n) k =
     (let frame = rewriteRouteAddressZeroRequest routed (rb_address c); msg = (c, frame) in
      case env k of
        (NotQueued e, alive) \<Rightarrow> (if readFrame \<and> further \<and> alive then NextCandidate e else Fail e, [], k + 1)
      | (QueueCanceled e, alive) \<Rightarrow> (Fail e, [], k + 1)
      | (Answer resp, alive) \<Rightarrow>
          (case meComResponseNACKCode resp of
             Some code \<Rightarrow>
               (if readFrame \<and> further \<and> shouldFallThroughRouteNACK t frame code then NextCandidate (RouteNACK code)
                else Answered frame resp, [msg], k + 1)
           | None \<Rightarrow> (Answered frame resp, [msg], k + 1))
      | (Failed e, alive) \<Rightarrow>
          if readFrame \<and> isTransientRouteReadError e \<and> 0 < n \<and> alive then
            (case attempt_loop env t readFrame further routed c n (k + 1) of (r, ms, k') \<Rightarrow> (r, msg # ms, k'))
          else (if readFrame \<and> further then NextCandidate e else Fail e, [msg], k + 1)
      | (WaitTimeout e, alive) \<Rightarrow> (if readFrame \<and> further \<and> alive then NextCandidate e else Fail e, [msg], k + 1)
      | (WaitCanceled e, alive) \<Rightarrow> (Fail e, [msg], k + 1))"

fun candidate_loop ::
    "(nat \<Rightarrow> send_outcome \<times> bool) \<Rightarrow> bridge_tables \<Rightarrow> bool \<Rightarrow> string \<Rightarrow> server_error \<Rightarrow> routeBroker list \<Rightarrow> nat \<Rightarrow>
     (server_error + routeBroker \<times> string \<times> string) \<times> sent list" where
  "candidate_loop env t readFrame routed lastErr [] k = (Inl lastErr, [])"
| "candidate_loop env t readFrame routed lastErr (c # cs) k =
     (case attempt_loop env t readFrame (cs \<noteq> []) routed c (if readFrame then 2 else 1) k of
        (Fail e, ms, k') \<Rightarrow> (Inl e, ms)
      | (Answered frame resp, ms, k') \<Rightarrow> (Inr (c, frame, resp), ms)
      | (NextCandidate e, ms, k') \<Rightarrow>
          (case candidate_loop env t readFrame routed e cs k' of (r, ms') \<Rightarrow> (r, ms @ ms')))"

definition routeFrame ::
    "CANopenSDOMap \<Rightarrow> bridge_env \<Rightarrow> (nat \<Rightarrow> send_outcome \<times> bool) \<Rightarrow> (string \<Rightarrow> bool) \<Rightarrow> string \<Rightarrow> routeBroker list \<Rightarrow>
     device_states \<Rightarrow> (server_error + string) \<times> sent list \<times> device_states" where
  "routeFrame m benv env native frame candidates devs =
     (let t = bridge_tables_of m;
          readFrame = isMeComReadFrame frame;
          routed = rewriteRouteCompatibilityFrame frame;
          cands = (if readFrame then preferNativeMeComRouteForVirtualRead t native routed candidates else candidates)
      in case candidate_loop env t readFrame routed NoCandidates cands 0 of
        (Inl e, ms) \<Rightarrow> (Inl e, ms, devs)
      | (Inr (c, sentFrame, resp), ms) \<Rightarrow>
          (Inr (restoreRouteAddressZeroResponse routed resp), ms,
           devs(rb_address c := deviceBridgeObserveFrame m benv sentFrame resp (devs (rb_address c)))))"

section \<open>Address zero\<close>

record addressZeroSelector =
  az_fixed :: byte
  az_order :: "byte list"
  az_next :: u64
  az_leases :: "(string \<times> byte \<times> nat) list"

definition newAddressZeroSelector :: "RouterConfig \<Rightarrow> preparedRoutes \<Rightarrow> route_error + addressZeroSelector" where
  "newAddressZeroSelector cfg routes =
     (let none = \<lparr>az_fixed = 0, az_order = [], az_next = 0, az_leases = []\<rparr> in
      if rc_DefaultAddress cfg \<noteq> 0 \<and> rc_AddressZeroOrder cfg \<noteq> [] then Inl BothDefaultAndOrder
      else if rc_DefaultAddress cfg \<noteq> 0 then Inr (none\<lparr>az_fixed := rc_DefaultAddress cfg\<rparr>)
      else if rc_AddressZeroOrder cfg = [] then Inr none
      else case find (\<lambda>a. routes a = []) (rc_AddressZeroOrder cfg) of
        Some a \<Rightarrow> Inl (OrderUnrouted a)
      | None \<Rightarrow> Inr (none\<lparr>az_order := rc_AddressZeroOrder cfg\<rparr>))"

definition az_Next :: "addressZeroSelector \<Rightarrow> byte \<times> addressZeroSelector" where
  "az_Next s =
     (if az_fixed s \<noteq> 0 then (az_fixed s, s)
      else if az_order s = [] then (0, s)
      else (az_order s ! (unat (az_next s) mod length (az_order s)), s\<lparr>az_next := az_next s + 1\<rparr>))"

text \<open>\<open>Lease\<close> for the remote key (empty when there is none); the result says whether to release it.\<close>

definition az_Lease :: "string \<Rightarrow> addressZeroSelector \<Rightarrow> (byte \<times> bool) \<times> addressZeroSelector" where
  "az_Lease key s =
     (if az_fixed s \<noteq> 0 \<or> az_order s = [] \<or> key = [] then
        (case az_Next s of (a, s') \<Rightarrow> ((a, False), s'))
      else case map_of (az_leases s) key of
        Some (a, refs) \<Rightarrow> ((a, True), s\<lparr>az_leases := amap_put key (a, refs + 1) (az_leases s)\<rparr>)
      | None \<Rightarrow>
          (case az_Next s of (a, s') \<Rightarrow> ((a, True), s'\<lparr>az_leases := amap_put key (a, 1) (az_leases s')\<rparr>)))"

definition az_release :: "string \<Rightarrow> addressZeroSelector \<Rightarrow> addressZeroSelector" where
  "az_release key s =
     (case map_of (az_leases s) key of
        None \<Rightarrow> s
      | Some (a, refs) \<Rightarrow>
          if refs \<le> 1 then s\<lparr>az_leases := amap_delete key (az_leases s)\<rparr>
          else s\<lparr>az_leases := amap_put key (a, refs - 1) (az_leases s)\<rparr>)"

section \<open>The frame that is handed over\<close>

lemma unaliased_request:
  assumes "routeRequestAliases (ToUpper pl) = None"
  shows "rewriteRouteCompatibilityFrame (seal (req_prefix a s pl)) = seal (req_prefix a s pl)"
proof -
  have "\<not> HasPrefix (req_prefix a s pl @ h) ''?''" for h by (simp add: HasPrefix_def req_prefix_def)
  then show ?thesis using assms
    by (simp add: rewriteRouteCompatibilityFrame_def TrimSpace_seal parse_request_seal Let_def)
qed

lemma hex_val_lower: "hex_val (to_lower c) = hex_val c"
  by (auto simp: hex_val_def to_lower_def Let_def)

lemma parse_hex_lower: "parse_hex_loop m n (ToLower s) = parse_hex_loop m n s"
  by (induction s arbitrary: n) (auto simp: ToLower_def hex_val_lower Let_def split: option.splits)

lemma EqualFold_ParseUint: "EqualFold s t \<Longrightarrow> ParseUint s bits = ParseUint t bits"
  unfolding EqualFold_def ParseUint_def by (metis ToLower_def list.map_disc_iff parse_hex_lower)

lemma addressed_not_zero:
  assumes "a \<noteq> 0"
  shows "\<not> isAddressedRouteFrame (seal (req_prefix a s pl)) 0"
proof
  assume "isAddressedRouteFrame (seal (req_prefix a s pl)) 0"
  then have "EqualFold (hexN 2 (unat a)) (hexN 2 (unat (0 :: byte)))"
    by (auto simp: isAddressedRouteFrame_def TrimSpace_seal nth_append Let_def)
  from EqualFold_ParseUint [OF this, of 8] have "unat a = unat (0 :: byte)" by (simp only: ParseUint_hexN_u8 sum.inject)
  then show False using assms by (simp only: word_unat_eq_iff)
qed

text \<open>What the router hands over for a sealed request: the aliased payload, the same address and sequence number.\<close>

lemma ToUpper_IF: "ToUpper ''?IF'' = ''?IF''"
  by (simp add: ToUpper_def to_upper_def)

lemma aliased_request:
  "rewriteRouteCompatibilityFrame (seal (req_prefix a s pl)) =
     seal (req_prefix a s (if ToUpper pl = ''?VI'' then ''?IF'' else pl))"
proof (cases "ToUpper pl = ''?VI''")
  case True
  have "\<not> HasPrefix (req_prefix a s pl @ h) ''?''" for h by (simp add: HasPrefix_def req_prefix_def)
  then show ?thesis using True ToUpper_IF
    by (simp add: rewriteRouteCompatibilityFrame_def TrimSpace_seal parse_request_seal routeRequestAliases_def routed_seal nth_append Let_def)
next
  case False
  then show ?thesis by (simp add: unaliased_request routeRequestAliases_def)
qed

lemma handed_over_request:
  "a \<noteq> 0 \<Longrightarrow> rewriteRouteAddressZeroRequest (rewriteRouteCompatibilityFrame (seal (req_prefix a s pl))) a =
     seal (req_prefix a s (if ToUpper pl = ''?VI'' then ''?IF'' else pl))"
  by (simp add: aliased_request rewriteRouteAddressZeroRequest_def addressed_not_zero)

text \<open>
  The device that a frame names, read off the text: two hexadecimal digits after the number sign, or
  address zero for a request without address.
\<close>

definition names_device :: "string \<Rightarrow> byte \<Rightarrow> bool" where
  "names_device frame a \<longleftrightarrow>
     (\<exists>u v x y rest. TrimSpace frame = CHR ''#'' # u # v # rest \<and> hex_val u = Some x \<and> hex_val v = Some y \<and>
        unat a = 16 * x + y) \<or>
     (\<exists>rest. TrimSpace frame = CHR ''?'' # rest \<and> a = 0)"

lemma RequestAddress_names: 
  assumes "RequestAddress frame = Inr a"
  shows "names_device frame a"
proof -
  obtain c u v rest where t: "TrimSpace frame = c # u # v # rest"
    using assms by (auto simp: RequestAddress_def Let_def neq_Nil_conv Suc_le_length_iff numeral_3_eq_3 not_less split: if_splits)
  show ?thesis
  proof (cases "c = CHR ''#''")
    case True
    then obtain n where n: "ParseUint [u, v] 8 = Inr n" "a = of_nat n"
      using assms t by (auto simp: RequestAddress_def slice_def Let_def split: sum.splits)
    then obtain x y where xy: "hex_val u = Some x" "hex_val v = Some y" "n = 16 * x + y"
      by (auto simp: ParseUint_def Let_def split: option.splits if_splits)
    have "unat a = n" using ParseUint_bound [OF n(1)] n(2) by (simp add: unat_of_nat)
    then show ?thesis using t True xy unfolding names_device_def by blast
  next
    case False
    then show ?thesis using assms t by (auto simp: RequestAddress_def names_device_def Let_def split: if_splits)
  qed
qed

section \<open>What reaches the brokers\<close>

lemma attempt_sent:
  "attempt_loop env t rd further routed c n k = (r, ms, k') \<Longrightarrow>
   length ms \<le> n \<and> set ms \<subseteq> {(c, rewriteRouteAddressZeroRequest routed (rb_address c))} \<and>
   (\<not> rd \<longrightarrow> length ms \<le> 1 \<and> (0 < n \<longrightarrow> (\<forall>e. r \<noteq> NextCandidate e))) \<and>
   (\<forall>f resp. r = Answered f resp \<longrightarrow> (c, f) \<in> set ms)"
proof (induction n arbitrary: k r ms k')
  case (Suc n)
  obtain o1 alive where e: "env k = (o1, alive)" by force
  obtain r2 ms2 k2 where l: "attempt_loop env t rd further routed c n (k + 1) = (r2, ms2, k2)" by (metis prod.exhaust)
  show ?case using Suc.prems e l Suc.IH [OF l]
    by (cases o1) (auto simp: Let_def split: if_splits option.splits)
qed simp

lemma candidate_loop_sent:
  "candidate_loop env t rd routed le cs k = (r, ms) \<Longrightarrow>
   length ms \<le> 2 * length cs \<and>
   set ms \<subseteq> (\<lambda>c. (c, rewriteRouteAddressZeroRequest routed (rb_address c))) ` set cs \<and>
   (\<forall>c f resp. r = Inr (c, f, resp) \<longrightarrow> (c, f) \<in> set ms)"
proof (induction cs arbitrary: le k r ms)
  case (Cons c cs)
  obtain r1 ms1 k1 where a: "attempt_loop env t rd (cs \<noteq> []) routed c (if rd then 2 else 1) k = (r1, ms1, k1)"
    by (metis prod.exhaust)
  note s = attempt_sent [OF a]
  show ?case
  proof (cases r1)
    case (Fail x)
    then have "ms = ms1" "r = Inl x" using Cons.prems a by simp_all
    then show ?thesis using s by (cases rd) auto
  next
    case (Answered f resp)
    then have "ms = ms1" "r = Inr (c, f, resp)" using Cons.prems a by simp_all
    then show ?thesis using s Answered by (cases rd) auto
  next
    case (NextCandidate e)
    obtain r2 ms2 where b: "candidate_loop env t rd routed e cs k1 = (r2, ms2)" by force
    then have "ms = ms1 @ ms2" "r = r2" using Cons.prems a NextCandidate by simp_all
    then show ?thesis using s Cons.IH [OF b] by (cases rd) auto
  qed
qed simp

lemma candidate_loop_per_route:
  "candidate_loop env t rd routed le cs k = (r, ms) \<Longrightarrow> distinct cs \<Longrightarrow> length (filter (\<lambda>s. fst s = c) ms) \<le> 2"
proof (induction cs arbitrary: le k r ms)
  case (Cons b cs)
  obtain r1 ms1 k1 where a: "attempt_loop env t rd (cs \<noteq> []) routed b (if rd then 2 else 1) k = (r1, ms1, k1)"
    by (metis prod.exhaust)
  have own: "length ms1 \<le> 2" "\<And>s. s \<in> set ms1 \<Longrightarrow> fst s = b" using attempt_sent [OF a] by (auto split: if_splits)
  have one: "length (filter (\<lambda>s. fst s = c) ms1) \<le> 2" using own(1) length_filter_le le_trans by blast
  show ?case
  proof (cases r1)
    case (NextCandidate e)
    obtain r2 ms2 where n: "candidate_loop env t rd routed e cs k1 = (r2, ms2)" by force
    then have ms: "ms = ms1 @ ms2" using Cons.prems a NextCandidate by simp
    have "b \<notin> fst ` set ms2" using candidate_loop_sent [OF n] Cons.prems(2) by auto
    then have "c = b \<Longrightarrow> filter (\<lambda>s. fst s = c) ms2 = []" by (auto simp: filter_empty_conv)
    moreover have "c \<noteq> b \<Longrightarrow> filter (\<lambda>s. fst s = c) ms1 = []" using own(2) by (auto simp: filter_empty_conv)
    ultimately show ?thesis using ms one Cons.IH [OF n] Cons.prems(2) by (cases "c = b") auto
  qed (use Cons.prems a one in simp_all)
qed simp

lemma candidate_loop_write:
  assumes "candidate_loop env t False routed le (c # cs) k = (r, ms)"
  shows "ms = [] \<or> ms = [(c, rewriteRouteAddressZeroRequest routed (rb_address c))]"
proof -
  obtain r1 ms1 k1 where a: "attempt_loop env t False (cs \<noteq> []) routed c 1 k = (r1, ms1, k1)" by (metis prod.exhaust)
  note s = attempt_sent [OF a]
  then have "ms = ms1" using assms a by (cases r1) auto
  with s show ?thesis by (cases ms1) auto
qed

text \<open>In a route table the candidates of an address are numbered in the order they were configured.\<close>

definition routes_wf :: "preparedRoutes \<Rightarrow> bool" where
  "routes_wf routes \<longleftrightarrow>
     routes 0 = [] \<and> (\<forall>a. map rb_priority (routes a) = [0..<length (routes a)] \<and> list_all (\<lambda>c. rb_address c = a) (routes a))"

lemma add_route_wf: "routes_wf routes \<Longrightarrow> rt_Address r \<noteq> 0 \<Longrightarrow> routes_wf (add_route r routes)"
  by (auto simp: routes_wf_def add_route_def Let_def)

lemma add_routes_wf: "routes_wf routes \<Longrightarrow> add_routes rs routes = Inr routes' \<Longrightarrow> routes_wf routes'"
  by (induction rs arbitrary: routes) (auto intro: add_route_wf split: if_splits option.splits)

lemma check_order_None: "check_order routes as = None \<Longrightarrow> list_all (\<lambda>a. a \<noteq> 0 \<and> routes a \<noteq> []) as"
  by (induction as) (auto split: if_splits)

lemma prepareRoutes_wf:
  assumes "prepareRoutes cfg = Inr (policy, routes)"
  shows "routes_wf routes" "rc_DefaultAddress cfg \<noteq> 0 \<Longrightarrow> routes (rc_DefaultAddress cfg) \<noteq> []"
    "list_all (\<lambda>a. a \<noteq> 0 \<and> routes a \<noteq> []) (rc_AddressZeroOrder cfg)"
proof -
  have e: "routes_wf (\<lambda>_. [])" by (simp add: routes_wf_def)
  show "routes_wf routes" "rc_DefaultAddress cfg \<noteq> 0 \<Longrightarrow> routes (rc_DefaultAddress cfg) \<noteq> []"
    "list_all (\<lambda>a. a \<noteq> 0 \<and> routes a \<noteq> []) (rc_AddressZeroOrder cfg)"
    using assms add_routes_wf [OF e] check_order_None
    by (auto simp: prepareRoutes_def split: if_splits sum.splits option.splits)
qed

lemma fixed_order: "routes_wf routes \<Longrightarrow> orderRouteCandidates (routes a) policy False = routes a"
proof -
  assume "routes_wf routes"
  then have "map rb_priority (routes a) = [0..<length (routes a)]" by (simp add: routes_wf_def)
  then have "sorted (map rb_priority (routes a))" by (metis sorted_upt)
  then show ?thesis by (simp add: orderRouteCandidates_def sort_key_id_if_sorted)
qed

lemma routes_distinct: "routes_wf routes \<Longrightarrow> distinct (routes a)"
  by (metis distinct_map distinct_upt routes_wf_def)

text \<open>
  Whatever the brokers answer: all that is handed over is the frame \<open>f\<close>, to routes of the device, each
  at most twice; what is not a read is handed to at most one broker, at most once, the first
  configured route of the device, also with the dynamic policy.
\<close>

definition sent_to :: "preparedRoutes \<Rightarrow> bool \<Rightarrow> string \<Rightarrow> byte \<Rightarrow> sent list \<Rightarrow> bool" where
  "sent_to routes readFrame f a ms \<longleftrightarrow>
     list_all (\<lambda>s. fst s \<in> set (routes a) \<and> rb_address (fst s) = a \<and> snd s = f) ms \<and>
     list_all (\<lambda>c. length (filter (\<lambda>s. fst s = c) ms) \<le> 2) (routes a) \<and>
     (readFrame \<or> ms = [] \<or> ms = [(hd (routes a), f)])"

lemma sent_to_Nil [simp]: "sent_to routes rd f a []"
  by (simp add: sent_to_def list_all_iff)

lemma route_ordered:
  assumes wf: "routes_wf routes" and a: "routes a \<noteq> []"
    and f: "routeFrame m benv env native frame (orderRouteCandidates (routes a) policy (isMeComReadFrame frame)) devs = (r, ms, devs')"
  shows "sent_to routes (isMeComReadFrame frame) (rewriteRouteAddressZeroRequest (rewriteRouteCompatibilityFrame frame) a) a ms"
    "d \<noteq> a \<Longrightarrow> devs' d = devs d"
proof -
  let ?o = "orderRouteCandidates (routes a) policy (isMeComReadFrame frame)"
  let ?cs = "if isMeComReadFrame frame
    then preferNativeMeComRouteForVirtualRead (bridge_tables_of m) native (rewriteRouteCompatibilityFrame frame) ?o else ?o"
  let ?f = "rewriteRouteAddressZeroRequest (rewriteRouteCompatibilityFrame frame) a"
  have cs: "set ?cs = set (routes a)" "distinct ?cs"
    using routes_distinct [OF wf, of a]
    by (auto simp: preferNativeMeComRouteForVirtualRead_def Let_def orderRouteCandidates_def)
  obtain x where l: "candidate_loop env (bridge_tables_of m) (isMeComReadFrame frame)
      (rewriteRouteCompatibilityFrame frame) NoCandidates ?cs 0 = (x, ms)"
    and x: "case x of Inl e \<Rightarrow> devs' = devs
      | Inr (c, f, resp) \<Rightarrow> devs' = devs(rb_address c := deviceBridgeObserveFrame m benv f resp (devs (rb_address c)))"
    using f by (auto simp: routeFrame_def Let_def split: prod.splits sum.splits)
  have addr: "list_all (\<lambda>c. rb_address c = a) (routes a)" using wf by (simp add: routes_wf_def)
  show "d \<noteq> a \<Longrightarrow> devs' d = devs d"
    using x candidate_loop_sent [OF l] cs(1) addr by (auto simp: list_all_iff split: sum.splits prod.splits)
  have "list_all (\<lambda>s. fst s \<in> set (routes a) \<and> rb_address (fst s) = a \<and> snd s = ?f) ms"
    using candidate_loop_sent [OF l] cs(1) addr by (auto simp: list_all_iff)
  moreover have "list_all (\<lambda>c. length (filter (\<lambda>s. fst s = c) ms) \<le> 2) (routes a)"
    using candidate_loop_per_route [OF l cs(2)] by (simp add: list_all_iff)
  moreover have "ms = [] \<or> ms = [(hd (routes a), ?f)]" if w: "\<not> isMeComReadFrame frame"
  proof -
    have "?cs = routes a" using w fixed_order [OF wf] by simp
    then obtain cs where "?cs = hd (routes a) # cs" using a by (cases "routes a") auto
    then have "candidate_loop env (bridge_tables_of m) False (rewriteRouteCompatibilityFrame frame) NoCandidates
        (hd (routes a) # cs) 0 = (x, ms)" using l w by simp
    from candidate_loop_write [OF this] have "ms = [] \<or> ms =
        [(hd (routes a), rewriteRouteAddressZeroRequest (rewriteRouteCompatibilityFrame frame) (rb_address (hd (routes a))))]" .
    moreover have "rb_address (hd (routes a)) = a" using addr a by (simp add: list_all_iff)
    ultimately show ?thesis by simp
  qed
  ultimately show "sent_to routes (isMeComReadFrame frame) ?f a ms" unfolding sent_to_def by blast
qed

section \<open>Address zero is sticky\<close>

text \<open>Every lease of the selector has a holder, and its address is one of the configured order.\<close>

definition az_wf :: "addressZeroSelector \<Rightarrow> bool" where
  "az_wf s \<longleftrightarrow> distinct (map fst (az_leases s)) \<and>
     (\<forall>k a n. map_of (az_leases s) k = Some (a, n) \<longrightarrow> 0 < n \<and> a \<in> set (az_order s))"

definition az_refs :: "addressZeroSelector \<Rightarrow> string \<Rightarrow> nat" where
  "az_refs s k = (case map_of (az_leases s) k of None \<Rightarrow> 0 | Some (a, n) \<Rightarrow> n)"

lemma az_Next_in: "az_order s \<noteq> [] \<Longrightarrow> az_fixed s = 0 \<Longrightarrow> fst (az_Next s) \<in> set (az_order s)"
  by (simp add: az_Next_def)

lemma az_Lease_wf: "az_wf s \<Longrightarrow> az_wf (snd (az_Lease k s))"
  using az_Next_in [of s]
  by (auto simp: az_wf_def az_Lease_def az_Next_def split: if_splits option.splits prod.splits
      simp del: map_of_eq_Some_iff)

lemma az_release_wf: "az_wf s \<Longrightarrow> az_wf (az_release k s)"
  by (auto simp: az_wf_def az_release_def split: if_splits option.splits prod.splits simp del: map_of_eq_Some_iff)

lemma az_Lease_sticky:
  "map_of (az_leases s) k = Some (a, n) \<Longrightarrow> az_fixed s = 0 \<Longrightarrow> az_order s \<noteq> [] \<Longrightarrow> k \<noteq> [] \<Longrightarrow>
   fst (az_Lease k s) = (a, True) \<and> az_refs (snd (az_Lease k s)) k = n + 1"
  by (simp add: az_Lease_def az_refs_def)

end
