(* ===== verification/CommandCache.thy ===== *)
theory CommandCache
  imports RouterFrames
begin

text \<open>
  The duplicate-command cache of \<open>mecomserver/router.go\<close>.  \<open>commandIdempotencyCache.Do\<close> holds its
  mutex twice, around the decision and around the publication of the result; the model has one
  operation for each, \<open>cache_begin\<close> and \<open>cache_finish\<close>, so an execution of any number of clients is a
  sequence of these operations.  \<open>Do\<close> reads the clock just before it takes the mutex for the decision;
  the model has that reading at the moment the mutex is taken, so executions in which another client
  holds the mutex in between, and has read the clock later, are not covered by what is shown under a
  monotonic clock.  An abstract specification without pruning says what a client may
  rely on, and the cache refines it.
\<close>

section \<open>The cache\<close>

type_synonym route_result = "server_error + string"

record commandIdempotencyEntry =
  en_completed :: bool
  en_expires :: gotime
  en_result :: route_result

record commandIdempotencyCache =
  cc_ttl :: int
  cc_entries :: "(string \<times> commandIdempotencyEntry) list"

definition newCommandIdempotencyCache :: "int \<Rightarrow> commandIdempotencyCache option" where
  "newCommandIdempotencyCache ttl =
     (if ttl < 0 then None
      else Some \<lparr>cc_ttl = (if ttl = 0 then defaultCommandIdempotencyTTL else ttl), cc_entries = []\<rparr>)"

definition commandIdempotencyKey :: "string \<Rightarrow> string" where
  "commandIdempotencyKey frame = (let s = TrimSpace frame in if s = [] \<or> isMeComReadFrame s then [] else s)"

definition pruneLocked :: "gotime \<Rightarrow> commandIdempotencyCache \<Rightarrow> commandIdempotencyCache" where
  "pruneLocked now c = c\<lparr>cc_entries := filter (\<lambda>e. \<not> (en_completed (snd e) \<and> en_expires (snd e) < now)) (cc_entries c)\<rparr>"

text \<open>
  What \<open>Do\<close> decides: route without the cache, route and publish, wait for the client that is routing
  the same frame, or return a published result.
\<close>

datatype begin_outcome = Direct | RouteIt | Wait | Replay route_result

definition new_entry :: commandIdempotencyEntry where
  "new_entry = \<lparr>en_completed = False, en_expires = zero_time, en_result = Inr []\<rparr>"

definition cache_begin :: "gotime \<Rightarrow> string \<Rightarrow> commandIdempotencyCache \<Rightarrow> begin_outcome \<times> commandIdempotencyCache" where
  "cache_begin now frame c0 =
     (let key = commandIdempotencyKey frame in
      if key = [] then (Direct, c0)
      else let c = pruneLocked now c0;
               run = (RouteIt, c\<lparr>cc_entries := amap_put key new_entry (cc_entries c)\<rparr>)
        in case map_of (cc_entries c) key of
             None \<Rightarrow> run
           | Some e \<Rightarrow>
               if \<not> en_completed e then (Wait, c)
               else if now < en_expires e then (Replay (en_result e), c)
               else run)"

definition cache_finish :: "gotime \<Rightarrow> string \<Rightarrow> route_result \<Rightarrow> commandIdempotencyCache \<Rightarrow> commandIdempotencyCache" where
  "cache_finish now key res c =
     (case map_of (cc_entries c) key of
        None \<Rightarrow> c
      | Some e \<Rightarrow>
          if en_completed e then c
          else c\<lparr>cc_entries := amap_put key \<lparr>en_completed = True, en_expires = now + cc_ttl c, en_result = res\<rparr> (cc_entries c)\<rparr>)"

section \<open>The specification\<close>

record command_spec =
  sp_running :: "string set"
  sp_done :: "string \<rightharpoonup> gotime \<times> route_result"

definition spec_begin :: "int \<Rightarrow> gotime \<Rightarrow> string \<Rightarrow> command_spec \<Rightarrow> begin_outcome \<times> command_spec" where
  "spec_begin ttl now frame s =
     (let key = commandIdempotencyKey frame; run = (RouteIt, s\<lparr>sp_running := insert key (sp_running s)\<rparr>) in
      if key = [] then (Direct, s)
      else if key \<in> sp_running s then (Wait, s)
      else case sp_done s key of
        Some (t, r) \<Rightarrow> if now < t + ttl then (Replay r, s) else run
      | None \<Rightarrow> run)"

definition spec_finish :: "gotime \<Rightarrow> string \<Rightarrow> route_result \<Rightarrow> command_spec \<Rightarrow> command_spec" where
  "spec_finish now key res s =
     (if key \<in> sp_running s
      then s\<lparr>sp_running := sp_running s - {key}, sp_done := (sp_done s)(key \<mapsto> (now, res))\<rparr> else s)"

datatype command_event = BeginEv gotime string | FinishEv gotime string route_result

fun event_time :: "command_event \<Rightarrow> gotime" where
  "event_time (BeginEv t _) = t"
| "event_time (FinishEv t _ _) = t"

fun run_events ::
    "(gotime \<Rightarrow> string \<Rightarrow> 's \<Rightarrow> begin_outcome \<times> 's) \<Rightarrow> (gotime \<Rightarrow> string \<Rightarrow> route_result \<Rightarrow> 's \<Rightarrow> 's) \<Rightarrow>
     command_event list \<Rightarrow> 's \<Rightarrow> begin_outcome list" where
  "run_events bgn fin [] s = []"
| "run_events bgn fin (BeginEv t f # es) s =
     (case bgn t f s of (out, s') \<Rightarrow> out # run_events bgn fin es s')"
| "run_events bgn fin (FinishEv t k r # es) s = run_events bgn fin es (fin t k r s)"

text \<open>
  The contract of a command store: its operations simulate the specification, as long as the clock
  does not run backwards.
\<close>

locale command_store =
  fixes ttl :: int
    and rel :: "gotime \<Rightarrow> 's \<Rightarrow> command_spec \<Rightarrow> bool"
    and bgn :: "gotime \<Rightarrow> string \<Rightarrow> 's \<Rightarrow> begin_outcome \<times> 's"
    and fin :: "gotime \<Rightarrow> string \<Rightarrow> route_result \<Rightarrow> 's \<Rightarrow> 's"
  assumes begin_sim: "rel t c s \<Longrightarrow> t \<le> now \<Longrightarrow>
      fst (bgn now f c) = fst (spec_begin ttl now f s) \<and> rel now (snd (bgn now f c)) (snd (spec_begin ttl now f s))"
    and finish_sim: "rel t c s \<Longrightarrow> t \<le> now \<Longrightarrow> rel now (fin now k r c) (spec_finish now k r s)"
begin

lemma run_sim:
  "rel t c s \<Longrightarrow> sorted (t # map event_time es) \<Longrightarrow>
   run_events bgn fin es c = run_events (spec_begin ttl) spec_finish es s"
proof (induction es arbitrary: t c s)
  case (Cons e es)
  show ?case
  proof (cases e)
    case (BeginEv now f)
    obtain o1 c1 where b: "bgn now f c = (o1, c1)" by force
    obtain o2 s1 where b': "spec_begin ttl now f s = (o2, s1)" by force
    have "o1 = o2" "rel now c1 s1" using begin_sim [OF Cons.prems(1), of now f] Cons.prems(2) BeginEv b b' by auto
    then show ?thesis using Cons.IH [of now c1 s1] Cons.prems(2) BeginEv b b' by simp
  next
    case (FinishEv now k r)
    then have "rel now (fin now k r c) (spec_finish now k r s)" using finish_sim [OF Cons.prems(1)] Cons.prems(2) by simp
    then show ?thesis using Cons.IH Cons.prems(2) FinishEv by simp
  qed
qed simp

end

section \<open>The cache implements the specification\<close>

text \<open>How the entry of a key, if there is one, is related to whether its frame is being routed and what was published.\<close>

definition entry_rel ::
    "int \<Rightarrow> gotime \<Rightarrow> commandIdempotencyEntry option \<Rightarrow> bool \<Rightarrow> (gotime \<times> route_result) option \<Rightarrow> bool" where
  "entry_rel ttl t entry running finished =
     (case entry of
        None \<Rightarrow> \<not> running \<and> (case finished of None \<Rightarrow> True | Some (u, r) \<Rightarrow> u + ttl \<le> t)
      | Some e \<Rightarrow>
          if en_completed e then \<not> running \<and> (\<exists>u. finished = Some (u, en_result e) \<and> en_expires e = u + ttl)
          else running)"

definition cache_rel :: "int \<Rightarrow> gotime \<Rightarrow> commandIdempotencyCache \<Rightarrow> command_spec \<Rightarrow> bool" where
  "cache_rel ttl t c s \<longleftrightarrow>
     cc_ttl c = ttl \<and> distinct (map fst (cc_entries c)) \<and>
     (\<forall>k. entry_rel ttl t (map_of (cc_entries c) k) (k \<in> sp_running s) (sp_done s k))"

lemma entry_rel_later: "entry_rel ttl t e run d \<Longrightarrow> t \<le> now \<Longrightarrow> entry_rel ttl now e run d"
  by (auto simp: entry_rel_def split: option.splits if_splits)

lemma map_of_prune:
  "distinct (map fst (cc_entries c)) \<Longrightarrow>
   map_of (cc_entries (pruneLocked now c)) k =
     (case map_of (cc_entries c) k of None \<Rightarrow> None
      | Some e \<Rightarrow> if en_completed e \<and> en_expires e < now then None else Some e)"
  using map_of_filter_value [of "cc_entries c" "\<lambda>e. \<not> (en_completed e \<and> en_expires e < now)" k]
  by (auto simp: pruneLocked_def split: option.splits)

lemma cache_rel_prune:
  assumes "cache_rel ttl t c s" and "t \<le> now"
  shows "cache_rel ttl now (pruneLocked now c) s"
proof -
  have "entry_rel ttl now (map_of (cc_entries (pruneLocked now c)) k) (k \<in> sp_running s) (sp_done s k)" for k
  proof -
    have "entry_rel ttl t (map_of (cc_entries c) k) (k \<in> sp_running s) (sp_done s k)" "distinct (map fst (cc_entries c))"
      using assms(1) by (auto simp: cache_rel_def)
    then show ?thesis using assms(2)
      by (cases "map_of (cc_entries c) k")
        (auto simp: map_of_prune entry_rel_def simp del: map_of_eq_Some_iff split: option.splits if_splits)
  qed
  then show ?thesis using assms(1) by (auto simp: cache_rel_def pruneLocked_def distinct_filter_keys)
qed

lemma cache_rel_put:
  assumes "cache_rel ttl t c s" and "k \<noteq> []"
  shows "cache_rel ttl t (c\<lparr>cc_entries := amap_put k new_entry (cc_entries c)\<rparr>) (s\<lparr>sp_running := insert k (sp_running s)\<rparr>)"
proof -
  have "entry_rel ttl t (Some new_entry) True d" for d by (simp add: entry_rel_def new_entry_def)
  then show ?thesis using assms by (auto simp: cache_rel_def)
qed

lemma cache_begin_sim:
  assumes "cache_rel ttl t c s" and "t \<le> now"
  shows "fst (cache_begin now f c) = fst (spec_begin ttl now f s) \<and>
    cache_rel ttl now (snd (cache_begin now f c)) (snd (spec_begin ttl now f s))"
proof (cases "commandIdempotencyKey f = []")
  case True
  have "cache_rel ttl now c s" using assms entry_rel_later [OF _ assms(2)] by (auto simp: cache_rel_def)
  then show ?thesis using True by (simp add: cache_begin_def spec_begin_def Let_def)
next
  case False
  let ?k = "commandIdempotencyKey f"
  note p = cache_rel_prune [OF assms]
  then have e: "entry_rel ttl now (map_of (cc_entries (pruneLocked now c)) ?k) (?k \<in> sp_running s) (sp_done s ?k)"
    by (simp add: cache_rel_def)
  show ?thesis
  proof (cases "map_of (cc_entries (pruneLocked now c)) ?k")
    case None
    then show ?thesis using e False p cache_rel_put [OF p False]
      by (auto simp: cache_begin_def spec_begin_def Let_def entry_rel_def split: option.splits prod.splits)
  next
    case (Some x)
    then show ?thesis using e False p cache_rel_put [OF p False]
      by (auto simp: cache_begin_def spec_begin_def Let_def entry_rel_def split: if_splits)
  qed
qed

lemma cache_finish_sim:
  assumes "cache_rel ttl t c s" and "t \<le> now"
  shows "cache_rel ttl now (cache_finish now k r c) (spec_finish now k r s)"
proof -
  have e: "entry_rel ttl t (map_of (cc_entries c) j) (j \<in> sp_running s) (sp_done s j)" for j
    using assms(1) by (simp add: cache_rel_def)
  have r: "cc_ttl c = ttl" "distinct (map fst (cc_entries c))" using assms(1) by (simp_all add: cache_rel_def)
  show ?thesis
  proof (cases "k \<in> sp_running s")
    case True
    then obtain x where x: "map_of (cc_entries c) k = Some x" "\<not> en_completed x"
      using e [of k] by (auto simp: entry_rel_def split: option.splits if_splits)
    have "entry_rel ttl now (map_of (cc_entries (cache_finish now k r c)) j)
        (j \<in> sp_running (spec_finish now k r s)) (sp_done (spec_finish now k r s) j)" for j
      using x True r entry_rel_later [OF e assms(2)]
      by (cases "j = k") (auto simp: cache_finish_def spec_finish_def entry_rel_def)
    then show ?thesis using x r by (auto simp: cache_rel_def cache_finish_def)
  next
    case False
    then have "cache_finish now k r c = c" "spec_finish now k r s = s"
      using e [of k] by (auto simp: cache_finish_def spec_finish_def entry_rel_def split: option.splits if_splits)
    then show ?thesis using entry_rel_later [OF e assms(2)] r by (simp add: cache_rel_def)
  qed
qed

interpretation command_cache: command_store ttl "cache_rel ttl" cache_begin cache_finish for ttl
  by unfold_locales (auto simp: cache_begin_sim cache_finish_sim)

section \<open>Properties\<close>

text \<open>
  C6.  The command cache refines its specification: for every interleaving of clients with a clock
  that does not run backwards, the decisions of \<open>commandIdempotencyCache.Do\<close>, with its pruning, are
  those of the specification that never forgets: a frame that is being routed is waited for, one
  whose result was published less than the time to live ago is answered with that result, and every
  other command is routed.
\<close>

theorem command_cache_refines:
  assumes "newCommandIdempotencyCache ttl0 = Some c" and "sorted (map event_time es)"
  shows "run_events cache_begin cache_finish es c =
    run_events (spec_begin (cc_ttl c)) spec_finish es \<lparr>sp_running = {}, sp_done = Map.empty\<rparr>"
proof -
  let ?t = "case es of [] \<Rightarrow> 0 | e # _ \<Rightarrow> event_time e"
  have "cc_entries c = []" using assms(1) by (auto simp: newCommandIdempotencyCache_def split: if_splits)
  then have "cache_rel (cc_ttl c) ?t c \<lparr>sp_running = {}, sp_done = Map.empty\<rparr>"
    by (simp add: cache_rel_def entry_rel_def)
  moreover have "sorted (?t # map event_time es)" using assms(2) by (cases es) auto
  ultimately show ?thesis by (rule command_cache.run_sim)
qed

theorem command_cache_refines_witness:
  "\<exists>c. newCommandIdempotencyCache 0 = Some c \<and> run_events cache_begin cache_finish [BeginEv 5 ''#02''] c =
    run_events (spec_begin (cc_ttl c)) spec_finish [BeginEv 5 ''#02''] \<lparr>sp_running = {}, sp_done = Map.empty\<rparr>"
proof -
  obtain c where c: "newCommandIdempotencyCache 0 = Some c" by (simp add: newCommandIdempotencyCache_def)
  from command_cache_refines [OF c, of "[BeginEv 5 ''#02'']"] c show ?thesis by auto
qed

text \<open>
  C35.  The cache ignores the commands in between: when a client repeats a command frame byte for
  byte within the time to live, it gets the published result, an error too, and the command is not
  routed again, even though another command has been routed since.
\<close>

theorem repeated_command_not_executed:
  assumes "newCommandIdempotencyCache ttl0 = Some c" and "commandIdempotencyKey f = k" and "k \<noteq> []"
    and "commandIdempotencyKey g = l" and "l \<noteq> []" and "k \<noteq> l"
    and "t0 \<le> t1" and "t1 \<le> t2" and "t2 \<le> t3" and "t3 \<le> t4" and "t4 < t1 + cc_ttl c"
  shows "run_events cache_begin cache_finish
      [BeginEv t0 f, FinishEv t1 k r, BeginEv t2 g, FinishEv t3 l r', BeginEv t4 f] c = [RouteIt, RouteIt, Replay r]"
proof -
  let ?es = "[BeginEv t0 f, FinishEv t1 k r, BeginEv t2 g, FinishEv t3 l r', BeginEv t4 f]"
  have "cc_entries c = []" using assms(1) by (auto simp: newCommandIdempotencyCache_def split: if_splits)
  then have "cache_rel (cc_ttl c) t0 c \<lparr>sp_running = {}, sp_done = Map.empty\<rparr>"
    by (simp add: cache_rel_def entry_rel_def)
  from command_cache.run_sim [OF this, of ?es] assms(2-11) show ?thesis
    by (simp add: spec_begin_def spec_finish_def Let_def)
qed

theorem repeated_command_not_executed_witness:
  "\<exists>c. newCommandIdempotencyCache 0 = Some c \<and> run_events cache_begin cache_finish
      [BeginEv 0 ''#020001VS07DA0100000001'', FinishEv 1 ''#020001VS07DA0100000001'' (Inl DeadlineExceeded),
       BeginEv 2 ''#020002VS07DA0100000000'', FinishEv 3 ''#020002VS07DA0100000000'' (Inr []),
       BeginEv 4 ''#020001VS07DA0100000001''] c = [RouteIt, RouteIt, Replay (Inl DeadlineExceeded)]"
proof -
  obtain c where c: "newCommandIdempotencyCache 0 = Some c" "cc_ttl c = 30000000000"
    by (simp add: newCommandIdempotencyCache_def defaultCommandIdempotencyTTL_def second_def)
  have t: "TrimSpace ''#020001VS07DA0100000001'' = ''#020001VS07DA0100000001''"
    "TrimSpace ''#020002VS07DA0100000000'' = ''#020002VS07DA0100000000''"
    by (rule TrimSpace_no_space; auto simp: is_space_def)+
  have k: "commandIdempotencyKey ''#020001VS07DA0100000001'' = ''#020001VS07DA0100000001''"
    "commandIdempotencyKey ''#020002VS07DA0100000000'' = ''#020002VS07DA0100000000''"
    by (simp_all add: commandIdempotencyKey_def t isMeComReadFrame_def HasPrefix_def Let_def)
  from repeated_command_not_executed [OF c(1) k(1) _ k(2), of 0 1 2 3 4 "Inl DeadlineExceeded" "Inr []"] c
  show ?thesis by auto
qed

end
