(* ===== verification/RoutedClient.thy ===== *)
theory RoutedClient
  imports Router CommandCache DeviceBridge
begin

text \<open>
  One frame of a client connection through \<open>handleRoutedClient\<close> (\<open>mecomserver/router.go\<close>): the
  candidates, the virtual writes that the device bridge of the addressed device answers, the command
  cache and the routing compose.  The connection's loop is the sequence of these calls on the frames
  that \<open>readBoundedFramePartial\<close> delivers.
\<close>

record frame_env =
  fe_bridge :: bridge_env
  fe_sends :: "nat \<Rightarrow> send_outcome \<times> bool"
  fe_waited :: route_result
  fe_ctxDone :: bool
  fe_begin :: gotime
  fe_finish :: gotime

text \<open>The answer to a routing result; \<open>None\<close>: the connection is closed without one.\<close>

definition answer :: "frame_env \<Rightarrow> string \<Rightarrow> route_result \<Rightarrow> string option" where
  "answer env frame r =
     (case r of Inr resp \<Rightarrow> Some resp | Inl e \<Rightarrow> if fe_ctxDone env then None else Some (deviceServerError frame))"

text \<open>
  \<open>commandIdempotencyCache.Do\<close> around a routing: \<open>routed\<close> has the result, the frames sent and the states
  if the frame is routed; a waiting client gets the result that the client before it publishes.
\<close>

definition cache_Do ::
    "frame_env \<Rightarrow> string \<Rightarrow> route_result \<times> sent list \<times> device_states \<Rightarrow> commandIdempotencyCache \<Rightarrow> device_states \<Rightarrow>
     route_result \<times> sent list \<times> commandIdempotencyCache \<times> device_states" where
  "cache_Do env frame routed c devs =
     (case routed of (r, ms, devs1) \<Rightarrow>
        case cache_begin (fe_begin env) frame c of
          (Direct, c1) \<Rightarrow> (r, ms, c1, devs1)
        | (RouteIt, c1) \<Rightarrow> (r, ms, cache_finish (fe_finish env) (commandIdempotencyKey frame) r c1, devs1)
        | (Wait, c1) \<Rightarrow> (fe_waited env, [], c1, devs)
        | (Replay r', c1) \<Rightarrow> (r', [], c1, devs))"

text \<open>The routing of a frame to the candidates, through the cache if there is one and the frame is a command.\<close>

definition route_cached ::
    "CANopenSDOMap \<Rightarrow> (string \<Rightarrow> bool) \<Rightarrow> frame_env \<Rightarrow> string \<Rightarrow> routeBroker list \<Rightarrow> commandIdempotencyCache option \<Rightarrow>
     device_states \<Rightarrow> route_result \<times> sent list \<times> commandIdempotencyCache option \<times> device_states" where
  "route_cached m native env frame candidates cache devs =
     (let routed = routeFrame m (fe_bridge env) (fe_sends env) native frame candidates devs in
      case (cache, isMeComReadFrame frame) of
        (Some c, False) \<Rightarrow> (case cache_Do env frame routed c devs of (r, ms, c1, devs1) \<Rightarrow> (r, ms, Some c1, devs1))
      | _ \<Rightarrow> (case routed of (r, ms, devs1) \<Rightarrow> (r, ms, cache, devs1)))"

definition handle_frame ::
    "CANopenSDOMap \<Rightarrow> (string \<Rightarrow> bool) \<Rightarrow> preparedRoutes \<Rightarrow> RouteSelectionPolicy \<Rightarrow> byte \<Rightarrow> frame_env \<Rightarrow> string \<Rightarrow>
     commandIdempotencyCache option \<Rightarrow> device_states \<Rightarrow>
     string option \<times> sent list \<times> commandIdempotencyCache option \<times> device_states" where
  "handle_frame m native routes policy addressZero env frame cache devs =
     (case selectRouteCandidates frame routes addressZero policy of
        Inl e \<Rightarrow> (Some (deviceServerError frame), [], cache, devs)
      | Inr candidates \<Rightarrow>
          let a = rb_address (hd candidates) in
          (case handleDeviceBridgeRouterLocalFrame m (fe_bridge env) frame (devs a) of
             Some (resp, b) \<Rightarrow> (Some resp, [], cache, devs(a := b))
           | None \<Rightarrow>
               (case route_cached m native env frame candidates cache devs of
                  (r, ms, cache1, devs1) \<Rightarrow> (answer env frame r, ms, cache1, devs1))))"

lemma route_cached_cases:
  assumes "routeFrame m (fe_bridge env) (fe_sends env) native frame cands devs = (r, ms, devs1)"
    and "route_cached m native env frame cands cache devs = (r', ms', cache', devs')"
  shows "ms' = [] \<and> devs' = devs \<or> ms' = ms \<and> devs' = devs1 \<and> r' = r"
  using assms by (auto simp: route_cached_def cache_Do_def Let_def
      split: option.splits bool.splits prod.splits begin_outcome.splits)

lemma route_cached_uncached:
  "route_cached m native env frame cands None devs =
     (case routeFrame m (fe_bridge env) (fe_sends env) native frame cands devs of (r, ms, devs1) \<Rightarrow> (r, ms, None, devs1))"
  by (simp add: route_cached_def)

lemma error_answer_is_nack:
  assumes "TrimSpace frame = req_prefix a s rest"
  shows "deviceServerError frame = deviceBridgeNACK a s 3"
proof -
  have "fmtX 2 3 = ''03''" by code_simp
  then show ?thesis
    using assms by (simp add: deviceServerError_def deviceBridgeNACK_def req_prefix_def fmtX_u8 fmtX_u16 Let_def)
qed

section \<open>Properties\<close>

lemma candidates_of_device:
  assumes "selectRouteCandidates frame routes az policy = Inr cands"
  obtains a0 a where "names_device frame a0" "a = (if a0 = 0 \<and> az \<noteq> 0 then az else a0)" "routes a \<noteq> []"
    "cands = orderRouteCandidates (routes a) policy (isMeComReadFrame frame)"
  using assms by (auto simp: selectRouteCandidates_def Let_def dest!: RequestAddress_names split: sum.splits if_splits)

lemma ordered_address:
  assumes "routes_wf routes" and "routes a \<noteq> []"
  shows "rb_address (hd (orderRouteCandidates (routes a) policy rd)) = a"
proof -
  let ?o = "orderRouteCandidates (routes a) policy rd"
  have "set ?o = set (routes a)" by (simp add: orderRouteCandidates_def)
  moreover have "list_all (\<lambda>c. rb_address c = a) (routes a)" using assms(1) by (simp add: routes_wf_def)
  ultimately have "list_all (\<lambda>c. rb_address c = a) ?o" "?o \<noteq> []" using assms(2) by (auto simp: list_all_iff)
  then show ?thesis by (cases ?o) auto
qed

text \<open>What routing through the cache hands over, and that it changes only the state of the device.\<close>

lemma route_cached_ordered:
  assumes "routes_wf routes" and "routes a \<noteq> []"
    and "route_cached m native env frame (orderRouteCandidates (routes a) policy (isMeComReadFrame frame)) cache devs =
      (r, ms, cache', devs')"
  shows "sent_to routes (isMeComReadFrame frame) (rewriteRouteAddressZeroRequest (rewriteRouteCompatibilityFrame frame) a) a ms \<and>
    (\<forall>d. d \<noteq> a \<longrightarrow> devs' d = devs d)"
proof -
  obtain r1 ms1 devs1 where f: "routeFrame m (fe_bridge env) (fe_sends env) native frame
      (orderRouteCandidates (routes a) policy (isMeComReadFrame frame)) devs = (r1, ms1, devs1)"
    by (metis prod.exhaust)
  show ?thesis using route_cached_cases [OF f assms(3)] route_ordered [OF assms(1,2) f] by auto
qed


definition demo_config :: RouterConfig where
  "demo_config = \<lparr>rc_Routes = [\<lparr>rt_Address = 2, rt_Target = ''can:can0/2'', rt_dial = None\<rparr>, \<lparr>rt_Address = 2, rt_Target = ''tcp'', rt_dial = None\<rparr>],
     rc_DefaultAddress = 0, rc_AddressZeroOrder = [], rc_RouteSelection = ''dynamic''\<rparr>"

definition idle_client :: bridge_env where
  "idle_client = \<lparr>be_clock = (\<lambda>n. int n), be_flush = (\<lambda>_. True), be_int32_overflow = (\<lambda>_. 0),
     be_client = deviceBridgeVirtualOnlyClient\<rparr>"

definition demo_frame_env :: frame_env where
  "demo_frame_env = \<lparr>fe_bridge = idle_client, fe_sends = (\<lambda>_. (WaitTimeout DeadlineExceeded, True)), fe_waited = Inr [],
     fe_ctxDone = False, fe_begin = 0, fe_finish = 1\<rparr>"


end
