(* ===== verification/RouterRuntime.thy ===== *)
theory RouterRuntime
  imports RoutedClient
begin

text \<open>
  The router runtime and its fanout (\<open>mecomserver/fanout.go\<close>): one template frame is re-addressed to
  several devices, each copy is routed on its own and the replies are collected by position.  The
  goroutines of a fanout are run in the order of a schedule, an argument; their frames have different
  addresses, so they share neither a cache entry nor a device state.
\<close>

section \<open>The runtime\<close>

record RouterSettings = RouterConfig +
  rs_RequestTimeout :: int
  rs_ReconnectDelay :: int
  rs_ClientIdleTimeout :: int
  rs_CommandIdempotencyTTL :: int

record RouterRuntime =
  rr_routes :: preparedRoutes
  rr_addressZero :: addressZeroSelector
  rr_RequestTimeout :: int
  rr_ClientIdleTimeout :: int
  rr_RouteSelection :: string
  rr_commandCache :: "commandIdempotencyCache option"
  rr_devices :: device_states

definition policy_name :: "RouteSelectionPolicy \<Rightarrow> string" where
  "policy_name p = (case p of FixedPreference \<Rightarrow> ''fixed-preference'' | Dynamic \<Rightarrow> ''dynamic'')"

definition applyRouterDefaults :: "RouterSettings \<Rightarrow> RouterSettings" where
  "applyRouterDefaults cfg =
     cfg\<lparr>rs_RequestTimeout := (if rs_RequestTimeout cfg \<le> 0 then defaultRequestTimeout else rs_RequestTimeout cfg),
         rs_ReconnectDelay := (if rs_ReconnectDelay cfg \<le> 0 then defaultReconnectDelay else rs_ReconnectDelay cfg),
         rs_ClientIdleTimeout :=
           (if rs_ClientIdleTimeout cfg \<le> 0 then defaultClientIdleTimeout else rs_ClientIdleTimeout cfg),
         rs_CommandIdempotencyTTL :=
           (if rs_CommandIdempotencyTTL cfg = 0 then defaultCommandIdempotencyTTL else rs_CommandIdempotencyTTL cfg)\<rparr>"

definition NewRouterRuntime ::
    "CANopenSDOMap \<Rightarrow> string \<Rightarrow> (string \<Rightarrow> deviceBridgeCacheSnapshot option) \<Rightarrow> RouterSettings \<Rightarrow>
     route_error + RouterRuntime" where
  "NewRouterRuntime m dir files cfg0 =
     (let cfg = applyRouterDefaults cfg0 in
      res_bind (prepareRoutes (RouterConfig.truncate cfg)) (\<lambda>(policy, routes).
      res_bind (newAddressZeroSelector (RouterConfig.truncate cfg) routes) (\<lambda>addressZero.
        Inr \<lparr>rr_routes = routes, rr_addressZero = addressZero, rr_RequestTimeout = rs_RequestTimeout cfg,
             rr_ClientIdleTimeout = rs_ClientIdleTimeout cfg, rr_RouteSelection = policy_name policy,
             rr_commandCache = newCommandIdempotencyCache (rs_CommandIdempotencyTTL cfg),
             rr_devices = prepared_states m dir files\<rparr>)))"

record RouterRoute =
  ro_Address :: byte
  ro_RouteID :: string
  ro_Priority :: nat
  ro_Target :: string
  ro_Stats :: BrokerStats

record RouterDevice =
  rd_Address :: byte
  rd_Routes :: "RouterRoute list"

definition routeSnapshots :: "RouterRuntime \<Rightarrow> byte \<Rightarrow> RouterRoute list" where
  "routeSnapshots rt addr =
     map (\<lambda>r. \<lparr>ro_Address = rb_address r, ro_RouteID = bs_RouteID (rb_stats r), ro_Priority = rb_priority r,
               ro_Target = rb_target r, ro_Stats = rb_stats r\<rparr>) (rr_routes rt addr)"

text \<open>The keys of the route map in ascending order; it has no entry with an empty list.\<close>

definition configuredAddresses :: "RouterRuntime \<Rightarrow> byte list" where
  "configuredAddresses rt = filter (\<lambda>a. rr_routes rt a \<noteq> []) (map word_of_nat [0..<256])"

definition Devices :: "RouterRuntime \<Rightarrow> RouterDevice list" where
  "Devices rt = map (\<lambda>a. \<lparr>rd_Address = a, rd_Routes = routeSnapshots rt a\<rparr>) (configuredAddresses rt)"

section \<open>Routing an addressed frame\<close>

datatype addressed_error =
    AddressedZero
  | AddressedUnrouted byte
  | AddressedPolicy route_error
  | AddressedRouting server_error

definition routeAddressedFrame ::
    "CANopenSDOMap \<Rightarrow> (string \<Rightarrow> bool) \<Rightarrow> frame_env \<Rightarrow> string \<Rightarrow> byte \<Rightarrow> string \<Rightarrow> bool \<Rightarrow> RouterRuntime \<Rightarrow>
     (addressed_error + string) \<times> sent list \<times> RouterRuntime" where
  "routeAddressedFrame m native env frame addr policy useCommandCache rt =
     (if addr = 0 then (Inl AddressedZero, [], rt)
      else if rr_routes rt addr = [] then (Inl (AddressedUnrouted addr), [], rt)
      else case normalizeRouteSelectionPolicy (if policy = [] then rr_RouteSelection rt else policy) of
        Inl e \<Rightarrow> (Inl (AddressedPolicy e), [], rt)
      | Inr normalized \<Rightarrow>
          let ordered = orderRouteCandidates (rr_routes rt addr) normalized (isMeComReadFrame frame);
              cache = (if useCommandCache then rr_commandCache rt else None)
          in case route_cached m native env frame ordered cache (rr_devices rt) of
            (r, ms, cache', devs') \<Rightarrow>
              (map_sum AddressedRouting (\<lambda>x. x) r, ms,
               rt\<lparr>rr_commandCache := (if useCommandCache then cache' else rr_commandCache rt), rr_devices := devs'\<rparr>))"

section \<open>Fanout\<close>

definition FanoutWriteReject :: string where "FanoutWriteReject = ''reject''"
definition FanoutWriteAllowAddressed :: string where "FanoutWriteAllowAddressed = ''allow-addressed''"

record FanoutRequest =
  fr_Frame :: string
  fr_Addresses :: "byte list"
  fr_RouteSelection :: string
  fr_WritePolicy :: string

record FanoutResponse =
  fp_Address :: byte
  fp_RequestFrame :: string
  fp_ResponseFrame :: string
  fp_Error :: "addressed_error option"
  fp_Routes :: "RouterRoute list"

record FanoutResult =
  fs_Read :: bool
  fs_Responses :: "FanoutResponse list"

record fanoutTemplate =
  ft_seq :: string
  ft_payload :: string
  ft_read :: bool

datatype fanout_error =
    FanoutFrameRequired
  | FanoutBareRequest
  | FanoutInvalidTemplate string
  | FanoutInvalidAddress string
  | FanoutInvalidSequence string
  | FanoutInvalidCRC string
  | FanoutCRCMismatch u16 u16
  | WriteFanoutRejected
  | FanoutAddressZero
  | FanoutUnrouted byte
  | FanoutPolicy route_error

definition parseFanoutTemplate :: "string \<Rightarrow> fanout_error + fanoutTemplate" where
  "parseFanoutTemplate frame =
     (let s = TrimSpace frame; payloadEnd = length s - 4 in
      if s = [] then Inl FanoutFrameRequired
      else if HasPrefix s ''?'' then Inl FanoutBareRequest
      else if length s < 11 \<or> s ! 0 \<noteq> CHR ''#'' then Inl (FanoutInvalidTemplate s)
      else case ParseUint (slice 1 3 s) 8 of
        Inl _ \<Rightarrow> Inl (FanoutInvalidAddress (slice 1 3 s))
      | Inr _ \<Rightarrow>
          (case ParseUint (slice 3 7 s) 16 of
             Inl _ \<Rightarrow> Inl (FanoutInvalidSequence (slice 3 7 s))
           | Inr _ \<Rightarrow>
               (case ParseUint (drop payloadEnd s) 16 of
                  Inl _ \<Rightarrow> Inl (FanoutInvalidCRC (drop payloadEnd s))
                | Inr got \<Rightarrow>
                    let want = CRC16 (take payloadEnd s); payload = ToUpper (slice 7 payloadEnd s) in
                    if of_nat got \<noteq> want then Inl (FanoutCRCMismatch (of_nat got) want)
                    else Inr \<lparr>ft_seq = ToUpper (slice 3 7 s), ft_payload = payload, ft_read = HasPrefix payload ''?''\<rparr>)))"

definition frameFor :: "fanoutTemplate \<Rightarrow> byte \<Rightarrow> string" where
  "frameFor t addr = seal (''#'' @ fmtX 2 (uint addr) @ ft_seq t @ ft_payload t)"

fun fanout_addresses :: "preparedRoutes \<Rightarrow> byte list \<Rightarrow> byte list \<Rightarrow> fanout_error + byte list" where
  "fanout_addresses routes seen [] = Inr []"
| "fanout_addresses routes seen (a # as) =
     (if a = 0 then Inl FanoutAddressZero
      else if routes a = [] then Inl (FanoutUnrouted a)
      else if a \<in> set seen then fanout_addresses routes seen as
      else res_bind (fanout_addresses routes (a # seen) as) (\<lambda>out. Inr (a # out)))"

definition fanoutAddresses :: "RouterRuntime \<Rightarrow> byte list \<Rightarrow> fanout_error + byte list" where
  "fanoutAddresses rt requested =
     (if requested = [] then Inr (configuredAddresses rt) else fanout_addresses (rr_routes rt) [] requested)"

text \<open>The goroutine of one address.\<close>

definition fanout_target ::
    "CANopenSDOMap \<Rightarrow> (string \<Rightarrow> bool) \<Rightarrow> (byte \<Rightarrow> frame_env) \<Rightarrow> string \<Rightarrow> fanoutTemplate \<Rightarrow> byte \<Rightarrow> RouterRuntime \<Rightarrow>
     FanoutResponse \<times> sent list \<times> RouterRuntime" where
  "fanout_target m native envs policy t addr rt =
     (let frame = frameFor t addr;
          reply = \<lparr>fp_Address = addr, fp_RequestFrame = frame, fp_ResponseFrame = [], fp_Error = None,
                   fp_Routes = routeSnapshots rt addr\<rparr>
      in case routeAddressedFrame m native (envs addr) frame addr policy True rt of
        (Inl e, ms, rt') \<Rightarrow> (reply\<lparr>fp_Error := Some e\<rparr>, ms, rt')
      | (Inr resp, ms, rt') \<Rightarrow> (reply\<lparr>fp_ResponseFrame := resp\<rparr>, ms, rt'))"

fun fanout_run ::
    "(byte \<Rightarrow> RouterRuntime \<Rightarrow> FanoutResponse \<times> sent list \<times> RouterRuntime) \<Rightarrow> byte list \<Rightarrow> nat list \<Rightarrow> FanoutResponse list \<Rightarrow>
     RouterRuntime \<Rightarrow> FanoutResponse list \<times> sent list \<times> RouterRuntime" where
  "fanout_run target addrs [] responses rt = (responses, [], rt)"
| "fanout_run target addrs (i # js) responses rt =
     (case target (addrs ! i) rt of
        (reply, ms, rt1) \<Rightarrow>
          (case fanout_run target addrs js (responses[i := reply]) rt1 of (rs, ms', rt2) \<Rightarrow> (rs, ms @ ms', rt2)))"

definition no_response :: FanoutResponse where
  "no_response = \<lparr>fp_Address = 0, fp_RequestFrame = [], fp_ResponseFrame = [], fp_Error = None, fp_Routes = []\<rparr>"

definition Fanout ::
    "CANopenSDOMap \<Rightarrow> (string \<Rightarrow> bool) \<Rightarrow> (byte \<Rightarrow> frame_env) \<Rightarrow> (nat \<Rightarrow> nat list) \<Rightarrow> FanoutRequest \<Rightarrow> RouterRuntime \<Rightarrow>
     (fanout_error + FanoutResult) \<times> sent list \<times> RouterRuntime" where
  "Fanout m native envs schedule req rt =
     (case parseFanoutTemplate (fr_Frame req) of
        Inl e \<Rightarrow> (Inl e, [], rt)
      | Inr template \<Rightarrow>
          if \<not> ft_read template \<and> fr_WritePolicy req \<noteq> FanoutWriteAllowAddressed then (Inl WriteFanoutRejected, [], rt)
          else case fanoutAddresses rt (fr_Addresses req) of
            Inl e \<Rightarrow> (Inl e, [], rt)
          | Inr addrs \<Rightarrow>
              (case (if fr_RouteSelection req = [] then Inr (rr_RouteSelection rt)
                     else map_sum FanoutPolicy policy_name (normalizeRouteSelectionPolicy (fr_RouteSelection req))) of
                 Inl e \<Rightarrow> (Inl e, [], rt)
               | Inr policy \<Rightarrow>
                   (case fanout_run (fanout_target m native envs policy template) addrs (schedule (length addrs))
                           (replicate (length addrs) no_response) rt of
                      (responses, ms, rt') \<Rightarrow>
                        (Inr \<lparr>fs_Read = ft_read template, fs_Responses = responses\<rparr>, ms, rt'))))"

section \<open>Template frames\<close>

lemma to_upper_hex_val: "hex_val c = Some d \<Longrightarrow> d < 16 \<and> to_upper c = hex_digit d"
  by (auto simp: hex_val_def to_upper_def hex_digit_def Let_def split: if_splits)

lemma parse_hex_upper: "parse_hex_loop m 0 s = Inr n \<Longrightarrow> ToUpper s = hexN (length s) n"
proof (induction s arbitrary: n rule: rev_induct)
  case (snoc c s)
  then obtain j d where j: "parse_hex_loop m 0 s = Inr j" "hex_val c = Some d" "n = j * 16 + d"
    by (auto simp: parse_hex_loop_append res_bind_eq_Inr Let_def split: option.splits if_splits)
  then show ?case using snoc.IH to_upper_hex_val [OF j(2)] by (simp add: ToUpper_def)
qed (simp add: ToUpper_def)

lemma ParseUint_upper: "ParseUint s bits = Inr n \<Longrightarrow> ToUpper s = hexN (length s) n"
  by (auto simp: ParseUint_def parse_hex_upper split: if_splits)

lemma slice_split: "i \<le> j \<Longrightarrow> j \<le> length s \<Longrightarrow> slice i j s @ drop j s = drop i s"
  unfolding slice_def by (metis append_take_drop_id drop_drop le_add_diff_inverse2)

lemma template_frame:
  assumes "parseFanoutTemplate f = Inr t"
  obtains n where "ParseUint (slice 3 7 (TrimSpace f)) 16 = Inr n"
    "ft_payload t = ToUpper (slice 7 (length (TrimSpace f) - 4) (TrimSpace f))"
    "\<And>a. frameFor t a = seal (req_prefix a (of_nat n) (ft_payload t))"
    "ft_read t = HasPrefix (ft_payload t) ''?''"
proof -
  let ?s = "TrimSpace f"
  have "\<exists>n. ParseUint (slice 3 7 ?s) 16 = Inr n" and n2: "ft_seq t = ToUpper (slice 3 7 ?s)" "11 \<le> length ?s"
    and p: "ft_payload t = ToUpper (slice 7 (length ?s - 4) ?s)" "ft_read t = HasPrefix (ft_payload t) ''?''"
    using assms by (auto simp: parseFanoutTemplate_def Let_def split: if_splits sum.splits)
  then obtain n where n: "ParseUint (slice 3 7 ?s) 16 = Inr n" by blast
  have "n < 2 ^ 16" using ParseUint_bound [OF n] .
  moreover have "length (slice 3 7 ?s) = 4" using n2(2) by (simp add: slice_def)
  ultimately have "ft_seq t = hexN 4 (unat (of_nat n :: u16))"
    using n2(1) ParseUint_upper [OF n] by (simp add: unsigned_of_nat take_bit_nat_eq_self)
  then have "frameFor t a = seal (req_prefix a (of_nat n) (ft_payload t))" for a
    by (simp add: frameFor_def req_prefix_def fmtX_u8)
  then show thesis using that n p by auto
qed

text \<open>
  A request frame read off the text: the number sign, two hexadecimal digits of the address, four of
  the sequence number, the payload and the four digits of the checksum.
\<close>

definition request_text :: "string \<Rightarrow> u16 \<Rightarrow> string \<Rightarrow> bool" where
  "request_text frame s payload \<longleftrightarrow>
     (\<exists>addr seq crc. TrimSpace frame = CHR ''#'' # addr @ seq @ payload @ crc \<and> length addr = 2 \<and> length seq = 4 \<and> length crc = 4 \<and>
        ToUpper seq = hexN 4 (unat s))"

lemma template_text:
  assumes "parseFanoutTemplate f = Inr t"
  obtains s pl where "request_text f s pl" "ft_payload t = ToUpper pl"
    "\<And>a. frameFor t a = seal (req_prefix a s (ToUpper pl))" "ft_read t = HasPrefix (ToUpper pl) ''?''"
proof -
  let ?t = "TrimSpace f"
  obtain n where n: "ParseUint (slice 3 7 ?t) 16 = Inr n" "ft_payload t = ToUpper (slice 7 (length ?t - 4) ?t)"
    "\<And>a. frameFor t a = seal (req_prefix a (of_nat n) (ft_payload t))" "ft_read t = HasPrefix (ft_payload t) ''?''"
    using template_frame [OF assms] by blast
  have l: "11 \<le> length ?t" "?t ! 0 = CHR ''#''"
    using assms by (auto simp: parseFanoutTemplate_def Let_def split: if_splits)
  have "?t = take 1 ?t @ slice 1 3 ?t @ slice 3 7 ?t @ slice 7 (length ?t - 4) ?t @ drop (length ?t - 4) ?t"
    using l(1) by (simp add: slice_split)
  moreover have "take 1 ?t = [CHR ''#'']" using l by (cases ?t) auto
  moreover have "ToUpper (slice 3 7 ?t) = hexN 4 (unat (of_nat n :: u16))"
    using ParseUint_upper [OF n(1)] ParseUint_bound [OF n(1)] l(1)
    by (simp add: slice_def unsigned_of_nat take_bit_nat_eq_self)
  ultimately have "request_text f (of_nat n) (slice 7 (length ?t - 4) ?t)"
    unfolding request_text_def using l(1)
    by (intro exI [of _ "slice 1 3 ?t"] exI [of _ "slice 3 7 ?t"] exI [of _ "drop (length ?t - 4) ?t"]) (simp add: slice_def)
  then show thesis using that n(2-4) by metis
qed

lemma read_frame_seal: "isMeComReadFrame (seal (req_prefix a s pl)) = HasPrefix pl ''?''"
proof -
  have s: "TrimSpace (seal (req_prefix a s pl)) = req_prefix a s pl @ hexN 4 (unat (CRC16 (req_prefix a s pl)))"
    by (simp add: TrimSpace_seal)
  have "(hexN 4 n) ! 0 \<noteq> CHR ''?''" for n
  proof -
    have "hexN 4 n ! 0 \<in> set (hexN 4 n)" by (rule nth_mem) simp
    then have "hexN 4 n ! 0 \<in> set ''0123456789ABCDEF''" using set_hexN by blast
    then show ?thesis by auto
  qed
  moreover have "(req_prefix a s pl @ h) ! 7 = (pl @ h) ! 0" for h
    using nth_append_length_plus [of "CHR ''#'' # hexN 2 (unat a) @ hexN 4 (unat s)" "pl @ h" 0] by (simp add: req_prefix_def)
  moreover have "\<not> HasPrefix (req_prefix a s pl @ h) ''?''" for h by (simp add: HasPrefix_def req_prefix_def)
  ultimately show ?thesis unfolding isMeComReadFrame_def s by (cases pl) (auto simp: HasPrefix_def Let_def nth_append)
qed

section \<open>Addresses\<close>

lemma fanout_addresses_set:
  "fanout_addresses routes seen as = Inr out \<Longrightarrow>
   distinct out \<and> set out = set as - set seen \<and> (\<forall>a \<in> set out. a \<noteq> 0 \<and> routes a \<noteq> [])"
proof (induction as arbitrary: seen out)
  case (Cons a as)
  show ?case
  proof (cases "a \<in> set seen")
    case True
    then have "fanout_addresses routes seen as = Inr out" using Cons.prems by (auto split: if_splits)
    then show ?thesis using Cons.IH True by auto
  next
    case False
    then obtain o1 where o1: "fanout_addresses routes (a # seen) as = Inr o1" "out = a # o1" "a \<noteq> 0" "routes a \<noteq> []"
      using Cons.prems by (auto simp: res_bind_eq_Inr split: if_splits)
    then show ?thesis using Cons.IH [OF o1(1)] False by auto
  qed
qed simp

lemma configured_set: "set (configuredAddresses rt) = {a. rr_routes rt a \<noteq> []}"
proof -
  have "a \<in> word_of_nat ` {0..<256}" for a :: byte
    by (rule image_eqI [where x = "unat a"]) (use unat_byte_bound [of a] in auto)
  then show ?thesis unfolding configuredAddresses_def by auto
qed

lemma configured_distinct: "distinct (configuredAddresses rt)"
proof -
  have "unat (word_of_nat n :: byte) = n" if "n < 256" for n using that by (simp add: unat_of_nat)
  then have "inj_on (word_of_nat :: nat \<Rightarrow> byte) {0..<256}" by (intro inj_on_inverseI [where g = unat]) simp
  then show ?thesis unfolding configuredAddresses_def by (simp add: distinct_map)
qed

lemma fanoutAddresses_set:
  assumes "fanoutAddresses rt req = Inr addrs" and "routes_wf (rr_routes rt)"
  shows "distinct addrs \<and> (\<forall>a \<in> set addrs. a \<noteq> 0 \<and> rr_routes rt a \<noteq> []) \<and>
    set addrs = (if req = [] then {a. rr_routes rt a \<noteq> []} else set req)"
  using assms fanout_addresses_set [of "rr_routes rt" "[]" req addrs] configured_set [of rt] configured_distinct [of rt]
  by (auto simp: fanoutAddresses_def routes_wf_def split: if_splits)

section \<open>Running the targets\<close>

abbreviation handed_over :: "string \<Rightarrow> byte \<Rightarrow> string" where
  "handed_over frame a \<equiv> rewriteRouteAddressZeroRequest (rewriteRouteCompatibilityFrame frame) a"

lemma routeAddressedFrame_sent:
  assumes "routes_wf (rr_routes rt)"
    and "routeAddressedFrame m native env frame addr policy useCache rt = (r, ms, rt')"
  shows "sent_to (rr_routes rt) (isMeComReadFrame frame) (handed_over frame addr) addr ms \<and> rr_routes rt' = rr_routes rt \<and>
    rr_RouteSelection rt' = rr_RouteSelection rt \<and> (\<forall>d. d \<noteq> addr \<longrightarrow> rr_devices rt' d = rr_devices rt d)"
  using assms(2) route_cached_ordered [OF assms(1), of addr m native env frame]
  by (auto simp: routeAddressedFrame_def Let_def split: if_splits sum.splits prod.splits)

abbreviation sends_of :: "byte \<Rightarrow> sent list \<Rightarrow> sent list" where
  "sends_of a \<equiv> filter (\<lambda>s. rb_address (fst s) = a)"

lemma sent_to_sends: "sent_to routes rd f a ms \<Longrightarrow> sends_of b ms = (if b = a then ms else [])"
  by (auto simp: sent_to_def list_all_iff filter_empty_conv)

lemma fanout_target_sent:
  assumes "routes_wf (rr_routes rt)" and "\<And>a. isMeComReadFrame (frameFor t a) = ft_read t"
    and "fanout_target m native envs policy t a rt = (reply, ms, rt')"
  shows "fp_Address reply = a" "fp_RequestFrame reply = frameFor t a" "sent_to (rr_routes rt) (ft_read t) (handed_over (frameFor t a) a) a ms"
    "rr_routes rt' = rr_routes rt" "d \<noteq> a \<Longrightarrow> rr_devices rt' d = rr_devices rt d"
proof -
  obtain r where r: "routeAddressedFrame m native (envs a) (frameFor t a) a policy True rt = (r, ms, rt')"
    using assms(3) by (auto simp: fanout_target_def Let_def split: prod.splits sum.splits)
  show "sent_to (rr_routes rt) (ft_read t) (handed_over (frameFor t a) a) a ms" "rr_routes rt' = rr_routes rt" "d \<noteq> a \<Longrightarrow> rr_devices rt' d = rr_devices rt d"
    using routeAddressedFrame_sent [OF assms(1) r] assms(2) by auto
  show "fp_Address reply = a" "fp_RequestFrame reply = frameFor t a"
    using assms(3) r by (auto simp: fanout_target_def Let_def split: sum.splits)
qed

lemma fanout_run_sent:
  assumes "\<And>a. isMeComReadFrame (frameFor t a) = ft_read t"
  shows "fanout_run (fanout_target m native envs policy t) addrs js responses rt = (rs, ms, rt') \<Longrightarrow>
    routes_wf (rr_routes rt) \<Longrightarrow> distinct js \<Longrightarrow> distinct addrs \<Longrightarrow> set js \<subseteq> {..<length addrs} \<Longrightarrow>
    length responses = length addrs \<Longrightarrow>
    length rs = length addrs \<and> (\<forall>j. j \<notin> set js \<longrightarrow> rs ! j = responses ! j) \<and>
    (\<forall>j \<in> set js. fp_Address (rs ! j) = addrs ! j \<and> fp_RequestFrame (rs ! j) = frameFor t (addrs ! j)) \<and>
    (\<forall>a. sent_to (rr_routes rt) (ft_read t) (handed_over (frameFor t a) a) a (sends_of a ms) \<and>
         (a \<notin> (!) addrs ` set js \<longrightarrow> sends_of a ms = [] \<and> rr_devices rt' a = rr_devices rt a))"
proof (induction js arbitrary: responses rt rs ms rt')
  case (Cons i js)
  obtain reply ms1 rt1 where t: "fanout_target m native envs policy t (addrs ! i) rt = (reply, ms1, rt1)" by (metis prod.exhaust)
  obtain ms2 where r: "fanout_run (fanout_target m native envs policy t) addrs js (responses[i := reply]) rt1 = (rs, ms2, rt')"
    and ms: "ms = ms1 @ ms2"
    using Cons.prems(1) t by (auto split: prod.splits)
  note s = fanout_target_sent [OF Cons.prems(2) assms t]
  have ih: "length rs = length addrs" "\<And>j. j \<notin> set js \<Longrightarrow> rs ! j = responses[i := reply] ! j"
    "\<And>j. j \<in> set js \<Longrightarrow> fp_Address (rs ! j) = addrs ! j \<and> fp_RequestFrame (rs ! j) = frameFor t (addrs ! j)"
    "\<And>a. sent_to (rr_routes rt) (ft_read t) (handed_over (frameFor t a) a) a (sends_of a ms2)"
    "\<And>a. a \<notin> (!) addrs ` set js \<Longrightarrow> sends_of a ms2 = [] \<and> rr_devices rt' a = rr_devices rt1 a"
    using Cons.IH [OF r] Cons.prems s(4) by auto
  have i: "i < length addrs" "i \<notin> set js" using Cons.prems by auto
  then have own: "addrs ! i \<notin> (!) addrs ` set js" using Cons.prems by (auto simp: nth_eq_iff_index_eq)
  have "sent_to (rr_routes rt) (ft_read t) (handed_over (frameFor t a) a) a (sends_of a ms)" for a
    using ms sent_to_sends [OF s(3), of a] s(3) ih(4) [of a] ih(5) [OF own] by auto
  moreover have "sends_of a ms = [] \<and> rr_devices rt' a = rr_devices rt a" if "a \<notin> (!) addrs ` set (i # js)" for a
    using that ms sent_to_sends [OF s(3), of a] ih(5) [of a] s(5) by auto
  ultimately show ?case using ih(1-3) s(1,2) i Cons.prems(6) by auto
qed simp

lemma NewRouterRuntime_wf: "NewRouterRuntime m dir files cfg = Inr rt \<Longrightarrow> routes_wf (rr_routes rt)"
  by (auto simp: NewRouterRuntime_def Let_def res_bind_eq_Inr dest: prepareRoutes_wf(1))

lemma schedule_facts:
  assumes "mset xs = mset [0..<n]"
  shows "distinct xs" "set xs = {..<n}"
  using mset_eq_setD [OF assms] mset_eq_imp_distinct_iff [OF assms] by auto

section \<open>Properties\<close>


definition demo_settings :: RouterSettings where
  "demo_settings = RouterConfig.extend demo_config
     \<lparr>rs_RequestTimeout = 0, rs_ReconnectDelay = 0, rs_ClientIdleTimeout = 0, rs_CommandIdempotencyTTL = 0\<rparr>"

definition demo_fanout :: FanoutRequest where
  "demo_fanout = \<lparr>fr_Frame = routedRequestFrame 0 7 ''?VR03E801'', fr_Addresses = [], fr_RouteSelection = [],
     fr_WritePolicy = FanoutWriteReject\<rparr>"


end
