(* ===== verification/RuntimeClient.thy ===== *)
theory RuntimeClient
  imports RouterRuntime Client
begin

text \<open>
  The read client of the router runtime (\<open>mecomserver/runtime_client.go\<close>): MeCom requests of one
  device, numbered by the client and routed by \<open>routeAddressedFrame\<close> without the command cache.  A
  method returns its result, the frames handed to brokers, the client and the runtime.
\<close>

record RouterDeviceClientConfig =
  rdc_Address :: byte
  rdc_RequestTimeout :: int
  rdc_RouteSelection :: string
  rdc_SupportsRingReadout :: bool

record runtimeReadClient =
  rc_addr :: byte
  rc_timeout :: int
  rc_routeSelection :: string
  rc_supportsRingRead :: bool
  rc_seq :: u16

definition NewReadClient :: "RouterDeviceClientConfig \<Rightarrow> runtimeReadClient" where
  "NewReadClient cfg =
     \<lparr>rc_addr = rdc_Address cfg, rc_timeout = rdc_RequestTimeout cfg, rc_routeSelection = rdc_RouteSelection cfg,
      rc_supportsRingRead = rdc_SupportsRingReadout cfg, rc_seq = 0\<rparr>"

definition ReadClient :: "byte \<Rightarrow> runtimeReadClient" where
  "ReadClient addr =
     NewReadClient \<lparr>rdc_Address = addr, rdc_RequestTimeout = 0, rdc_RouteSelection = [], rdc_SupportsRingReadout = False\<rparr>"

definition runtime_SupportsRingReadout :: "runtimeReadClient \<Rightarrow> bool" where
  "runtime_SupportsRingReadout c = rc_supportsRingRead c"

definition nextSequence :: "runtimeReadClient \<Rightarrow> runtimeReadClient" where
  "nextSequence c = (let s = rc_seq c + 1 in c\<lparr>rc_seq := (if s = 0 then 1 else s)\<rparr>)"

datatype runtime_error = RuntimeRoute addressed_error | RuntimeMecom mecom_error

type_synonym 'a runtime_result = "(runtime_error + 'a) \<times> sent list \<times> runtimeReadClient \<times> RouterRuntime"

definition runtime_roundTrip ::
    "CANopenSDOMap \<Rightarrow> (string \<Rightarrow> bool) \<Rightarrow> frame_env \<Rightarrow> (u16 \<Rightarrow> mecom_error + string) \<Rightarrow> runtimeReadClient \<Rightarrow> RouterRuntime \<Rightarrow>
     string runtime_result" where
  "runtime_roundTrip m native env build c0 rt =
     (let c = nextSequence c0 in
      case build (rc_seq c) of
        Inl e \<Rightarrow> (Inl (RuntimeMecom e), [], c, rt)
      | Inr frame \<Rightarrow>
          (case routeAddressedFrame m native env frame (rc_addr c) (rc_routeSelection c) False rt of
             (r, ms, rt') \<Rightarrow> (map_sum RuntimeRoute (\<lambda>x. x) r, ms, c, rt')))"

text \<open>A round trip whose answer is read by \<open>parse\<close>.\<close>

definition parsed :: "(string \<Rightarrow> mecom_error + 'a) \<Rightarrow> string runtime_result \<Rightarrow> 'a runtime_result" where
  "parsed parse res =
     (case res of (r, rest) \<Rightarrow> (res_bind r (\<lambda>raw. map_sum RuntimeMecom (\<lambda>x. x) (parse raw)), rest))"

definition runtime_ReadFloat32 ::
    "CANopenSDOMap \<Rightarrow> (string \<Rightarrow> bool) \<Rightarrow> frame_env \<Rightarrow> int \<Rightarrow> int \<Rightarrow> runtimeReadClient \<Rightarrow> RouterRuntime \<Rightarrow> f64 runtime_result" where
  "runtime_ReadFloat32 m native env paramID inst c =
     parsed (\<lambda>raw. ParseSingleResponse raw DataTypeFloat32) \<circ>
     runtime_roundTrip m native env (\<lambda>seq. Inr (BuildSingleGetFrame (uint (rc_addr c)) seq paramID inst)) c"

text \<open>\<open>int32(v)\<close> of a value that an integer answer decodes to is exact; \<open>None\<close> stands for the unspecified conversions.\<close>

definition runtime_ReadInt32 ::
    "CANopenSDOMap \<Rightarrow> (string \<Rightarrow> bool) \<Rightarrow> frame_env \<Rightarrow> int \<Rightarrow> int \<Rightarrow> runtimeReadClient \<Rightarrow> RouterRuntime \<Rightarrow>
     u32 option runtime_result" where
  "runtime_ReadInt32 m native env paramID inst c =
     parsed (\<lambda>raw. map_sum (\<lambda>e. e) int32_of_f64 (ParseSingleResponse raw DataTypeInt32)) \<circ>
     runtime_roundTrip m native env (\<lambda>seq. Inr (BuildSingleGetFrame (uint (rc_addr c)) seq paramID inst)) c"

definition runtime_ReadBulk ::
    "CANopenSDOMap \<Rightarrow> (string \<Rightarrow> bool) \<Rightarrow> frame_env \<Rightarrow> Parameter list \<Rightarrow> runtimeReadClient \<Rightarrow> RouterRuntime \<Rightarrow>
     f64 list runtime_result" where
  "runtime_ReadBulk m native env params c =
     parsed (\<lambda>raw. ParseBulkResponse raw params) \<circ>
     runtime_roundTrip m native env (\<lambda>seq. Inr (BuildBulkGetFrame (uint (rc_addr c)) seq params)) c"

definition runtime_ConfigureRingCapture ::
    "CANopenSDOMap \<Rightarrow> (string \<Rightarrow> bool) \<Rightarrow> frame_env \<Rightarrow> u16 \<Rightarrow> RingCaptureParameter list \<Rightarrow> runtimeReadClient \<Rightarrow> RouterRuntime \<Rightarrow>
     unit runtime_result" where
  "runtime_ConfigureRingCapture m native env captureID params c =
     parsed ParseRingCaptureConfigResponse \<circ>
     runtime_roundTrip m native env (\<lambda>seq. BuildRingCaptureConfigFrame (uint (rc_addr c)) seq captureID params) c"

definition runtime_TriggerRingSync ::
    "CANopenSDOMap \<Rightarrow> (string \<Rightarrow> bool) \<Rightarrow> frame_env \<Rightarrow> runtimeReadClient \<Rightarrow> RouterRuntime \<Rightarrow> unit runtime_result" where
  "runtime_TriggerRingSync m native env c =
     parsed ParseWriteResponse \<circ>
     runtime_roundTrip m native env (\<lambda>seq. Inr (BuildRingTriggerSyncFrame (uint (rc_addr c)) seq)) c"

definition runtime_ReadRingPointer ::
    "CANopenSDOMap \<Rightarrow> (string \<Rightarrow> bool) \<Rightarrow> frame_env \<Rightarrow> runtimeReadClient \<Rightarrow> RouterRuntime \<Rightarrow> u32 runtime_result" where
  "runtime_ReadRingPointer m native env c =
     parsed ParseRingPointerResponse \<circ>
     runtime_roundTrip m native env (\<lambda>seq. Inr (BuildRingPointerFrame (uint (rc_addr c)) seq)) c"

definition runtime_ReadRingChunk ::
    "CANopenSDOMap \<Rightarrow> (string \<Rightarrow> bool) \<Rightarrow> frame_env \<Rightarrow> u32 \<Rightarrow> u16 \<Rightarrow> runtimeReadClient \<Rightarrow> RouterRuntime \<Rightarrow>
     RingReadResponse runtime_result" where
  "runtime_ReadRingChunk m native env start maxBytes c =
     parsed ParseRingReadResponse \<circ>
     runtime_roundTrip m native env (\<lambda>seq. Inr (BuildRingReadFrame (uint (rc_addr c)) seq start maxBytes)) c"

section \<open>An answered read\<close>

lemma nextSequence_not_zero: "rc_seq (nextSequence c) \<noteq> 0" "rc_addr (nextSequence c) = rc_addr c"
    "rc_routeSelection (nextSequence c) = rc_routeSelection c"
  by (simp_all add: nextSequence_def Let_def)

lemma normalize_policy_name: "normalizeRouteSelectionPolicy (policy_name p) = Inr p"
  by (cases p) (simp_all add: normalizeRouteSelectionPolicy_def policy_name_def ToLower_def to_lower_def TrimSpace_def is_space_def)

lemma policy_name_not_empty: "policy_name p \<noteq> []"
  by (cases p) (simp_all add: policy_name_def)

text \<open>
  The first send of an addressed read that is answered with data: the frame goes unchanged to one
  route of the device, the answer is returned and the device's state has observed it.
\<close>

lemma routeFrame_answered:
  assumes "routes_wf routes" and "routes a \<noteq> []" and "a \<noteq> 0" and "routeRequestAliases (ToUpper pl) = None" and "HasPrefix pl ''?''"
    and "sends 0 = (Answer resp, alive)" and "meComResponseNACKCode resp = None" and frame: "frame = seal (req_prefix a s pl)"
  obtains c where "c \<in> set (routes a)"
    "routeFrame m benv sends native frame (orderRouteCandidates (routes a) policy True) devs =
       (Inr resp, [(c, frame)], devs(a := deviceBridgeObserveFrame m benv frame resp (devs a)))"
proof -
  let ?o = "orderRouteCandidates (routes a) policy True"
  let ?cs = "preferNativeMeComRouteForVirtualRead (bridge_tables_of m) native frame ?o"
  have rd: "isMeComReadFrame frame" using assms(5) by (simp add: frame read_frame_seal)
  have un: "rewriteRouteCompatibilityFrame frame = frame" using unaliased_request [OF assms(4)] frame by simp
  note nz = addressed_not_zero [OF assms(3), of s pl, folded frame]
  have "set ?cs = set (routes a)" by (auto simp: preferNativeMeComRouteForVirtualRead_def Let_def orderRouteCandidates_def)
  moreover obtain c cs where cs: "?cs = c # cs" using calculation assms(2) by (cases ?cs) auto
  ultimately have c: "c \<in> set (routes a)" by (metis list.set_intros(1))
  then have "rb_address c = a" using assms(1) by (auto simp: routes_wf_def list_all_iff)
  then have "routeFrame m benv sends native frame ?o devs =
       (Inr resp, [(c, frame)], devs(a := deviceBridgeObserveFrame m benv frame resp (devs a)))"
    using rd un nz cs assms(6,7)
    by (simp add: routeFrame_def rewriteRouteAddressZeroRequest_def restoreRouteAddressZeroResponse_def numeral_2_eq_2 Let_def)
  then show thesis using that c by blast
qed

lemma runtime_roundTrip_answered:
  assumes "NewRouterRuntime m dir files cfg = Inr rt0" and "rt = rt0\<lparr>rr_commandCache := cache, rr_devices := devs\<rparr>"
    and "rr_routes rt a \<noteq> []" and "rc_addr c = a" and "rc_routeSelection c = []"
    and "routeRequestAliases (ToUpper pl) = None" and "HasPrefix pl ''?''"
    and "build (rc_seq (nextSequence c)) = Inr frame" and frame: "frame = seal (req_prefix a (rc_seq (nextSequence c)) pl)"
    and "fe_sends env 0 = (Answer resp, alive)" and "meComResponseNACKCode resp = None"
  obtains b where "b \<in> set (rr_routes rt a)"
    "runtime_roundTrip m native env build c rt =
       (Inr resp, [(b, frame)], nextSequence c,
        rt\<lparr>rr_devices := devs(a := deviceBridgeObserveFrame m (fe_bridge env) frame resp (devs a))\<rparr>)"
proof -
  have wf: "routes_wf (rr_routes rt)" using NewRouterRuntime_wf [OF assms(1)] assms(2) by simp
  obtain policy where p: "rr_RouteSelection rt = policy_name policy"
    using assms(1,2) by (auto simp: NewRouterRuntime_def Let_def res_bind_eq_Inr)
  have a: "a \<noteq> 0" using wf assms(3) by (auto simp: routes_wf_def)
  have rd: "isMeComReadFrame frame" using assms(7) by (simp add: frame read_frame_seal)
  have d: "rr_devices rt = devs" using assms(2) by simp
  obtain b where b: "b \<in> set (rr_routes rt a)"
    "routeFrame m (fe_bridge env) (fe_sends env) native frame (orderRouteCandidates (rr_routes rt a) policy True) (rr_devices rt) =
       (Inr resp, [(b, frame)], (rr_devices rt)(a := deviceBridgeObserveFrame m (fe_bridge env) frame resp (rr_devices rt a)))"
    by (rule routeFrame_answered [where routes = "rr_routes rt" and m = m and benv = "fe_bridge env" and native = native
          and policy = policy and devs = "rr_devices rt" and sends = "fe_sends env", OF wf assms(3) a assms(6,7) assms(10,11) frame]) blast
  have "runtime_roundTrip m native env build c rt =
       (Inr resp, [(b, frame)], nextSequence c,
        rt\<lparr>rr_devices := devs(a := deviceBridgeObserveFrame m (fe_bridge env) frame resp (devs a))\<rparr>)"
    using assms(3,4,5,8) a b(2) rd d
    by (simp add: runtime_roundTrip_def routeAddressedFrame_def p normalize_policy_name policy_name_not_empty
        nextSequence_not_zero route_cached_uncached Let_def)
  then show thesis using that b(1) by blast
qed

end
