(* ===== verification/RuntimeReads.thy ===== *)
theory RuntimeReads
  imports RuntimeClient BridgeAnswers
begin

text \<open>
  The runtime's read client, the router, a route and the device bridge behind it composed: what the
  client of \<open>runtime_client.go\<close> reads of a device that \<open>device_bridge.go\<close> serves, and what the router's
  own cache of that device holds afterwards.
\<close>

section \<open>Observing a read\<close>

lemma fmt32_hex: "fmt32 v = hexN 8 (unat v)"
  by (simp add: fmt32_def fmtX_u32)

lemma data_frame: "deviceBridgeData a s (fmt32 v) = seal (resp_prefix a s (fmt32 v))"
  by (simp add: response_seal)

lemma fmt32_first: "(fmt32 v @ t) ! 0 \<notin> {CHR ''+'', CHR ''-''}"
proof -
  have "(fmt32 v @ t) ! 0 \<in> set (hexN 8 (unat v))" by (simp add: fmt32_hex nth_append)
  then have "(fmt32 v @ t) ! 0 \<in> set ''0123456789ABCDEF''" using set_hexN by blast
  then show ?thesis by auto
qed

lemma resp_frame_simps:
  "resp_prefix a s pl \<noteq> []" "hd (resp_prefix a s pl) = CHR ''!''" "(resp_prefix a s pl @ t) ! 0 = CHR ''!''"
  "length (resp_prefix a s pl) = 7 + length pl" "(resp_prefix a s pl @ t) ! 7 = (pl @ t) ! 0"
  "slice (Suc 0) 3 (resp_prefix a s pl @ t) = hexN 2 (unat a)" "slice 3 7 (resp_prefix a s pl @ t) = hexN 4 (unat s)"
  "slice 7 (7 + length pl) (resp_prefix a s pl @ t) = pl"
  using nth_append_length_plus [of "CHR ''!'' # hexN 2 (unat a) @ hexN 4 (unat s)" "pl @ t" 0]
  by (simp_all add: resp_prefix_def slice_def)

lemma data_not_nack: "meComResponseNACKCode (deviceBridgeData a s (fmt32 v)) = None"
proof -
  have "(resp_prefix a s (fmt32 v) @ t) ! 7 \<noteq> CHR ''-''" for t using fmt32_first [of v t] by (simp add: resp_frame_simps)
  then show ?thesis by (simp add: meComResponseNACKCode_def data_frame TrimSpace_seal resp_frame_simps Let_def)
qed

lemma data_payload:
  assumes "dr_address req = a" and "dr_seq req = s"
  shows "parseDeviceBridgeResponsePayload req (deviceBridgeData a s (fmt32 v)) = Some (fmt32 v)"
proof -
  let ?t = "hexN 4 (unat (CRC16 (resp_prefix a s (fmt32 v))))"
  have "(resp_prefix a s (fmt32 v) @ ?t) ! 7 \<notin> {CHR ''+'', CHR ''-''}" using fmt32_first [of v ?t] by (simp add: resp_frame_simps)
  moreover have "ToUpper (fmt32 v) = fmt32 v" by (simp add: fmt32_hex)
  moreover have "length (fmt32 v) = 8" by (simp add: fmt32_hex)
  moreover have "slice 7 15 (resp_prefix a s (fmt32 v) @ ?t) = fmt32 v"
    using resp_frame_simps(8) [where a = a and s = s and pl = "fmt32 v" and t = ?t] calculation(3) by simp
  ultimately show ?thesis using assms
    by (simp add: parseDeviceBridgeResponsePayload_def data_frame TrimSpace_seal trim_suffix1_hex verifyDeviceBridgeCRC_sealed
        resp_frame_simps ParseUint_hexN_u8 ParseUint_hexN_u16 Let_def)
qed

definition observed_float :: "u32 \<Rightarrow> gotime \<Rightarrow> deviceBridgeVirtualParameterValue" where
  "observed_float v now = (zero_value DataTypeFloat32 SourceDownstream)\<lparr>dv_float := float64_of_float32 v, dv_liveRefresh := True, dv_updatedAt := now\<rparr>"

lemma flush_soft [simp]: "ds_softParameters (flushCacheBestEffort env b) = ds_softParameters b"
  by (simp add: flushCacheBestEffort_def)

lemma store_found:
  assumes "instance_ok m pid inst" and "deviceBridgeParameterTypeSupported (dv_typ v)"
  shows "\<exists>now. map_of (ds_softParameters (snd (state_storeParameterValue m env pid inst v b))) (pid, inst) =
    Some (v\<lparr>dv_updatedAt := now\<rparr>)"
proof -
  have "\<exists>now. v = v\<lparr>dv_updatedAt := now\<rparr>" by (rule exI [of _ "dv_updatedAt v"]) simp
  then show ?thesis using assms
    by (auto simp: state_storeParameterValue_def store_storeParameterValue_def time_Now_def Let_def split: if_splits)
qed

lemma observe_single_read:
  fixes a i :: byte and p :: u16
  assumes "frame = BuildSingleGetFrame (uint a) s (uint p) (uint i)" and "resp = deviceBridgeData a s (fmt32 v)"
    and "deviceBridgeParameterType m (uint p) = DataTypeFloat32" and "\<not> f32_isNaN v" and "instance_ok m (uint p) (uint i)"
  shows "\<exists>now. map_of (ds_softParameters (deviceBridgeObserveFrame m env frame resp b)) (uint p, uint i) = Some (observed_float v now)"
proof -
  let ?pl = "''?VR'' @ encoded_parameter p i"
  have f: "frame = seal (req_prefix a s ?pl)"
    by (simp add: assms(1) BuildSingleGetFrame_def encoded_parameter_def fmtX_u8 fmtX_u16 appendCRC_request [symmetric])
  have u: "ToUpper ?pl = ?pl" by (simp only: ToUpper_append ToUpper_commands encoded_parameter)
  have t: "TrimSpace ?pl = ?pl" "TrimSpace (fmt32 v) = fmt32 v"
    by (rule TrimSpace_no_space; auto simp: fmt32_hex encoded_parameter_def is_space_def dest: hexN_not_space)+
  have v: "observed_value m (uint p) DataTypeFloat32 (fmt32 v) =
      Some ((zero_value DataTypeFloat32 [])\<lparr>dv_float := float64_of_float32 v\<rparr>)"
    using assms(4) by (simp add: observed_value_def decode_value_def decode_bits_def fmt32_hex ParseUint_hexN_u32
        DataTypeInt32_def DataTypeFloat32_def float64_of_float32_not_NaN Let_def)
  obtain now b1 where n: "time_Now env b = (now, b1)" by force
  let ?v = "(zero_value DataTypeFloat32 [])\<lparr>dv_float := float64_of_float32 v, dv_source := SourceDownstream,
    dv_liveRefresh := True, dv_updatedAt := now\<rparr>"
  have sup: "deviceBridgeParameterTypeSupported DataTypeFloat32" "DataTypeFloat32 \<noteq> []"
    by (simp_all add: deviceBridgeParameterTypeSupported_def DataTypeFloat32_def)
  have "deviceBridgeObserveFrame m env frame resp b = deviceBridgeObservePayload m env ?pl (fmt32 v) b"
    using data_payload [of "\<lparr>dr_raw = frame, dr_address = a, dr_seq = s, dr_payload = ?pl\<rparr>" a s v] u f
    by (simp add: deviceBridgeObserveFrame_def parse_request_seal assms(2))
  also have "\<dots> = deviceBridgeObserveHexValue m env (uint p) (uint i) DataTypeFloat32 (fmt32 v) SourceDownstream True b"
    using t u assms(3) by (simp add: deviceBridgeObservePayload_def HasPrefix_def fmt32_hex Let_def)
  also have "\<dots> = snd (state_storeParameterValue m env (uint p) (uint i) ?v b1)"
    using n v sup by (simp add: deviceBridgeObserveHexValue_def Let_def)
  finally show ?thesis using store_found [OF assms(5), of ?v env b1] sup(1) by (simp add: observed_float_def zero_value_def)
qed

section \<open>Properties\<close>

text \<open>
  C10.  A read through the runtime is a read of the device: when a route of the addressed device
  answers as the device bridge does, the runtime's client gets exactly the float that the device
  client returned, after one typed read of the device and one frame handed to one of the device's
  routes, for every route table, order of the routes and state of the runtime; and the router's own
  cache of that device then holds that value, marked as read from downstream.
\<close>

theorem runtime_read_end_to_end:
  fixes a i :: byte and p :: u16
  assumes "NewRouterRuntime m dir files cfg = Inr rt0" and "rt = rt0\<lparr>rr_commandCache := cache, rr_devices := devs\<rparr>"
    and "rr_routes rt a \<noteq> []" and "rc_addr c = a" and "rc_routeSelection c = []"
    and "plain m (uint p)" and "deviceBridgeParameterType m (uint p) = DataTypeFloat32"
    and "frame = BuildSingleGetFrame (uint a) (rc_seq (nextSequence c)) (uint p) (uint i)"
    and "handleDeviceClientFrameWithState m denv frame b = (resp, b')"
    and "dc_ReadFloat32 (be_client denv) (bg_calls b) (uint p) (uint i) = Inr (float64_of_float32 v)" and "\<not> f32_isNaN v"
    and "fe_sends env 0 = (Answer resp, alive)"
    and "runtime_ReadFloat32 m native env (uint p) (uint i) c rt = (r, ms, c', rt')"
  shows "r = Inr (F64_of_float32 v) \<and> bg_calls b' = bg_calls b @ [CallReadFloat32 (uint p) (uint i)] \<and>
    (\<exists>x \<in> set (rr_routes rt a). ms = [(x, frame)]) \<and>
    (instance_ok m (uint p) (uint i) \<longrightarrow>
      (\<exists>now. map_of (ds_softParameters (rr_devices rt' a)) (uint p, uint i) = Some (observed_float v now)))"
proof -
  let ?s = "rc_seq (nextSequence c)" and ?pl = "''?VR'' @ encoded_parameter p i"
  have resp: "resp = deviceBridgeData a ?s (fmt32 v)" "bg_calls b' = bg_calls b @ [CallReadFloat32 (uint p) (uint i)]"
    using assms(6,7,9,10,11) unfolding assms(8) handle_single_read
    by (auto simp: plain_def single_value_def read_float_def client_ReadFloat32_def log_call_def DataTypeFloat32_def
        DataTypeInt32_def float32_of_float64_of_float32 Let_def split: option.splits)
  have f: "frame = seal (req_prefix a ?s ?pl)"
    by (simp add: assms(8) BuildSingleGetFrame_def encoded_parameter_def fmtX_u8 fmtX_u16 appendCRC_request [symmetric])
  have u: "ToUpper ?pl = ?pl" by (simp only: ToUpper_append ToUpper_commands encoded_parameter)
  have al: "routeRequestAliases (ToUpper ?pl) = None" unfolding u by (simp add: routeRequestAliases_def)
  have q: "HasPrefix ?pl ''?''" by (simp add: HasPrefix_def)
  obtain x where x: "x \<in> set (rr_routes rt a)"
    "runtime_roundTrip m native env (\<lambda>seq. Inr (BuildSingleGetFrame (uint (rc_addr c)) seq (uint p) (uint i))) c rt =
       (Inr resp, [(x, frame)], nextSequence c,
        rt\<lparr>rr_devices := devs(a := deviceBridgeObserveFrame m (fe_bridge env) frame resp (devs a))\<rparr>)"
    by (rule runtime_roundTrip_answered [where build = "\<lambda>seq. Inr (BuildSingleGetFrame (uint (rc_addr c)) seq (uint p) (uint i))"
          and native = native and env = env, OF assms(1,2,3,4,5) al q _ f assms(12)])
      (simp_all add: assms(4,8) resp(1) data_not_nack)
  have "r = Inr (F64_of_float32 v)" "ms = [(x, frame)]" "rr_devices rt' a = deviceBridgeObserveFrame m (fe_bridge env) frame resp (devs a)"
    using assms(13) x(2) by (auto simp: runtime_ReadFloat32_def parsed_def resp(1) parse_fmt32 decoded_def
        DataTypeFloat32_def DataTypeInt32_def)
  then show ?thesis using x(1) resp(2) observe_single_read [OF assms(8) resp(1) assms(7,11)] by auto
qed

definition float_env :: bridge_env where
  "float_env = demo_env\<lparr>be_client := deviceBridgeVirtualOnlyClient\<lparr>dc_ReadFloat32 := (\<lambda>_ _ _. Inr (float64_of_float32 0x41C80000))\<rparr>\<rparr>"

definition float_sends :: frame_env where
  "float_sends = demo_frame_env\<lparr>fe_sends := (\<lambda>_. (Answer (fst (handleDeviceClientFrameWithState demo_bridge_map float_env
     (BuildSingleGetFrame 2 1 1000 1) demo_bridge)), True))\<rparr>"

theorem runtime_read_end_to_end_witness:
  "\<exists>rt. NewRouterRuntime demo_bridge_map [] (\<lambda>_. None) demo_settings = Inr rt \<and>
     fst (runtime_ReadFloat32 demo_bridge_map (\<lambda>_. True) float_sends 1000 1 (ReadClient 2) rt) = Inr (F64_of_float32 0x41C80000)"
proof -
  have "\<exists>rt. NewRouterRuntime demo_bridge_map [] (\<lambda>_. None) demo_settings = Inr rt \<and> rr_routes rt 2 \<noteq> []"
    by (simp add: NewRouterRuntime_def applyRouterDefaults_def demo_settings_def demo_config_def prepareRoutes_def
        normalizeRouteSelectionPolicy_def ToLower_def to_lower_def TrimSpace_def is_space_def add_route_def
        newAddressZeroSelector_def RouterConfig.defs Let_def)
  then obtain rt where rt: "NewRouterRuntime demo_bridge_map [] (\<lambda>_. None) demo_settings = Inr rt" "rr_routes rt 2 \<noteq> []" by blast
  let ?c = "ReadClient 2" and ?p = "1000 :: u16" and ?i = "1 :: byte"
  have c: "rc_addr ?c = 2" "rc_routeSelection ?c = []" "rc_seq (nextSequence ?c) = 1"
    by (simp_all add: ReadClient_def NewReadClient_def nextSequence_def Let_def)
  obtain resp b' where h: "handleDeviceClientFrameWithState demo_bridge_map float_env
      (BuildSingleGetFrame (uint (2 :: byte)) (rc_seq (nextSequence ?c)) (uint ?p) (uint ?i)) demo_bridge = (resp, b')" by force
  obtain r ms c' rt' where x: "runtime_ReadFloat32 demo_bridge_map (\<lambda>_. True) float_sends (uint ?p) (uint ?i) ?c rt = (r, ms, c', rt')"
    by (metis prod.exhaust)
  have p: "plain demo_bridge_map (uint ?p)" "deviceBridgeParameterType demo_bridge_map (uint ?p) = DataTypeFloat32"
    using demo_direct(2) demo_types(2) by (simp_all add: direct_def)
  have d: "dc_ReadFloat32 (be_client float_env) (bg_calls demo_bridge) (uint ?p) (uint ?i) = Inr (float64_of_float32 0x41C80000)"
    by (simp add: float_env_def)
  have n: "\<not> f32_isNaN 0x41C80000" by (simp add: f32_isNaN_def f32_exp_def f32_frac_def)
  have e: "fe_sends float_sends 0 = (Answer resp, True)" using h c(3) by (simp add: float_sends_def)
  have "rt = rt\<lparr>rr_commandCache := rr_commandCache rt, rr_devices := rr_devices rt\<rparr>" by simp
  from runtime_read_end_to_end [OF rt(1) this rt(2) c(1,2) p refl h d n e x] rt(1) x show ?thesis by auto
qed

end
