(* ===== verification/Reduction.thy ===== *)
theory Reduction
  imports RingStream
begin

text \<open>
  The reduction of ring samples to one value per capture slot, \<open>mecom/reduction.go\<close>.  The running
  statistics are those of \<open>signalforge/stats\<close>, which is not part of the repository: a window is an
  argument, the record \<open>stats_window\<close> of its operations on a state of any type.
\<close>

record window_summary =
  ws_Count :: int
  ws_Mean :: u64
  ws_Min :: u64
  ws_Max :: u64
  ws_StdDev :: u64

record 'w stats_window =
  sw_zero :: 'w
  sw_Add :: "f64 \<Rightarrow> 'w \<Rightarrow> bool \<times> 'w"
  sw_Count :: "'w \<Rightarrow> int"
  sw_Snapshot :: "'w \<Rightarrow> window_summary option"

definition RingReductionMeanStdDev :: string where "RingReductionMeanStdDev = ''mean_stddev_window''"

record ReducedRingSample =
  red_ConfigIndex :: nat
  red_Type :: DataType
  red_Policy :: string
  red_Count :: int
  red_Mean :: u64
  red_Min :: u64
  red_Max :: u64
  red_StdDev :: u64
  red_FirstTimestamp10us :: u16
  red_LastTimestamp10us :: u16

record 'w ringReductionAccumulator =
  acc_reduced :: ReducedRingSample
  acc_window :: 'w

definition newRingReductionAccumulator :: "'w stats_window \<Rightarrow> nat \<Rightarrow> 'w ringReductionAccumulator" where
  "newRingReductionAccumulator W k =
     \<lparr>acc_reduced = \<lparr>red_ConfigIndex = k, red_Type = [], red_Policy = RingReductionMeanStdDev, red_Count = 0, red_Mean = 0,
        red_Min = 0, red_Max = 0, red_StdDev = 0, red_FirstTimestamp10us = 0, red_LastTimestamp10us = 0\<rparr>,
      acc_window = sw_zero W\<rparr>"

definition acc_add ::
    "'w stats_window \<Rightarrow> RingFrame \<Rightarrow> RingSample \<Rightarrow> 'w ringReductionAccumulator \<Rightarrow> 'w ringReductionAccumulator" where
  "acc_add W frame sample acc =
     (case sw_Add W (rs_Value sample) (acc_window acc) of
        (False, w) \<Rightarrow> acc\<lparr>acc_window := w\<rparr>
      | (True, w) \<Rightarrow>
          let r = acc_reduced acc;
              r1 = (if red_Count r = 0
                    then r\<lparr>red_Type := rs_Type sample, red_FirstTimestamp10us := rf_Timestamp10us frame\<rparr> else r)
          in acc\<lparr>acc_window := w,
                 acc_reduced := r1\<lparr>red_Count := sw_Count W w, red_LastTimestamp10us := rf_Timestamp10us frame\<rparr>\<rparr>)"

definition acc_result :: "'w stats_window \<Rightarrow> 'w ringReductionAccumulator \<Rightarrow> ReducedRingSample option" where
  "acc_result W acc =
     map_option (\<lambda>s. (acc_reduced acc)\<lparr>red_Count := ws_Count s, red_Mean := ws_Mean s, red_Min := ws_Min s,
                       red_Max := ws_Max s, red_StdDev := ws_StdDev s\<rparr>) (sw_Snapshot W (acc_window acc))"

definition reduce_frame ::
    "'w stats_window \<Rightarrow> nat \<Rightarrow> RingFrame \<Rightarrow> 'w ringReductionAccumulator \<Rightarrow> 'w ringReductionAccumulator" where
  "reduce_frame W k frame =
     fold (\<lambda>sample acc. if rs_ConfigIndex sample \<noteq> k then acc else acc_add W frame sample acc) (rf_Samples frame)"

definition ReduceRingSamples :: "'w stats_window \<Rightarrow> RingFrame list \<Rightarrow> nat \<Rightarrow> ReducedRingSample option" where
  "ReduceRingSamples W frames k = acc_result W (fold (reduce_frame W k) frames (newRingReductionAccumulator W k))"

text \<open>The one-pass version keeps an accumulator for each requested index.\<close>

definition new_accumulator ::
    "'w stats_window \<Rightarrow> nat \<Rightarrow> (nat \<rightharpoonup> 'w ringReductionAccumulator) \<Rightarrow> nat \<rightharpoonup> 'w ringReductionAccumulator" where
  "new_accumulator W k accs = (if accs k = None then accs(k \<mapsto> newRingReductionAccumulator W k) else accs)"

definition reduce_frame_all ::
    "'w stats_window \<Rightarrow> RingFrame \<Rightarrow> (nat \<rightharpoonup> 'w ringReductionAccumulator) \<Rightarrow> nat \<rightharpoonup> 'w ringReductionAccumulator" where
  "reduce_frame_all W frame =
     fold (\<lambda>sample accs.
       case accs (rs_ConfigIndex sample) of
         None \<Rightarrow> accs
       | Some acc \<Rightarrow> accs(rs_ConfigIndex sample \<mapsto> acc_add W frame sample acc)) (rf_Samples frame)"

definition ReduceRingSamplesForIndices ::
    "'w stats_window \<Rightarrow> RingFrame list \<Rightarrow> nat list \<Rightarrow> nat \<rightharpoonup> ReducedRingSample" where
  "ReduceRingSamplesForIndices W frames ks =
     (let accs = fold (reduce_frame_all W) frames (fold (new_accumulator W) ks Map.empty)
      in (\<lambda>k. Option.bind (accs k) (acc_result W)))"

section \<open>One pass equals many\<close>

lemma new_accumulators:
  "fold (new_accumulator W) ks accs k =
     (if accs k = None \<and> k \<in> set ks then Some (newRingReductionAccumulator W k) else accs k)"
  by (induction ks arbitrary: accs) (auto simp: new_accumulator_def)

lemma reduce_samples_at:
  "fold (\<lambda>sample accs. case accs (rs_ConfigIndex sample) of None \<Rightarrow> accs
       | Some acc \<Rightarrow> accs(rs_ConfigIndex sample \<mapsto> acc_add W frame sample acc)) samples accs k =
   map_option (fold (\<lambda>sample acc. if rs_ConfigIndex sample \<noteq> k then acc else acc_add W frame sample acc) samples) (accs k)"
proof (induction samples arbitrary: accs)
  case (Cons s samples)
  then show ?case by (cases "accs (rs_ConfigIndex s)"; cases "rs_ConfigIndex s = k"; cases "accs k") auto
qed (simp add: option.map_id)

lemma reduce_frame_all_at: "reduce_frame_all W frame accs k = map_option (reduce_frame W k frame) (accs k)"
  unfolding reduce_frame_all_def reduce_frame_def by (rule reduce_samples_at)

lemma reduce_frames_at: "fold (reduce_frame_all W) frames accs k = map_option (fold (reduce_frame W k) frames) (accs k)"
  by (induction frames arbitrary: accs) (simp_all add: reduce_frame_all_at option.map_comp comp_def option.map_id)

lemma reduced_at:
  "ReduceRingSamplesForIndices W frames ks k = (if k \<in> set ks then ReduceRingSamples W frames k else None)"
  by (simp add: ReduceRingSamplesForIndices_def ReduceRingSamples_def reduce_frames_at new_accumulators Let_def)

text \<open>
  One pass is as good as many: for every list of frames, every list of capture indices and every
  implementation of the running statistics, \<open>ReduceRingSamplesForIndices\<close> has for each requested index
  exactly what \<open>ReduceRingSamples\<close> computes for it alone, and nothing for any other index.
\<close>

theorem ReduceRingSamplesForIndices_eq:
  "ReduceRingSamplesForIndices W frames ks k = (if k \<in> set ks then ReduceRingSamples W frames k else None)"
  by (rule reduced_at)

end
