(* ===== verification/Peltier.thy ===== *)
theory Peltier
  imports Floats
begin

text \<open>
  The channel model of \<open>mecom/peltier_model.go\<close>: electrical input, resistive heat and the heat that a
  Peltier element pumps, estimated from the nearest point of the module data.  Numbers are \<open>float64\<close>
  bit patterns, every operation is rounded on its own.
\<close>

definition f64_one :: u64 where "f64_one = 0x3FF0000000000000"
definition f64_095 :: u64 where "f64_095 = 0x3FEE666666666666"
definition f64_075 :: u64 where "f64_075 = 0x3FE8000000000000"
definition f64_050 :: u64 where "f64_050 = 0x3FE0000000000000"
definition f64_025 :: u64 where "f64_025 = 0x3FD0000000000000"
definition f64_010 :: u64 where "f64_010 = 0x3FB999999999999A"

text \<open>\<open>math.Min\<close>.\<close>

definition f64_min :: "u64 \<Rightarrow> u64 \<Rightarrow> u64" where
  "f64_min a b =
     (if f64_isInf a \<and> f64_neg a then a
      else if f64_isInf b \<and> f64_neg b then b
      else if f64_isNaN a \<or> f64_isNaN b then f64_nan
      else if f64_zero a \<and> f64_zero b then (if f64_neg a then a else b)
      else if f64_units a < f64_units b then a else b)"

type_synonym ChannelDriveMode = string

definition ChannelModeUnknown :: ChannelDriveMode where "ChannelModeUnknown = ''unknown''"
definition ChannelModeResistor :: ChannelDriveMode where "ChannelModeResistor = ''resistor''"
definition ChannelModePowerSupply :: ChannelDriveMode where "ChannelModePowerSupply = ''power_supply''"
definition ChannelModePeltierDriver :: ChannelDriveMode where "ChannelModePeltierDriver = ''peltier_driver''"

lemmas mode_defs = ChannelModeUnknown_def ChannelModeResistor_def ChannelModePowerSupply_def ChannelModePeltierDriver_def

record DerivedValue =
  dv_Value :: u64
  dv_Valid :: bool
  dv_Confidence :: u64
  dv_Source :: string

definition no_value :: DerivedValue where
  "no_value = \<lparr>dv_Value = 0, dv_Valid = False, dv_Confidence = 0, dv_Source = []\<rparr>"

record PeltierModulePoint =
  pp_DeltaT :: u64
  pp_CurrentAmpere :: u64
  pp_VoltageVolt :: u64
  pp_HeatPumpedWatt :: u64

record PeltierModuleData =
  pm_ModuleID :: string
  pm_Source :: string
  pm_Points :: "PeltierModulePoint list"

record PeltierChannelInput =
  pi_ControllerAddress :: int
  pi_Channel :: int
  pi_DriveMode :: ChannelDriveMode
  pi_ColdTemperatureC :: u64
  pi_HotTemperatureC :: u64
  pi_CurrentAmpere :: u64
  pi_VoltageVolt :: u64

record PeltierChannelEstimate =
  pe_ControllerAddress :: int
  pe_Channel :: int
  pe_DriveMode :: ChannelDriveMode
  pe_DeltaTC :: u64
  pe_ElectricalInputWatt :: u64
  pe_HeatPumpedFromItemWatt :: DerivedValue
  pe_ResistiveHeatWatt :: DerivedValue
  pe_HotSideDissipatedWatt :: DerivedValue
  pe_Confidence :: u64
  pe_Source :: string

record PeltierGlobalEstimate =
  pg_ChannelCount :: nat
  pg_ElectricalInputWatt :: u64
  pg_HeatPumpedFromItemWatt :: u64
  pg_ResistiveHeatWatt :: u64
  pg_HotSideDissipatedWatt :: u64
  pg_ValidPeltierChannels :: nat
  pg_ValidResistorChannels :: nat
  pg_PowerSupplyChannels :: nat
  pg_UnknownModeChannels :: nat
  pg_MinimumThermalConfidence :: u64

text \<open>The estimator is its module data, by controller address; \<open>NewPeltierEstimator\<close> copies it.\<close>

type_synonym PeltierEstimator = "int \<rightharpoonup> PeltierModuleData"

definition NewPeltierEstimator :: "(int \<rightharpoonup> PeltierModuleData) \<Rightarrow> PeltierEstimator" where
  "NewPeltierEstimator moduleData = moduleData"

definition NormalizeChannelDriveMode :: "ChannelDriveMode \<Rightarrow> ChannelDriveMode" where
  "NormalizeChannelDriveMode mode =
     (if mode \<in> {ChannelModeResistor, ChannelModePowerSupply, ChannelModePeltierDriver} then mode else ChannelModeUnknown)"

definition peltierPointDistance :: "PeltierModulePoint \<Rightarrow> u64 \<Rightarrow> u64 \<Rightarrow> u64" where
  "peltierPointDistance point deltaT currentAmpere =
     (let deltaTScale = f64_max (f64_abs (pp_DeltaT point)) f64_one;
          currentScale = f64_max (f64_abs (pp_CurrentAmpere point)) f64_one;
          dt = f64_div (f64_sub (pp_DeltaT point) deltaT) deltaTScale;
          current = f64_div (f64_sub (f64_abs (pp_CurrentAmpere point)) currentAmpere) currentScale
      in f64_add (f64_mul dt dt) (f64_mul current current))"

definition nearer :: "u64 \<Rightarrow> u64 \<Rightarrow> PeltierModulePoint \<Rightarrow> PeltierModulePoint \<times> u64 \<Rightarrow> PeltierModulePoint \<times> u64" where
  "nearer deltaT currentAmpere point best =
     (let distance = peltierPointDistance point deltaT currentAmpere in
      if f64_less distance (snd best) then (point, distance) else best)"

text \<open>Only called with points; an empty list would panic.\<close>

definition nearestPeltierPoint :: "PeltierModulePoint list \<Rightarrow> u64 \<Rightarrow> u64 \<Rightarrow> PeltierModulePoint option" where
  "nearestPeltierPoint points deltaT currentAmpere =
     (case points of
        [] \<Rightarrow> None
      | p # ps \<Rightarrow> Some (fst (fold (nearer deltaT currentAmpere) ps (p, peltierPointDistance p deltaT currentAmpere))))"

definition peltierPointConfidence :: "PeltierModulePoint \<Rightarrow> PeltierChannelInput \<Rightarrow> u64" where
  "peltierPointConfidence point input =
     (if \<not> f64_zero (pp_VoltageVolt point) \<and> \<not> f64_zero (pi_VoltageVolt input) then
        let err = f64_div (f64_abs (f64_sub (f64_abs (pi_VoltageVolt input)) (f64_abs (pp_VoltageVolt point))))
                    (f64_abs (pp_VoltageVolt point))
        in if f64_le err f64_010 then f64_095
           else if f64_le err f64_025 then f64_075
           else if f64_le err f64_050 then f64_050
           else f64_025
      else f64_075)"

definition EstimateChannel :: "PeltierEstimator \<Rightarrow> PeltierChannelInput \<Rightarrow> PeltierChannelEstimate" where
  "EstimateChannel e input =
     (let mode = NormalizeChannelDriveMode (pi_DriveMode input);
          electrical = f64_abs (f64_mul (pi_CurrentAmpere input) (pi_VoltageVolt input));
          estimate = \<lparr>pe_ControllerAddress = pi_ControllerAddress input, pe_Channel = pi_Channel input, pe_DriveMode = mode,
            pe_DeltaTC = f64_sub (pi_HotTemperatureC input) (pi_ColdTemperatureC input), pe_ElectricalInputWatt = electrical,
            pe_HeatPumpedFromItemWatt = no_value, pe_ResistiveHeatWatt = no_value, pe_HotSideDissipatedWatt = no_value,
            pe_Confidence = 0, pe_Source = ''electrical_measurement''\<rparr>
      in if mode = ChannelModeResistor then
           estimate\<lparr>pe_ResistiveHeatWatt := \<lparr>dv_Value = electrical, dv_Valid = True, dv_Confidence = f64_one,
                dv_Source = ''resistor_mode_electrical_input''\<rparr>,
              pe_Confidence := f64_one, pe_Source := ''resistor_mode_electrical_input''\<rparr>
         else if mode = ChannelModePowerSupply then estimate\<lparr>pe_Source := ''power_supply_mode_electrical_only''\<rparr>
         else if mode = ChannelModePeltierDriver then
           (case e (pi_ControllerAddress input) of
              None \<Rightarrow> estimate\<lparr>pe_Source := ''peltier_mode_missing_module_data''\<rparr>
            | Some module \<Rightarrow>
                (case nearestPeltierPoint (pm_Points module) (pe_DeltaTC estimate) (f64_abs (pi_CurrentAmpere input)) of
                   None \<Rightarrow> estimate\<lparr>pe_Source := ''peltier_mode_missing_module_data''\<rparr>
                 | Some point \<Rightarrow>
                     let confidence = peltierPointConfidence point input;
                         source = (if pm_Source module = [] then ''peltier_module_data'' else pm_Source module)
                     in estimate\<lparr>pe_HeatPumpedFromItemWatt := \<lparr>dv_Value = pp_HeatPumpedWatt point, dv_Valid = True,
                            dv_Confidence = confidence, dv_Source = source\<rparr>,
                          pe_HotSideDissipatedWatt := \<lparr>dv_Value = f64_add electrical (pp_HeatPumpedWatt point), dv_Valid = True,
                            dv_Confidence = confidence, dv_Source = source\<rparr>,
                          pe_Confidence := confidence, pe_Source := source\<rparr>))
         else estimate\<lparr>pe_Source := ''unknown_mode_electrical_only''\<rparr>)"

text \<open>One turn of the loop of \<open>EstimatePeltierGlobal\<close>; the flag is \<open>thermalConfidenceSeen\<close>.\<close>

definition add_estimate :: "PeltierChannelEstimate \<Rightarrow> PeltierGlobalEstimate \<times> bool \<Rightarrow> PeltierGlobalEstimate \<times> bool" where
  "add_estimate estimate acc =
     (let g = (fst acc)\<lparr>pg_ElectricalInputWatt := f64_add (pg_ElectricalInputWatt (fst acc)) (pe_ElectricalInputWatt estimate)\<rparr>;
          heat = pe_HeatPumpedFromItemWatt estimate; hot = pe_HotSideDissipatedWatt estimate; res = pe_ResistiveHeatWatt estimate
      in if pe_DriveMode estimate = ChannelModePeltierDriver then
           let g1 = (if dv_Valid heat then g\<lparr>pg_HeatPumpedFromItemWatt := f64_add (pg_HeatPumpedFromItemWatt g) (dv_Value heat)\<rparr> else g)
           in if dv_Valid hot then
                (g1\<lparr>pg_HotSideDissipatedWatt := f64_add (pg_HotSideDissipatedWatt g1) (dv_Value hot),
                    pg_ValidPeltierChannels := Suc (pg_ValidPeltierChannels g1),
                    pg_MinimumThermalConfidence := f64_min (pg_MinimumThermalConfidence g1) (dv_Confidence hot)\<rparr>, True)
              else (g1, snd acc)
         else if pe_DriveMode estimate = ChannelModeResistor then
           (if dv_Valid res then
              (g\<lparr>pg_ResistiveHeatWatt := f64_add (pg_ResistiveHeatWatt g) (dv_Value res),
                 pg_ValidResistorChannels := Suc (pg_ValidResistorChannels g),
                 pg_MinimumThermalConfidence := f64_min (pg_MinimumThermalConfidence g) (dv_Confidence res)\<rparr>, True)
            else (g, snd acc))
         else if pe_DriveMode estimate = ChannelModePowerSupply then
           (g\<lparr>pg_PowerSupplyChannels := Suc (pg_PowerSupplyChannels g)\<rparr>, snd acc)
         else (g\<lparr>pg_UnknownModeChannels := Suc (pg_UnknownModeChannels g)\<rparr>, snd acc))"

definition EstimatePeltierGlobal :: "PeltierChannelEstimate list \<Rightarrow> PeltierGlobalEstimate" where
  "EstimatePeltierGlobal estimates =
     (case fold add_estimate estimates
         (\<lparr>pg_ChannelCount = length estimates, pg_ElectricalInputWatt = 0, pg_HeatPumpedFromItemWatt = 0, pg_ResistiveHeatWatt = 0,
           pg_HotSideDissipatedWatt = 0, pg_ValidPeltierChannels = 0, pg_ValidResistorChannels = 0, pg_PowerSupplyChannels = 0,
           pg_UnknownModeChannels = 0, pg_MinimumThermalConfidence = f64_one\<rparr>, False) of
        (g, seen) \<Rightarrow> if seen then g else g\<lparr>pg_MinimumThermalConfidence := 0\<rparr>)"

section \<open>The nearest point\<close>

lemma f64_less_trans_not: "\<not> f64_less a b \<Longrightarrow> f64_less c b \<Longrightarrow> \<not> f64_less a c"
  by (auto simp: f64_less_def)

lemma nearer_fold:
  "fold (nearer dt ca) ps (b, peltierPointDistance b dt ca) = (q, d) \<Longrightarrow>
     d = peltierPointDistance q dt ca \<and> q \<in> set (b # ps) \<and>
     (if f64_isNaN (peltierPointDistance b dt ca) then q = b
      else (\<forall>p \<in> set (b # ps). \<not> f64_less (peltierPointDistance p dt ca) d) \<and> \<not> f64_isNaN d)"
proof (induction ps arbitrary: b)
  case Nil
  then show ?case by (auto simp: f64_less_def)
next
  case (Cons p ps)
  let ?dp = "peltierPointDistance p dt ca" and ?db = "peltierPointDistance b dt ca"
  show ?case
  proof (cases "f64_less ?dp ?db")
    case True
    then have "nearer dt ca p (b, ?db) = (p, ?dp)" by (simp add: nearer_def)
    then have "fold (nearer dt ca) ps (p, ?dp) = (q, d)" using Cons.prems by simp
    from Cons.IH [OF this] True show ?thesis by (auto simp: f64_less_def split: if_splits)
  next
    case False
    then have "nearer dt ca p (b, ?db) = (b, ?db)" by (simp add: nearer_def)
    then have "fold (nearer dt ca) ps (b, ?db) = (q, d)" using Cons.prems by simp
    from Cons.IH [OF this] False show ?thesis by (auto simp: f64_less_def split: if_splits)
  qed
qed

lemma nearestPeltierPoint_Cons:
  assumes "nearestPeltierPoint (p # ps) dt ca = Some q"
  shows "q \<in> set (p # ps) \<and>
     (if f64_isNaN (peltierPointDistance p dt ca) then q = p
      else \<forall>r \<in> set (p # ps). \<not> f64_less (peltierPointDistance r dt ca) (peltierPointDistance q dt ca))"
proof -
  obtain r d where r: "fold (nearer dt ca) ps (p, peltierPointDistance p dt ca) = (r, d)" by fastforce
  then have "q = r" using assms by (simp add: nearestPeltierPoint_def)
  with nearer_fold [OF r] show ?thesis by (auto split: if_splits)
qed

text \<open>A temperature difference that is not a number makes every distance not a number.\<close>

lemma digits_above:
  fixes B M n k :: nat
  assumes "0 < B"
  shows "(k * (B * M) + n mod (B * M)) div B mod M = n div B mod M" "(k * (B * M) + n mod (B * M)) mod B = n mod B"
proof -
  have e: "k * (B * M) + n mod (B * M) = n mod B + B * (k * M + n div B mod M)"
    by (simp add: mod_mult2_eq algebra_simps)
  have "(k * (B * M) + n mod (B * M)) div B = k * M + n div B mod M" unfolding e using assms by simp
  then show "(k * (B * M) + n mod (B * M)) div B mod M = n div B mod M" by simp
  show "(k * (B * M) + n mod (B * M)) mod B = n mod B" unfolding e by simp
qed

lemma f64_negate_NaN: "f64_isNaN a \<Longrightarrow> f64_isNaN (f64_negate a)"
proof -
  assume a: "f64_isNaN a"
  let ?m = "unat a mod 2 ^ 63"
  have m: "?m < 2 ^ 63" by simp
  have u: "unat (f64_pack s ?m) = (if s then 2 ^ 63 else 0) + ?m" for s
    using m by (simp only: f64_pack_def unat_of_nat) (simp add: mod_less)
  have e: "(k * 2 ^ 63 + ?m) div 2 ^ 52 mod 2048 = unat a div 2 ^ 52 mod 2048" for k
    using digits_above(1) [of "2 ^ 52" k 2048 "unat a"] by simp
  have f: "(k * 2 ^ 63 + ?m) mod 2 ^ 52 = unat a mod 2 ^ 52" for k
    using digits_above(2) [of "2 ^ 52" k 2048 "unat a"] by simp
  show ?thesis
    using a e [of 1] e [of 0] f [of 1] f [of 0]
    unfolding f64_negate_def f64_isNaN_def f64_exp_def f64_frac_def u by (cases "f64_neg a") simp_all
qed

lemma f64_sub_NaN: "f64_isNaN a \<or> f64_isNaN b \<Longrightarrow> f64_isNaN (f64_sub a b)"
  by (auto simp: f64_sub_def f64_negate_NaN)

lemma f64_div_NaN: "f64_isNaN a \<Longrightarrow> f64_isNaN (f64_div a b)"
  by (simp add: f64_div_def)

lemma distance_NaN: "f64_isNaN deltaT \<Longrightarrow> f64_isNaN (peltierPointDistance p deltaT ca)"
  by (simp add: peltierPointDistance_def Let_def f64_sub_NaN f64_div_NaN)

lemma nearest_without_temperature:
  assumes "f64_isNaN deltaT" and "nearestPeltierPoint points deltaT ca = Some q"
  shows "q = hd points"
proof (cases points)
  case (Cons p ps)
  with nearestPeltierPoint_Cons [of p ps deltaT ca q] assms distance_NaN show ?thesis by simp
qed (use assms in \<open>simp add: nearestPeltierPoint_def\<close>)

section \<open>What a channel mode allows\<close>

lemma estimate_valid:
  "dv_Valid (pe_ResistiveHeatWatt (EstimateChannel e input)) \<longleftrightarrow> NormalizeChannelDriveMode (pi_DriveMode input) = ChannelModeResistor"
  "dv_Valid (pe_HeatPumpedFromItemWatt (EstimateChannel e input)) \<Longrightarrow>
     NormalizeChannelDriveMode (pi_DriveMode input) = ChannelModePeltierDriver \<and>
     (\<exists>module. e (pi_ControllerAddress input) = Some module \<and> pm_Points module \<noteq> [])"
  "dv_Valid (pe_HotSideDissipatedWatt (EstimateChannel e input)) = dv_Valid (pe_HeatPumpedFromItemWatt (EstimateChannel e input))"
  "pe_Channel (EstimateChannel e input) = pi_Channel input"
  by (auto simp: EstimateChannel_def Let_def no_value_def mode_defs nearestPeltierPoint_def split: option.splits list.splits if_splits)

text \<open>
  Only a channel in Peltier mode with module data has pumped heat, only a resistor channel has
  resistive heat, and every other channel, also one with an unknown mode, has its electrical input
  and nothing thermal.  The heat of a Peltier channel is that of a point of the module data to which
  no other point is nearer, unless the distance to the first point is not a number.
\<close>

theorem channel_estimate_modes:
  "let est = EstimateChannel e input; mode = NormalizeChannelDriveMode (pi_DriveMode input);
       points = (case e (pi_ControllerAddress input) of None \<Rightarrow> [] | Some module \<Rightarrow> pm_Points module);
       distance = (\<lambda>p. peltierPointDistance p (f64_sub (pi_HotTemperatureC input) (pi_ColdTemperatureC input))
         (f64_abs (pi_CurrentAmpere input)))
   in pe_ElectricalInputWatt est = f64_abs (f64_mul (pi_CurrentAmpere input) (pi_VoltageVolt input)) \<and>
      dv_Valid (pe_ResistiveHeatWatt est) = (mode = ChannelModeResistor) \<and>
      dv_Valid (pe_HeatPumpedFromItemWatt est) = (mode = ChannelModePeltierDriver \<and> points \<noteq> []) \<and>
      dv_Valid (pe_HotSideDissipatedWatt est) = dv_Valid (pe_HeatPumpedFromItemWatt est) \<and>
      (if mode = ChannelModeResistor then dv_Value (pe_ResistiveHeatWatt est) = pe_ElectricalInputWatt est else True) \<and>
      (if mode = ChannelModePeltierDriver \<and> points \<noteq> [] then
         list_ex (\<lambda>q. dv_Value (pe_HeatPumpedFromItemWatt est) = pp_HeatPumpedWatt q \<and>
           dv_Value (pe_HotSideDissipatedWatt est) = f64_add (pe_ElectricalInputWatt est) (pp_HeatPumpedWatt q) \<and>
           (if f64_isNaN (distance (hd points)) then q = hd points
            else list_all (\<lambda>p. \<not> f64_less (distance p) (distance q)) points)) points
       else True)"
proof -
  define mode where "mode = NormalizeChannelDriveMode (pi_DriveMode input)"
  define points where "points = (case e (pi_ControllerAddress input) of None \<Rightarrow> [] | Some module \<Rightarrow> pm_Points module)"
  define dt where "dt = f64_sub (pi_HotTemperatureC input) (pi_ColdTemperatureC input)"
  define ca where "ca = f64_abs (pi_CurrentAmpere input)"
  show ?thesis
  proof (cases "mode = ChannelModePeltierDriver \<and> points \<noteq> []")
    case False
    then have "mode = ChannelModePeltierDriver \<Longrightarrow> e (pi_ControllerAddress input) = None \<or>
        (\<exists>module. e (pi_ControllerAddress input) = Some module \<and> pm_Points module = [])"
      by (auto simp: points_def split: option.splits)
    then show ?thesis using False
      by (auto simp: EstimateChannel_def Let_def no_value_def nearestPeltierPoint_def mode_def mode_defs points_def)
  next
    case True
    then obtain module p ps where m: "e (pi_ControllerAddress input) = Some module" "pm_Points module = p # ps" "points = p # ps"
      by (auto simp: points_def neq_Nil_conv split: option.splits)
    obtain q where q: "nearestPeltierPoint (p # ps) dt ca = Some q" by (simp add: nearestPeltierPoint_def)
    note near = nearestPeltierPoint_Cons [OF q]
    have mode: "NormalizeChannelDriveMode (pi_DriveMode input) = ChannelModePeltierDriver" using True by (simp add: mode_def)
    have est: "dv_Valid (pe_HeatPumpedFromItemWatt (EstimateChannel e input)) \<and> dv_Valid (pe_HotSideDissipatedWatt (EstimateChannel e input)) \<and>
        \<not> dv_Valid (pe_ResistiveHeatWatt (EstimateChannel e input)) \<and>
        pe_ElectricalInputWatt (EstimateChannel e input) = f64_abs (f64_mul (pi_CurrentAmpere input) (pi_VoltageVolt input)) \<and>
        dv_Value (pe_HeatPumpedFromItemWatt (EstimateChannel e input)) = pp_HeatPumpedWatt q \<and>
        dv_Value (pe_HotSideDissipatedWatt (EstimateChannel e input)) =
          f64_add (pe_ElectricalInputWatt (EstimateChannel e input)) (pp_HeatPumpedWatt q)"
      using q by (simp add: EstimateChannel_def mode m(1,2) mode_defs dt_def ca_def Let_def no_value_def)
    have near': "list_ex (\<lambda>q'. pp_HeatPumpedWatt q = pp_HeatPumpedWatt q' \<and>
           f64_add (pe_ElectricalInputWatt (EstimateChannel e input)) (pp_HeatPumpedWatt q) =
             f64_add (pe_ElectricalInputWatt (EstimateChannel e input)) (pp_HeatPumpedWatt q') \<and>
           (if f64_isNaN (peltierPointDistance p dt ca) then q' = p
            else list_all (\<lambda>r. \<not> f64_less (peltierPointDistance r dt ca) (peltierPointDistance q' dt ca)) (p # ps))) (p # ps)"
      unfolding list_ex_iff by (rule bexI [of _ q]) (use near in \<open>auto simp: list_all_iff split: if_splits\<close>)
    show ?thesis
      using est near' by (simp add: mode m mode_defs Let_def dt_def [symmetric] ca_def [symmetric]
          del: list_ex_Cons_iff list_all_Cons_iff split del: if_split cong del: if_weak_cong)
  qed
qed

text \<open>
  A temperature that was not measured does not invalidate the estimate: for a channel in Peltier mode
  with module data, when one of the two temperatures is not a number the pumped heat is still
  reported as valid, with the heat of the first point of the module data.
\<close>

theorem heat_valid_without_temperature:
  assumes "f64_isNaN (pi_ColdTemperatureC input) \<or> f64_isNaN (pi_HotTemperatureC input)"
    and "pi_DriveMode input = ChannelModePeltierDriver" and "e (pi_ControllerAddress input) = Some module"
    and "pm_Points module \<noteq> []"
  shows "dv_Valid (pe_HeatPumpedFromItemWatt (EstimateChannel e input)) \<and>
    dv_Value (pe_HeatPumpedFromItemWatt (EstimateChannel e input)) = pp_HeatPumpedWatt (hd (pm_Points module))"
proof -
  let ?dt = "f64_sub (pi_HotTemperatureC input) (pi_ColdTemperatureC input)"
  have nan: "f64_isNaN ?dt" using assms(1) f64_sub_NaN by blast
  obtain q where q: "nearestPeltierPoint (pm_Points module) ?dt (f64_abs (pi_CurrentAmpere input)) = Some q"
    using assms(4) by (cases "pm_Points module") (auto simp: nearestPeltierPoint_def)
  from nearest_without_temperature [OF nan q] show ?thesis
    using q assms(2,3) by (simp add: EstimateChannel_def NormalizeChannelDriveMode_def mode_defs Let_def)
qed

definition demo_module :: PeltierModuleData where
  "demo_module = \<lparr>pm_ModuleID = ''m'', pm_Source = [], pm_Points =
     [\<lparr>pp_DeltaT = 0, pp_CurrentAmpere = f64_one, pp_VoltageVolt = f64_one, pp_HeatPumpedWatt = f64_one\<rparr>]\<rparr>"

definition demo_input :: PeltierChannelInput where
  "demo_input = \<lparr>pi_ControllerAddress = 2, pi_Channel = 1, pi_DriveMode = ChannelModePeltierDriver,
     pi_ColdTemperatureC = f64_nan, pi_HotTemperatureC = 0, pi_CurrentAmpere = f64_one, pi_VoltageVolt = f64_one\<rparr>"

theorem heat_valid_without_temperature_witness:
  "dv_Valid (pe_HeatPumpedFromItemWatt (EstimateChannel (NewPeltierEstimator [2 \<mapsto> demo_module]) demo_input)) \<and>
   dv_Value (pe_HeatPumpedFromItemWatt (EstimateChannel (NewPeltierEstimator [2 \<mapsto> demo_module]) demo_input)) = f64_one"
  using heat_valid_without_temperature [of demo_input "NewPeltierEstimator [2 \<mapsto> demo_module]" demo_module]
  by (simp add: demo_input_def demo_module_def NewPeltierEstimator_def)

section \<open>The sum over all channels\<close>

lemma add_estimate_counts:
  "add_estimate e (g, seen) = (g', seen') \<Longrightarrow>
     pg_ChannelCount g' = pg_ChannelCount g \<and>
     pg_PowerSupplyChannels g' = pg_PowerSupplyChannels g + (if pe_DriveMode e = ChannelModePowerSupply then 1 else 0) \<and>
     pg_ValidPeltierChannels g' = pg_ValidPeltierChannels g +
       (if pe_DriveMode e = ChannelModePeltierDriver \<and> dv_Valid (pe_HotSideDissipatedWatt e) then 1 else 0) \<and>
     pg_ValidResistorChannels g' = pg_ValidResistorChannels g +
       (if pe_DriveMode e = ChannelModeResistor \<and> dv_Valid (pe_ResistiveHeatWatt e) then 1 else 0)"
  by (auto simp: add_estimate_def Let_def mode_defs split: if_splits)

lemma global_counts:
  "fold add_estimate es (g, seen) = (g', seen') \<Longrightarrow>
     pg_ChannelCount g' = pg_ChannelCount g \<and>
     pg_PowerSupplyChannels g' = pg_PowerSupplyChannels g + length (filter (\<lambda>e. pe_DriveMode e = ChannelModePowerSupply) es) \<and>
     pg_ValidPeltierChannels g' = pg_ValidPeltierChannels g +
       length (filter (\<lambda>e. pe_DriveMode e = ChannelModePeltierDriver \<and> dv_Valid (pe_HotSideDissipatedWatt e)) es) \<and>
     pg_ValidResistorChannels g' = pg_ValidResistorChannels g +
       length (filter (\<lambda>e. pe_DriveMode e = ChannelModeResistor \<and> dv_Valid (pe_ResistiveHeatWatt e)) es)"
proof (induction es arbitrary: g seen)
  case (Cons e es)
  obtain g1 s1 where g1: "add_estimate e (g, seen) = (g1, s1)" by fastforce
  from Cons.IH [of g1 s1] Cons.prems add_estimate_counts [OF g1] g1 show ?case by (simp split: if_splits)
qed simp

lemma global_estimate_counts:
  "pg_ChannelCount (EstimatePeltierGlobal es) = length es \<and>
   pg_ValidPeltierChannels (EstimatePeltierGlobal es) =
     length (filter (\<lambda>e. pe_DriveMode e = ChannelModePeltierDriver \<and> dv_Valid (pe_HotSideDissipatedWatt e)) es) \<and>
   pg_ValidResistorChannels (EstimatePeltierGlobal es) =
     length (filter (\<lambda>e. pe_DriveMode e = ChannelModeResistor \<and> dv_Valid (pe_ResistiveHeatWatt e)) es) \<and>
   pg_PowerSupplyChannels (EstimatePeltierGlobal es) = length (filter (\<lambda>e. pe_DriveMode e = ChannelModePowerSupply) es)"
  unfolding EstimatePeltierGlobal_def by (auto dest: global_counts split: prod.splits)

end
