(* ===== verification/Catalogue.thy ===== *)
theory Catalogue
  imports Frames Strings
begin

text \<open>
  The parameter catalogue of \<open>mecom/catalogue.go\<close>: the catalogue definitions of the controller
  families, the checks on the embedded TEC catalogue, the polling plans and write lists derived from
  it, the tree paths of the user interface and the rows of a source catalogue.  The embedded files
  \<open>catalogues/tec.json\<close> and \<open>catalogues/sources/tec_tooltips.v631.json\<close>, decoded by \<open>encoding/json\<close>, are
  the arguments \<open>C\<close> and \<open>H\<close>; every statement holds for any such files.
\<close>

section \<open>Text\<close>

definition normalizeDefinitionToken :: "string \<Rightarrow> string" where
  "normalizeDefinitionToken value = replace_char (CHR ''-'') (CHR ''_'') (TrimSpace (ToLower value))"

definition or_else :: "string \<Rightarrow> string \<Rightarrow> string" where
  "or_else value dflt = (if value = [] then dflt else value)"

fun firstNonEmpty :: "string list \<Rightarrow> string" where
  "firstNonEmpty [] = []"
| "firstNonEmpty (value # values) = (if TrimSpace value \<noteq> [] then value else firstNonEmpty values)"

definition compactStrings :: "string list \<Rightarrow> string list" where
  "compactStrings values = filter (\<lambda>value. value \<noteq> []) values"

definition catalogueTreePath :: "string list \<Rightarrow> string" where
  "catalogueTreePath path = Join (filter (\<lambda>part. part \<noteq> []) (map TrimSpace path)) '' / ''"

section \<open>Parameters\<close>

definition mecomReadoutPriorityHigh :: string where "mecomReadoutPriorityHigh = ''high''"
definition mecomReadoutPriorityBackground :: string where "mecomReadoutPriorityBackground = ''background''"
definition mecomRingReadout :: string where "mecomRingReadout = ''mecom_crtvstream_ring_buffer''"
definition mecomBackgroundReadout :: string where "mecomBackgroundReadout = ''mecom_vx_round_robin_queue''"
definition mecomDerivedReadout :: string where "mecomDerivedReadout = ''mecom_derived_channel_model''"
definition mecomRingReduction :: string where "mecomRingReduction = ''mean_stddev_window_to_consumer_rate''"

record TECCatalogueTreePath =
  tree_ID :: string
  tree_Label :: string
  tree_Path :: "string list"
  tree_Default :: bool

record mecomTECParameter =
  tp_ID :: int
  tp_Suffix :: string
  tp_RawName :: string
  tp_Display :: string
  tp_Unit :: string
  tp_ValueType :: string
  tp_Category :: string
  tp_Role :: string
  tp_SemanticRole :: string
  tp_SourceParameterName :: string
  tp_Help :: string
  tp_Visibility :: string
  tp_SourceEvidence :: "string list"
  tp_Priority :: string
  tp_PreferredReadout :: string
  tp_PriorityComponent :: string
  tp_Aliases :: "string list"
  tp_Writable :: bool
  tp_Access :: string
  tp_Group :: string
  tp_Subgroup :: string
  tp_TreePath :: "string list"
  tp_TreePaths :: "TECCatalogueTreePath list"
  tp_ApplicableModes :: "string list"
  tp_Command :: string
  tp_Minimum :: "u64 option"
  tp_Maximum :: "u64 option"
  tp_DefaultValue :: "string option"
  tp_Enum :: "(string \<times> string) list"
  tp_Dangerous :: bool
  tp_TransportSupport :: "string list"
  tp_Counterparts :: "(string \<times> int list) list"

record mecomTECDerivedParameter =
  dp_Suffix :: string
  dp_RawName :: string
  dp_Display :: string
  dp_SemanticRole :: string
  dp_SourceParameters :: string
  dp_Group :: string
  dp_Subgroup :: string
  dp_TreePath :: "string list"
  dp_TreePaths :: "TECCatalogueTreePath list"

definition effectiveValueType :: "mecomTECParameter \<Rightarrow> string" where
  "effectiveValueType p = (if tp_ValueType p \<noteq> [] then tp_ValueType p else ''float32'')"

definition tp_dataType :: "mecomTECParameter \<Rightarrow> DataType" where
  "tp_dataType p =
     (if effectiveValueType p \<in> {''int'', ''int32''} then DataTypeInt32
      else if effectiveValueType p \<in> {''latin1'', ''string''} then DataTypeLatin1
      else DataTypeFloat32)"

definition graphValueType :: "mecomTECParameter \<Rightarrow> string" where
  "graphValueType p =
     (if effectiveValueType p \<in> {''int'', ''int32''} then ''int''
      else if effectiveValueType p \<in> {''latin1'', ''string''} then ''string''
      else ''float'')"

definition tp_access :: "mecomTECParameter \<Rightarrow> string" where
  "tp_access p = (if tp_Access p \<noteq> [] then tp_Access p else if tp_Writable p then ''write'' else ''read'')"

definition readoutPriority :: "mecomTECParameter \<Rightarrow> string" where
  "readoutPriority p = (if tp_Priority p \<noteq> [] then tp_Priority p else mecomReadoutPriorityBackground)"

definition effectivePreferredReadout :: "mecomTECParameter \<Rightarrow> string" where
  "effectivePreferredReadout p =
     (if tp_PreferredReadout p \<noteq> [] then tp_PreferredReadout p
      else if readoutPriority p = mecomReadoutPriorityHigh then mecomRingReadout else mecomBackgroundReadout)"

section \<open>Tree paths\<close>

datatype tree_owner = CatalogueParameter int | DerivedCatalogueParameter string | TreeProjection tree_owner string

datatype catalogue_error =
    MissingSchemaVersion
  | NoReadoutParameters
  | NoDerivedParameters
  | InvalidParameterID string int
  | MissingSid int
  | MissingType int
  | UnsupportedType int string
  | EmptyPathPart tree_owner nat
  | MissingProjectionID tree_owner nat
  | DuplicateProjectionID tree_owner string
  | EmptyProjectionPath tree_owner string
  | ManyDefaultProjections tree_owner

fun tree_path_from :: "tree_owner \<Rightarrow> nat \<Rightarrow> string list \<Rightarrow> catalogue_error + unit" where
  "tree_path_from owner i [] = Inr ()"
| "tree_path_from owner i (part # path) =
     (if TrimSpace part = [] then Inl (EmptyPathPart owner i) else tree_path_from owner (Suc i) path)"

definition validateCatalogueTreePath :: "tree_owner \<Rightarrow> string list \<Rightarrow> catalogue_error + unit" where
  "validateCatalogueTreePath owner path = tree_path_from owner 0 path"

fun tree_paths_from ::
    "tree_owner \<Rightarrow> nat \<Rightarrow> string set \<Rightarrow> nat \<Rightarrow> TECCatalogueTreePath list \<Rightarrow> catalogue_error + unit" where
  "tree_paths_from owner i seen defaults [] =
     (if 1 < defaults then Inl (ManyDefaultProjections owner) else Inr ())"
| "tree_paths_from owner i seen defaults (projection # paths) =
     (let pid = TrimSpace (tree_ID projection) in
      if pid = [] then Inl (MissingProjectionID owner i)
      else if pid \<in> seen then Inl (DuplicateProjectionID owner pid)
      else if tree_Path projection = [] then Inl (EmptyProjectionPath owner pid)
      else res_bind (validateCatalogueTreePath (TreeProjection owner pid) (tree_Path projection)) (\<lambda>_.
        tree_paths_from owner (Suc i) (insert pid seen)
          (if tree_Default projection then Suc defaults else defaults) paths))"

definition validateCatalogueTreePaths :: "tree_owner \<Rightarrow> TECCatalogueTreePath list \<Rightarrow> catalogue_error + unit" where
  "validateCatalogueTreePaths owner paths = tree_paths_from owner 0 {} 0 paths"

definition normalizeCatalogueTreeProjection :: "TECCatalogueTreePath \<Rightarrow> TECCatalogueTreePath option" where
  "normalizeCatalogueTreeProjection projection =
     (let p = projection\<lparr>tree_ID := TrimSpace (tree_ID projection), tree_Label := TrimSpace (tree_Label projection),
                tree_Path := compactStrings (tree_Path projection)\<rparr>
      in if tree_ID p = [] \<or> tree_Path p = [] then None
         else Some (if tree_Label p = [] then p\<lparr>tree_Label := tree_ID p\<rparr> else p))"

text \<open>The loop over the generated projections of \<open>effectiveCatalogueTreePaths\<close>.\<close>

fun add_generated :: "string set \<Rightarrow> TECCatalogueTreePath list \<Rightarrow> TECCatalogueTreePath list" where
  "add_generated seen [] = []"
| "add_generated seen (projection # ps) =
     (case normalizeCatalogueTreeProjection projection of
        None \<Rightarrow> add_generated seen ps
      | Some n \<Rightarrow> if tree_ID n \<in> seen then add_generated seen ps else n # add_generated (insert (tree_ID n) seen) ps)"

definition effectiveCatalogueTreePaths ::
    "string list \<Rightarrow> TECCatalogueTreePath list \<Rightarrow> TECCatalogueTreePath list \<Rightarrow> TECCatalogueTreePath list" where
  "effectiveCatalogueTreePaths single projections generated =
     (let out = List.map_filter normalizeCatalogueTreeProjection projections;
          operator = List.map_filter normalizeCatalogueTreeProjection
            [\<lparr>tree_ID = ''operator'', tree_Label = ''Operator'', tree_Path = compactStrings single, tree_Default = True\<rparr>]
      in if out = [] \<and> single \<noteq> [] then operator @ add_generated (tree_ID ` set operator) generated else out)"

definition tp_operatorTreePath :: "mecomTECParameter \<Rightarrow> string list" where
  "tp_operatorTreePath p =
     (if tp_TreePath p \<noteq> [] then tp_TreePath p else compactStrings [tp_Group p, tp_Subgroup p, tp_Display p])"

definition effectiveProtocolTreePath :: "mecomTECParameter \<Rightarrow> TECCatalogueTreePath" where
  "effectiveProtocolTreePath p =
     (let name = (if tp_RawName p = [] then tp_Suffix p else tp_RawName p) in
      \<lparr>tree_ID = ''protocol'', tree_Label = ''MeCom protocol'',
       tree_Path = compactStrings [''MeCom protocol'', ''Parameter '' @ fmtD (tp_ID p), name], tree_Default = False\<rparr>)"

definition tp_effectiveTreePaths :: "mecomTECParameter \<Rightarrow> TECCatalogueTreePath list" where
  "tp_effectiveTreePaths p = effectiveCatalogueTreePaths (tp_operatorTreePath p) (tp_TreePaths p) [effectiveProtocolTreePath p]"

definition dp_operatorTreePath :: "mecomTECDerivedParameter \<Rightarrow> string list" where
  "dp_operatorTreePath p =
     (if dp_TreePath p \<noteq> [] then dp_TreePath p else compactStrings [dp_Group p, dp_Subgroup p, dp_Display p])"

definition dp_effectiveTreePaths :: "mecomTECDerivedParameter \<Rightarrow> TECCatalogueTreePath list" where
  "dp_effectiveTreePaths p = effectiveCatalogueTreePaths (dp_operatorTreePath p) (dp_TreePaths p) []"

section \<open>The embedded catalogue\<close>

record tecCatalogueJSON =
  cat_SchemaVersion :: string
  cat_ReadoutParameters :: "mecomTECParameter list"
  cat_WriteParameters :: "mecomTECParameter list"
  cat_DerivedParameters :: "mecomTECDerivedParameter list"

definition check_parameter :: "mecomTECParameter \<Rightarrow> catalogue_error + unit" where
  "check_parameter p =
     (if tp_ID p \<le> 0 then Inl (InvalidParameterID (tp_Suffix p) (tp_ID p))
      else if tp_Suffix p = [] then Inl (MissingSid (tp_ID p))
      else if effectiveValueType p = [] then Inl (MissingType (tp_ID p))
      else if tp_dataType p = [] then Inl (UnsupportedType (tp_ID p) (tp_ValueType p))
      else res_bind (validateCatalogueTreePath (CatalogueParameter (tp_ID p)) (tp_TreePath p)) (\<lambda>_.
        validateCatalogueTreePaths (CatalogueParameter (tp_ID p)) (tp_TreePaths p)))"

definition check_derived :: "mecomTECDerivedParameter \<Rightarrow> catalogue_error + unit" where
  "check_derived p =
     res_bind (validateCatalogueTreePath (DerivedCatalogueParameter (dp_Suffix p)) (dp_TreePath p)) (\<lambda>_.
       validateCatalogueTreePaths (DerivedCatalogueParameter (dp_Suffix p)) (dp_TreePaths p))"

fun check_all :: "('a \<Rightarrow> catalogue_error + unit) \<Rightarrow> 'a list \<Rightarrow> catalogue_error + unit" where
  "check_all check [] = Inr ()"
| "check_all check (p # ps) = res_bind (check p) (\<lambda>_. check_all check ps)"

definition loadTECCatalogueJSON :: "tecCatalogueJSON \<Rightarrow> catalogue_error + tecCatalogueJSON" where
  "loadTECCatalogueJSON C =
     (if cat_SchemaVersion C = [] then Inl MissingSchemaVersion
      else if cat_ReadoutParameters C = [] then Inl NoReadoutParameters
      else if cat_DerivedParameters C = [] then Inl NoDerivedParameters
      else res_bind (check_all check_parameter (cat_ReadoutParameters C @ cat_WriteParameters C)) (\<lambda>_.
        res_bind (check_all check_derived (cat_DerivedParameters C)) (\<lambda>_. Inr C)))"

section \<open>Catalogue definitions\<close>

record MeComCatalogueDefinition =
  md_DefinitionID :: string
  md_System :: string
  md_Family :: string
  md_SubFamily :: string
  md_Variant :: string
  md_Version :: string
  md_SourceFamily :: string
  md_DefaultSourceID :: string
  md_DisplayName :: string
  md_TracePrefix :: string
  md_readoutParameters :: "mecomTECParameter list"
  md_writeParameters :: "mecomTECParameter list"
  md_derivedParameters :: "mecomTECDerivedParameter list"

definition DefaultTECCatalogueDefinition :: "tecCatalogueJSON \<Rightarrow> MeComCatalogueDefinition" where
  "DefaultTECCatalogueDefinition C =
     \<lparr>md_DefinitionID = ''meerstetter.tec.v632'', md_System = ''mecom'', md_Family = ''meerstetter'',
      md_SubFamily = ''tec'', md_Variant = ''tec'', md_Version = ''v632'', md_SourceFamily = ''mecom_tec'',
      md_DefaultSourceID = ''mecom_tec'', md_DisplayName = ''MeCom TEC controller bank'', md_TracePrefix = ''mecom.tec'',
      md_readoutParameters = cat_ReadoutParameters C, md_writeParameters = cat_WriteParameters C,
      md_derivedParameters = cat_DerivedParameters C\<rparr>"

definition DefaultLDDCatalogueDefinition :: MeComCatalogueDefinition where
  "DefaultLDDCatalogueDefinition =
     \<lparr>md_DefinitionID = ''meerstetter.ldd.v1'', md_System = ''mecom'', md_Family = ''meerstetter'',
      md_SubFamily = ''ldd'', md_Variant = ''ldd'', md_Version = [], md_SourceFamily = ''mecom_ldd'',
      md_DefaultSourceID = ''mecom_ldd'', md_DisplayName = ''MeCom LDD controller bank'', md_TracePrefix = ''mecom.ldd'',
      md_readoutParameters = [], md_writeParameters = [], md_derivedParameters = []\<rparr>"

definition DefaultLDD130xCatalogueDefinition :: MeComCatalogueDefinition where
  "DefaultLDD130xCatalogueDefinition =
     DefaultLDDCatalogueDefinition
       \<lparr>md_DefinitionID := ''meerstetter.ldd_130x.v221'', md_Variant := ''ldd_130x'', md_Version := ''v221'',
        md_SourceFamily := ''mecom_ldd_130x'', md_DefaultSourceID := ''mecom_ldd_130x'',
        md_DisplayName := ''MeCom LDD-130x controller bank'', md_TracePrefix := ''mecom.ldd_130x''\<rparr>"

definition DefaultDAQCatalogueDefinition :: MeComCatalogueDefinition where
  "DefaultDAQCatalogueDefinition =
     \<lparr>md_DefinitionID = ''meerstetter.daq.v1'', md_System = ''mecom'', md_Family = ''meerstetter'',
      md_SubFamily = ''daq'', md_Variant = ''daq'', md_Version = [], md_SourceFamily = ''mecom_daq'',
      md_DefaultSourceID = ''mecom_daq'', md_DisplayName = ''MeCom DAQ controller bank'', md_TracePrefix = ''mecom.daq'',
      md_readoutParameters = [], md_writeParameters = [], md_derivedParameters = []\<rparr>"

definition DefaultRMM1182CatalogueDefinition :: MeComCatalogueDefinition where
  "DefaultRMM1182CatalogueDefinition =
     \<lparr>md_DefinitionID = ''meerstetter.rmm_1182.v100'', md_System = ''mecom'', md_Family = ''meerstetter'',
      md_SubFamily = ''rmm'', md_Variant = ''rmm_1182'', md_Version = ''v100'', md_SourceFamily = ''mecom_rmm_1182'',
      md_DefaultSourceID = ''mecom_rmm_1182'', md_DisplayName = ''MeCom RMM-1182 measurement module'',
      md_TracePrefix = ''mecom.rmm_1182'',
      md_readoutParameters = [], md_writeParameters = [], md_derivedParameters = []\<rparr>"

definition ResolveMeComCatalogueDefinition ::
    "tecCatalogueJSON \<Rightarrow> string \<Rightarrow> string \<Rightarrow> string \<Rightarrow> MeComCatalogueDefinition option" where
  "ResolveMeComCatalogueDefinition C system0 family0 subFamily0 =
     (let token = (\<lambda>value dflt. or_else (normalizeDefinitionToken value) dflt);
          system = token system0 ''mecom'';
          family = token family0 ''meerstetter'';
          subFamily = token subFamily0 ''tec''
      in if system \<noteq> ''mecom'' \<or> family \<noteq> ''meerstetter'' then None
         else if subFamily = ''tec'' then Some (DefaultTECCatalogueDefinition C)
         else if subFamily = ''ldd'' then Some DefaultLDDCatalogueDefinition
         else if subFamily \<in> {''ldd_130x'', ''ldd130x''} then Some DefaultLDD130xCatalogueDefinition
         else if subFamily \<in> {''ldd_1321'', ''ldd1321''} then
           Some (DefaultLDDCatalogueDefinition
             \<lparr>md_DefinitionID := ''meerstetter.ldd_1321.v1'', md_Variant := ''ldd_1321'',
              md_SourceFamily := ''mecom_ldd_1321'', md_DefaultSourceID := ''mecom_ldd_1321'',
              md_DisplayName := ''MeCom LDD-1321 controller bank'', md_TracePrefix := ''mecom.ldd_1321''\<rparr>)
         else if subFamily = ''daq'' then Some DefaultDAQCatalogueDefinition
         else if subFamily \<in> {''rmm'', ''rmm_1182'', ''rmm1182''} then Some DefaultRMM1182CatalogueDefinition
         else None)"

definition normalized :: "tecCatalogueJSON \<Rightarrow> MeComCatalogueDefinition \<Rightarrow> MeComCatalogueDefinition" where
  "normalized C d0 =
     (if md_DefinitionID d0 = [] \<and> md_System d0 = [] \<and> md_Family d0 = [] \<and> md_SubFamily d0 = [] \<and>
         md_TracePrefix d0 = [] \<and> md_SourceFamily d0 = [] then DefaultTECCatalogueDefinition C
      else
        let d1 = d0\<lparr>md_System := or_else (md_System d0) ''mecom'', md_Family := or_else (md_Family d0) ''meerstetter'',
               md_SubFamily := or_else (md_SubFamily d0) ''tec''\<rparr>;
            d2 = d1\<lparr>md_DefinitionID := or_else (md_DefinitionID d1)
                 (Join (compactStrings [md_Family d1, md_SubFamily d1, md_Variant d1, md_Version d1]) ''.''),
               md_SourceFamily := or_else (md_SourceFamily d1) (Join (compactStrings [md_System d1, md_SubFamily d1]) ''_'')\<rparr>
        in d2\<lparr>md_DefaultSourceID := or_else (md_DefaultSourceID d2) (md_SourceFamily d2),
              md_DisplayName := or_else (md_DisplayName d2)
                (Join (compactStrings [md_Family d2, md_SubFamily d2, md_Variant d2]) '' ''),
              md_TracePrefix := or_else (md_TracePrefix d2) (Join (compactStrings [md_System d2, md_SubFamily d2]) ''.'')\<rparr>)"

definition TraceID :: "tecCatalogueJSON \<Rightarrow> MeComCatalogueDefinition \<Rightarrow> int \<Rightarrow> string \<Rightarrow> string" where
  "TraceID C definition0 inst suffix =
     (let prefix = trim_right (CHR ''.'') (md_TracePrefix (normalized C definition0))
      in or_else prefix ''mecom.tec'' @ ''_'' @ fmt02 inst @ ''.'' @ suffix)"

definition definition_Metadata :: "tecCatalogueJSON \<Rightarrow> MeComCatalogueDefinition \<Rightarrow> (string \<times> string) list" where
  "definition_Metadata C definition0 =
     (let d = normalized C definition0 in
      [(''definition_ref'', md_DefinitionID d), (''definition_system'', md_System d),
       (''definition_family'', md_Family d), (''definition_sub_family'', md_SubFamily d)] @
      (if md_Variant d \<noteq> [] then [(''definition_variant'', md_Variant d)] else []) @
      (if md_Version d \<noteq> [] then [(''definition_version'', md_Version d)] else []))"

definition addMeComDefinitionMetadata ::
    "tecCatalogueJSON \<Rightarrow> MeComCatalogueDefinition \<Rightarrow> (string \<rightharpoonup> string) \<Rightarrow> string \<rightharpoonup> string" where
  "addMeComDefinitionMetadata C definition0 metadata =
     fold (\<lambda>(key, value) m. if value \<noteq> [] then m(key \<mapsto> value) else m) (definition_Metadata C definition0) metadata"

section \<open>Polling plans and write lists\<close>

text \<open>\<open>ReadoutParameter\<close> is declared in \<open>mecom/readout.go\<close>.\<close>

record ReadoutParameter =
  rp_Parameter :: Parameter
  rp_Sensor :: string
  rp_HighPriority :: bool

definition channel_numbers :: "int \<Rightarrow> int list" where
  "channel_numbers channels = [1..channels]"

definition DefaultTECTraceID :: "tecCatalogueJSON \<Rightarrow> int \<Rightarrow> string \<Rightarrow> string" where
  "DefaultTECTraceID C = TraceID C (DefaultTECCatalogueDefinition C)"

definition DefaultMeComReadoutParameters :: "tecCatalogueJSON \<Rightarrow> MeComCatalogueDefinition \<Rightarrow> int \<Rightarrow> ReadoutParameter list" where
  "DefaultMeComReadoutParameters C definition0 channels =
     (let d = normalized C definition0 in
      concat (map (\<lambda>ch. map (\<lambda>p.
        \<lparr>rp_Parameter = \<lparr>par_ID = tp_ID p, par_Instance = ch, par_Name = tp_Suffix p, par_Unit = tp_Unit p,
           par_Type = tp_dataType p, par_Writable = tp_Writable p, par_Role = [], par_Kind = []\<rparr>,
         rp_Sensor = TraceID C d ch (tp_Suffix p),
         rp_HighPriority = (readoutPriority p = mecomReadoutPriorityHigh)\<rparr>) (md_readoutParameters d))
        (channel_numbers (if channels \<le> 0 then 8 else channels))))"

definition DefaultTECReadoutParameters :: "tecCatalogueJSON \<Rightarrow> int \<Rightarrow> ReadoutParameter list" where
  "DefaultTECReadoutParameters C = DefaultMeComReadoutParameters C (DefaultTECCatalogueDefinition C)"

definition DefaultTECWriteParameters :: "tecCatalogueJSON \<Rightarrow> int \<Rightarrow> Parameter list" where
  "DefaultTECWriteParameters C channels =
     concat (map (\<lambda>ch. map (\<lambda>p.
       \<lparr>par_ID = tp_ID p, par_Instance = ch, par_Name = tp_Suffix p, par_Unit = tp_Unit p,
        par_Type = tp_dataType p, par_Writable = True, par_Role = [], par_Kind = []\<rparr>) (cat_WriteParameters C))
       (channel_numbers (if channels \<le> 0 then 8 else channels)))"

definition TECParameterWritable :: "tecCatalogueJSON \<Rightarrow> int \<Rightarrow> bool" where
  "TECParameterWritable C pid =
     (case List.find (\<lambda>p. tp_ID p = pid) (cat_ReadoutParameters C) of
        Some p \<Rightarrow> tp_Writable p
      | None \<Rightarrow> list_ex (\<lambda>p. tp_ID p = pid) (cat_WriteParameters C))"

definition DefaultMeComSignalNames :: "tecCatalogueJSON \<Rightarrow> MeComCatalogueDefinition \<Rightarrow> int \<Rightarrow> string list" where
  "DefaultMeComSignalNames C definition0 channels =
     (let d = normalized C definition0 in
      map rp_Sensor (DefaultMeComReadoutParameters C d channels) @
      concat (map (\<lambda>ch. map (\<lambda>p. TraceID C d ch (dp_Suffix p)) (md_derivedParameters d)) (channel_numbers channels)))"

definition DefaultTECSignalNames :: "tecCatalogueJSON \<Rightarrow> int \<Rightarrow> string list" where
  "DefaultTECSignalNames C = DefaultMeComSignalNames C (DefaultTECCatalogueDefinition C)"

fun units_from :: "string set \<Rightarrow> mecomTECParameter list \<Rightarrow> string list" where
  "units_from seen [] = []"
| "units_from seen (p # ps) =
     (if tp_Unit p = [] \<or> tp_Unit p \<in> seen then units_from seen ps
      else tp_Unit p # units_from (insert (tp_Unit p) seen) ps)"

definition DefaultTECUnits :: "tecCatalogueJSON \<Rightarrow> string list" where
  "DefaultTECUnits C = units_from {} (cat_ReadoutParameters C)"

section \<open>What the loader accepts\<close>

definition tree_path_ok :: "string list \<Rightarrow> bool" where
  "tree_path_ok path \<longleftrightarrow> list_all (\<lambda>part. TrimSpace part \<noteq> []) path"

definition tree_paths_ok :: "TECCatalogueTreePath list \<Rightarrow> bool" where
  "tree_paths_ok paths \<longleftrightarrow>
     list_all (\<lambda>t. TrimSpace (tree_ID t) \<noteq> [] \<and> tree_Path t \<noteq> [] \<and> tree_path_ok (tree_Path t)) paths \<and>
     distinct (map (\<lambda>t. TrimSpace (tree_ID t)) paths) \<and> length (filter tree_Default paths) \<le> 1"

lemma tree_path_from_ok: "(tree_path_from owner i path = Inr ()) = tree_path_ok path"
  by (induction path arbitrary: i) (auto simp: tree_path_ok_def)

lemma validate_path_ok: "(validateCatalogueTreePath owner path = Inr u) = tree_path_ok path"
  using tree_path_from_ok [of owner 0 path] by (simp add: validateCatalogueTreePath_def)

lemma tree_paths_from_ok:
  "(tree_paths_from owner i seen defaults paths = Inr ()) \<longleftrightarrow>
     list_all (\<lambda>t. TrimSpace (tree_ID t) \<noteq> [] \<and> tree_Path t \<noteq> [] \<and> tree_path_ok (tree_Path t)) paths \<and>
     distinct (map (\<lambda>t. TrimSpace (tree_ID t)) paths) \<and> (\<forall>t \<in> set paths. TrimSpace (tree_ID t) \<notin> seen) \<and>
     defaults + length (filter tree_Default paths) \<le> 1"
proof (induction paths arbitrary: i seen defaults)
  case (Cons t paths)
  show ?case
    by (auto simp: Let_def res_bind_eq_Inr validate_path_ok Cons.IH image_iff)
qed auto

lemma validate_paths_ok: "(validateCatalogueTreePaths owner paths = Inr u) = tree_paths_ok paths"
  using tree_paths_from_ok [of owner 0 "{}" 0 paths] by (simp add: validateCatalogueTreePaths_def tree_paths_ok_def)

lemma value_type_not_empty [simp]: "effectiveValueType p \<noteq> []" "tp_dataType p \<noteq> []"
  by (simp_all add: effectiveValueType_def tp_dataType_def DataTypeInt32_def DataTypeLatin1_def DataTypeFloat32_def)

lemma check_parameter_ok:
  "(check_parameter p = Inr u) \<longleftrightarrow> 0 < tp_ID p \<and> tp_Suffix p \<noteq> [] \<and> tree_path_ok (tp_TreePath p) \<and> tree_paths_ok (tp_TreePaths p)"
  by (auto simp: check_parameter_def res_bind_eq_Inr validate_path_ok validate_paths_ok)

lemma check_derived_ok: "(check_derived p = Inr u) \<longleftrightarrow> tree_path_ok (dp_TreePath p) \<and> tree_paths_ok (dp_TreePaths p)"
  by (auto simp: check_derived_def res_bind_eq_Inr validate_path_ok validate_paths_ok)

lemma check_all_ok: "(check_all check ps = Inr u) \<longleftrightarrow> (\<forall>p \<in> set ps. check p = Inr ())"
  by (induction ps) (auto simp: res_bind_eq_Inr)

text \<open>
  C39.  The loader accepts a catalogue exactly when it has a schema version, readout and derived
  parameters, every parameter has a positive id and a name, and every list of tree paths is sound
  (no blank part, no two projections with the same trimmed id, at most one default).  The type of a
  parameter plays no part: the checks for a missing or an unsupported type never fail, and a
  parameter whose type is none of the known names is polled as a \<open>float32\<close>.
\<close>

theorem catalogue_load_exact:
  "(loadTECCatalogueJSON C = Inr D) \<longleftrightarrow>
     D = C \<and> cat_SchemaVersion C \<noteq> [] \<and> cat_ReadoutParameters C \<noteq> [] \<and> cat_DerivedParameters C \<noteq> [] \<and>
     list_all (\<lambda>p. 0 < tp_ID p \<and> tp_Suffix p \<noteq> [] \<and> tree_path_ok (tp_TreePath p) \<and> tree_paths_ok (tp_TreePaths p))
       (cat_ReadoutParameters C @ cat_WriteParameters C) \<and>
     list_all (\<lambda>p. tree_path_ok (dp_TreePath p) \<and> tree_paths_ok (dp_TreePaths p)) (cat_DerivedParameters C)"
  by (auto simp: loadTECCatalogueJSON_def res_bind_eq_Inr check_all_ok check_parameter_ok check_derived_ok list_all_iff)

section \<open>Trace names\<close>

lemma decU_no_dot: "CHR ''.'' \<notin> set (decU n)"
proof
  assume "CHR ''.'' \<in> set (decU n)"
  from decU_digits [OF this] show False by simp
qed

lemma fmt02_no_dot: "CHR ''.'' \<notin> set (fmt02 i)"
  by (simp add: fmt02_def pad0_def decU_no_dot)

lemma dec_value_pad0: "dec_value (pad0 w s) = dec_value s"
proof -
  have "foldl (\<lambda>v c. 10 * v + (of_char c - 48)) 0 (replicate k (CHR ''0'')) = (0 :: nat)" for k
    by (induction k) auto
  then show ?thesis by (simp add: dec_value_def pad0_def)
qed

lemma fmt02_inj: "0 \<le> i \<Longrightarrow> 0 \<le> j \<Longrightarrow> fmt02 i = fmt02 j \<Longrightarrow> i = j"
proof -
  assume a: "0 \<le> i" "0 \<le> j" "fmt02 i = fmt02 j"
  then have "dec_value (pad0 2 (decU (nat i))) = dec_value (pad0 2 (decU (nat j)))" by (simp add: fmt02_def)
  then have "nat i = nat j" by (simp add: dec_value_pad0 dec_value_decU)
  with a show "i = j" by simp
qed

lemma split_at_first:
  "a @ x # b = c @ x # d \<Longrightarrow> x \<notin> set a \<Longrightarrow> x \<notin> set c \<Longrightarrow> a = c \<and> b = d"
proof (induction a arbitrary: c)
  case Nil
  then show ?case by (cases c) auto
next
  case (Cons y a)
  then show ?case by (cases c) auto
qed

lemma TraceID_inj:
  assumes "TraceID C d i s = TraceID C d j t" and "0 \<le> i" and "0 \<le> j"
  shows "i = j \<and> s = t"
proof -
  have "fmt02 i @ CHR ''.'' # s = fmt02 j @ CHR ''.'' # t" using assms(1) by (simp add: TraceID_def Let_def)
  from split_at_first [OF this fmt02_no_dot fmt02_no_dot] show ?thesis using fmt02_inj assms(2,3) by blast
qed

lemma normalized_TEC [simp]: "normalized C (DefaultTECCatalogueDefinition C) = DefaultTECCatalogueDefinition C"
  by (simp add: normalized_def DefaultTECCatalogueDefinition_def or_else_def Let_def)

lemma distinct_concat_map:
  assumes "distinct xs" and "distinct ys" and "\<And>x x' y y'. x \<in> set xs \<Longrightarrow> x' \<in> set xs \<Longrightarrow> f x y = f x' y' \<Longrightarrow> x = x' \<and> y = y'"
  shows "distinct (concat (map (\<lambda>x. map (f x) ys) xs))"
  using assms(1,3)
proof (induction xs)
  case (Cons x xs)
  have "inj_on (f x) (set ys)" by (rule inj_onI) (use Cons.prems(2) in auto)
  moreover have "distinct (concat (map (\<lambda>x. map (f x) ys) xs))" using Cons by auto
  ultimately show ?case using assms(2) Cons.prems by (auto simp: distinct_map)
qed simp

lemma length_concat_map: "length (concat (map (\<lambda>x. map (f x) ys) xs)) = length xs * length ys"
  by (induction xs) auto

lemma disjoint_concat_map:
  assumes "set ys \<inter> set zs = {}" and "\<And>x x' y y'. x \<in> set xs \<Longrightarrow> x' \<in> set xs \<Longrightarrow> f x y = f x' y' \<Longrightarrow> x = x' \<and> y = y'"
  shows "set (concat (map (\<lambda>x. map (f x) ys) xs)) \<inter> set (concat (map (\<lambda>x. map (f x) zs) xs)) = {}"
proof (rule equals0I)
  fix v
  assume "v \<in> set (concat (map (\<lambda>x. map (f x) ys) xs)) \<inter> set (concat (map (\<lambda>x. map (f x) zs) xs))"
  then obtain x y x' y' where "x \<in> set xs" "y \<in> set ys" "x' \<in> set xs" "y' \<in> set zs" "f x y = f x' y'" by auto
  then show False using assms(2) [of x x' y y'] assms(1) by blast
qed

lemma signal_names_eq:
  "0 < channels \<Longrightarrow> DefaultTECSignalNames C channels =
     concat (map (\<lambda>ch. map (DefaultTECTraceID C ch) (map tp_Suffix (cat_ReadoutParameters C))) [1..channels]) @
     concat (map (\<lambda>ch. map (DefaultTECTraceID C ch) (map dp_Suffix (cat_DerivedParameters C))) [1..channels])"
  by (simp add: DefaultTECSignalNames_def DefaultMeComSignalNames_def DefaultMeComReadoutParameters_def channel_numbers_def
      map_concat comp_def DefaultTECTraceID_def Let_def) (simp add: DefaultTECCatalogueDefinition_def)

text \<open>
  Signal names identify signals: with a catalogue whose names are distinct, the trace names of all
  channels and all readout and derived parameters are pairwise distinct, whatever the number of
  channels; the polling plan carries exactly those of the readout parameters, in the same order.
\<close>

theorem signal_names_distinct:
  assumes "distinct (map tp_Suffix (cat_ReadoutParameters C) @ map dp_Suffix (cat_DerivedParameters C))" and "0 < channels"
  shows "distinct (DefaultTECSignalNames C channels) \<and>
    map rp_Sensor (DefaultTECReadoutParameters C channels) =
      take (length (DefaultTECReadoutParameters C channels)) (DefaultTECSignalNames C channels) \<and>
    length (DefaultTECReadoutParameters C channels) = nat channels * length (cat_ReadoutParameters C)"
proof -
  let ?R = "map tp_Suffix (cat_ReadoutParameters C)" and ?D = "map dp_Suffix (cat_DerivedParameters C)"
  have inj: "x \<in> set [1..channels] \<Longrightarrow> x' \<in> set [1..channels] \<Longrightarrow> DefaultTECTraceID C x y = DefaultTECTraceID C x' y' \<Longrightarrow>
      x = x' \<and> y = y'" for x x' y y'
    by (auto simp: DefaultTECTraceID_def dest!: TraceID_inj)
  have d: "distinct ys \<Longrightarrow> distinct (concat (map (\<lambda>ch. map (DefaultTECTraceID C ch) ys) [1..channels]))" for ys
    by (rule distinct_concat_map [OF distinct_upto]) (use inj in blast)+
  have "set (concat (map (\<lambda>ch. map (DefaultTECTraceID C ch) ?R) [1..channels])) \<inter>
      set (concat (map (\<lambda>ch. map (DefaultTECTraceID C ch) ?D) [1..channels])) = {}"
    by (rule disjoint_concat_map) (simp only: distinct_append assms(1) [unfolded distinct_append], use inj in blast)
  moreover have "distinct ?R" "distinct ?D" using assms(1) by (simp_all only: distinct_append)
  ultimately have "distinct (DefaultTECSignalNames C channels)"
    unfolding signal_names_eq [OF assms(2)] distinct_append using d by blast
  moreover have "length (DefaultTECReadoutParameters C channels) = nat channels * length (cat_ReadoutParameters C)"
    using assms(2) by (simp add: DefaultTECReadoutParameters_def DefaultMeComReadoutParameters_def channel_numbers_def length_concat_map Let_def)
      (simp add: DefaultTECCatalogueDefinition_def)
  ultimately show ?thesis
    by (simp add: DefaultTECSignalNames_def DefaultMeComSignalNames_def DefaultTECReadoutParameters_def Let_def)
qed

definition demo_tec_parameter :: "int \<Rightarrow> string \<Rightarrow> string \<Rightarrow> mecomTECParameter" where
  "demo_tec_parameter pid suffix priority =
     \<lparr>tp_ID = pid, tp_Suffix = suffix, tp_RawName = [], tp_Display = suffix, tp_Unit = ''degC'', tp_ValueType = ''float32'',
      tp_Category = [], tp_Role = ''monitor'', tp_SemanticRole = [], tp_SourceParameterName = [], tp_Help = [], tp_Visibility = [],
      tp_SourceEvidence = [], tp_Priority = priority, tp_PreferredReadout = [], tp_PriorityComponent = [], tp_Aliases = [],
      tp_Writable = False, tp_Access = [], tp_Group = [], tp_Subgroup = [], tp_TreePath = [], tp_TreePaths = [],
      tp_ApplicableModes = [], tp_Command = [], tp_Minimum = None, tp_Maximum = None, tp_DefaultValue = None, tp_Enum = [],
      tp_Dangerous = False, tp_TransportSupport = [], tp_Counterparts = []\<rparr>"

definition demo_catalogue :: tecCatalogueJSON where
  "demo_catalogue =
     \<lparr>cat_SchemaVersion = ''1'',
      cat_ReadoutParameters = [demo_tec_parameter 1000 ''object'' ''high'', demo_tec_parameter 1001 ''sink'' []],
      cat_WriteParameters = [],
      cat_DerivedParameters = [\<lparr>dp_Suffix = ''heat'', dp_RawName = [], dp_Display = [], dp_SemanticRole = [],
        dp_SourceParameters = [], dp_Group = [], dp_Subgroup = [], dp_TreePath = [], dp_TreePaths = []\<rparr>]\<rparr>"

theorem signal_names_distinct_witness:
  "distinct (DefaultTECSignalNames demo_catalogue 2) \<and> length (DefaultTECReadoutParameters demo_catalogue 2) = 4"
  using signal_names_distinct [of demo_catalogue 2] by (simp add: demo_catalogue_def demo_tec_parameter_def)

end
