(* ===== verification/Readout.thy ===== *)
theory Readout
  imports Client PollQueue Reduction Peltier Catalogue
begin

text \<open>
  The polling scheduler of one controller (\<open>mecom/readout.go\<close>) and the estimates it derives from the
  polled values (\<open>mecom/readout_derived.go\<close>).  High-priority parameters are captured in the
  controller's ring buffer and read in chunks of an adaptive size; the rest, and all of them when
  the transport has no ring, go through the round-robin queue.  The interface \<open>ReadClient\<close> is the
  record \<open>read_ops\<close> of functions on the state of a client, so that any client can be plugged in.
  The timeout of a poll only shows in what the client returns.
\<close>

section \<open>Data\<close>

definition DefaultRingCaptureLimit :: nat where "DefaultRingCaptureLimit = 4"
definition RingCaptureLimit :: nat where "RingCaptureLimit = 16"
definition DefaultRingCaptureID :: u16 where "DefaultRingCaptureID = 1"
definition DefaultRingInhibitTime10us :: u16 where "DefaultRingInhibitTime10us = 1000"
definition DefaultRingReadMaxBytes :: u16 where "DefaultRingReadMaxBytes = MaxRingReadMaxBytes"
definition ReadoutCRTVStreamRingBuffer :: string where "ReadoutCRTVStreamRingBuffer = ''mecom_crtvstream_ring_buffer''"
definition ReadoutVXRoundRobinQueue :: string where "ReadoutVXRoundRobinQueue = ''mecom_vx_round_robin_queue''"
definition ReadoutDerivedChannelModel :: string where "ReadoutDerivedChannelModel = ''mecom_derived_channel_model''"

record ('s, 'e) read_ops =
  op_SupportsRing :: "bool option"
  op_ConfigureRingCapture :: "u16 \<Rightarrow> RingCaptureParameter list \<Rightarrow> 's \<Rightarrow> 'e option \<times> 's"
  op_TriggerRingSync :: "'s \<Rightarrow> 'e option \<times> 's"
  op_ReadRingPointer :: "'s \<Rightarrow> ('e + u32) \<times> 's"
  op_ReadRingChunk :: "u32 \<Rightarrow> u16 \<Rightarrow> 's \<Rightarrow> ('e + RingReadResponse) \<times> 's"
  op_ReadBulk :: "Parameter list \<Rightarrow> 's \<Rightarrow> ('e + u64 list) \<times> 's"
  op_errText :: "'e \<Rightarrow> string"

record DerivedReadoutConfig =
  dc_ControllerAddress :: int
  dc_ChannelModes :: "int \<rightharpoonup> ChannelDriveMode"
  dc_Estimator :: "PeltierEstimator option"

record ReadoutConfig =
  rcf_Parameters :: "ReadoutParameter list"
  rcf_BulkChunk :: int
  rcf_RingCaptureLimit :: int
  rcf_RingCaptureID :: u16
  rcf_RingInhibitTime10us :: u16
  rcf_DefaultRingReadMaxBytes :: u16
  rcf_MaxRingReadMaxBytes :: u16
  rcf_RequestTimeout :: int
  rcf_Derived :: "DerivedReadoutConfig option"

record ReadoutValue =
  rv_Parameter :: Parameter
  rv_Sensor :: string
  rv_Value :: u64
  rv_ObservedAt :: gotime
  rv_Readout :: string
  rv_Reduction :: "ReducedRingSample option"

datatype 'e poll_error = ClientError 'e | DecodeError mecom_error

record 'e ReadoutBatch =
  rb_Values :: "ReadoutValue list"
  rb_RingValues :: "ReadoutValue list"
  rb_BackgroundValues :: "ReadoutValue list"
  rb_DerivedValues :: "ReadoutValue list"
  rb_DerivedEstimates :: "PeltierChannelEstimate list"
  rb_Errors :: "'e poll_error list"

definition empty_batch :: "'e ReadoutBatch" where
  "empty_batch = \<lparr>rb_Values = [], rb_RingValues = [], rb_BackgroundValues = [], rb_DerivedValues = [], rb_DerivedEstimates = [],
     rb_Errors = []\<rparr>"

definition add_error :: "'e poll_error \<Rightarrow> 'e ReadoutBatch \<Rightarrow> 'e ReadoutBatch" where
  "add_error e batch = batch\<lparr>rb_Errors := rb_Errors batch @ [e]\<rparr>"

record queuedReadoutParameter =
  qp_spec :: ReadoutParameter
  qp_configIndex :: nat

record derivedReadout =
  dr_controllerAddress :: int
  dr_channelModes :: "int \<rightharpoonup> ChannelDriveMode"
  dr_estimator :: PeltierEstimator

record Readout =
  ro_bulkChunk :: int
  ro_ringCaptureID :: u16
  ro_ringInhibitTime10us :: u16
  ro_ringMaxBytes :: u16
  ro_ringMaxLimit :: u16
  ro_ringMinBytes :: u16
  ro_requestTimeout :: int
  ro_ringItems :: "queuedReadoutParameter list"
  ro_ringConfig :: "RingCaptureParameter list"
  ro_ringConfigured :: bool
  ro_ringCursor :: u32
  ro_ringTail :: "byte list"
  ro_background :: PollQueue
  ro_backgroundItems :: "string \<rightharpoonup> ReadoutParameter"
  ro_derived :: "derivedReadout option"

section \<open>Derived values\<close>

definition TECParamObjectTemperature :: int where "TECParamObjectTemperature = 1000"
definition TECParamSinkTemperature :: int where "TECParamSinkTemperature = 1001"
definition TECParamOutputCurrent :: int where "TECParamOutputCurrent = 1020"
definition TECParamOutputVoltage :: int where "TECParamOutputVoltage = 1021"
definition TECParamDerivedBase :: int where "TECParamDerivedBase = 900000"

definition newDerivedReadout :: "DerivedReadoutConfig \<Rightarrow> derivedReadout" where
  "newDerivedReadout cfg =
     \<lparr>dr_controllerAddress = dc_ControllerAddress cfg,
      dr_channelModes = (\<lambda>ch. map_option NormalizeChannelDriveMode (dc_ChannelModes cfg ch)),
      dr_estimator = (case dc_Estimator cfg of None \<Rightarrow> NewPeltierEstimator Map.empty | Some e \<Rightarrow> e)\<rparr>"

definition optionalDerivedValue :: "DerivedValue \<Rightarrow> u64" where
  "optionalDerivedValue value = (if dv_Valid value then dv_Value value else f64_nan)"

definition derived_sample :: "tecCatalogueJSON \<Rightarrow> gotime \<Rightarrow> int \<Rightarrow> int \<Rightarrow> string \<Rightarrow> u64 \<Rightarrow> ReadoutValue" where
  "derived_sample C observedAt channel offset name value =
     \<lparr>rv_Parameter = \<lparr>par_ID = TECParamDerivedBase + channel * 10 + offset, par_Instance = channel, par_Name = name,
        par_Unit = ''W'', par_Type = DataTypeFloat32, par_Writable = False, par_Role = [], par_Kind = []\<rparr>,
      rv_Sensor = DefaultTECTraceID C channel name, rv_Value = value, rv_ObservedAt = observedAt,
      rv_Readout = ReadoutDerivedChannelModel, rv_Reduction = None\<rparr>"

definition derived_appendValue ::
    "tecCatalogueJSON \<Rightarrow> gotime \<Rightarrow> int \<Rightarrow> int \<Rightarrow> string \<Rightarrow> u64 \<Rightarrow> 'e ReadoutBatch \<Rightarrow> 'e ReadoutBatch" where
  "derived_appendValue C observedAt channel offset name value batch =
     (let sample = derived_sample C observedAt channel offset name value in
      batch\<lparr>rb_DerivedValues := rb_DerivedValues batch @ [sample], rb_Values := rb_Values batch @ [sample]\<rparr>)"

definition derived_appendFour ::
    "tecCatalogueJSON \<Rightarrow> gotime \<Rightarrow> int \<Rightarrow> u64 \<Rightarrow> u64 \<Rightarrow> u64 \<Rightarrow> u64 \<Rightarrow> 'e ReadoutBatch \<Rightarrow> 'e ReadoutBatch" where
  "derived_appendFour C observedAt channel v1 v2 v3 v4 =
     derived_appendValue C observedAt channel 4 ''hot_side_dissipated_w'' v4 \<circ>
     derived_appendValue C observedAt channel 3 ''resistive_heat_w'' v3 \<circ>
     derived_appendValue C observedAt channel 2 ''heat_pumped_from_item_w'' v2 \<circ>
     derived_appendValue C observedAt channel 1 ''electrical_input_w'' v1"

definition appendEstimateValues ::
    "tecCatalogueJSON \<Rightarrow> gotime \<Rightarrow> PeltierChannelEstimate \<Rightarrow> 'e ReadoutBatch \<Rightarrow> 'e ReadoutBatch" where
  "appendEstimateValues C observedAt estimate =
     derived_appendFour C observedAt (pe_Channel estimate) (pe_ElectricalInputWatt estimate)
       (optionalDerivedValue (pe_HeatPumpedFromItemWatt estimate)) (optionalDerivedValue (pe_ResistiveHeatWatt estimate))
       (optionalDerivedValue (pe_HotSideDissipatedWatt estimate))"

definition appendUnavailableValues :: "tecCatalogueJSON \<Rightarrow> gotime \<Rightarrow> int \<Rightarrow> 'e ReadoutBatch \<Rightarrow> 'e ReadoutBatch" where
  "appendUnavailableValues C observedAt channel = derived_appendFour C observedAt channel f64_nan f64_nan f64_nan f64_nan"

type_synonym derived_inputs = "(int \<times> (int \<times> u64) list) list"

definition gather_input :: "ReadoutValue \<Rightarrow> derived_inputs \<Rightarrow> derived_inputs" where
  "gather_input value inputs =
     (let p = rv_Parameter value in
      if par_Instance p \<le> 0 then inputs
      else if par_ID p \<notin> {TECParamObjectTemperature, TECParamSinkTemperature, TECParamOutputCurrent, TECParamOutputVoltage} then inputs
      else let old = (case map_of inputs (par_Instance p) of None \<Rightarrow> [] | Some vs \<Rightarrow> vs)
           in amap_put (par_Instance p) (amap_put (par_ID p) (rv_Value value) old) inputs)"

definition maxDerivedChannel :: "derived_inputs \<Rightarrow> int" where
  "maxDerivedChannel inputs = fold (\<lambda>entry best. if best < fst entry then fst entry else best) inputs 0"

text \<open>A missing map entry reads as Go's zero value.\<close>

definition value_or_zero :: "(int \<times> u64) list \<Rightarrow> int \<Rightarrow> u64" where
  "value_or_zero vs pid = (case map_of vs pid of None \<Rightarrow> 0 | Some v \<Rightarrow> v)"

definition derive_channel ::
    "tecCatalogueJSON \<Rightarrow> derivedReadout \<Rightarrow> gotime \<Rightarrow> derived_inputs \<Rightarrow> int \<Rightarrow> 'e ReadoutBatch \<Rightarrow> 'e ReadoutBatch" where
  "derive_channel C d observedAt inputs channel batch =
     (case map_of inputs channel of
        None \<Rightarrow> batch
      | Some vs \<Rightarrow>
          (case (map_of vs TECParamOutputCurrent, map_of vs TECParamOutputVoltage) of
             (Some current, Some voltage) \<Rightarrow>
               if f64_isNaN current \<or> f64_isNaN voltage then appendUnavailableValues C observedAt channel batch
               else
                 let estimate = EstimateChannel (dr_estimator d)
                       \<lparr>pi_ControllerAddress = dr_controllerAddress d, pi_Channel = channel,
                        pi_DriveMode = (case dr_channelModes d channel of None \<Rightarrow> [] | Some mode \<Rightarrow> mode),
                        pi_ColdTemperatureC = value_or_zero vs TECParamObjectTemperature,
                        pi_HotTemperatureC = value_or_zero vs TECParamSinkTemperature,
                        pi_CurrentAmpere = current, pi_VoltageVolt = voltage\<rparr>
                 in appendEstimateValues C observedAt estimate
                      (batch\<lparr>rb_DerivedEstimates := rb_DerivedEstimates batch @ [estimate]\<rparr>)
           | _ \<Rightarrow> appendUnavailableValues C observedAt channel batch))"

definition derived_Append :: "tecCatalogueJSON \<Rightarrow> derivedReadout \<Rightarrow> gotime \<Rightarrow> 'e ReadoutBatch \<Rightarrow> 'e ReadoutBatch" where
  "derived_Append C d observedAt batch =
     (let inputs = fold gather_input (rb_Values batch) []
      in fold (derive_channel C d observedAt inputs) [1..maxDerivedChannel inputs] batch)"

section \<open>The scheduler\<close>

definition named :: "ReadoutParameter \<Rightarrow> ReadoutParameter" where
  "named spec = (if rp_Sensor spec = [] then spec\<lparr>rp_Sensor := par_Name (rp_Parameter spec)\<rparr> else spec)"

definition capture_parameter :: "u16 \<Rightarrow> Parameter \<Rightarrow> RingCaptureParameter" where
  "capture_parameter inhibit p = Parameter.extend p \<lparr>InhibitTime10us = inhibit\<rparr>"

text \<open>The loop of \<open>NewReadout\<close> over the parameters; the list is \<open>background\<close>.\<close>

definition place_parameter :: "nat \<Rightarrow> ReadoutParameter \<Rightarrow> Readout \<times> Parameter list \<Rightarrow> Readout \<times> Parameter list" where
  "place_parameter captureLimit spec0 acc =
     (let spec = named spec0; r = fst acc in
      if rp_HighPriority spec \<and> length (ro_ringConfig r) < captureLimit then
        (r\<lparr>ro_ringItems := ro_ringItems r @ [\<lparr>qp_spec = spec, qp_configIndex = length (ro_ringConfig r)\<rparr>],
           ro_ringConfig := ro_ringConfig r @ [capture_parameter (ro_ringInhibitTime10us r) (rp_Parameter spec)]\<rparr>, snd acc)
      else (r\<lparr>ro_backgroundItems := (ro_backgroundItems r)(ParameterKey (rp_Parameter spec) \<mapsto> spec)\<rparr>, snd acc @ [rp_Parameter spec]))"

definition capture_limit :: "int \<Rightarrow> nat" where
  "capture_limit n = (let k = (if n \<le> 0 then DefaultRingCaptureLimit else nat n) in if RingCaptureLimit < k then RingCaptureLimit else k)"

definition new_readout_fields :: "ReadoutConfig \<Rightarrow> Readout" where
  "new_readout_fields cfg =
     (let ringMinBytes = clampRingReadMaxBytes
            (if rcf_DefaultRingReadMaxBytes cfg = 0 then DefaultRingReadMaxBytes else rcf_DefaultRingReadMaxBytes cfg);
          limit = clampRingReadMaxBytes (if rcf_MaxRingReadMaxBytes cfg = 0 then MaxRingReadMaxBytes else rcf_MaxRingReadMaxBytes cfg)
      in \<lparr>ro_bulkChunk = (if rcf_BulkChunk cfg \<le> 0 then 8 else rcf_BulkChunk cfg),
          ro_ringCaptureID = (if rcf_RingCaptureID cfg = 0 then DefaultRingCaptureID else rcf_RingCaptureID cfg),
          ro_ringInhibitTime10us = (if rcf_RingInhibitTime10us cfg = 0 then DefaultRingInhibitTime10us else rcf_RingInhibitTime10us cfg),
          ro_ringMaxBytes = ringMinBytes, ro_ringMaxLimit = (if limit < ringMinBytes then ringMinBytes else limit),
          ro_ringMinBytes = ringMinBytes,
          ro_requestTimeout = (if rcf_RequestTimeout cfg = 0 then 2 * second else rcf_RequestTimeout cfg),
          ro_ringItems = [], ro_ringConfig = [], ro_ringConfigured = False, ro_ringCursor = 0, ro_ringTail = [],
          ro_background = NewPollQueue [], ro_backgroundItems = Map.empty,
          ro_derived = map_option newDerivedReadout (rcf_Derived cfg)\<rparr>)"

definition NewReadout :: "ReadoutConfig \<Rightarrow> Readout" where
  "NewReadout cfg =
     (case fold (place_parameter (capture_limit (rcf_RingCaptureLimit cfg))) (rcf_Parameters cfg) (new_readout_fields cfg, []) of
        (r, background) \<Rightarrow> r\<lparr>ro_background := NewPollQueue background\<rparr>)"

definition readout_EnqueueFront :: "ReadoutParameter \<Rightarrow> Readout \<Rightarrow> Readout" where
  "readout_EnqueueFront spec0 r =
     (let spec = named spec0 in
      r\<lparr>ro_backgroundItems := (ro_backgroundItems r)(ParameterKey (rp_Parameter spec) \<mapsto> spec),
        ro_background := EnqueueFront (rp_Parameter spec) (ro_background r)\<rparr>)"

definition RingReadMaxBytes :: "Readout option \<Rightarrow> u16" where
  "RingReadMaxBytes r = (case r of None \<Rightarrow> 0 | Some r \<Rightarrow> ro_ringMaxBytes r)"

definition supportsRingReadout :: "('s, 'e) read_ops \<Rightarrow> bool" where
  "supportsRingReadout ops = (case op_SupportsRing ops of None \<Rightarrow> True | Some b \<Rightarrow> b)"

definition move_item :: "queuedReadoutParameter \<Rightarrow> Readout \<Rightarrow> Readout" where
  "move_item item r =
     (let spec = named (qp_spec item); p = rp_Parameter spec in
      r\<lparr>ro_backgroundItems := (ro_backgroundItems r)(ParameterKey p \<mapsto> spec),
        ro_background := EnqueueFront p (Enqueue p (ro_background r))\<rparr>)"

definition moveRingCaptureToBackground :: "Readout \<Rightarrow> Readout" where
  "moveRingCaptureToBackground r =
     (fold move_item (ro_ringItems r) r)\<lparr>ro_ringItems := [], ro_ringConfig := [], ro_ringConfigured := False, ro_ringTail := []\<rparr>"

definition tuneRingReadWindow :: "RingReadResponse \<Rightarrow> Readout \<Rightarrow> Readout" where
  "tuneRingReadWindow resp r =
     (let cur = ro_ringMaxBytes r in
      if rr_Status resp = RingStatusHasMoreData \<or> unat cur * 3 div 4 \<le> unat (rr_BytesAdded resp) then
        (if cur < ro_ringMaxLimit r then
           r\<lparr>ro_ringMaxBytes := (if ro_ringMaxLimit r < cur * 2 then ro_ringMaxLimit r else cur * 2)\<rparr>
         else r)
      else if rr_Status resp = RingStatusAllDataRead \<and> rr_BytesAdded resp < cur div 4 \<and> ro_ringMinBytes r < cur then
        r\<lparr>ro_ringMaxBytes := (if cur div 2 < ro_ringMinBytes r then ro_ringMinBytes r else cur div 2)\<rparr>
      else r)"

definition ring_value :: "gotime \<Rightarrow> queuedReadoutParameter \<Rightarrow> ReducedRingSample \<Rightarrow> ReadoutValue" where
  "ring_value observedAt item reduced =
     \<lparr>rv_Parameter = rp_Parameter (qp_spec item), rv_Sensor = rp_Sensor (qp_spec item), rv_Value = red_Mean reduced,
      rv_ObservedAt = observedAt, rv_Readout = ReadoutCRTVStreamRingBuffer, rv_Reduction = Some reduced\<rparr>"

definition ring_values :: "'w stats_window \<Rightarrow> gotime \<Rightarrow> RingFrame list \<Rightarrow> queuedReadoutParameter list \<Rightarrow> ReadoutValue list" where
  "ring_values W observedAt frames items =
     (let reducedByIndex = ReduceRingSamplesForIndices W frames (map qp_configIndex items)
      in List.map_filter (\<lambda>item. map_option (ring_value observedAt item) (reducedByIndex (qp_configIndex item))) items)"

text \<open>The two halves of \<open>pollRing\<close>: setting the capture up, and reading a chunk of it.\<close>

definition ring_setup ::
    "('s, 'e) read_ops \<Rightarrow> 'e ReadoutBatch \<Rightarrow> Readout \<Rightarrow> 's \<Rightarrow> 'e ReadoutBatch \<times> Readout \<times> 's" where
  "ring_setup ops batch r s =
     (case op_ConfigureRingCapture ops (ro_ringCaptureID r) (ro_ringConfig r) s of
        (Some e, s1) \<Rightarrow> (add_error (ClientError e) batch, r, s1)
      | (None, s1) \<Rightarrow>
          (case op_TriggerRingSync ops s1 of
             (sync, s2) \<Rightarrow>
               (let batch1 = (case sync of None \<Rightarrow> batch | Some e \<Rightarrow> add_error (ClientError e) batch) in
                case op_ReadRingPointer ops s2 of
                  (Inl e, s3) \<Rightarrow> (add_error (ClientError e) batch1, r, s3)
                | (Inr pointer, s3) \<Rightarrow> (batch1, r\<lparr>ro_ringCursor := pointer, ro_ringConfigured := True\<rparr>, s3))))"

definition ring_consume ::
    "'w stats_window \<Rightarrow> gotime \<Rightarrow> RingReadResponse \<Rightarrow> 'e ReadoutBatch \<Rightarrow> Readout \<Rightarrow> 'e ReadoutBatch \<times> Readout" where
  "ring_consume W observedAt resp batch r0 =
     (let r = tuneRingReadWindow resp (r0\<lparr>ro_ringCursor := ro_ringCursor r0 + ucast (rr_BytesAdded resp)\<rparr>) in
      case ParseRingFrames (ro_ringConfig r) (ro_ringTail r @ rr_Data resp) of
        (frames, tail, Some e) \<Rightarrow> (add_error (DecodeError e) batch, r\<lparr>ro_ringTail := []\<rparr>)
      | (frames, tail, None) \<Rightarrow>
          (let vs = ring_values W observedAt frames (ro_ringItems r)
           in (batch\<lparr>rb_RingValues := rb_RingValues batch @ vs, rb_Values := rb_Values batch @ vs\<rparr>, r\<lparr>ro_ringTail := tail\<rparr>)))"

definition pollRing_chunk ::
    "'w stats_window \<Rightarrow> ('s, 'e) read_ops \<Rightarrow> gotime \<Rightarrow> 'e ReadoutBatch \<Rightarrow> Readout \<Rightarrow> 's \<Rightarrow> 'e ReadoutBatch \<times> Readout \<times> 's" where
  "pollRing_chunk W ops observedAt batch r s =
     (case op_ReadRingChunk ops (ro_ringCursor r) (ro_ringMaxBytes r) s of
        (Inl e, s1) \<Rightarrow> (add_error (ClientError e) batch, r\<lparr>ro_ringConfigured := False\<rparr>, s1)
      | (Inr resp, s1) \<Rightarrow>
          if rr_Status resp = RingStatusOverlap then
            (let reset = (\<lambda>r. r\<lparr>ro_ringTail := [], ro_ringMaxBytes := ro_ringMaxLimit r\<rparr>) in
             case op_ReadRingPointer ops s1 of
               (Inr pointer, s2) \<Rightarrow> (batch, reset (r\<lparr>ro_ringCursor := pointer\<rparr>), s2)
             | (Inl e, s2) \<Rightarrow> (add_error (ClientError e) batch, reset r, s2))
          else (case ring_consume W observedAt resp batch r of (batch', r') \<Rightarrow> (batch', r', s1)))"

definition pollRing ::
    "'w stats_window \<Rightarrow> ('s, 'e) read_ops \<Rightarrow> gotime \<Rightarrow> 'e ReadoutBatch \<Rightarrow> Readout \<Rightarrow> 's \<Rightarrow> 'e ReadoutBatch \<times> Readout \<times> 's" where
  "pollRing W ops observedAt batch r s =
     (if ro_ringConfig r = [] then (batch, r, s)
      else if \<not> supportsRingReadout ops then (batch, moveRingCaptureToBackground r, s)
      else if \<not> ro_ringConfigured r then ring_setup ops batch r s
      else pollRing_chunk W ops observedAt batch r s)"

definition background_value :: "Readout \<Rightarrow> gotime \<Rightarrow> u64 list \<Rightarrow> nat \<times> Parameter \<Rightarrow> ReadoutValue option" where
  "background_value r observedAt values ip =
     map_option (\<lambda>spec. \<lparr>rv_Parameter = rp_Parameter spec, rv_Sensor = rp_Sensor spec,
         rv_Value = (if fst ip < length values then values ! fst ip else f64_nan), rv_ObservedAt = observedAt,
         rv_Readout = ReadoutVXRoundRobinQueue, rv_Reduction = None\<rparr>)
       (ro_backgroundItems r (ParameterKey (snd ip)))"

definition pollBackground ::
    "('s, 'e) read_ops \<Rightarrow> gotime \<Rightarrow> gotime \<Rightarrow> 'e ReadoutBatch \<Rightarrow> Readout \<Rightarrow> 's \<Rightarrow> 'e ReadoutBatch \<times> Readout \<times> 's" where
  "pollBackground ops now observedAt batch r s =
     (case NextChunk (ro_bulkChunk r) (ro_background r) of
        (params, q) \<Rightarrow>
          if params = [] then (batch, r\<lparr>ro_background := q\<rparr>, s)
          else (case op_ReadBulk ops params s of
             (Inl e, s1) \<Rightarrow>
               (add_error (ClientError e) batch,
                r\<lparr>ro_background := RecordBulk now params [] observedAt (Some (op_errText ops e)) q\<rparr>, s1)
           | (Inr values, s1) \<Rightarrow>
               (let vs = List.map_filter (background_value r observedAt values) (enumerate 0 params)
                in (batch\<lparr>rb_BackgroundValues := rb_BackgroundValues batch @ vs, rb_Values := rb_Values batch @ vs\<rparr>,
                    r\<lparr>ro_background := RecordBulk now params values observedAt None q\<rparr>, s1))))"

definition Poll ::
    "tecCatalogueJSON \<Rightarrow> 'w stats_window \<Rightarrow> ('s, 'e) read_ops \<Rightarrow> gotime \<Rightarrow> gotime \<Rightarrow> Readout \<Rightarrow> 's \<Rightarrow>
     'e ReadoutBatch \<times> Readout \<times> 's" where
  "Poll C W ops now observedAt0 r s =
     (let observedAt = (if observedAt0 = zero_time then now else observedAt0) in
      case pollRing W ops observedAt empty_batch r s of
        (batch1, r1, s1) \<Rightarrow>
          (case pollBackground ops now observedAt batch1 r1 s1 of
             (batch2, r2, s2) \<Rightarrow>
               ((case ro_derived r2 of None \<Rightarrow> batch2 | Some d \<Rightarrow> derived_Append C d observedAt batch2), r2, s2)))"

end
