(* ===== verification/ReadoutProps.thy ===== *)
theory ReadoutProps
  imports Readout
begin

text \<open>
  Properties of the polling scheduler: the invariant of its state, that every configured parameter is
  served, what a batch holds, and what happens to the ring stream after a failed read.
\<close>

section \<open>The read window\<close>

definition window_ok :: "Readout \<Rightarrow> bool" where
  "window_ok r \<longleftrightarrow>
     1 \<le> ro_ringMinBytes r \<and> ro_ringMinBytes r \<le> ro_ringMaxBytes r \<and> ro_ringMaxBytes r \<le> ro_ringMaxLimit r \<and>
     ro_ringMaxLimit r \<le> MaxRingReadMaxBytes"

lemma clamp_bounds: "1 \<le> clampRingReadMaxBytes n \<and> clampRingReadMaxBytes n \<le> MaxRingReadMaxBytes"
  by (auto simp: clampRingReadMaxBytes_def MaxRingReadMaxBytes_def word_le_nat_alt word_less_nat_alt unat_eq_0
      Suc_le_eq intro: ccontr)

lemma window_double:
  fixes cur limit :: u16
  assumes "cur < limit" and "limit \<le> MaxRingReadMaxBytes"
  shows "cur \<le> (if limit < cur * 2 then limit else cur * 2) \<and> (if limit < cur * 2 then limit else cur * 2) \<le> limit"
proof -
  have "unat cur < 279" using assms by (simp add: MaxRingReadMaxBytes_def word_le_nat_alt word_less_nat_alt)
  then have "unat (cur * 2) = unat cur * 2" by (simp add: unat_word_ariths)
  then show ?thesis using assms(1) by (auto simp: word_le_nat_alt word_less_nat_alt)
qed

lemma window_halve:
  fixes cur low :: u16
  assumes "low < cur"
  shows "low \<le> (if cur div 2 < low then low else cur div 2) \<and> (if cur div 2 < low then low else cur div 2) \<le> cur"
  using assms by (auto simp: word_le_nat_alt word_less_nat_alt unat_div)

lemma window_update:
  "window_ok r \<Longrightarrow> ro_ringMinBytes r \<le> x \<Longrightarrow> x \<le> ro_ringMaxLimit r \<Longrightarrow> window_ok (r\<lparr>ro_ringMaxBytes := x\<rparr>)"
  by (simp add: window_ok_def)

lemma tune_window:
  assumes "window_ok r"
  shows "window_ok (tuneRingReadWindow resp r)"
proof -
  let ?cur = "ro_ringMaxBytes r" and ?lim = "ro_ringMaxLimit r" and ?low = "ro_ringMinBytes r"
  have w: "1 \<le> ?low" "?low \<le> ?cur" "?cur \<le> ?lim" "?lim \<le> MaxRingReadMaxBytes" using assms by (simp_all add: window_ok_def)
  have up: "window_ok (r\<lparr>ro_ringMaxBytes := (if ?lim < ?cur * 2 then ?lim else ?cur * 2)\<rparr>)" if "?cur < ?lim"
    by (rule window_update [OF assms]) (use w window_double [OF that w(4)] in \<open>blast intro: order_trans\<close>)+
  have down: "window_ok (r\<lparr>ro_ringMaxBytes := (if ?cur div 2 < ?low then ?low else ?cur div 2)\<rparr>)" if "?low < ?cur"
    by (rule window_update [OF assms]) (use w window_halve [OF that] in \<open>blast intro: order_trans\<close>)+
  show ?thesis using up down assms by (simp add: tuneRingReadWindow_def Let_def)
qed

section \<open>The invariant\<close>

definition capture_ok :: "Readout \<Rightarrow> bool" where
  "capture_ok r \<longleftrightarrow>
     map qp_configIndex (ro_ringItems r) = [0..<length (ro_ringItems r)] \<and>
     ro_ringConfig r = map (\<lambda>i. capture_parameter (ro_ringInhibitTime10us r) (rp_Parameter (qp_spec i))) (ro_ringItems r) \<and>
     length (ro_ringItems r) \<le> RingCaptureLimit"

definition items_ok :: "Readout \<Rightarrow> bool" where
  "items_ok r \<longleftrightarrow>
     ParameterKey ` (set (normal (ro_background r)) \<union> set (front (ro_background r))) \<subseteq> dom (ro_backgroundItems r) \<and>
     (\<forall>k spec. ro_backgroundItems r k = Some spec \<longrightarrow> ParameterKey (rp_Parameter spec) = k)"

definition readout_inv :: "Readout \<Rightarrow> bool" where
  "readout_inv r \<longleftrightarrow> window_ok r \<and> capture_ok r \<and> items_ok r \<and> pq_inv (ro_background r) \<and> 0 < ro_bulkChunk r"

text \<open>The parameters that the scheduler serves: captured in the ring or in the rotation of the queue.\<close>

definition served :: "Readout \<Rightarrow> string set" where
  "served r = (\<lambda>i. ParameterKey (rp_Parameter (qp_spec i))) ` set (ro_ringItems r) \<union> ParameterKey ` set (normal (ro_background r))"

lemma named_simps [simp]: "rp_Parameter (named spec) = rp_Parameter spec" "rp_HighPriority (named spec) = rp_HighPriority spec"
  by (simp_all add: named_def)

lemma queue_simps [simp]:
  "ParameterKey ` set (normal (Enqueue p q)) = insert (ParameterKey p) (ParameterKey ` set (normal q))" if "pq_inv q"
  using that by (auto simp: Enqueue_def Let_def pq_inv_def)

lemma queue_simps2 [simp]:
  "front (Enqueue p q) = front q" "normal (EnqueueFront p q) = normal q"
  "ParameterKey ` set (front (EnqueueFront p q)) \<subseteq> insert (ParameterKey p) (ParameterKey ` set (front q))"
  by (auto simp: EnqueueFront_def Enqueue_def Let_def)

lemma keys_fold_Enqueue:
  "pq_inv q \<Longrightarrow> ParameterKey ` set (normal (fold Enqueue ps q)) = ParameterKey ` (set ps \<union> set (normal q)) \<and>
     front (fold Enqueue ps q) = front q"
  by (induction ps arbitrary: q) (simp_all add: pq_inv_Enqueue image_Un insert_commute)

lemma keys_New: "ParameterKey ` set (normal (NewPollQueue ps)) = ParameterKey ` set ps" "front (NewPollQueue ps) = []"
  using keys_fold_Enqueue [of _ ps] by (simp_all add: NewPollQueue_def pq_inv_def)

lemma Record_queue [simp]:
  "normal (RecordBulk now ps vs t err q) = normal q" "front (RecordBulk now ps vs t err q) = front q"
  "normalPos (RecordBulk now ps vs t err q) = normalPos q"
proof -
  have "normal (fold (\<lambda>ip. Record now (bulk_result vs t err ip)) ips q) = normal q \<and>
      front (fold (\<lambda>ip. Record now (bulk_result vs t err ip)) ips q) = front q \<and>
      normalPos (fold (\<lambda>ip. Record now (bulk_result vs t err ip)) ips q) = normalPos q" for ips q
    by (induction ips arbitrary: q) (simp_all add: Record_def Let_def)
  then show "normal (RecordBulk now ps vs t err q) = normal q" "front (RecordBulk now ps vs t err q) = front q"
    "normalPos (RecordBulk now ps vs t err q) = normalPos q"
    by (simp_all add: RecordBulk_def)
qed

text \<open>The loop of \<open>NewReadout\<close>.\<close>

lemma place_parameters:
  assumes "fold (place_parameter cap) specs (r, bg) = (r', bg')" and "cap \<le> RingCaptureLimit"
    and "window_ok r" and "capture_ok r" and "0 < ro_bulkChunk r" and "ParameterKey ` set bg \<subseteq> dom (ro_backgroundItems r)"
    and "\<forall>k spec. ro_backgroundItems r k = Some spec \<longrightarrow> ParameterKey (rp_Parameter spec) = k"
  shows "window_ok r' \<and> capture_ok r' \<and> 0 < ro_bulkChunk r' \<and> ParameterKey ` set bg' \<subseteq> dom (ro_backgroundItems r') \<and>
    (\<forall>k spec. ro_backgroundItems r' k = Some spec \<longrightarrow> ParameterKey (rp_Parameter spec) = k) \<and>
    (\<lambda>i. ParameterKey (rp_Parameter (qp_spec i))) ` set (ro_ringItems r') \<union> ParameterKey ` set bg' =
      (\<lambda>i. ParameterKey (rp_Parameter (qp_spec i))) ` set (ro_ringItems r) \<union> ParameterKey ` set bg \<union>
      (\<lambda>spec. ParameterKey (rp_Parameter spec)) ` set specs \<and>
    length (ro_ringItems r') + length bg' = length (ro_ringItems r) + length bg + length specs"
  using assms(1,3-)
proof (induction specs arbitrary: r bg)
  case (Cons spec specs)
  obtain r1 bg1 where p: "place_parameter cap spec (r, bg) = (r1, bg1)" by fastforce
  have f: "fold (place_parameter cap) specs (r1, bg1) = (r', bg')" using Cons.prems(1) p by simp
  have l: "length (ro_ringConfig r) = length (ro_ringItems r)" using Cons.prems(3) by (simp add: capture_ok_def)
  have w: "window_ok r1" "0 < ro_bulkChunk r1"
    using Cons.prems(2,4) p by (auto simp: place_parameter_def window_ok_def Let_def split: if_splits)
  have c: "capture_ok r1"
    using Cons.prems(3) p assms(2) l by (auto simp: place_parameter_def capture_ok_def Let_def split: if_splits)
  have b: "ParameterKey ` set bg1 \<subseteq> dom (ro_backgroundItems r1)"
    "\<forall>k spec. ro_backgroundItems r1 k = Some spec \<longrightarrow> ParameterKey (rp_Parameter spec) = k"
    using Cons.prems(5,6) p by (auto simp: place_parameter_def Let_def image_subset_iff domIff split: if_splits)
  have k: "(\<lambda>i. ParameterKey (rp_Parameter (qp_spec i))) ` set (ro_ringItems r1) \<union> ParameterKey ` set bg1 =
      insert (ParameterKey (rp_Parameter spec))
        ((\<lambda>i. ParameterKey (rp_Parameter (qp_spec i))) ` set (ro_ringItems r) \<union> ParameterKey ` set bg)"
    "length (ro_ringItems r1) + length bg1 = Suc (length (ro_ringItems r) + length bg)"
    using p by (auto simp: place_parameter_def Let_def split: if_splits)
  from Cons.IH [OF f w(1) c w(2) b] k show ?case by simp
qed auto

lemma NewReadout_inv:
  "readout_inv (NewReadout cfg) \<and>
   served (NewReadout cfg) = (\<lambda>spec. ParameterKey (rp_Parameter spec)) ` set (rcf_Parameters cfg) \<and>
   front (ro_background (NewReadout cfg)) = [] \<and>
   length (ro_ringItems (NewReadout cfg)) + length (normal (ro_background (NewReadout cfg))) \<le> length (rcf_Parameters cfg)"
proof -
  obtain r bg where p: "fold (place_parameter (capture_limit (rcf_RingCaptureLimit cfg))) (rcf_Parameters cfg)
      (new_readout_fields cfg, []) = (r, bg)" by fastforce
  have cap: "capture_limit n \<le> RingCaptureLimit" for n by (simp add: capture_limit_def Let_def)
  have w: "window_ok (new_readout_fields cfg)"
    using clamp_bounds by (auto simp: new_readout_fields_def window_ok_def Let_def)
  have c: "capture_ok (new_readout_fields cfg)" "0 < ro_bulkChunk (new_readout_fields cfg)"
    by (simp_all add: new_readout_fields_def capture_ok_def Let_def)
  have z: "ro_ringItems (new_readout_fields cfg) = []" "ro_backgroundItems (new_readout_fields cfg) = Map.empty"
    by (simp_all add: new_readout_fields_def Let_def)
  note pp = place_parameters [OF p cap w c(1,2), simplified z, simplified]
  have e: "NewReadout cfg = r\<lparr>ro_background := NewPollQueue bg\<rparr>" by (simp add: NewReadout_def p)
  have len: "length (normal (fold Enqueue ps q)) \<le> length ps + length (normal q)" for ps q
  proof (induction ps arbitrary: q)
    case (Cons p ps)
    have "length (normal (Enqueue p q)) \<le> Suc (length (normal q))" by (simp add: Enqueue_def Let_def)
    with Cons.IH [of "Enqueue p q"] show ?case by simp
  qed simp
  then have "length (normal (NewPollQueue bg)) \<le> length bg"
    unfolding NewPollQueue_def by (metis (no_types, lifting) PollQueue.select_convs(1) add.right_neutral list.size(3))
  then show ?thesis
    using pp unfolding e
    by (simp add: readout_inv_def window_ok_def capture_ok_def items_ok_def served_def pq_inv_New keys_New image_Un)
qed

section \<open>Every operation keeps the invariant\<close>

lemma readout_inv_update:
  assumes "readout_inv r" and "window_ok r'" and "ro_ringItems r' = ro_ringItems r" and "ro_ringConfig r' = ro_ringConfig r"
    and "ro_ringInhibitTime10us r' = ro_ringInhibitTime10us r" and "ro_background r' = ro_background r"
    and "ro_backgroundItems r' = ro_backgroundItems r" and "ro_bulkChunk r' = ro_bulkChunk r"
  shows "readout_inv r' \<and> served r' = served r"
  using assms by (simp add: readout_inv_def capture_ok_def items_ok_def served_def)

lemma tune_fields [simp]:
  "ro_ringItems (tuneRingReadWindow resp r) = ro_ringItems r" "ro_ringConfig (tuneRingReadWindow resp r) = ro_ringConfig r"
  "ro_ringInhibitTime10us (tuneRingReadWindow resp r) = ro_ringInhibitTime10us r"
  "ro_background (tuneRingReadWindow resp r) = ro_background r" "ro_ringTail (tuneRingReadWindow resp r) = ro_ringTail r"
  "ro_backgroundItems (tuneRingReadWindow resp r) = ro_backgroundItems r"
  "ro_bulkChunk (tuneRingReadWindow resp r) = ro_bulkChunk r" "ro_derived (tuneRingReadWindow resp r) = ro_derived r"
  "ro_ringConfigured (tuneRingReadWindow resp r) = ro_ringConfigured r"
  by (simp_all add: tuneRingReadWindow_def Let_def)

lemma window_simps [simp]:
  "window_ok (r\<lparr>ro_ringCursor := c\<rparr>) = window_ok r" "window_ok (r\<lparr>ro_ringTail := t\<rparr>) = window_ok r"
  "window_ok (r\<lparr>ro_ringConfigured := b\<rparr>) = window_ok r" "window_ok (r\<lparr>ro_background := q\<rparr>) = window_ok r"
  "window_ok (r\<lparr>ro_backgroundItems := i\<rparr>) = window_ok r"
  "window_ok (r\<lparr>ro_ringItems := x\<rparr>) = window_ok r" "window_ok (r\<lparr>ro_ringConfig := y\<rparr>) = window_ok r"
  by (simp_all add: window_ok_def)

lemma ring_consume_inv:
  assumes "readout_inv r" and "ring_consume W t resp batch r = (batch', r')"
  shows "readout_inv r' \<and> served r' = served r"
proof -
  let ?r = "tuneRingReadWindow resp (r\<lparr>ro_ringCursor := ro_ringCursor r + ucast (rr_BytesAdded resp)\<rparr>)"
  have "window_ok ?r" using assms(1) by (intro tune_window) (simp add: readout_inv_def)
  moreover obtain t' where "r' = ?r\<lparr>ro_ringTail := t'\<rparr>"
    using assms(2) by (auto simp: ring_consume_def Let_def split: prod.splits option.splits)
  ultimately show ?thesis by (intro readout_inv_update [OF assms(1)]) simp_all
qed

lemma ring_chunk_inv:
  assumes "readout_inv r" and "pollRing_chunk W ops t batch r s = (batch', r', s')"
  shows "readout_inv r' \<and> served r' = served r"
proof -
  have w: "window_ok r" using assms(1) by (simp add: readout_inv_def)
  have lim: "window_ok (x\<lparr>ro_ringMaxBytes := ro_ringMaxLimit x\<rparr>)" if "window_ok x" for x
    using that by (intro window_update) (auto simp: window_ok_def)
  consider "r' = r\<lparr>ro_ringConfigured := False\<rparr>"
    | c where "r' = r\<lparr>ro_ringCursor := c, ro_ringTail := [], ro_ringMaxBytes := ro_ringMaxLimit r\<rparr>"
    | resp where "ring_consume W t resp batch r = (batch', r')"
    using assms(2) by (auto simp: pollRing_chunk_def Let_def split: prod.splits sum.splits if_splits)
      (metis Readout.surjective Readout.update_convs(11))
  then show ?thesis
  proof cases
    case 1
    then show ?thesis using w by (intro readout_inv_update [OF assms(1)]) simp_all
  next
    case 2
    then show ?thesis using lim [of "r\<lparr>ro_ringCursor := c, ro_ringTail := []\<rparr>"] w
      by (intro readout_inv_update [OF assms(1)]) simp_all
  next
    case 3
    then show ?thesis using ring_consume_inv [OF assms(1)] by blast
  qed
qed

lemma ring_setup_inv:
  assumes "readout_inv r" and "ring_setup ops batch r s = (batch', r', s')"
  shows "readout_inv r' \<and> served r' = served r"
proof -
  have "r' = r \<or> (\<exists>c. r' = r\<lparr>ro_ringCursor := c, ro_ringConfigured := True\<rparr>)"
    using assms(2) by (auto simp: ring_setup_def Let_def split: prod.splits sum.splits option.splits)
  then show ?thesis
  proof
    assume "\<exists>c. r' = r\<lparr>ro_ringCursor := c, ro_ringConfigured := True\<rparr>"
    then obtain c where "r' = r\<lparr>ro_ringCursor := c, ro_ringConfigured := True\<rparr>" ..
    moreover have "window_ok r" using assms(1) by (simp add: readout_inv_def)
    ultimately show ?thesis by (intro readout_inv_update [OF assms(1)]) simp_all
  qed (simp add: assms(1))
qed

lemma items_okI:
  assumes "items_ok r" and "ParameterKey ` set (normal q) \<subseteq> insert (ParameterKey (rp_Parameter spec)) (ParameterKey ` set (normal (ro_background r)))"
    and "ParameterKey ` set (front q) \<subseteq> insert (ParameterKey (rp_Parameter spec)) (ParameterKey ` set (front (ro_background r)))"
  shows "items_ok (r\<lparr>ro_backgroundItems := (ro_backgroundItems r)(ParameterKey (rp_Parameter spec) \<mapsto> spec), ro_background := q\<rparr>)"
proof -
  have "ParameterKey ` set (normal (ro_background r)) \<subseteq> dom (ro_backgroundItems r)"
    "ParameterKey ` set (front (ro_background r)) \<subseteq> dom (ro_backgroundItems r)"
    using assms(1) unfolding items_ok_def image_Un by blast+
  then have "ParameterKey ` set (normal q) \<union> ParameterKey ` set (front q) \<subseteq>
      insert (ParameterKey (rp_Parameter spec)) (dom (ro_backgroundItems r))"
    by (intro Un_least order_trans [OF assms(2)] order_trans [OF assms(3)] insert_mono)
  then have "ParameterKey ` (set (normal q) \<union> set (front q)) \<subseteq>
      dom ((ro_backgroundItems r)(ParameterKey (rp_Parameter spec) \<mapsto> spec))" unfolding image_Un dom_fun_upd by simp
  moreover have "\<forall>k x. ((ro_backgroundItems r)(ParameterKey (rp_Parameter spec) \<mapsto> spec)) k = Some x \<longrightarrow> ParameterKey (rp_Parameter x) = k"
    using assms(1) by (simp add: items_ok_def)
  ultimately have "items_ok r'" if "ro_background r' = q"
      "ro_backgroundItems r' = (ro_backgroundItems r)(ParameterKey (rp_Parameter spec) \<mapsto> spec)" for r'
    unfolding items_ok_def that by (rule conjI)
  then show ?thesis by simp
qed

lemma move_items:
  assumes "pq_inv (ro_background r)" and "items_ok r"
  shows "pq_inv (ro_background (fold move_item items r)) \<and> items_ok (fold move_item items r) \<and>
     ParameterKey ` set (normal (ro_background (fold move_item items r))) =
       (\<lambda>i. ParameterKey (rp_Parameter (qp_spec i))) ` set items \<union> ParameterKey ` set (normal (ro_background r)) \<and>
     length (front (ro_background (fold move_item items r))) \<le> length items + length (front (ro_background r)) \<and>
     length (normal (ro_background (fold move_item items r))) \<le> length items + length (normal (ro_background r)) \<and>
     (window_ok (fold move_item items r) = window_ok r) \<and> ro_bulkChunk (fold move_item items r) = ro_bulkChunk r \<and>
     ro_derived (fold move_item items r) = ro_derived r"
  using assms
proof (induction items arbitrary: r)
  case (Cons i items)
  let ?p = "rp_Parameter (qp_spec i)" and ?r = "move_item i r"
  have q: "ro_background ?r = EnqueueFront ?p (Enqueue ?p (ro_background r))" by (simp add: move_item_def Let_def)
  have inv: "pq_inv (ro_background ?r)" using Cons.prems(1) q by (simp add: pq_inv_Enqueue pq_inv_EnqueueFront)
  have keys: "ParameterKey ` set (normal (ro_background ?r)) = insert (ParameterKey ?p) (ParameterKey ` set (normal (ro_background r)))"
    using Cons.prems(1) q by simp
  have fr: "ParameterKey ` set (front (ro_background ?r)) \<subseteq> insert (ParameterKey ?p) (ParameterKey ` set (front (ro_background r)))"
    using queue_simps2(3) [of ?p "Enqueue ?p (ro_background r)"] unfolding q by simp
  have ok: "items_ok ?r"
  proof -
    have "items_ok (r\<lparr>ro_backgroundItems := (ro_backgroundItems r)(ParameterKey (rp_Parameter (named (qp_spec i))) \<mapsto> named (qp_spec i)),
        ro_background := ro_background ?r\<rparr>)"
      by (rule items_okI [OF Cons.prems(2)]) (use keys fr in simp_all)
    then show ?thesis by (simp add: move_item_def Let_def)
  qed
  have len: "length (front (ro_background ?r)) \<le> Suc (length (front (ro_background r)))"
    "length (normal (ro_background ?r)) \<le> Suc (length (normal (ro_background r)))"
    unfolding q by (simp_all add: EnqueueFront_def Enqueue_def Let_def)
  have f: "window_ok ?r = window_ok r" "ro_bulkChunk ?r = ro_bulkChunk r" "ro_derived ?r = ro_derived r"
    by (simp_all add: move_item_def Let_def)
  from Cons.IH [OF inv ok] keys len f show ?case by auto
qed simp

lemma move_keeps_front: "set (front (ro_background r)) \<subseteq> set (front (ro_background (moveRingCaptureToBackground r)))"
proof -
  have "set (front (ro_background r)) \<subseteq> set (front (ro_background (fold move_item items r)))" for items
  proof (induction items arbitrary: r)
    case (Cons i items)
    have "set (front (ro_background r)) \<subseteq> set (front (ro_background (move_item i r)))"
      by (auto simp: move_item_def EnqueueFront_def Enqueue_def Let_def)
    with Cons.IH [of "move_item i r"] show ?case by simp
  qed simp
  then show ?thesis by (simp add: moveRingCaptureToBackground_def)
qed

lemma moveRing_inv:
  assumes "readout_inv r"
  shows "readout_inv (moveRingCaptureToBackground r) \<and> served (moveRingCaptureToBackground r) = served r"
  using move_items [of r "ro_ringItems r"] assms
  by (auto simp: moveRingCaptureToBackground_def readout_inv_def served_def capture_ok_def items_ok_def)

lemma pollRing_inv:
  assumes "readout_inv r" and "pollRing W ops t batch r s = (batch', r', s')"
  shows "readout_inv r' \<and> served r' = served r"
proof -
  consider "r' = r" | "r' = moveRingCaptureToBackground r" | "ring_setup ops batch r s = (batch', r', s')"
    | "pollRing_chunk W ops t batch r s = (batch', r', s')"
    using assms(2) by (auto simp: pollRing_def split: if_splits)
  then show ?thesis
  proof cases
    case 1
    then show ?thesis using assms(1) by simp
  next
    case 2
    then show ?thesis using moveRing_inv [OF assms(1)] by simp
  next
    case 3
    then show ?thesis by (rule ring_setup_inv [OF assms(1)])
  next
    case 4
    then show ?thesis by (rule ring_chunk_inv [OF assms(1)])
  qed
qed

lemma NextChunk_keys:
  assumes "pq_inv q" and "0 < m"
  shows "set (normal (snd (NextChunk m q))) = set (normal q)" "length (normal (snd (NextChunk m q))) = length (normal q)"
    "set (front (snd (NextChunk m q))) \<subseteq> set (front q)"
proof -
  have m: "m = int (nat m)" using assms(2) by simp
  note eq = NextChunk_eq [OF assms(1), of "nat m", folded m]
  have r: "rotation (snd (NextChunk m q)) = rotate (min (nat m - length (front q)) (length (rotation q))) (rotation q)"
    using eq by blast
  show "set (normal (snd (NextChunk m q))) = set (normal q)"
    using arg_cong [OF r, of set] by (simp add: set_rotation)
  show "length (normal (snd (NextChunk m q))) = length (normal q)"
    using arg_cong [OF r, of length] by (simp add: rotation_def)
  show "set (front (snd (NextChunk m q))) \<subseteq> set (front q)" using eq by (metis set_drop_subset)
qed

lemma pollBackground_fields:
  assumes "pollBackground ops now t batch r s = (batch', r', s')"
  shows "\<exists>q. r' = r\<lparr>ro_background := q\<rparr> \<and>
    (q = snd (NextChunk (ro_bulkChunk r) (ro_background r)) \<or>
     (\<exists>ps vs err. q = RecordBulk now ps vs t err (snd (NextChunk (ro_bulkChunk r) (ro_background r)))))"
  using assms by (auto simp: pollBackground_def Let_def split: prod.splits sum.splits if_splits)

lemma pollBackground_inv:
  assumes "readout_inv r" and "pollBackground ops now t batch r s = (batch', r', s')"
  shows "readout_inv r' \<and> served r' = served r"
proof -
  let ?q = "snd (NextChunk (ro_bulkChunk r) (ro_background r))"
  have b: "pq_inv (ro_background r)" "0 < ro_bulkChunk r" using assms(1) by (simp_all add: readout_inv_def)
  obtain q where q: "r' = r\<lparr>ro_background := q\<rparr>"
    "q = ?q \<or> (\<exists>ps vs err. q = RecordBulk now ps vs t err ?q)" using pollBackground_fields [OF assms(2)] by blast
  have n: "set (normal q) = set (normal (ro_background r))" "set (front q) \<subseteq> set (front (ro_background r))"
    using q(2) NextChunk_keys [OF b] by auto
  have "pq_inv q" using q(2) pq_inv_Next [OF b(1)] pq_inv_RecordBulk by auto
  moreover have "items_ok r'"
  proof -
    have "ParameterKey ` (set (normal q) \<union> set (front q)) \<subseteq> ParameterKey ` (set (normal (ro_background r)) \<union> set (front (ro_background r)))"
      using n by (intro image_mono) blast
    then show ?thesis using assms(1) unfolding q(1) readout_inv_def items_ok_def by (simp del: image_Un) (meson order_trans)
  qed
  ultimately show ?thesis
    using assms(1) n(1) unfolding q(1) readout_inv_def served_def capture_ok_def by simp
qed

lemma Poll_inv:
  assumes "readout_inv r" and "Poll C W ops now t r s = (batch', r', s')"
  shows "readout_inv r' \<and> served r' = served r"
proof -
  obtain b1 r1 s1 where 1: "pollRing W ops (if t = zero_time then now else t) empty_batch r s = (b1, r1, s1)" by (metis prod_cases3)
  obtain b2 r2 s2 where 2: "pollBackground ops now (if t = zero_time then now else t) b1 r1 s1 = (b2, r2, s2)" by (metis prod_cases3)
  have "r' = r2" using assms(2) by (simp add: Poll_def 1 2)
  then show ?thesis using pollRing_inv [OF assms(1) 1] pollBackground_inv [OF _ 2] by blast
qed

lemma EnqueueFront_inv:
  assumes "readout_inv r"
  shows "readout_inv (readout_EnqueueFront spec r) \<and> served (readout_EnqueueFront spec r) = served r"
proof -
  let ?p = "rp_Parameter spec" and ?q = "EnqueueFront (rp_Parameter spec) (ro_background r)"
  have "ParameterKey ` set (front ?q) \<subseteq> insert (ParameterKey ?p) (ParameterKey ` set (front (ro_background r)))"
    by simp
  then have "items_ok (r\<lparr>ro_backgroundItems := (ro_backgroundItems r)(ParameterKey (rp_Parameter (named spec)) \<mapsto> named spec),
      ro_background := ?q\<rparr>)"
    using assms by (intro items_okI) (auto simp: readout_inv_def)
  then have "items_ok (readout_EnqueueFront spec r)" by (simp add: readout_EnqueueFront_def Let_def)
  then show ?thesis
    using assms by (simp add: readout_inv_def capture_ok_def served_def readout_EnqueueFront_def Let_def pq_inv_EnqueueFront window_ok_def)
qed

section \<open>Reachable schedulers\<close>

inductive readout_reachable :: "tecCatalogueJSON \<Rightarrow> 'w stats_window \<Rightarrow> ('s, 'e) read_ops \<Rightarrow> ReadoutConfig \<Rightarrow> Readout \<Rightarrow> bool"
  for C W ops cfg where
  New: "readout_reachable C W ops cfg (NewReadout cfg)"
| Front: "readout_reachable C W ops cfg r \<Longrightarrow> readout_reachable C W ops cfg (readout_EnqueueFront spec r)"
| Polled: "readout_reachable C W ops cfg r \<Longrightarrow> Poll C W ops now t r s = (batch, r', s') \<Longrightarrow> readout_reachable C W ops cfg r'"

lemma reachable_inv:
  "readout_reachable C W ops cfg r \<Longrightarrow>
     readout_inv r \<and> served r = (\<lambda>spec. ParameterKey (rp_Parameter spec)) ` set (rcf_Parameters cfg)"
proof (induction rule: readout_reachable.induct)
  case New
  then show ?case using NewReadout_inv by blast
next
  case (Front r spec)
  then show ?case using EnqueueFront_inv [of r spec] by blast
next
  case (Polled r now t s batch r' s')
  then show ?case using Poll_inv [of r C W ops now t s batch r' s'] by blast
qed

text \<open>
  C11.  The scheduler keeps its books through every sequence of polls and manual requests, whatever the
  client answers: the size of the next ring read lies between 1 and 279 bytes and within its limits, the
  capture configuration lists the captured parameters in the order of their slots and at most sixteen,
  and the parameters that are captured or in the rotation are exactly the configured ones.
\<close>

theorem readout_invariant:
  assumes "readout_reachable C W ops cfg r"
  shows "1 \<le> ro_ringMaxBytes r \<and> ro_ringMinBytes r \<le> ro_ringMaxBytes r \<and> ro_ringMaxBytes r \<le> ro_ringMaxLimit r \<and>
    ro_ringMaxLimit r \<le> 279 \<and>
    map qp_configIndex (ro_ringItems r) = [0..<length (ro_ringItems r)] \<and>
    map Parameter.truncate (ro_ringConfig r) = map (\<lambda>i. Parameter.truncate (rp_Parameter (qp_spec i))) (ro_ringItems r) \<and>
    length (ro_ringConfig r) \<le> 16 \<and>
    (\<lambda>i. ParameterKey (rp_Parameter (qp_spec i))) ` set (ro_ringItems r) \<union> ParameterKey ` set (normal (ro_background r)) =
      (\<lambda>spec. ParameterKey (rp_Parameter spec)) ` set (rcf_Parameters cfg)"
proof -
  note inv = reachable_inv [OF assms]
  have w: "window_ok r" "capture_ok r" using inv by (simp_all add: readout_inv_def)
  have "Parameter.truncate (capture_parameter x p) = Parameter.truncate p" for x p
    by (simp add: capture_parameter_def Parameter.defs)
  then have "map Parameter.truncate (ro_ringConfig r) = map (\<lambda>i. Parameter.truncate (rp_Parameter (qp_spec i))) (ro_ringItems r)"
    using w(2) by (simp add: capture_ok_def comp_def)
  moreover have "1 \<le> ro_ringMaxBytes r" using w(1) unfolding window_ok_def by (meson order_trans)
  ultimately show ?thesis
    using w inv unfolding window_ok_def capture_ok_def MaxRingReadMaxBytes_def RingCaptureLimit_def served_def
    by (metis length_map)
qed

section \<open>Every parameter is published\<close>

lemma derive_channel_background: "rb_BackgroundValues (derive_channel C d t inputs ch b) = rb_BackgroundValues b"
  by (simp add: derive_channel_def appendEstimateValues_def appendUnavailableValues_def derived_appendFour_def
      derived_appendValue_def Let_def split: option.splits)

lemma derive_channels_background:
  "rb_BackgroundValues (fold (derive_channel C d t inputs) chs b) = rb_BackgroundValues b"
  by (induction chs arbitrary: b) (simp_all add: derive_channel_background)

lemma derived_keeps_background: "rb_BackgroundValues (derived_Append C d t batch) = rb_BackgroundValues batch"
  by (simp add: derived_Append_def Let_def derive_channels_background)

lemma pollRing_background_values:
  "pollRing W ops t batch r s = (batch', r', s') \<Longrightarrow> rb_BackgroundValues batch' = rb_BackgroundValues batch"
  by (auto simp: pollRing_def ring_setup_def pollRing_chunk_def ring_consume_def add_error_def Let_def
      split: if_splits prod.splits sum.splits option.splits)

text \<open>A client without ring access is polled as if the capture had been moved to the queue before.\<close>

lemma move_clears [simp]:
  "ro_ringConfig (moveRingCaptureToBackground r) = []" "ro_ringItems (moveRingCaptureToBackground r) = []"
  by (simp_all add: moveRingCaptureToBackground_def)

lemma Poll_without_ring:
  "\<not> supportsRingReadout ops \<Longrightarrow> ro_ringConfig r \<noteq> [] \<Longrightarrow>
     Poll C W ops now t r s = Poll C W ops now t (moveRingCaptureToBackground r) s"
  by (simp add: Poll_def pollRing_def)

lemma pollRing_stable:
  assumes "pollRing W ops t batch r s = (batch', r', s')" and "supportsRingReadout ops \<or> ro_ringConfig r = []"
  shows "ro_background r' = ro_background r \<and> ro_bulkChunk r' = ro_bulkChunk r \<and> ro_ringConfig r' = ro_ringConfig r"
  using assms by (auto simp: pollRing_def ring_setup_def pollRing_chunk_def ring_consume_def Let_def
      split: if_splits prod.splits sum.splits option.splits)

lemma background_values_keys:
  assumes "ParameterKey ` set ps \<subseteq> dom (ro_backgroundItems r)"
    and "\<forall>k spec. ro_backgroundItems r k = Some spec \<longrightarrow> ParameterKey (rp_Parameter spec) = k"
  shows "map (\<lambda>v. ParameterKey (rv_Parameter v)) (List.map_filter (background_value r t vs) (enumerate n ps)) = map ParameterKey ps"
  using assms(1)
proof (induction ps arbitrary: n)
  case (Cons p ps)
  then obtain spec where sp: "ro_backgroundItems r (ParameterKey p) = Some spec" by auto
  then have "ParameterKey (rp_Parameter spec) = ParameterKey p" using assms(2) by blast
  with Cons sp show ?case by (simp add: List.map_filter_simps background_value_def)
qed (simp add: List.map_filter_simps)

lemma NextChunk_params:
  assumes "pq_inv q" and "0 < m"
  shows "set (fst (NextChunk m q)) \<subseteq> set (front q) \<union> set (normal q)"
proof -
  have "fst (NextChunk m q) = take (nat m) (front q) @ take (nat m - length (front q)) (rotation q)"
    using NextChunk_eq [OF assms(1), of "nat m"] assms(2) by simp
  then show ?thesis using set_take_subset [of "nat m" "front q"] set_take_subset [of _ "rotation q"]
    by (auto simp: set_rotation dest: in_set_takeD)
qed

lemma poll_values:
  assumes "readout_inv r" and "supportsRingReadout ops \<or> ro_ringConfig r = []"
    and "\<And>ps s. \<not> isl (fst (op_ReadBulk ops ps s))" and "Poll C W ops now t r s = (batch, r', s')"
  shows "map (\<lambda>v. ParameterKey (rv_Parameter v)) (rb_BackgroundValues batch) =
      map ParameterKey (fst (NextChunk (ro_bulkChunk r) (ro_background r))) \<and>
    front (ro_background r') = front (snd (NextChunk (ro_bulkChunk r) (ro_background r))) \<and>
    rotation (ro_background r') = rotation (snd (NextChunk (ro_bulkChunk r) (ro_background r))) \<and>
    ro_bulkChunk r' = ro_bulkChunk r \<and> (supportsRingReadout ops \<or> ro_ringConfig r' = [])"
proof -
  let ?t = "if t = zero_time then now else t"
  obtain b1 r1 s1 where 1: "pollRing W ops ?t empty_batch r s = (b1, r1, s1)" by (metis prod_cases3)
  obtain b2 r2 s2 where 2: "pollBackground ops now ?t b1 r1 s1 = (b2, r2, s2)" by (metis prod_cases3)
  have r': "r' = r2" and b: "rb_BackgroundValues batch = rb_BackgroundValues b2"
    using assms(4) by (auto simp: Poll_def 1 2 derived_keeps_background split: option.splits)
  have b1: "rb_BackgroundValues b1 = []" using pollRing_background_values [OF 1] by (simp add: empty_batch_def)
  note st = pollRing_stable [OF 1 assms(2)]
  have inv: "readout_inv r1" using pollRing_inv [OF assms(1) 1] by blast
  then have q: "pq_inv (ro_background r)" "0 < ro_bulkChunk r" and ok: "items_ok r1"
    using st by (simp_all add: readout_inv_def)
  obtain ps q' where n: "NextChunk (ro_bulkChunk r) (ro_background r) = (ps, q')" by fastforce
  have "set ps \<subseteq> set (front (ro_background r1)) \<union> set (normal (ro_background r1))"
    using NextChunk_params [OF q] st n by (metis fst_conv)
  then have "ParameterKey ` set ps \<subseteq> ParameterKey ` (set (normal (ro_background r1)) \<union> set (front (ro_background r1)))"
    by (intro image_mono) (simp only: Un_commute)
  moreover have "ParameterKey ` (set (normal (ro_background r1)) \<union> set (front (ro_background r1))) \<subseteq> dom (ro_backgroundItems r1)"
    using ok unfolding items_ok_def by (rule conjunct1)
  ultimately have keys: "ParameterKey ` set ps \<subseteq> dom (ro_backgroundItems r1)" by (rule order_trans)
  obtain vs s3 where bulk: "op_ReadBulk ops ps s1 = (Inr vs, s3)"
    using assms(3) [of ps s1] by (cases "op_ReadBulk ops ps s1"; cases "fst (op_ReadBulk ops ps s1)") auto
  have "map (\<lambda>v. ParameterKey (rv_Parameter v)) (rb_BackgroundValues b2) = map ParameterKey ps \<and>
      front (ro_background r2) = front q' \<and> rotation (ro_background r2) = rotation q' \<and> ro_bulkChunk r2 = ro_bulkChunk r1 \<and>
      ro_ringConfig r2 = ro_ringConfig r1"
    using 2 st n b1 bulk background_values_keys [OF keys, of ?t vs 0] ok
    by (auto simp: pollBackground_def items_ok_def rotation_def Let_def split: if_splits)
  then show ?thesis using r' b st n assms(2) by simp
qed

fun polls ::
    "tecCatalogueJSON \<Rightarrow> 'w stats_window \<Rightarrow> ('s, 'e) read_ops \<Rightarrow> (gotime \<times> gotime) list \<Rightarrow> Readout \<Rightarrow> 's \<Rightarrow> 'e ReadoutBatch list" where
  "polls C W ops [] r s = []"
| "polls C W ops ((now, t) # ts) r s =
     (case Poll C W ops now t r s of (batch, r', s') \<Rightarrow> batch # polls C W ops ts r' s')"

definition published :: "'e ReadoutBatch list \<Rightarrow> string set" where
  "published batches = \<Union> ((\<lambda>b. (\<lambda>v. ParameterKey (rv_Parameter v)) ` set (rb_BackgroundValues b)) ` set batches)"

lemma poll_chunks_cong:
  "pq_inv q \<Longrightarrow> pq_inv q' \<Longrightarrow> front q = front q' \<Longrightarrow> rotation q = rotation q' \<Longrightarrow>
     poll_chunks k (int m) q = poll_chunks k (int m) q'"
proof (induction k arbitrary: q q')
  case (Suc k)
  note eq = NextChunk_eq [OF Suc.prems(1), of m] and eq' = NextChunk_eq [OF Suc.prems(2), of m]
  have "poll_chunks k (int m) (snd (NextChunk (int m) q)) = poll_chunks k (int m) (snd (NextChunk (int m) q'))"
    by (rule Suc.IH) (use eq eq' Suc.prems(3,4) in simp_all)
  moreover have "fst (NextChunk (int m) q) = fst (NextChunk (int m) q')" using eq eq' Suc.prems(3,4) by simp
  ultimately show ?case by simp
qed simp

lemma polls_publish:
  assumes "readout_inv r" and "supportsRingReadout ops \<or> ro_ringConfig r = []" and "\<And>ps s. \<not> isl (fst (op_ReadBulk ops ps s))"
  shows "published (polls C W ops ts r s) =
    ParameterKey ` set (poll_chunks (length ts) (ro_bulkChunk r) (ro_background r))"
  using assms(1,2)
proof (induction ts arbitrary: r s)
  case (Cons nt ts)
  obtain now t where nt: "nt = (now, t)" by force
  obtain batch r' s' where p: "Poll C W ops now t r s = (batch, r', s')" by (metis prod_cases3)
  let ?n = "NextChunk (ro_bulkChunk r) (ro_background r)"
  note pv = poll_values [OF Cons.prems(1,2) assms(3) p]
  have inv: "readout_inv r'" using Poll_inv [OF Cons.prems(1) p] by blast
  have pos: "0 < ro_bulkChunk r" "pq_inv (ro_background r)" "pq_inv (ro_background r')"
    using inv Cons.prems(1) by (simp_all add: readout_inv_def)
  have "poll_chunks (length ts) (int (nat (ro_bulkChunk r))) (ro_background r') =
      poll_chunks (length ts) (int (nat (ro_bulkChunk r))) (snd ?n)"
    using pos pv pq_inv_Next by (intro poll_chunks_cong) auto
  then have "poll_chunks (length ts) (ro_bulkChunk r') (ro_background r') = poll_chunks (length ts) (ro_bulkChunk r) (snd ?n)"
    using pos(1) pv by simp
  moreover have "(\<lambda>v. ParameterKey (rv_Parameter v)) ` set (rb_BackgroundValues batch) = ParameterKey ` set (fst ?n)"
    using pv by (metis set_map)
  moreover have "published (polls C W ops ts r' s') = ParameterKey ` set (poll_chunks (length ts) (ro_bulkChunk r') (ro_background r'))"
    using Cons.IH [OF inv] pv by blast
  moreover have "published (batch # bs) = (\<lambda>v. ParameterKey (rv_Parameter v)) ` set (rb_BackgroundValues batch) \<union> published bs" for bs
    by (simp add: published_def)
  ultimately show ?case by (simp add: nt p image_Un)
qed (simp add: published_def)

lemma chunks_cover_queue:
  assumes "pq_inv q" and "0 < m" and "length (front q) + length (normal q) \<le> k * nat m"
  shows "set (front q) \<union> set (normal q) \<subseteq> set (poll_chunks k m q)"
  using pollq.all_polled [OF assms(1), of k "nat m"] assms(2,3) poll_chunks_eq [of k "nat m" q]
  by (simp add: set_rotation rotation_def)

lemma polls_without_ring:
  "\<not> supportsRingReadout ops \<Longrightarrow> ro_ringConfig r \<noteq> [] \<Longrightarrow>
     polls C W ops ts r s = polls C W ops ts (moveRingCaptureToBackground r) s"
  by (cases ts) (auto simp: Poll_without_ring)

text \<open>
  C5.  Every parameter is published.  Take a scheduler in any reachable state and a client whose bulk reads
  succeed.  After enough polls for one round of the queue, every parameter of the rotation and every
  manual request has been published by the background queue; and when the client has no ring access, so
  has every parameter that was meant for the ring, so that all configured parameters are covered.
\<close>

theorem readout_publishes_all:
  assumes "readout_reachable C W ops cfg r" and "\<And>ps s. \<not> isl (fst (op_ReadBulk ops ps s))"
    and "length (front (ro_background r)) + length (normal (ro_background r)) + 2 * length (ro_ringItems r) \<le>
      length ts * nat (ro_bulkChunk r)"
  shows "ParameterKey ` set (front (ro_background r)) \<union> ParameterKey ` set (normal (ro_background r)) \<subseteq>
      published (polls C W ops ts r s) \<and>
    (if supportsRingReadout ops then True
     else (\<lambda>spec. ParameterKey (rp_Parameter spec)) ` set (rcf_Parameters cfg) \<subseteq> published (polls C W ops ts r s))"
proof -
  have inv: "readout_inv r" and sv: "served r = (\<lambda>spec. ParameterKey (rp_Parameter spec)) ` set (rcf_Parameters cfg)"
    using reachable_inv [OF assms(1)] by blast+
  have covered: "ParameterKey ` set (front (ro_background r)) \<union> ParameterKey ` set (normal (ro_background r)) \<subseteq>
      published (polls C W ops ts r s)"
    if st: "supportsRingReadout ops \<or> ro_ringConfig r = []" and inv: "readout_inv r"
      and len: "length (front (ro_background r)) + length (normal (ro_background r)) \<le> length ts * nat (ro_bulkChunk r)" for r
  proof -
    have "set (front (ro_background r)) \<union> set (normal (ro_background r)) \<subseteq>
        set (poll_chunks (length ts) (ro_bulkChunk r) (ro_background r))"
      using inv len by (intro chunks_cover_queue) (simp_all add: readout_inv_def)
    then show ?thesis using image_mono unfolding polls_publish [OF inv st assms(2)] image_Un [symmetric] by blast
  qed
  show ?thesis
  proof (cases "supportsRingReadout ops \<or> ro_ringConfig r = []")
    case True
    have "ro_ringItems r = []" if "ro_ringConfig r = []" using that inv by (simp add: readout_inv_def capture_ok_def)
    then show ?thesis using covered [OF True inv] assms(3) True sv by (auto simp: served_def)
  next
    case False
    let ?m = "moveRingCaptureToBackground r"
    have c: "ro_ringConfig ?m = []" by simp
    have i: "readout_inv ?m" "served ?m = served r" using moveRing_inv [OF inv] by blast+
    note mi = move_items [of r "ro_ringItems r"]
    have q: "pq_inv (ro_background r)" "items_ok r" using inv by (simp_all add: readout_inv_def)
    have "length (front (ro_background ?m)) + length (normal (ro_background ?m)) \<le> length ts * nat (ro_bulkChunk ?m)"
      using mi [OF q] assms(3) by (simp add: moveRingCaptureToBackground_def)
    from covered [OF disjI2 [OF c] i(1) this] have p: "ParameterKey ` set (normal (ro_background ?m)) \<subseteq> published (polls C W ops ts r s)"
      "ParameterKey ` set (front (ro_background ?m)) \<subseteq> published (polls C W ops ts r s)"
      using polls_without_ring [of ops r C W ts s] False by simp_all
    have s: "served r = ParameterKey ` set (normal (ro_background ?m))" unfolding i(2) [symmetric] by (simp add: served_def)
    have f: "set (front (ro_background r)) \<subseteq> set (front (ro_background ?m))" by (rule move_keeps_front)
    have n: "ParameterKey ` set (normal (ro_background r)) \<subseteq> served r" by (simp add: served_def)
    show ?thesis using p s f n sv False by (metis (no_types, lifting) Un_least image_mono order_trans)
  qed
qed

definition demo_window :: "unit stats_window" where
  "demo_window = \<lparr>sw_zero = (), sw_Add = (\<lambda>_ _. (False, ())), sw_Count = (\<lambda>_. 0), sw_Snapshot = (\<lambda>_. None)\<rparr>"

definition demo_ops :: "(unit, string) read_ops" where
  "demo_ops = \<lparr>op_SupportsRing = Some False, op_ConfigureRingCapture = (\<lambda>_ _ s. (None, s)), op_TriggerRingSync = (\<lambda>s. (None, s)),
     op_ReadRingPointer = (\<lambda>s. (Inr 0, s)),
     op_ReadRingChunk = (\<lambda>_ _ s. (Inr \<lparr>rr_BytesAdded = 0, rr_Status = 0, rr_Data = []\<rparr>, s)),
     op_ReadBulk = (\<lambda>ps s. (Inr (map (\<lambda>_. 0) ps), s)), op_errText = (\<lambda>e. e)\<rparr>"

definition demo_readout :: ReadoutConfig where
  "demo_readout = \<lparr>rcf_Parameters = DefaultTECReadoutParameters demo_catalogue 2, rcf_BulkChunk = 8, rcf_RingCaptureLimit = 4,
     rcf_RingCaptureID = 1, rcf_RingInhibitTime10us = 0, rcf_DefaultRingReadMaxBytes = 0, rcf_MaxRingReadMaxBytes = 0,
     rcf_RequestTimeout = 0, rcf_Derived = None\<rparr>"

lemma demo_readout_length: "length (rcf_Parameters demo_readout) = 4"
  by (simp add: demo_readout_def DefaultTECReadoutParameters_def DefaultMeComReadoutParameters_def channel_numbers_def
      length_concat_map Let_def) (simp add: DefaultTECCatalogueDefinition_def demo_catalogue_def)

lemma demo_readout_sizes:
  "length (ro_ringItems (NewReadout demo_readout)) + length (normal (ro_background (NewReadout demo_readout))) \<le> 4"
  "front (ro_background (NewReadout demo_readout)) = []" "ro_bulkChunk (NewReadout demo_readout) = 8"
proof -
  show "length (ro_ringItems (NewReadout demo_readout)) + length (normal (ro_background (NewReadout demo_readout))) \<le> 4"
    "front (ro_background (NewReadout demo_readout)) = []"
    using NewReadout_inv [of demo_readout] demo_readout_length by simp_all
  have keep: "ro_bulkChunk (fst (fold (place_parameter cap) specs acc)) = ro_bulkChunk (fst acc)" for cap specs acc
    by (induction specs arbitrary: acc) (simp_all add: place_parameter_def Let_def)
  show "ro_bulkChunk (NewReadout demo_readout) = 8"
  proof -
    have "ro_bulkChunk (NewReadout cfg) = ro_bulkChunk (new_readout_fields cfg)" for cfg
      using keep [of "capture_limit (rcf_RingCaptureLimit cfg)" "rcf_Parameters cfg" "(new_readout_fields cfg, [])"]
      by (cases "fold (place_parameter (capture_limit (rcf_RingCaptureLimit cfg))) (rcf_Parameters cfg) (new_readout_fields cfg, [])")
        (simp add: NewReadout_def)
    then show ?thesis by (simp add: demo_readout_def new_readout_fields_def Let_def)
  qed
qed

theorem readout_publishes_all_witness:
  "(\<lambda>spec. ParameterKey (rp_Parameter spec)) ` set (rcf_Parameters demo_readout) \<subseteq>
     published (polls demo_catalogue demo_window demo_ops [(1, 1)] (NewReadout demo_readout) ())"
proof -
  have "length (front (ro_background (NewReadout demo_readout))) + length (normal (ro_background (NewReadout demo_readout))) +
      2 * length (ro_ringItems (NewReadout demo_readout)) \<le> length [(1 :: gotime, 1 :: gotime)] * nat (ro_bulkChunk (NewReadout demo_readout))"
    using demo_readout_sizes by simp
  moreover have "\<not> isl (fst (op_ReadBulk demo_ops ps s))" for ps s by (simp add: demo_ops_def)
  ultimately show ?thesis
    using readout_publishes_all [OF readout_reachable.New [of demo_catalogue demo_window demo_ops demo_readout],
        where ts = "[(1, 1)]" and s = "()"]
    by (simp add: supportsRingReadout_def demo_ops_def)
qed

theorem readout_invariant_witness:
  "1 \<le> ro_ringMaxBytes (NewReadout demo_readout) \<and> length (ro_ringConfig (NewReadout demo_readout)) \<le> 16"
  using readout_invariant [OF readout_reachable.New [of demo_catalogue demo_window demo_ops demo_readout]] by blast

section \<open>A failed ring read\<close>

lemma findRingEnd_skip: "0x88 \<notin> set p \<Longrightarrow> findRingEnd (p @ xs) = map_option (\<lambda>n. n + length p) (findRingEnd xs)"
  by (induction p) (auto simp: findRingEnd_Cons option.map_comp comp_def option.map_ident)

lemma unescape_stray: "0x88 \<notin> set p \<Longrightarrow> k \<noteq> 0x88 \<Longrightarrow> unescapeRingPayload (p @ 0x88 # k # r) = Inl (Ring (RingUnexpectedMarker k))"
  by (induction p) auto

lemma parse_after_stale_tail:
  assumes "k = 0 \<or> k = 1" and "0x88 \<notin> set p"
  shows "ParseRingFrames cfg ((0x88 # k # p) @ wire_bytes w @ rest) = ([], [], Some (Ring (RingUnexpectedMarker (wire_kind w))))"
proof -
  let ?e = "ring_escape (wire_payload w)"
  define d where "d = (0x88 # k # p) @ wire_bytes w @ rest"
  have kind: "wire_kind w \<noteq> 0x88" "wire_kind w \<noteq> 0x10" by (simp_all add: wire_kind_def)
  have d2: "drop 2 d = p @ 0x88 # wire_kind w # ?e @ 0x88 # 0x10 # rest" by (simp add: d_def wire_bytes_def ring_encode_def)
  have "findRingEnd (0x88 # wire_kind w # ?e @ 0x88 # 0x10 # rest) = Some (Suc (Suc (length ?e)))"
    using kind by (simp add: findRingEnd_Cons findRingEnd_escape)
  then obtain n where n: "n = Suc (Suc (length ?e)) + length p" and en: "findRingEnd (drop 2 d) = Some n"
    unfolding d2 using assms(2) by (simp add: findRingEnd_skip)
  have tk: "take n (drop 2 d) = p @ 0x88 # wire_kind w # ?e" by (simp add: d2 n)
  have "findRingStart d = Some 0" using assms(1) by (auto simp: d_def)
  then have "ParseRingFrames cfg d = ([], [], Some (Ring (RingUnexpectedMarker (wire_kind w))))"
    by (subst ParseRingFrames.simps) (simp add: en tk unescape_stray assms(2) kind Let_def)
  then show ?thesis by (simp add: d_def)
qed

text \<open>
  C36.  A failed ring read spoils the stream that follows it.  When a chunk read fails while the scheduler
  holds an incomplete frame, it configures the capture again and takes the new position of the ring, but
  keeps the incomplete frame: the next chunk, although it starts with a whole frame, is decoded behind
  those bytes, all of its frames are dropped and a decoding error is reported instead.
\<close>

theorem stale_tail_drops_chunk:
  assumes "ro_ringConfig r \<noteq> []" and "supportsRingReadout ops" and "ro_ringConfigured r"
    and "ro_ringTail r = 0x88 # k # p" and "k = 0 \<or> k = 1" and "0x88 \<notin> set p"
    and "op_ReadRingChunk ops (ro_ringCursor r) (ro_ringMaxBytes r) s = (Inl e, s')"
    and "pollRing W ops t empty_batch r s = (b1, r1, s1)"
    and "op_ConfigureRingCapture ops (ro_ringCaptureID r) (ro_ringConfig r) s2 = (None, s3)"
    and "op_TriggerRingSync ops s3 = (None, s4)" and "op_ReadRingPointer ops s4 = (Inr pointer, s5)"
    and "pollRing W ops t2 empty_batch (r1\<lparr>ro_background := q\<rparr>) s2 = (b2, r2, s6)"
    and "op_ReadRingChunk ops pointer (ro_ringMaxBytes r) s7 = (Inr resp, s8)" and "rr_Status resp \<noteq> RingStatusOverlap"
    and "rr_Data resp = wire_bytes w @ rest"
    and "pollRing W ops t3 empty_batch (r2\<lparr>ro_background := q2\<rparr>) s7 = (b3, r3, s9)"
  shows "rb_RingValues b3 = [] \<and> rb_Errors b3 = [DecodeError (Ring (RingUnexpectedMarker (wire_kind w)))] \<and>
    ParseRingFrames (ro_ringConfig r) (rr_Data resp) = add_frame (frame_of (ro_ringConfig r) w) (ParseRingFrames (ro_ringConfig r) rest)"
proof -
  have r1: "r1 = r\<lparr>ro_ringConfigured := False\<rparr>"
    using assms(1-3,7,8) by (auto simp: pollRing_def pollRing_chunk_def)
  have r2: "r2 = r\<lparr>ro_background := q, ro_ringCursor := pointer, ro_ringConfigured := True\<rparr>"
    using assms(1,2,9-12) by (auto simp: pollRing_def ring_setup_def r1)
  have "ParseRingFrames (ro_ringConfig r) (ro_ringTail r @ rr_Data resp) = ([], [], Some (Ring (RingUnexpectedMarker (wire_kind w))))"
    unfolding assms(4,15) by (rule parse_after_stale_tail [OF assms(5,6)])
  then have "rb_RingValues b3 = [] \<and> rb_Errors b3 = [DecodeError (Ring (RingUnexpectedMarker (wire_kind w)))]"
    using assms(1,2,13,14,16)
    by (auto simp: pollRing_def pollRing_chunk_def ring_consume_def r2 empty_batch_def add_error_def Let_def)
  then show ?thesis unfolding assms(15) ParseRingFrames_wire by blast
qed

definition flaky_ops :: "(nat, string) read_ops" where
  "flaky_ops = \<lparr>op_SupportsRing = Some True, op_ConfigureRingCapture = (\<lambda>_ _ s. (None, s)), op_TriggerRingSync = (\<lambda>s. (None, s)),
     op_ReadRingPointer = (\<lambda>s. (Inr 7, s)),
     op_ReadRingChunk = (\<lambda>_ _ s. if s = 0 then (Inl ''timeout'', 1)
       else (Inr \<lparr>rr_BytesAdded = 6, rr_Status = 0, rr_Data = wire_bytes demo_wire @ []\<rparr>, s)),
     op_ReadBulk = (\<lambda>ps s. (Inr [], s)), op_errText = (\<lambda>e. e)\<rparr>"

definition stale_readout :: Readout where
  "stale_readout = (NewReadout demo_readout)
     \<lparr>ro_ringConfig := [capture_parameter 1000 (demo_param 1000 ''float32'')], ro_ringConfigured := True, ro_ringTail := [0x88, 0, 5]\<rparr>"

theorem stale_tail_drops_chunk_witness:
  "\<exists>b1 r1 s1 b2 r2 s2 b3 r3 s3.
     pollRing demo_window flaky_ops 1 empty_batch stale_readout 0 = (b1, r1, s1) \<and>
     pollRing demo_window flaky_ops 2 empty_batch (r1\<lparr>ro_background := NewPollQueue []\<rparr>) 1 = (b2, r2, s2) \<and>
     pollRing demo_window flaky_ops 3 empty_batch (r2\<lparr>ro_background := NewPollQueue []\<rparr>) 1 = (b3, r3, s3) \<and>
     rb_RingValues b3 = [] \<and> rb_Errors b3 = [DecodeError (Ring (RingUnexpectedMarker 0))]"
proof -
  obtain b1 r1 s1 where 1: "pollRing demo_window flaky_ops 1 empty_batch stale_readout 0 = (b1, r1, s1)" by (metis prod_cases3)
  obtain b2 r2 s2 where 2: "pollRing demo_window flaky_ops 2 empty_batch (r1\<lparr>ro_background := NewPollQueue []\<rparr>) 1 = (b2, r2, s2)"
    by (metis prod_cases3)
  obtain b3 r3 s3 where 3: "pollRing demo_window flaky_ops 3 empty_batch (r2\<lparr>ro_background := NewPollQueue []\<rparr>) 1 = (b3, r3, s3)"
    by (metis prod_cases3)
  have h: "ro_ringConfig stale_readout \<noteq> []" "supportsRingReadout flaky_ops" "ro_ringConfigured stale_readout"
    "ro_ringTail stale_readout = 0x88 # 0 # [5]" "(0 :: byte) = 0 \<or> (0 :: byte) = 1" "(0x88 :: byte) \<notin> set [5]"
    "op_ReadRingChunk flaky_ops (ro_ringCursor stale_readout) (ro_ringMaxBytes stale_readout) 0 = (Inl ''timeout'', 1)"
    by (simp_all add: stale_readout_def flaky_ops_def supportsRingReadout_def)
  have g: "op_ConfigureRingCapture flaky_ops (ro_ringCaptureID stale_readout) (ro_ringConfig stale_readout) 1 = (None, 1)"
    "op_TriggerRingSync flaky_ops 1 = (None, 1)" "op_ReadRingPointer flaky_ops 1 = (Inr 7, 1)"
    by (simp_all add: flaky_ops_def)
  have c: "op_ReadRingChunk flaky_ops 7 (ro_ringMaxBytes stale_readout) 1 =
      (Inr \<lparr>rr_BytesAdded = 6, rr_Status = 0, rr_Data = wire_bytes demo_wire @ []\<rparr>, 1)" by (simp add: flaky_ops_def)
  have "rb_RingValues b3 = [] \<and> rb_Errors b3 = [DecodeError (Ring (RingUnexpectedMarker (wire_kind demo_wire)))]"
    using stale_tail_drops_chunk [OF h 1 g 2 c _ _ 3, of demo_wire "[]"] by (simp add: RingStatusOverlap_def)
  then show ?thesis using 1 2 3 by (auto simp: wire_kind_def demo_wire_def)
qed

section \<open>Derived values\<close>

lemma derive_channel_append:
  "rb_DerivedValues (derive_channel C d t inputs ch b) =
     rb_DerivedValues b @ rb_DerivedValues (derive_channel C d t inputs ch (empty_batch :: unit ReadoutBatch))"
  by (simp add: derive_channel_def appendEstimateValues_def appendUnavailableValues_def derived_appendFour_def
      derived_appendValue_def empty_batch_def Let_def split: option.splits)

lemma derive_channels_append:
  "rb_DerivedValues (fold (derive_channel C d t inputs) chs b) =
     rb_DerivedValues b @ concat (map (\<lambda>ch. rb_DerivedValues (derive_channel C d t inputs ch (empty_batch :: unit ReadoutBatch))) chs)"
proof (induction chs arbitrary: b)
  case (Cons ch chs)
  have "rb_DerivedValues (fold (derive_channel C d t inputs) (ch # chs) b) =
      rb_DerivedValues (fold (derive_channel C d t inputs) chs (derive_channel C d t inputs ch b))" by simp
  also have "\<dots> = rb_DerivedValues (derive_channel C d t inputs ch b) @
      concat (map (\<lambda>ch. rb_DerivedValues (derive_channel C d t inputs ch (empty_batch :: unit ReadoutBatch))) chs)"
    by (rule Cons.IH)
  finally show ?case by (simp add: derive_channel_append [of C d t inputs ch b])
qed simp

lemma optional_not_NaN: "\<not> f64_isNaN (optionalDerivedValue v) \<Longrightarrow> dv_Valid v"
  by (simp add: optionalDerivedValue_def split: if_splits)

lemma normalize_mode:
  "NormalizeChannelDriveMode m = ChannelModePeltierDriver \<longleftrightarrow> m = ChannelModePeltierDriver"
  "NormalizeChannelDriveMode m = ChannelModeResistor \<longleftrightarrow> m = ChannelModeResistor"
  by (simp_all add: NormalizeChannelDriveMode_def mode_defs)

lemma derive_channel_thermal:
  assumes "v \<in> set (rb_DerivedValues (derive_channel C d t inputs ch (empty_batch :: unit ReadoutBatch)))" and "\<not> f64_isNaN (rv_Value v)"
  shows "par_Instance (rv_Parameter v) = ch \<and>
    (if par_Name (rv_Parameter v) \<in> {''heat_pumped_from_item_w'', ''hot_side_dissipated_w''}
     then dr_channelModes d ch = Some ChannelModePeltierDriver \<and>
       (\<exists>module. dr_estimator d (dr_controllerAddress d) = Some module \<and> pm_Points module \<noteq> [])
     else par_Name (rv_Parameter v) \<in> {''electrical_input_w'', ''resistive_heat_w''} \<and>
       (par_Name (rv_Parameter v) = ''resistive_heat_w'' \<longrightarrow> dr_channelModes d ch = Some ChannelModeResistor))"
proof -
  obtain current voltage cold hot where v: "v \<in> set (rb_DerivedValues (appendEstimateValues C t
      (EstimateChannel (dr_estimator d)
         \<lparr>pi_ControllerAddress = dr_controllerAddress d, pi_Channel = ch,
          pi_DriveMode = (case dr_channelModes d ch of None \<Rightarrow> [] | Some mode \<Rightarrow> mode),
          pi_ColdTemperatureC = cold, pi_HotTemperatureC = hot, pi_CurrentAmpere = current, pi_VoltageVolt = voltage\<rparr>)
      (empty_batch :: unit ReadoutBatch)))"
    using assms
    by (auto simp: derive_channel_def appendUnavailableValues_def appendEstimateValues_def derived_appendFour_def
        derived_appendValue_def derived_sample_def empty_batch_def Let_def split: option.splits if_splits)
  let ?in = "\<lparr>pi_ControllerAddress = dr_controllerAddress d, pi_Channel = ch,
      pi_DriveMode = (case dr_channelModes d ch of None \<Rightarrow> [] | Some mode \<Rightarrow> mode),
      pi_ColdTemperatureC = cold, pi_HotTemperatureC = hot, pi_CurrentAmpere = current, pi_VoltageVolt = voltage\<rparr>"
  have p: "(case dr_channelModes d ch of None \<Rightarrow> [] | Some mode \<Rightarrow> mode) = ChannelModePeltierDriver \<Longrightarrow>
      dr_channelModes d ch = Some ChannelModePeltierDriver"
    "(case dr_channelModes d ch of None \<Rightarrow> [] | Some mode \<Rightarrow> mode) = ChannelModeResistor \<Longrightarrow>
      dr_channelModes d ch = Some ChannelModeResistor"
    by (auto simp: mode_defs split: option.splits)
  note ev = estimate_valid [of "dr_estimator d" ?in, simplified]
  define est where "est = EstimateChannel (dr_estimator d) ?in"
  have ch: "pe_Channel est = ch" by (simp add: est_def estimate_valid(4))
  have "v \<in> set (rb_DerivedValues (appendEstimateValues C t est (empty_batch :: unit ReadoutBatch)))" using v by (simp only: est_def)
  then have "v \<in> {derived_sample C t ch 1 ''electrical_input_w'' (pe_ElectricalInputWatt est),
      derived_sample C t ch 2 ''heat_pumped_from_item_w'' (optionalDerivedValue (pe_HeatPumpedFromItemWatt est)),
      derived_sample C t ch 3 ''resistive_heat_w'' (optionalDerivedValue (pe_ResistiveHeatWatt est)),
      derived_sample C t ch 4 ''hot_side_dissipated_w'' (optionalDerivedValue (pe_HotSideDissipatedWatt est))}"
    by (auto simp: appendEstimateValues_def derived_appendFour_def derived_appendValue_def empty_batch_def ch Let_def)
  then consider "v = derived_sample C t ch 1 ''electrical_input_w'' (pe_ElectricalInputWatt est)"
    | "v = derived_sample C t ch 2 ''heat_pumped_from_item_w'' (optionalDerivedValue (pe_HeatPumpedFromItemWatt est))"
    | "v = derived_sample C t ch 3 ''resistive_heat_w'' (optionalDerivedValue (pe_ResistiveHeatWatt est))"
    | "v = derived_sample C t ch 4 ''hot_side_dissipated_w'' (optionalDerivedValue (pe_HotSideDissipatedWatt est))"
    by blast
  then show ?thesis
  proof cases
    case 1
    then show ?thesis by (simp add: derived_sample_def)
  next
    case 2
    then have "dv_Valid (pe_HeatPumpedFromItemWatt est)" using assms(2) optional_not_NaN by (simp add: derived_sample_def)
    from ev(2) [folded est_def, OF this] show ?thesis using 2 p(1) by (simp add: derived_sample_def normalize_mode)
  next
    case 3
    then have "dv_Valid (pe_ResistiveHeatWatt est)" using assms(2) optional_not_NaN by (simp add: derived_sample_def)
    then show ?thesis using 3 p(2) ev(1) [folded est_def] by (simp add: derived_sample_def normalize_mode)
  next
    case 4
    then have "dv_Valid (pe_HeatPumpedFromItemWatt est)"
      using assms(2) optional_not_NaN ev(3) [folded est_def] by (simp add: derived_sample_def)
    from ev(2) [folded est_def, OF this] show ?thesis using 4 p(1) by (simp add: derived_sample_def normalize_mode)
  qed
qed

text \<open>
  C37.  No thermal inference without the mode for it: a derived value of pumped heat or of the hot side that
  is a number belongs to a channel that is configured as a Peltier driver and whose controller has
  module data, and a resistive heat that is a number to a channel configured as a resistor.
  Channels of power supplies and of unknown mode have their electrical input and nothing else.
\<close>

theorem thermal_values_need_mode:
  assumes "v \<in> set (rb_DerivedValues (derived_Append C (newDerivedReadout cfg) t batch))" and "rb_DerivedValues batch = []"
    and "\<not> f64_isNaN (rv_Value v)" and "ch = par_Instance (rv_Parameter v)" and "name = par_Name (rv_Parameter v)"
  shows "if name \<in> {''heat_pumped_from_item_w'', ''hot_side_dissipated_w''}
    then dc_ChannelModes cfg ch = Some ChannelModePeltierDriver \<and>
      (\<exists>estimator module. dc_Estimator cfg = Some estimator \<and> estimator (dc_ControllerAddress cfg) = Some module \<and> pm_Points module \<noteq> [])
    else if name = ''resistive_heat_w'' then dc_ChannelModes cfg ch = Some ChannelModeResistor
    else name = ''electrical_input_w''"
proof -
  let ?d = "newDerivedReadout cfg"
  obtain inputs c where c: "v \<in> set (rb_DerivedValues (derive_channel C ?d t inputs c (empty_batch :: unit ReadoutBatch)))"
    using assms(1,2) by (auto simp: derived_Append_def derive_channels_append Let_def)
  have modes: "dr_channelModes ?d ch = Some ChannelModePeltierDriver \<Longrightarrow> dc_ChannelModes cfg ch = Some ChannelModePeltierDriver"
    "dr_channelModes ?d ch = Some ChannelModeResistor \<Longrightarrow> dc_ChannelModes cfg ch = Some ChannelModeResistor"
    by (auto simp: newDerivedReadout_def normalize_mode)
  have est: "dr_estimator ?d (dr_controllerAddress ?d) = Some module \<Longrightarrow>
      \<exists>estimator. dc_Estimator cfg = Some estimator \<and> estimator (dc_ControllerAddress cfg) = Some module" for module
    by (auto simp: newDerivedReadout_def NewPeltierEstimator_def split: option.splits)
  show ?thesis using derive_channel_thermal [OF c assms(3)] modes est assms(4,5) by (auto split: if_splits)
qed

definition demo_reading :: "int \<Rightarrow> ReadoutValue" where
  "demo_reading pid = \<lparr>rv_Parameter = (demo_param pid ''float32'')\<lparr>par_Instance := 1\<rparr>, rv_Sensor = [], rv_Value = 0, rv_ObservedAt = 1,
     rv_Readout = [], rv_Reduction = None\<rparr>"

definition demo_derived :: DerivedReadoutConfig where
  "demo_derived = \<lparr>dc_ControllerAddress = 2, dc_ChannelModes = [1 \<mapsto> ChannelModeResistor], dc_Estimator = None\<rparr>"

definition demo_batch :: "unit ReadoutBatch" where
  "demo_batch = empty_batch\<lparr>rb_Values := [demo_reading 1020, demo_reading 1021]\<rparr>"

lemma demo_power: "f64_abs (f64_mul 0 0) = 0" "\<not> f64_isNaN 0"
  by (simp_all add: f64_abs_def f64_mul_def f64_isNaN_def f64_isInf_def f64_exp_def f64_frac_def f64_neg_def f64_units_def fp_units_def
      f64_pack_def fp_round_def round_even_def f64_inf_def Let_def)

lemma demo_inputs: "fold gather_input (rb_Values demo_batch) [] = [(1, [(1021, 0), (1020, 0)])]"
  by (simp add: demo_batch_def demo_reading_def empty_batch_def gather_input_def amap_put_def demo_param_def
      TECParamObjectTemperature_def TECParamSinkTemperature_def TECParamOutputCurrent_def TECParamOutputVoltage_def Let_def)

lemma demo_derived_values:
  "derived_sample C 1 1 3 ''resistive_heat_w'' 0 \<in> set (rb_DerivedValues (derived_Append C (newDerivedReadout demo_derived) 1 demo_batch))"
proof -
  let ?d = "newDerivedReadout demo_derived"
  have m: "maxDerivedChannel [(1, [(1021, 0), (1020, 0)])] = 1" by (simp add: maxDerivedChannel_def)
  have mode: "NormalizeChannelDriveMode (case dr_channelModes ?d 1 of None \<Rightarrow> [] | Some mode \<Rightarrow> mode) = ChannelModeResistor"
    by (simp add: newDerivedReadout_def demo_derived_def normalize_mode NormalizeChannelDriveMode_def)
  show ?thesis
    unfolding derived_Append_def Let_def demo_inputs m
    by (simp add: derive_channel_def TECParamOutputCurrent_def TECParamOutputVoltage_def demo_power EstimateChannel_def mode
        appendEstimateValues_def derived_appendFour_def derived_appendValue_def optionalDerivedValue_def no_value_def Let_def)
qed

theorem thermal_values_need_mode_witness:
  "\<not> f64_isNaN 0 \<and> dc_ChannelModes demo_derived 1 = Some ChannelModeResistor"
  using thermal_values_need_mode [OF demo_derived_values [of demo_catalogue], of 1 "''resistive_heat_w''"] demo_power(2)
  by (simp add: demo_batch_def empty_batch_def derived_sample_def)

end
