(* ===== verification/PollScheduler.thy ===== *)
theory PollScheduler
  imports RuntimeClient ReadoutProps
begin

text \<open>
  The poll scheduler of the router (\<open>mecomserver/poller.go\<close>): one readout plan per device, polled through
  the shared router runtime, with subscribers that receive every batch through a bounded channel.  It
  composes \<open>Readout\<close>, \<open>RuntimeClient\<close> and the router.  The mutex serialises the methods; Go's
  random order over the device map is the order of the association list.  What happens on the other
  side of a channel while a batch is published is an argument: how many items the consumer takes between
  the three attempts of \<open>publishReadoutBatch\<close>.
\<close>

section \<open>The runtime client as a read client\<close>

record client_state =
  cs_client :: runtimeReadClient
  cs_runtime :: RouterRuntime
  cs_requests :: nat
  cs_sent :: "sent list"

datatype poll_failure = RuntimeRequired byte | ClientFailure runtime_error

definition client_call ::
    "(nat \<Rightarrow> frame_env) \<Rightarrow> (frame_env \<Rightarrow> runtimeReadClient \<Rightarrow> RouterRuntime \<Rightarrow> 'a runtime_result) \<Rightarrow> client_state \<Rightarrow>
     (poll_failure + 'a) \<times> client_state" where
  "client_call envs call s =
     (case call (envs (cs_requests s)) (cs_client s) (cs_runtime s) of
        (r, ms, c, rt) \<Rightarrow>
          (map_sum ClientFailure (\<lambda>x. x) r,
           \<lparr>cs_client = c, cs_runtime = rt, cs_requests = Suc (cs_requests s), cs_sent = cs_sent s @ ms\<rparr>))"

definition failure_of :: "('e + unit) \<times> 's \<Rightarrow> 'e option \<times> 's" where
  "failure_of r = (case r of (Inl e, s) \<Rightarrow> (Some e, s) | (Inr _, s) \<Rightarrow> (None, s))"

definition runtime_ops ::
    "CANopenSDOMap \<Rightarrow> (string \<Rightarrow> bool) \<Rightarrow> (nat \<Rightarrow> frame_env) \<Rightarrow> (poll_failure \<Rightarrow> string) \<Rightarrow> runtimeReadClient \<Rightarrow>
     (client_state, poll_failure) read_ops" where
  "runtime_ops m native envs errText c =
     \<lparr>op_SupportsRing = Some (runtime_SupportsRingReadout c),
      op_ConfigureRingCapture = (\<lambda>captureID params s.
        failure_of (client_call envs (\<lambda>env. runtime_ConfigureRingCapture m native env captureID params) s)),
      op_TriggerRingSync = (\<lambda>s. failure_of (client_call envs (\<lambda>env. runtime_TriggerRingSync m native env) s)),
      op_ReadRingPointer = (\<lambda>s. client_call envs (\<lambda>env. runtime_ReadRingPointer m native env) s),
      op_ReadRingChunk = (\<lambda>start maxBytes s. client_call envs (\<lambda>env. runtime_ReadRingChunk m native env start maxBytes) s),
      op_ReadBulk = (\<lambda>params s.
        (case client_call envs (\<lambda>env. runtime_ReadBulk m native env params) s of (r, s') \<Rightarrow> (map_sum (\<lambda>e. e) (map f64_bits) r, s'))),
      op_errText = errText\<rparr>"

section \<open>Channels\<close>

record 'a chan =
  ch_cap :: nat
  ch_items :: "'a list"

definition try_send :: "'a \<Rightarrow> 'a chan \<Rightarrow> 'a chan option" where
  "try_send x ch = (if length (ch_items ch) < ch_cap ch then Some (ch\<lparr>ch_items := ch_items ch @ [x]\<rparr>) else None)"

definition take_items :: "nat \<Rightarrow> 'a chan \<Rightarrow> 'a chan" where
  "take_items n ch = ch\<lparr>ch_items := drop n (ch_items ch)\<rparr>"

definition publishReadoutBatch :: "nat \<times> nat \<Rightarrow> 'a \<Rightarrow> 'a chan \<Rightarrow> 'a chan" where
  "publishReadoutBatch taken batch ch =
     (case try_send batch ch of
        Some ch' \<Rightarrow> ch'
      | None \<Rightarrow>
          let ch1 = take_items 1 (take_items (fst taken) ch); ch2 = take_items (snd taken) ch1
          in (case try_send batch ch2 of Some ch' \<Rightarrow> ch' | None \<Rightarrow> ch2))"

section \<open>The scheduler\<close>

record RouterPollDeviceConfig =
  pc_Address :: byte
  pc_Readout :: ReadoutConfig
  pc_SupportsRingRead :: "bool option"
  pc_RoutePolicy :: string
  pc_RequestTimeout :: int

type_synonym poll_batch = "poll_failure ReadoutBatch"

record routerPollDevice =
  pd_cfg :: RouterPollDeviceConfig
  pd_readout :: Readout
  pd_subscribers :: "(nat \<times> poll_batch chan) list"

record RouterPollScheduler =
  ps_interval :: int
  ps_devices :: "(byte \<times> routerPollDevice) list"
  ps_next :: nat
  ps_closed :: "nat list"

definition sched_supportsRing :: "bool option \<Rightarrow> bool" where
  "sched_supportsRing v = (v = Some True)"

definition routerReadoutConfig :: "RouterPollDeviceConfig \<Rightarrow> ReadoutConfig" where
  "routerReadoutConfig dev =
     (if sched_supportsRing (pc_SupportsRingRead dev) then pc_Readout dev
      else (pc_Readout dev)\<lparr>rcf_Parameters := map (\<lambda>p. p\<lparr>rp_HighPriority := False\<rparr>) (rcf_Parameters (pc_Readout dev))\<rparr>)"

definition new_poll_device :: "RouterPollDeviceConfig \<Rightarrow> routerPollDevice" where
  "new_poll_device dev =
     (let cfg = dev\<lparr>pc_Readout := routerReadoutConfig dev\<rparr>
      in \<lparr>pd_cfg = cfg, pd_readout = NewReadout (pc_Readout cfg), pd_subscribers = []\<rparr>)"

definition NewRouterPollScheduler :: "int \<Rightarrow> RouterPollDeviceConfig list \<Rightarrow> RouterPollScheduler" where
  "NewRouterPollScheduler interval devices =
     \<lparr>ps_interval = interval, ps_devices = fold (\<lambda>dev. amap_put (pc_Address dev) (new_poll_device dev)) devices [],
      ps_next = 0, ps_closed = []\<rparr>"

definition empty_readout_config :: ReadoutConfig where
  "empty_readout_config =
     \<lparr>rcf_Parameters = [], rcf_BulkChunk = 0, rcf_RingCaptureLimit = 0, rcf_RingCaptureID = 0, rcf_RingInhibitTime10us = 0,
      rcf_DefaultRingReadMaxBytes = 0, rcf_MaxRingReadMaxBytes = 0, rcf_RequestTimeout = 0, rcf_Derived = None\<rparr>"

definition device_or_new :: "byte \<Rightarrow> RouterPollScheduler \<Rightarrow> routerPollDevice" where
  "device_or_new addr s =
     (case map_of (ps_devices s) addr of
        Some dev \<Rightarrow> dev
      | None \<Rightarrow> \<lparr>pd_cfg = \<lparr>pc_Address = addr, pc_Readout = empty_readout_config, pc_SupportsRingRead = None, pc_RoutePolicy = [],
            pc_RequestTimeout = 0\<rparr>, pd_readout = NewReadout empty_readout_config, pd_subscribers = []\<rparr>)"

definition sched_EnqueueFront :: "byte \<Rightarrow> ReadoutParameter \<Rightarrow> RouterPollScheduler \<Rightarrow> RouterPollScheduler" where
  "sched_EnqueueFront addr spec s =
     (let dev = device_or_new addr s
      in s\<lparr>ps_devices := amap_put addr (dev\<lparr>pd_readout := readout_EnqueueFront spec (pd_readout dev)\<rparr>) (ps_devices s)\<rparr>)"

text \<open>A subscription returns the identity of its channel, which its \<open>cancel\<close> takes.\<close>

definition Subscribe :: "byte \<Rightarrow> int \<Rightarrow> RouterPollScheduler \<Rightarrow> nat \<times> RouterPollScheduler" where
  "Subscribe addr buffer s =
     (let dev = device_or_new addr s;
          ch = \<lparr>ch_cap = nat (if buffer \<le> 0 then 1 else buffer), ch_items = []\<rparr>
      in (ps_next s,
          s\<lparr>ps_devices := amap_put addr (dev\<lparr>pd_subscribers := (ps_next s, ch) # pd_subscribers dev\<rparr>) (ps_devices s),
            ps_next := Suc (ps_next s)\<rparr>))"

text \<open>\<open>cancel\<close>; \<open>None\<close> is the panic of closing a closed channel.\<close>

definition cancel_subscription :: "byte \<Rightarrow> nat \<Rightarrow> RouterPollScheduler \<Rightarrow> RouterPollScheduler option" where
  "cancel_subscription addr i s =
     (let s1 = (case map_of (ps_devices s) addr of
           None \<Rightarrow> s
         | Some dev \<Rightarrow> s\<lparr>ps_devices := amap_put addr (dev\<lparr>pd_subscribers := amap_delete i (pd_subscribers dev)\<rparr>) (ps_devices s)\<rparr>)
      in if i \<in> set (ps_closed s1) then None else Some (s1\<lparr>ps_closed := i # ps_closed s1\<rparr>))"

text \<open>
  What surrounds one round: the outcomes of the frames of each device, the clock, and what
  consumers take while a batch is published to them.
\<close>

record poll_env =
  pv_frames :: "byte \<Rightarrow> nat \<Rightarrow> frame_env"
  pv_now :: "byte \<Rightarrow> gotime"
  pv_taken :: "byte \<Rightarrow> nat \<Rightarrow> nat \<times> nat"
  pv_errText :: "poll_failure \<Rightarrow> string"

definition poll_device ::
    "tecCatalogueJSON \<Rightarrow> 'w stats_window \<Rightarrow> CANopenSDOMap \<Rightarrow> (string \<Rightarrow> bool) \<Rightarrow> poll_env \<Rightarrow> byte \<Rightarrow> routerPollDevice \<Rightarrow> RouterRuntime \<Rightarrow>
     poll_batch \<times> routerPollDevice \<times> sent list \<times> RouterRuntime" where
  "poll_device C W m native env addr dev rt =
     (let client = NewReadClient \<lparr>rdc_Address = addr, rdc_RequestTimeout = pc_RequestTimeout (pd_cfg dev),
            rdc_RouteSelection = pc_RoutePolicy (pd_cfg dev),
            rdc_SupportsRingReadout = sched_supportsRing (pc_SupportsRingRead (pd_cfg dev))\<rparr>
      in case Poll C W (runtime_ops m native (pv_frames env addr) (pv_errText env) client) (pv_now env addr) (pv_now env addr)
           (pd_readout dev) \<lparr>cs_client = client, cs_runtime = rt, cs_requests = 0, cs_sent = []\<rparr> of
        (batch, readout, cs) \<Rightarrow>
          (batch,
           dev\<lparr>pd_readout := readout,
               pd_subscribers := map (\<lambda>(i, ch). (i, publishReadoutBatch (pv_taken env addr i) batch ch)) (pd_subscribers dev)\<rparr>,
           cs_sent cs, cs_runtime cs))"

fun poll_devices ::
    "tecCatalogueJSON \<Rightarrow> 'w stats_window \<Rightarrow> CANopenSDOMap \<Rightarrow> (string \<Rightarrow> bool) \<Rightarrow> poll_env \<Rightarrow> (byte \<times> routerPollDevice) list \<Rightarrow> RouterRuntime \<Rightarrow>
     (byte \<times> poll_batch) list \<times> (byte \<times> routerPollDevice) list \<times> sent list \<times> RouterRuntime" where
  "poll_devices C W m native env [] rt = ([], [], [], rt)"
| "poll_devices C W m native env ((addr, dev) # devs) rt =
     (case poll_device C W m native env addr dev rt of
        (batch, dev', ms, rt1) \<Rightarrow>
          (case poll_devices C W m native env devs rt1 of
             (out, devs', ms', rt2) \<Rightarrow> ((addr, batch) # out, (addr, dev') # devs', ms @ ms', rt2)))"

definition PollOnce ::
    "tecCatalogueJSON \<Rightarrow> 'w stats_window \<Rightarrow> CANopenSDOMap \<Rightarrow> (string \<Rightarrow> bool) \<Rightarrow> poll_env \<Rightarrow> RouterPollScheduler \<Rightarrow> RouterRuntime option \<Rightarrow>
     (byte \<times> poll_batch) list \<times> RouterPollScheduler \<times> sent list \<times> RouterRuntime option" where
  "PollOnce C W m native env s rt =
     (case rt of
        None \<Rightarrow> (map (\<lambda>(addr, dev). (addr, add_error (ClientError (RuntimeRequired addr)) empty_batch)) (ps_devices s), s, [], None)
      | Some rt0 \<Rightarrow>
          (case poll_devices C W m native env (ps_devices s) rt0 of
             (out, devs, ms, rt1) \<Rightarrow> (out, s\<lparr>ps_devices := devs\<rparr>, ms, Some rt1)))"

text \<open>\<open>Run\<close> until the context ends: one round at once and one for every tick.\<close>

fun sched_Run ::
    "tecCatalogueJSON \<Rightarrow> 'w stats_window \<Rightarrow> CANopenSDOMap \<Rightarrow> (string \<Rightarrow> bool) \<Rightarrow> poll_env list \<Rightarrow> RouterPollScheduler \<Rightarrow> RouterRuntime option \<Rightarrow>
     RouterPollScheduler \<times> sent list \<times> RouterRuntime option" where
  "sched_Run C W m native [] s rt = (s, [], rt)"
| "sched_Run C W m native (env # ticks) s rt =
     (case PollOnce C W m native env s rt of
        (out, s1, ms, rt1) \<Rightarrow> (case sched_Run C W m native ticks s1 rt1 of (s2, ms', rt2) \<Rightarrow> (s2, ms @ ms', rt2)))"

section \<open>What a read client promises\<close>

text \<open>A relation on client states that every call respects is respected by a whole poll.\<close>

locale client_relation =
  fixes ops :: "('s, 'e) read_ops" and R :: "'s \<Rightarrow> 's \<Rightarrow> bool"
  assumes R_refl: "R s s"
    and R_trans: "R a b \<Longrightarrow> R b c \<Longrightarrow> R a c"
    and R_configure: "op_ConfigureRingCapture ops i ps s = (x, s') \<Longrightarrow> R s s'"
    and R_sync: "op_TriggerRingSync ops s = (x, s') \<Longrightarrow> R s s'"
    and R_pointer: "op_ReadRingPointer ops s = (p, s') \<Longrightarrow> R s s'"
    and R_chunk: "op_ReadRingChunk ops start n s = (y, s') \<Longrightarrow> R s s'"
    and R_bulk: "op_ReadBulk ops qs s = (z, s') \<Longrightarrow> R s s'"
begin

lemma ring_setup_R:
  assumes "ring_setup ops batch r s = (batch', r', s')"
  shows "R s s'"
proof -
  obtain x s1 where 1: "op_ConfigureRingCapture ops (ro_ringCaptureID r) (ro_ringConfig r) s = (x, s1)" by fastforce
  obtain y s2 where 2: "op_TriggerRingSync ops s1 = (y, s2)" by fastforce
  obtain p s3 where 3: "op_ReadRingPointer ops s2 = (p, s3)" by fastforce
  have "s' = s1 \<or> s' = s3"
    using assms by (auto simp: ring_setup_def 1 2 3 Let_def split: option.splits sum.splits)
  then show ?thesis using R_configure [OF 1] R_sync [OF 2] R_pointer [OF 3] R_trans by blast
qed

lemma ring_chunk_R:
  assumes "pollRing_chunk W ops t batch r s = (batch', r', s')"
  shows "R s s'"
proof -
  obtain x s1 where 1: "op_ReadRingChunk ops (ro_ringCursor r) (ro_ringMaxBytes r) s = (x, s1)" by fastforce
  obtain p s2 where 2: "op_ReadRingPointer ops s1 = (p, s2)" by fastforce
  have "s' = s1 \<or> s' = s2"
    using assms by (auto simp: pollRing_chunk_def 1 2 Let_def split: sum.splits prod.splits if_splits)
  then show ?thesis using R_chunk [OF 1] R_pointer [OF 2] R_trans by blast
qed

lemma pollRing_R: "pollRing W ops t batch r s = (batch', r', s') \<Longrightarrow> R s s'"
  using R_refl ring_setup_R ring_chunk_R by (auto simp: pollRing_def split: if_splits)

lemma pollBackground_R: "pollBackground ops now t batch r s = (batch', r', s') \<Longrightarrow> R s s'"
  using R_refl R_bulk by (auto simp: pollBackground_def Let_def split: prod.splits sum.splits if_splits)

lemma Poll_R: "Poll C W ops now t r s = (batch, r', s') \<Longrightarrow> R s s'"
  using pollRing_R pollBackground_R R_trans by (auto simp: Poll_def Let_def split: prod.splits) blast

end

section \<open>What the runtime client does to the router\<close>

definition runtime_rel :: "client_state \<Rightarrow> client_state \<Rightarrow> bool" where
  "runtime_rel s s' \<longleftrightarrow>
     (routes_wf (rr_routes (cs_runtime s)) \<longrightarrow>
        rr_routes (cs_runtime s') = rr_routes (cs_runtime s) \<and> rc_addr (cs_client s') = rc_addr (cs_client s) \<and>
        (\<forall>d. d \<noteq> rc_addr (cs_client s) \<longrightarrow> rr_devices (cs_runtime s') d = rr_devices (cs_runtime s) d) \<and>
        (\<exists>ms. cs_sent s' = cs_sent s @ ms \<and> list_all (\<lambda>x. rb_address (fst x) = rc_addr (cs_client s)) ms))"

lemma runtime_rel_trans: "runtime_rel a b \<Longrightarrow> runtime_rel b c \<Longrightarrow> runtime_rel a c"
  unfolding runtime_rel_def by (auto 4 4 simp: list_all_append)

lemma roundTrip_rel:
  assumes "routes_wf (rr_routes rt)" and "runtime_roundTrip m native env build c rt = (r, ms, c', rt')"
  shows "rr_routes rt' = rr_routes rt \<and> rc_addr c' = rc_addr c \<and> (\<forall>d. d \<noteq> rc_addr c \<longrightarrow> rr_devices rt' d = rr_devices rt d) \<and>
    list_all (\<lambda>x. rb_address (fst x) = rc_addr c) ms"
proof -
  have c: "rc_addr (nextSequence c) = rc_addr c" by (rule nextSequence_not_zero)
  show ?thesis
  proof (cases "build (rc_seq (nextSequence c))")
    case (Inl e)
    then show ?thesis using assms(2) c by (simp add: runtime_roundTrip_def Let_def)
  next
    case (Inr frame)
    obtain r0 ms0 rt0 where e: "routeAddressedFrame m native env frame (rc_addr (nextSequence c)) (rc_routeSelection (nextSequence c)) False rt =
        (r0, ms0, rt0)" by (metis prod_cases3)
    from routeAddressedFrame_sent [OF assms(1) e] show ?thesis
      using assms(2) Inr e c by (simp add: runtime_roundTrip_def Let_def sent_to_def list_all_iff)
  qed
qed

lemma client_call_rel:
  assumes "client_call envs (\<lambda>env c rt. parsed parse (runtime_roundTrip m native env (build c) c rt)) s = (r, s')"
  shows "runtime_rel s s'"
proof -
  obtain r0 ms c' rt' where e: "runtime_roundTrip m native (envs (cs_requests s)) (build (cs_client s)) (cs_client s) (cs_runtime s) =
      (r0, ms, c', rt')" by (metis prod_cases4)
  have "s' = \<lparr>cs_client = c', cs_runtime = rt', cs_requests = Suc (cs_requests s), cs_sent = cs_sent s @ ms\<rparr>"
    using assms by (simp add: client_call_def parsed_def e)
  then show ?thesis using roundTrip_rel [OF _ e] by (auto simp: runtime_rel_def)
qed

lemma runtime_calls:
  "(\<lambda>env. runtime_ConfigureRingCapture m native env i ps) = (\<lambda>env c rt. parsed ParseRingCaptureConfigResponse
     (runtime_roundTrip m native env (\<lambda>seq. BuildRingCaptureConfigFrame (uint (rc_addr c)) seq i ps) c rt))"
  "(\<lambda>env. runtime_TriggerRingSync m native env) = (\<lambda>env c rt. parsed ParseWriteResponse
     (runtime_roundTrip m native env (\<lambda>seq. Inr (BuildRingTriggerSyncFrame (uint (rc_addr c)) seq)) c rt))"
  "(\<lambda>env. runtime_ReadRingPointer m native env) = (\<lambda>env c rt. parsed ParseRingPointerResponse
     (runtime_roundTrip m native env (\<lambda>seq. Inr (BuildRingPointerFrame (uint (rc_addr c)) seq)) c rt))"
  "(\<lambda>env. runtime_ReadRingChunk m native env start n) = (\<lambda>env c rt. parsed ParseRingReadResponse
     (runtime_roundTrip m native env (\<lambda>seq. Inr (BuildRingReadFrame (uint (rc_addr c)) seq start n)) c rt))"
  "(\<lambda>env. runtime_ReadBulk m native env qs) = (\<lambda>env c rt. parsed (\<lambda>raw. ParseBulkResponse raw qs)
     (runtime_roundTrip m native env (\<lambda>seq. Inr (BuildBulkGetFrame (uint (rc_addr c)) seq qs)) c rt))"
  by (simp_all add: fun_eq_iff runtime_ConfigureRingCapture_def runtime_TriggerRingSync_def runtime_ReadRingPointer_def
      runtime_ReadRingChunk_def runtime_ReadBulk_def)

interpretation runtime: client_relation "runtime_ops m native envs errText c" runtime_rel for m native envs errText c
proof
  show "runtime_rel s s" for s by (simp add: runtime_rel_def)
  show "runtime_rel a b \<Longrightarrow> runtime_rel b c \<Longrightarrow> runtime_rel a c" for a b c by (rule runtime_rel_trans)
  have f: "failure_of x = (y, s') \<Longrightarrow> \<exists>z. x = (z, s')" for x :: "(poll_failure + unit) \<times> client_state" and y s'
    by (auto simp: failure_of_def split: prod.splits sum.splits)
  show "op_ConfigureRingCapture (runtime_ops m native envs errText c) i ps s = (x, s') \<Longrightarrow> runtime_rel s s'" for i ps s x s'
    by (auto simp: runtime_ops_def runtime_calls dest!: f client_call_rel)
  show "op_TriggerRingSync (runtime_ops m native envs errText c) s = (x, s') \<Longrightarrow> runtime_rel s s'" for s x s'
    by (auto simp: runtime_ops_def runtime_calls dest!: f client_call_rel)
  show "op_ReadRingPointer (runtime_ops m native envs errText c) s = (p, s') \<Longrightarrow> runtime_rel s s'" for s p s'
    by (auto simp: runtime_ops_def runtime_calls dest!: client_call_rel)
  show "op_ReadRingChunk (runtime_ops m native envs errText c) start n s = (y, s') \<Longrightarrow> runtime_rel s s'" for start n s y s'
    by (auto simp: runtime_ops_def runtime_calls dest!: client_call_rel)
  show "op_ReadBulk (runtime_ops m native envs errText c) qs s = (z, s') \<Longrightarrow> runtime_rel s s'" for qs s z s'
    by (auto simp: runtime_ops_def runtime_calls split: prod.splits dest!: client_call_rel)
qed

section \<open>Publishing\<close>

definition chan_ok :: "'a chan \<Rightarrow> bool" where
  "chan_ok ch \<longleftrightarrow> 0 < ch_cap ch \<and> length (ch_items ch) \<le> ch_cap ch"

lemma publish_newest:
  assumes "chan_ok ch"
  shows "chan_ok (publishReadoutBatch taken batch ch) \<and>
    (\<exists>k. ch_items (publishReadoutBatch taken batch ch) = drop k (ch_items ch) @ [batch]) \<and>
    ch_cap (publishReadoutBatch taken batch ch) = ch_cap ch"
proof (cases "length (ch_items ch) < ch_cap ch")
  case True
  then have "ch_items (publishReadoutBatch taken batch ch) = drop 0 (ch_items ch) @ [batch]"
    by (simp add: publishReadoutBatch_def try_send_def)
  then have "\<exists>k. ch_items (publishReadoutBatch taken batch ch) = drop k (ch_items ch) @ [batch]" ..
  with True assms show ?thesis by (simp add: publishReadoutBatch_def try_send_def chan_ok_def)
next
  case False
  let ?k = "snd taken + (1 + fst taken)"
  have "length (drop ?k (ch_items ch)) < ch_cap ch" using assms by (auto simp: chan_ok_def)
  then have "publishReadoutBatch taken batch ch = ch\<lparr>ch_items := drop ?k (ch_items ch) @ [batch]\<rparr>"
    using False by (simp add: publishReadoutBatch_def try_send_def take_items_def Let_def)
  moreover have "length (drop ?k (ch_items ch) @ [batch]) \<le> ch_cap ch" using assms by (auto simp: chan_ok_def)
  ultimately show ?thesis using assms by (auto simp: chan_ok_def)
qed

section \<open>A round of polling\<close>

definition poll_device_ok :: "routerPollDevice \<Rightarrow> bool" where
  "poll_device_ok dev \<longleftrightarrow> readout_inv (pd_readout dev) \<and> list_all (\<lambda>(i, ch). chan_ok ch) (pd_subscribers dev)"

definition sched_ok :: "RouterPollScheduler \<Rightarrow> bool" where
  "sched_ok s \<longleftrightarrow> distinct (map fst (ps_devices s)) \<and> list_all (\<lambda>(a, dev). poll_device_ok dev) (ps_devices s)"

text \<open>The subscribers of \<open>dev\<close> after a batch: the batch is the newest item, older ones left in order.\<close>

definition delivered :: "poll_batch \<Rightarrow> routerPollDevice \<Rightarrow> routerPollDevice \<Rightarrow> bool" where
  "delivered batch dev dev' \<longleftrightarrow>
     list_all2 (\<lambda>(i, ch) (j, ch'). j = i \<and> ch_cap ch' = ch_cap ch \<and> length (ch_items ch') \<le> ch_cap ch' \<and>
       (\<exists>k. ch_items ch' = drop k (ch_items ch) @ [batch])) (pd_subscribers dev) (pd_subscribers dev')"

lemma poll_device_effects:
  assumes "poll_device_ok dev" and "routes_wf (rr_routes rt)"
    and "poll_device C W m native env addr dev rt = (batch, dev', ms, rt')"
  shows "poll_device_ok dev' \<and> delivered batch dev dev' \<and> served (pd_readout dev') = served (pd_readout dev) \<and>
    rr_routes rt' = rr_routes rt \<and> (\<forall>d. d \<noteq> addr \<longrightarrow> rr_devices rt' d = rr_devices rt d) \<and>
    list_all (\<lambda>x. rb_address (fst x) = addr) ms"
proof -
  define client where "client = NewReadClient \<lparr>rdc_Address = addr, rdc_RequestTimeout = pc_RequestTimeout (pd_cfg dev),
      rdc_RouteSelection = pc_RoutePolicy (pd_cfg dev),
      rdc_SupportsRingReadout = sched_supportsRing (pc_SupportsRingRead (pd_cfg dev))\<rparr>"
  define s where "s = \<lparr>cs_client = client, cs_runtime = rt, cs_requests = 0, cs_sent = []\<rparr>"
  obtain b readout cs where p: "Poll C W (runtime_ops m native (pv_frames env addr) (pv_errText env) client) (pv_now env addr)
      (pv_now env addr) (pd_readout dev) s = (b, readout, cs)" by (metis prod_cases3)
  have e: "batch = b" "dev' = dev\<lparr>pd_readout := readout, pd_subscribers :=
      map (\<lambda>(i, ch). (i, publishReadoutBatch (pv_taken env addr i) b ch)) (pd_subscribers dev)\<rparr>" "ms = cs_sent cs" "rt' = cs_runtime cs"
    using assms(3) p by (auto simp: poll_device_def client_def s_def Let_def)
  have inv: "readout_inv readout \<and> served readout = served (pd_readout dev)"
    using Poll_inv [OF _ p] assms(1) by (simp add: poll_device_ok_def)
  have a: "rc_addr client = addr" by (simp add: client_def NewReadClient_def)
  have "runtime_rel s cs" using p by (rule runtime.Poll_R)
  then have rel: "rr_routes rt' = rr_routes rt" "\<forall>d. d \<noteq> addr \<longrightarrow> rr_devices rt' d = rr_devices rt d"
    "list_all (\<lambda>x. rb_address (fst x) = addr) ms"
    using assms(2) a by (auto simp: runtime_rel_def s_def e)
  have subs: "list_all (\<lambda>(i, ch). chan_ok ch) (pd_subscribers dev)" using assms(1) by (simp add: poll_device_ok_def)
  have "poll_device_ok dev'"
    using inv subs unfolding poll_device_ok_def e by (auto simp: list_all_iff dest!: bspec intro: publish_newest [THEN conjunct1])
  moreover have "delivered b dev dev'"
  proof -
    have "ch_cap (publishReadoutBatch (pv_taken env addr i) b ch) = ch_cap ch \<and>
        length (ch_items (publishReadoutBatch (pv_taken env addr i) b ch)) \<le> ch_cap (publishReadoutBatch (pv_taken env addr i) b ch) \<and>
        (\<exists>k. ch_items (publishReadoutBatch (pv_taken env addr i) b ch) = drop k (ch_items ch) @ [b])"
      if "(i, ch) \<in> set (pd_subscribers dev)" for i ch
    proof -
      have "chan_ok ch" using subs that by (auto simp: list_all_iff)
      from publish_newest [OF this, of "pv_taken env addr i" b] show ?thesis by (auto simp: chan_ok_def)
    qed
    then show ?thesis unfolding delivered_def e by (auto simp: list.rel_map list_all2_same)
  qed
  ultimately show ?thesis using inv rel e by simp
qed

lemma poll_devices_effects:
  assumes "list_all (\<lambda>(a, dev). poll_device_ok dev) devs" and "routes_wf (rr_routes rt)"
    and "poll_devices C W m native env devs rt = (out, devs', ms, rt')"
  shows "map fst out = map fst devs \<and> map fst devs' = map fst devs \<and> list_all (\<lambda>(a, dev). poll_device_ok dev) devs' \<and>
    list_all (\<lambda>(b, dev, dev'). delivered b dev dev' \<and> served (pd_readout dev') = served (pd_readout dev))
      (zip (map snd out) (zip (map snd devs) (map snd devs'))) \<and>
    rr_routes rt' = rr_routes rt \<and> (\<forall>d. d \<notin> set (map fst devs) \<longrightarrow> rr_devices rt' d = rr_devices rt d) \<and>
    list_all (\<lambda>x. rb_address (fst x) \<in> set (map fst devs)) ms"
  using assms
proof (induction devs arbitrary: rt out devs' ms rt')
  case (Cons ad devs)
  obtain addr dev where ad: "ad = (addr, dev)" by force
  obtain b dev' ms1 rt1 where 1: "poll_device C W m native env addr dev rt = (b, dev', ms1, rt1)" by (metis prod_cases4)
  obtain o2 devs2 ms2 rt2 where 2: "poll_devices C W m native env devs rt1 = (o2, devs2, ms2, rt2)" by (metis prod_cases4)
  have e: "out = (addr, b) # o2" "devs' = (addr, dev') # devs2" "ms = ms1 @ ms2" "rt' = rt2"
    using Cons.prems(3) by (simp_all add: ad 1 2)
  have ok: "poll_device_ok dev" "list_all (\<lambda>(a, dev). poll_device_ok dev) devs" using Cons.prems(1) ad by simp_all
  note d = poll_device_effects [OF ok(1) Cons.prems(2) 1]
  have "routes_wf (rr_routes rt1)" using d Cons.prems(2) by simp
  from Cons.IH [OF ok(2) this 2] d show ?case
    by (auto simp: e ad list_all_iff)
qed simp

lemma put_device_ok:
  "sched_ok s \<Longrightarrow> poll_device_ok dev \<Longrightarrow> sched_ok (s\<lparr>ps_devices := amap_put a dev (ps_devices s)\<rparr>)"
  by (auto simp: sched_ok_def amap_put_def list_all_iff distinct_filter_keys)

lemma sched_ok_simps [simp]:
  "sched_ok (s\<lparr>ps_next := n\<rparr>) = sched_ok s" "sched_ok (s\<lparr>ps_closed := c\<rparr>) = sched_ok s"
  "sched_ok (s\<lparr>ps_devices := d, ps_next := n\<rparr>) = sched_ok (s\<lparr>ps_devices := d\<rparr>)"
  by (simp_all add: sched_ok_def)

lemma new_device_ok: "poll_device_ok (new_poll_device dev)"
  using NewReadout_inv by (simp add: poll_device_ok_def new_poll_device_def Let_def)

lemma device_or_new_ok: "sched_ok s \<Longrightarrow> poll_device_ok (device_or_new a s)"
  using NewReadout_inv map_of_SomeD [of "ps_devices s" a]
  by (fastforce simp: device_or_new_def sched_ok_def list_all_iff poll_device_ok_def split: option.splits)

lemma NewRouterPollScheduler_ok: "sched_ok (NewRouterPollScheduler interval devices)"
proof -
  have "sched_ok \<lparr>ps_interval = interval, ps_devices = ds, ps_next = 0, ps_closed = []\<rparr> \<Longrightarrow>
      sched_ok \<lparr>ps_interval = interval, ps_devices = fold (\<lambda>dev. amap_put (pc_Address dev) (new_poll_device dev)) devices ds,
        ps_next = 0, ps_closed = []\<rparr>" for ds
  proof (induction devices arbitrary: ds)
    case (Cons dev devices)
    show ?case using Cons.IH put_device_ok [OF Cons.prems new_device_ok [of dev]] by simp
  qed simp
  then show ?thesis by (simp add: NewRouterPollScheduler_def sched_ok_def)
qed

lemma Subscribe_ok: "sched_ok s \<Longrightarrow> sched_ok (snd (Subscribe addr buffer s))"
proof -
  assume s: "sched_ok s"
  let ?dev = "device_or_new addr s"
  have "poll_device_ok (?dev\<lparr>pd_subscribers := (n, \<lparr>ch_cap = nat (if buffer \<le> 0 then 1 else buffer), ch_items = []\<rparr>) # pd_subscribers ?dev\<rparr>)" for n
    using device_or_new_ok [OF s] by (simp add: poll_device_ok_def chan_ok_def)
  from put_device_ok [OF s this] show ?thesis by (simp add: Subscribe_def Let_def)
qed

lemma EnqueueFront_ok: "sched_ok s \<Longrightarrow> sched_ok (sched_EnqueueFront addr spec s)"
  using device_or_new_ok [of s addr] EnqueueFront_inv
  by (auto simp: sched_EnqueueFront_def poll_device_ok_def Let_def intro!: put_device_ok)

lemma cancel_ok:
  assumes "sched_ok s" and "cancel_subscription addr i s = Some s'"
  shows "sched_ok s'"
proof (cases "map_of (ps_devices s) addr")
  case None
  then show ?thesis using assms by (auto simp: cancel_subscription_def Let_def split: if_splits)
next
  case (Some dev)
  then have "poll_device_ok dev" using assms(1) map_of_SomeD by (fastforce simp: sched_ok_def list_all_iff)
  then have "poll_device_ok (dev\<lparr>pd_subscribers := amap_delete i (pd_subscribers dev)\<rparr>)"
    by (simp add: poll_device_ok_def amap_delete_def list_all_iff)
  from put_device_ok [OF assms(1) this] show ?thesis
    using assms(2) Some by (auto simp: cancel_subscription_def Let_def split: if_splits)
qed

text \<open>
  The states of a scheduler and the runtime it polls through; the runtime may serve other requests
  between two rounds, which never changes its routes.
\<close>

inductive sched_reachable ::
    "tecCatalogueJSON \<Rightarrow> 'w stats_window \<Rightarrow> CANopenSDOMap \<Rightarrow> (string \<Rightarrow> bool) \<Rightarrow> RouterPollScheduler \<Rightarrow> RouterRuntime \<Rightarrow> bool"
  for C W m native where
  Start: "NewRouterRuntime m dir files cfg = Inr rt \<Longrightarrow> sched_reachable C W m native (NewRouterPollScheduler interval devices) rt"
| Front: "sched_reachable C W m native s rt \<Longrightarrow> sched_reachable C W m native (sched_EnqueueFront addr spec s) rt"
| Sub: "sched_reachable C W m native s rt \<Longrightarrow> sched_reachable C W m native (snd (Subscribe addr buffer s)) rt"
| Cancel: "sched_reachable C W m native s rt \<Longrightarrow> cancel_subscription addr i s = Some s' \<Longrightarrow> sched_reachable C W m native s' rt"
| Other: "sched_reachable C W m native s rt \<Longrightarrow> rr_routes rt' = rr_routes rt \<Longrightarrow> sched_reachable C W m native s rt'"
| Round: "sched_reachable C W m native s rt \<Longrightarrow> PollOnce C W m native env s (Some rt) = (out, s', ms, Some rt') \<Longrightarrow>
    sched_reachable C W m native s' rt'"

lemma PollOnce_effects:
  assumes "sched_ok s" and "routes_wf (rr_routes rt)" and "PollOnce C W m native env s (Some rt) = (out, s', ms, res)"
  shows "sched_ok s' \<and> map fst out = map fst (ps_devices s) \<and> map fst (ps_devices s') = map fst (ps_devices s) \<and>
    list_all (\<lambda>(b, dev, dev'). delivered b dev dev' \<and> served (pd_readout dev') = served (pd_readout dev))
      (zip (map snd out) (zip (map snd (ps_devices s)) (map snd (ps_devices s')))) \<and>
    (\<exists>rt'. res = Some rt' \<and> rr_routes rt' = rr_routes rt \<and>
       (\<forall>d. d \<notin> set (map fst (ps_devices s)) \<longrightarrow> rr_devices rt' d = rr_devices rt d)) \<and>
    list_all (\<lambda>x. rb_address (fst x) \<in> set (map fst (ps_devices s))) ms"
proof -
  obtain o2 devs ms2 rt2 where p: "poll_devices C W m native env (ps_devices s) rt = (o2, devs, ms2, rt2)" by (metis prod_cases4)
  have e: "out = o2" "s' = s\<lparr>ps_devices := devs\<rparr>" "ms = ms2" "res = Some rt2" using assms(3) by (auto simp: PollOnce_def p)
  have ok: "list_all (\<lambda>(a, dev). poll_device_ok dev) (ps_devices s)" "distinct (map fst (ps_devices s))"
    using assms(1) by (simp_all add: sched_ok_def)
  from poll_devices_effects [OF ok(1) assms(2) p] ok(2) show ?thesis by (simp add: e sched_ok_def)
qed

lemma sched_reachable_ok: "sched_reachable C W m native s rt \<Longrightarrow> sched_ok s \<and> routes_wf (rr_routes rt)"
proof (induction rule: sched_reachable.induct)
  case (Start dir files cfg rt interval devices)
  then show ?case using NewRouterPollScheduler_ok NewRouterRuntime_wf by blast
next
  case (Cancel s rt addr i s')
  then show ?case using cancel_ok by blast
next
  case (Round s rt env out s' ms rt')
  then show ?case using PollOnce_effects [of s rt C W m native env out s' ms "Some rt'"] by auto
qed (simp_all add: EnqueueFront_ok Subscribe_ok)

text \<open>
  C9.  A polling round of the router.  In every state that is reached by rounds, manual polls,
  subscriptions and cancellations: the round returns one batch per device of the scheduler; every
  subscriber of a device finds this batch as the newest item of its channel, older items are dropped only
  from the front, and no channel exceeds its buffer, whatever the consumers take meanwhile; frames are
  handed only to routes of the scheduled devices, no other device's state changes, and each device keeps
  serving the same parameters.
\<close>

theorem poll_round_delivers:
  assumes "sched_reachable C W m native s rt" and "PollOnce C W m native env s (Some rt) = (out, s', ms, res)"
  shows "map fst out = map fst (ps_devices s) \<and> distinct (map fst out) \<and> map fst (ps_devices s') = map fst (ps_devices s) \<and>
    list_all (\<lambda>(b, dev, dev'). delivered b dev dev' \<and> served (pd_readout dev') = served (pd_readout dev))
      (zip (map snd out) (zip (map snd (ps_devices s)) (map snd (ps_devices s')))) \<and>
    list_all (\<lambda>x. rb_address (fst x) \<in> set (map fst (ps_devices s))) ms \<and>
    (\<exists>rt'. res = Some rt' \<and> rr_routes rt' = rr_routes rt \<and>
       (\<forall>d. d \<notin> set (map fst (ps_devices s)) \<longrightarrow> rr_devices rt' d = rr_devices rt d))"
proof -
  have ok: "sched_ok s" "routes_wf (rr_routes rt)" using sched_reachable_ok [OF assms(1)] by blast+
  have "distinct (map fst (ps_devices s))" using ok(1) by (simp add: sched_ok_def)
  with PollOnce_effects [OF ok assms(2)] show ?thesis by simp
qed

definition demo_poll_env :: poll_env where
  "demo_poll_env = \<lparr>pv_frames = (\<lambda>_ _. demo_frame_env), pv_now = (\<lambda>_. 1), pv_taken = (\<lambda>_ _. (0, 0)), pv_errText = (\<lambda>_. [])\<rparr>"

definition demo_sched :: RouterPollScheduler where
  "demo_sched = snd (Subscribe 2 1 (NewRouterPollScheduler 0 []))"

lemma demo_sched_devices: "map fst (ps_devices demo_sched) = [2]"
  by (simp add: demo_sched_def Subscribe_def NewRouterPollScheduler_def amap_put_def Let_def)

theorem poll_round_delivers_witness:
  "\<exists>rt. NewRouterRuntime empty_sdo_map [] (\<lambda>_. None) demo_settings = Inr rt \<and>
     map fst (fst (PollOnce demo_catalogue demo_window empty_sdo_map (\<lambda>_. True) demo_poll_env demo_sched (Some rt))) = [2]"
proof -
  have "\<exists>rt. NewRouterRuntime empty_sdo_map [] (\<lambda>_. None) demo_settings = Inr rt"
    by (simp add: NewRouterRuntime_def applyRouterDefaults_def demo_settings_def demo_config_def prepareRoutes_def
        normalizeRouteSelectionPolicy_def ToLower_def to_lower_def TrimSpace_def is_space_def add_route_def
        newAddressZeroSelector_def RouterConfig.defs Let_def)
  then obtain rt where rt: "NewRouterRuntime empty_sdo_map [] (\<lambda>_. None) demo_settings = Inr rt" by blast
  have r: "sched_reachable demo_catalogue demo_window empty_sdo_map (\<lambda>_. True) demo_sched rt"
    unfolding demo_sched_def by (intro sched_reachable.Sub sched_reachable.Start [OF rt])
  obtain out s' ms res where p: "PollOnce demo_catalogue demo_window empty_sdo_map (\<lambda>_. True) demo_poll_env demo_sched (Some rt) =
      (out, s', ms, res)" by (metis prod_cases4)
  show ?thesis using poll_round_delivers [OF r p] rt p demo_sched_devices by auto
qed

end
