(* ===== verification/CatalogueEntries.thy ===== *)
theory CatalogueEntries
  imports Catalogue "HOL-Library.Product_Lexorder" "HOL-Library.Multiset"
begin

text \<open>
  The catalogue entries of \<open>mecom/catalogue.go\<close>: the TEC entries with their help texts, and the entries
  of the LDD-130x, which joins the default configuration with the contexts of the user interface and
  gives every key an identifier of its own.  The embedded LDD files are the argument \<open>L\<close>; what
  \<open>json.Marshal\<close> makes of tree paths and counterparts is the argument \<open>J\<close>.
\<close>

section \<open>Text\<close>

definition the_default :: "'a \<Rightarrow> 'a option \<Rightarrow> 'a" where
  "the_default d x = (case x of None \<Rightarrow> d | Some v \<Rightarrow> v)"

fun firstString :: "string list \<Rightarrow> string" where
  "firstString [] = []"
| "firstString (value # values) = (if TrimSpace value \<noteq> [] then TrimSpace value else firstString values)"

definition titleFromKey :: "string \<Rightarrow> string" where
  "titleFromKey value =
     Join (map (\<lambda>word. ToUpper (take 1 word) @ drop 1 word) (Fields (ToLower (replace_char (CHR ''_'') (CHR '' '') value)))) '' ''"

definition ldd130xUnit :: "string \<Rightarrow> string" where
  "ldd130xUnit label =
     (case (LastIndex label (CHR ''[''), LastIndex label (CHR '']'')) of
        (Some start, Some stop) \<Rightarrow>
          if stop \<le> start then []
          else let unit = TrimSpace (take (stop - Suc start) (drop (Suc start) label))
               in if unit = [char_of (194 :: nat), char_of (176 :: nat), CHR ''C''] \<or> unit = ''degC'' then ''degC'' else unit
      | _ \<Rightarrow> [])"

section \<open>Catalogue entries\<close>

record TECCatalogueEntry =
  ce_ID :: int
  ce_Instance :: int
  ce_DisplayName :: string
  ce_RawName :: string
  ce_Unit :: string
  ce_Type :: string
  ce_Role :: string
  ce_Group :: string
  ce_Subgroup :: string
  ce_Category :: string
  ce_Kind :: string
  ce_Access :: string
  ce_SemanticRole :: string
  ce_SourceParameterName :: string
  ce_Help :: string
  ce_Visibility :: string
  ce_SafetyNote :: string
  ce_SourceStatus :: string
  ce_SourceEvidence :: "string list"
  ce_ReadoutPriority :: string
  ce_PreferredReadout :: string
  ce_Command :: string
  ce_ApplicableModes :: "string list"
  ce_Min :: "u64 option"
  ce_Max :: "u64 option"
  ce_DefaultValue :: "string option"
  ce_Enum :: "(string \<times> string) list"
  ce_Dangerous :: bool
  ce_TransportSupport :: "string list"
  ce_Counterparts :: "(string \<times> int list) list"
  ce_TreePath :: "string list"
  ce_TreePaths :: "TECCatalogueTreePath list"
  ce_Metadata :: "string \<rightharpoonup> string"

record json_texts =
  json_tree_paths :: "TECCatalogueTreePath list \<Rightarrow> string"
  json_counterparts :: "(string \<times> int list) list \<Rightarrow> string"

record mecomTECHelpParameter =
  th_MeParID :: int
  th_Name :: string
  th_Group :: string
  th_Visibility :: string
  th_Help :: string
  th_SourceEvidence :: "string list"
  th_SourceAccess :: string
  th_SafetyNote :: string

datatype source_error = SourceMissingSchema | SourceMissingDefinition | SourceEmpty

definition loadTECHelpSourceJSON ::
    "string \<times> (string \<rightharpoonup> mecomTECHelpParameter) \<Rightarrow> source_error + (string \<times> (string \<rightharpoonup> mecomTECHelpParameter))" where
  "loadTECHelpSourceJSON h = (if fst h = [] then Inl SourceMissingSchema else Inr h)"

definition tecHelpForParameter :: "(string \<rightharpoonup> mecomTECHelpParameter) \<Rightarrow> mecomTECParameter \<Rightarrow> mecomTECHelpParameter" where
  "tecHelpForParameter H p =
     (let help = \<lparr>th_MeParID = tp_ID p, th_Name = [], th_Group = [], th_Visibility = tp_Visibility p, th_Help = tp_Help p,
            th_SourceEvidence = tp_SourceEvidence p, th_SourceAccess = [], th_SafetyNote = []\<rparr>
      in case H (fmtD (tp_ID p)) of
           None \<Rightarrow> help
         | Some source \<Rightarrow>
             help\<lparr>th_Help := or_else (th_Help help) (th_Help source),
                  th_Visibility := or_else (th_Visibility help) (th_Visibility source),
                  th_SourceAccess := or_else (th_SourceAccess help) (th_SourceAccess source),
                  th_SafetyNote := or_else (th_SafetyNote help) (th_SafetyNote source),
                  th_SourceEvidence := (if th_SourceEvidence help = [] then th_SourceEvidence source else th_SourceEvidence help),
                  th_Name := or_else (th_Name help) (th_Name source),
                  th_Group := or_else (th_Group help) (th_Group source)\<rparr>)"

definition put_if :: "bool \<Rightarrow> string \<Rightarrow> string \<Rightarrow> (string \<rightharpoonup> string) \<Rightarrow> string \<rightharpoonup> string" where
  "put_if b key value m = (if b then m(key \<mapsto> value) else m)"

definition addTECHelpMetadata :: "mecomTECHelpParameter \<Rightarrow> (string \<rightharpoonup> string) \<Rightarrow> string \<rightharpoonup> string" where
  "addTECHelpMetadata help =
     put_if (th_SourceEvidence help \<noteq> []) ''source_evidence'' (Join (th_SourceEvidence help) '';'') \<circ>
     put_if (th_SafetyNote help \<noteq> []) ''safety_note'' (th_SafetyNote help) \<circ>
     put_if (th_SourceAccess help \<noteq> []) ''source_access'' (th_SourceAccess help) \<circ>
     put_if (th_Visibility help \<noteq> []) ''visibility'' (th_Visibility help) \<circ>
     put_if (th_Help help \<noteq> []) ''help'' (th_Help help)"

definition entry_metadata ::
    "tecCatalogueJSON \<Rightarrow> json_texts \<Rightarrow> mecomTECHelpParameter \<Rightarrow> mecomTECParameter \<Rightarrow> string \<rightharpoonup> string" where
  "entry_metadata C J help p =
     (put_if (tp_Counterparts p \<noteq> []) ''counterparts'' (json_counterparts J (tp_Counterparts p)) \<circ>
      put_if (tp_TreePaths p \<noteq> []) ''tree_paths'' (json_tree_paths J (tp_TreePaths p)) \<circ>
      put_if (tp_TreePath p \<noteq> []) ''tree_path'' (catalogueTreePath (tp_TreePath p)) \<circ>
      put_if (tp_DefaultValue p \<noteq> None) ''default_value'' (the_default [] (tp_DefaultValue p)) \<circ>
      put_if (tp_Command p \<noteq> []) ''command'' (tp_Command p) \<circ>
      addTECHelpMetadata help \<circ>
      addMeComDefinitionMetadata C (DefaultTECCatalogueDefinition C))
     [''semantic_role'' \<mapsto> tp_SemanticRole p, ''source_parameter_name'' \<mapsto> tp_SourceParameterName p,
      ''readout_priority'' \<mapsto> readoutPriority p, ''preferred_readout'' \<mapsto> effectivePreferredReadout p]"

definition tecCatalogueEntryFromParameter ::
    "tecCatalogueJSON \<Rightarrow> (string \<rightharpoonup> mecomTECHelpParameter) \<Rightarrow> json_texts \<Rightarrow> int \<Rightarrow> mecomTECParameter \<Rightarrow> TECCatalogueEntry" where
  "tecCatalogueEntryFromParameter C H J inst p =
     (let help = tecHelpForParameter H p in
      \<lparr>ce_ID = tp_ID p, ce_Instance = inst, ce_DisplayName = tp_Display p, ce_RawName = tp_RawName p, ce_Unit = tp_Unit p,
       ce_Type = effectiveValueType p, ce_Role = tp_Role p, ce_Group = tp_Group p, ce_Subgroup = tp_Subgroup p,
       ce_Category = tp_Category p, ce_Kind = ''continuous'', ce_Access = tp_access p, ce_SemanticRole = tp_SemanticRole p,
       ce_SourceParameterName = tp_SourceParameterName p, ce_Help = th_Help help, ce_Visibility = th_Visibility help,
       ce_SafetyNote = th_SafetyNote help, ce_SourceStatus = ''definition_catalogue'', ce_SourceEvidence = th_SourceEvidence help,
       ce_ReadoutPriority = readoutPriority p, ce_PreferredReadout = effectivePreferredReadout p, ce_Command = tp_Command p,
       ce_ApplicableModes = tp_ApplicableModes p, ce_Min = tp_Minimum p, ce_Max = tp_Maximum p,
       ce_DefaultValue = tp_DefaultValue p, ce_Enum = tp_Enum p, ce_Dangerous = tp_Dangerous p,
       ce_TransportSupport = tp_TransportSupport p, ce_Counterparts = tp_Counterparts p, ce_TreePath = tp_TreePath p,
       ce_TreePaths = tp_TreePaths p, ce_Metadata = entry_metadata C J help p\<rparr>)"

definition DefaultTECCatalogueEntries ::
    "tecCatalogueJSON \<Rightarrow> (string \<rightharpoonup> mecomTECHelpParameter) \<Rightarrow> json_texts \<Rightarrow> int \<Rightarrow> TECCatalogueEntry list" where
  "DefaultTECCatalogueEntries C H J channels =
     concat (map (\<lambda>ch. map (tecCatalogueEntryFromParameter C H J ch) (cat_ReadoutParameters C) @
                       map (tecCatalogueEntryFromParameter C H J ch) (cat_WriteParameters C))
       (channel_numbers (if channels \<le> 0 then 8 else channels)))"

definition RoleForParam :: "tecCatalogueJSON \<Rightarrow> (string \<rightharpoonup> mecomTECHelpParameter) \<Rightarrow> json_texts \<Rightarrow> int \<Rightarrow> string" where
  "RoleForParam C H J pid =
     (case List.find (\<lambda>e. ce_ID e = pid) (DefaultTECCatalogueEntries C H J 1) of Some e \<Rightarrow> ce_Role e | None \<Rightarrow> ''aux'')"

definition KindForParam :: "tecCatalogueJSON \<Rightarrow> (string \<rightharpoonup> mecomTECHelpParameter) \<Rightarrow> json_texts \<Rightarrow> int \<Rightarrow> string" where
  "KindForParam C H J pid =
     (case List.find (\<lambda>e. ce_ID e = pid) (DefaultTECCatalogueEntries C H J 1) of Some e \<Rightarrow> ce_Kind e | None \<Rightarrow> ''continuous'')"

section \<open>The LDD-130x\<close>

record ldd130xDefaultParam =
  ld_Key :: string
  ld_LabelKey :: string
  ld_Group :: string
  ld_Visibility :: string
  ld_DefaultValueText :: string
  ld_ValueKind :: string
  ld_SafetyNote :: string
  ld_SourceEvidence :: "string list"

record ldd130xUIContext =
  lc_Key :: string
  lc_LabelKey :: string
  lc_PrimaryDisplayCandidate :: string
  lc_ContextStack :: "string list"
  lc_SourceEvidence :: "string list"
  lc_ProtocolStatus :: string
  lc_ProtocolIDs :: "string list"
  lc_CANopenIndices :: "string list"

record ldd130xCrossCheck =
  lk_ID :: string
  lk_Status :: string
  lk_Summary :: string
  lk_SourceEvidence :: "string list"
  lk_DefaultKey :: string
  lk_UIKey :: string
  lk_ProtocolName :: string

text \<open>
  The three embedded sources: the default configuration, the contexts of the user interface with their
  text encodings, and the metadata index.
\<close>

record ldd130xSources =
  ls_configSchema :: string
  ls_configDefinition :: string
  ls_Parameters :: "(string \<times> ldd130xDefaultParam) list"
  ls_uiSchema :: string
  ls_uiDefinition :: string
  ls_ResourceStringEncoding :: string
  ls_StringsOutputEncoding :: string
  ls_ParameterContexts :: "(string \<times> ldd130xUIContext) list"
  ls_indexSchema :: string
  ls_indexDefinition :: string
  ls_SafetyPolicy :: string
  ls_Checks :: "ldd130xCrossCheck list"

definition loadLDD130xConfigJSON :: "ldd130xSources \<Rightarrow> source_error + ldd130xSources" where
  "loadLDD130xConfigJSON L =
     (if ls_configSchema L = [] then Inl SourceMissingSchema
      else if ls_configDefinition L = [] then Inl SourceMissingDefinition
      else if ls_Parameters L = [] then Inl SourceEmpty else Inr L)"

definition loadLDD130xUIMetadataJSON :: "ldd130xSources \<Rightarrow> source_error + ldd130xSources" where
  "loadLDD130xUIMetadataJSON L =
     (if ls_uiSchema L = [] then Inl SourceMissingSchema
      else if ls_uiDefinition L = [] then Inl SourceMissingDefinition
      else if ls_ParameterContexts L = [] then Inl SourceEmpty else Inr L)"

definition loadLDD130xMetadataIndexJSON :: "ldd130xSources \<Rightarrow> source_error + ldd130xSources" where
  "loadLDD130xMetadataIndexJSON L =
     (if ls_indexSchema L = [] then Inl SourceMissingSchema
      else if ls_indexDefinition L = [] then Inl SourceMissingDefinition else Inr L)"

definition no_context :: ldd130xUIContext where
  "no_context = \<lparr>lc_Key = [], lc_LabelKey = [], lc_PrimaryDisplayCandidate = [], lc_ContextStack = [], lc_SourceEvidence = [],
     lc_ProtocolStatus = [], lc_ProtocolIDs = [], lc_CANopenIndices = []\<rparr>"

definition no_default :: ldd130xDefaultParam where
  "no_default = \<lparr>ld_Key = [], ld_LabelKey = [], ld_Group = [], ld_Visibility = [], ld_DefaultValueText = [], ld_ValueKind = [],
     ld_SafetyNote = [], ld_SourceEvidence = []\<rparr>"

definition no_check :: ldd130xCrossCheck where
  "no_check = \<lparr>lk_ID = [], lk_Status = [], lk_Summary = [], lk_SourceEvidence = [], lk_DefaultKey = [], lk_UIKey = [],
     lk_ProtocolName = []\<rparr>"

definition ldd130xCatalogueKeys :: "ldd130xSources \<Rightarrow> string list" where
  "ldd130xCatalogueKeys L = sort (remdups (map fst (ls_Parameters L) @ map fst (ls_ParameterContexts L)))"

definition ldd130xContextFromDefault :: "string \<Rightarrow> ldd130xDefaultParam \<Rightarrow> ldd130xUIContext" where
  "ldd130xContextFromDefault key p =
     no_context\<lparr>lc_Key := key, lc_LabelKey := ld_LabelKey p,
       lc_PrimaryDisplayCandidate := titleFromKey (or_else (TrimSpace (ld_Key p)) key),
       lc_ContextStack := compactStrings [''Default Config'', ld_Group p], lc_ProtocolStatus := ''default_config_only'',
       lc_SourceEvidence := ld_SourceEvidence p\<rparr>"

text \<open>The identifier: a protocol id, else an object index, else the next free synthetic one.\<close>

fun first_free :: "int list \<Rightarrow> (num_err + int) list \<Rightarrow> int option" where
  "first_free used [] = None"
| "first_free used (Inl e # rs) = first_free used rs"
| "first_free used (Inr i # rs) = (if 0 < i \<and> i \<notin> set used then Some i else first_free used rs)"

function synthetic_id :: "int list \<Rightarrow> int \<Rightarrow> int \<times> int" where
  "synthetic_id used n = (if n \<in> set used then synthetic_id used (n + 1) else (n, n + 1))"
  by pat_completeness auto
termination
proof (relation "measure (\<lambda>(used, n). length (filter (\<lambda>i. n \<le> i) used))")
  fix used :: "int list" and n
  assume n: "n \<in> set used"
  have "filter (\<lambda>i. n + 1 \<le> i) used = filter (\<lambda>i. i \<noteq> n) (filter (\<lambda>i. n \<le> i) used)"
    unfolding filter_filter by (rule filter_cong) auto
  moreover have "length (filter (\<lambda>i. i \<noteq> n) (filter (\<lambda>i. n \<le> i) used)) < length (filter (\<lambda>i. n \<le> i) used)"
    using n by (intro length_filter_less [where x = n]) auto
  ultimately show "((used, n + 1), used, n) \<in> measure (\<lambda>(used, n). length (filter (\<lambda>i. n \<le> i) used))" by simp
qed simp

declare synthetic_id.simps [simp del]

definition ldd130xCatalogueID :: "ldd130xUIContext \<Rightarrow> int list \<Rightarrow> int \<Rightarrow> int \<times> int list \<times> int" where
  "ldd130xCatalogueID ctx used synthetic =
     (case first_free used (map (\<lambda>raw. Atoi (TrimSpace raw)) (lc_ProtocolIDs ctx)) of
        Some i \<Rightarrow> (i, i # used, synthetic)
      | None \<Rightarrow>
          (case first_free used (map (\<lambda>raw. ParseInt16 (TrimPrefix (TrimPrefix (TrimSpace raw) ''0x'') ''0X'')) (lc_CANopenIndices ctx)) of
             Some i \<Rightarrow> (i, i # used, synthetic)
           | None \<Rightarrow> (case synthetic_id used synthetic of (i, s) \<Rightarrow> (i, i # used, s))))"

definition ldd130xDefaultLabelKey :: "ldd130xDefaultParam option \<Rightarrow> string" where
  "ldd130xDefaultLabelKey param = (case param of None \<Rightarrow> [] | Some p \<Rightarrow> ld_LabelKey p)"

definition ldd130xValueType :: "ldd130xDefaultParam option \<Rightarrow> ldd130xUIContext \<Rightarrow> string" where
  "ldd130xValueType param ctx =
     (let kind = (case param of None \<Rightarrow> [] | Some p \<Rightarrow> ToLower (TrimSpace (ld_ValueKind p))) in
      if kind \<in> {''integer'', ''bool'', ''boolean''} then ''int32''
      else if kind \<in> {''number'', ''float''} then ''float32''
      else if kind = ''text'' then ''string''
      else if ldd130xUnit (lc_PrimaryDisplayCandidate ctx) \<noteq> [] then ''float32'' else ''string'')"

definition ldd130xRole :: "ldd130xDefaultParam option \<Rightarrow> ldd130xUIContext \<Rightarrow> string" where
  "ldd130xRole param ctx =
     (if lc_ProtocolStatus ctx = ''service_software_only'' then ''metadata''
      else case param of Some p \<Rightarrow> if ld_Visibility p = ''operator'' then ''control'' else ''monitor'' | None \<Rightarrow> ''monitor'')"

definition ldd130xKind :: "ldd130xDefaultParam option \<Rightarrow> ldd130xUIContext \<Rightarrow> string" where
  "ldd130xKind param ctx =
     (if lc_ProtocolStatus ctx = ''service_software_only'' \<or> ldd130xValueType param ctx = ''string'' then ''metadata''
      else ''continuous'')"

definition ldd130xVisibility :: "ldd130xDefaultParam option \<Rightarrow> string" where
  "ldd130xVisibility param =
     (case param of Some p \<Rightarrow> if TrimSpace (ld_Visibility p) \<noteq> [] then ld_Visibility p else ''advanced'' | None \<Rightarrow> ''advanced'')"

definition ldd130xSafetyNote :: "ldd130xSources \<Rightarrow> ldd130xDefaultParam option \<Rightarrow> ldd130xUIContext \<Rightarrow> string" where
  "ldd130xSafetyNote L param ctx =
     (let fallback = (if lc_ProtocolStatus ctx = ''service_software_only'' then ls_SafetyPolicy L else []) in
      case param of Some p \<Rightarrow> if TrimSpace (ld_SafetyNote p) \<noteq> [] then ld_SafetyNote p else fallback | None \<Rightarrow> fallback)"

definition ldd130xDefaultValue :: "ldd130xDefaultParam option \<Rightarrow> string option" where
  "ldd130xDefaultValue param =
     (case param of None \<Rightarrow> None | Some p \<Rightarrow> if TrimSpace (ld_DefaultValueText p) = [] then None else Some (ld_DefaultValueText p))"

definition ldd130xApplicableModes :: "ldd130xUIContext \<Rightarrow> string list" where
  "ldd130xApplicableModes ctx = (if lc_ProtocolStatus ctx = ''service_software_only'' then [''metadata''] else [''ldd''])"

definition appendLDDEvidence :: "ldd130xDefaultParam option \<Rightarrow> ldd130xUIContext \<Rightarrow> ldd130xCrossCheck \<Rightarrow> string list" where
  "appendLDDEvidence param ctx check =
     compactStrings ((case param of None \<Rightarrow> [] | Some p \<Rightarrow> ld_SourceEvidence p) @ lc_SourceEvidence ctx @ lk_SourceEvidence check)"

definition ldd130xCANopenHexList :: "string list \<Rightarrow> string list" where
  "ldd130xCANopenHexList values =
     map (\<lambda>value. ''0x'' @ TrimPrefix value ''0X'') (filter (\<lambda>value. value \<noteq> []) (map (\<lambda>v. TrimSpace (ToUpper v)) values))"

definition ldd130xCrossCheckByKey :: "ldd130xSources \<Rightarrow> string \<Rightarrow> ldd130xCrossCheck" where
  "ldd130xCrossCheckByKey L key =
     the_default no_check (List.find (\<lambda>c. lk_DefaultKey c = key \<or> lk_UIKey c = key) (ls_Checks L))"

definition ldd130xCrossCheckByID :: "ldd130xSources \<Rightarrow> string \<Rightarrow> ldd130xCrossCheck" where
  "ldd130xCrossCheckByID L cid = the_default no_check (List.find (\<lambda>c. lk_ID c = cid) (ls_Checks L))"

definition ldd130xHelp ::
    "ldd130xSources \<Rightarrow> string \<Rightarrow> ldd130xUIContext \<Rightarrow> ldd130xDefaultParam option \<Rightarrow> ldd130xCrossCheck \<Rightarrow> string" where
  "ldd130xHelp L label ctx param check =
     (let ids = (if lc_ProtocolIDs ctx \<noteq> [] then [''MeCom '' @ Join (lc_ProtocolIDs ctx) '', ''] else []) @
                (if lc_CANopenIndices ctx \<noteq> [] then [''CANopen '' @ Join (ldd130xCANopenHexList (lc_CANopenIndices ctx)) '', ''] else []);
          safety = ldd130xSafetyNote L param ctx
      in Join ((if label \<noteq> [] then [label] else []) @
               (if lc_ContextStack ctx \<noteq> [] then [''Context: '' @ Join (compactStrings (lc_ContextStack ctx)) '' / ''] else []) @
               (if lc_ProtocolStatus ctx \<noteq> [] then [''Protocol status: '' @ lc_ProtocolStatus ctx] else []) @
               (if ids \<noteq> [] then [Join ids ''; ''] else []) @
               (if lk_Summary check \<noteq> [] then [lk_Summary check] else []) @
               (if safety \<noteq> [] then [safety] else [])) '' '')"

definition ldd_tree_path :: "string \<Rightarrow> ldd130xUIContext \<Rightarrow> string list" where
  "ldd_tree_path label ctx = compactStrings ([''Meerstetter'', ''LDD'', ''LDD-130x''] @ lc_ContextStack ctx @ [label])"

definition ldd_tree_paths :: "string \<Rightarrow> ldd130xUIContext \<Rightarrow> TECCatalogueTreePath list" where
  "ldd_tree_paths label ctx =
     [\<lparr>tree_ID = ''ldd-130x-ui'', tree_Label = ''LDD-130x'', tree_Path = ldd_tree_path label ctx, tree_Default = True\<rparr>,
      \<lparr>tree_ID = ''protocol'', tree_Label = ''LDD protocol'',
       tree_Path = compactStrings [''LDD protocol'', firstNonEmpty [firstString (lc_ProtocolIDs ctx), ''software metadata''], label],
       tree_Default = False\<rparr>]"

definition ldd_metadata ::
    "tecCatalogueJSON \<Rightarrow> ldd130xSources \<Rightarrow> json_texts \<Rightarrow> string \<Rightarrow> string \<Rightarrow> string \<Rightarrow> ldd130xUIContext \<Rightarrow>
     ldd130xDefaultParam option \<Rightarrow> ldd130xCrossCheck \<Rightarrow> string \<rightharpoonup> string" where
  "ldd_metadata C L J key label status ctx param check =
     (put_if True ''tree_paths'' (json_tree_paths J (ldd_tree_paths label ctx)) \<circ>
      put_if (lk_ID check \<noteq> []) ''documentation_cross_check_status'' (lk_Status check) \<circ>
      put_if (lk_ID check \<noteq> []) ''documentation_cross_check'' (lk_ID check) \<circ>
      (case param of None \<Rightarrow> id | Some p \<Rightarrow> put_if (ld_DefaultValueText p \<noteq> []) ''default_value'' (ld_DefaultValueText p)) \<circ>
      put_if (lc_ContextStack ctx \<noteq> []) ''context_stack'' (Join (compactStrings (lc_ContextStack ctx)) '' / '') \<circ>
      put_if (lc_CANopenIndices ctx \<noteq> []) ''canopen_indices'' (Join (ldd130xCANopenHexList (lc_CANopenIndices ctx)) '','') \<circ>
      put_if (lc_ProtocolIDs ctx \<noteq> []) ''protocol_ids'' (Join (lc_ProtocolIDs ctx) '','') \<circ>
      addMeComDefinitionMetadata C DefaultLDD130xCatalogueDefinition)
     [''ldd_key'' \<mapsto> key, ''label_key'' \<mapsto> firstNonEmpty [lc_LabelKey ctx, ldd130xDefaultLabelKey param],
      ''protocol_status'' \<mapsto> status, ''source_text_encoding'' \<mapsto> ls_StringsOutputEncoding L,
      ''resource_string_encoding'' \<mapsto> ls_ResourceStringEncoding L, ''preferred_readout'' \<mapsto> ''definition_catalogue'',
      ''readout_priority'' \<mapsto> ''metadata'']"

definition ldd130xCatalogueEntryFromContext ::
    "tecCatalogueJSON \<Rightarrow> ldd130xSources \<Rightarrow> json_texts \<Rightarrow> int \<Rightarrow> int \<Rightarrow> string \<Rightarrow> ldd130xUIContext \<Rightarrow>
     ldd130xDefaultParam option \<Rightarrow> TECCatalogueEntry" where
  "ldd130xCatalogueEntryFromContext C L J inst i key ctx param =
     (let label = firstNonEmpty [lc_PrimaryDisplayCandidate ctx, titleFromKey key];
          status = firstNonEmpty [lc_ProtocolStatus ctx, ''software_label''];
          check = ldd130xCrossCheckByKey L key
      in \<lparr>ce_ID = i, ce_Instance = inst, ce_DisplayName = label, ce_RawName = key, ce_Unit = ldd130xUnit label,
          ce_Type = ldd130xValueType param ctx, ce_Role = ldd130xRole param ctx, ce_Group = ''LDD-130x'',
          ce_Subgroup = firstNonEmpty [firstString (lc_ContextStack ctx), ''Definition metadata''], ce_Category = ''auxiliary'',
          ce_Kind = ldd130xKind param ctx, ce_Access = ''metadata'',
          ce_SemanticRole = ToLower (replace_char (CHR ''_'') (CHR ''.'') key), ce_SourceParameterName = key,
          ce_Help = ldd130xHelp L label ctx param check, ce_Visibility = ldd130xVisibility param,
          ce_SafetyNote = ldd130xSafetyNote L param ctx, ce_SourceStatus = status,
          ce_SourceEvidence = appendLDDEvidence param ctx check, ce_ReadoutPriority = ''metadata'',
          ce_PreferredReadout = ''definition_catalogue'', ce_Command = [], ce_ApplicableModes = ldd130xApplicableModes ctx,
          ce_Min = None, ce_Max = None, ce_DefaultValue = ldd130xDefaultValue param, ce_Enum = [], ce_Dangerous = False,
          ce_TransportSupport = [''mecom_serial'', ''mecom_can'', ''canopen''], ce_Counterparts = [],
          ce_TreePath = ldd_tree_path label ctx, ce_TreePaths = ldd_tree_paths label ctx,
          ce_Metadata = ldd_metadata C L J key label status ctx param check\<rparr>)"

definition ldd130xFeatureKeyStoreEntry :: "tecCatalogueJSON \<Rightarrow> ldd130xSources \<Rightarrow> ldd130xCrossCheck \<Rightarrow> TECCatalogueEntry" where
  "ldd130xFeatureKeyStoreEntry C L check =
     \<lparr>ce_ID = 54000, ce_Instance = 1, ce_DisplayName = firstNonEmpty [lk_ProtocolName check, ''Feature Key Store''],
      ce_RawName = ''FEATURE_KEY_STORE'', ce_Unit = [], ce_Type = ''string'', ce_Role = ''metadata'', ce_Group = ''LDD-130x'',
      ce_Subgroup = ''Feature Licenses'', ce_Category = ''auxiliary'', ce_Kind = ''metadata'', ce_Access = ''metadata'',
      ce_SemanticRole = ''feature.key.store'', ce_SourceParameterName = ''FEATURE_KEY_STORE'', ce_Help = lk_Summary check,
      ce_Visibility = ''advanced'', ce_SafetyNote = [], ce_SourceStatus = ''protocol_documented'',
      ce_SourceEvidence = lk_SourceEvidence check, ce_ReadoutPriority = ''metadata'', ce_PreferredReadout = ''definition_catalogue'',
      ce_Command = [], ce_ApplicableModes = [''ldd''], ce_Min = None, ce_Max = None, ce_DefaultValue = None, ce_Enum = [],
      ce_Dangerous = False, ce_TransportSupport = [''mecom_serial'', ''mecom_can'', ''canopen''], ce_Counterparts = [],
      ce_TreePath = [''Meerstetter'', ''LDD'', ''LDD-130x'', ''Feature Licenses'', ''Feature Key Store''],
      ce_TreePaths = [\<lparr>tree_ID = ''ldd-130x-ui'', tree_Label = ''LDD-130x'',
        tree_Path = [''Meerstetter'', ''LDD'', ''LDD-130x'', ''Feature Licenses'', ''Feature Key Store''], tree_Default = True\<rparr>],
      ce_Metadata = addMeComDefinitionMetadata C DefaultLDD130xCatalogueDefinition
        [''protocol_status'' \<mapsto> ''protocol_documented'', ''documentation_cross_check'' \<mapsto> lk_ID check,
         ''documentation_cross_check_status'' \<mapsto> lk_Status check, ''source_text_encoding'' \<mapsto> ls_StringsOutputEncoding L,
         ''resource_string_encoding'' \<mapsto> ls_ResourceStringEncoding L, ''preferred_readout'' \<mapsto> ''definition_catalogue'',
         ''readout_priority'' \<mapsto> ''metadata'']\<rparr>"

text \<open>The loop over the keys: entries, identifiers in use and the next synthetic identifier.\<close>

fun ldd_entries ::
    "tecCatalogueJSON \<Rightarrow> ldd130xSources \<Rightarrow> json_texts \<Rightarrow> int list \<Rightarrow> int \<Rightarrow> string list \<Rightarrow> TECCatalogueEntry list \<times> int list" where
  "ldd_entries C L J used synthetic [] = ([], used)"
| "ldd_entries C L J used synthetic (key # keys) =
     (let param = map_of (ls_Parameters L) key;
          ctx0 = the_default no_context (map_of (ls_ParameterContexts L) key);
          ctx = (if lc_Key ctx0 = [] then ldd130xContextFromDefault key (the_default no_default param) else ctx0)
      in case ldd130xCatalogueID ctx used synthetic of
           (i, used', synthetic') \<Rightarrow>
             (case ldd_entries C L J used' synthetic' keys of
                (out, usedN) \<Rightarrow> (ldd130xCatalogueEntryFromContext C L J 1 i key ctx param # out, usedN)))"

definition ldd_order :: "TECCatalogueEntry \<Rightarrow> string \<times> string \<times> int \<times> string" where
  "ldd_order e = (ce_Group e, ce_Subgroup e, ce_ID e, ce_RawName e)"

definition DefaultLDD130xCatalogueEntries ::
    "tecCatalogueJSON \<Rightarrow> ldd130xSources \<Rightarrow> json_texts \<Rightarrow> int \<Rightarrow> TECCatalogueEntry list" where
  "DefaultLDD130xCatalogueEntries C L J channels =
     (case ldd_entries C L J [] 930000 (ldd130xCatalogueKeys L) of
        (out, used) \<Rightarrow>
          let feature = ldd130xCrossCheckByID L ''feature_unlock_license_metadata'';
              out1 = (if lk_ID feature \<noteq> [] \<and> 54000 \<notin> set used then out @ [ldd130xFeatureKeyStoreEntry C L feature] else out)
          in sort_key ldd_order out1)"

definition DefaultMeComCatalogueEntries ::
    "tecCatalogueJSON \<Rightarrow> (string \<rightharpoonup> mecomTECHelpParameter) \<Rightarrow> ldd130xSources \<Rightarrow> json_texts \<Rightarrow> MeComCatalogueDefinition \<Rightarrow> int \<Rightarrow>
     TECCatalogueEntry list" where
  "DefaultMeComCatalogueEntries C H L J definition0 channels =
     (let d = normalized C definition0 in
      if md_SubFamily d = ''ldd'' then
        (if md_Variant d = ''ldd_130x'' \<or> Contains (md_DefinitionID d) ''ldd_130x''
         then DefaultLDD130xCatalogueEntries C L J channels else [])
      else if md_SubFamily d = ''daq'' then []
      else DefaultTECCatalogueEntries C H J channels)"

section \<open>Identifiers of the LDD entries\<close>

lemma first_free_ok: "first_free used rs = Some i \<Longrightarrow> 0 < i \<and> i \<notin> set used"
  by (induction used rs rule: first_free.induct) (auto split: if_splits)

lemma synthetic_id_ok: "synthetic_id used n = (i, s) \<Longrightarrow> n \<le> i \<and> i \<notin> set used \<and> s = i + 1"
proof (induction used n rule: synthetic_id.induct)
  case (1 used n)
  then show ?case by (cases "n \<in> set used") (auto simp: synthetic_id.simps [of used n])
qed

lemma ldd130xCatalogueID_ok:
  "ldd130xCatalogueID ctx used synthetic = (i, used', s) \<Longrightarrow> 0 < synthetic \<Longrightarrow> 0 < i \<and> i \<notin> set used \<and> used' = i # used \<and> 0 < s"
  by (auto simp: ldd130xCatalogueID_def split: option.splits prod.splits dest!: first_free_ok synthetic_id_ok)

lemma entry_fields [simp]:
  "ce_ID (ldd130xCatalogueEntryFromContext C L J inst i key ctx param) = i"
  "ce_RawName (ldd130xCatalogueEntryFromContext C L J inst i key ctx param) = key"
  "ce_Access (ldd130xCatalogueEntryFromContext C L J inst i key ctx param) = ''metadata''"
  "ce_ID (ldd130xFeatureKeyStoreEntry C L check) = 54000"
  "ce_RawName (ldd130xFeatureKeyStoreEntry C L check) = ''FEATURE_KEY_STORE''"
  "ce_Access (ldd130xFeatureKeyStoreEntry C L check) = ''metadata''"
  by (simp_all add: ldd130xCatalogueEntryFromContext_def ldd130xFeatureKeyStoreEntry_def Let_def)

lemma ldd_entries_ok:
  "ldd_entries C L J used synthetic keys = (out, usedN) \<Longrightarrow> 0 < synthetic \<Longrightarrow>
     distinct (map ce_ID out) \<and> set (map ce_ID out) \<inter> set used = {} \<and> set usedN = set used \<union> set (map ce_ID out) \<and>
     map ce_RawName out = keys \<and> list_all (\<lambda>e. 0 < ce_ID e \<and> ce_Access e = ''metadata'') out"
proof (induction keys arbitrary: used synthetic out)
  case (Cons key keys)
  obtain ctx param where eq: "ldd_entries C L J used synthetic (key # keys) =
      (case ldd130xCatalogueID ctx used synthetic of (i, used', synthetic') \<Rightarrow>
        (case ldd_entries C L J used' synthetic' keys of
           (out, usedN) \<Rightarrow> (ldd130xCatalogueEntryFromContext C L J 1 i key ctx param # out, usedN)))"
    by (simp add: Let_def)
  obtain i used' s where i: "ldd130xCatalogueID ctx used synthetic = (i, used', s)" by (metis prod_cases3)
  note ok = ldd130xCatalogueID_ok [OF i Cons.prems(2)]
  obtain out' where o: "ldd_entries C L J used' s keys = (out', usedN)"
    and out: "out = ldd130xCatalogueEntryFromContext C L J 1 i key ctx param # out'"
    using Cons.prems(1) unfolding eq i by (auto split: prod.splits)
  show ?case using Cons.IH [OF o] ok by (auto simp: out)
qed simp

text \<open>
  C38.  The LDD-130x catalogue is sound for every pair of source files: it has exactly one entry for each key
  of the default configuration or of the user interface, also for a key of both, and at most once the
  feature key store, each with a positive identifier that no other entry has; the entries are in the order of group, subgroup,
  identifier and name, and none of them is offered for writing.
\<close>

theorem ldd_catalogue_sound:
  "distinct (map ce_ID (DefaultLDD130xCatalogueEntries C L J channels)) \<and>
   sorted (map ldd_order (DefaultLDD130xCatalogueEntries C L J channels)) \<and>
   list_all (\<lambda>e. 0 < ce_ID e \<and> ce_Access e = ''metadata'') (DefaultLDD130xCatalogueEntries C L J channels) \<and>
   (let keys = mset_set (fst ` set (ls_Parameters L) \<union> fst ` set (ls_ParameterContexts L)) in
    mset (map ce_RawName (DefaultLDD130xCatalogueEntries C L J channels)) \<in> {keys, keys + {#''FEATURE_KEY_STORE''#}})"
proof -
  obtain out used where o: "ldd_entries C L J [] 930000 (ldd130xCatalogueKeys L) = (out, used)" by fastforce
  note ok = ldd_entries_ok [OF o, simplified]
  define out1 where "out1 = (let feature = ldd130xCrossCheckByID L ''feature_unlock_license_metadata'' in
      if lk_ID feature \<noteq> [] \<and> 54000 \<notin> set used then out @ [ldd130xFeatureKeyStoreEntry C L feature] else out)"
  have e: "DefaultLDD130xCatalogueEntries C L J channels = sort_key ldd_order out1"
    by (simp add: DefaultLDD130xCatalogueEntries_def o out1_def Let_def)
  have d: "distinct (map ce_ID out1)" "list_all (\<lambda>e. 0 < ce_ID e \<and> ce_Access e = ''metadata'') out1"
    using ok by (auto simp: out1_def Let_def)
  have m: "mset (map f (sort_key ldd_order out1)) = mset (map f out1)" for f :: "TECCatalogueEntry \<Rightarrow> 'z" by simp
  have "distinct (map ce_ID (sort_key ldd_order out1))" using d(1) mset_eq_imp_distinct_iff [OF m] by blast
  moreover have "sorted (map ldd_order (sort_key ldd_order out1))" by simp
  moreover have "list_all (\<lambda>e. 0 < ce_ID e \<and> ce_Access e = ''metadata'') (sort_key ldd_order out1)"
    using d(2) by (simp add: list_all_iff)
  moreover have "let keys = mset_set (fst ` set (ls_Parameters L) \<union> fst ` set (ls_ParameterContexts L)) in
      mset (map ce_RawName (sort_key ldd_order out1)) \<in> {keys, keys + {#''FEATURE_KEY_STORE''#}}"
  proof -
    have "set (ldd130xCatalogueKeys L) = fst ` set (ls_Parameters L) \<union> fst ` set (ls_ParameterContexts L)"
      "distinct (ldd130xCatalogueKeys L)"
      by (simp_all add: ldd130xCatalogueKeys_def)
    then have "mset_set (fst ` set (ls_Parameters L) \<union> fst ` set (ls_ParameterContexts L)) = mset (ldd130xCatalogueKeys L)"
      using mset_set_set by metis
    moreover have "mset (ldd130xCatalogueKeys L) = image_mset ce_RawName (mset out)" using ok by (metis mset_map)
    ultimately show ?thesis unfolding m Let_def by (auto simp: out1_def Let_def)
  qed
  ultimately show ?thesis unfolding e by blast
qed

text \<open>
  The definition of the RMM-1182 has no catalogue of its own: asking for its entries returns the
  entries of the TEC controllers, among them every writable TEC parameter, while the DAQ and the plain
  LDD, which have none either, return nothing.
\<close>

theorem rmm_lists_tec_entries:
  "map_option (\<lambda>d. DefaultMeComCatalogueEntries C H L J d channels) (ResolveMeComCatalogueDefinition C system family ''rmm-1182'') \<in>
     {None, Some (DefaultTECCatalogueEntries C H J channels)} \<and>
   map_option (\<lambda>d. DefaultMeComCatalogueEntries C H L J d channels) (ResolveMeComCatalogueDefinition C [] [] ''rmm-1182'') =
     Some (DefaultTECCatalogueEntries C H J channels) \<and>
   map_option (\<lambda>d. DefaultMeComCatalogueEntries C H L J d channels) (ResolveMeComCatalogueDefinition C [] [] ''daq'') = Some [] \<and>
   map_option (\<lambda>d. DefaultMeComCatalogueEntries C H L J d channels) (ResolveMeComCatalogueDefinition C [] [] ''ldd'') = Some []"
proof -
  have t: "normalizeDefinitionToken ''rmm-1182'' = ''rmm_1182''" "normalizeDefinitionToken [] = []"
    "normalizeDefinitionToken ''daq'' = ''daq''" "normalizeDefinitionToken ''ldd'' = ''ldd''"
    by (simp_all add: normalizeDefinitionToken_def replace_char_def TrimSpace_def is_space_def ToLower_def to_lower_def)
  show ?thesis
    by (simp add: ResolveMeComCatalogueDefinition_def t or_else_def Let_def DefaultMeComCatalogueEntries_def normalized_def
        DefaultRMM1182CatalogueDefinition_def DefaultDAQCatalogueDefinition_def DefaultLDDCatalogueDefinition_def HasPrefix_def)
qed

end
