(* ===== verification/CatalogueRows.thy ===== *)
theory CatalogueRows
  imports CatalogueEntries
begin

text \<open>
  The source catalogue that \<open>mecom/catalogue.go\<close> builds for the graph library: one row per channel and
  parameter, measured or derived.  The row and catalogue types belong to \<open>signalforge/graphsem\<close>; the
  records here have the fields that the code fills, and its constants are arguments in \<open>graph_names\<close>.
\<close>

record MeComCatalogueConfig =
  mc_Definition :: MeComCatalogueDefinition
  mc_SourceID :: string
  mc_DisplayName :: string
  mc_ChannelCount :: int
  mc_SourceSubject :: string
  mc_ControllerAddress :: int
  mc_FixtureProvenance :: string

record MeComTECCatalogueConfig =
  mt_SourceID :: string
  mt_DisplayName :: string
  mt_ChannelCount :: int
  mt_SourceSubject :: string
  mt_ControllerAddress :: int
  mt_FixtureProvenance :: string

record SourceCatalogueRow =
  row_TraceID :: string
  row_RawName :: string
  row_DisplayName :: string
  row_Unit :: string
  row_ValueType :: string
  row_Access :: string
  row_GraphSource :: string
  row_GraphType :: string
  row_Category :: string
  row_Kind :: string
  row_Role :: string
  row_DefaultHint :: string
  row_SemanticStatus :: string
  row_SourceSubject :: string
  row_Metadata :: "string \<rightharpoonup> string"

record graph_names =
  gn_SchemaVersion :: string
  gn_CategoryPower :: string
  gn_KindContinuous :: string
  gn_RoleMonitor :: string
  gn_HintLine :: string

record SourceCatalogue =
  sc_SchemaVersion :: string
  sc_SourceID :: string
  sc_SourceFamily :: string
  sc_DisplayName :: string
  sc_Entries :: "SourceCatalogueRow list"
  sc_MaxSignals :: nat
  sc_LiveSubjects :: "string list"

definition addCatalogueTreePathMetadata ::
    "json_texts \<Rightarrow> TECCatalogueTreePath list \<Rightarrow> (string \<rightharpoonup> string) \<Rightarrow> string \<rightharpoonup> string" where
  "addCatalogueTreePathMetadata J paths metadata =
     (case paths of
        [] \<Rightarrow> metadata
      | p # _ \<Rightarrow>
          (let projection = the_default p (List.find tree_Default paths);
               path = catalogueTreePath (tree_Path projection)
           in (put_if (path \<noteq> []) ''ui_tree_path'' path \<circ>
               put_if (tree_ID projection \<noteq> []) ''ui_tree_projection'' (tree_ID projection) \<circ>
               put_if True ''ui_tree_paths'' (json_tree_paths J paths)) metadata))"

definition config_metadata :: "MeComCatalogueConfig \<Rightarrow> int \<Rightarrow> (string \<rightharpoonup> string) \<Rightarrow> string \<rightharpoonup> string" where
  "config_metadata cfg ch =
     put_if (mc_FixtureProvenance cfg \<noteq> []) ''dut_id'' (''OH'' @ fmtD ch) \<circ>
     put_if (mc_FixtureProvenance cfg \<noteq> []) ''fixture_provenance'' (mc_FixtureProvenance cfg) \<circ>
     put_if (0 < mc_ControllerAddress cfg) ''controller_address'' (fmtD (mc_ControllerAddress cfg))"

definition display_name :: "int \<Rightarrow> string \<Rightarrow> string" where
  "display_name ch display = ''Spot '' @ fmt02 ch @ '' / OH'' @ fmtD ch @ '' '' @ display"

definition raw_name :: "int \<Rightarrow> string \<Rightarrow> string" where
  "raw_name ch name = ''TEC_CH'' @ fmtD ch @ ''_'' @ name"

definition mecomTECDerivedRow ::
    "tecCatalogueJSON \<Rightarrow> json_texts \<Rightarrow> graph_names \<Rightarrow> MeComCatalogueConfig \<Rightarrow> MeComCatalogueDefinition \<Rightarrow> int \<Rightarrow>
     mecomTECDerivedParameter \<Rightarrow> SourceCatalogueRow" where
  "mecomTECDerivedRow C J G cfg d ch p =
     \<lparr>row_TraceID = TraceID C d ch (dp_Suffix p), row_RawName = raw_name ch (dp_RawName p),
      row_DisplayName = display_name ch (dp_Display p), row_Unit = ''W'', row_ValueType = ''float'', row_Access = ''subscribe'',
      row_GraphSource = ''nats_edge'', row_GraphType = ''line'', row_Category = gn_CategoryPower G, row_Kind = gn_KindContinuous G,
      row_Role = gn_RoleMonitor G, row_DefaultHint = gn_HintLine G, row_SemanticStatus = ''backend_semantic_mapping'',
      row_SourceSubject = mc_SourceSubject cfg,
      row_Metadata = (addCatalogueTreePathMetadata J (dp_effectiveTreePaths p) \<circ> config_metadata cfg ch \<circ>
        addMeComDefinitionMetadata C d)
        [''channel_index'' \<mapsto> fmtD ch, ''semantic_role'' \<mapsto> dp_SemanticRole p, ''physical_spot'' \<mapsto> ''spot_'' @ fmt02 ch,
         ''derived_signal'' \<mapsto> ''true'', ''mecom_instance'' \<mapsto> fmtD ch, ''source_parameters'' \<mapsto> dp_SourceParameters p,
         ''readout_priority'' \<mapsto> mecomReadoutPriorityHigh, ''preferred_readout'' \<mapsto> mecomDerivedReadout,
         ''source_readout'' \<mapsto> mecomRingReadout, ''ring_reduction'' \<mapsto> mecomRingReduction,
         ''consumer_rate_policy'' \<mapsto> ''publish_reduced_windows_at_requested_rate'',
         ''manual_poll_policy'' \<mapsto> ''source_parameters_enqueue_front_return_derived_when_polled'',
         ''single_read_policy'' \<mapsto> ''not_applicable_derived_from_measured_values'',
         ''channel_mode_policy'' \<mapsto> ''mode_aware_no_thermal_inference_for_power_supply'',
         ''calculation_boundary'' \<mapsto> ''edge_estimate_requires_channel_mode_and_optional_module_data'']\<rparr>"

definition mecomTECRow ::
    "tecCatalogueJSON \<Rightarrow> (string \<rightharpoonup> mecomTECHelpParameter) \<Rightarrow> json_texts \<Rightarrow> graph_names \<Rightarrow> MeComCatalogueConfig \<Rightarrow>
     MeComCatalogueDefinition \<Rightarrow> int \<Rightarrow> mecomTECParameter \<Rightarrow> SourceCatalogueRow" where
  "mecomTECRow C H J G cfg d ch p =
     (let high = (readoutPriority p = mecomReadoutPriorityHigh) in
      \<lparr>row_TraceID = TraceID C d ch (tp_Suffix p), row_RawName = raw_name ch (tp_RawName p),
       row_DisplayName = display_name ch (tp_Display p), row_Unit = tp_Unit p, row_ValueType = graphValueType p,
       row_Access = ''subscribe'', row_GraphSource = ''nats_edge'', row_GraphType = ''line'', row_Category = tp_Category p,
       row_Kind = gn_KindContinuous G, row_Role = tp_Role p, row_DefaultHint = gn_HintLine G,
       row_SemanticStatus = ''backend_semantic_mapping'', row_SourceSubject = mc_SourceSubject cfg,
       row_Metadata = (addCatalogueTreePathMetadata J (tp_effectiveTreePaths p) \<circ> config_metadata cfg ch \<circ>
         put_if (tp_Counterparts p \<noteq> []) ''counterparts'' (json_counterparts J (tp_Counterparts p)) \<circ>
         put_if (tp_Aliases p \<noteq> []) ''aliases'' (Join (tp_Aliases p) '','') \<circ>
         put_if (tp_PriorityComponent p \<noteq> []) ''drive_component'' (tp_PriorityComponent p) \<circ>
         put_if (tp_PriorityComponent p \<noteq> []) ''priority_group'' ''drive_telemetry'' \<circ>
         put_if True ''consumer_rate_policy'' (if high then ''publish_reduced_windows_at_requested_rate''
           else ''publish_latest_when_round_robin_queue_updates'') \<circ>
         put_if high ''ring_reduction'' mecomRingReduction \<circ>
         addTECHelpMetadata (tecHelpForParameter H p) \<circ> addMeComDefinitionMetadata C d)
         [''channel_index'' \<mapsto> fmtD ch, ''semantic_role'' \<mapsto> tp_SemanticRole p, ''physical_spot'' \<mapsto> ''spot_'' @ fmt02 ch,
          ''mecom_parameter_id'' \<mapsto> fmtD (tp_ID p), ''mecom_instance'' \<mapsto> fmtD ch,
          ''raw_numeric_fallback'' \<mapsto> ''param_'' @ fmtD (tp_ID p) @ ''.instance_'' @ fmtD ch,
          ''source_parameter_name'' \<mapsto> tp_SourceParameterName p, ''readout_priority'' \<mapsto> readoutPriority p,
          ''preferred_readout'' \<mapsto> effectivePreferredReadout p, ''background_readout'' \<mapsto> mecomBackgroundReadout,
          ''manual_poll_policy'' \<mapsto> ''enqueue_front_return_latest_when_polled'', ''single_read_policy'' \<mapsto> ''compatibility_only'']\<rparr>)"

definition BuildMeComCatalogue ::
    "tecCatalogueJSON \<Rightarrow> (string \<rightharpoonup> mecomTECHelpParameter) \<Rightarrow> json_texts \<Rightarrow> graph_names \<Rightarrow> MeComCatalogueConfig \<Rightarrow> SourceCatalogue" where
  "BuildMeComCatalogue C H J G cfg0 =
     (let d = normalized C (mc_Definition cfg0);
          cfg = cfg0\<lparr>mc_SourceID := or_else (mc_SourceID cfg0) (md_DefaultSourceID d),
                  mc_DisplayName := or_else (mc_DisplayName cfg0) (md_DisplayName d),
                  mc_ChannelCount := (if mc_ChannelCount cfg0 \<le> 0 then 8 else mc_ChannelCount cfg0)\<rparr>;
          entries = concat (map (\<lambda>ch. map (mecomTECRow C H J G cfg d ch) (md_readoutParameters d) @
                                     map (mecomTECDerivedRow C J G cfg d ch) (md_derivedParameters d))
                      (channel_numbers (mc_ChannelCount cfg)))
      in \<lparr>sc_SchemaVersion = gn_SchemaVersion G, sc_SourceID = mc_SourceID cfg, sc_SourceFamily = md_SourceFamily d,
          sc_DisplayName = mc_DisplayName cfg, sc_Entries = entries, sc_MaxSignals = length entries,
          sc_LiveSubjects = compactStrings [mc_SourceSubject cfg]\<rparr>)"

definition BuildMeComTECCatalogue ::
    "tecCatalogueJSON \<Rightarrow> (string \<rightharpoonup> mecomTECHelpParameter) \<Rightarrow> json_texts \<Rightarrow> graph_names \<Rightarrow> MeComTECCatalogueConfig \<Rightarrow> SourceCatalogue" where
  "BuildMeComTECCatalogue C H J G cfg =
     BuildMeComCatalogue C H J G
       \<lparr>mc_Definition = DefaultTECCatalogueDefinition C, mc_SourceID = mt_SourceID cfg, mc_DisplayName = mt_DisplayName cfg,
        mc_ChannelCount = mt_ChannelCount cfg, mc_SourceSubject = mt_SourceSubject cfg,
        mc_ControllerAddress = mt_ControllerAddress cfg, mc_FixtureProvenance = mt_FixtureProvenance cfg\<rparr>"

section \<open>Rows and signal names\<close>

lemma row_trace_ids [simp]:
  "row_TraceID (mecomTECRow C H J G cfg d ch p) = TraceID C d ch (tp_Suffix p)"
  "row_TraceID (mecomTECDerivedRow C J G cfg d ch q) = TraceID C d ch (dp_Suffix q)"
  by (simp_all add: mecomTECRow_def mecomTECDerivedRow_def Let_def)

lemma concat_map_append_mset:
  "mset (concat (map (\<lambda>x. f x @ g x) xs)) = mset (concat (map f xs)) + mset (concat (map g xs))"
  by (induction xs) auto

lemma trace_ids_of_rows:
  "map row_TraceID (sc_Entries (BuildMeComTECCatalogue C H J G cfg)) =
     concat (map (\<lambda>ch. map (\<lambda>p. DefaultTECTraceID C ch (tp_Suffix p)) (cat_ReadoutParameters C) @
                       map (\<lambda>p. DefaultTECTraceID C ch (dp_Suffix p)) (cat_DerivedParameters C))
       [1..(if mt_ChannelCount cfg \<le> 0 then 8 else mt_ChannelCount cfg)])"
  by (simp add: BuildMeComTECCatalogue_def BuildMeComCatalogue_def Let_def map_concat comp_def channel_numbers_def
      DefaultTECTraceID_def) (simp add: DefaultTECCatalogueDefinition_def)

lemma DefaultTECSignalNames_eq:
  "DefaultTECSignalNames C channels =
     concat (map (\<lambda>ch. map (\<lambda>p. DefaultTECTraceID C ch (tp_Suffix p)) (cat_ReadoutParameters C))
       [1..(if channels \<le> 0 then 8 else channels)]) @
     concat (map (\<lambda>ch. map (\<lambda>p. DefaultTECTraceID C ch (dp_Suffix p)) (cat_DerivedParameters C)) [1..channels])"
  by (simp add: DefaultTECSignalNames_def DefaultMeComSignalNames_def DefaultMeComReadoutParameters_def channel_numbers_def
      map_concat comp_def DefaultTECTraceID_def Let_def) (simp add: DefaultTECCatalogueDefinition_def)

text \<open>
  The catalogue of a bank and its list of signal names agree for a given number of channels: the same
  trace names, each as often.  When the number of channels is left at its default the catalogue has the
  rows of eight channels, and the list of names has their measured signals but none of the derived ones.
\<close>

theorem catalogue_rows_match_names:
  "mset (map row_TraceID (sc_Entries (BuildMeComTECCatalogue C H J G cfg))) =
     mset (DefaultTECSignalNames C (mt_ChannelCount cfg)) +
     (if mt_ChannelCount cfg \<le> 0
      then mset (concat (map (\<lambda>ch. map (\<lambda>p. DefaultTECTraceID C ch (dp_Suffix p)) (cat_DerivedParameters C)) [1..8]))
      else {#}) \<and>
   sc_MaxSignals (BuildMeComTECCatalogue C H J G cfg) = length (sc_Entries (BuildMeComTECCatalogue C H J G cfg))"
proof -
  have "sc_MaxSignals (BuildMeComTECCatalogue C H J G cfg) = length (sc_Entries (BuildMeComTECCatalogue C H J G cfg))"
    by (simp add: BuildMeComTECCatalogue_def BuildMeComCatalogue_def Let_def)
  moreover have "mset (map row_TraceID (sc_Entries (BuildMeComTECCatalogue C H J G cfg))) =
     mset (DefaultTECSignalNames C (mt_ChannelCount cfg)) +
     (if mt_ChannelCount cfg \<le> 0
      then mset (concat (map (\<lambda>ch. map (\<lambda>p. DefaultTECTraceID C ch (dp_Suffix p)) (cat_DerivedParameters C)) [1..8]))
      else {#})"
    unfolding trace_ids_of_rows DefaultTECSignalNames_eq concat_map_append_mset mset_append
    by (cases "mt_ChannelCount cfg \<le> 0") (simp_all only: if_True if_False, simp_all)
  ultimately show ?thesis by blast
qed

end
