(* ===== verification/CanMap.thy ===== *)
theory CanMap
  imports CatalogueEntries
begin

text \<open>
  The registry of the signals on a CAN bus (\<open>canmap/registry.go\<close>) and the patterns made of it
  (\<open>canmap/pattern.go\<close>).  A registry lists nodes by role and signals, each with a producer, its
  consumers and the layout of the payload.  \<open>Validate\<close> collects every structural problem; a
  problem is a value of \<open>map_problem\<close> with the data that the message is formatted from.  Go maps that
  are only asked for membership are sets, and the loop over \<open>byRole\<close> runs in the order of an
  association list, which stands for the order that Go leaves open.  What \<open>json.Unmarshal\<close> makes of a
  hexadecimal field is a value of \<open>json_scalar\<close>.
\<close>

section \<open>Data\<close>

definition SchemaVersion :: int where "SchemaVersion = 1"

record MapEntry =
  me_Index :: u16
  me_SubIndex :: byte
  me_Bits :: byte
  me_Comment :: string

record SDOWrite =
  sw_Index :: u16
  sw_SubIndex :: byte
  sw_Value :: u32
  sw_Comment :: string

record Node =
  nd_Role :: string
  nd_NodeID :: byte
  nd_Family :: string
  nd_Label :: string

record Producer =
  pr_Role :: string
  pr_TPDO :: int
  pr_Mapping :: "MapEntry list"

record Consumer =
  cn_Role :: string
  cn_RPDO :: int
  cn_Mapping :: "MapEntry list"
  cn_SourceSelects :: "SDOWrite list"

record Signal =
  sg_COBID :: u32
  sg_Name :: string
  sg_Description :: string
  sg_Producer :: Producer
  sg_Consumers :: "Consumer list"
  sg_RateMS :: int
  sg_SavedToFlash :: bool
  sg_Verified :: string

record CANRegistry =
  rg_SchemaVersion :: int
  rg_Name :: string
  rg_Description :: string
  rg_Nodes :: "Node list"
  rg_Signals :: "Signal list"

section \<open>Mapping entries and hexadecimal fields\<close>

definition Raw :: "MapEntry \<Rightarrow> u32" where
  "Raw m = push_bit 16 (ucast (me_Index m)) OR push_bit 8 (ucast (me_SubIndex m)) OR ucast (me_Bits m)"

definition DecodeMapEntry :: "u32 \<Rightarrow> MapEntry" where
  "DecodeMapEntry raw =
     \<lparr>me_Index = ucast (drop_bit 16 raw), me_SubIndex = ucast (drop_bit 8 raw), me_Bits = ucast raw, me_Comment = []\<rparr>"

datatype json_scalar = JText string | JUint u64 | JOther

datatype hex_field_error = HexTooWide u64 nat | HexInvalid string num_err | HexNotScalar

definition marshal16 :: "u16 \<Rightarrow> json_scalar" where
  "marshal16 h = JText (''0x'' @ fmtX 4 (uint h))"

definition marshal32 :: "u32 \<Rightarrow> json_scalar" where
  "marshal32 h = JText (''0x'' @ fmtX 0 (uint h))"

definition unmarshalHex :: "json_scalar \<Rightarrow> nat \<Rightarrow> hex_field_error + nat" where
  "unmarshalHex data bits =
     (case data of
        JText s0 \<Rightarrow>
          (let s = TrimPrefix (TrimSpace s0) ''0x'' in
           case ParseUint s bits of Inl e \<Rightarrow> Inl (HexInvalid s e) | Inr v \<Rightarrow> Inr v)
      | JUint n \<Rightarrow> if bits < 64 \<and> 2 ^ bits - 1 < unat n then Inl (HexTooWide n bits) else Inr (unat n)
      | JOther \<Rightarrow> Inl HexNotScalar)"

section \<open>Validation\<close>

datatype mapping_error = EmptyMapping | ZeroSlot nat | MappingTooLong nat

datatype map_problem =
    EmptyRole nat
  | DuplicateRole nat string
  | NodeIDRange nat string byte
  | NodeIDTwice byte string string
  | EmptyName nat
  | DuplicateName nat string
  | COBIDTwice nat string u32 string
  | ProducerRole nat string string
  | ProducerTPDO nat string
  | ProducerMapping nat string mapping_error
  | ConsumerRole nat string nat string
  | ConsumerRPDO nat string nat
  | ConsumerMapping nat string nat mapping_error
  | SlotLengths nat string nat "byte list" "byte list"

definition bitsOf :: "MapEntry list \<Rightarrow> byte list" where
  "bitsOf entries = map me_Bits entries"

fun zero_slot :: "nat \<Rightarrow> MapEntry list \<Rightarrow> nat option" where
  "zero_slot i [] = None"
| "zero_slot i (e # es) = (if me_Bits e = 0 then Some (i + 1) else zero_slot (i + 1) es)"

definition mappingBits :: "MapEntry list \<Rightarrow> mapping_error + byte list" where
  "mappingBits entries =
     (if entries = [] then Inl EmptyMapping
      else case zero_slot 0 entries of
             Some i \<Rightarrow> Inl (ZeroSlot i)
           | None \<Rightarrow>
               (let total = sum_list (map (\<lambda>e. unat (me_Bits e)) entries)
                in if 64 < total then Inl (MappingTooLong total) else Inr (bitsOf entries)))"

definition slotLengthsMatch :: "MapEntry list \<Rightarrow> MapEntry list \<Rightarrow> bool" where
  "slotLengthsMatch a b = (length a = length b \<and> list_all (\<lambda>i. me_Bits (a ! i) = me_Bits (b ! i)) [0..<length a])"

fun node_problems :: "nat \<Rightarrow> string set \<Rightarrow> Node list \<Rightarrow> map_problem list \<times> string set" where
  "node_problems i roles [] = ([], roles)"
| "node_problems i roles (n # ns) =
     (if nd_Role n = [] then (case node_problems (i + 1) roles ns of (es, rs) \<Rightarrow> (EmptyRole i # es, rs))
      else
        (case node_problems (i + 1) (insert (nd_Role n) roles) ns of
           (es, rs) \<Rightarrow>
             ((if nd_Role n \<in> roles then [DuplicateRole i (nd_Role n)] else []) @
              (if 127 < nd_NodeID n then [NodeIDRange i (nd_Role n) (nd_NodeID n)] else []) @ es, rs)))"

fun id_problems :: "(byte \<rightharpoonup> string) \<Rightarrow> Node list \<Rightarrow> map_problem list" where
  "id_problems ids [] = []"
| "id_problems ids (n # ns) =
     (if nd_NodeID n = 0 then id_problems ids ns
      else (case ids (nd_NodeID n) of None \<Rightarrow> [] | Some prev \<Rightarrow> [NodeIDTwice (nd_NodeID n) prev (nd_Role n)]) @
           id_problems (ids(nd_NodeID n \<mapsto> nd_Role n)) ns)"

definition consumer_problems :: "string set \<Rightarrow> nat \<Rightarrow> Signal \<Rightarrow> nat \<times> Consumer \<Rightarrow> map_problem list" where
  "consumer_problems roles i sig jc =
     (let j = fst jc; c = snd jc; name = sg_Name sig; mapping = pr_Mapping (sg_Producer sig) in
      (if cn_Role c \<in> roles then [] else [ConsumerRole i name j (cn_Role c)]) @
      (if cn_RPDO c < 1 then [ConsumerRPDO i name j] else []) @
      (case mappingBits (cn_Mapping c) of
         Inl e \<Rightarrow> [ConsumerMapping i name j e]
       | Inr _ \<Rightarrow>
           if \<not> isl (mappingBits mapping) \<and> \<not> slotLengthsMatch mapping (cn_Mapping c)
           then [SlotLengths i name j (bitsOf (cn_Mapping c)) (bitsOf mapping)] else []))"

fun signal_problems :: "string set \<Rightarrow> (u32 \<rightharpoonup> string) \<Rightarrow> string set \<Rightarrow> nat \<Rightarrow> Signal list \<Rightarrow> map_problem list" where
  "signal_problems roles cobIDs names i [] = []"
| "signal_problems roles cobIDs names i (sig # sigs) =
     (let name = sg_Name sig; producer = sg_Producer sig in
      (if name = [] then [EmptyName i] else if name \<in> names then [DuplicateName i name] else []) @
      (case cobIDs (sg_COBID sig) of None \<Rightarrow> [] | Some prev \<Rightarrow> [COBIDTwice i name (sg_COBID sig) prev]) @
      (if pr_Role producer \<in> roles then [] else [ProducerRole i name (pr_Role producer)]) @
      (if pr_TPDO producer < 1 then [ProducerTPDO i name] else []) @
      (case mappingBits (pr_Mapping producer) of Inl e \<Rightarrow> [ProducerMapping i name e] | Inr _ \<Rightarrow> []) @
      concat (map (consumer_problems roles i sig) (enumerate 0 (sg_Consumers sig))) @
      signal_problems roles (cobIDs(sg_COBID sig \<mapsto> name)) (insert name names) (i + 1) sigs)"

definition Registry_Validate :: "CANRegistry \<Rightarrow> map_problem list" where
  "Registry_Validate r =
     (case node_problems 0 {} (rg_Nodes r) of
        (es, roles) \<Rightarrow> es @ id_problems Map.empty (rg_Nodes r) @ signal_problems roles Map.empty {} 0 (rg_Signals r))"

datatype registry_error = UnsupportedSchema int | InvalidRegistry "map_problem list"

text \<open>\<open>ParseRegistry\<close> after \<open>json.Unmarshal\<close>.\<close>

definition ParseRegistry :: "CANRegistry \<Rightarrow> registry_error + CANRegistry" where
  "ParseRegistry r =
     (if rg_SchemaVersion r \<noteq> SchemaVersion then Inl (UnsupportedSchema (rg_SchemaVersion r))
      else if Registry_Validate r \<noteq> [] then Inl (InvalidRegistry (Registry_Validate r)) else Inr r)"

definition NodeByRole :: "CANRegistry \<Rightarrow> string \<Rightarrow> Node option" where
  "NodeByRole r role = List.find (\<lambda>n. nd_Role n = role) (rg_Nodes r)"

definition IsPattern :: "CANRegistry \<Rightarrow> bool" where
  "IsPattern r = (list_all (\<lambda>n. nd_NodeID n = 0) (rg_Nodes r) \<and> rg_Nodes r \<noteq> [])"

section \<open>Patterns\<close>

definition unbound_node :: "Node \<Rightarrow> Node" where
  "unbound_node n = n\<lparr>nd_NodeID := 0, nd_Label := []\<rparr>"

definition unverified :: "Signal \<Rightarrow> Signal" where
  "unverified s = s\<lparr>sg_Verified := [], sg_SavedToFlash := False\<rparr>"

definition ExportPattern :: "CANRegistry \<Rightarrow> CANRegistry" where
  "ExportPattern r = r\<lparr>rg_Nodes := map unbound_node (rg_Nodes r), rg_Signals := map unverified (rg_Signals r)\<rparr>"

record Binding =
  bd_Role :: string
  bd_NodeID :: byte
  bd_Label :: string

datatype instantiate_error =
    BindingRange string byte
  | DuplicateBinding string
  | BoundTwice byte string string
  | UnboundRoles "string list"
  | UnknownRoles "string list"
  | InstantiatedInvalid "map_problem list"

fun bind_roles :: "(string \<times> Binding) list \<Rightarrow> Binding list \<Rightarrow> instantiate_error + (string \<times> Binding) list" where
  "bind_roles byRole [] = Inr byRole"
| "bind_roles byRole (b # bs) =
     (if bd_NodeID b = 0 \<or> 127 < bd_NodeID b then Inl (BindingRange (bd_Role b) (bd_NodeID b))
      else if map_of byRole (bd_Role b) \<noteq> None then Inl (DuplicateBinding (bd_Role b))
      else bind_roles (amap_put (bd_Role b) b byRole) bs)"

fun unique_nodes :: "(byte \<rightharpoonup> string) \<Rightarrow> (string \<times> Binding) list \<Rightarrow> instantiate_error + unit" where
  "unique_nodes seen [] = Inr ()"
| "unique_nodes seen ((role, b) # bs) =
     (case seen (bd_NodeID b) of
        Some prev \<Rightarrow> Inl (BoundTwice (bd_NodeID b) prev role)
      | None \<Rightarrow> unique_nodes (seen(bd_NodeID b \<mapsto> role)) bs)"

fun bind_nodes :: "(string \<times> Binding) list \<Rightarrow> Node list \<Rightarrow> Node list \<times> string list \<times> (string \<times> Binding) list" where
  "bind_nodes byRole [] = ([], [], byRole)"
| "bind_nodes byRole (n # ns) =
     (case map_of byRole (nd_Role n) of
        None \<Rightarrow> (case bind_nodes byRole ns of (nodes, missing, rest) \<Rightarrow> (n # nodes, nd_Role n # missing, rest))
      | Some b \<Rightarrow>
          (case bind_nodes (amap_delete (nd_Role n) byRole) ns of
             (nodes, missing, rest) \<Rightarrow> (n\<lparr>nd_NodeID := bd_NodeID b, nd_Label := bd_Label b\<rparr> # nodes, missing, rest)))"

definition Instantiate :: "CANRegistry \<Rightarrow> string \<Rightarrow> Binding list \<Rightarrow> instantiate_error + CANRegistry" where
  "Instantiate pattern name bindings =
     res_bind (bind_roles [] bindings) (\<lambda>byRole.
     res_bind (unique_nodes Map.empty byRole) (\<lambda>_.
       case bind_nodes byRole (rg_Nodes pattern) of
         (nodes, missing, rest) \<Rightarrow>
           if missing \<noteq> [] then Inl (UnboundRoles (sort missing))
           else if rest \<noteq> [] then Inl (UnknownRoles (sort (map fst rest)))
           else let out = pattern\<lparr>rg_Name := or_else name (rg_Name pattern), rg_Nodes := nodes\<rparr>
                in if Registry_Validate out \<noteq> [] then Inl (InstantiatedInvalid (Registry_Validate out)) else Inr out))"

section \<open>What a sound registry is\<close>

definition mapping_ok :: "MapEntry list \<Rightarrow> bool" where
  "mapping_ok entries = (entries \<noteq> [] \<and> list_all (\<lambda>e. me_Bits e \<noteq> 0) entries \<and> sum_list (map (\<lambda>e. unat (me_Bits e)) entries) \<le> 64)"

definition consumer_ok :: "string set \<Rightarrow> Signal \<Rightarrow> Consumer \<Rightarrow> bool" where
  "consumer_ok roles sig c =
     (cn_Role c \<in> roles \<and> 1 \<le> cn_RPDO c \<and> mapping_ok (cn_Mapping c) \<and> bitsOf (cn_Mapping c) = bitsOf (pr_Mapping (sg_Producer sig)))"

definition signal_ok :: "string set \<Rightarrow> Signal \<Rightarrow> bool" where
  "signal_ok roles sig =
     (pr_Role (sg_Producer sig) \<in> roles \<and> 1 \<le> pr_TPDO (sg_Producer sig) \<and> mapping_ok (pr_Mapping (sg_Producer sig)) \<and>
      list_all (consumer_ok roles sig) (sg_Consumers sig))"

definition bound_ids :: "Node list \<Rightarrow> byte list" where
  "bound_ids ns = filter (\<lambda>x. x \<noteq> 0) (map nd_NodeID ns)"

definition nodes_ok :: "Node list \<Rightarrow> bool" where
  "nodes_ok ns = ([] \<notin> set (map nd_Role ns) \<and> distinct (map nd_Role ns) \<and> list_all (\<lambda>n. nd_NodeID n \<le> 127) ns \<and> distinct (bound_ids ns))"

definition registry_ok :: "CANRegistry \<Rightarrow> bool" where
  "registry_ok r =
     (nodes_ok (rg_Nodes r) \<and> [] \<notin> set (map sg_Name (rg_Signals r)) \<and> distinct (map sg_Name (rg_Signals r)) \<and>
      distinct (map sg_COBID (rg_Signals r)) \<and> list_all (signal_ok (set (map nd_Role (rg_Nodes r)))) (rg_Signals r))"

lemma zero_slot_None: "zero_slot i es = None \<longleftrightarrow> list_all (\<lambda>e. me_Bits e \<noteq> 0) es"
  by (induction i es rule: zero_slot.induct) auto

lemma mappingBits_ok: "(mappingBits ms = Inr bs) \<longleftrightarrow> mapping_ok ms \<and> bs = bitsOf ms"
  using zero_slot_None [of 0 ms] by (cases "zero_slot 0 ms") (auto simp: mappingBits_def mapping_ok_def Let_def)

lemma mappingBits_isl: "isl (mappingBits ms) \<longleftrightarrow> \<not> mapping_ok ms"
  using mappingBits_ok [of ms] by (cases "mappingBits ms") auto

lemma slotLengthsMatch_iff: "slotLengthsMatch a b \<longleftrightarrow> bitsOf a = bitsOf b"
  unfolding slotLengthsMatch_def bitsOf_def list_all_iff list_eq_iff_nth_eq length_map by (simp add: Ball_def conj_commute cong: conj_cong)

lemma node_problems_roles: "snd (node_problems i R ns) = R \<union> {x \<in> set (map nd_Role ns). x \<noteq> []}"
  by (induction i R ns rule: node_problems.induct) (auto split: prod.splits)

lemma node_problems_ok:
  "fst (node_problems i R ns) = [] \<longleftrightarrow>
     [] \<notin> set (map nd_Role ns) \<and> distinct (map nd_Role ns) \<and> set (map nd_Role ns) \<inter> R = {} \<and> list_all (\<lambda>n. nd_NodeID n \<le> 127) ns"
  by (induction i R ns rule: node_problems.induct) (auto split: prod.splits)

lemma id_problems_ok: "id_problems m ns = [] \<longleftrightarrow> distinct (bound_ids ns) \<and> set (bound_ids ns) \<inter> dom m = {}"
  unfolding bound_ids_def
proof (induction ns arbitrary: m)
  case (Cons n ns)
  show ?case
  proof (cases "nd_NodeID n = 0")
    case True
    then show ?thesis using Cons.IH by simp
  next
    case False
    show ?thesis
    proof (cases "m (nd_NodeID n)")
      case None
      then have "nd_NodeID n \<notin> dom m" by (simp add: domIff)
      moreover define m' where "m' = m(nd_NodeID n \<mapsto> nd_Role n)"
      moreover have "dom m' = insert (nd_NodeID n) (dom m)" by (simp add: m'_def)
      moreover note Cons.IH [of m']
      ultimately show ?thesis using False None by (simp flip: m'_def add: conj_ac)
    next
      case (Some x)
      then show ?thesis using False by (auto simp: domIff)
    qed
  qed
qed simp

lemma mapping_problem: "(case mappingBits ms of Inl e \<Rightarrow> [f e] | Inr _ \<Rightarrow> xs) = [] \<longleftrightarrow> mapping_ok ms \<and> xs = []"
  using mappingBits_isl [of ms] by (cases "mappingBits ms") auto

lemma consumer_problems_ok:
  "mapping_ok (pr_Mapping (sg_Producer sig)) \<Longrightarrow> consumer_problems roles i sig jc = [] \<longleftrightarrow> consumer_ok roles sig (snd jc)"
  by (auto simp: consumer_problems_def consumer_ok_def Let_def mapping_problem mappingBits_isl slotLengthsMatch_iff)

lemma consumers_problems_ok:
  assumes "mapping_ok (pr_Mapping (sg_Producer sig))"
  shows "concat (map (consumer_problems roles i sig) (enumerate k cs)) = [] \<longleftrightarrow> list_all (consumer_ok roles sig) cs"
  by (induction cs arbitrary: k) (auto simp: consumer_problems_ok [OF assms])

lemma signal_problems_ok:
  "signal_problems roles cobs names i sigs = [] \<longleftrightarrow>
     [] \<notin> set (map sg_Name sigs) \<and> distinct (map sg_Name sigs) \<and> set (map sg_Name sigs) \<inter> names = {} \<and>
     distinct (map sg_COBID sigs) \<and> set (map sg_COBID sigs) \<inter> dom cobs = {} \<and> list_all (signal_ok roles) sigs"
proof (induction sigs arbitrary: cobs names i)
  case (Cons sig sigs)
  show ?case
  proof (cases "mapping_ok (pr_Mapping (sg_Producer sig))")
    case True
    have c: "(case cobs (sg_COBID sig) of None \<Rightarrow> [] | Some prev \<Rightarrow> [f prev]) = [] \<longleftrightarrow> sg_COBID sig \<notin> dom cobs"
      for f :: "string \<Rightarrow> map_problem" by (cases "cobs (sg_COBID sig)") (simp_all add: domIff)
    have n: "(if sg_Name sig = [] then [f] else if sg_Name sig \<in> names then [g] else []) = [] \<longleftrightarrow> sg_Name sig \<noteq> [] \<and> sg_Name sig \<notin> names"
      for f g :: map_problem by simp
    have o: "(if P then [] else [f]) = [] \<longleftrightarrow> P" "(if P then [f] else []) = [] \<longleftrightarrow> \<not> P" for P and f :: map_problem by simp_all
    show ?thesis
      unfolding signal_problems.simps Let_def append_is_Nil_conv Cons.IH consumers_problems_ok [OF True] c n o mapping_problem
      by (simp add: signal_ok_def [of roles sig] True not_less eq_commute [of "[]"] conj_ac)
  next
    case False
    then show ?thesis by (auto simp: Let_def signal_ok_def mapping_problem)
  qed
qed simp

lemma Registry_Validate_iff: "Registry_Validate r = [] \<longleftrightarrow> registry_ok r"
proof -
  obtain es roles where np: "node_problems 0 {} (rg_Nodes r) = (es, roles)" by fastforce
  have "roles = set (map nd_Role (rg_Nodes r))" if "[] \<notin> set (map nd_Role (rg_Nodes r))"
    using that node_problems_roles [of 0 "{}" "rg_Nodes r"] by (simp add: np set_eq_iff) metis
  then show ?thesis
    using node_problems_ok [of 0 "{}" "rg_Nodes r"]
    by (auto simp: Registry_Validate_def np registry_ok_def nodes_ok_def id_problems_ok signal_problems_ok)
qed

text \<open>
  A registry validates exactly when it is sound: roles are named, distinct and bound to distinct node
  identifiers up to 127, signals have distinct names and distinct COB-IDs, every role a signal
  mentions exists, PDO numbers start at one, every mapping is a non-empty list of non-empty slots
  within 64 bits, and every consumer mirrors its producer slot by slot.
\<close>

theorem registry_validates_exactly: "Registry_Validate r = [] \<longleftrightarrow> registry_ok r"
  by (rule Registry_Validate_iff)

section \<open>Mapping entries\<close>

lemma DecodeMapEntry_Raw: "DecodeMapEntry (Raw m) = m\<lparr>me_Comment := []\<rparr>"
proof -
  have "ucast (drop_bit 16 (Raw m)) = me_Index m" "ucast (drop_bit 8 (Raw m)) = me_SubIndex m" "ucast (Raw m) = me_Bits m"
    by (simp_all add: Raw_def bit_eq_iff) (auto simp: bit_simps dest: bit_imp_le_length)
  then show ?thesis by (simp add: DecodeMapEntry_def)
qed

lemma Raw_DecodeMapEntry: "Raw (DecodeMapEntry x) = x"
proof (rule bit_word_eqI)
  fix n assume "n < LENGTH(32)"
  then show "bit (Raw (DecodeMapEntry x)) n \<longleftrightarrow> bit x n" by (cases "n < 8"; cases "n < 16") (auto simp: Raw_def DecodeMapEntry_def bit_simps)
qed

lemma Raw_eq_iff: "Raw a = Raw b \<longleftrightarrow> a\<lparr>me_Comment := []\<rparr> = b\<lparr>me_Comment := []\<rparr>"
proof
  assume "Raw a = Raw b"
  then show "a\<lparr>me_Comment := []\<rparr> = b\<lparr>me_Comment := []\<rparr>" using DecodeMapEntry_Raw by metis
next
  assume "a\<lparr>me_Comment := []\<rparr> = b\<lparr>me_Comment := []\<rparr>"
  then show "Raw a = Raw b" using Raw_DecodeMapEntry DecodeMapEntry_Raw by metis
qed

section \<open>Instantiation\<close>

definition binding_of :: "Node \<Rightarrow> Binding" where
  "binding_of n = \<lparr>bd_Role = nd_Role n, bd_NodeID = nd_NodeID n, bd_Label = nd_Label n\<rparr>"

definition bind_node :: "(string \<times> Binding) list \<Rightarrow> Node \<Rightarrow> Node" where
  "bind_node byRole n =
     (case map_of byRole (nd_Role n) of None \<Rightarrow> n | Some b \<Rightarrow> n\<lparr>nd_NodeID := bd_NodeID b, nd_Label := bd_Label b\<rparr>)"

lemma bind_roles_iff:
  "distinct (map fst m) \<Longrightarrow> (bind_roles m bs = Inr m') \<longleftrightarrow>
     m' = rev (map (\<lambda>b. (bd_Role b, b)) bs) @ m \<and> list_all (\<lambda>b. bd_NodeID b \<noteq> 0 \<and> bd_NodeID b \<le> 127) bs \<and>
     distinct (map bd_Role bs) \<and> set (map bd_Role bs) \<inter> fst ` set m = {}"
proof (induction m bs rule: bind_roles.induct)
  case (2 m b bs)
  have put: "amap_put (bd_Role b) b m = (bd_Role b, b) # m" if "bd_Role b \<notin> fst ` set m"
    using that unfolding amap_put_def by (simp, intro filter_True) (metis image_eqI)
  have "distinct (map fst (amap_put (bd_Role b) b m))" using "2.prems" by blast
  note IH = "2.IH" [OF _ _ this]
  show ?case
    using IH by (auto simp: map_of_eq_None_iff put not_le not_less)
qed auto

lemma unique_nodes_iff:
  "(unique_nodes seen m = Inr ()) \<longleftrightarrow> distinct (map (bd_NodeID \<circ> snd) m) \<and> set (map (bd_NodeID \<circ> snd) m) \<inter> dom seen = {}"
proof (induction m arbitrary: seen)
  case (Cons e bs)
  obtain role b where e: "e = (role, b)" by (cases e)
  show ?case
  proof (cases "seen (bd_NodeID b)")
    case None
    then have "bd_NodeID b \<notin> dom seen" by (simp add: domIff)
    moreover define seen' where "seen' = seen(bd_NodeID b \<mapsto> role)"
    moreover have "dom seen' = insert (bd_NodeID b) (dom seen)" by (simp add: seen'_def)
    moreover note Cons.IH [of seen']
    ultimately show ?thesis using None by (simp flip: seen'_def add: e conj_ac)
  next
    case (Some x)
    then show ?thesis by (auto simp: e domIff)
  qed
qed simp

lemma bind_nodes_eq:
  "distinct (map nd_Role ns) \<Longrightarrow>
     bind_nodes m ns = (map (bind_node m) ns, filter (\<lambda>x. map_of m x = None) (map nd_Role ns), filter (\<lambda>e. fst e \<notin> nd_Role ` set ns) m)"
proof (induction m ns rule: bind_nodes.induct)
  case (2 m n ns)
  then have d: "distinct (map nd_Role ns)" "nd_Role n \<notin> nd_Role ` set ns" by auto
  show ?case
  proof (cases "map_of m (nd_Role n)")
    case None
    have "filter (\<lambda>e. fst e \<notin> nd_Role ` set ns) m = filter (\<lambda>e. fst e \<notin> nd_Role ` set (n # ns)) m"
      using None unfolding map_of_eq_None_iff by (intro filter_cong refl) (metis image_eqI insert_iff image_insert list.simps(15))
    then show ?thesis using None "2.IH"(1) [OF None d(1)] by (simp add: bind_node_def)
  next
    case (Some b)
    have "map (bind_node (amap_delete (nd_Role n) m)) ns = map (bind_node m) ns"
    proof (intro map_cong refl)
      fix x assume "x \<in> set ns"
      then have "nd_Role x \<noteq> nd_Role n" using d(2) by (metis image_eqI)
      then show "bind_node (amap_delete (nd_Role n) m) x = bind_node m x" by (simp add: bind_node_def)
    qed
    moreover have "filter (\<lambda>x. map_of (amap_delete (nd_Role n) m) x = None) (map nd_Role ns) = filter (\<lambda>x. map_of m x = None) (map nd_Role ns)"
    proof (intro filter_cong refl)
      fix x assume "x \<in> set (map nd_Role ns)"
      then have "x \<noteq> nd_Role n" using d(2) by (metis list.set_map)
      then show "map_of (amap_delete (nd_Role n) m) x = None \<longleftrightarrow> map_of m x = None" by simp
    qed
    moreover have "filter (\<lambda>e. fst e \<notin> nd_Role ` set ns) (amap_delete (nd_Role n) m) = filter (\<lambda>e. fst e \<notin> nd_Role ` set (n # ns)) m"
      by (auto simp: amap_delete_def intro: filter_cong)
    ultimately show ?thesis using Some "2.IH"(2) [OF Some d(1)] by (simp add: bind_node_def)
  qed
qed simp

lemma bind_nodes_roles: "bind_nodes m ns = (nodes, [], rest) \<Longrightarrow> distinct (map nd_Role ns) \<and> nd_Role ` set ns \<subseteq> dom (map_of m)"
proof (induction m ns arbitrary: nodes rule: bind_nodes.induct)
  case (2 m n ns)
  then obtain b nodes' where b: "map_of m (nd_Role n) = Some b" "bind_nodes (amap_delete (nd_Role n) m) ns = (nodes', [], rest)"
    by (auto split: option.splits prod.splits)
  have "dom (map_of (amap_delete (nd_Role n) m)) = dom (map_of m) - {nd_Role n}" by simp
  with "2.IH"(2) [OF b] have "distinct (map nd_Role ns)" "nd_Role ` set ns \<subseteq> dom (map_of m) - {nd_Role n}" by metis+
  then show ?case using b(1) by (simp add: domIff) blast
qed simp

lemma role_bindings:
  "map_of (rev (map (\<lambda>b. (bd_Role b, b)) bs)) x = Some b \<Longrightarrow> b \<in> set bs \<and> bd_Role b = x"
  "distinct (map bd_Role bs) \<Longrightarrow> b \<in> set bs \<Longrightarrow> map_of (rev (map (\<lambda>b. (bd_Role b, b)) bs)) (bd_Role b) = Some b"
proof -
  assume "distinct (map bd_Role bs)" "b \<in> set bs"
  then show "map_of (rev (map (\<lambda>b. (bd_Role b, b)) bs)) (bd_Role b) = Some b"
    by (intro map_of_is_SomeI) (simp_all add: rev_map [symmetric] comp_def)
qed (auto dest!: map_of_SomeD)

lemma unbound_fields: "unbound_node a = unbound_node b \<Longrightarrow> nd_Role a = nd_Role b" "unbound_node a = unbound_node b \<Longrightarrow> nd_Family a = nd_Family b"
proof -
  have "nd_Role (unbound_node x) = nd_Role x" "nd_Family (unbound_node x) = nd_Family x" for x by (simp_all add: unbound_node_def)
  then show "unbound_node a = unbound_node b \<Longrightarrow> nd_Role a = nd_Role b" "unbound_node a = unbound_node b \<Longrightarrow> nd_Family a = nd_Family b"
    by metis+
qed

text \<open>The conditions under which the loops of \<open>Instantiate\<close> succeed, in terms of the nodes that come out.\<close>

lemma bind_nodes_exact:
  assumes bs: "distinct (map bd_Role bs)"
  defines "m \<equiv> rev (map (\<lambda>b. (bd_Role b, b)) bs)"
  shows "bind_nodes m ns = (nodes, [], []) \<longleftrightarrow>
    map unbound_node nodes = map unbound_node ns \<and> distinct (map nd_Role ns) \<and> mset bs = mset (map binding_of nodes)"
proof
  assume b: "bind_nodes m ns = (nodes, [], [])"
  then have d: "distinct (map nd_Role ns)" and sub: "nd_Role ` set ns \<subseteq> dom (map_of m)" by (auto dest: bind_nodes_roles)
  have nodes: "nodes = map (bind_node m) ns" and rest: "filter (\<lambda>e. fst e \<notin> nd_Role ` set ns) m = []"
    using b bind_nodes_eq [OF d, of m] by simp_all
  have bound: "unbound_node (bind_node m n) = unbound_node n \<and> binding_of (bind_node m n) \<in> set bs" if n: "n \<in> set ns" for n
  proof -
    from sub n obtain b where b: "map_of m (nd_Role n) = Some b" by (metis domD image_eqI subsetD)
    then have bb: "b \<in> set bs" "bd_Role b = nd_Role n" unfolding m_def by (auto dest: role_bindings(1))
    have "binding_of (bind_node m n) = b" using b bb(2) by (intro Binding.equality) (simp_all add: bind_node_def binding_of_def)
    then show ?thesis using b bb(1) by (simp add: bind_node_def unbound_node_def)
  qed
  have roles: "map (bd_Role \<circ> binding_of) nodes = map nd_Role ns"
    by (simp add: nodes binding_of_def bind_node_def split: option.splits)
  have "set (map binding_of nodes) = set bs"
  proof
    show "set (map binding_of nodes) \<subseteq> set bs" using bound by (auto simp: nodes)
    show "set bs \<subseteq> set (map binding_of nodes)"
    proof
      fix b assume b: "b \<in> set bs"
      then have "(bd_Role b, b) \<in> set m" by (simp add: m_def)
      with rest have "bd_Role b \<in> nd_Role ` set ns" by (auto simp: filter_empty_conv)
      then obtain n where n: "n \<in> set ns" "nd_Role n = bd_Role b" by auto
      with role_bindings(2) [OF bs b] have "binding_of (bind_node m n) = b"
        by (simp add: bind_node_def binding_of_def m_def)
      with n(1) show "b \<in> set (map binding_of nodes)" by (auto simp: nodes)
    qed
  qed
  moreover have "distinct (map binding_of nodes)" using roles d by (metis distinct_map map_map)
  moreover have "distinct bs" using bs by (simp add: distinct_map)
  ultimately have "mset bs = mset (map binding_of nodes)" by (metis set_eq_iff_mset_eq_distinct)
  moreover have "map unbound_node nodes = map unbound_node ns" using bound by (simp add: nodes)
  ultimately show "map unbound_node nodes = map unbound_node ns \<and> distinct (map nd_Role ns) \<and> mset bs = mset (map binding_of nodes)"
    using d by blast
next
  assume a: "map unbound_node nodes = map unbound_node ns \<and> distinct (map nd_Role ns) \<and> mset bs = mset (map binding_of nodes)"
  then have d: "distinct (map nd_Role ns)" and len: "length nodes = length ns" by (auto dest: map_eq_imp_length_eq)
  have eq: "unbound_node (nodes ! i) = unbound_node (ns ! i)" if "i < length ns" for i
    using a that len by (metis nth_map)
  have in_bs: "set bs = binding_of ` set nodes" using a by (metis list.set_map set_mset_mset)
  have at: "bind_node m (ns ! i) = nodes ! i \<and> map_of m (nd_Role (ns ! i)) \<noteq> None" if i: "i < length ns" for i
  proof -
    have "binding_of (nodes ! i) \<in> set bs" using i len in_bs by simp
    from role_bindings(2) [OF bs this] have "map_of m (nd_Role (nodes ! i)) = Some (binding_of (nodes ! i))"
      by (simp add: m_def binding_of_def)
    moreover have "nd_Role (nodes ! i) = nd_Role (ns ! i)" "nd_Family (nodes ! i) = nd_Family (ns ! i)"
      by (rule unbound_fields [OF eq [OF i]])+
    ultimately have "map_of m (nd_Role (ns ! i)) = Some (binding_of (nodes ! i))"
      "(ns ! i)\<lparr>nd_NodeID := nd_NodeID (nodes ! i), nd_Label := nd_Label (nodes ! i)\<rparr> = nodes ! i"
      by (simp, intro Node.equality) simp_all
    then show ?thesis by (simp add: bind_node_def) (simp add: binding_of_def)
  qed
  have "map (bind_node m) ns = nodes" using at len by (intro nth_equalityI) simp_all
  moreover have "filter (\<lambda>x. map_of m x = None) (map nd_Role ns) = []"
    using at by (auto simp: filter_empty_conv in_set_conv_nth)
  moreover have "filter (\<lambda>e. fst e \<notin> nd_Role ` set ns) m = []"
  proof -
    have "bd_Role b \<in> nd_Role ` set ns" if "b \<in> set bs" for b
    proof -
      from that in_bs obtain i where i: "i < length nodes" "b = binding_of (nodes ! i)" by (auto simp: in_set_conv_nth)
      then have "bd_Role b = nd_Role (ns ! i)" using unbound_fields(1) [OF eq [of i]] len by (simp add: binding_of_def)
      then show ?thesis using i(1) len by simp
    qed
    then show ?thesis by (auto simp: m_def filter_empty_conv)
  qed
  ultimately show "bind_nodes m ns = (nodes, [], [])" using bind_nodes_eq [OF d, of m] by simp
qed

lemma unbound_roles: "map unbound_node xs = map unbound_node ys \<Longrightarrow> map nd_Role xs = map nd_Role ys"
proof -
  assume "map unbound_node xs = map unbound_node ys"
  then have "map (nd_Role \<circ> unbound_node) xs = map (nd_Role \<circ> unbound_node) ys" by (metis map_map)
  then show ?thesis by (simp add: comp_def unbound_node_def)
qed

lemma bound_ids_all: "list_all (\<lambda>n. nd_NodeID n \<noteq> 0) ns \<Longrightarrow> bound_ids ns = map nd_NodeID ns"
  unfolding bound_ids_def list_all_iff by (intro filter_True) auto

definition instance_of :: "CANRegistry \<Rightarrow> string \<Rightarrow> Binding list \<Rightarrow> CANRegistry \<Rightarrow> bool" where
  "instance_of pattern name bindings r =
     (registry_ok r \<and> list_all (\<lambda>n. nd_NodeID n \<noteq> 0) (rg_Nodes r) \<and>
      rg_Name r = or_else name (rg_Name pattern) \<and> rg_Description r = rg_Description pattern \<and>
      rg_SchemaVersion r = rg_SchemaVersion pattern \<and> rg_Signals r = rg_Signals pattern \<and>
      map unbound_node (rg_Nodes r) = map unbound_node (rg_Nodes pattern) \<and>
      mset bindings = mset (map binding_of (rg_Nodes r)))"

lemma Instantiate_instance: "Instantiate p name bs = Inr r \<Longrightarrow> instance_of p name bs r"
proof -
  assume inst: "Instantiate p name bs = Inr r"
  define m where "m = rev (map (\<lambda>b. (bd_Role b, b)) bs)"
  from inst obtain m' nodes where m': "bind_roles [] bs = Inr m'" and bn: "bind_nodes m' (rg_Nodes p) = (nodes, [], [])"
    and r: "r = p\<lparr>rg_Name := or_else name (rg_Name p), rg_Nodes := nodes\<rparr>" and v: "Registry_Validate r = []"
  proof -
    from inst obtain m' where m': "bind_roles [] bs = Inr m'" and rest: "res_bind (unique_nodes Map.empty m') (\<lambda>_.
       case bind_nodes m' (rg_Nodes p) of
         (nodes, missing, rest) \<Rightarrow>
           if missing \<noteq> [] then Inl (UnboundRoles (sort missing))
           else if rest \<noteq> [] then Inl (UnknownRoles (sort (map fst rest)))
           else let out = p\<lparr>rg_Name := or_else name (rg_Name p), rg_Nodes := nodes\<rparr>
                in if Registry_Validate out \<noteq> [] then Inl (InstantiatedInvalid (Registry_Validate out)) else Inr out) = Inr r"
      unfolding Instantiate_def res_bind_eq_Inr by blast
    obtain nodes missing left where bn: "bind_nodes m' (rg_Nodes p) = (nodes, missing, left)" by (metis prod_cases3)
    show thesis using that [OF m', of nodes] rest bn by (auto simp: res_bind_eq_Inr Let_def split: if_splits)
  qed
  from m' have "m' = m" "distinct (map bd_Role bs)" and range: "list_all (\<lambda>b. bd_NodeID b \<noteq> 0 \<and> bd_NodeID b \<le> 127) bs"
    using bind_roles_iff [of "[]" bs m'] by (simp_all add: m_def)
  with bn bind_nodes_exact [of bs "rg_Nodes p" nodes]
  have b: "map unbound_node nodes = map unbound_node (rg_Nodes p)" "mset bs = mset (map binding_of nodes)" by (simp_all add: m_def)
  have "set bs = binding_of ` set nodes" using b(2) by (metis list.set_map set_mset_mset)
  with range have "list_all (\<lambda>n. nd_NodeID n \<noteq> 0) nodes" by (simp add: list_all_iff binding_of_def)
  with b v show ?thesis by (simp add: instance_of_def Registry_Validate_iff r)
qed

lemma instance_Instantiate: "instance_of p name bs r \<Longrightarrow> Instantiate p name bs = Inr r"
proof -
  assume inst: "instance_of p name bs r"
  define m where "m = rev (map (\<lambda>b. (bd_Role b, b)) bs)"
  have v: "Registry_Validate r = []" using inst unfolding instance_of_def Registry_Validate_iff by blast
  have ok: "nodes_ok (rg_Nodes r)" "list_all (\<lambda>n. nd_NodeID n \<noteq> 0) (rg_Nodes r)"
    and ub: "map unbound_node (rg_Nodes r) = map unbound_node (rg_Nodes p)" and ms: "mset bs = mset (map binding_of (rg_Nodes r))"
    using inst by (simp_all add: instance_of_def registry_ok_def)
  have perm: "mset (map f bs) = mset (map (f \<circ> binding_of) (rg_Nodes r))" for f :: "Binding \<Rightarrow> 'z"
    using ms by (metis map_map mset_map)
  have roles: "distinct (map bd_Role bs)"
    using ok(1) mset_eq_imp_distinct_iff [OF perm [of bd_Role]] by (simp add: nodes_ok_def comp_def binding_of_def)
  have ids: "distinct (map bd_NodeID bs)"
    using ok bound_ids_all [OF ok(2)] mset_eq_imp_distinct_iff [OF perm [of bd_NodeID]] by (simp add: nodes_ok_def comp_def binding_of_def)
  have "set bs = binding_of ` set (rg_Nodes r)" using ms by (metis list.set_map set_mset_mset)
  then have "list_all (\<lambda>b. bd_NodeID b \<noteq> 0 \<and> bd_NodeID b \<le> 127) bs"
    using ok by (simp add: list_all_iff nodes_ok_def binding_of_def)
  then have 1: "bind_roles [] bs = Inr m" using roles bind_roles_iff [of "[]" bs m] by (simp add: m_def)
  have 2: "unique_nodes Map.empty m = Inr ()"
    using ids by (simp add: unique_nodes_iff m_def rev_map comp_def) (simp add: rev_map [symmetric])
  have "distinct (map nd_Role (rg_Nodes p))" using ok(1) unbound_roles [OF ub] by (simp add: nodes_ok_def)
  then have 3: "bind_nodes m (rg_Nodes p) = (rg_Nodes r, [], [])"
    using bind_nodes_exact [OF roles, of "rg_Nodes p" "rg_Nodes r"] ub ms by (simp add: m_def)
  have "p\<lparr>rg_Name := or_else name (rg_Name p), rg_Nodes := rg_Nodes r\<rparr> = r"
    using inst by (intro CANRegistry.equality) (simp_all add: instance_of_def)
  then show ?thesis using 1 2 3 v by (simp add: Instantiate_def)
qed

text \<open>
  C15.  Instantiating a pattern is exact.  It succeeds exactly when the bindings, in any order, are the roles
  of the pattern with the node identifiers and labels of a sound registry in which every role has a node;
  the result is that registry, with the signals of the pattern untouched.  In particular, exporting the
  pattern of a sound, fully bound registry and binding its roles to the same nodes returns the
  registry without its verification marks.
\<close>

theorem instantiate_exact:
  "(Instantiate p name bs = Inr r) \<longleftrightarrow> instance_of p name bs r"
  using Instantiate_instance instance_Instantiate by blast

lemma registry_ok_unverified:
  "registry_ok (r\<lparr>rg_Signals := map unverified (rg_Signals r)\<rparr>) \<longleftrightarrow> registry_ok r"
proof -
  have "signal_ok R (unverified s) \<longleftrightarrow> signal_ok R s" for R s
    by (simp add: signal_ok_def unverified_def consumer_ok_def [abs_def])
  then show ?thesis by (simp add: registry_ok_def list.pred_map comp_def) (simp add: unverified_def)
qed

text \<open>
  A pattern survives the round trip: for a sound registry in which every role is bound, the exported
  pattern validates, has no node identifier left, and instantiating it with the bindings of the original,
  in any order, gives the original back, without its verification marks.
\<close>

theorem pattern_roundtrip:
  assumes "Registry_Validate r = []" and "list_all (\<lambda>n. nd_NodeID n \<noteq> 0) (rg_Nodes r)"
    and "mset bs = mset (map binding_of (rg_Nodes r))"
  shows "Registry_Validate (ExportPattern r) = [] \<and> IsPattern (ExportPattern r) = (rg_Nodes r \<noteq> []) \<and>
    Instantiate (ExportPattern r) [] bs = Inr (r\<lparr>rg_Signals := map unverified (rg_Signals r)\<rparr>)"
proof -
  have ok: "registry_ok r" using assms(1) by (simp add: Registry_Validate_iff)
  have ids: "map (nd_NodeID \<circ> unbound_node) ns = replicate (length ns) 0" "map (nd_Role \<circ> unbound_node) ns = map nd_Role ns" for ns
    by (simp_all add: unbound_node_def comp_def map_replicate_const)
  have "nodes_ok (map unbound_node (rg_Nodes r))"
    using ok by (simp add: registry_ok_def nodes_ok_def bound_ids_def ids list.pred_map comp_def) (simp add: unbound_node_def list_all_iff image_image)
  moreover have "set (map nd_Role (map unbound_node (rg_Nodes r))) = set (map nd_Role (rg_Nodes r))" by (simp add: unbound_node_def image_image)
  ultimately have "registry_ok (ExportPattern r)"
    using registry_ok_unverified [of r] ok by (simp add: ExportPattern_def registry_ok_def)
  moreover have "IsPattern (ExportPattern r) = (rg_Nodes r \<noteq> [])"
    by (simp add: IsPattern_def ExportPattern_def list.pred_map comp_def) (simp add: unbound_node_def list_all_iff)
  moreover have "instance_of (ExportPattern r) [] bs (r\<lparr>rg_Signals := map unverified (rg_Signals r)\<rparr>)"
    using assms(2,3) ok registry_ok_unverified [of r]
    by (simp add: instance_of_def ExportPattern_def or_else_def comp_def) (simp add: unbound_node_def)
  ultimately show ?thesis using instance_Instantiate by (simp add: Registry_Validate_iff)
qed

definition demo_signal :: Signal where
  "demo_signal = \<lparr>sg_COBID = 0x181, sg_Name = ''temp'', sg_Description = [],
     sg_Producer = \<lparr>pr_Role = ''rmm'', pr_TPDO = 1, pr_Mapping = [\<lparr>me_Index = 0x2100, me_SubIndex = 1, me_Bits = 32, me_Comment = []\<rparr>]\<rparr>,
     sg_Consumers = [\<lparr>cn_Role = ''tec'', cn_RPDO = 1, cn_Mapping = [\<lparr>me_Index = 0x5000, me_SubIndex = 1, me_Bits = 32, me_Comment = []\<rparr>],
       cn_SourceSelects = [\<lparr>sw_Index = 0x3300, sw_SubIndex = 1, sw_Value = 7, sw_Comment = []\<rparr>]\<rparr>],
     sg_RateMS = 100, sg_SavedToFlash = True, sg_Verified = ''2025-01-01''\<rparr>"

definition demo_registry :: CANRegistry where
  "demo_registry = \<lparr>rg_SchemaVersion = 1, rg_Name = ''bench'', rg_Description = [],
     rg_Nodes = [\<lparr>nd_Role = ''rmm'', nd_NodeID = 5, nd_Family = [], nd_Label = ''left''\<rparr>, \<lparr>nd_Role = ''tec'', nd_NodeID = 6, nd_Family = [], nd_Label = []\<rparr>],
     rg_Signals = [demo_signal]\<rparr>"

lemma demo_registry_ok: "registry_ok demo_registry"
  by (simp add: registry_ok_def demo_registry_def demo_signal_def nodes_ok_def bound_ids_def signal_ok_def consumer_ok_def mapping_ok_def
      bitsOf_def word_le_nat_alt)

theorem pattern_roundtrip_witness:
  "Instantiate (ExportPattern demo_registry) [] (rev (map binding_of (rg_Nodes demo_registry))) =
     Inr (demo_registry\<lparr>rg_Signals := map unverified (rg_Signals demo_registry)\<rparr>) \<and> Registry_Validate (ExportPattern demo_registry) = []"
proof -
  have "list_all (\<lambda>n. nd_NodeID n \<noteq> 0) (rg_Nodes demo_registry)" by (simp add: demo_registry_def)
  with demo_registry_ok show ?thesis
    using pattern_roundtrip [of demo_registry "rev (map binding_of (rg_Nodes demo_registry))"] by (simp add: Registry_Validate_iff)
qed

end
