(* ===== verification/CanMapDiff.thy ===== *)
theory CanMapDiff
  imports CanMap CanopenClient
begin

text \<open>
  Reading the PDO configuration of a node back (\<open>canmap/observe.go\<close>) and comparing it with the registry
  (\<open>canmap/diff.go\<close>).  The interface \<open>SDOReader\<close> together with the context is the record \<open>sdo_reader\<close>
  of functions on a state; \<open>device_reader\<close> makes one of the CANopen client and a device that serves an
  object dictionary and now and then misses a request.  Errors that are formatted into texts are
  values of \<open>scan_error\<close>.  \<open>sort.Slice\<close> by name is a stable sort here, which makes no difference for
  registries whose signal names are distinct.
\<close>

section \<open>Reading objects\<close>

record 's sdo_reader =
  sr_read :: "u16 \<Rightarrow> byte \<Rightarrow> 's \<Rightarrow> (mecom_error + byte list) \<times> 's"
  sr_ctx :: "'s \<Rightarrow> mecom_error option \<times> 's"

definition sdoReadAttempts :: nat where "sdoReadAttempts = 4"
definition sdoAbortObjectAbsent :: u32 where "sdoAbortObjectAbsent = 0x06020000"
definition sdoAbortSubIndexAbsent :: u32 where "sdoAbortSubIndexAbsent = 0x06090011"
definition maxScanPDOs :: nat where "maxScanPDOs = 16"
definition rpdoCommBase :: u16 where "rpdoCommBase = 0x1400"
definition rpdoMapBase :: u16 where "rpdoMapBase = 0x1600"
definition tpdoCommBase :: u16 where "tpdoCommBase = 0x1800"
definition tpdoMapBase :: u16 where "tpdoMapBase = 0x1A00"
definition cobIDInvalidBit :: u32 where "cobIDInvalidBit = 0x80000000"

definition isAbsentAbort :: "mecom_error \<Rightarrow> bool" where
  "isAbsentAbort err =
     (case err of
        Can (SDOAbort i s code) \<Rightarrow> code = sdoAbortObjectAbsent \<or> code = sdoAbortSubIndexAbsent
      | _ \<Rightarrow> False)"

fun read_attempts :: "'s sdo_reader \<Rightarrow> u16 \<Rightarrow> byte \<Rightarrow> nat \<Rightarrow> mecom_error option \<Rightarrow> 's \<Rightarrow> (mecom_error + byte list) \<times> 's" where
  "read_attempts rd index sub 0 lastErr s = ((case lastErr of None \<Rightarrow> Inr [] | Some e \<Rightarrow> Inl e), s)"
| "read_attempts rd index sub (Suc n) lastErr s =
     (case sr_ctx rd s of
        (Some e, s1) \<Rightarrow> (Inl e, s1)
      | (None, s1) \<Rightarrow>
          (case sr_read rd index sub s1 of
             (Inr data, s2) \<Rightarrow> (Inr data, s2)
           | (Inl e, s2) \<Rightarrow> if isAbsentAbort e then (Inl e, s2) else read_attempts rd index sub n (Some e) s2))"

definition readSDO :: "'s sdo_reader \<Rightarrow> u16 \<Rightarrow> byte \<Rightarrow> 's \<Rightarrow> (mecom_error + byte list) \<times> 's" where
  "readSDO rd index sub s = read_attempts rd index sub sdoReadAttempts None s"

definition leUint32 :: "byte list \<Rightarrow> u32" where
  "leUint32 data = le_get (take 4 (data @ replicate 4 0))"

section \<open>Scanning a node\<close>

record ObservedPDO =
  op_Number :: nat
  op_COBID :: u32
  op_Enabled :: bool
  op_TransmissionType :: byte
  op_Mapping :: "MapEntry list"

datatype scan_error =
    CommFailed u16 mecom_error
  | MapCountFailed u16 mecom_error
  | MapEntryFailed u16 nat mecom_error
  | SelectFailed string mecom_error

record ObservedNode =
  on_NodeID :: byte
  on_RPDOs :: "ObservedPDO list"
  on_TPDOs :: "ObservedPDO list"
  on_SourceSelects :: "string \<rightharpoonup> u32"
  on_Errors :: "scan_error list"

fun read_entries :: "'s sdo_reader \<Rightarrow> u16 \<Rightarrow> nat \<Rightarrow> nat \<Rightarrow> 's \<Rightarrow> (MapEntry list \<times> scan_error list) \<times> 's" where
  "read_entries rd index 0 k s = (([], []), s)"
| "read_entries rd index (Suc n) k s =
     (case readSDO rd index (word_of_nat k) s of
        (Inl e, s1) \<Rightarrow> (([], if isAbsentAbort e then [] else [MapEntryFailed index k e]), s1)
      | (Inr entry, s1) \<Rightarrow>
          (case read_entries rd index n (k + 1) s1 of
             ((ms, es), s2) \<Rightarrow> ((DecodeMapEntry (leUint32 entry) # ms, es), s2)))"

definition read_mapping :: "'s sdo_reader \<Rightarrow> u16 \<Rightarrow> 's \<Rightarrow> (MapEntry list \<times> scan_error list) \<times> 's" where
  "read_mapping rd index s =
     (case readSDO rd index 0 s of
        (Inl e, s1) \<Rightarrow> (([], if isAbsentAbort e then [] else [MapCountFailed index e]), s1)
      | (Inr data, s1) \<Rightarrow>
          (case data of
             [] \<Rightarrow> (([], []), s1)
           | c # _ \<Rightarrow> read_entries rd index (if 8 < unat c then 8 else unat c) 1 s1))"

definition read_pdo :: "'s sdo_reader \<Rightarrow> u16 \<Rightarrow> u16 \<Rightarrow> nat \<Rightarrow> byte list \<Rightarrow> 's \<Rightarrow> (ObservedPDO \<times> scan_error list) \<times> 's" where
  "read_pdo rd commIndex mapIndex i raw s =
     (let cob = leUint32 raw in
      case readSDO rd commIndex 2 s of
        (tt, s1) \<Rightarrow>
          (case read_mapping rd mapIndex s1 of
             ((mapping, es), s2) \<Rightarrow>
               ((\<lparr>op_Number = i + 1, op_COBID = cob AND NOT cobIDInvalidBit, op_Enabled = (cob AND cobIDInvalidBit = 0),
                  op_TransmissionType = (case tt of Inr (t # _) \<Rightarrow> t | _ \<Rightarrow> 0), op_Mapping = mapping\<rparr>, es), s2)))"

text \<open>\<open>scan_pdos rd commBase mapBase n i\<close> is the loop of \<open>scanPDOs\<close> from index \<open>i\<close> on with \<open>n\<close> indices left.\<close>

fun scan_pdos ::
    "'s sdo_reader \<Rightarrow> u16 \<Rightarrow> u16 \<Rightarrow> nat \<Rightarrow> nat \<Rightarrow> 's \<Rightarrow> (ObservedPDO list \<times> scan_error list \<times> mecom_error option) \<times> 's" where
  "scan_pdos rd commBase mapBase 0 i s = (([], [], None), s)"
| "scan_pdos rd commBase mapBase (Suc n) i s =
     (let commIndex = commBase + word_of_nat i in
      case readSDO rd commIndex 1 s of
        (Inl e, s1) \<Rightarrow>
          (case sr_ctx rd s1 of
             (Some ctxErr, s2) \<Rightarrow> (([], [], Some ctxErr), s2)
           | (None, s2) \<Rightarrow>
               if isAbsentAbort e then (([], [], None), s2)
               else (case scan_pdos rd commBase mapBase n (i + 1) s2 of
                       ((out, errs, err), s3) \<Rightarrow> ((out, CommFailed commIndex e # errs, err), s3)))
      | (Inr raw, s1) \<Rightarrow>
          (case read_pdo rd commIndex (mapBase + word_of_nat i) i raw s1 of
             ((pdo, es), s2) \<Rightarrow>
               (case scan_pdos rd commBase mapBase n (i + 1) s2 of
                  ((out, errs, err), s3) \<Rightarrow> ((pdo # out, es @ errs, err), s3))))"

definition scanPDOs :: "'s sdo_reader \<Rightarrow> u16 \<Rightarrow> u16 \<Rightarrow> 's \<Rightarrow> (ObservedPDO list \<times> scan_error list \<times> mecom_error option) \<times> 's" where
  "scanPDOs rd commBase mapBase s = scan_pdos rd commBase mapBase maxScanPDOs 0 s"

definition select_key :: "SDOWrite \<Rightarrow> string" where
  "select_key w = ''0x'' @ fmtX 4 (uint (sw_Index w)) @ '':'' @ fmtX 2 (uint (sw_SubIndex w))"

fun read_selects ::
    "'s sdo_reader \<Rightarrow> SDOWrite list \<Rightarrow> (string \<rightharpoonup> u32) \<Rightarrow> 's \<Rightarrow> ((string \<rightharpoonup> u32) \<times> scan_error list) \<times> 's" where
  "read_selects rd [] found s = ((found, []), s)"
| "read_selects rd (w # ws) found s =
     (if found (select_key w) \<noteq> None then read_selects rd ws found s
      else case readSDO rd (sw_Index w) (sw_SubIndex w) s of
             (Inl e, s1) \<Rightarrow>
               (case read_selects rd ws found s1 of ((m, es), s2) \<Rightarrow> ((m, SelectFailed (select_key w) e # es), s2))
           | (Inr data, s1) \<Rightarrow> read_selects rd ws (found(select_key w \<mapsto> leUint32 data)) s1)"

datatype observe_error = RPDOScan byte mecom_error | TPDOScan byte mecom_error

definition ObserveNode :: "'s sdo_reader \<Rightarrow> byte \<Rightarrow> SDOWrite list \<Rightarrow> 's \<Rightarrow> (ObservedNode \<times> observe_error option) \<times> 's" where
  "ObserveNode rd nodeID wants s =
     (let obs = \<lparr>on_NodeID = nodeID, on_RPDOs = [], on_TPDOs = [], on_SourceSelects = Map.empty, on_Errors = []\<rparr> in
      case scanPDOs rd rpdoCommBase rpdoMapBase s of
        ((rpdos, rerrs, rerr), s1) \<Rightarrow>
          (let obs1 = obs\<lparr>on_RPDOs := rpdos, on_Errors := rerrs\<rparr> in
           case rerr of
             Some e \<Rightarrow> ((obs1, Some (RPDOScan nodeID e)), s1)
           | None \<Rightarrow>
               (case scanPDOs rd tpdoCommBase tpdoMapBase s1 of
                  ((tpdos, terrs, terr), s2) \<Rightarrow>
                    (let obs2 = obs1\<lparr>on_TPDOs := tpdos, on_Errors := rerrs @ terrs\<rparr> in
                     case terr of
                       Some e \<Rightarrow> ((obs2, Some (TPDOScan nodeID e)), s2)
                     | None \<Rightarrow>
                         (case read_selects rd wants Map.empty s2 of
                            ((m, serrs), s3) \<Rightarrow>
                              ((obs2\<lparr>on_SourceSelects := m, on_Errors := rerrs @ terrs @ serrs\<rparr>, None), s3))))))"

section \<open>Comparing with the registry\<close>

datatype Verdict = VerdictMatch | VerdictDrift | VerdictUnknown

record Finding =
  fi_Signal :: string
  fi_Role :: string
  fi_NodeID :: byte
  fi_Aspect :: string
  fi_Verdict :: Verdict
  fi_Want :: string
  fi_Got :: string

record SignalStatus =
  ss_Signal :: string
  ss_COBID :: u32
  ss_Verdict :: Verdict
  ss_Findings :: "Finding list"

definition drift :: "string \<Rightarrow> string \<Rightarrow> byte \<Rightarrow> string \<Rightarrow> string \<Rightarrow> string \<Rightarrow> Finding" where
  "drift signal role nodeID aspect want got =
     \<lparr>fi_Signal = signal, fi_Role = role, fi_NodeID = nodeID, fi_Aspect = aspect, fi_Verdict = VerdictDrift, fi_Want = want, fi_Got = got\<rparr>"

definition match_finding :: "string \<Rightarrow> string \<Rightarrow> byte \<Rightarrow> string \<Rightarrow> Finding" where
  "match_finding signal role nodeID aspect =
     \<lparr>fi_Signal = signal, fi_Role = role, fi_NodeID = nodeID, fi_Aspect = aspect, fi_Verdict = VerdictMatch, fi_Want = [], fi_Got = []\<rparr>"

definition pickPDO :: "ObservedPDO list \<Rightarrow> int \<Rightarrow> ObservedPDO option" where
  "pickPDO pdos number = List.find (\<lambda>p. int (op_Number p) = number) pdos"

definition mapsEqual :: "MapEntry list \<Rightarrow> MapEntry list \<Rightarrow> bool" where
  "mapsEqual a b = (length a = length b \<and> list_all (\<lambda>i. Raw (a ! i) = Raw (b ! i)) [0..<length a])"

definition formatMapping :: "MapEntry list \<Rightarrow> string" where
  "formatMapping entries =
     (if entries = [] then ''(empty)'' else Join (map (\<lambda>e. ''0x'' @ fmtX 8 (uint (Raw e))) entries) '' '')"

definition resolve ::
    "CANRegistry \<Rightarrow> string \<Rightarrow> string \<Rightarrow> string \<Rightarrow> (byte \<rightharpoonup> ObservedNode) \<Rightarrow> Finding + (byte \<times> ObservedNode)" where
  "resolve r signal role aspect observed =
     (let unknown = (\<lambda>i got. \<lparr>fi_Signal = signal, fi_Role = role, fi_NodeID = i, fi_Aspect = aspect, fi_Verdict = VerdictUnknown,
            fi_Want = [], fi_Got = got\<rparr>)
      in case NodeByRole r role of
           None \<Rightarrow> Inl (unknown 0 ''role has no bound node'')
         | Some node \<Rightarrow>
             if nd_NodeID node = 0 then Inl (unknown 0 ''role has no bound node'')
             else (case observed (nd_NodeID node) of
                     None \<Rightarrow> Inl (unknown (nd_NodeID node) ''node not observed'')
                   | Some obs \<Rightarrow> Inr (nd_NodeID node, obs)))"

definition diffPDO :: "string \<Rightarrow> string \<Rightarrow> byte \<Rightarrow> string \<Rightarrow> ObservedPDO \<Rightarrow> u32 \<Rightarrow> MapEntry list \<Rightarrow> Finding list" where
  "diffPDO signal role nodeID kind pdo wantCOB wantMap =
     (let findings =
            (if \<not> op_Enabled pdo then [drift signal role nodeID (kind @ '' enabled'') ''enabled'' ''disabled (COB-ID invalid bit set)''] else []) @
            (if op_COBID pdo \<noteq> wantCOB then [drift signal role nodeID (kind @ '' cob-id'') (''0x'' @ fmtX 0 (uint wantCOB))
               (''0x'' @ fmtX 0 (uint (op_COBID pdo)))] else []) @
            (if \<not> mapsEqual (op_Mapping pdo) wantMap
             then [drift signal role nodeID (kind @ '' mapping'') (formatMapping wantMap) (formatMapping (op_Mapping pdo))] else [])
      in if findings = [] then [match_finding signal role nodeID kind] else findings)"

definition diffProducer :: "CANRegistry \<Rightarrow> Signal \<Rightarrow> (byte \<rightharpoonup> ObservedNode) \<Rightarrow> Finding list" where
  "diffProducer r sig observed =
     (let p = sg_Producer sig in
      case resolve r (sg_Name sig) (pr_Role p) ''tpdo'' observed of
        Inl f \<Rightarrow> [f]
      | Inr (nodeID, obs) \<Rightarrow>
          (case pickPDO (on_TPDOs obs) (pr_TPDO p) of
             None \<Rightarrow> [drift (sg_Name sig) (pr_Role p) nodeID ''tpdo'' (''TPDO'' @ fmtD (pr_TPDO p) @ '' configured'') ''PDO not present on device'']
           | Some pdo \<Rightarrow> diffPDO (sg_Name sig) (pr_Role p) nodeID ''tpdo'' pdo (sg_COBID sig) (pr_Mapping p)))"

definition diff_select :: "Signal \<Rightarrow> Consumer \<Rightarrow> byte \<Rightarrow> ObservedNode \<Rightarrow> SDOWrite \<Rightarrow> Finding" where
  "diff_select sig c nodeID obs w =
     (let aspect = ''source-select '' @ select_key w; want = fmtD (sint (sw_Value w)) in
      case on_SourceSelects obs (select_key w) of
        None \<Rightarrow> \<lparr>fi_Signal = sg_Name sig, fi_Role = cn_Role c, fi_NodeID = nodeID, fi_Aspect = aspect, fi_Verdict = VerdictUnknown,
           fi_Want = want, fi_Got = ''not read''\<rparr>
      | Some got \<Rightarrow>
          if got \<noteq> sw_Value w then drift (sg_Name sig) (cn_Role c) nodeID aspect want (fmtD (sint got))
          else match_finding (sg_Name sig) (cn_Role c) nodeID aspect)"

definition diffConsumer :: "CANRegistry \<Rightarrow> Signal \<Rightarrow> Consumer \<Rightarrow> (byte \<rightharpoonup> ObservedNode) \<Rightarrow> Finding list" where
  "diffConsumer r sig c observed =
     (case resolve r (sg_Name sig) (cn_Role c) ''rpdo'' observed of
        Inl f \<Rightarrow> [f]
      | Inr (nodeID, obs) \<Rightarrow>
          (case pickPDO (on_RPDOs obs) (cn_RPDO c) of
             None \<Rightarrow> [drift (sg_Name sig) (cn_Role c) nodeID ''rpdo'' (''RPDO'' @ fmtD (cn_RPDO c) @ '' configured'') ''PDO not present on device'']
           | Some pdo \<Rightarrow> diffPDO (sg_Name sig) (cn_Role c) nodeID ''rpdo'' pdo (sg_COBID sig) (cn_Mapping c)) @
          map (diff_select sig c nodeID obs) (cn_SourceSelects c))"

fun overall :: "Verdict \<Rightarrow> Finding list \<Rightarrow> Verdict" where
  "overall v [] = v"
| "overall v (f # fs) =
     (if fi_Verdict f = VerdictDrift then VerdictDrift
      else overall (if fi_Verdict f = VerdictUnknown \<and> v = VerdictMatch then VerdictUnknown else v) fs)"

definition signal_status :: "CANRegistry \<Rightarrow> (byte \<rightharpoonup> ObservedNode) \<Rightarrow> Signal \<Rightarrow> SignalStatus" where
  "signal_status r observed sig =
     (let findings = diffProducer r sig observed @ concat (map (\<lambda>c. diffConsumer r sig c observed) (sg_Consumers sig))
      in \<lparr>ss_Signal = sg_Name sig, ss_COBID = sg_COBID sig, ss_Verdict = overall VerdictMatch findings, ss_Findings = findings\<rparr>)"

definition Diff :: "CANRegistry \<Rightarrow> (byte \<rightharpoonup> ObservedNode) \<Rightarrow> SignalStatus list" where
  "Diff r observed = sort_key ss_Signal (map (signal_status r observed) (rg_Signals r))"

section \<open>Readers that tell the truth\<close>

text \<open>What a scan of the dictionary \<open>D\<close> finds.\<close>

type_synonym dictionary = "u16 \<Rightarrow> byte \<Rightarrow> byte list option"

fun dict_entries :: "dictionary \<Rightarrow> u16 \<Rightarrow> nat \<Rightarrow> nat \<Rightarrow> MapEntry list" where
  "dict_entries D index 0 k = []"
| "dict_entries D index (Suc n) k =
     (case D index (word_of_nat k) of None \<Rightarrow> [] | Some d \<Rightarrow> DecodeMapEntry (leUint32 d) # dict_entries D index n (k + 1))"

definition dict_mapping :: "dictionary \<Rightarrow> u16 \<Rightarrow> MapEntry list" where
  "dict_mapping D index =
     (case D index 0 of Some (c # _) \<Rightarrow> dict_entries D index (if 8 < unat c then 8 else unat c) 1 | _ \<Rightarrow> [])"

definition dict_pdo :: "dictionary \<Rightarrow> u16 \<Rightarrow> u16 \<Rightarrow> nat \<Rightarrow> byte list \<Rightarrow> ObservedPDO" where
  "dict_pdo D commIndex mapIndex i raw =
     (let cob = leUint32 raw in
      \<lparr>op_Number = i + 1, op_COBID = cob AND NOT cobIDInvalidBit, op_Enabled = (cob AND cobIDInvalidBit = 0),
       op_TransmissionType = (case D commIndex 2 of Some (t # _) \<Rightarrow> t | _ \<Rightarrow> 0), op_Mapping = dict_mapping D mapIndex\<rparr>)"

fun dict_pdos :: "dictionary \<Rightarrow> u16 \<Rightarrow> u16 \<Rightarrow> nat \<Rightarrow> nat \<Rightarrow> ObservedPDO list" where
  "dict_pdos D commBase mapBase 0 i = []"
| "dict_pdos D commBase mapBase (Suc n) i =
     (case D (commBase + word_of_nat i) 1 of
        None \<Rightarrow> []
      | Some raw \<Rightarrow> dict_pdo D (commBase + word_of_nat i) (mapBase + word_of_nat i) i raw # dict_pdos D commBase mapBase n (i + 1))"

fun dict_selects :: "dictionary \<Rightarrow> SDOWrite list \<Rightarrow> (string \<rightharpoonup> u32) \<Rightarrow> string \<rightharpoonup> u32" where
  "dict_selects D [] found = found"
| "dict_selects D (w # ws) found =
     (case D (sw_Index w) (sw_SubIndex w) of
        None \<Rightarrow> dict_selects D ws found
      | Some d \<Rightarrow> dict_selects D ws (if found (select_key w) \<noteq> None then found else found(select_key w \<mapsto> leUint32 d)))"

locale dictionary_reader =
  fixes rd :: "'s sdo_reader" and D :: dictionary and live :: "'s \<Rightarrow> bool"
  assumes read_present: "live s \<Longrightarrow> D index sub = Some d \<Longrightarrow> \<exists>s'. live s' \<and> readSDO rd index sub s = (Inr d, s')"
    and read_absent: "live s \<Longrightarrow> D index sub = None \<Longrightarrow> \<exists>e s'. live s' \<and> isAbsentAbort e \<and> readSDO rd index sub s = (Inl e, s')"
    and ctx_live: "live s \<Longrightarrow> \<exists>s'. live s' \<and> sr_ctx rd s = (None, s')"
begin

lemma read_cases:
  assumes "live s"
  obtains (absent) e s' where "D index sub = None" "live s'" "isAbsentAbort e" "readSDO rd index sub s = (Inl e, s')"
    | (present) d s' where "D index sub = Some d" "live s'" "readSDO rd index sub s = (Inr d, s')"
  using read_present [OF assms, of index sub] read_absent [OF assms, of index sub] by (cases "D index sub") blast+

lemma entries: "live s \<Longrightarrow> \<exists>s'. live s' \<and> read_entries rd index n k s = ((dict_entries D index n k, []), s')"
proof (induction n arbitrary: k s)
  case (Suc n)
  from Suc.prems show ?case
  proof (cases rule: read_cases [of s index "word_of_nat k"])
    case (present d s')
    with Suc.IH [OF present(2), of "k + 1"] show ?thesis by auto
  qed auto
qed auto

lemma mapping: "live s \<Longrightarrow> \<exists>s'. live s' \<and> read_mapping rd index s = ((dict_mapping D index, []), s')"
proof -
  assume "live s"
  then show ?thesis
  proof (cases rule: read_cases [of s index 0])
    case (present d s')
    then show ?thesis
      using entries [OF present(2), of index _ 1] by (cases d) (auto simp: read_mapping_def dict_mapping_def)
  qed (auto simp: read_mapping_def dict_mapping_def)
qed

lemma pdo: "live s \<Longrightarrow> \<exists>s'. live s' \<and> read_pdo rd commIndex mapIndex i raw s = ((dict_pdo D commIndex mapIndex i raw, []), s')"
proof -
  assume "live s"
  then show ?thesis
  proof (cases rule: read_cases [of s commIndex 2])
    case (absent e s')
    with mapping [OF absent(2), of mapIndex] show ?thesis by (auto simp: read_pdo_def dict_pdo_def Let_def)
  next
    case (present d s')
    with mapping [OF present(2), of mapIndex] show ?thesis
      by (cases d) (auto simp: read_pdo_def dict_pdo_def Let_def)
  qed
qed

lemma pdos: "live s \<Longrightarrow> \<exists>s'. live s' \<and> scan_pdos rd commBase mapBase n i s = ((dict_pdos D commBase mapBase n i, [], None), s')"
proof (induction n arbitrary: i s)
  case (Suc n)
  from Suc.prems show ?case
  proof (cases rule: read_cases [of s "commBase + word_of_nat i" 1])
    case (absent e s')
    with ctx_live [OF absent(2)] show ?thesis by (auto simp: Let_def)
  next
    case (present d s')
    obtain s2 where s2: "live s2" "read_pdo rd (commBase + word_of_nat i) (mapBase + word_of_nat i) i d s' =
        ((dict_pdo D (commBase + word_of_nat i) (mapBase + word_of_nat i) i d, []), s2)"
      using pdo [OF present(2)] by blast
    with Suc.IH [OF s2(1), of "i + 1"] present show ?thesis by (auto simp: Let_def)
  qed
qed auto

lemma selects: "live s \<Longrightarrow> \<exists>es s'. live s' \<and> read_selects rd ws found s = ((dict_selects D ws found, es), s')"
proof (induction ws arbitrary: found s)
  case (Cons w ws)
  show ?case
  proof (cases "found (select_key w)")
    case None
    from Cons.prems show ?thesis
    proof (cases rule: read_cases [of s "sw_Index w" "sw_SubIndex w"])
      case (absent e s')
      with Cons.IH [OF absent(2), of found] None show ?thesis by auto
    next
      case (present d s')
      obtain es s2 where "live s2" "read_selects rd ws (found(select_key w \<mapsto> leUint32 d)) s' =
          ((dict_selects D ws (found(select_key w \<mapsto> leUint32 d)), es), s2)"
        using Cons.IH [OF present(2)] by blast
      then show ?thesis using None present by (simp del: fun_upd_apply)
    qed
  next
    case (Some v)
    with Cons.IH [OF Cons.prems, of found] show ?thesis by (auto split: option.splits)
  qed
qed auto

lemma observe:
  assumes "live s"
  shows "\<exists>es s'. ObserveNode rd nodeID wants s =
    ((\<lparr>on_NodeID = nodeID, on_RPDOs = dict_pdos D rpdoCommBase rpdoMapBase maxScanPDOs 0,
       on_TPDOs = dict_pdos D tpdoCommBase tpdoMapBase maxScanPDOs 0, on_SourceSelects = dict_selects D wants Map.empty, on_Errors = es\<rparr>,
      None), s')"
proof -
  obtain s1 where s1: "live s1" "scan_pdos rd rpdoCommBase rpdoMapBase maxScanPDOs 0 s =
      ((dict_pdos D rpdoCommBase rpdoMapBase maxScanPDOs 0, [], None), s1)"
    using pdos [OF assms] by blast
  obtain s2 where s2: "live s2" "scan_pdos rd tpdoCommBase tpdoMapBase maxScanPDOs 0 s1 =
      ((dict_pdos D tpdoCommBase tpdoMapBase maxScanPDOs 0, [], None), s2)"
    using pdos [OF s1(1)] by blast
  obtain es s3 where s3: "read_selects rd wants Map.empty s2 = ((dict_selects D wants Map.empty, es), s3)"
    using selects [OF s2(1)] by blast
  show ?thesis by (simp add: ObserveNode_def scanPDOs_def s1(2) s2(2) s3 Let_def)
qed

end

section \<open>A device on the bus\<close>

text \<open>
  A device serves the dictionary \<open>D\<close>.  The state is the list of how many requests the bus loses
  before each answer; a lost request ends in a timeout of the client.
\<close>

definition device_call :: "CANopenClient \<Rightarrow> dictionary \<Rightarrow> u16 \<Rightarrow> byte \<Rightarrow> bool \<Rightarrow> can_call" where
  "device_call c D index sub lost =
     \<lparr>k_ctx = None, k_ctxDeadline = None, k_send = None, k_now = 0,
      k_turns = (if lost then [silent_turn (co_timeout c)]
        else [live_turn 0 (case D index sub of
           None \<Rightarrow> sdo_server_abort (co_node c) index sub sdoAbortObjectAbsent
         | Some d \<Rightarrow> sdo_server_upload_reply (co_node c) index sub d)]), k_after = None\<rparr>"

lemma device_call_fields:
  "k_send (device_call c D index sub lost) = None"
  "k_turns (device_call c D index sub False) = [live_turn 0 (case D index sub of
     None \<Rightarrow> sdo_server_abort (co_node c) index sub sdoAbortObjectAbsent
   | Some d \<Rightarrow> sdo_server_upload_reply (co_node c) index sub d)]"
  by (simp_all add: device_call_def)

definition device_read :: "CANopenClient \<Rightarrow> dictionary \<Rightarrow> u16 \<Rightarrow> byte \<Rightarrow> bool \<Rightarrow> mecom_error + byte list" where
  "device_read c D index sub lost =
     (case snd (ReadSDORaw c (device_call c D index sub lost) index sub) of None \<Rightarrow> Inl ErrTimeout | Some r \<Rightarrow> r)"

definition device_reader :: "CANopenClient \<Rightarrow> dictionary \<Rightarrow> nat list sdo_reader" where
  "device_reader c D =
     \<lparr>sr_read = (\<lambda>index sub losses. case losses of
         [] \<Rightarrow> (device_read c D index sub False, [])
       | 0 # ls \<Rightarrow> (device_read c D index sub False, ls)
       | Suc n # ls \<Rightarrow> (device_read c D index sub True, n # ls)),
      sr_ctx = (\<lambda>losses. (None, losses))\<rparr>"

definition device_live :: "CANopenClient \<Rightarrow> dictionary \<Rightarrow> nat list \<Rightarrow> bool" where
  "device_live c D losses =
     (validateNodeID (co_node c) = None \<and> 0 < co_timeout c \<and> list_all (\<lambda>n. n < sdoReadAttempts) losses \<and>
      (\<forall>index sub d. D index sub = Some d \<longrightarrow> 0 < length d \<and> length d \<le> 4))"

lemma device_read_lost:
  "device_live c D ls \<Longrightarrow> device_read c D index sub True = Inl ErrTimeout"
  by (simp add: device_live_def device_read_def device_call_def ReadSDORaw_def SDOUploadRequest_def silent_turn_def co_check_def
      co_deadline_def)

lemma device_read_answer:
  assumes "device_live c D ls"
  shows "device_read c D index sub False =
    (case D index sub of None \<Rightarrow> Inl (Can (SDOAbort index sub sdoAbortObjectAbsent)) | Some d \<Rightarrow> Inr d)"
proof -
  have n: "co_node c \<le> 127" "validateNodeID (co_node c) = None" using assms by (simp_all add: device_live_def nodeID_iff)
  have loop: "recv_loop (co_check (co_deadline c (device_call c D index sub False))) (raw_classify (co_node c) index sub)
      [live_turn 0 f] = Some r" if "raw_classify (co_node c) index sub f = Some r" for f r
    by (rule sdo_raw.answers [OF _ that]) (use assms in \<open>simp add: device_live_def co_deadline_def device_call_def\<close>)
  show ?thesis
  proof (cases "D index sub")
    case None
    have "raw_classify (co_node c) index sub (sdo_server_abort (co_node c) index sub sdoAbortObjectAbsent) =
        Some (Inl (Can (SDOAbort index sub sdoAbortObjectAbsent)))"
      using abort_parse(1) [OF n(1), of index sub sdoAbortObjectAbsent]
      by (cases "ParseSDOUploadResponse (sdo_server_abort (co_node c) index sub sdoAbortObjectAbsent)")
        (simp add: raw_classify_def server_ids)
    from loop [OF this] None n(2) show ?thesis
      by (simp add: device_read_def ReadSDORaw_def SDOUploadRequest_def device_call_fields del: recv_loop.simps)
  next
    case (Some d)
    then have "0 < length d" "length d \<le> 4" using assms by (auto simp: device_live_def)
    with upload_parse_reply [OF n(1)] have "raw_classify (co_node c) index sub (sdo_server_upload_reply (co_node c) index sub d) = Some (Inr d)"
      by (simp add: raw_classify_def server_ids)
    from loop [OF this] Some n(2) show ?thesis
      by (simp add: device_read_def ReadSDORaw_def SDOUploadRequest_def device_call_fields del: recv_loop.simps)
  qed
qed

lemma not_absent_timeout: "\<not> isAbsentAbort ErrTimeout"
  by (simp add: isAbsentAbort_def)

lemma device_attempts:
  "device_live c D ls \<Longrightarrow> (case ls of [] \<Rightarrow> 0 | l # _ \<Rightarrow> l) < n \<Longrightarrow>
     read_attempts (device_reader c D) index sub n lastErr ls =
       ((case D index sub of None \<Rightarrow> Inl (Can (SDOAbort index sub sdoAbortObjectAbsent)) | Some d \<Rightarrow> Inr d), drop 1 ls)"
proof (induction n arbitrary: ls lastErr)
  case (Suc n)
  have abs: "isAbsentAbort (Can (SDOAbort index sub sdoAbortObjectAbsent))" by (simp add: isAbsentAbort_def)
  note ans = device_read_answer [OF Suc.prems(1), of index sub]
  show ?case
  proof (cases ls)
    case Nil
    then show ?thesis using ans abs by (auto simp: device_reader_def split: option.splits)
  next
    case (Cons l ls')
    show ?thesis
    proof (cases l)
      case 0
      then show ?thesis using ans abs Cons by (auto simp: device_reader_def split: option.splits)
    next
      case (Suc k)
      have "device_live c D (k # ls')" "k < n" using Suc.prems Cons Suc by (simp_all add: device_live_def)
      with Suc.IH [of "k # ls'" "Some ErrTimeout"] Cons Suc device_read_lost [OF Suc.prems(1)] not_absent_timeout
      show ?thesis by (simp add: device_reader_def)
    qed
  qed
qed simp

lemma device_readSDO:
  assumes "device_live c D ls"
  shows "readSDO (device_reader c D) index sub ls =
    ((case D index sub of None \<Rightarrow> Inl (Can (SDOAbort index sub sdoAbortObjectAbsent)) | Some d \<Rightarrow> Inr d), drop 1 ls)"
  unfolding readSDO_def using assms
  by (intro device_attempts) (auto simp: device_live_def sdoReadAttempts_def split: list.splits)

lemma device_live_drop: "device_live c D ls \<Longrightarrow> device_live c D (drop n ls)"
  by (auto simp: device_live_def list_all_iff dest: in_set_dropD)

interpretation device: dictionary_reader "device_reader c D" D "device_live c D" for c D
proof unfold_locales
  fix s index sub d
  assume "device_live c D s" "D index sub = Some d"
  then show "\<exists>s'. device_live c D s' \<and> readSDO (device_reader c D) index sub s = (Inr d, s')"
    using device_live_drop [of c D s 1] by (simp add: device_readSDO)
next
  fix s index sub
  assume "device_live c D s" "D index sub = None"
  then show "\<exists>e s'. device_live c D s' \<and> isAbsentAbort e \<and> readSDO (device_reader c D) index sub s = (Inl e, s')"
    using device_live_drop [of c D s 1] by (simp add: device_readSDO isAbsentAbort_def)
qed (simp add: device_reader_def)

section \<open>The comparison\<close>

definition pdo_configured :: "dictionary \<Rightarrow> u16 \<Rightarrow> u16 \<Rightarrow> int \<Rightarrow> u32 \<Rightarrow> MapEntry list \<Rightarrow> bool" where
  "pdo_configured D commBase mapBase number cob entries =
     (1 \<le> number \<and> number \<le> 16 \<and> list_all (\<lambda>j. D (commBase + word_of_nat j) 1 \<noteq> None) [0..<nat number] \<and>
      map_option leUint32 (D (commBase + word_of_nat (nat number - 1)) 1) = Some cob \<and> \<not> bit cob 31 \<and>
      map Raw (dict_mapping D (mapBase + word_of_nat (nat number - 1))) = map Raw entries)"

lemma dict_pdos_pick:
  "pickPDO (dict_pdos D commBase mapBase n i) number =
     (if int i < number \<and> number \<le> int (i + n) \<and> list_all (\<lambda>j. D (commBase + word_of_nat j) 1 \<noteq> None) [i..<nat number]
      then let k = nat number - 1 in
        Some (dict_pdo D (commBase + word_of_nat k) (mapBase + word_of_nat k) k (the (D (commBase + word_of_nat k) 1)))
      else None)"
proof (induction n arbitrary: i)
  case (Suc n)
  show ?case
  proof (cases "D (commBase + word_of_nat i) 1")
    case None
    have "\<not> list_all (\<lambda>j. D (commBase + word_of_nat j) 1 \<noteq> None) [i..<nat number]" if "int i < number"
      using that None by (subst upt_conv_Cons) simp_all
    then show ?thesis using None by (auto simp: pickPDO_def)
  next
    case (Some raw)
    have num: "op_Number (dict_pdo D a b i raw) = i + 1" for a b by (simp add: dict_pdo_def Let_def)
    consider "number = int i + 1" | "number \<le> int i" | "int i + 1 < number" by linarith
    then show ?thesis
    proof cases
      case 1
      then have "[i..<nat number] = [i]" "nat number - 1 = i" by (simp_all add: nat_add_distrib)
      then show ?thesis using Some 1 num by (simp add: pickPDO_def Let_def)
    next
      case 2
      then show ?thesis using Some num Suc.IH [of "i + 1"] by (simp add: pickPDO_def)
    next
      case 3
      then have "[i..<nat number] = i # [i + 1..<nat number]" by (simp add: upt_conv_Cons)
      then show ?thesis using Some 3 num Suc.IH [of "i + 1"] by (simp add: pickPDO_def)
    qed
  qed
qed (simp add: pickPDO_def)

lemma mapsEqual_iff: "mapsEqual a b \<longleftrightarrow> map Raw a = map Raw b"
  unfolding mapsEqual_def list_all_iff list_eq_iff_nth_eq length_map by (simp add: Ball_def conj_commute cong: conj_cong)

definition all_match :: "Finding list \<Rightarrow> bool" where
  "all_match fs = list_all (\<lambda>f. fi_Verdict f = VerdictMatch) fs"

lemma overall_match: "overall v fs = VerdictMatch \<longleftrightarrow> v = VerdictMatch \<and> all_match fs"
proof (induction fs arbitrary: v)
  case (Cons f fs)
  then show ?case by (cases "fi_Verdict f") (auto simp: all_match_def)
qed (simp add: all_match_def)

lemma overall_drift: "v \<noteq> VerdictDrift \<Longrightarrow> overall v fs = VerdictDrift \<longleftrightarrow> list_ex (\<lambda>f. fi_Verdict f = VerdictDrift) fs"
  by (induction fs arbitrary: v) auto

lemma diffPDO_match:
  "all_match (diffPDO signal role nodeID kind pdo cob entries) \<longleftrightarrow>
     op_Enabled pdo \<and> op_COBID pdo = cob \<and> map Raw (op_Mapping pdo) = map Raw entries"
  by (auto simp: diffPDO_def all_match_def drift_def match_finding_def mapsEqual_iff Let_def)

lemma cob_bits: "(x AND NOT cobIDInvalidBit = cob \<and> x AND cobIDInvalidBit = 0) \<longleftrightarrow> x = cob \<and> \<not> bit cob 31" for x cob :: u32
proof -
  have e: "cobIDInvalidBit = 2 ^ 31" by (simp add: cobIDInvalidBit_def)
  have b: "bit cobIDInvalidBit n \<longleftrightarrow> n = 31" for n unfolding e bit_exp_iff by auto
  have z: "x AND cobIDInvalidBit = 0 \<longleftrightarrow> \<not> bit x 31"
  proof
    assume "x AND cobIDInvalidBit = 0"
    then have "\<not> bit (x AND cobIDInvalidBit) 31" by simp
    then show "\<not> bit x 31" by (simp add: bit_and_iff b)
  next
    assume "\<not> bit x 31"
    then show "x AND cobIDInvalidBit = 0" by (intro bit_word_eqI) (auto simp: bit_and_iff b)
  qed
  have "x AND NOT cobIDInvalidBit = x" if "\<not> bit x 31"
    using that by (intro bit_word_eqI) (auto simp: bit_and_iff bit_not_iff b)
  then show ?thesis using z by auto
qed

lemma pdo_match:
  "(case pickPDO (dict_pdos D commBase mapBase maxScanPDOs 0) number of
      None \<Rightarrow> False
    | Some pdo \<Rightarrow> all_match (diffPDO signal role nodeID kind pdo cob entries)) \<longleftrightarrow>
   pdo_configured D commBase mapBase number cob entries"
proof (cases "1 \<le> number \<and> number \<le> 16 \<and> list_all (\<lambda>j. D (commBase + word_of_nat j) 1 \<noteq> None) [0..<nat number]")
  case True
  then have "nat number - 1 \<in> set [0..<nat number]" by simp
  with True obtain raw where raw: "D (commBase + word_of_nat (nat number - 1)) 1 = Some raw"
    unfolding list_all_iff by blast
  have "pickPDO (dict_pdos D commBase mapBase maxScanPDOs 0) number =
      Some (dict_pdo D (commBase + word_of_nat (nat number - 1)) (mapBase + word_of_nat (nat number - 1)) (nat number - 1) raw)"
    using True raw by (simp add: dict_pdos_pick maxScanPDOs_def Let_def)
  then show ?thesis
    using True raw cob_bits [of "leUint32 raw" cob]
    by (simp add: diffPDO_match pdo_configured_def dict_pdo_def Let_def) blast
next
  case False
  then have "pickPDO (dict_pdos D commBase mapBase maxScanPDOs 0) number = None"
    unfolding dict_pdos_pick maxScanPDOs_def by auto
  then show ?thesis using False by (auto simp: pdo_configured_def)
qed

lemma hexN_inj: "m < 16 ^ w \<Longrightarrow> n < 16 ^ w \<Longrightarrow> hexN w m = hexN w n \<Longrightarrow> m = n"
  by (metis max.cobounded1 max.cobounded2 parse_hex_loop_hexN sum.inject(2))

lemma select_key_inj: "select_key v = select_key w \<Longrightarrow> sw_Index v = sw_Index w \<and> sw_SubIndex v = sw_SubIndex w"
proof -
  assume "select_key v = select_key w"
  then have k: "hexN 4 (unat (sw_Index v)) @ CHR '':'' # hexN 2 (unat (sw_SubIndex v)) =
      hexN 4 (unat (sw_Index w)) @ CHR '':'' # hexN 2 (unat (sw_SubIndex w))"
    by (simp add: select_key_def fmtX_u16 fmtX_u8)
  then have "hexN 4 (unat (sw_Index v)) = hexN 4 (unat (sw_Index w))" "hexN 2 (unat (sw_SubIndex v)) = hexN 2 (unat (sw_SubIndex w))"
    by (simp_all add: append_eq_append_conv)
  then show ?thesis
    using hexN_inj [of "unat (sw_Index v)" 4 "unat (sw_Index w)"] hexN_inj [of "unat (sw_SubIndex v)" 2 "unat (sw_SubIndex w)"]
      unat_word_bound [of "sw_Index v"] unat_word_bound [of "sw_Index w"] unat_word_bound [of "sw_SubIndex v"] unat_word_bound [of "sw_SubIndex w"]
    by (simp add: word_unat_eq_iff)
qed

definition select_found :: "dictionary \<Rightarrow> (string \<rightharpoonup> u32) \<Rightarrow> bool" where
  "select_found D found = (\<forall>w v. found (select_key w) = Some v \<longrightarrow> map_option leUint32 (D (sw_Index w) (sw_SubIndex w)) = Some v)"

lemma select_found_put:
  assumes "select_found D found" and "D (sw_Index w) (sw_SubIndex w) = Some d"
  shows "select_found D (if found (select_key w) \<noteq> None then found else found(select_key w \<mapsto> leUint32 d))"
proof -
  have "map_option leUint32 (D (sw_Index u) (sw_SubIndex u)) = Some v" if "(found(select_key w \<mapsto> leUint32 d)) (select_key u) = Some v" for u v
  proof (cases "select_key u = select_key w")
    case True
    with select_key_inj [OF True] that assms(2) show ?thesis by simp
  next
    case False
    with that assms(1) show ?thesis by (simp add: select_found_def)
  qed
  with assms(1) show ?thesis by (auto simp: select_found_def)
qed

lemma dict_selects_found:
  "select_found D found \<Longrightarrow> select_found D (dict_selects D ws found) \<and> found \<subseteq>\<^sub>m dict_selects D ws found"
proof (induction ws arbitrary: found)
  case (Cons w ws)
  show ?case
  proof (cases "D (sw_Index w) (sw_SubIndex w)")
    case (Some d)
    let ?f = "if found (select_key w) \<noteq> None then found else found(select_key w \<mapsto> leUint32 d)"
    have "found \<subseteq>\<^sub>m ?f" by (auto simp: map_le_def)
    moreover note Cons.IH [OF select_found_put [OF Cons.prems Some]]
    ultimately show ?thesis using Some map_le_trans by (simp only: dict_selects.simps option.case) blast
  qed (use Cons in simp)
qed simp

lemma dict_selects_at:
  "w \<in> set ws \<Longrightarrow> select_found D found0 \<Longrightarrow>
     dict_selects D ws found0 (select_key w) = map_option leUint32 (D (sw_Index w) (sw_SubIndex w))"
proof (induction ws arbitrary: found0)
  case (Cons v ws)
  let ?f = "\<lambda>d. if found0 (select_key v) \<noteq> None then found0 else found0(select_key v \<mapsto> leUint32 d)"
  have f: "select_found D (?f d)" if "D (sw_Index v) (sw_SubIndex v) = Some d" for d
    by (rule select_found_put [OF Cons.prems(2) that])
  show ?case
  proof (cases "w \<in> set ws")
    case True
    show ?thesis
      using Cons.IH [OF True Cons.prems(2)] Cons.IH [OF True f] by (cases "D (sw_Index v) (sw_SubIndex v)") (simp_all only: dict_selects.simps option.case)
  next
    case False
    then have vw: "v = w" using Cons.prems(1) by simp
    show ?thesis
    proof (cases "D (sw_Index w) (sw_SubIndex w)")
      case None
      have sf: "select_found D (dict_selects D ws found0)" using dict_selects_found [OF Cons.prems(2)] by blast
      have "dict_selects D ws found0 (select_key w) = None"
      proof (rule ccontr)
        assume "dict_selects D ws found0 (select_key w) \<noteq> None"
        then obtain x where "dict_selects D ws found0 (select_key w) = Some x" by blast
        with sf have "map_option leUint32 (D (sw_Index w) (sw_SubIndex w)) = Some x" unfolding select_found_def by blast
        with None show False by simp
      qed
      then show ?thesis using None vw by simp
    next
      case (Some d)
      have "?f d (select_key w) \<noteq> None" using vw by simp
      then obtain x where x: "?f d (select_key w) = Some x" by blast
      have sf: "select_found D (?f d)" by (rule f) (simp add: vw Some)
      have "dict_selects D ws (?f d) (select_key w) = Some x"
        using dict_selects_found [OF sf, of ws] x by (metis (no_types, lifting) domI map_le_def)
      moreover have "dict_selects D (v # ws) found0 = dict_selects D ws (?f d)" by (simp only: dict_selects.simps vw Some option.case)
      moreover have "map_option leUint32 (D (sw_Index w) (sw_SubIndex w)) = Some x" using sf x unfolding select_found_def by blast
      ultimately show ?thesis by metis
    qed
  qed
qed simp

definition node_id :: "CANRegistry \<Rightarrow> string \<Rightarrow> byte" where
  "node_id r role = (case NodeByRole r role of None \<Rightarrow> 0 | Some n \<Rightarrow> nd_NodeID n)"

definition consumer_configured :: "CANRegistry \<Rightarrow> (byte \<Rightarrow> dictionary) \<Rightarrow> Signal \<Rightarrow> Consumer \<Rightarrow> bool" where
  "consumer_configured r dicts sig c =
     (pdo_configured (dicts (node_id r (cn_Role c))) rpdoCommBase rpdoMapBase (cn_RPDO c) (sg_COBID sig) (cn_Mapping c) \<and>
      list_all (\<lambda>w. map_option leUint32 (dicts (node_id r (cn_Role c)) (sw_Index w) (sw_SubIndex w)) = Some (sw_Value w)) (cn_SourceSelects c))"

definition signal_configured :: "CANRegistry \<Rightarrow> (byte \<Rightarrow> dictionary) \<Rightarrow> Signal \<Rightarrow> bool" where
  "signal_configured r dicts sig =
     (pdo_configured (dicts (node_id r (pr_Role (sg_Producer sig)))) tpdoCommBase tpdoMapBase (pr_TPDO (sg_Producer sig)) (sg_COBID sig)
        (pr_Mapping (sg_Producer sig)) \<and>
      list_all (consumer_configured r dicts sig) (sg_Consumers sig))"

definition observe_bench ::
    "(byte \<Rightarrow> CANopenClient) \<Rightarrow> (byte \<Rightarrow> dictionary) \<Rightarrow> (byte \<Rightarrow> nat list) \<Rightarrow> (byte \<Rightarrow> SDOWrite list) \<Rightarrow> byte set \<Rightarrow> byte \<rightharpoonup> ObservedNode" where
  "observe_bench clients dicts losses wants ids =
     (\<lambda>n. if n \<in> ids then Some (fst (fst (ObserveNode (device_reader (clients n) (dicts n)) n (wants n) (losses n)))) else None)"

lemma role_bound:
  assumes "registry_ok r" and "list_all (\<lambda>n. nd_NodeID n \<noteq> 0) (rg_Nodes r)" and "role \<in> set (map nd_Role (rg_Nodes r))"
  shows "\<exists>n \<in> set (rg_Nodes r). NodeByRole r role = Some n \<and> nd_NodeID n \<noteq> 0 \<and> node_id r role = nd_NodeID n"
proof -
  have "NodeByRole r role \<noteq> None" using assms(3) by (auto simp: NodeByRole_def find_None_iff)
  then obtain n where n: "NodeByRole r role = Some n" by blast
  then have "n \<in> set (rg_Nodes r)" by (auto simp: NodeByRole_def find_Some_iff in_set_conv_nth)
  with n assms(2) show ?thesis by (auto simp: node_id_def list_all_iff)
qed

lemma observe_bench_at:
  assumes "n \<in> ids" and "device_live (clients n) (dicts n) (losses n)"
  shows "\<exists>es. observe_bench clients dicts losses wants ids n = Some
    \<lparr>on_NodeID = n, on_RPDOs = dict_pdos (dicts n) rpdoCommBase rpdoMapBase maxScanPDOs 0,
     on_TPDOs = dict_pdos (dicts n) tpdoCommBase tpdoMapBase maxScanPDOs 0, on_SourceSelects = dict_selects (dicts n) (wants n) Map.empty,
     on_Errors = es\<rparr>"
  using device.observe [OF assms(2), of n "wants n"] assms(1) by (auto simp: observe_bench_def)

lemma all_match_append: "all_match (xs @ ys) \<longleftrightarrow> all_match xs \<and> all_match ys"
  by (simp add: all_match_def)

lemma all_match_single: "all_match [f] \<longleftrightarrow> fi_Verdict f = VerdictMatch"
  by (simp add: all_match_def)

lemma all_match_pick:
  "all_match (case p of None \<Rightarrow> [drift a b c d e f] | Some pdo \<Rightarrow> g pdo) \<longleftrightarrow> (case p of None \<Rightarrow> False | Some pdo \<Rightarrow> all_match (g pdo))"
  by (cases p) (simp_all add: all_match_def drift_def)

lemma producer_match:
  assumes "NodeByRole r (pr_Role (sg_Producer sig)) = Some n" and "nd_NodeID n \<noteq> 0" and "observed (nd_NodeID n) = Some obs"
    and "on_TPDOs obs = dict_pdos D tpdoCommBase tpdoMapBase maxScanPDOs 0"
  shows "all_match (diffProducer r sig observed) \<longleftrightarrow>
    pdo_configured D tpdoCommBase tpdoMapBase (pr_TPDO (sg_Producer sig)) (sg_COBID sig) (pr_Mapping (sg_Producer sig))"
  using assms by (simp add: diffProducer_def resolve_def Let_def all_match_pick pdo_match)

lemma select_match:
  "fi_Verdict (diff_select sig c n obs w) = VerdictMatch \<longleftrightarrow> on_SourceSelects obs (select_key w) = Some (sw_Value w)"
  by (auto simp: diff_select_def drift_def match_finding_def Let_def split: option.splits)

lemma consumer_match:
  assumes "NodeByRole r (cn_Role c) = Some n" and "nd_NodeID n \<noteq> 0" and "observed (nd_NodeID n) = Some obs"
    and "on_RPDOs obs = dict_pdos D rpdoCommBase rpdoMapBase maxScanPDOs 0"
    and "on_SourceSelects obs = dict_selects D ws Map.empty" and "list_all (\<lambda>w. w \<in> set ws) (cn_SourceSelects c)"
  shows "all_match (diffConsumer r sig c observed) \<longleftrightarrow>
    pdo_configured D rpdoCommBase rpdoMapBase (cn_RPDO c) (sg_COBID sig) (cn_Mapping c) \<and>
    list_all (\<lambda>w. map_option leUint32 (D (sw_Index w) (sw_SubIndex w)) = Some (sw_Value w)) (cn_SourceSelects c)"
proof -
  have "select_found D Map.empty" by (simp add: select_found_def)
  from dict_selects_at [OF _ this, of _ ws] assms(6)
  have "all_match (map (diff_select sig c m obs) (cn_SourceSelects c)) \<longleftrightarrow>
      list_all (\<lambda>w. map_option leUint32 (D (sw_Index w) (sw_SubIndex w)) = Some (sw_Value w)) (cn_SourceSelects c)" for m
    by (simp add: all_match_def list.pred_map comp_def select_match assms(5) list_all_iff)
  then show ?thesis
    using assms(1-4) by (simp add: diffConsumer_def resolve_def Let_def all_match_append all_match_pick pdo_match)
qed

lemma signal_match:
  assumes ok: "registry_ok r" "list_all (\<lambda>n. nd_NodeID n \<noteq> 0) (rg_Nodes r)"
    and live: "list_all (\<lambda>n. device_live (clients (nd_NodeID n)) (dicts (nd_NodeID n)) (losses (nd_NodeID n))) (rg_Nodes r)"
    and wants: "list_all (\<lambda>c. list_all (\<lambda>w. w \<in> set (wants (node_id r (cn_Role c)))) (cn_SourceSelects c)) (sg_Consumers sig)"
    and sig: "sig \<in> set (rg_Signals r)"
  shows "ss_Verdict (signal_status r (observe_bench clients dicts losses wants (set (map nd_NodeID (rg_Nodes r)))) sig) = VerdictMatch \<longleftrightarrow>
    signal_configured r dicts sig"
proof -
  define ids where "ids = set (map nd_NodeID (rg_Nodes r))"
  let ?obs = "observe_bench clients dicts losses wants ids"
  have so: "signal_ok (set (map nd_Role (rg_Nodes r))) sig" using ok(1) sig by (simp add: registry_ok_def list_all_iff)
  have at: "\<exists>n es. NodeByRole r role = Some n \<and> nd_NodeID n \<noteq> 0 \<and> node_id r role = nd_NodeID n \<and> ?obs (nd_NodeID n) = Some
      \<lparr>on_NodeID = nd_NodeID n, on_RPDOs = dict_pdos (dicts (nd_NodeID n)) rpdoCommBase rpdoMapBase maxScanPDOs 0,
       on_TPDOs = dict_pdos (dicts (nd_NodeID n)) tpdoCommBase tpdoMapBase maxScanPDOs 0,
       on_SourceSelects = dict_selects (dicts (nd_NodeID n)) (wants (nd_NodeID n)) Map.empty, on_Errors = es\<rparr>"
    if "role \<in> set (map nd_Role (rg_Nodes r))" for role
  proof -
    from role_bound [OF ok that] obtain n where n: "n \<in> set (rg_Nodes r)" "NodeByRole r role = Some n" "nd_NodeID n \<noteq> 0"
      "node_id r role = nd_NodeID n" by blast
    with observe_bench_at [of "nd_NodeID n" ids clients dicts losses wants] live show ?thesis
      by (simp add: list_all_iff ids_def)
  qed
  have prod: "all_match (diffProducer r sig ?obs) \<longleftrightarrow> pdo_configured (dicts (node_id r (pr_Role (sg_Producer sig)))) tpdoCommBase tpdoMapBase
      (pr_TPDO (sg_Producer sig)) (sg_COBID sig) (pr_Mapping (sg_Producer sig))"
  proof -
    from at [of "pr_Role (sg_Producer sig)"] so obtain n es where n: "NodeByRole r (pr_Role (sg_Producer sig)) = Some n" "nd_NodeID n \<noteq> 0"
      "node_id r (pr_Role (sg_Producer sig)) = nd_NodeID n" and o: "?obs (nd_NodeID n) = Some
        \<lparr>on_NodeID = nd_NodeID n, on_RPDOs = dict_pdos (dicts (nd_NodeID n)) rpdoCommBase rpdoMapBase maxScanPDOs 0,
         on_TPDOs = dict_pdos (dicts (nd_NodeID n)) tpdoCommBase tpdoMapBase maxScanPDOs 0,
         on_SourceSelects = dict_selects (dicts (nd_NodeID n)) (wants (nd_NodeID n)) Map.empty, on_Errors = es\<rparr>"
      unfolding signal_ok_def by blast
    show ?thesis unfolding n(3) using n(1,2) o by (rule producer_match [where observed = ?obs]) simp
  qed
  have cons: "all_match (diffConsumer r sig c ?obs) \<longleftrightarrow> consumer_configured r dicts sig c" if c: "c \<in> set (sg_Consumers sig)" for c
  proof -
    have "cn_Role c \<in> set (map nd_Role (rg_Nodes r))" using so c by (simp add: signal_ok_def consumer_ok_def list_all_iff)
    from at [OF this] obtain n es where n: "NodeByRole r (cn_Role c) = Some n" "nd_NodeID n \<noteq> 0" "node_id r (cn_Role c) = nd_NodeID n"
      and o: "?obs (nd_NodeID n) = Some
        \<lparr>on_NodeID = nd_NodeID n, on_RPDOs = dict_pdos (dicts (nd_NodeID n)) rpdoCommBase rpdoMapBase maxScanPDOs 0,
         on_TPDOs = dict_pdos (dicts (nd_NodeID n)) tpdoCommBase tpdoMapBase maxScanPDOs 0,
         on_SourceSelects = dict_selects (dicts (nd_NodeID n)) (wants (nd_NodeID n)) Map.empty, on_Errors = es\<rparr>" by blast
    have w: "list_all (\<lambda>w. w \<in> set (wants (nd_NodeID n))) (cn_SourceSelects c)" using wants c unfolding list_all_iff n(3) [symmetric] by blast
    show ?thesis unfolding consumer_configured_def n(3) using n(1,2) o by (rule consumer_match [where observed = ?obs and ws = "wants (nd_NodeID n)"]) (simp_all add: w)
  qed
  have "all_match (concat (map (\<lambda>c. diffConsumer r sig c ?obs) cs)) \<longleftrightarrow> list_all (consumer_configured r dicts sig) cs"
    if "set cs \<subseteq> set (sg_Consumers sig)" for cs
    using that by (induction cs) (simp_all add: all_match_append cons, simp add: all_match_def)
  then show ?thesis unfolding ids_def [symmetric] by (simp add: signal_status_def Let_def overall_match all_match_append prod signal_configured_def)
qed

text \<open>
  C14.  The report about a bench is right.  Take a sound registry with every role bound, and devices that
  answer through the CANopen client from their object dictionaries, losing up to three requests in a row.
  Then the report has one line per signal, sorted by name, and the line says match exactly when the
  producer's and every consumer's PDO is there, enabled, with the COB-ID and the mapping of the registry,
  and every source selection has its value.
\<close>

theorem bench_report_exact:
  assumes "Registry_Validate r = []" and "list_all (\<lambda>n. nd_NodeID n \<noteq> 0) (rg_Nodes r)"
    and "list_all (\<lambda>n. device_live (clients (nd_NodeID n)) (dicts (nd_NodeID n)) (losses (nd_NodeID n))) (rg_Nodes r)"
    and "list_all (\<lambda>sig. list_all (\<lambda>c. list_all (\<lambda>w. w \<in> set (wants (node_id r (cn_Role c)))) (cn_SourceSelects c)) (sg_Consumers sig))
      (rg_Signals r)"
  shows "mset (map (\<lambda>st. (ss_Signal st, ss_Verdict st = VerdictMatch))
      (Diff r (observe_bench clients dicts losses wants (set (map nd_NodeID (rg_Nodes r)))))) =
    mset (map (\<lambda>sig. (sg_Name sig, signal_configured r dicts sig)) (rg_Signals r)) \<and>
    sorted (map ss_Signal (Diff r (observe_bench clients dicts losses wants (set (map nd_NodeID (rg_Nodes r))))))"
proof -
  let ?obs = "observe_bench clients dicts losses wants (set (map nd_NodeID (rg_Nodes r)))"
  have "map (\<lambda>sig. (sg_Name sig, ss_Verdict (signal_status r ?obs sig) = VerdictMatch)) (rg_Signals r) =
      map (\<lambda>sig. (sg_Name sig, signal_configured r dicts sig)) (rg_Signals r)"
  proof (intro map_cong refl)
    fix sig assume sig: "sig \<in> set (rg_Signals r)"
    have "registry_ok r" using assms(1) by (simp add: Registry_Validate_iff)
    from signal_match [OF this assms(2,3) _ sig, of wants] assms(4) sig
    show "(sg_Name sig, ss_Verdict (signal_status r ?obs sig) = VerdictMatch) = (sg_Name sig, signal_configured r dicts sig)"
      by (simp add: list_all_iff)
  qed
  moreover have "ss_Signal (signal_status r ?obs sig) = sg_Name sig" for sig by (simp add: signal_status_def Let_def)
  ultimately have "map (\<lambda>st. (ss_Signal st, ss_Verdict st = VerdictMatch)) (map (signal_status r ?obs) (rg_Signals r)) =
      map (\<lambda>sig. (sg_Name sig, signal_configured r dicts sig)) (rg_Signals r)"
    unfolding map_map comp_def by presburger
  moreover have "mset (map f (Diff r ?obs)) = mset (map f (map (signal_status r ?obs) (rg_Signals r)))" for f :: "SignalStatus \<Rightarrow> 'z"
    unfolding Diff_def by (metis mset_map mset_sort)
  moreover have "sorted (map ss_Signal (Diff r ?obs))" by (simp add: Diff_def)
  ultimately show ?thesis by metis
qed

definition demo_dictionary :: "byte \<Rightarrow> dictionary" where
  "demo_dictionary n index sub =
     (if n = 5 then map_of [((0x1800, 1), [0x81, 1, 0, 0]), ((0x1A00, 0), [1]), ((0x1A00, 1), [32, 1, 0, 0x21])] (index, sub)
      else map_of [((0x1400, 1), [0x81, 1, 0, 0]), ((0x1600, 0), [1]), ((0x1600, 1), [32, 1, 0, 0x50]), ((0x3300, 1), [7])] (index, sub))"

definition demo_node :: "byte \<Rightarrow> CANopenClient" where
  "demo_node n = \<lparr>co_node = n, co_timeout = 100, co_sdoMap = None\<rparr>"

lemma demo_node_live: "n = 5 \<or> n = 6 \<Longrightarrow> list_all (\<lambda>l. l < 4) ls \<Longrightarrow> device_live (demo_node n) (demo_dictionary n) ls"
  by (auto simp: device_live_def demo_node_def demo_dictionary_def sdoReadAttempts_def validateNodeID_def split: if_splits)

lemma demo_configured: "signal_configured demo_registry demo_dictionary demo_signal"
proof -
  have ids: "node_id demo_registry ''rmm'' = 5" "node_id demo_registry ''tec'' = 6"
    by (simp_all add: node_id_def NodeByRole_def demo_registry_def)
  have "pdo_configured (demo_dictionary 5) 0x1800 0x1A00 1 0x181 [\<lparr>me_Index = 0x2100, me_SubIndex = 1, me_Bits = 32, me_Comment = []\<rparr>]"
    by code_simp
  moreover have "pdo_configured (demo_dictionary 6) 0x1400 0x1600 1 0x181 [\<lparr>me_Index = 0x5000, me_SubIndex = 1, me_Bits = 32, me_Comment = []\<rparr>]"
    by code_simp
  moreover have "map_option leUint32 (demo_dictionary 6 0x3300 1) = Some 7" by code_simp
  ultimately show ?thesis
    by (simp add: signal_configured_def consumer_configured_def demo_signal_def ids tpdoCommBase_def tpdoMapBase_def rpdoCommBase_def rpdoMapBase_def)
qed

theorem bench_report_exact_witness:
  "map (\<lambda>st. (ss_Signal st, ss_Verdict st = VerdictMatch))
     (Diff demo_registry (observe_bench demo_node demo_dictionary (\<lambda>_. [3, 0, 1]) (\<lambda>_. concat (map cn_SourceSelects (sg_Consumers demo_signal))) {5, 6})) =
   [(''temp'', True)]"
proof -
  have n: "rg_Nodes demo_registry = [\<lparr>nd_Role = ''rmm'', nd_NodeID = 5, nd_Family = [], nd_Label = ''left''\<rparr>,
      \<lparr>nd_Role = ''tec'', nd_NodeID = 6, nd_Family = [], nd_Label = []\<rparr>]" and sg: "rg_Signals demo_registry = [demo_signal]"
    by (simp_all add: demo_registry_def)
  let ?ws = "\<lambda>_. concat (map cn_SourceSelects (sg_Consumers demo_signal))"
  have v: "Registry_Validate demo_registry = []" using demo_registry_ok by (simp add: Registry_Validate_iff)
  have b: "list_all (\<lambda>n. nd_NodeID n \<noteq> 0) (rg_Nodes demo_registry)" by (simp add: n)
  have l: "list_all (\<lambda>n. device_live (demo_node (nd_NodeID n)) (demo_dictionary (nd_NodeID n)) [3, 0, 1]) (rg_Nodes demo_registry)"
    by (simp add: n demo_node_live)
  have w: "list_all (\<lambda>sig. list_all (\<lambda>c. list_all (\<lambda>w. w \<in> set (?ws (node_id demo_registry (cn_Role c)))) (cn_SourceSelects c)) (sg_Consumers sig))
      (rg_Signals demo_registry)"
    by (auto simp: sg list_all_iff)
  have ids: "set (map nd_NodeID (rg_Nodes demo_registry)) = {5, 6}" by (simp add: n)
  have sigs: "map (\<lambda>sig. (sg_Name sig, signal_configured demo_registry demo_dictionary sig)) (rg_Signals demo_registry) = [(''temp'', True)]"
    unfolding sg using demo_configured by (simp add: demo_signal_def)
  have single: "xs = [a]" if "mset xs = mset [a]" for xs and a :: "string \<times> bool" using that by (cases xs) auto
  show ?thesis using bench_report_exact [OF v b l w] unfolding ids sigs by (intro single) blast
qed

section \<open>A missed answer\<close>

lemma entries_no_comm: "CommFailed i e \<notin> set (snd (fst (read_entries rd index n k s)))"
  by (induction rd index n k s rule: read_entries.induct) (auto split: sum.splits prod.splits)

lemma pdo_no_comm: "CommFailed j e \<notin> set (snd (fst (read_pdo rd commIndex mapIndex i raw s)))"
  using entries_no_comm [of j e rd mapIndex]
  by (auto simp: read_pdo_def read_mapping_def Let_def split: sum.splits prod.splits list.splits) (metis fst_conv snd_conv)+

lemma read_pdo_number: "op_Number (fst (fst (read_pdo rd commIndex mapIndex i raw s))) = i + 1"
  by (auto simp: read_pdo_def Let_def split: prod.splits)

lemma scan_numbers: "scan_pdos rd commBase mapBase n i s = ((out, errs, err), s') \<Longrightarrow> p \<in> set out \<Longrightarrow> i < op_Number p"
proof (induction n arbitrary: i s out errs err s')
  case (Suc n)
  obtain r s1 where r: "readSDO rd (commBase + word_of_nat i) 1 s = (r, s1)" by fastforce
  show ?case
  proof (cases r)
    case (Inl e)
    obtain c s2 where c: "sr_ctx rd s1 = (c, s2)" by fastforce
    obtain out' errs' err' s3 where rec: "scan_pdos rd commBase mapBase n (i + 1) s2 = ((out', errs', err'), s3)" by (metis prod.exhaust)
    show ?thesis
      using Suc.prems r Inl c rec Suc.IH [OF rec] by (auto simp: Let_def split: option.splits if_splits)
  next
    case (Inr raw)
    obtain pdo es s2 where p: "read_pdo rd (commBase + word_of_nat i) (mapBase + word_of_nat i) i raw s1 = ((pdo, es), s2)"
      by (metis prod.exhaust)
    obtain out' errs' err' s3 where rec: "scan_pdos rd commBase mapBase n (i + 1) s2 = ((out', errs', err'), s3)" by (metis prod.exhaust)
    have "op_Number pdo = i + 1" using read_pdo_number [of rd _ _ i raw s1] p by (metis fst_conv)
    then show ?thesis using Suc.prems r Inr p rec Suc.IH [OF rec] by (auto simp: Let_def)
  qed
qed simp

lemma scan_missed:
  "scan_pdos rd commBase mapBase n i s = ((out, errs, err), s') \<Longrightarrow> CommFailed index e \<in> set errs \<Longrightarrow>
     \<exists>j. i \<le> j \<and> j < i + n \<and> index = commBase + word_of_nat j \<and> j + 1 \<notin> op_Number ` set out \<and> \<not> isAbsentAbort e"
proof (induction n arbitrary: i s out errs err s')
  case (Suc n)
  obtain r s1 where r: "readSDO rd (commBase + word_of_nat i) 1 s = (r, s1)" by fastforce
  show ?case
  proof (cases r)
    case (Inl e')
    obtain c s2 where c: "sr_ctx rd s1 = (c, s2)" by fastforce
    obtain out' errs' err' s3 where rec: "scan_pdos rd commBase mapBase n (i + 1) s2 = ((out', errs', err'), s3)" by (metis prod.exhaust)
    from Suc.prems r Inl c rec have now: "\<not> isAbsentAbort e'" "out = out'" "errs = CommFailed (commBase + word_of_nat i) e' # errs'"
      by (auto simp: Let_def split: option.splits if_splits)
    from now(3) Suc.prems(2) consider "index = commBase + word_of_nat i" "e = e'" | "CommFailed index e \<in> set errs'" by auto
    then show ?thesis
    proof cases
      case 1
      have "i + 1 \<notin> op_Number ` set out'" using scan_numbers [OF rec] by (metis imageE less_irrefl)
      then show ?thesis using 1 now by (intro exI [of _ i]) simp
    next
      case 2
      from Suc.IH [OF rec 2] show ?thesis using now(2) by (metis Suc_eq_plus1 add_Suc_shift Suc_leD)
    qed
  next
    case (Inr raw)
    obtain pdo es s2 where p: "read_pdo rd (commBase + word_of_nat i) (mapBase + word_of_nat i) i raw s1 = ((pdo, es), s2)"
      by (metis prod.exhaust)
    obtain out' errs' err' s3 where rec: "scan_pdos rd commBase mapBase n (i + 1) s2 = ((out', errs', err'), s3)" by (metis prod.exhaust)
    have num: "op_Number pdo = i + 1" using read_pdo_number [of rd _ _ i raw s1] p by (metis fst_conv)
    have now: "out = pdo # out'" "errs = es @ errs'" using Suc.prems(1) r Inr p rec by (simp_all add: Let_def)
    have "CommFailed index e \<notin> set es" using pdo_no_comm [of index e rd _ _ i raw s1] p by (metis fst_conv snd_conv)
    then have "CommFailed index e \<in> set errs'" using Suc.prems(2) now(2) by simp
    from Suc.IH [OF rec this] obtain j where "i + 1 \<le> j" "j < i + 1 + n" "index = commBase + word_of_nat j" "j + 1 \<notin> op_Number ` set out'"
      "\<not> isAbsentAbort e" by blast
    then show ?thesis using now(1) num by (intro exI [of _ j]) simp
  qed
qed simp

lemma index_inj: "commBase + word_of_nat j = commBase + (word_of_nat k :: u16) \<Longrightarrow> j < 16 \<Longrightarrow> k < 16 \<Longrightarrow> j = k"
  by (simp add: word_of_nat_eq_iff take_bit_nat_eq_self)

text \<open>
  C40.  A missed answer is reported as a missing PDO.  When the communication record of a transmit PDO could not
  be read for another reason than its absence, the scan notes the failure and goes on; but it leaves the PDO
  out, and the comparison then calls it drift, \<open>PDO not present on device\<close>, not unknown.
\<close>

theorem missed_answer_is_drift:
  assumes "scanPDOs rd tpdoCommBase tpdoMapBase s = ((on_TPDOs obs, errs, None), s')"
    and "CommFailed (tpdoCommBase + word_of_nat (k - 1)) e \<in> set errs" and "1 \<le> k" and "k \<le> 16"
    and "NodeByRole r (pr_Role (sg_Producer sig)) = Some node" and "nd_NodeID node \<noteq> 0" and "observed (nd_NodeID node) = Some obs"
    and "pr_TPDO (sg_Producer sig) = int k"
  shows "diffProducer r sig observed = [drift (sg_Name sig) (pr_Role (sg_Producer sig)) (nd_NodeID node) ''tpdo''
      (''TPDO'' @ fmtD (int k) @ '' configured'') ''PDO not present on device''] \<and>
    ss_Verdict (signal_status r observed sig) = VerdictDrift \<and> \<not> isAbsentAbort e"
proof -
  from scan_missed [OF assms(1) [unfolded scanPDOs_def] assms(2)]
  obtain j where j: "j < 16" "tpdoCommBase + word_of_nat (k - 1) = tpdoCommBase + word_of_nat j" "j + 1 \<notin> op_Number ` set (on_TPDOs obs)"
    and e: "\<not> isAbsentAbort e"
    by (auto simp: maxScanPDOs_def)
  have "j = k - 1" using index_inj [OF j(2) [symmetric] j(1)] assms(3,4) by simp
  then have "k \<notin> op_Number ` set (on_TPDOs obs)" using j(3) assms(3) by simp
  then have "pickPDO (on_TPDOs obs) (int k) = None" by (auto simp: pickPDO_def find_None_iff)
  then have d: "diffProducer r sig observed = [drift (sg_Name sig) (pr_Role (sg_Producer sig)) (nd_NodeID node) ''tpdo''
      (''TPDO'' @ fmtD (int k) @ '' configured'') ''PDO not present on device'']"
    using assms(5-8) by (simp add: diffProducer_def resolve_def Let_def)
  then have "ss_Verdict (signal_status r observed sig) = VerdictDrift"
    by (simp add: signal_status_def Let_def drift_def)
  with d e show ?thesis by blast
qed

definition demo_observed :: ObservedNode where
  "demo_observed = \<lparr>on_NodeID = 5, on_RPDOs = [], on_TPDOs = [], on_SourceSelects = Map.empty, on_Errors = [CommFailed 0x1800 ErrTimeout]\<rparr>"

text \<open>The first answer is lost four times; the device has the PDO.\<close>

lemma demo_scan:
  "scanPDOs (device_reader (demo_node 5) (demo_dictionary 5)) tpdoCommBase tpdoMapBase [4] = (([], [CommFailed 0x1800 ErrTimeout], None), [])"
proof -
  let ?rd = "device_reader (demo_node 5) (demo_dictionary 5)"
  have live: "device_live (demo_node 5) (demo_dictionary 5) []" by (simp add: demo_node_live)
  note lost = device_read_lost [OF live]
  have 1: "readSDO ?rd 0x1800 1 [4] = (Inl ErrTimeout, [0])"
    by (simp add: readSDO_def sdoReadAttempts_def eval_nat_numeral device_reader_def lost not_absent_timeout)
  have 2: "readSDO ?rd 0x1801 1 [0] = (Inl (Can (SDOAbort 0x1801 1 sdoAbortObjectAbsent)), [])"
    using device_readSDO [OF demo_node_live [of 5 "[0]"], of "0x1801" 1] by (simp add: demo_dictionary_def)
  have ctx: "sr_ctx ?rd = (\<lambda>s. (None, s))" by (simp add: device_reader_def)
  have n: "maxScanPDOs = Suc (Suc 14)" by (simp add: maxScanPDOs_def)
  show ?thesis
    unfolding scanPDOs_def n scan_pdos.simps Let_def
    by (simp add: tpdoCommBase_def 1 2 ctx not_absent_timeout) (simp add: isAbsentAbort_def)
qed

theorem missed_answer_is_drift_witness:
  "ss_Verdict (signal_status demo_registry [5 \<mapsto> demo_observed] demo_signal) = VerdictDrift \<and>
   demo_dictionary 5 0x1800 1 = Some [0x81, 1, 0, 0]"
proof -
  have "scanPDOs (device_reader (demo_node 5) (demo_dictionary 5)) tpdoCommBase tpdoMapBase [4] =
      ((on_TPDOs demo_observed, [CommFailed 0x1800 ErrTimeout], None), [])"
    using demo_scan by (simp add: demo_observed_def)
  from missed_answer_is_drift [OF this, of 1 ErrTimeout demo_registry demo_signal "rg_Nodes demo_registry ! 0" "[5 \<mapsto> demo_observed]"]
  show ?thesis by (simp add: tpdoCommBase_def demo_registry_def demo_signal_def NodeByRole_def demo_dictionary_def)
qed

end
